(* ===== verification/Prelude.thy ===== *)
theory Prelude
  imports Main
begin

text \<open>
  The prelude of the development: the exceptions of the program as one datatype, results
  as sums, and the generic lemmas on results and lists that the components share.

  Every exception class that the modelled modules raise is one constructor of
  \<open>exn\<close> (the rarer ones of the project's own are \<open>ProjectError\<close> with the name of the class;
  \<open>OutOfFuel\<close> is the model's mark of a loop that has not ended); the text of a message is not modelled, only its class (two
  \<open>ValueError\<close>s are told apart by a short tag). A function that may raise
  returns \<open>exn + 'a\<close>, with \<open>Inl\<close> for the raise.
\<close>

datatype exn =
    ValueError string
  | InvalidTransitionError
  | UnsupportedCommissionError
  | InconsistentExecutionReportError
  | InvalidOperation
  | DivisionByZero
  | ZeroDivisionError
  | IndexError
  | KeyError
  | AssertionError
  | EmptyDataError
  | DuplicateCandleError
  | OutOfOrderCandleError
  | GapDetectedError
  | StaleDataError
  | InsufficientDataError
  | ResearchCutoffViolation
  | ColdStartReconciliationError
  | ClockDriftError
  | RequestException
  | BinanceApiError "int option"
  | InjectedTestFault
  | IntegrityError
  | KeyboardInterrupt
  | OutOfFuel
  | ProjectError string

type_synonym 'a result = "exn + 'a"

subsection \<open>Sequencing of computations that may raise\<close>

definition bindr :: "'a result \<Rightarrow> ('a \<Rightarrow> 'b result) \<Rightarrow> 'b result" where
  "bindr m f = (case m of Inl e \<Rightarrow> Inl e | Inr x \<Rightarrow> f x)"

definition is_ok :: "'a result \<Rightarrow> bool" where
  "is_ok m = (case m of Inl _ \<Rightarrow> False | Inr _ \<Rightarrow> True)"

lemma bindr_simps [simp]:
  "bindr (Inl e) f = Inl e"
  "bindr (Inr x) f = f x"
  by (simp_all add: bindr_def)

lemma bindr_eq_Inr [simp]: "bindr m f = Inr y \<longleftrightarrow> (\<exists>x. m = Inr x \<and> f x = Inr y)"
  by (cases m) simp_all

lemma bindr_eq_Inl: "bindr m f = Inl e \<longleftrightarrow> m = Inl e \<or> (\<exists>x. m = Inr x \<and> f x = Inl e)"
  by (cases m) simp_all

lemma bindr_split: "P (bindr m f) \<longleftrightarrow> (\<forall>e. m = Inl e \<longrightarrow> P (Inl e)) \<and> (\<forall>x. m = Inr x \<longrightarrow> P (f x))"
  by (cases m) simp_all

lemma is_ok_simps [simp]:
  "\<not> is_ok (Inl e)"
  "is_ok (Inr x)"
  by (simp_all add: is_ok_def)

lemma is_ok_iff: "is_ok m \<longleftrightarrow> (\<exists>x. m = Inr x)"
  by (cases m) simp_all

text \<open>A loop over a list whose body may raise: the first raise ends it.\<close>

fun foldr_res :: "('s \<Rightarrow> 'a \<Rightarrow> 's result) \<Rightarrow> 's \<Rightarrow> 'a list \<Rightarrow> 's result" where
  "foldr_res f s [] = Inr s"
| "foldr_res f s (x # xs) = bindr (f s x) (\<lambda>s'. foldr_res f s' xs)"

lemma foldr_res_append:
  "foldr_res f s (xs @ ys) = bindr (foldr_res f s xs) (\<lambda>s'. foldr_res f s' ys)"
  by (induction xs arbitrary: s) (auto split: bindr_split simp: bindr_def split: sum.splits)

text \<open>\<open>[f x for x in xs]\<close> where \<open>f\<close> may raise.\<close>

fun map_res :: "('a \<Rightarrow> 'b result) \<Rightarrow> 'a list \<Rightarrow> 'b list result" where
  "map_res f [] = Inr []"
| "map_res f (x # xs) = bindr (f x) (\<lambda>y. bindr (map_res f xs) (\<lambda>ys. Inr (y # ys)))"

lemma map_res_length: "map_res f xs = Inr ys \<Longrightarrow> length ys = length xs"
  by (induction xs arbitrary: ys) auto

lemma map_res_nth: "map_res f xs = Inr ys \<Longrightarrow> i < length xs \<Longrightarrow> f (xs ! i) = Inr (ys ! i)"
  by (induction xs arbitrary: ys i) (auto simp: nth_Cons split: nat.split)

lemma map_res_set: "map_res f xs = Inr ys \<Longrightarrow> y \<in> set ys \<Longrightarrow> \<exists>x \<in> set xs. f x = Inr y"
  by (induction xs arbitrary: ys) auto

text \<open>An invariant of the body is an invariant of the loop.\<close>

lemma foldr_res_invariant:
  assumes "foldr_res f s xs = Inr t" "I s"
    and "\<And>s x s'. x \<in> set xs \<Longrightarrow> I s \<Longrightarrow> f s x = Inr s' \<Longrightarrow> I s'"
  shows "I t"
  using assms
proof (induction xs arbitrary: s)
  case Nil
  then show ?case by simp
next
  case (Cons x xs)
  from Cons.prems(1) obtain u where u: "f s x = Inr u" "foldr_res f u xs = Inr t"
    by auto
  have "I u" using Cons.prems(2) u(1) by (rule Cons.prems(3) [of x s u, rotated 1]) simp
  then show ?case using Cons.IH [OF u(2)] Cons.prems(3) by (meson list.set_intros(2))
qed

subsection \<open>Option and list helpers\<close>

text \<open>A missing value is an exception.\<close>

definition of_option :: "exn \<Rightarrow> 'a option \<Rightarrow> 'a result" where
  "of_option e m = (case m of None \<Rightarrow> Inl e | Some x \<Rightarrow> Inr x)"

lemma of_option_simps [simp]:
  "of_option e None = Inl e"
  "of_option e (Some x) = Inr x"
  by (simp_all add: of_option_def)

lemma of_option_eq_Inr [simp]: "of_option e m = Inr x \<longleftrightarrow> m = Some x"
  by (cases m) simp_all

text \<open>Python's \<open>endswith\<close>.\<close>

definition ends_with :: "string \<Rightarrow> string \<Rightarrow> bool" where
  "ends_with s suffix = (length suffix \<le> length s \<and> drop (length s - length suffix) s = suffix)"

lemma ends_with_iff: "ends_with s suffix \<longleftrightarrow> (\<exists>p. s = p @ suffix)"
proof
  assume "ends_with s suffix"
  then show "\<exists>p. s = p @ suffix"
    unfolding ends_with_def by (metis append_take_drop_id)
qed (auto simp: ends_with_def)

text \<open>The sequence \<open>range(lo, hi)\<close> over integers, and Python's list indexing.\<close>

definition nth_res :: "'a list \<Rightarrow> int \<Rightarrow> 'a result" where
  "nth_res xs i =
     (let j = (if i < 0 then int (length xs) + i else i)
      in if 0 \<le> j \<and> j < int (length xs) then Inr (xs ! nat j) else Inl IndexError)"

lemma nth_res_last: "xs \<noteq> [] \<Longrightarrow> nth_res xs (-1) = Inr (last xs)"
proof -
  assume ne: "xs \<noteq> []"
  then have "nat (int (length xs) - 1) = length xs - 1" by (simp add: nat_diff_distrib')
  with ne show ?thesis by (simp add: nth_res_def Let_def last_conv_nth)
qed

lemma nth_res_nat [simp]: "i < length xs \<Longrightarrow> nth_res xs (int i) = Inr (xs ! i)"
  by (simp add: nth_res_def Let_def)

text \<open>A sum of a list after an append, in any commutative monoid.\<close>

lemma sum_list_snoc: "sum_list (xs @ [x]) = sum_list xs + (x :: 'a :: comm_monoid_add)"
  by simp


subsection \<open>State and exceptions together\<close>

text \<open>
  A step of a stateful component: it returns a value or raises, and in both cases leaves a
  state behind (a raise does not undo what was written before it; only a transaction does).
\<close>

type_synonym ('s, 'a) step = "'s \<Rightarrow> 'a result \<times> 's"

definition sreturn :: "'a \<Rightarrow> ('s, 'a) step" where
  "sreturn x = (\<lambda>s. (Inr x, s))"

definition sraise :: "exn \<Rightarrow> ('s, 'a) step" where
  "sraise e = (\<lambda>s. (Inl e, s))"

definition slift :: "'a result \<Rightarrow> ('s, 'a) step" where
  "slift m = (\<lambda>s. (m, s))"

definition sget :: "('s \<Rightarrow> 'a) \<Rightarrow> ('s, 'a) step" where
  "sget f = (\<lambda>s. (Inr (f s), s))"

definition smodify :: "('s \<Rightarrow> 's) \<Rightarrow> ('s, unit) step" where
  "smodify f = (\<lambda>s. (Inr (), f s))"

definition sbind :: "('s, 'a) step \<Rightarrow> ('a \<Rightarrow> ('s, 'b) step) \<Rightarrow> ('s, 'b) step" where
  "sbind m f = (\<lambda>s. case m s of (Inl e, t) \<Rightarrow> (Inl e, t) | (Inr x, t) \<Rightarrow> f x t)"

lemma step_simps [simp]:
  "sreturn x s = (Inr x, s)"
  "sraise e s = (Inl e, s)"
  "slift m s = (m, s)"
  "sget g s = (Inr (g s), s)"
  "smodify h s = (Inr (), h s)"
  by (simp_all add: sreturn_def sraise_def slift_def sget_def smodify_def)

lemma sbind_Inr [simp]: "m s = (Inr x, t) \<Longrightarrow> sbind m f s = f x t"
  by (simp add: sbind_def)

lemma sbind_Inl [simp]: "m s = (Inl e, t) \<Longrightarrow> sbind m f s = (Inl e, t)"
  by (simp add: sbind_def)

lemma sbind_eq_Inr:
  "sbind m f s = (Inr y, u) \<longleftrightarrow> (\<exists>x t. m s = (Inr x, t) \<and> f x t = (Inr y, u))"
  by (auto simp: sbind_def split: prod.splits sum.splits)

lemma sbind_cases:
  assumes "sbind m f s = (r, u)"
  obtains e where "m s = (Inl e, u)" "r = Inl e"
  | x t where "m s = (Inr x, t)" "f x t = (r, u)"
  using assms by (auto simp: sbind_def split: prod.splits sum.splits)

text \<open>A transaction: a raise restores the state before it.\<close>

definition atomically :: "('s, 'a) step \<Rightarrow> ('s, 'a) step" where
  "atomically m = (\<lambda>s. case m s of (Inl e, _) \<Rightarrow> (Inl e, s) | (Inr x, t) \<Rightarrow> (Inr x, t))"

lemma atomically_Inl: "atomically m s = (Inl e, t) \<Longrightarrow> t = s"
  by (auto simp: atomically_def split: prod.splits sum.splits)

lemma atomically_Inr: "atomically m s = (Inr x, t) \<longleftrightarrow> m s = (Inr x, t)"
  by (auto simp: atomically_def split: prod.splits sum.splits)

text \<open>\<open>try ... except\<close>: the handler runs on the state the raise left.\<close>

definition scatch :: "('s, 'a) step \<Rightarrow> (exn \<Rightarrow> ('s, 'a) step) \<Rightarrow> ('s, 'a) step" where
  "scatch m h = (\<lambda>s. case m s of (Inl e, t) \<Rightarrow> h e t | (Inr x, t) \<Rightarrow> (Inr x, t))"

lemma scatch_Inr [simp]: "m s = (Inr x, t) \<Longrightarrow> scatch m h s = (Inr x, t)"
  by (simp add: scatch_def)

lemma scatch_Inl [simp]: "m s = (Inl e, t) \<Longrightarrow> scatch m h s = h e t"
  by (simp add: scatch_def)

text \<open>The outcome of a step as a value: what a call that is allowed to fail answered.\<close>

definition sanswer :: "('s, 'a) step \<Rightarrow> ('s, 'a result) step" where
  "sanswer m = (\<lambda>s. case m s of (r, t) \<Rightarrow> (Inr r, t))"

text \<open>A step of a part of the state, lifted to the whole.\<close>

definition szoom :: "('s \<Rightarrow> 'p) \<Rightarrow> ('p \<Rightarrow> 's \<Rightarrow> 's) \<Rightarrow> ('p, 'a) step \<Rightarrow> ('s, 'a) step" where
  "szoom get put m = (\<lambda>s. case m (get s) of (r, p) \<Rightarrow> (r, put p s))"

subsection \<open>Triples\<close>

text \<open>
  \<open>triple P m Q E\<close>: from a state with \<open>P\<close>, the step ends in \<open>Q\<close> (of its value) or, when it
  raises, in \<open>E\<close>. \<open>preserves I m\<close>: the step keeps \<open>I\<close>, whether it returns or raises.
\<close>

definition triple :: "('s \<Rightarrow> bool) \<Rightarrow> ('s, 'a) step \<Rightarrow> ('a \<Rightarrow> 's \<Rightarrow> bool) \<Rightarrow> ('s \<Rightarrow> bool) \<Rightarrow> bool" where
  "triple P m Q E \<longleftrightarrow> (\<forall>s. P s \<longrightarrow> (case m s of (Inl _, t) \<Rightarrow> E t | (Inr x, t) \<Rightarrow> Q x t))"

definition preserves :: "('s \<Rightarrow> bool) \<Rightarrow> ('s, 'a) step \<Rightarrow> bool" where
  "preserves I m \<longleftrightarrow> triple I m (\<lambda>_. I) I"

named_theorems stepI "introduction rules for steps that keep a predicate"

lemma tripleI:
  assumes "\<And>s x t. P s \<Longrightarrow> m s = (Inr x, t) \<Longrightarrow> Q x t" "\<And>s e t. P s \<Longrightarrow> m s = (Inl e, t) \<Longrightarrow> E t"
  shows "triple P m Q E"
  using assms by (auto simp: triple_def split: prod.splits sum.splits)

lemma triple_Inr: "triple P m Q E \<Longrightarrow> P s \<Longrightarrow> m s = (Inr x, t) \<Longrightarrow> Q x t"
  by (auto simp: triple_def)

lemma triple_Inl: "triple P m Q E \<Longrightarrow> P s \<Longrightarrow> m s = (Inl e, t) \<Longrightarrow> E t"
  by (auto simp: triple_def)

lemma triple_bind:
  assumes "triple P m R E" "\<And>x. triple (R x) (f x) Q E"
  shows "triple P (sbind m f) Q E"
  by (rule tripleI; erule sbind_cases) (auto dest: triple_Inr [OF assms(1)] triple_Inl [OF assms(1)]
      triple_Inr [OF assms(2)] triple_Inl [OF assms(2)])

lemma triple_catch:
  assumes "triple P m Q R" "\<And>e. triple R (h e) Q E"
  shows "triple P (scatch m h) Q E"
proof (rule tripleI)
  fix s x t assume P: "P s" and r: "scatch m h s = (Inr x, t)"
  show "Q x t"
  proof (cases "m s")
    case (Pair y u)
    then show ?thesis using r triple_Inr [OF assms(1) P] triple_Inl [OF assms(1) P]
        triple_Inr [OF assms(2)] by (cases y) auto
  qed
next
  fix s e t assume P: "P s" and r: "scatch m h s = (Inl e, t)"
  show "E t"
  proof (cases "m s")
    case (Pair y u)
    then show ?thesis using r triple_Inl [OF assms(1) P] triple_Inl [OF assms(2)] by (cases y) auto
  qed
qed

lemma triple_weaken:
  assumes "triple P m Q E" "\<And>s. P' s \<Longrightarrow> P s" "\<And>x s. Q x s \<Longrightarrow> Q' x s" "\<And>s. E s \<Longrightarrow> E' s"
  shows "triple P' m Q' E'"
proof (rule tripleI)
  show "Q' x t" if "P' s" "m s = (Inr x, t)" for s x t
    using that triple_Inr [OF assms(1)] assms(2,3) by blast
  show "E' t" if "P' s" "m s = (Inl e, t)" for s e t
    using that triple_Inl [OF assms(1)] assms(2,4) by blast
qed

lemma preserves_triple: "preserves I m \<Longrightarrow> triple I m (\<lambda>_. I) I"
  by (simp add: preserves_def)

lemma preservesD: "preserves I m \<Longrightarrow> I s \<Longrightarrow> m s = (r, t) \<Longrightarrow> I t"
  by (cases r) (auto simp: preserves_def dest: triple_Inr triple_Inl)

lemma preservesI: "(\<And>s r t. I s \<Longrightarrow> m s = (r, t) \<Longrightarrow> I t) \<Longrightarrow> preserves I m"
  by (auto simp: preserves_def intro: tripleI)

lemma preserves_basic [stepI]:
  "preserves I (sreturn x)" "preserves I (sraise e)" "preserves I (slift r)" "preserves I (sget g)"
  by (auto intro: preservesI)

lemma preserves_modify: "(\<And>s. I s \<Longrightarrow> I (h s)) \<Longrightarrow> preserves I (smodify h)"
  by (auto intro: preservesI)

lemma preserves_bind [stepI]: "preserves I m \<Longrightarrow> (\<And>x. preserves I (f x)) \<Longrightarrow> preserves I (sbind m f)"
  by (simp add: preserves_def triple_bind)

lemma preserves_catch [stepI]: "preserves I m \<Longrightarrow> (\<And>e. preserves I (h e)) \<Longrightarrow> preserves I (scatch m h)"
  by (simp add: preserves_def triple_catch)

lemma preserves_atomically: "preserves I m \<Longrightarrow> preserves I (atomically m)"
  by (rule preservesI) (auto simp: atomically_def split: prod.splits sum.splits dest: preservesD)

lemma preserves_answer [stepI]: "preserves I m \<Longrightarrow> preserves I (sanswer m)"
  by (rule preservesI) (auto simp: sanswer_def split: prod.splits dest: preservesD)

lemma preserves_zoom:
  assumes "\<And>s r p. I s \<Longrightarrow> m (get s) = (r, p) \<Longrightarrow> I (put p s)"
  shows "preserves I (szoom get put m)"
  by (rule preservesI) (auto simp: szoom_def split: prod.splits intro: assms)

lemma preserves_if [stepI]:
  "(b \<Longrightarrow> preserves I m) \<Longrightarrow> (\<not> b \<Longrightarrow> preserves I n) \<Longrightarrow> preserves I (if b then m else n)"
  by simp

lemma preserves_option [stepI]:
  "(v = None \<Longrightarrow> preserves I m) \<Longrightarrow> (\<And>x. v = Some x \<Longrightarrow> preserves I (f x)) \<Longrightarrow>
   preserves I (case v of None \<Rightarrow> m | Some x \<Rightarrow> f x)"
  by (cases v) simp_all

lemma preserves_sum [stepI]:
  "(\<And>x. v = Inl x \<Longrightarrow> preserves I (f x)) \<Longrightarrow> (\<And>y. v = Inr y \<Longrightarrow> preserves I (g y)) \<Longrightarrow>
   preserves I (case v of Inl x \<Rightarrow> f x | Inr y \<Rightarrow> g y)"
  by (cases v) simp_all

lemma preserves_prod [stepI]:
  "(\<And>x y. v = (x, y) \<Longrightarrow> preserves I (f x y)) \<Longrightarrow> preserves I (case v of (x, y) \<Rightarrow> f x y)"
  by (cases v) simp

lemma preserves_exn [stepI]:
  assumes "preserves I a" "\<And>c. preserves I (b c)" "preserves I d"
  shows "preserves I (case e of RequestException \<Rightarrow> a | BinanceApiError c \<Rightarrow> b c | _ \<Rightarrow> d)"
  using assms by (cases e) simp_all

text \<open>
  \<open>reaches I Q m\<close>: the steps of \<open>m\<close> keep \<open>I\<close> up to some point from which only \<open>Q\<close>, which
  \<open>I\<close> implies, is known.
\<close>

definition reaches :: "('s \<Rightarrow> bool) \<Rightarrow> ('s \<Rightarrow> bool) \<Rightarrow> ('s, 'a) step \<Rightarrow> bool" where
  "reaches I Q m \<longleftrightarrow> (\<forall>s. I s \<longrightarrow> Q s) \<and> triple I m (\<lambda>_. Q) Q"

text \<open>\<open>possible I m x\<close>: from some state with \<open>I\<close>, the step can return \<open>x\<close>.\<close>

definition possible :: "('s \<Rightarrow> bool) \<Rightarrow> ('s, 'a) step \<Rightarrow> 'a \<Rightarrow> bool" where
  "possible I m x \<longleftrightarrow> (\<exists>s t. I s \<and> m s = (Inr x, t))"

lemma possibleD:
  "possible I (slift r) x \<Longrightarrow> r = Inr x"
  "possible I (sreturn y) x \<Longrightarrow> x = y"
  by (auto simp: possible_def)

lemma possible_get: "possible I (sget g) x \<longleftrightarrow> (\<exists>s. I s \<and> x = g s)"
  by (auto simp: possible_def)

named_theorems reachI "introduction rules for steps that reach a predicate"

lemma reaches_done: "preserves I m \<Longrightarrow> (\<And>s. I s \<Longrightarrow> Q s) \<Longrightarrow> reaches I Q m"
  unfolding reaches_def preserves_def by (auto elim: triple_weaken)

lemma reachesD: "reaches I Q m \<Longrightarrow> I s \<Longrightarrow> m s = (r, t) \<Longrightarrow> Q t"
  by (cases r) (auto simp: reaches_def dest: triple_Inr triple_Inl)

lemma reachesI:
  "(\<And>s r t. I s \<Longrightarrow> m s = (r, t) \<Longrightarrow> Q t) \<Longrightarrow> (\<And>s. I s \<Longrightarrow> Q s) \<Longrightarrow> reaches I Q m"
  unfolding reaches_def by (auto intro: tripleI)

lemma reaches_bind:
  assumes "preserves I m" "\<And>x. possible I m x \<Longrightarrow> reaches I Q (f x)" "\<And>s. I s \<Longrightarrow> Q s"
  shows "reaches I Q (sbind m f)"
proof (rule reachesI)
  fix s r t assume I: "I s" and r: "sbind m f s = (r, t)"
  from r show "Q t"
  proof (cases rule: sbind_cases)
    case (1 e)
    then show ?thesis using preservesD [OF assms(1) I] assms(3) by blast
  next
    case (2 x u)
    then have "possible I m x" using I by (auto simp: possible_def)
    with 2 show ?thesis using preservesD [OF assms(1) I] reachesD [OF assms(2)] by blast
  qed
qed (rule assms(3))

text \<open>A value read from the state stays a fact about the state.\<close>

lemma reaches_get:
  assumes "\<And>x. reaches (\<lambda>s. I s \<and> g s = x) Q (f x)"
  shows "reaches I Q (sbind (sget g) f)"
proof (rule reachesI)
  show "Q t" if "I s" "sbind (sget g) f s = (r, t)" for s r t
    using that reachesD [OF assms, of s "g s" r t] by (simp add: sbind_def)
  show "Q s" if "I s" for s
    using that assms [of "g s"] by (auto simp: reaches_def)
qed

lemma reaches_pre: "reaches I Q m \<Longrightarrow> (\<And>s. J s \<Longrightarrow> I s) \<Longrightarrow> reaches J Q m"
  unfolding reaches_def by (auto elim: triple_weaken)

lemma reaches_catch_sum:
  assumes "preserves I m" "\<And>e. preserves I (h e)" "\<And>x. possible I m x \<Longrightarrow> reaches I Q (g x)"
    and "\<And>y. preserves I (k y)" "\<And>s. I s \<Longrightarrow> Q s"
  shows "reaches I Q (sbind (scatch (sbind m (\<lambda>x. sreturn (Inr x))) (\<lambda>e. sbind (h e) (\<lambda>y. sreturn (Inl y))))
    (\<lambda>v. case v of Inl y \<Rightarrow> k y | Inr x \<Rightarrow> g x))"
proof (rule reachesI)
  fix s r t assume I: "I s"
    and r: "sbind (scatch (sbind m (\<lambda>x. sreturn (Inr x))) (\<lambda>e. sbind (h e) (\<lambda>y. sreturn (Inl y))))
      (\<lambda>v. case v of Inl y \<Rightarrow> k y | Inr x \<Rightarrow> g x) s = (r, t)"
  obtain a u where m: "m s = (a, u)" by (cases "m s")
  have u: "I u" by (rule preservesD [OF assms(1) I m])
  show "Q t"
  proof (cases a)
    case (Inr x)
    then have "possible I m x" using I m by (auto simp: possible_def)
    then show ?thesis using r m Inr u reachesD [OF assms(3)] by (simp add: sbind_def scatch_def)
  next
    case (Inl e)
    obtain b w where h: "h e u = (b, w)" by (cases "h e u")
    have w: "I w" by (rule preservesD [OF assms(2) u h])
    show ?thesis
    proof (cases b)
      case (Inl e')
      then show ?thesis using r m h w assms(5) \<open>a = Inl e\<close> by (simp add: sbind_def scatch_def)
    next
      case (Inr y)
      then have "k y w = (r, t)" using r m h \<open>a = Inl e\<close> by (simp add: sbind_def scatch_def)
      then show ?thesis using preservesD [OF assms(4) w] assms(5) by blast
    qed
  qed
qed (rule assms(5))

lemma reaches_if:
  "(b \<Longrightarrow> reaches I Q m) \<Longrightarrow> (\<not> b \<Longrightarrow> reaches I Q n) \<Longrightarrow> reaches I Q (if b then m else n)"
  by simp

lemma reaches_option:
  "(v = None \<Longrightarrow> reaches I Q m) \<Longrightarrow> (\<And>x. v = Some x \<Longrightarrow> reaches I Q (f x)) \<Longrightarrow>
   reaches I Q (case v of None \<Rightarrow> m | Some x \<Rightarrow> f x)"
  by (cases v) simp_all

lemma reaches_sum:
  "(\<And>x. v = Inl x \<Longrightarrow> reaches I Q (f x)) \<Longrightarrow> (\<And>y. v = Inr y \<Longrightarrow> reaches I Q (g y)) \<Longrightarrow>
   reaches I Q (case v of Inl x \<Rightarrow> f x | Inr y \<Rightarrow> g y)"
  by (cases v) simp_all

lemma reaches_prod:
  "(\<And>x y. v = (x, y) \<Longrightarrow> reaches I Q (f x y)) \<Longrightarrow> reaches I Q (case v of (x, y) \<Rightarrow> f x y)"
  by (cases v) simp

lemmas reach_cases = reaches_if reaches_option reaches_sum reaches_prod

subsection \<open>Text of integers and dates\<close>

definition digit_char :: "int \<Rightarrow> char" where
  "digit_char d = ''0123456789'' ! nat d"

function pos_str :: "int \<Rightarrow> string" where
  "pos_str n = (if n < 10 then [digit_char n] else pos_str (n div 10) @ [digit_char (n mod 10)])"
  by pat_completeness auto
termination
  by (relation "measure nat") auto

declare pos_str.simps [simp del]

text \<open>\<open>str(n)\<close>.\<close>

definition int_str :: "int \<Rightarrow> string" where
  "int_str n = (if n < 0 then CHR ''-'' # pos_str (- n) else pos_str n)"

definition zero_pad :: "nat \<Rightarrow> string \<Rightarrow> string" where
  "zero_pad w s = replicate (w - length s) (CHR ''0'') @ s"

text \<open>
  The Gregorian date of a day number (days since 1970-01-01), and \<open>strftime('%Y-%m-%d')\<close>
  of a UTC time stamp in milliseconds.
\<close>

definition civil_from_days :: "int \<Rightarrow> int \<times> int \<times> int" where
  "civil_from_days days =
     (let z = days + 719468;
          era = z div 146097;
          doe = z mod 146097;
          yoe = (doe - doe div 1460 + doe div 36524 - doe div 146096) div 365;
          doy = doe - (365 * yoe + yoe div 4 - yoe div 100);
          mp = (5 * doy + 2) div 153;
          d = doy - (153 * mp + 2) div 5 + 1;
          m = (if mp < 10 then mp + 3 else mp - 9)
      in (yoe + era * 400 + (if m \<le> 2 then 1 else 0), m, d))"

definition MS_PER_DAY :: int where
  "MS_PER_DAY = 24 * 60 * 60 * 1000"

definition utc_day_key :: "int \<Rightarrow> string" where
  "utc_day_key timestamp_ms =
     (case civil_from_days (timestamp_ms div MS_PER_DAY) of (y, m, d) \<Rightarrow>
        zero_pad 4 (int_str y) @ ''-'' @ zero_pad 2 (int_str m) @ ''-'' @ zero_pad 2 (int_str d))"

lemma utc_day_key_same_day:
  "s div MS_PER_DAY = t div MS_PER_DAY \<Longrightarrow> utc_day_key s = utc_day_key t"
  by (simp add: utc_day_key_def)

end
