(* ===== verification/Rounding.thy ===== *)
theory Rounding
  imports Complex_Main Prelude
begin

text \<open>
  Rounding to a fixed number of significant digits, the arithmetic of Python's
  \<open>decimal\<close> context (28 decimal digits, half even) and of its floats (53 binary
  digits, half even). \<open>rnd b p x\<close> is the value of \<open>x\<close> rounded to \<open>p\<close> significant
  digits of base \<open>b\<close>, ties to the even digit; it is executable over rational numbers.
  The locale \<open>rounding\<close> states the laws the components rely on (zero, sign, order,
  representable values are fixed points, relative error); it is interpreted on
  \<open>rnd\<close> in the theory \<open>Numbers\<close>.

  The exponent range of the formats is not modelled: overflow, subnormal results,
  infinities and NaN do not arise (a Decimal exponent reaches 999999 and a float
  \<open>10^308\<close>, far from any price or balance).
\<close>

section \<open>The interface\<close>

locale rounding =
  fixes r :: "rat \<Rightarrow> rat" and eps :: rat
  assumes zero: "r 0 = 0"
    and odd: "r (- x) = - r x"
    and mono: "x \<le> y \<Longrightarrow> r x \<le> r y"
    and idem: "r (r x) = r x"
    and err: "\<bar>r x - x\<bar> \<le> eps * \<bar>x\<bar>"
    and eps_nonneg: "0 \<le> eps"
    and eps_lt_1: "eps < 1"
begin

lemma nonneg: "0 \<le> x \<Longrightarrow> 0 \<le> r x"
  using mono [of 0 x] by (simp add: zero)

lemma nonpos: "x \<le> 0 \<Longrightarrow> r x \<le> 0"
  using mono [of x 0] by (simp add: zero)

lemma pos: "0 < x \<Longrightarrow> 0 < r x"
proof -
  assume x: "0 < x"
  then have "x - r x \<le> eps * x" using err [of x] by (auto simp: abs_if split: if_splits)
  moreover have "eps * x < 1 * x" using eps_lt_1 x by (intro mult_strict_right_mono) auto
  ultimately show "0 < r x" by simp
qed

lemma neg: "x < 0 \<Longrightarrow> r x < 0"
  using pos [of "- x"] by (simp add: odd)

lemma eq_zero_iff: "r x = 0 \<longleftrightarrow> x = 0"
  using pos [of x] neg [of x] zero by (metis less_irrefl linorder_neqE_linordered_idom)

lemma pos_iff: "0 < r x \<longleftrightarrow> 0 < x"
  using pos nonpos by (meson not_le)

lemma nonneg_iff: "0 \<le> r x \<longleftrightarrow> 0 \<le> x"
  using neg nonneg by (meson not_le)

lemma neg_iff: "r x < 0 \<longleftrightarrow> x < 0"
  using nonneg_iff by (meson not_le)

lemma nonpos_iff: "r x \<le> 0 \<longleftrightarrow> x \<le> 0"
  using pos_iff by (meson not_le)

lemma le_representable: "r y = y \<Longrightarrow> x \<le> y \<Longrightarrow> r x \<le> y"
  using mono by fastforce

lemma ge_representable: "r y = y \<Longrightarrow> y \<le> x \<Longrightarrow> y \<le> r x"
  using mono by fastforce

lemma upper: "0 \<le> x \<Longrightarrow> r x \<le> (1 + eps) * x"
  using err [of x] by (simp add: abs_if algebra_simps split: if_splits)

lemma lower: "0 \<le> x \<Longrightarrow> (1 - eps) * x \<le> r x"
  using err [of x] by (simp add: abs_if algebra_simps split: if_splits)

end

section \<open>Half-even rounding to an integer\<close>

definition rhe :: "rat \<Rightarrow> int" where
  "rhe y = (let f = \<lfloor>y\<rfloor>; d = y - of_int f in
     if d < 1 / 2 then f else if 1 / 2 < d then f + 1 else if even f then f else f + 1)"

lemma rhe_of_int [simp]: "rhe (of_int n) = n"
  by (simp add: rhe_def)

text \<open>The two cases of the definition, with the remainder named.\<close>

lemma rhe_cases:
  obtains f d where "y = of_int f + d" "0 \<le> d" "d < 1"
    "rhe y = (if d < 1 / 2 then f else if 1 / 2 < d then f + 1 else if even f then f else f + 1)"
proof -
  have "0 \<le> y - of_int \<lfloor>y\<rfloor>" "y - of_int \<lfloor>y\<rfloor> < 1" by linarith+
  then show ?thesis
    by (intro that [of "\<lfloor>y\<rfloor>" "y - of_int \<lfloor>y\<rfloor>"]) (simp_all add: rhe_def Let_def)
qed

lemma rhe_err: "\<bar>y - of_int (rhe y)\<bar> \<le> 1 / 2"
  by (rule rhe_cases [of y]) (auto simp: abs_if)

lemma rhe_tie_even: "\<bar>y - of_int (rhe y)\<bar> = 1 / 2 \<Longrightarrow> even (rhe y)"
  by (rule rhe_cases [of y]) (auto simp: abs_if split: if_splits)

lemma rhe_unique:
  assumes "\<bar>y - of_int n\<bar> \<le> 1 / 2" "\<bar>y - of_int n\<bar> = 1 / 2 \<Longrightarrow> even n"
  shows "rhe y = n"
proof -
  let ?m = "rhe y"
  have a: "\<bar>y - of_int ?m\<bar> \<le> 1 / 2" by (rule rhe_err)
  have "\<bar>of_int ?m - of_int n :: rat\<bar> \<le> 1" using a assms(1) by linarith
  then have d: "\<bar>?m - n\<bar> \<le> 1" by (metis of_int_1 of_int_abs of_int_diff of_int_le_iff)
  show ?thesis
  proof (rule ccontr)
    assume ne: "?m \<noteq> n"
    with d have dd: "?m = n + 1 \<or> ?m = n - 1" by linarith
    then have "\<bar>y - of_int n\<bar> = 1 / 2 \<and> \<bar>y - of_int ?m\<bar> = 1 / 2"
      using a assms(1) by (auto simp: abs_if split: if_splits)
    then have "even n" "even ?m" using assms(2) rhe_tie_even by auto
    with dd show False by auto
  qed
qed

lemma rhe_minus: "rhe (- y) = - rhe y"
proof (rule rhe_unique)
  show "\<bar>- y - of_int (- rhe y)\<bar> \<le> 1 / 2" using rhe_err [of y] by (simp add: abs_minus_commute)
  show "\<bar>- y - of_int (- rhe y)\<bar> = 1 / 2 \<Longrightarrow> even (- rhe y)"
    using rhe_tie_even [of y] by (simp add: abs_minus_commute)
qed

lemma rhe_mono: "y \<le> z \<Longrightarrow> rhe y \<le> rhe z"
proof (rule ccontr)
  assume le: "y \<le> z" and "\<not> rhe y \<le> rhe z"
  then have "rhe z + 1 \<le> rhe y" by simp
  then have g: "of_int (rhe z) + 1 \<le> (of_int (rhe y) :: rat)"
    by (metis of_int_1 of_int_add of_int_le_iff)
  have "of_int (rhe y) - 1 / 2 \<le> y" using rhe_err [of y] by linarith
  moreover have "z \<le> of_int (rhe z) + 1 / 2" using rhe_err [of z] by linarith
  ultimately have "y = z" using le g by linarith
  with \<open>\<not> rhe y \<le> rhe z\<close> show False by simp
qed

lemma rhe_le_of_int: "y \<le> of_int n \<Longrightarrow> rhe y \<le> n"
  using rhe_mono [of y "of_int n"] by simp

lemma rhe_ge_of_int: "of_int n \<le> y \<Longrightarrow> n \<le> rhe y"
  using rhe_mono [of "of_int n" y] by simp

section \<open>The exponent of a positive rational\<close>

text \<open>The number of digits of a positive integer in base \<open>b\<close>.\<close>

function ndig :: "int \<Rightarrow> int \<Rightarrow> nat" where
  "ndig b n = (if n < b \<or> b < 2 then 1 else Suc (ndig b (n div b)))"
  by pat_completeness auto
termination
proof (relation "measure (\<lambda>(b, n). nat n)")
  fix b n :: int
  assume "\<not> (n < b \<or> b < 2)"
  then have "n div b < n" by (intro int_div_less_self) auto
  then show "((b, n div b), (b, n)) \<in> measure (\<lambda>(b, n). nat n)"
    using \<open>\<not> (n < b \<or> b < 2)\<close> by simp
qed simp

declare ndig.simps [simp del]

lemma ndig_bounds:
  assumes "2 \<le> b" "0 < n"
  shows "b ^ (ndig b n - 1) \<le> n \<and> n < b ^ ndig b n \<and> 1 \<le> ndig b n"
  using assms
proof (induction b n rule: ndig.induct)
  case (1 b n)
  show ?case
  proof (cases "n < b \<or> b < 2")
    case True
    with "1.prems" show ?thesis by (simp add: ndig.simps [of b n])
  next
    case False
    let ?k = "ndig b (n div b)"
    have "0 < n div b" using False by (simp add: pos_imp_zdiv_pos_iff)
    with "1.IH" False "1.prems" have IH: "b ^ (?k - 1) \<le> n div b" "n div b < b ^ ?k" "1 \<le> ?k"
      by auto
    have dm: "n = (n div b) * b + n mod b" "0 \<le> n mod b" "n mod b < b"
      using False by (auto simp: pos_mod_bound)
    have "n < n div b * b + b" using dm by linarith
    then have "n < (n div b + 1) * b" by (simp add: distrib_right)
    also have "(n div b + 1) * b \<le> b ^ ?k * b" using IH(2) False by (intro mult_right_mono) auto
    finally have u: "n < b ^ Suc ?k" by (simp add: mult.commute)
    have "b ^ ?k = b ^ (?k - 1) * b" using IH(3) by (metis Suc_diff_1 less_le_trans less_one power_Suc2)
    also have "\<dots> \<le> (n div b) * b" using IH(1) False by (intro mult_right_mono) auto
    also have "\<dots> \<le> n" using dm by linarith
    finally show ?thesis using u False IH(3) by (simp add: ndig.simps [of b n])
  qed
qed

definition expo :: "nat \<Rightarrow> rat \<Rightarrow> int" where
  "expo b x = (case quotient_of x of (n, d) \<Rightarrow>
     let k = int (ndig (int b) n) - int (ndig (int b) d)
     in if of_nat b powi k \<le> x then k else k - 1)"

lemma expo_bounds:
  assumes b: "2 \<le> b" and x: "0 < x"
  shows "of_nat b powi expo b x \<le> x \<and> x < of_nat b powi (expo b x + 1)"
proof -
  obtain n d where q: "quotient_of x = (n, d)" by force
  have d: "0 < d" and xe: "x = of_int n / of_int d"
    using quotient_of_denom_pos [OF q] quotient_of_div [OF q] by auto
  have n: "0 < n" using x xe d by (simp add: zero_less_divide_iff)
  let ?B = "of_nat b :: rat"
  let ?N = "ndig (int b) n" and ?D = "ndig (int b) d"
  have B: "1 < ?B" "?B \<noteq> 0" using b by auto
  have b2: "2 \<le> int b" using b by simp
  note N = ndig_bounds [OF b2 n] and D = ndig_bounds [OF b2 d]
  have pw: "?B powi (int k) = of_int (int b ^ k)" for k by simp
  have pm: "?B powi (int k - 1) = of_int (int b ^ (k - 1))" if "1 \<le> k" for k
    using that by (metis int_ops(6) of_nat_1 of_nat_diff pw)
  have N1: "?B powi (int ?N - 1) \<le> of_int n" "of_int n < ?B powi int ?N"
    using N pm [of ?N] pw [of ?N] by (auto simp del: of_int_power)
  have D1: "?B powi (int ?D - 1) \<le> of_int d" "of_int d < ?B powi int ?D"
    using D pm [of ?D] pw [of ?D] by (auto simp del: of_int_power)
  let ?k = "int ?N - int ?D"
  have "?B powi (?k - 1) * of_int d < ?B powi (?k - 1) * ?B powi int ?D"
    using D1(2) B by (intro mult_strict_left_mono) auto
  also have "\<dots> = ?B powi (int ?N - 1)" using B by (simp del: power_int_of_nat flip: power_int_add)
  also have "\<dots> \<le> of_int n" by (rule N1(1))
  finally have lo: "?B powi (?k - 1) < x" using d by (simp add: xe field_simps)
  have "of_int n < ?B powi int ?N" by (rule N1(2))
  also have "\<dots> = ?B powi (?k + 1) * ?B powi (int ?D - 1)" using B by (simp del: power_int_of_nat flip: power_int_add)
  also have "\<dots> \<le> ?B powi (?k + 1) * of_int d"
    using D1(1) B by (intro mult_left_mono) auto
  finally have hi: "x < ?B powi (?k + 1)" using d by (simp add: xe field_simps)
  show ?thesis using lo hi by (auto simp: expo_def q Let_def)
qed

lemma expo_unique:
  assumes b: "2 \<le> b" and "of_nat b powi e \<le> x" "x < of_nat b powi (e + 1)" and x: "0 < (x :: rat)"
  shows "expo b x = e"
proof -
  let ?B = "of_nat b :: rat"
  have B: "1 < ?B" using b by auto
  from expo_bounds [OF b x] assms have "?B powi e < ?B powi (expo b x + 1)" "?B powi expo b x < ?B powi (e + 1)"
    by linarith+
  then have "e < expo b x + 1" "expo b x < e + 1"
    using power_int_increasing [of _ _ ?B] B by (meson less_imp_le not_le)+
  then show ?thesis by simp
qed

lemma expo_mono: "2 \<le> b \<Longrightarrow> 0 < x \<Longrightarrow> x \<le> y \<Longrightarrow> expo b x \<le> expo b y"
proof (rule ccontr)
  assume b: "2 \<le> b" and x: "0 < x" "x \<le> y" and "\<not> expo b x \<le> expo b y"
  then have "expo b y + 1 \<le> expo b x" by simp
  then have "of_nat b powi (expo b y + 1) \<le> (of_nat b :: rat) powi expo b x"
    using b by (intro power_int_increasing) auto
  with expo_bounds [OF b x(1)] expo_bounds [OF b, of y] x show False by linarith
qed

section \<open>Rounding to \<open>p\<close> significant digits\<close>

text \<open>The unit in the last place of a non-zero value.\<close>

definition ulp :: "nat \<Rightarrow> nat \<Rightarrow> rat \<Rightarrow> rat" where
  "ulp b p x = of_nat b powi (expo b \<bar>x\<bar> - int p + 1)"

definition rnd :: "nat \<Rightarrow> nat \<Rightarrow> rat \<Rightarrow> rat" where
  "rnd b p x = (if x = 0 then 0 else let u = ulp b p x in of_int (rhe (x / u)) * u)"

lemma ulp_pos [simp]: "2 \<le> b \<Longrightarrow> 0 < ulp b p x"
  by (simp add: ulp_def)

lemma ulp_nonneg [simp]: "2 \<le> b \<Longrightarrow> 0 \<le> ulp b p x"
  by (simp add: less_imp_le)

lemma ulp_minus [simp]: "ulp b p (- x) = ulp b p x"
  by (simp add: ulp_def)

text \<open>The scaled value has exactly \<open>p\<close> digits before the point.\<close>

lemma scaled_bounds:
  assumes b: "2 \<le> b" and p: "1 \<le> p" and x: "0 < x"
  shows "of_int (int b ^ (p - 1)) \<le> x / ulp b p x" "x / ulp b p x < of_int (int b ^ p)"
proof -
  let ?B = "of_nat b :: rat"
  have B: "?B \<noteq> 0" "0 < ?B" using b by auto
  have u: "0 < ulp b p x" using b by simp
  have e: "?B powi expo b x \<le> x" "x < ?B powi (expo b x + 1)" using expo_bounds [OF b x] by auto
  have ue: "ulp b p x = ?B powi (expo b x - int p + 1)" using x by (simp add: ulp_def)
  have c1: "of_int (int b ^ (p - 1)) = ?B powi (int p - 1)"
    using p by (metis of_int_of_nat_eq of_int_power of_nat_1 of_nat_diff power_int_of_nat)
  have c2: "of_int (int b ^ p) = ?B powi int p" by simp
  have "?B powi (int p - 1) * ulp b p x = ?B powi expo b x"
    unfolding ue using B by (simp del: power_int_of_nat flip: power_int_add)
  with e(1) u show "of_int (int b ^ (p - 1)) \<le> x / ulp b p x"
    unfolding c1 by (simp add: pos_le_divide_eq)
  have "?B powi int p * ulp b p x = ?B powi (expo b x + 1)"
    unfolding ue using B by (simp del: power_int_of_nat flip: power_int_add)
  with e(2) u show "x / ulp b p x < of_int (int b ^ p)"
    unfolding c2 by (simp add: pos_divide_less_eq)
qed

lemma rnd_zero [simp]: "rnd b p 0 = 0"
  by (simp add: rnd_def)

lemma rnd_odd: "rnd b p (- x) = - rnd b p x"
  by (simp add: rnd_def Let_def rhe_minus)

lemma rnd_pos_eq: "0 < x \<Longrightarrow> rnd b p x = of_int (rhe (x / ulp b p x)) * ulp b p x"
  by (simp add: rnd_def Let_def)

text \<open>A rounded value stays between the powers of the base around it.\<close>

lemma rnd_bracket:
  assumes b: "2 \<le> b" and p: "1 \<le> p" and x: "0 < x"
  shows "of_nat b powi expo b x \<le> rnd b p x" "rnd b p x \<le> of_nat b powi (expo b x + 1)"
proof -
  let ?B = "of_nat b :: rat" and ?u = "ulp b p x" and ?m = "rhe (x / ulp b p x)"
  have B: "?B \<noteq> 0" using b by auto
  have u: "0 < ?u" using b by simp
  have ue: "?u = ?B powi (expo b x - int p + 1)" using x by (simp add: ulp_def)
  have m: "int b ^ (p - 1) \<le> ?m" "?m \<le> int b ^ p"
    using scaled_bounds [OF b p x] by (auto intro: rhe_ge_of_int rhe_le_of_int)
  have c1: "of_int (int b ^ (p - 1)) = ?B powi (int p - 1)"
    using p by (metis of_int_of_nat_eq of_int_power of_nat_1 of_nat_diff power_int_of_nat)
  have "?B powi expo b x = ?B powi (int p - 1) * ?u"
    unfolding ue using B by (simp del: power_int_of_nat flip: power_int_add)
  also have "\<dots> \<le> of_int ?m * ?u" using m(1) u unfolding c1 [symmetric]
    by (intro mult_right_mono) (auto simp del: of_int_power)
  finally show "?B powi expo b x \<le> rnd b p x" by (simp add: rnd_pos_eq x)
  have "of_int ?m * ?u \<le> of_int (int b ^ p) * ?u" using m(2) u
    by (intro mult_right_mono) (auto simp del: of_int_power)
  also have "\<dots> = ?B powi int p * ?u" by simp
  also have "\<dots> = ?B powi (expo b x + 1)"
    unfolding ue using B by (simp del: power_int_of_nat flip: power_int_add)
  finally show "rnd b p x \<le> ?B powi (expo b x + 1)" by (simp add: rnd_pos_eq x)
qed

lemma rnd_mono_pos:
  assumes b: "2 \<le> b" and p: "1 \<le> p" and x: "0 < x" and xy: "x \<le> y"
  shows "rnd b p x \<le> rnd b p y"
proof (cases "expo b x = expo b y")
  case True
  then have "ulp b p x = ulp b p y" using x xy by (simp add: ulp_def)
  moreover have "x / ulp b p x \<le> y / ulp b p x" using xy b by (simp add: divide_right_mono less_imp_le)
  ultimately show ?thesis using x xy b
    by (simp add: rnd_pos_eq rhe_mono mult_right_mono less_imp_le)
next
  case False
  then have "expo b x + 1 \<le> expo b y" using expo_mono [OF b x xy] by simp
  then have "of_nat b powi (expo b x + 1) \<le> (of_nat b :: rat) powi expo b y"
    using b by (intro power_int_increasing) auto
  with rnd_bracket [OF b p, of x] rnd_bracket [OF b p, of y] x xy show ?thesis by linarith
qed

lemma rnd_sign:
  assumes "2 \<le> b" "1 \<le> p" "0 < x"
  shows "0 < rnd b p x"
  using rnd_bracket(1) [OF assms] assms(1) by (meson less_le_trans of_nat_0_less_iff zero_less_power_int less_le_trans zero_less_numeral)

lemma rnd_mono:
  assumes b: "2 \<le> b" and p: "1 \<le> p" and xy: "x \<le> y"
  shows "rnd b p x \<le> rnd b p y"
proof -
  have s: "0 < rnd b p z" if "0 < z" for z using rnd_sign [OF b p that] .
  consider "0 < x" | "x \<le> 0" "0 \<le> y" | "y < 0" by linarith
  then show ?thesis
  proof cases
    case 1 then show ?thesis using rnd_mono_pos [OF b p _ xy] by simp
  next
    case 2
    have "rnd b p x \<le> 0" using s [of "- x"] 2 by (cases "x = 0") (auto simp: rnd_odd)
    moreover have "0 \<le> rnd b p y" using s [of y] 2 by (cases "y = 0") auto
    ultimately show ?thesis by simp
  next
    case 3
    then show ?thesis using rnd_mono_pos [OF b p, of "- y" "- x"] xy by (simp add: rnd_odd)
  qed
qed

text \<open>A value with at most \<open>p\<close> digits is a fixed point.\<close>

lemma rnd_representable_pos:
  assumes b: "2 \<le> b" and p: "1 \<le> p" and x: "0 < x" "x = of_int m * of_nat b powi k" and m: "\<bar>m\<bar> \<le> int b ^ p"
  shows "rnd b p x = x"
proof -
  let ?B = "of_nat b :: rat" and ?u = "ulp b p x"
  have B: "?B \<noteq> 0" "1 < ?B" using b by auto
  have ue: "?u = ?B powi (expo b x - int p + 1)" using x by (simp add: ulp_def)
  have u: "0 < ?u" using b by simp
  have "\<exists>n. x / ?u = of_int n"
  proof (cases "expo b x - int p + 1 \<le> k")
    case True
    have "x / ?u = of_int m * ?B powi (k - (expo b x - int p + 1))"
      using B by (simp add: x(2) [symmetric] power_int_diff ue)
    also have "\<dots> = of_int (m * int b ^ nat (k - (expo b x - int p + 1)))"
      using True by (simp add: power_int_def)
    finally show ?thesis by blast
  next
    case False
    have "0 < ?B powi k" using B by simp
    then have mp: "0 < m" using x by (auto simp: zero_less_mult_iff)
    have "x \<le> of_int (int b ^ p) * ?B powi k"
      unfolding x(2) using m mp B by (intro mult_right_mono) (auto simp del: of_int_power)
    also have "\<dots> = ?B powi (int p + k)" using B by (simp add: power_int_add)
    also have "\<dots> \<le> ?B powi expo b x" using False B by (intro power_int_increasing) auto
    finally have "x = ?B powi expo b x" using expo_bounds [OF b x(1)] by simp
    then have "x / ?u = ?B powi expo b x / ?B powi (expo b x - int p + 1)"
      using ue by simp
    also have "\<dots> = ?B powi (int p - 1)" using B by (simp flip: power_int_diff)
    also have "\<dots> = of_int (int b ^ (p - 1))"
      using p by (metis of_int_of_nat_eq of_int_power of_nat_1 of_nat_diff power_int_of_nat)
    finally show ?thesis by blast
  qed
  then obtain n where n: "x / ?u = of_int n" by blast
  then have "x = of_int n * ?u" using u by (simp add: divide_eq_eq)
  with n x(1) show ?thesis by (simp add: rnd_pos_eq)
qed

lemma rnd_representable:
  assumes b: "2 \<le> b" and p: "1 \<le> p" and x: "x = of_int m * of_nat b powi k" and m: "\<bar>m\<bar> \<le> int b ^ p"
  shows "rnd b p x = x"
proof -
  consider "0 < x" | "x = 0" | "0 < - x" by linarith
  then show ?thesis
  proof cases
    case 1 then show ?thesis using rnd_representable_pos [OF b p _ x m] by simp
  next
    case 3
    have "rnd b p (- x) = - x"
      using rnd_representable_pos [OF b p 3, of "- m" k] x m by simp
    then show ?thesis by (simp add: rnd_odd)
  qed simp
qed

lemma rnd_of_form:
  assumes b: "2 \<le> b" and p: "1 \<le> p"
  shows "\<exists>m k. rnd b p x = of_int m * of_nat b powi k \<and> \<bar>m\<bar> \<le> int b ^ p"
proof -
  have pos: "\<exists>m k. rnd b p x = of_int m * of_nat b powi k \<and> \<bar>m\<bar> \<le> int b ^ p" if x: "0 < x" for x
  proof -
    let ?m = "rhe (x / ulp b p x)"
    have "0 \<le> ?m" using x b by (intro rhe_ge_of_int) (simp add: less_imp_le)
    moreover have "?m \<le> int b ^ p"
      using scaled_bounds(2) [OF b p x] by (intro rhe_le_of_int less_imp_le)
    ultimately have "\<bar>?m\<bar> \<le> int b ^ p" by simp
    then show ?thesis
      by (intro exI [of _ ?m] exI [of _ "expo b \<bar>x\<bar> - int p + 1"]) (simp add: rnd_pos_eq x ulp_def)
  qed
  consider "0 < x" | "x = 0" | "0 < - x" by linarith
  then show ?thesis
  proof cases
    case 1 then show ?thesis by (rule pos)
  next
    case 2 then show ?thesis by (intro exI [of _ 0]) simp
  next
    case 3
    obtain m k where "rnd b p (- x) = of_int m * of_nat b powi k" "\<bar>m\<bar> \<le> int b ^ p"
      using pos [OF 3] by blast
    then show ?thesis by (intro exI [of _ "- m"] exI [of _ k]) (auto simp: rnd_odd)
  qed
qed

lemma rnd_idem: "2 \<le> b \<Longrightarrow> 1 \<le> p \<Longrightarrow> rnd b p (rnd b p x) = rnd b p x"
  using rnd_of_form [of b p x] rnd_representable [of b p] by metis

text \<open>The relative error is at most half a unit of the last digit.\<close>

definition unit_roundoff :: "nat \<Rightarrow> nat \<Rightarrow> rat" where
  "unit_roundoff b p = 1 / (2 * of_nat b ^ (p - 1))"

lemma rnd_err:
  assumes b: "2 \<le> b" and p: "1 \<le> p"
  shows "\<bar>rnd b p x - x\<bar> \<le> unit_roundoff b p * \<bar>x\<bar>"
proof (cases "x = 0")
  case False
  let ?B = "of_nat b :: rat" and ?u = "ulp b p x"
  have B: "0 < ?B" using b by auto
  have u: "0 < ?u" using b by simp
  have xu: "x = x / ?u * ?u" using u by simp
  have "\<bar>rnd b p x - x\<bar> = \<bar>(of_int (rhe (x / ?u)) - x / ?u) * ?u\<bar>"
    using False u by (simp add: rnd_def Let_def left_diff_distrib)
  also have "\<dots> = \<bar>of_int (rhe (x / ?u)) - x / ?u\<bar> * ?u" using u by (simp add: abs_mult)
  also have "\<dots> \<le> 1 / 2 * ?u"
    using rhe_err [of "x / ?u"] u by (intro mult_right_mono) (auto simp: abs_minus_commute)
  also have "\<dots> \<le> unit_roundoff b p * \<bar>x\<bar>"
  proof -
    have "of_int (int b ^ (p - 1)) \<le> \<bar>x\<bar> / ulp b p \<bar>x\<bar>"
      using scaled_bounds(1) [OF b p, of "\<bar>x\<bar>"] False by simp
    moreover have "ulp b p \<bar>x\<bar> = ?u" by (simp add: ulp_def)
    ultimately have "?B ^ (p - 1) * ?u \<le> \<bar>x\<bar>" using u by (simp add: pos_le_divide_eq)
    then show ?thesis using B by (simp add: unit_roundoff_def field_simps)
  qed
  finally show ?thesis .
qed simp

theorem rnd_rounding:
  assumes b: "2 \<le> b" and p: "2 \<le> p"
  shows "rounding (rnd b p) (unit_roundoff b p)"
proof
  have p1: "1 \<le> p" using p by simp
  show "rnd b p 0 = 0" by simp
  show "rnd b p (- x) = - rnd b p x" for x by (rule rnd_odd)
  show "x \<le> y \<Longrightarrow> rnd b p x \<le> rnd b p y" for x y by (rule rnd_mono [OF b p1])
  show "rnd b p (rnd b p x) = rnd b p x" for x by (rule rnd_idem [OF b p1])
  show "\<bar>rnd b p x - x\<bar> \<le> unit_roundoff b p * \<bar>x\<bar>" for x by (rule rnd_err [OF b p1])
  show "0 \<le> unit_roundoff b p" by (simp add: unit_roundoff_def)
  have "1 \<le> (of_nat b :: rat) ^ (p - 1)" using b by (simp add: one_le_power)
  then show "unit_roundoff b p < 1" by (simp add: unit_roundoff_def divide_less_eq)
qed

section \<open>Evaluation\<close>

text \<open>
  Code equations over integers for the roundings: one integer division instead of several
  rational ones, which is what makes the evaluation of concrete runs in the kernel quick.
\<close>

function ipow :: "int \<Rightarrow> int \<Rightarrow> int" where
  "ipow b s = (if s \<le> 0 then 1 else b * ipow b (s - 1))"
  by pat_completeness auto
termination
  by (relation "measure (\<lambda>(b, s). nat s)") auto

declare ipow.simps [simp del]

lemma ipow_eq: "ipow b s = b ^ nat s"
proof (induction b s rule: ipow.induct)
  case (1 b s)
  show ?case
  proof (cases "s \<le> 0")
    case False
    then have "nat s = Suc (nat (s - 1))" by simp
    with False 1 show ?thesis by (simp add: ipow.simps [of b s])
  qed (simp add: ipow.simps [of b s])
qed

definition rdiv :: "int \<Rightarrow> int \<Rightarrow> int" where
  "rdiv n d = (let q = n div d; r = 2 * (n - q * d) in
     if r < d then q else if d < r then q + 1 else if even q then q else q + 1)"

lemma int_half:
  assumes "0 < (d :: int)"
  shows "((of_int r :: rat) / of_int d < 1 / 2) = (2 * r < d)" "(1 / 2 < (of_int r :: rat) / of_int d) = (d < 2 * r)"
  using assms of_int_less_iff [where 'a = rat, of "2 * r" d] of_int_less_iff [where 'a = rat, of d "2 * r"]
  by (simp_all add: pos_divide_less_eq pos_less_divide_eq mult.commute)

lemma rdiv_eq: "0 < d \<Longrightarrow> rdiv n d = rhe (of_int n / of_int d)"
proof -
  assume d: "0 < d"
  have f: "\<lfloor>(of_int n :: rat) / of_int d\<rfloor> = n div d" by (rule floor_divide_of_int_eq)
  have e: "(of_int n :: rat) / of_int d - of_int (n div d) = of_int (n - n div d * d) / of_int d"
    using d by (simp add: field_simps)
  show ?thesis unfolding rhe_def rdiv_def Let_def f e int_half [OF d] by (rule refl)
qed

definition scale_round :: "(int \<Rightarrow> int \<Rightarrow> int) \<Rightarrow> int \<Rightarrow> int \<Rightarrow> rat \<Rightarrow> rat" where
  "scale_round f b s x = (case quotient_of x of (n, d) \<Rightarrow>
     if 0 \<le> s then let m = ipow b s in of_int (f (n * m) d) / of_int m
     else let m = ipow b (- s) in of_int (f n (d * m) * m))"

lemma scale_round_eq:
  assumes f: "\<And>n d. 0 < d \<Longrightarrow> f n d = g (of_int n / of_int d)" and b: "0 < b"
  shows "scale_round f b s x = of_int (g (x / of_int b powi (- s))) * of_int b powi (- s)"
proof -
  obtain n d where q: "quotient_of x = (n, d)" by force
  have d: "0 < d" and x: "x = of_int n / of_int d"
    using quotient_of_denom_pos [OF q] quotient_of_div [OF q] by auto
  show ?thesis
  proof (cases "0 \<le> s")
    case True
    then have p: "(of_int b :: rat) powi (- s) = 1 / of_int (b ^ nat s)"
      by (simp add: power_int_minus power_int_def field_simps)
    have "x / of_int b powi (- s) = of_int (n * b ^ nat s) / of_int d" using p x by simp
    with True show ?thesis using f [OF d, of "n * b ^ nat s"] p
      by (simp add: scale_round_def q ipow_eq Let_def)
  next
    case False
    then have p: "(of_int b :: rat) powi (- s) = of_int (b ^ nat (- s))"
      by (simp add: power_int_def)
    have "x / of_int b powi (- s) = of_int n / of_int (d * b ^ nat (- s))" using p x by simp
    moreover have "0 < d * b ^ nat (- s)" using d b by simp
    ultimately show ?thesis using False f [of "d * b ^ nat (- s)" n] p
      by (simp add: scale_round_def q ipow_eq Let_def)
  qed
qed

lemma le_div_inverse:
  assumes "0 < (m :: int)" "0 < (d :: int)"
  shows "(1 / of_int m \<le> (of_int n :: rat) / of_int d) = ((of_int d :: rat) \<le> of_int (n * m))"
  using assms by (simp add: field_simps)

lemma expo_code [code]:
  "expo b x = (case quotient_of x of (n, d) \<Rightarrow>
     let k = int (ndig (int b) n) - int (ndig (int b) d)
     in if (if 0 \<le> k then d * ipow (int b) k \<le> n else 2 \<le> b \<and> d \<le> n * ipow (int b) (- k) \<or> b < 2 \<and> of_nat b powi k \<le> x) then k else k - 1)"
proof -
  obtain n d where q: "quotient_of x = (n, d)" by force
  have d: "0 < d" and x: "x = of_int n / of_int d"
    using quotient_of_denom_pos [OF q] quotient_of_div [OF q] by auto
  let ?k = "int (ndig (int b) n) - int (ndig (int b) d)"
  have "(of_nat b powi ?k \<le> x) = (if 0 \<le> ?k then d * ipow (int b) ?k \<le> n
      else 2 \<le> b \<and> d \<le> n * ipow (int b) (- ?k) \<or> b < 2 \<and> of_nat b powi ?k \<le> x)"
  proof (cases "0 \<le> ?k")
    case True
    then have "(of_nat b :: rat) powi ?k = of_int (int b ^ nat ?k)" by (simp add: power_int_def)
    then have "(of_nat b powi ?k \<le> x) = ((of_int (d * int b ^ nat ?k) :: rat) \<le> of_int n)"
      using d unfolding x by (simp add: pos_le_divide_eq mult.commute)
    also have "\<dots> = (d * int b ^ nat ?k \<le> n)" by (rule of_int_le_iff)
    finally show ?thesis using True by (simp add: ipow_eq)
  next
    case False
    show ?thesis
    proof (cases "2 \<le> b")
      case True
      let ?M = "int b ^ nat (- ?k)"
      have M: "0 < ?M" using True by simp
      from False have p: "(of_nat b :: rat) powi ?k = 1 / of_int ?M"
        by (simp add: power_int_def field_simps)
      have "(of_nat b powi ?k \<le> x) = ((of_int d :: rat) \<le> of_int (n * ?M))"
        unfolding p x using le_div_inverse [OF M d] by simp
      also have "\<dots> = (d \<le> n * int b ^ nat (- ?k))" by (rule of_int_le_iff)
      finally have "(of_nat b powi ?k \<le> x) = (d \<le> n * int b ^ nat (- ?k))" .
      with False True show ?thesis by (simp add: ipow_eq)
    qed (use False in simp)
  qed
  then show ?thesis by (simp only: expo_def q prod.case Let_def)
qed

lemma rnd_code [code]:
  "rnd b p x = (if x = 0 then 0
     else if b < 2 then (let u = ulp b p x in of_int (rhe (x / u)) * u)
     else scale_round rdiv (int b) (int p - 1 - expo b \<bar>x\<bar>) x)"
proof (cases "b < 2")
  case False
  then have "0 < int b" by simp
  from scale_round_eq [of rdiv rhe, OF rdiv_eq this, of "int p - 1 - expo b \<bar>x\<bar>" x]
  show ?thesis using False by (simp add: rnd_def ulp_def Let_def algebra_simps)
qed (simp add: rnd_def)

end
