(* ===== verification/Numbers.thy ===== *)
theory Numbers
  imports Rounding
begin

text \<open>
  The two number types of the program. \<open>dec\<close> is Python's \<open>Decimal\<close> under the default
  context: an exact value, every arithmetic operation rounded half-even to 28 significant
  digits (construction from text is exact, comparison is exact). \<open>flt\<close> is Python's
  \<open>float\<close>: every operation rounded half-even to 53 binary digits. Both are ordered by
  value, so that \<open>\<le>\<close>, \<open>min\<close> and \<open>max\<close> are the library's; the arithmetic operators
  are those of the syntactic classes only, since rounded addition is not associative and
  the simplifier must not treat it so. \<open>/\<close> is total here (\<open>x / 0 = 0\<close>): every use that
  the source does not guard is guarded in the model by \<open>ddiv\<close>, which raises.
\<close>

section \<open>Decimal\<close>

datatype dec = Dec (dval: rat)

definition dround :: "rat \<Rightarrow> rat" where
  "dround = rnd 10 28"

instantiation dec :: "{zero, one, plus, minus, uminus, times, inverse, abs}"
begin

definition zero_dec :: dec where
  "0 = Dec 0"

definition one_dec :: dec where
  "1 = Dec 1"

definition plus_dec :: "dec \<Rightarrow> dec \<Rightarrow> dec" where
  "x + y = Dec (dround (dval x + dval y))"

definition minus_dec :: "dec \<Rightarrow> dec \<Rightarrow> dec" where
  "x - y = Dec (dround (dval x - dval y))"

definition uminus_dec :: "dec \<Rightarrow> dec" where
  "- x = Dec (dround (- dval x))"

definition times_dec :: "dec \<Rightarrow> dec \<Rightarrow> dec" where
  "x * y = Dec (dround (dval x * dval y))"

definition divide_dec :: "dec \<Rightarrow> dec \<Rightarrow> dec" where
  "x div y = Dec (dround (dval x / dval y))"

definition inverse_dec :: "dec \<Rightarrow> dec" where
  "inverse x = Dec (dround (1 / dval x))"

definition abs_dec :: "dec \<Rightarrow> dec" where
  "\<bar>x\<bar> = Dec (dround \<bar>dval x\<bar>)"

instance ..

end

instantiation dec :: linorder
begin

definition less_eq_dec :: "dec \<Rightarrow> dec \<Rightarrow> bool" where
  "x \<le> y \<longleftrightarrow> dval x \<le> dval y"

definition less_dec :: "dec \<Rightarrow> dec \<Rightarrow> bool" where
  "x < y \<longleftrightarrow> dval x < dval y"

instance
  by standard (auto simp: less_eq_dec_def less_dec_def dec.expand)

end

interpretation dec: rounding dround "unit_roundoff 10 28"
  unfolding dround_def by (rule rnd_rounding) simp_all

text \<open>
  \<open>dec_arith\<close> reads a statement about decimals as one about their rational values.
\<close>

named_theorems dec_arith "decimal operations and comparisons as operations on values"

lemma dval_zero [simp]: "dval 0 = 0"
  by (simp add: zero_dec_def)

lemma dval_one [simp]: "dval 1 = 1"
  by (simp add: one_dec_def)

lemma dval_plus [dec_arith]: "dval (x + y) = dround (dval x + dval y)"
  by (simp add: plus_dec_def)

lemma dval_minus [dec_arith]: "dval (x - y) = dround (dval x - dval y)"
  by (simp add: minus_dec_def)

lemma dval_uminus [dec_arith]: "dval (- x) = - dround (dval x)"
  by (simp add: uminus_dec_def dec.odd)

lemma dval_times [dec_arith]: "dval (x * y) = dround (dval x * dval y)"
  by (simp add: times_dec_def)

lemma dval_divide [dec_arith]: "dval (x / y) = dround (dval x / dval y)"
  by (simp add: divide_dec_def)

lemma dval_abs [dec_arith]: "dval \<bar>x\<bar> = dround \<bar>dval x\<bar>"
  by (simp add: abs_dec_def)

lemma dec_le_iff [dec_arith]: "x \<le> y \<longleftrightarrow> dval x \<le> dval y"
  by (simp add: less_eq_dec_def)

lemma dec_less_iff [dec_arith]: "x < y \<longleftrightarrow> dval x < dval y"
  by (simp add: less_dec_def)

lemma dec_eq_iff: "x = y \<longleftrightarrow> dval x = dval y"
  by (cases x; cases y) simp

lemma dec_eq_zero_iff [dec_arith]: "x = 0 \<longleftrightarrow> dval x = 0"
  by (simp add: dec_eq_iff)

text \<open>The signs of results: rounding never changes the sign of a value.\<close>

lemma dec_add_nonneg [intro]: "0 \<le> x \<Longrightarrow> 0 \<le> y \<Longrightarrow> 0 \<le> (x + y :: dec)"
  by (simp add: dec_arith dec.nonneg)

lemma dec_add_pos_nonneg: "0 < x \<Longrightarrow> 0 \<le> y \<Longrightarrow> 0 < (x + y :: dec)"
  by (simp add: dec_arith dec.pos)

lemma dec_add_nonneg_pos: "0 \<le> x \<Longrightarrow> 0 < y \<Longrightarrow> 0 < (x + y :: dec)"
  by (simp add: dec_arith dec.pos)

lemma dec_diff_nonneg [intro]: "y \<le> x \<Longrightarrow> 0 \<le> (x - y :: dec)"
  by (simp add: dec_arith dec.nonneg)

lemma dec_diff_nonneg_iff [simp]: "0 \<le> (x - y :: dec) \<longleftrightarrow> y \<le> x"
  by (simp add: dec_arith dec.nonneg_iff)

lemma dec_diff_pos_iff [simp]: "0 < (x - y :: dec) \<longleftrightarrow> y < x"
  by (simp add: dec_arith dec.pos_iff)

lemma dec_diff_neg_iff [simp]: "(x - y :: dec) < 0 \<longleftrightarrow> x < y"
  by (simp add: dec_arith dec.neg_iff)

lemma dec_diff_nonpos_iff [simp]: "(x - y :: dec) \<le> 0 \<longleftrightarrow> x \<le> y"
  by (simp add: dec_arith dec.nonpos_iff)

lemma dec_diff_self [simp]: "(x - x :: dec) = 0"
  by (simp add: minus_dec_def zero_dec_def dec.zero)

lemma dec_mult_nonneg [intro]: "0 \<le> x \<Longrightarrow> 0 \<le> y \<Longrightarrow> 0 \<le> (x * y :: dec)"
  by (simp add: dec_arith dec.nonneg)

lemma dec_mult_pos [intro]: "0 < x \<Longrightarrow> 0 < y \<Longrightarrow> 0 < (x * y :: dec)"
  by (simp add: dec_arith dec.pos)

lemma dec_divide_nonneg [intro]: "0 \<le> x \<Longrightarrow> 0 \<le> y \<Longrightarrow> 0 \<le> (x / y :: dec)"
  by (simp add: dec_arith dec.nonneg)

lemma dec_divide_pos [intro]: "0 < x \<Longrightarrow> 0 < y \<Longrightarrow> 0 < (x / y :: dec)"
  by (simp add: dec_arith dec.pos)

lemma dec_abs_nonneg [simp]: "0 \<le> \<bar>x :: dec\<bar>"
  by (simp add: dec_arith dec.nonneg)

lemma dec_mult_zero [simp]: "0 * x = (0 :: dec)" "x * 0 = (0 :: dec)"
  by (simp_all add: times_dec_def zero_dec_def dec.zero)

lemma dec_zero_divide [simp]: "0 / x = (0 :: dec)"
  by (simp add: divide_dec_def zero_dec_def dec.zero)

lemma dec_add_commute: "x + y = (y + x :: dec)"
  by (simp add: plus_dec_def add.commute)

text \<open>Monotonicity of the operations, which rounding preserves.\<close>

lemma dec_add_mono: "x \<le> x' \<Longrightarrow> y \<le> y' \<Longrightarrow> x + y \<le> (x' + y' :: dec)"
  by (simp add: dec_arith dec.mono)

lemma dec_diff_mono: "x \<le> x' \<Longrightarrow> y' \<le> y \<Longrightarrow> x - y \<le> (x' - y' :: dec)"
  by (simp add: dec_arith dec.mono)

lemma dec_mult_right_mono: "x \<le> y \<Longrightarrow> 0 \<le> z \<Longrightarrow> x * z \<le> (y * z :: dec)"
  by (simp add: dec_arith dec.mono mult_right_mono)

lemma dec_mult_left_mono: "x \<le> y \<Longrightarrow> 0 \<le> z \<Longrightarrow> z * x \<le> (z * y :: dec)"
  by (simp add: dec_arith dec.mono mult_left_mono)

lemma dec_divide_right_mono: "x \<le> y \<Longrightarrow> 0 \<le> z \<Longrightarrow> x / z \<le> (y / z :: dec)"
  by (simp add: dec_arith dec.mono divide_right_mono)

subsection \<open>Representable decimals\<close>

text \<open>
  The result of an operation has at most 28 digits; a value read from text may have more.
  On representable operands the zero laws are exact.
\<close>

definition rep :: "dec \<Rightarrow> bool" where
  "rep x \<longleftrightarrow> dround (dval x) = dval x"

lemma rep_ops [simp, intro]:
  "rep 0" "rep (x + y)" "rep (x - y)" "rep (x * y)" "rep (x / y)" "rep \<bar>x\<bar>"
  by (simp_all add: rep_def dec_arith dec.zero dec.idem)

lemma rep_integer: "\<bar>n\<bar> \<le> 10 ^ 28 \<Longrightarrow> rep (Dec (of_int n))"
  using rnd_representable [of 10 28 "of_int n" n 0] by (simp add: rep_def dround_def)

lemma rep_add_zero: "rep x \<Longrightarrow> x + 0 = x" "rep x \<Longrightarrow> 0 + x = x"
  by (simp_all add: rep_def dec_eq_iff dec_arith)

lemma rep_diff_zero: "rep x \<Longrightarrow> x - 0 = x"
  by (simp add: rep_def dec_eq_iff dec_arith)

lemma dec_diff_le_self: "rep x \<Longrightarrow> 0 \<le> y \<Longrightarrow> x - y \<le> x"
  by (simp add: rep_def dec_arith dec.le_representable)

lemma dec_le_add_self: "rep x \<Longrightarrow> 0 \<le> y \<Longrightarrow> x \<le> x + y"
  by (simp add: rep_def dec_arith dec.ge_representable)

subsection \<open>Division that raises\<close>

text \<open>
  Decimal division: \<open>x / 0\<close> raises \<open>DivisionByZero\<close>, and \<open>0 / 0\<close> the
  \<open>InvalidOperation\<close> of an undefined quotient.
\<close>

definition ddiv :: "dec \<Rightarrow> dec \<Rightarrow> dec result" where
  "ddiv x y = (if y = 0 then Inl (if x = 0 then InvalidOperation else DivisionByZero)
               else Inr (x / y))"

lemma ddiv_pos [simp]: "0 < y \<Longrightarrow> ddiv x y = Inr (x / y)"
  by (auto simp: ddiv_def)

subsection \<open>Decimals as read from text, and quantizing\<close>

text \<open>
  A decimal read from text has a coefficient and an exponent; only \<open>quantize\<close> looks at
  the exponent. \<open>lit_val\<close> is its value.
\<close>

datatype declit = DecLit (coef: int) (expn: int)

definition lit_val :: "declit \<Rightarrow> dec" where
  "lit_val l = Dec (of_int (coef l) * 10 powi expn l)"

text \<open>\<open>to_integral_value(rounding=ROUND_DOWN)\<close>: the integer part, exact at any size.\<close>

definition to_integral_down :: "dec \<Rightarrow> dec" where
  "to_integral_down x = Dec (if 0 \<le> dval x then of_int \<lfloor>dval x\<rfloor> else of_int \<lceil>dval x\<rceil>)"

text \<open>
  \<open>x.quantize(step, rounding=ROUND_DOWN)\<close>: the value cut to the exponent of
  \<open>step\<close>; \<open>InvalidOperation\<close> when the coefficient would need more than 28 digits.
\<close>

definition quantize_down :: "dec \<Rightarrow> int \<Rightarrow> dec result" where
  "quantize_down x e =
     (let c = dval (to_integral_down (Dec (dval x / 10 powi e)))
      in if 10 ^ 28 \<le> \<bar>c\<bar> then Inl InvalidOperation else Inr (Dec (c * 10 powi e)))"

lemma quantize_down_code [code]:
  "quantize_down x e =
     (let u = (if e = 0 then 1 else 10 powi e); c = dval (to_integral_down (Dec (dval x / u)))
      in if 10000000000000000000000000000 \<le> \<bar>c\<bar> then Inl InvalidOperation else Inr (Dec (c * u)))"
  by (simp add: quantize_down_def Let_def)

text \<open>The same towards plus infinity, \<open>ROUND_CEILING\<close>.\<close>

definition to_integral_up :: "dec \<Rightarrow> dec" where
  "to_integral_up x = Dec (of_int \<lceil>dval x\<rceil>)"

definition quantize_up :: "dec \<Rightarrow> int \<Rightarrow> dec result" where
  "quantize_up x e =
     (let c = dval (to_integral_up (Dec (dval x / 10 powi e)))
      in if 10 ^ 28 \<le> \<bar>c\<bar> then Inl InvalidOperation else Inr (Dec (c * 10 powi e)))"

lemma quantize_up_code [code]:
  "quantize_up x e =
     (let u = (if e = 0 then 1 else 10 powi e); c = dval (to_integral_up (Dec (dval x / u)))
      in if 10000000000000000000000000000 \<le> \<bar>c\<bar> then Inl InvalidOperation else Inr (Dec (c * u)))"
  by (simp add: quantize_up_def Let_def)

lemma quantize_up_ge: "quantize_up x e = Inr y \<Longrightarrow> x \<le> y"
proof -
  assume "quantize_up x e = Inr y"
  then have "y = Dec (of_int \<lceil>dval x / 10 powi e\<rceil> * 10 powi e)"
    by (auto simp: quantize_up_def to_integral_up_def Let_def split: if_splits)
  moreover have "dval x / 10 powi e * 10 powi e \<le> of_int \<lceil>dval x / 10 powi e\<rceil> * (10 powi e :: rat)"
    by (intro mult_right_mono le_of_int_ceiling) simp
  ultimately show ?thesis by (simp add: dec_le_iff)
qed

lemma to_integral_down_nonneg: "0 \<le> x \<Longrightarrow> 0 \<le> to_integral_down x"
  by (simp add: to_integral_down_def dec_arith)

lemma to_integral_down_le: "0 \<le> x \<Longrightarrow> to_integral_down x \<le> x"
  by (simp add: to_integral_down_def dec_arith)

lemma quantize_down_nonneg:
  assumes "quantize_down x e = Inr y" "0 \<le> x"
  shows "0 \<le> y" "y \<le> x"
proof -
  let ?P = "10 powi e :: rat"
  have P: "0 < ?P" by simp
  have y: "y = Dec (of_int \<lfloor>dval x / ?P\<rfloor> * ?P)"
    using assms by (auto simp: quantize_down_def Let_def to_integral_down_def dec_arith split: if_splits)
  have "0 \<le> dval x / ?P" using assms(2) by (simp add: dec_arith)
  then show "0 \<le> y" by (simp add: y dec_arith)
  have "of_int \<lfloor>dval x / ?P\<rfloor> \<le> dval x / ?P" by simp
  then have "of_int \<lfloor>dval x / ?P\<rfloor> * ?P \<le> dval x" using P by (simp only: pos_le_divide_eq)
  then show "y \<le> x" by (simp add: y dec_arith)
qed

section \<open>Floats\<close>

datatype flt = Flt (fval: rat)

definition fround :: "rat \<Rightarrow> rat" where
  "fround = rnd 2 53"

instantiation flt :: "{zero, one, plus, minus, uminus, times, inverse, abs}"
begin

definition zero_flt :: flt where
  "0 = Flt 0"

definition one_flt :: flt where
  "1 = Flt 1"

definition plus_flt :: "flt \<Rightarrow> flt \<Rightarrow> flt" where
  "x + y = Flt (fround (fval x + fval y))"

definition minus_flt :: "flt \<Rightarrow> flt \<Rightarrow> flt" where
  "x - y = Flt (fround (fval x - fval y))"

definition uminus_flt :: "flt \<Rightarrow> flt" where
  "- x = Flt (- fval x)"

definition times_flt :: "flt \<Rightarrow> flt \<Rightarrow> flt" where
  "x * y = Flt (fround (fval x * fval y))"

definition divide_flt :: "flt \<Rightarrow> flt \<Rightarrow> flt" where
  "x div y = Flt (fround (fval x / fval y))"

definition inverse_flt :: "flt \<Rightarrow> flt" where
  "inverse x = Flt (fround (1 / fval x))"

definition abs_flt :: "flt \<Rightarrow> flt" where
  "\<bar>x\<bar> = Flt \<bar>fval x\<bar>"

instance ..

end

instantiation flt :: linorder
begin

definition less_eq_flt :: "flt \<Rightarrow> flt \<Rightarrow> bool" where
  "x \<le> y \<longleftrightarrow> fval x \<le> fval y"

definition less_flt :: "flt \<Rightarrow> flt \<Rightarrow> bool" where
  "x < y \<longleftrightarrow> fval x < fval y"

instance
  by standard (auto simp: less_eq_flt_def less_flt_def flt.expand)

end

interpretation flt: rounding fround "unit_roundoff 2 53"
  unfolding fround_def by (rule rnd_rounding) simp_all

named_theorems flt_arith "float operations and comparisons as operations on values"

lemma fval_zero [simp]: "fval 0 = 0"
  by (simp add: zero_flt_def)

lemma fval_one [simp]: "fval 1 = 1"
  by (simp add: one_flt_def)

lemma fval_plus [flt_arith]: "fval (x + y) = fround (fval x + fval y)"
  by (simp add: plus_flt_def)

lemma fval_minus [flt_arith]: "fval (x - y) = fround (fval x - fval y)"
  by (simp add: minus_flt_def)

lemma fval_uminus [flt_arith]: "fval (- x) = - fval x"
  by (simp add: uminus_flt_def)

lemma fval_times [flt_arith]: "fval (x * y) = fround (fval x * fval y)"
  by (simp add: times_flt_def)

lemma fval_divide [flt_arith]: "fval (x / y) = fround (fval x / fval y)"
  by (simp add: divide_flt_def)

lemma fval_abs [flt_arith]: "fval \<bar>x\<bar> = \<bar>fval x\<bar>"
  by (simp add: abs_flt_def)

lemma flt_le_iff [flt_arith]: "x \<le> y \<longleftrightarrow> fval x \<le> fval y"
  by (simp add: less_eq_flt_def)

lemma flt_less_iff [flt_arith]: "x < y \<longleftrightarrow> fval x < fval y"
  by (simp add: less_flt_def)

lemma flt_eq_iff: "x = y \<longleftrightarrow> fval x = fval y"
  by (cases x; cases y) simp

text \<open>
  Conversions: \<open>float(d)\<close> of a Decimal, an integer read as a float, and the true
  division of two integers (each correctly rounded).
\<close>

definition float_of_dec :: "dec \<Rightarrow> flt" where
  "float_of_dec d = Flt (fround (dval d))"

definition float_of_int :: "int \<Rightarrow> flt" where
  "float_of_int n = Flt (fround (of_int n))"

definition int_truediv :: "int \<Rightarrow> int \<Rightarrow> flt" where
  "int_truediv a b = Flt (fround (of_int a / of_int b))"

text \<open>\<open>int(f)\<close> cuts towards zero.\<close>

definition int_of_float :: "flt \<Rightarrow> int" where
  "int_of_float f = (if 0 \<le> fval f then \<lfloor>fval f\<rfloor> else \<lceil>fval f\<rceil>)"

lemma float_of_dec_nonneg [simp]: "0 \<le> float_of_dec d \<longleftrightarrow> 0 \<le> d"
  by (simp add: float_of_dec_def flt_arith dec_arith flt.nonneg_iff)

lemma float_of_dec_mono: "x \<le> y \<Longrightarrow> float_of_dec x \<le> float_of_dec y"
  by (simp add: float_of_dec_def flt_arith dec_arith flt.mono)

subsection \<open>\<open>Decimal(str(f))\<close> of a float\<close>

text \<open>
  \<open>str\<close> of a float is the shortest decimal text that reads back as the same float
  (the nearest to it among those). With \<open>n\<close> digits there are at most two candidates,
  the \<open>n\<close>-digit decimals next to the value; 17 digits always suffice, so the search
  stops there.
\<close>

definition digits_down :: "nat \<Rightarrow> rat \<Rightarrow> rat" where
  "digits_down n x = (if x = 0 then 0 else of_int \<lfloor>x / ulp 10 n x\<rfloor> * ulp 10 n x)"

definition digits_up :: "nat \<Rightarrow> rat \<Rightarrow> rat" where
  "digits_up n x = (if x = 0 then 0 else of_int \<lceil>x / ulp 10 n x\<rceil> * ulp 10 n x)"

lemma digits_down_code [code]:
  "digits_down n x = (if x = 0 then 0 else scale_round (\<lambda>a d. a div d) 10 (int n - 1 - expo 10 \<bar>x\<bar>) x)"
  using scale_round_eq [of "\<lambda>a d. a div d" floor 10 "int n - 1 - expo 10 \<bar>x\<bar>" x, OF floor_divide_of_int_eq [symmetric]]
  by (simp add: digits_down_def ulp_def algebra_simps)

lemma ceiling_div: "0 < (d :: int) \<Longrightarrow> - (- a div d) = \<lceil>(of_int a :: rat) / of_int d\<rceil>"
  using floor_divide_of_int_eq [where 'a = rat, of "- a" d] by (simp add: ceiling_def)

lemma digits_up_code [code]:
  "digits_up n x = (if x = 0 then 0 else scale_round (\<lambda>a d. - (- a div d)) 10 (int n - 1 - expo 10 \<bar>x\<bar>) x)"
  using scale_round_eq [of "\<lambda>a d. - (- a div d)" ceiling 10 "int n - 1 - expo 10 \<bar>x\<bar>" x, OF ceiling_div]
  by (simp add: digits_up_def ulp_def algebra_simps)

definition repr_candidate :: "nat \<Rightarrow> rat \<Rightarrow> rat option" where
  "repr_candidate n x =
     (let lo = digits_down n x; hi = digits_up n x; lo_ok = fround lo = x; hi_ok = fround hi = x
      in if lo_ok \<and> hi_ok then Some (if x - lo \<le> hi - x then lo else hi)
         else if lo_ok then Some lo else if hi_ok then Some hi else None)"

fun shortest_from :: "nat \<Rightarrow> nat \<Rightarrow> rat \<Rightarrow> rat" where
  "shortest_from 0 n x = x"
| "shortest_from (Suc k) n x = (case repr_candidate n x of Some d \<Rightarrow> d | None \<Rightarrow> shortest_from k (Suc n) x)"

definition dec_of_float :: "flt \<Rightarrow> dec" where
  "dec_of_float f = Dec (shortest_from 17 1 (fval f))"

lemma digits_nonneg: "0 \<le> x \<Longrightarrow> 0 \<le> digits_down n x" "0 \<le> x \<Longrightarrow> 0 \<le> digits_up n x"
proof -
  assume x: "0 \<le> x"
  have u: "0 < ulp 10 n x" by simp
  with x have "0 \<le> x / ulp 10 n x" by (intro divide_nonneg_pos)
  then have "0 \<le> \<lfloor>x / ulp 10 n x\<rfloor>" "0 \<le> \<lceil>x / ulp 10 n x\<rceil>" by linarith+
  with u show "0 \<le> digits_down n x" "0 \<le> digits_up n x"
    by (auto simp: digits_down_def digits_up_def intro!: mult_nonneg_nonneg)
qed

lemma shortest_from_nonneg: "0 \<le> x \<Longrightarrow> 0 \<le> shortest_from k n x"
  by (induction k arbitrary: n)
    (auto simp: repr_candidate_def Let_def digits_nonneg split: option.splits if_splits)

text \<open>The text reads back as the same float, whichever candidate was found.\<close>

lemma shortest_from_reads_back: "fround x = x \<Longrightarrow> fround (shortest_from k n x) = x"
  by (induction k arbitrary: n) (auto simp: repr_candidate_def Let_def split: option.splits if_splits)

lemma dec_of_float_nonneg: "0 \<le> f \<Longrightarrow> 0 \<le> dec_of_float f"
  by (simp add: dec_of_float_def flt_arith dec_arith shortest_from_nonneg)

lemma float_of_dec_of_float: "fround (fval f) = fval f \<Longrightarrow> float_of_dec (dec_of_float f) = f"
  by (simp add: float_of_dec_def dec_of_float_def shortest_from_reads_back)

lemma dec_of_float_pos: "0 < f \<Longrightarrow> fround (fval f) = fval f \<Longrightarrow> 0 < dec_of_float f"
proof -
  assume "0 < f" "fround (fval f) = fval f"
  then have "0 < fround (shortest_from 17 1 (fval f))" by (simp add: shortest_from_reads_back flt_arith)
  then show ?thesis by (simp add: dec_of_float_def dec_arith flt.pos_iff)
qed

end
