(* ===== verification/Portfolio.thy ===== *)
theory Portfolio
  imports Numbers
begin

text \<open>
  The portfolio state machine (\<open>portfolio/state.py\<close>): its state, the pure transitions
  with every raise, and the invariant that each of them keeps.
\<close>

section \<open>State\<close>

datatype position_side = FLAT | LONG

record portfolio =
  quote_balance :: dec
  base_balance :: dec
  position_side :: position_side
  avg_entry_price :: "dec option"
  realized_pnl_quote :: dec
  open_position_entry_fee :: dec
  pnl_is_estimated :: bool

definition portfolio_equity :: "portfolio \<Rightarrow> dec \<Rightarrow> dec" where
  "portfolio_equity s current_price = quote_balance s + base_balance s * current_price"

definition portfolio_initial :: "dec \<Rightarrow> portfolio" where
  "portfolio_initial starting_quote_balance =
     \<lparr>quote_balance = starting_quote_balance, base_balance = 0, position_side = FLAT,
      avg_entry_price = None, realized_pnl_quote = 0, open_position_entry_fee = 0,
      pnl_is_estimated = False\<rparr>"

section \<open>Transitions\<close>

definition apply_buy :: "portfolio \<Rightarrow> dec \<Rightarrow> dec \<Rightarrow> dec \<Rightarrow> bool \<Rightarrow> portfolio result" where
  "apply_buy state quantity price fee_quote fee_is_estimated =
     (if position_side state = LONG then Inl InvalidTransitionError
      else let cost = quantity * price + fee_quote
      in if quote_balance state < cost then Inl InvalidTransitionError
      else Inr (state\<lparr>quote_balance := quote_balance state - cost,
                      base_balance := base_balance state + quantity,
                      position_side := LONG,
                      avg_entry_price := Some price,
                      open_position_entry_fee := fee_quote,
                      pnl_is_estimated := fee_is_estimated\<rparr>))"

definition apply_partial_fill_increase :: "portfolio \<Rightarrow> dec \<Rightarrow> dec \<Rightarrow> dec \<Rightarrow> bool \<Rightarrow> portfolio result" where
  "apply_partial_fill_increase state quantity price fee_quote fee_is_estimated =
     (case (position_side state, avg_entry_price state) of
        (LONG, Some avg) \<Rightarrow>
          let cost = quantity * price + fee_quote
          in if quote_balance state < cost then Inl InvalidTransitionError
          else let total_qty = base_balance state + quantity
          in bindr (ddiv (avg * base_balance state + price * quantity) total_qty) (\<lambda>new_avg.
             Inr (state\<lparr>quote_balance := quote_balance state - cost,
                        base_balance := total_qty,
                        avg_entry_price := Some new_avg,
                        open_position_entry_fee := open_position_entry_fee state + fee_quote,
                        pnl_is_estimated := (pnl_is_estimated state \<or> fee_is_estimated)\<rparr>))
      | _ \<Rightarrow> Inl InvalidTransitionError)"

definition entry_fee_allocated :: "portfolio \<Rightarrow> dec \<Rightarrow> dec" where
  "entry_fee_allocated state quantity =
     (if 0 < base_balance state
      then open_position_entry_fee state * (quantity / base_balance state) else 0)"

definition apply_sell :: "portfolio \<Rightarrow> dec \<Rightarrow> dec \<Rightarrow> dec \<Rightarrow> bool \<Rightarrow> portfolio result" where
  "apply_sell state quantity price fee_quote fee_is_estimated =
     (case (position_side state, avg_entry_price state) of
        (LONG, Some avg) \<Rightarrow>
          if base_balance state < quantity then Inl InvalidTransitionError
          else let proceeds = quantity * price - fee_quote;
                   fee_alloc = entry_fee_allocated state quantity;
                   realized_pnl = quantity * (price - avg) - fee_quote - fee_alloc;
                   remaining_base = base_balance state - quantity;
                   combined_estimated = (pnl_is_estimated state \<or> fee_is_estimated)
          in Inr (state\<lparr>quote_balance := quote_balance state + proceeds,
                        base_balance := remaining_base,
                        position_side := (if 0 < remaining_base then LONG else FLAT),
                        avg_entry_price := (if 0 < remaining_base then Some avg else None),
                        realized_pnl_quote := realized_pnl_quote state + realized_pnl,
                        open_position_entry_fee :=
                          (if 0 < remaining_base then open_position_entry_fee state - fee_alloc else 0),
                        pnl_is_estimated := (if 0 < remaining_base then combined_estimated else False)\<rparr>)
      | _ \<Rightarrow> Inl InvalidTransitionError)"

datatype order_side = BUY_SIDE | SELL_SIDE

definition apply_fill_delta ::
  "portfolio \<Rightarrow> order_side \<Rightarrow> dec \<Rightarrow> dec \<Rightarrow> dec \<Rightarrow> dec \<Rightarrow> bool \<Rightarrow> portfolio result" where
  "apply_fill_delta state side delta_base_qty delta_quote_qty commission_quote commission_base fee_is_estimated =
     (if side = BUY_SIDE then
        let net_base_qty = delta_base_qty - commission_base
        in if net_base_qty \<le> 0 then Inl InvalidTransitionError
        else let effective_price = delta_quote_qty / net_base_qty
        in if position_side state = LONG
           then apply_partial_fill_increase state net_base_qty effective_price commission_quote fee_is_estimated
           else apply_buy state net_base_qty effective_price commission_quote fee_is_estimated
      else if commission_base \<noteq> 0 then Inl UnsupportedCommissionError
      else if delta_base_qty \<le> 0 then Inl InvalidTransitionError
      else apply_sell state delta_base_qty (delta_quote_qty / delta_base_qty) commission_quote fee_is_estimated)"

section \<open>The invariant\<close>

text \<open>
  Long exactly when base is held and then with an entry price; flat means no base, no
  entry price and nothing carried over from a closed position.
\<close>

definition wf_portfolio :: "portfolio \<Rightarrow> bool" where
  "wf_portfolio s \<longleftrightarrow>
     0 \<le> quote_balance s \<and> 0 \<le> open_position_entry_fee s \<and>
     (case position_side s of
        FLAT \<Rightarrow> base_balance s = 0 \<and> avg_entry_price s = None \<and> open_position_entry_fee s = 0
          \<and> \<not> pnl_is_estimated s
      | LONG \<Rightarrow> 0 < base_balance s \<and> (\<exists>a. avg_entry_price s = Some a \<and> 0 \<le> a))"

lemma wf_portfolio_code [code]:
  "wf_portfolio s \<longleftrightarrow>
     0 \<le> quote_balance s \<and> 0 \<le> open_position_entry_fee s \<and>
     (case position_side s of
        FLAT \<Rightarrow> base_balance s = 0 \<and> avg_entry_price s = None \<and> open_position_entry_fee s = 0
          \<and> \<not> pnl_is_estimated s
      | LONG \<Rightarrow> 0 < base_balance s \<and> (case avg_entry_price s of None \<Rightarrow> False | Some a \<Rightarrow> 0 \<le> a))"
  by (auto simp: wf_portfolio_def split: position_side.splits option.splits)

lemma wf_portfolio_FLAT:
  "wf_portfolio s \<Longrightarrow> position_side s = FLAT \<Longrightarrow>
     base_balance s = 0 \<and> avg_entry_price s = None \<and> open_position_entry_fee s = 0"
  by (simp add: wf_portfolio_def)

lemma wf_portfolio_LONG:
  "wf_portfolio s \<Longrightarrow> position_side s = LONG \<longleftrightarrow> 0 < base_balance s"
  by (cases "position_side s") (auto simp: wf_portfolio_def)

lemma wf_portfolio_nonneg: "wf_portfolio s \<Longrightarrow> 0 \<le> base_balance s \<and> 0 \<le> quote_balance s"
  by (cases "position_side s") (auto simp: wf_portfolio_def)

lemma wf_initial: "0 \<le> q \<Longrightarrow> wf_portfolio (portfolio_initial q)"
  by (simp add: wf_portfolio_def portfolio_initial_def)

lemma apply_buy_wf:
  assumes "apply_buy s q p f e = Inr t" "wf_portfolio s" "0 < q" "0 \<le> p" "0 \<le> f"
  shows "wf_portfolio t"
proof -
  have "position_side s = FLAT" using assms(1) by (cases "position_side s") (auto simp: apply_buy_def)
  with assms show ?thesis
    by (auto simp: apply_buy_def Let_def wf_portfolio_def not_less dec_add_nonneg_pos split: if_splits)
qed

lemma apply_partial_fill_increase_wf:
  assumes "apply_partial_fill_increase s q p f e = Inr t" "wf_portfolio s" "0 < q" "0 \<le> p" "0 \<le> f"
  shows "wf_portfolio t"
proof -
  from assms(1) obtain a where a: "position_side s = LONG" "avg_entry_price s = Some a"
    by (auto simp: apply_partial_fill_increase_def split: position_side.splits option.splits)
  with assms(2) have b: "0 < base_balance s" "0 \<le> a" by (auto simp: wf_portfolio_def)
  then have tq: "0 < base_balance s + q" using assms(3) by (simp add: dec_add_pos_nonneg less_imp_le)
  have "0 \<le> (a * base_balance s + p * q) / (base_balance s + q)"
    using b assms(3,4) tq by (intro dec_divide_nonneg dec_add_nonneg dec_mult_nonneg) auto
  with assms a b tq show ?thesis
    by (auto simp: apply_partial_fill_increase_def Let_def wf_portfolio_def not_less split: if_splits)
qed

lemma entry_fee_allocated_le:
  assumes "0 \<le> open_position_entry_fee s" "0 \<le> q" "q \<le> base_balance s"
  shows "0 \<le> entry_fee_allocated s q"
    and "rep (open_position_entry_fee s) \<Longrightarrow> entry_fee_allocated s q \<le> open_position_entry_fee s"
proof -
  show "0 \<le> entry_fee_allocated s q" using assms
    by (auto simp: entry_fee_allocated_def intro!: dec_mult_nonneg dec_divide_nonneg)
  assume r: "rep (open_position_entry_fee s)"
  show "entry_fee_allocated s q \<le> open_position_entry_fee s"
  proof (cases "0 < base_balance s")
    case True
    then have "dval q / dval (base_balance s) \<le> 1" using assms by (simp add: dec_arith)
    then have "dround (dval q / dval (base_balance s)) \<le> dround 1" by (rule dec.mono)
    also have "dround 1 = 1" using rep_integer [of 1] by (simp add: rep_def)
    finally have "dval (open_position_entry_fee s) * dround (dval q / dval (base_balance s))
        \<le> dval (open_position_entry_fee s) * 1"
      using assms(1) by (intro mult_left_mono) (auto simp: dec_arith)
    then show ?thesis using True r
      by (simp add: entry_fee_allocated_def dec_arith rep_def dec.le_representable)
  qed (use assms in \<open>simp add: entry_fee_allocated_def\<close>)
qed

lemma apply_sell_eq:
  "apply_sell s q p f e = Inr t \<longleftrightarrow>
     position_side s = LONG \<and> q \<le> base_balance s \<and>
     (\<exists>a. avg_entry_price s = Some a \<and>
       t = (let rest = 0 < base_balance s - q in
         s\<lparr>quote_balance := quote_balance s + (q * p - f),
           base_balance := base_balance s - q,
           position_side := (if rest then LONG else FLAT),
           avg_entry_price := (if rest then Some a else None),
           realized_pnl_quote := realized_pnl_quote s + (q * (p - a) - f - entry_fee_allocated s q),
           open_position_entry_fee := (if rest then open_position_entry_fee s - entry_fee_allocated s q else 0),
           pnl_is_estimated := (if rest then pnl_is_estimated s \<or> e else False)\<rparr>))"
  by (cases "position_side s"; cases "avg_entry_price s") (auto simp: apply_sell_def Let_def)

text \<open>
  A sell keeps the invariant when its fee does not exceed what the account can bear: the
  code adds \<open>proceeds\<close> without checking their sign.
\<close>

lemma apply_sell_wf:
  assumes "apply_sell s q p f e = Inr t" "wf_portfolio s" "0 < q" "f \<le> q * p"
    and "rep (open_position_entry_fee s)"
  shows "wf_portfolio t"
proof -
  from assms(1) obtain a where a: "position_side s = LONG" "avg_entry_price s = Some a"
    and q: "q \<le> base_balance s" by (auto simp: apply_sell_eq)
  from a assms(2) have s: "0 \<le> quote_balance s" "0 \<le> open_position_entry_fee s" "0 < base_balance s" "0 \<le> a"
    by (auto simp: wf_portfolio_def)
  have fa: "entry_fee_allocated s q \<le> open_position_entry_fee s"
    using entry_fee_allocated_le(2) [OF s(2) _ q assms(5)] assms(3) by simp
  have quote: "0 \<le> quote_balance s + (q * p - f)" using s(1) assms(4) by (intro dec_add_nonneg) auto
  have rem: "\<not> q < base_balance s \<Longrightarrow> base_balance s - q = 0" using q by (simp add: antisym)
  show ?thesis using assms(1) a q s fa quote rem
    by (auto simp: apply_sell_eq Let_def wf_portfolio_def)
qed

text \<open>Representable money stays representable: the transitions only store results of operations.\<close>

definition rep_portfolio :: "portfolio \<Rightarrow> bool" where
  "rep_portfolio s \<longleftrightarrow> rep (quote_balance s) \<and> rep (base_balance s) \<and> rep (realized_pnl_quote s)
     \<and> rep (open_position_entry_fee s)"

lemma apply_sell_rep: "apply_sell s q p f e = Inr t \<Longrightarrow> rep_portfolio t"
  by (auto simp: apply_sell_eq Let_def rep_portfolio_def)

lemma apply_buy_rep: "apply_buy s q p f e = Inr t \<Longrightarrow> rep_portfolio s \<Longrightarrow> rep f \<Longrightarrow> rep_portfolio t"
  by (auto simp: apply_buy_def Let_def rep_portfolio_def split: if_splits)

lemma apply_partial_rep:
  "apply_partial_fill_increase s q p f e = Inr t \<Longrightarrow> rep_portfolio s \<Longrightarrow> rep_portfolio t"
  by (auto simp: apply_partial_fill_increase_def Let_def rep_portfolio_def
      split: position_side.splits option.splits if_splits)

lemma apply_fill_delta_rep:
  assumes "apply_fill_delta s side db dq cq cb e = Inr t" "rep_portfolio s" "rep cq"
  shows "rep_portfolio t"
  using assms
  by (auto simp: apply_fill_delta_def Let_def intro: apply_buy_rep apply_partial_rep apply_sell_rep
      split: if_splits)

lemma apply_fill_delta_wf:
  assumes "apply_fill_delta s side db dq cq cb e = Inr t" "wf_portfolio s" "rep (open_position_entry_fee s)"
    and "0 \<le> dq" "0 \<le> cq" "side = SELL_SIDE \<longrightarrow> cq \<le> db * (dq / db)"
  shows "wf_portfolio t"
proof (cases side)
  case BUY_SIDE
  then have n: "0 < db - cb" using assms(1)
    by (auto simp: apply_fill_delta_def Let_def not_le simp del: dec_diff_pos_iff dec_diff_nonpos_iff split: if_splits)
  then have "0 \<le> dq / (db - cb)" using assms(4) by (simp add: dec_divide_nonneg less_imp_le)
  with BUY_SIDE n assms(1,2,5) show ?thesis
    by (auto simp: apply_fill_delta_def Let_def split: if_splits
        intro: apply_buy_wf apply_partial_fill_increase_wf)
next
  case SELL_SIDE
  with assms show ?thesis
    by (auto simp: apply_fill_delta_def not_le split: if_splits intro: apply_sell_wf)
qed

section \<open>What the transitions do\<close>

lemma apply_sell_full_close:
  assumes "apply_sell s q p f e = Inr t" "q = base_balance s"
  shows "position_side t = FLAT \<and> base_balance t = 0 \<and> avg_entry_price t = None
    \<and> open_position_entry_fee t = 0 \<and> \<not> pnl_is_estimated t"
  using assms by (auto simp: apply_sell_eq Let_def)

lemma apply_sell_never_oversells:
  assumes "apply_sell s q p f e = Inr t"
  shows "q \<le> base_balance s \<and> base_balance t = base_balance s - q"
  using assms by (auto simp: apply_sell_eq Let_def)

lemma apply_sell_is_long:
  assumes "apply_sell s q p f e = Inr t"
  shows "position_side s = LONG"
  using assms by (simp add: apply_sell_eq)

lemma apply_buy_exact:
  assumes "apply_buy s q p f e = Inr t"
  shows "position_side s = FLAT \<and> position_side t = LONG \<and> quote_balance t = quote_balance s - (q * p + f)
    \<and> q * p + f \<le> quote_balance s \<and> base_balance t = base_balance s + q
    \<and> realized_pnl_quote t = realized_pnl_quote s \<and> avg_entry_price t = Some p"
  using assms by (cases "position_side s") (auto simp: apply_buy_def Let_def split: if_splits)

end
