(* ===== verification/Orders.thy ===== *)
theory Orders
  imports Portfolio
begin

text \<open>
  Orders and fills: the exchange's order report and the broker's clock check
  (\<open>execution/testnet_adapter.py\<close>, \<open>execution/binance_signing.py\<close>), symbol parsing
  (\<open>execution/symbol_parsing.py\<close>), client order ids (\<open>execution/client_order_id.py\<close>),
  commission buckets (\<open>execution/fees.py\<close>), what a report adds to a portfolio
  (\<open>execution/order_outcome.py\<close>) and the classification of a reconciled order
  (\<open>execution/reconciliation.py\<close>).
\<close>

section \<open>Order reports\<close>

record fill =
  fl_price :: dec
  fl_qty :: dec
  fl_commission :: dec
  fl_commission_asset :: string

record order_result =
  or_order_id :: int
  or_client_order_id :: string
  or_status :: string
  or_executed_qty :: dec
  or_cumulative_quote_qty :: dec
  or_transact_time_ms :: int
  or_fills :: "fill list"

definition compute_clock_offset :: "int \<Rightarrow> int \<Rightarrow> int \<Rightarrow> int result" where
  "compute_clock_offset server_time_ms local_time_ms max_drift_ms =
     (let offset_ms = server_time_ms - local_time_ms
      in if max_drift_ms < \<bar>offset_ms\<bar> then Inl ClockDriftError else Inr offset_ms)"

definition DEFAULT_MAX_CLOCK_DRIFT_MS :: int where
  "DEFAULT_MAX_CLOCK_DRIFT_MS = 1000"

section \<open>Symbols and client order ids\<close>

definition KNOWN_QUOTE_ASSETS :: "string list" where
  "KNOWN_QUOTE_ASSETS = [''USDT'', ''USDC'', ''BUSD'', ''BTC'', ''ETH'']"

definition quote_asset_of :: "string \<Rightarrow> string result" where
  "quote_asset_of symbol =
     of_option (ValueError ''quote asset'') (find (\<lambda>suffix. ends_with symbol suffix) KNOWN_QUOTE_ASSETS)"

definition base_asset_of :: "string \<Rightarrow> string result" where
  "base_asset_of symbol = bindr (quote_asset_of symbol) (\<lambda>q. Inr (take (length symbol - length q) symbol))"

lemma base_quote_split:
  assumes "quote_asset_of s = Inr q" "base_asset_of s = Inr b"
  shows "b @ q = s"
proof -
  from assms(1) have "ends_with s q"
    by (auto simp: quote_asset_of_def KNOWN_QUOTE_ASSETS_def split: if_splits)
  moreover from assms have "b = take (length s - length q) s" by (simp add: base_asset_of_def)
  ultimately show ?thesis by (metis append_take_drop_id ends_with_def)
qed

lemma base_asset_of_ok_iff: "is_ok (base_asset_of s) \<longleftrightarrow> is_ok (quote_asset_of s)"
  by (cases "quote_asset_of s") (simp_all add: base_asset_of_def)

lemma base_ne_quote:
  assumes "quote_asset_of s = Inr q" "base_asset_of s = Inr b" "length s \<noteq> 2 * length q"
  shows "b \<noteq> q"
  using base_quote_split [OF assms(1,2)] assms(3) by auto

text \<open>
  The id is the first 24 hexadecimal digits of a digest of symbol, side and candle time;
  the digest (\<open>hashlib.sha256(...).hexdigest()\<close>) is a parameter.
\<close>

definition upper_char :: "char \<Rightarrow> char" where
  "upper_char c = (let n = of_char c :: int in if 97 \<le> n \<and> n \<le> 122 then char_of (n - 32) else c)"

definition MAX_LENGTH :: nat where
  "MAX_LENGTH = 36"

definition generate_client_order_id ::
  "(string \<Rightarrow> string) \<Rightarrow> string \<Rightarrow> string \<Rightarrow> int \<Rightarrow> string" where
  "generate_client_order_id sha256_hex symbol side signal_candle_close_time_ms =
     (let raw = symbol @ ''|'' @ map upper_char side @ ''|'' @ int_str signal_candle_close_time_ms;
          digest = take 24 (sha256_hex raw)
      in ''ta-'' @ digest)"

lemma client_order_id_length:
  "(\<And>raw. length (sha raw) = 64) \<Longrightarrow>
   length (generate_client_order_id sha symbol side t) = 27 \<and> 27 \<le> MAX_LENGTH"
  by (simp add: generate_client_order_id_def Let_def MAX_LENGTH_def)

section \<open>Commission buckets\<close>

type_synonym commissions = "string \<rightharpoonup> dec"

definition add_commission :: "commissions \<Rightarrow> string \<Rightarrow> dec \<Rightarrow> commissions" where
  "add_commission m asset amount = m(asset \<mapsto> (case m asset of None \<Rightarrow> 0 | Some c \<Rightarrow> c) + amount)"

fun bucket_loop :: "string \<Rightarrow> string \<Rightarrow> dec \<Rightarrow> dec \<Rightarrow> commissions \<Rightarrow> fill list \<Rightarrow> dec \<times> dec \<times> commissions" where
  "bucket_loop qa ba cq cb co [] = (cq, cb, co)"
| "bucket_loop qa ba cq cb co (f # fs) =
     (if fl_commission_asset f = qa then bucket_loop qa ba (cq + fl_commission f) cb co fs
      else if fl_commission_asset f = ba then bucket_loop qa ba cq (cb + fl_commission f) co fs
      else bucket_loop qa ba cq cb (add_commission co (fl_commission_asset f) (fl_commission f)) fs)"

definition estimate_fee_from_notional :: "dec \<Rightarrow> dec \<Rightarrow> dec" where
  "estimate_fee_from_notional notional fallback_fee_pct = notional * fallback_fee_pct"

definition compute_commission_buckets ::
  "fill list \<Rightarrow> string \<Rightarrow> string \<Rightarrow> dec \<Rightarrow> dec \<Rightarrow> dec \<times> dec \<times> commissions \<times> bool" where
  "compute_commission_buckets fills quote_asset base_asset fallback_notional fallback_fee_pct =
     (if fills = []
      then (estimate_fee_from_notional fallback_notional fallback_fee_pct, 0, Map.empty, True)
      else case bucket_loop quote_asset base_asset 0 0 Map.empty fills of
        (cq, cb, co) \<Rightarrow> (cq, cb, co, False))"

lemma dom_add_commission [simp]: "dom (add_commission m a x) = insert a (dom m)"
  by (auto simp: add_commission_def)

lemma bucket_loop_nonneg:
  assumes "bucket_loop qa ba cq cb co fs = (cq', cb', co')" "0 \<le> cq" "0 \<le> cb" "\<forall>f\<in>set fs. 0 \<le> fl_commission f"
  shows "0 \<le> cq' \<and> 0 \<le> cb'"
  using assms
  by (induction qa ba cq cb co fs rule: bucket_loop.induct) (auto split: if_splits)

lemma bucket_loop_rep:
  assumes "bucket_loop qa ba cq cb co fs = (cq', cb', co')" "rep cq" "rep cb"
  shows "rep cq' \<and> rep cb'"
  using assms
  by (induction qa ba cq cb co fs rule: bucket_loop.induct) (auto split: if_splits)

text \<open>A commission in a third asset never touches the quote or base bucket, and the other map
  holds third assets only.\<close>

lemma bucket_loop_other_dom:
  assumes "bucket_loop qa ba cq cb co fs = (cq', cb', co')"
  shows "dom co' = dom co \<union> {a. a \<in> fl_commission_asset ` set fs \<and> a \<noteq> qa \<and> a \<noteq> ba}"
  using assms
proof (induction qa ba cq cb co fs rule: bucket_loop.induct)
  case (2 qa ba cq cb co f fs)
  consider "fl_commission_asset f = qa" | "fl_commission_asset f \<noteq> qa" "fl_commission_asset f = ba"
    | "fl_commission_asset f \<noteq> qa" "fl_commission_asset f \<noteq> ba" by blast
  then show ?case
  proof cases
    case 1 then show ?thesis using "2.IH"(1) "2.prems" by auto
  next
    case 2 then show ?thesis using "2.IH"(2) "2.prems" by auto
  next
    case 3 then show ?thesis using "2.IH"(3) "2.prems" by auto
  qed
qed auto

lemma bucket_loop_filter:
  "\<forall>f\<in>set fs. fl_commission_asset f \<noteq> qa \<and> fl_commission_asset f \<noteq> ba \<Longrightarrow>
   bucket_loop qa ba cq cb co fs = (cq', cb', co') \<Longrightarrow> cq' = cq \<and> cb' = cb"
  by (induction qa ba cq cb co fs rule: bucket_loop.induct) auto

lemma compute_commission_nonneg:
  assumes "compute_commission_buckets fs qa ba n p = (cq, cb, co, e)" "0 \<le> n" "0 \<le> p"
    and "\<forall>f\<in>set fs. 0 \<le> fl_commission f"
  shows "0 \<le> cq \<and> 0 \<le> cb \<and> rep cq \<and> rep cb"
  using assms bucket_loop_nonneg [of qa ba 0 0 Map.empty fs] bucket_loop_rep [of qa ba 0 0 Map.empty fs]
  by (auto simp: compute_commission_buckets_def estimate_fee_from_notional_def split: if_splits prod.splits)

section \<open>What a report adds\<close>

definition TERMINAL_STATUSES :: "string list" where
  "TERMINAL_STATUSES = [''FILLED'', ''CANCELED'', ''REJECTED'', ''EXPIRED'', ''NEVER_SUBMITTED'']"

definition JOURNAL_EVENT_BY_STATUS :: "(string \<times> string) list" where
  "JOURNAL_EVENT_BY_STATUS =
    [(''NEW'', ''ORDER_OPEN''), (''PARTIALLY_FILLED'', ''ORDER_PARTIALLY_FILLED''),
     (''FILLED'', ''ORDER_FILLED''), (''CANCELED'', ''ORDER_CANCELED''),
     (''REJECTED'', ''ORDER_REJECTED''), (''EXPIRED'', ''ORDER_EXPIRED''),
     (''NEVER_SUBMITTED'', ''ORDER_NEVER_SUBMITTED'')]"

text \<open>
  Journal payloads: JSON objects with the value kinds the program writes; the text of an
  exception (\<open>str(exc)\<close>) is known by its class.
\<close>

datatype jval = JStr string | JInt int | JDec dec | JFlt flt | JNaN | JBool bool | JDecs commissions | JExn exn

type_synonym payload = "(string \<times> jval) list"

record order_application =
  oa_portfolio :: portfolio
  oa_is_terminal :: bool
  oa_executed_qty :: dec
  oa_cumulative_quote_qty :: dec
  oa_commission_quote :: dec
  oa_commission_base :: dec
  oa_commission_other :: commissions
  oa_event_type :: string
  oa_payload :: payload
  oa_realized_pnl_delta :: "dec option"

text \<open>What has been applied of an order so far.\<close>

record applied =
  ap_executed_qty :: dec
  ap_cumulative_quote_qty :: dec
  ap_commission_quote :: dec
  ap_commission_base :: dec
  ap_commission_other :: commissions

definition merge_commissions :: "commissions \<Rightarrow> commissions \<Rightarrow> commissions" where
  "merge_commissions m d = (\<lambda>asset. case d asset of None \<Rightarrow> m asset
     | Some amount \<Rightarrow> Some ((case m asset of None \<Rightarrow> 0 | Some c \<Rightarrow> c) + amount))"

definition unchanged_application ::
  "portfolio \<Rightarrow> bool \<Rightarrow> applied \<Rightarrow> string \<Rightarrow> payload \<Rightarrow> order_application" where
  "unchanged_application portfolio terminal a event pl =
     \<lparr>oa_portfolio = portfolio, oa_is_terminal = terminal,
      oa_executed_qty = ap_executed_qty a, oa_cumulative_quote_qty = ap_cumulative_quote_qty a,
      oa_commission_quote = ap_commission_quote a, oa_commission_base = ap_commission_base a,
      oa_commission_other = ap_commission_other a, oa_event_type = event, oa_payload = pl,
      oa_realized_pnl_delta = None\<rparr>"

definition order_event :: "string \<Rightarrow> string" where
  "order_event status = (case map_of JOURNAL_EVENT_BY_STATUS status of None \<Rightarrow> ''ORDER_UNKNOWN_STATUS'' | Some e \<Rightarrow> e)"

definition order_terminal :: "string \<Rightarrow> bool" where
  "order_terminal status \<longleftrightarrow> status \<in> set TERMINAL_STATUSES"

definition compute_order_application ::
  "order_result \<Rightarrow> order_side \<Rightarrow> string \<Rightarrow> string \<Rightarrow> portfolio \<Rightarrow> applied \<Rightarrow> dec \<Rightarrow> order_application result" where
  "compute_order_application order side quote_asset base_asset portfolio a fallback_fee_pct =
     (let status = or_status order;
          is_terminal = order_terminal status;
          event_type = order_event status
      in if or_executed_qty order < ap_executed_qty a then Inl InconsistentExecutionReportError
      else if or_cumulative_quote_qty order < ap_cumulative_quote_qty a then Inl InconsistentExecutionReportError
      else if (or_executed_qty order = 0) \<noteq> (or_cumulative_quote_qty order = 0)
        then Inl InconsistentExecutionReportError
      else if status = ''NEW''
        then Inr (unchanged_application portfolio False a event_type
               [(''status'', JStr status), (''order_id'', JInt (or_order_id order))])
      else let delta_base_qty = or_executed_qty order - ap_executed_qty a;
               delta_quote_qty = or_cumulative_quote_qty order - ap_cumulative_quote_qty a
      in if delta_base_qty \<le> 0
        then Inr (unchanged_application portfolio is_terminal a event_type
               [(''status'', JStr status), (''order_id'', JInt (or_order_id order)),
                (''executed_qty'', JDec (or_executed_qty order))])
      else case compute_commission_buckets (or_fills order) quote_asset base_asset delta_quote_qty fallback_fee_pct of
        (cq, cb, co, is_estimated) \<Rightarrow>
          bindr (apply_fill_delta portfolio side delta_base_qty delta_quote_qty cq cb is_estimated) (\<lambda>new_portfolio.
          Inr \<lparr>oa_portfolio = new_portfolio, oa_is_terminal = is_terminal,
               oa_executed_qty = or_executed_qty order,
               oa_cumulative_quote_qty = or_cumulative_quote_qty order,
               oa_commission_quote = ap_commission_quote a + cq,
               oa_commission_base = ap_commission_base a + cb,
               oa_commission_other = merge_commissions (ap_commission_other a) co,
               oa_event_type = event_type,
               oa_payload =
                 [(''status'', JStr status), (''order_id'', JInt (or_order_id order)),
                  (''applied_qty'', JDec delta_base_qty), (''applied_quote'', JDec delta_quote_qty),
                  (''commission_quote'', JDec cq), (''commission_base'', JDec cb),
                  (''commission_other'', JDecs co), (''fee_is_estimated'', JBool is_estimated)],
               oa_realized_pnl_delta =
                 (if side = BUY_SIDE then None
                  else Some (realized_pnl_quote new_portfolio - realized_pnl_quote portfolio))\<rparr>))"

subsection \<open>What the application promises\<close>

text \<open>The three ways a report is accepted.\<close>

lemma compute_order_application_cases:
  assumes "compute_order_application order side qa ba p a fee = Inr r"
  obtains (unchanged) t pl where "r = unchanged_application p t a (order_event (or_status order)) pl"
      "t \<longrightarrow> order_terminal (or_status order)"
      "or_status order = ''NEW'' \<or> (t = order_terminal (or_status order) \<and> or_executed_qty order = ap_executed_qty a)"
  | (applied) cq cb co est new where
      "ap_executed_qty a < or_executed_qty order"
      "compute_commission_buckets (or_fills order) qa ba
         (or_cumulative_quote_qty order - ap_cumulative_quote_qty a) fee = (cq, cb, co, est)"
      "apply_fill_delta p side (or_executed_qty order - ap_executed_qty a)
         (or_cumulative_quote_qty order - ap_cumulative_quote_qty a) cq cb est = Inr new"
      "oa_portfolio r = new" "oa_executed_qty r = or_executed_qty order"
      "oa_cumulative_quote_qty r = or_cumulative_quote_qty order"
      "oa_is_terminal r = order_terminal (or_status order)"
      "oa_commission_quote r = ap_commission_quote a + cq" "oa_commission_base r = ap_commission_base a + cb"
      "oa_commission_other r = merge_commissions (ap_commission_other a) co"
      "oa_event_type r = order_event (or_status order)"
      "oa_realized_pnl_delta r = (if side = BUY_SIDE then None
         else Some (realized_pnl_quote new - realized_pnl_quote p))"
proof -
  let ?b = "compute_commission_buckets (or_fills order) qa ba
         (or_cumulative_quote_qty order - ap_cumulative_quote_qty a) fee"
  obtain cq cb co est where b: "?b = (cq, cb, co, est)" by (metis prod_cases4)
  show ?thesis
    using assms unchanged applied [OF _ b] unfolding compute_order_application_def Let_def b
    by (force simp: not_less not_le order_terminal_def TERMINAL_STATUSES_def split: if_splits)
qed

text \<open>
  Never below what was applied; and the applied amounts after a report are the exchange's
  own cumulative figures whenever anything new was executed.
\<close>

lemma compute_order_application_progress:
  assumes "compute_order_application order side qa ba p a fee = Inr r"
  shows "ap_executed_qty a \<le> oa_executed_qty r \<and> ap_cumulative_quote_qty a \<le> oa_cumulative_quote_qty r"
proof -
  have q: "ap_cumulative_quote_qty a \<le> or_cumulative_quote_qty order"
    using assms by (auto simp: compute_order_application_def Let_def not_less split: if_splits)
  show ?thesis using assms
    by (cases rule: compute_order_application_cases) (auto simp: unchanged_application_def q)
qed

definition applied_of :: "order_application \<Rightarrow> applied" where
  "applied_of r = \<lparr>ap_executed_qty = oa_executed_qty r, ap_cumulative_quote_qty = oa_cumulative_quote_qty r,
     ap_commission_quote = oa_commission_quote r, ap_commission_base = oa_commission_base r,
     ap_commission_other = oa_commission_other r\<rparr>"

lemma applied_of_unchanged [simp]: "applied_of (unchanged_application p t a e pl) = a"
  by (cases a) (simp add: applied_of_def unchanged_application_def)

text \<open>
  Observing the same report again applies nothing: no fill is counted twice.
\<close>

lemma compute_order_application_idempotent:
  assumes "compute_order_application order side qa ba p a fee = Inr r"
  shows "\<exists>r2. compute_order_application order side qa ba (oa_portfolio r) (applied_of r) fee = Inr r2
    \<and> oa_portfolio r2 = oa_portfolio r \<and> applied_of r2 = applied_of r \<and> oa_realized_pnl_delta r2 = None"
proof -
  have g: "\<not> or_executed_qty order < ap_executed_qty a" "\<not> or_cumulative_quote_qty order < ap_cumulative_quote_qty a"
    "(or_executed_qty order = 0) = (or_cumulative_quote_qty order = 0)"
    using assms by (auto simp: compute_order_application_def Let_def split: if_splits)
  from assms show ?thesis
  proof (cases rule: compute_order_application_cases)
    case (unchanged t pl)
    from unchanged(3) have "or_status order = ''NEW'' \<or> or_executed_qty order = ap_executed_qty a" by blast
    with g unchanged(1) show ?thesis
      by (auto simp: compute_order_application_def Let_def applied_of_def unchanged_application_def)
  next
    case (applied cq cb co est new)
    then show ?thesis using g
      by (simp add: compute_order_application_def Let_def applied_of_def unchanged_application_def)
  qed
qed

section \<open>Classifying a reconciled order\<close>

datatype reconciled_status = CONFIRMED_TERMINAL | CONFIRMED_OPEN | NOT_FOUND | UNKNOWN

definition ORDER_DOES_NOT_EXIST_CODE :: int where
  "ORDER_DOES_NOT_EXIST_CODE = -2013"

definition classify_status :: "string \<Rightarrow> reconciled_status" where
  "classify_status status =
     (if status \<in> {''FILLED'', ''CANCELED'', ''REJECTED'', ''EXPIRED''} then CONFIRMED_TERMINAL
      else if status \<in> {''NEW'', ''PARTIALLY_FILLED''} then CONFIRMED_OPEN
      else UNKNOWN)"

text \<open>
  The answer of \<open>get_order\<close> (a parameter, the exchange): only a \<open>BinanceApiError\<close> is
  caught, any other exception leaves the function.
\<close>

definition reconcile_order :: "order_result result \<Rightarrow> (reconciled_status \<times> order_result option) result" where
  "reconcile_order answer =
     (case answer of
        Inl (BinanceApiError code) \<Rightarrow>
          Inr (if code = Some ORDER_DOES_NOT_EXIST_CODE then (NOT_FOUND, None) else (UNKNOWN, None))
      | Inl e \<Rightarrow> Inl e
      | Inr order \<Rightarrow> Inr (classify_status (or_status order), Some order))"

definition safe_to_retry :: "reconciled_status \<Rightarrow> bool" where
  "safe_to_retry status \<longleftrightarrow> status = NOT_FOUND"

lemma safe_to_retry_iff:
  "reconcile_order answer = Inr (status, ord) \<Longrightarrow>
   safe_to_retry status \<longleftrightarrow> answer = Inl (BinanceApiError (Some ORDER_DOES_NOT_EXIST_CODE))"
  by (auto simp: reconcile_order_def safe_to_retry_def classify_status_def split: sum.splits exn.splits if_splits)

lemma classify_terminal: "classify_status s = CONFIRMED_TERMINAL \<Longrightarrow> order_terminal s"
  by (auto simp: classify_status_def order_terminal_def TERMINAL_STATUSES_def split: if_splits)

lemma classify_open: "classify_status s = CONFIRMED_OPEN \<Longrightarrow> \<not> order_terminal s"
  by (auto simp: classify_status_def order_terminal_def TERMINAL_STATUSES_def split: if_splits)

end
