(* ===== verification/Execution_Store.thy ===== *)
theory Execution_Store
  imports Orders
begin

text \<open>
  The transactional store of portfolio state and pending orders
  (\<open>persistence/execution_store.py\<close>), the risk-state store
  (\<open>persistence/risk_state_store.py\<close>) and the append-only journal
  (\<open>journal/journal.py\<close>). A database is its tables; the TEXT columns hold exact decimals,
  so a row is its decoded record. The fault-injection seam of the tests is kept: it is what
  makes a failure between two writes of one transaction a branch of the model.
\<close>

section \<open>Tables\<close>

record pending_order =
  po_client_order_id :: string
  po_symbol :: string
  po_side :: string
  po_requested_quantity :: dec
  po_signal_candle_close_time_ms :: int
  po_submitted_at_ms :: int
  po_status :: string
  po_applied :: applied
  po_resolved_order_status :: "string option"
  po_resolved_at_ms :: "int option"

record exec_db =
  portfolio_state :: "string \<rightharpoonup> portfolio \<times> int"
  pending_orders :: "pending_order list"
  raise_fault_at :: "string option"

definition STATUS_SUBMITTED :: string where
  "STATUS_SUBMITTED = ''SUBMITTED''"

definition STATUS_RESOLVED :: string where
  "STATUS_RESOLVED = ''RESOLVED''"

lemma statuses_differ [simp]: "STATUS_SUBMITTED \<noteq> STATUS_RESOLVED" "STATUS_RESOLVED \<noteq> STATUS_SUBMITTED"
  by (simp_all add: STATUS_SUBMITTED_def STATUS_RESOLVED_def)

definition no_applied :: applied where
  "no_applied = \<lparr>ap_executed_qty = 0, ap_cumulative_quote_qty = 0, ap_commission_quote = 0,
     ap_commission_base = 0, ap_commission_other = Map.empty\<rparr>"

section \<open>Reads and direct writes\<close>

definition load_portfolio :: "string \<Rightarrow> exec_db \<Rightarrow> portfolio option" where
  "load_portfolio symbol db = map_option fst (portfolio_state db symbol)"

definition write_portfolio :: "string \<Rightarrow> portfolio \<Rightarrow> int \<Rightarrow> exec_db \<Rightarrow> exec_db" where
  "write_portfolio symbol state updated_at_ms db =
     db\<lparr>portfolio_state := (portfolio_state db)(symbol \<mapsto> (state, updated_at_ms))\<rparr>"

definition save_portfolio :: "string \<Rightarrow> portfolio \<Rightarrow> int \<Rightarrow> exec_db \<Rightarrow> exec_db" where
  "save_portfolio symbol state updated_at_ms db = write_portfolio symbol state updated_at_ms db"

definition get_pending :: "string \<Rightarrow> exec_db \<Rightarrow> pending_order option" where
  "get_pending client_order_id db = find (\<lambda>r. po_client_order_id r = client_order_id) (pending_orders db)"

definition create_pending ::
  "string \<Rightarrow> string \<Rightarrow> string \<Rightarrow> dec \<Rightarrow> int \<Rightarrow> int \<Rightarrow> exec_db \<Rightarrow> exec_db" where
  "create_pending client_order_id symbol side requested_quantity signal_time submitted_at_ms db =
     (if get_pending client_order_id db \<noteq> None then db
      else db\<lparr>pending_orders := pending_orders db @
        [\<lparr>po_client_order_id = client_order_id, po_symbol = symbol, po_side = side,
          po_requested_quantity = requested_quantity, po_signal_candle_close_time_ms = signal_time,
          po_submitted_at_ms = submitted_at_ms, po_status = STATUS_SUBMITTED, po_applied = no_applied,
          po_resolved_order_status = None, po_resolved_at_ms = None\<rparr>]\<rparr>)"

definition load_open_pending :: "string \<Rightarrow> exec_db \<Rightarrow> pending_order list" where
  "load_open_pending symbol db =
     sort_key po_submitted_at_ms
       (filter (\<lambda>r. po_symbol r = symbol \<and> po_status r = STATUS_SUBMITTED) (pending_orders db))"

section \<open>The atomic application of an order report\<close>

definition maybe_raise_fault :: "string \<Rightarrow> (exec_db, unit) step" where
  "maybe_raise_fault point =
     (\<lambda>db. if raise_fault_at db = Some point then (Inl InjectedTestFault, db) else (Inr (), db))"

definition resolve_row :: "order_result \<Rightarrow> order_application \<Rightarrow> int \<Rightarrow> pending_order \<Rightarrow> pending_order" where
  "resolve_row order result now_ms r =
     (if po_client_order_id r = or_client_order_id order
      then r\<lparr>po_applied := applied_of result,
             po_status := (if oa_is_terminal result then STATUS_RESOLVED else STATUS_SUBMITTED),
             po_resolved_order_status := (if oa_is_terminal result then Some (or_status order) else None),
             po_resolved_at_ms := (if oa_is_terminal result then Some now_ms else None)\<rparr>
      else r)"

definition update_pending :: "order_result \<Rightarrow> order_application \<Rightarrow> int \<Rightarrow> exec_db \<Rightarrow> exec_db" where
  "update_pending order result now_ms db =
     db\<lparr>pending_orders := map (resolve_row order result now_ms) (pending_orders db)\<rparr>"

definition apply_order_body ::
  "string \<Rightarrow> string \<Rightarrow> string \<Rightarrow> order_result \<Rightarrow> dec \<Rightarrow> int \<Rightarrow> (exec_db, order_application) step" where
  "apply_order_body symbol quote_asset base_asset order fallback_fee_pct now_ms =
     sbind (sget (get_pending (or_client_order_id order))) (\<lambda>row.
     sbind (slift (of_option (ValueError ''no pending record'') row)) (\<lambda>pending.
     sbind (sget (load_portfolio symbol)) (\<lambda>pf.
     sbind (slift (of_option (ValueError ''no portfolio'') pf)) (\<lambda>portfolio.
     sbind (maybe_raise_fault ''before_write'') (\<lambda>_.
     sbind (slift (compute_order_application order
         (if po_side pending = ''BUY'' then BUY_SIDE else SELL_SIDE)
         quote_asset base_asset portfolio (po_applied pending) fallback_fee_pct)) (\<lambda>result.
     sbind (smodify (write_portfolio symbol (oa_portfolio result) now_ms)) (\<lambda>_.
     sbind (maybe_raise_fault ''after_portfolio_write'') (\<lambda>_.
     sbind (smodify (update_pending order result now_ms)) (\<lambda>_.
     sbind (maybe_raise_fault ''before_commit'') (\<lambda>_.
     sreturn result))))))))))"

definition apply_order_result_atomically ::
  "string \<Rightarrow> string \<Rightarrow> string \<Rightarrow> order_result \<Rightarrow> dec \<Rightarrow> int \<Rightarrow> (exec_db, order_application) step" where
  "apply_order_result_atomically symbol quote_asset base_asset order fallback_fee_pct now_ms =
     atomically (apply_order_body symbol quote_asset base_asset order fallback_fee_pct now_ms)"

subsection \<open>All or nothing\<close>

lemma apply_order_rollback:
  "apply_order_result_atomically sy qa ba order fee now db = (Inl e, db') \<Longrightarrow> db' = db"
  unfolding apply_order_result_atomically_def by (rule atomically_Inl)

text \<open>What a commit means: the report was computed from the stored rows, and both tables
  changed together.\<close>

lemma apply_order_commit:
  "apply_order_result_atomically sy qa ba order fee now db = (Inr r, db') \<longleftrightarrow>
   (\<exists>pending p. get_pending (or_client_order_id order) db = Some pending \<and> load_portfolio sy db = Some p \<and>
      raise_fault_at db \<notin> {Some ''before_write'', Some ''after_portfolio_write'', Some ''before_commit''} \<and>
      compute_order_application order (if po_side pending = ''BUY'' then BUY_SIDE else SELL_SIDE)
        qa ba p (po_applied pending) fee = Inr r \<and>
      db' = update_pending order r now (write_portfolio sy (oa_portfolio r) now db))"
  unfolding apply_order_result_atomically_def atomically_Inr apply_order_body_def
  by (auto simp: sbind_eq_Inr maybe_raise_fault_def write_portfolio_def update_pending_def split: if_splits)

text \<open>The store invariant: one row per client order id, and a row is resolved exactly when it
  says how and when.\<close>

definition row_ok :: "pending_order \<Rightarrow> bool" where
  "row_ok r \<longleftrightarrow>
     (po_status r = STATUS_SUBMITTED \<and> po_resolved_order_status r = None \<and> po_resolved_at_ms r = None) \<or>
     (po_status r = STATUS_RESOLVED \<and> (\<exists>s. po_resolved_order_status r = Some s \<and> order_terminal s)
       \<and> po_resolved_at_ms r \<noteq> None)"

definition store_inv :: "exec_db \<Rightarrow> bool" where
  "store_inv db \<longleftrightarrow> distinct (map po_client_order_id (pending_orders db)) \<and> (\<forall>r\<in>set (pending_orders db). row_ok r)"

lemma resolve_row_id [simp]: "po_client_order_id (resolve_row order res now r) = po_client_order_id r"
  by (simp add: resolve_row_def)

lemma resolve_row_comp_id [simp]: "po_client_order_id \<circ> resolve_row order res now = po_client_order_id"
  by (simp add: fun_eq_iff)

lemma application_terminal:
  assumes "compute_order_application order side qa ba p a fee = Inr r" "oa_is_terminal r"
  shows "order_terminal (or_status order)"
  using assms(1)
  by (cases rule: compute_order_application_cases) (use assms(2) in \<open>auto simp: unchanged_application_def\<close>)

lemma resolve_row_ok: "row_ok r \<Longrightarrow> (oa_is_terminal res \<Longrightarrow> order_terminal (or_status order)) \<Longrightarrow>
    row_ok (resolve_row order res now r)"
  by (auto simp: row_ok_def resolve_row_def)

lemma store_inv_create: "store_inv db \<Longrightarrow> store_inv (create_pending i sy sd q t now db)"
  by (auto simp: store_inv_def create_pending_def get_pending_def find_None_iff row_ok_def)

lemma store_inv_write: "store_inv db \<Longrightarrow> store_inv (write_portfolio sy p now db)"
  by (simp add: store_inv_def write_portfolio_def)

lemma store_inv_apply:
  assumes "apply_order_result_atomically sy qa ba order fee now db = (r, db')" "store_inv db"
  shows "store_inv db'"
proof (cases r)
  case (Inl e)
  then show ?thesis using assms apply_order_rollback by blast
next
  case (Inr res)
  with assms(1) obtain pending :: pending_order and p where
    c: "compute_order_application order (if po_side pending = ''BUY'' then BUY_SIDE else SELL_SIDE)
        qa ba p (po_applied pending) fee = Inr res"
    and db': "db' = update_pending order res now (write_portfolio sy (oa_portfolio res) now db)"
    unfolding Inr apply_order_commit by blast
  show ?thesis unfolding db' using assms(2) application_terminal [OF c]
    by (auto simp: store_inv_def update_pending_def write_portfolio_def intro: resolve_row_ok)
qed

lemma find_map_resolve:
  "find (\<lambda>r. po_client_order_id r = i) (map (resolve_row order res now) rs) =
   map_option (resolve_row order res now) (find (\<lambda>r. po_client_order_id r = i) rs)"
  by (induction rs) auto

lemma get_pending_update:
  "get_pending i (update_pending order res now db) = map_option (resolve_row order res now) (get_pending i db)"
  by (simp add: get_pending_def update_pending_def find_map_resolve)

lemma get_pending_write [simp]: "get_pending i (write_portfolio sy p now db) = get_pending i db"
  by (simp add: get_pending_def write_portfolio_def)

lemma load_portfolio_update [simp]: "load_portfolio s (update_pending order res now db) = load_portfolio s db"
  by (simp add: load_portfolio_def update_pending_def)

lemma load_portfolio_write:
  "load_portfolio s (write_portfolio sy p now db) = (if s = sy then Some p else load_portfolio s db)"
  by (simp add: load_portfolio_def write_portfolio_def)

lemma fault_writes [simp]:
  "raise_fault_at (update_pending order res now db) = raise_fault_at db"
  "raise_fault_at (write_portfolio sy p now db) = raise_fault_at db"
  by (simp_all add: update_pending_def write_portfolio_def)

lemma get_pending_id: "get_pending i db = Some r \<Longrightarrow> po_client_order_id r = i"
  by (auto simp: get_pending_def find_Some_iff)

subsection \<open>Exactly once\<close>

text \<open>
  Applying a report that was already applied commits again but adds nothing: the portfolio
  and the applied amounts stay as they are.
\<close>

lemma apply_order_twice:
  assumes "apply_order_result_atomically sy qa ba order fee now db = (Inr r, db')"
  shows "\<exists>r2 db2. apply_order_result_atomically sy qa ba order fee now2 db' = (Inr r2, db2)
    \<and> load_portfolio sy db2 = load_portfolio sy db'
    \<and> map_option po_applied (get_pending (or_client_order_id order) db2)
      = map_option po_applied (get_pending (or_client_order_id order) db')
    \<and> oa_realized_pnl_delta r2 = None"
proof -
  from assms obtain pending :: pending_order and p where
    g: "get_pending (or_client_order_id order) db = Some pending" and "load_portfolio sy db = Some p"
    and f: "raise_fault_at db \<notin> {Some ''before_write'', Some ''after_portfolio_write'', Some ''before_commit''}"
    and c: "compute_order_application order (if po_side pending = ''BUY'' then BUY_SIDE else SELL_SIDE)
        qa ba p (po_applied pending) fee = Inr r"
    and db': "db' = update_pending order r now (write_portfolio sy (oa_portfolio r) now db)"
    unfolding apply_order_commit by blast
  let ?row = "resolve_row order r now pending"
  have g': "get_pending (or_client_order_id order) db' = Some ?row"
    by (simp add: db' get_pending_update g)
  have row: "po_applied ?row = applied_of r" "po_side ?row = po_side pending"
    using get_pending_id [OF g] by (simp_all add: resolve_row_def)
  have p': "load_portfolio sy db' = Some (oa_portfolio r)" by (simp add: db' load_portfolio_write)
  obtain r2 where r2: "compute_order_application order (if po_side pending = ''BUY'' then BUY_SIDE else SELL_SIDE)
      qa ba (oa_portfolio r) (applied_of r) fee = Inr r2"
    "oa_portfolio r2 = oa_portfolio r" "applied_of r2 = applied_of r" "oa_realized_pnl_delta r2 = None"
    using compute_order_application_idempotent [OF c] by blast
  let ?db2 = "update_pending order r2 now2 (write_portfolio sy (oa_portfolio r2) now2 db')"
  have "apply_order_result_atomically sy qa ba order fee now2 db' = (Inr r2, ?db2)"
    unfolding apply_order_commit using g' p' row r2(1) f by (auto simp: db')
  moreover have "load_portfolio sy ?db2 = load_portfolio sy db'" using p' r2(2) by (simp add: load_portfolio_write)
  moreover have "map_option po_applied (get_pending (or_client_order_id order) ?db2)
      = map_option po_applied (get_pending (or_client_order_id order) db')"
    using g' row r2(3) get_pending_id [OF g'] by (simp add: get_pending_update) (simp add: resolve_row_def)
  ultimately show ?thesis using r2(4) by blast
qed

text \<open>A failed attempt followed by a retry is the retry alone.\<close>

lemma apply_order_retry:
  assumes "apply_order_result_atomically sy qa ba order fee now (db\<lparr>raise_fault_at := Some f\<rparr>) = (Inl e, db1)"
  shows "db1\<lparr>raise_fault_at := raise_fault_at db\<rparr> = db"
  using apply_order_rollback [OF assms] by simp

section \<open>The risk-state store\<close>

record risk_state =
  day_key :: string
  daily_start_equity :: dec
  daily_realized_pnl_pct :: flt
  trades_today :: int
  peak_equity :: dec
  cooldown_bars_remaining :: int
  consecutive_api_errors :: int

definition risk_state_initial :: "dec \<Rightarrow> string \<Rightarrow> risk_state" where
  "risk_state_initial starting_equity key =
     \<lparr>day_key = key, daily_start_equity = starting_equity, daily_realized_pnl_pct = 0, trades_today = 0,
      peak_equity = starting_equity, cooldown_bars_remaining = 0, consecutive_api_errors = 0\<rparr>"

type_synonym risk_db = "string \<rightharpoonup> risk_state"

definition risk_save :: "string \<Rightarrow> risk_state \<Rightarrow> risk_db \<Rightarrow> risk_db" where
  "risk_save symbol state db = db(symbol \<mapsto> state)"

definition risk_load :: "string \<Rightarrow> risk_db \<Rightarrow> risk_state option" where
  "risk_load symbol db = db symbol"

lemma risk_load_save [simp]:
  "risk_load s (risk_save s' st db) = (if s = s' then Some st else risk_load s db)"
  by (simp add: risk_load_def risk_save_def)

section \<open>The journal\<close>

record journal_entry =
  je_timestamp_ms :: int
  je_type :: string
  je_payload :: payload

type_synonym journal_db = "journal_entry list"

definition journal_record :: "string \<Rightarrow> payload \<Rightarrow> int \<Rightarrow> journal_db \<Rightarrow> journal_db" where
  "journal_record entry_type pl timestamp_ms j =
     j @ [\<lparr>je_timestamp_ms = timestamp_ms, je_type = entry_type, je_payload = pl\<rparr>]"

definition all_entries :: "journal_db \<Rightarrow> journal_entry list" where
  "all_entries j = j"

definition entries_by_type :: "string \<Rightarrow> journal_db \<Rightarrow> journal_entry list" where
  "entries_by_type entry_type j = filter (\<lambda>e. je_type e = entry_type) j"

lemma entries_by_type_record:
  "entries_by_type ty (journal_record ty' pl t j) =
     entries_by_type ty j @ (if ty = ty' then [\<lparr>je_timestamp_ms = t, je_type = ty', je_payload = pl\<rparr>] else [])"
  by (simp add: entries_by_type_def journal_record_def)

section \<open>The stores as interfaces\<close>

text \<open>
  A keyed store: what is loaded is what was last saved under the key. The portfolio table
  and the risk table both provide it.
\<close>

locale keyed_store =
  fixes save :: "'k \<Rightarrow> 'v \<Rightarrow> 'db \<Rightarrow> 'db" and load :: "'k \<Rightarrow> 'db \<Rightarrow> 'v option"
  assumes load_save_same: "load k (save k v db) = Some v"
    and load_save_other: "k \<noteq> k' \<Longrightarrow> load k' (save k v db) = load k' db"
begin

lemma load_save: "load k' (save k v db) = (if k' = k then Some v else load k' db)"
  using load_save_same load_save_other by simp

lemma save_last_wins: "load k (save k v (save k w db)) = Some v"
  by (rule load_save_same)

lemma save_commute: "k \<noteq> k' \<Longrightarrow> load x (save k v (save k' w db)) = load x (save k' w (save k v db))"
  by (simp add: load_save)

end

interpretation risk_store: keyed_store risk_save risk_load
  by unfold_locales simp_all

interpretation portfolio_store: keyed_store "\<lambda>sy p. save_portfolio sy p now" load_portfolio for now
  by unfold_locales (simp_all add: save_portfolio_def load_portfolio_write)

end
