(* ===== verification/Market_Data.thy ===== *)
theory Market_Data
  imports Numbers
begin

text \<open>
  Candles and the data layer: the candle model and interval table
  (\<open>data/models.py\<close>), the fail-closed live validation (\<open>data/validation.py\<close>), the
  gap-tolerant segmentation of research data (\<open>data/gap_detection.py\<close>), the exclusive
  end boundary (\<open>data/boundary.py\<close>), completed-candle ingestion
  (\<open>data/ingestion.py\<close>) and the research cutoff (\<open>research/cutoff.py\<close>).
\<close>

section \<open>Candles and intervals\<close>

record candle =
  c_symbol :: string
  c_interval :: string
  open_time_ms :: int
  close_time_ms :: int
  c_open :: dec
  c_high :: dec
  c_low :: dec
  c_close :: dec
  c_volume :: dec

definition INTERVAL_MS :: "(string \<times> int) list" where
  "INTERVAL_MS =
    [(''1m'', 60000), (''3m'', 3 * 60000), (''5m'', 5 * 60000), (''15m'', 15 * 60000),
     (''30m'', 30 * 60000), (''1h'', 60 * 60000), (''2h'', 2 * 60 * 60000),
     (''4h'', 4 * 60 * 60000), (''6h'', 6 * 60 * 60000), (''8h'', 8 * 60 * 60000),
     (''12h'', 12 * 60 * 60000), (''1d'', 24 * 60 * 60000), (''3d'', 3 * 24 * 60 * 60000),
     (''1w'', 7 * 24 * 60 * 60000)]"

definition interval_to_ms :: "string \<Rightarrow> int result" where
  "interval_to_ms interval = of_option (ValueError ''interval'') (map_of INTERVAL_MS interval)"

lemma interval_to_ms_pos: "interval_to_ms i = Inr w \<Longrightarrow> 0 < w"
  by (auto simp: interval_to_ms_def INTERVAL_MS_def split: if_splits)

section \<open>Live validation\<close>

text \<open>
  The loop of \<open>validate_candle_sequence\<close>: the open times seen so far (a set, kept
  here as a list), the previous open time, and the candles still to check.
\<close>

fun validate_loop :: "int \<Rightarrow> int list \<Rightarrow> candle option \<Rightarrow> candle list \<Rightarrow> unit result" where
  "validate_loop gap seen prev [] = Inr ()"
| "validate_loop gap seen prev (c # cs) =
     (if open_time_ms c \<in> set seen then Inl DuplicateCandleError
      else case prev of
        None \<Rightarrow> validate_loop gap (open_time_ms c # seen) (Some c) cs
      | Some p \<Rightarrow>
          if open_time_ms c \<le> open_time_ms p then Inl OutOfOrderCandleError
          else if open_time_ms c - open_time_ms p \<noteq> gap then Inl GapDetectedError
          else validate_loop gap (open_time_ms c # seen) (Some c) cs)"

definition validate_candle_sequence :: "candle list \<Rightarrow> string \<Rightarrow> candle list result" where
  "validate_candle_sequence candles interval =
     (if candles = [] then Inl EmptyDataError
      else bindr (interval_to_ms interval) (\<lambda>expected_gap_ms.
           bindr (validate_loop expected_gap_ms [] None candles) (\<lambda>_. Inr candles)))"

definition validate_not_stale :: "candle list \<Rightarrow> int \<Rightarrow> int \<Rightarrow> candle list result" where
  "validate_not_stale candles reference_time_ms max_age_seconds =
     (if candles = [] then Inl EmptyDataError
      else let age_seconds = int_truediv (reference_time_ms - close_time_ms (last candles)) 1000
           in if of_int max_age_seconds < fval age_seconds then Inl StaleDataError else Inr candles)"

text \<open>A series in which every candle opens exactly one interval after the one before.\<close>

definition contiguous :: "int \<Rightarrow> candle list \<Rightarrow> bool" where
  "contiguous w cs \<longleftrightarrow> (\<forall>i. Suc i < length cs \<longrightarrow> open_time_ms (cs ! Suc i) = open_time_ms (cs ! i) + w)"

fun contig_from :: "int \<Rightarrow> candle option \<Rightarrow> candle list \<Rightarrow> bool" where
  "contig_from w prev [] = True"
| "contig_from w prev (c # cs) =
     ((case prev of None \<Rightarrow> True | Some p \<Rightarrow> open_time_ms c = open_time_ms p + w) \<and> contig_from w (Some c) cs)"

lemma contig_from_Some: "contig_from w (Some p) cs \<longleftrightarrow> contiguous w (p # cs)"
proof (induction cs arbitrary: p)
  case Nil
  then show ?case by (simp add: contiguous_def)
next
  case (Cons c cs)
  have "contiguous w (p # c # cs) \<longleftrightarrow> open_time_ms c = open_time_ms p + w \<and> contiguous w (c # cs)"
    unfolding contiguous_def
  proof (intro iffI conjI allI impI)
    assume a: "\<forall>i. Suc i < length (p # c # cs) \<longrightarrow>
      open_time_ms ((p # c # cs) ! Suc i) = open_time_ms ((p # c # cs) ! i) + w"
    show "open_time_ms c = open_time_ms p + w" using a [rule_format, of 0] by simp
    fix i assume "Suc i < length (c # cs)"
    then show "open_time_ms ((c # cs) ! Suc i) = open_time_ms ((c # cs) ! i) + w"
      using a [rule_format, of "Suc i"] by simp
  next
    fix i
    assume "open_time_ms c = open_time_ms p + w \<and>
      (\<forall>i. Suc i < length (c # cs) \<longrightarrow> open_time_ms ((c # cs) ! Suc i) = open_time_ms ((c # cs) ! i) + w)"
      and "Suc i < length (p # c # cs)"
    then show "open_time_ms ((p # c # cs) ! Suc i) = open_time_ms ((p # c # cs) ! i) + w"
      by (cases i) auto
  qed
  with Cons.IH [of c] show ?case by simp
qed

lemma contig_from_None: "contig_from w None cs \<longleftrightarrow> contiguous w cs"
  by (cases cs) (simp_all add: contig_from_Some, simp add: contiguous_def)

text \<open>Later open times are larger, so the duplicate check never fires on a contiguous series.\<close>

lemma validate_loop_iff:
  assumes "0 < w" "\<forall>s\<in>set seen. case prev of None \<Rightarrow> False | Some p \<Rightarrow> s \<le> open_time_ms p"
  shows "validate_loop w seen prev cs = Inr () \<longleftrightarrow> contig_from w prev cs"
  using assms(2)
proof (induction cs arbitrary: seen prev)
  case Nil
  then show ?case by simp
next
  case (Cons c cs)
  show ?case
  proof (cases prev)
    case None
    with Cons.prems have "seen = []" by (cases seen) auto
    with None Cons.IH [of "[open_time_ms c]" "Some c"] show ?thesis by simp
  next
    case (Some p)
    show ?thesis
    proof (cases "open_time_ms c = open_time_ms p + w")
      case True
      then have "open_time_ms p < open_time_ms c" using assms(1) by simp
      with Cons.prems Some have "open_time_ms c \<notin> set seen" by force
      moreover have "\<forall>s\<in>set (open_time_ms c # seen). s \<le> open_time_ms c"
        using Cons.prems Some \<open>open_time_ms p < open_time_ms c\<close> by force
      ultimately show ?thesis
        using Cons.IH [of "open_time_ms c # seen" "Some c"] Some True assms(1) by simp
    qed (use Some in auto)
  qed
qed

lemma validate_candle_sequence_iff:
  "validate_candle_sequence cs i = Inr ds \<longleftrightarrow>
     ds = cs \<and> cs \<noteq> [] \<and> (\<exists>w. interval_to_ms i = Inr w \<and> contiguous w cs)"
  using validate_loop_iff [of _ "[]" None cs]
  by (auto simp: validate_candle_sequence_def contig_from_None dest: interval_to_ms_pos)

section \<open>Gap-tolerant segmentation\<close>

record gap_record =
  expected_open_time_ms :: int
  previous_open_time_ms :: int
  next_open_time_ms :: int
  missing_intervals :: int

record segmentation_result =
  segments :: "candle list list"
  gaps :: "gap_record list"

definition mk_gap :: "int \<Rightarrow> candle \<Rightarrow> candle \<Rightarrow> gap_record" where
  "mk_gap w p c =
     \<lparr>expected_open_time_ms = open_time_ms p + w,
      previous_open_time_ms = open_time_ms p,
      next_open_time_ms = open_time_ms c,
      missing_intervals = (open_time_ms c - open_time_ms p) div w - 1\<rparr>"

text \<open>
  The loop: \<open>cur\<close> is the segment being built (\<open>segments[-1]\<close>), \<open>done\<close> those before
  it, \<open>gs\<close> the gaps recorded so far.
\<close>

fun partition_loop ::
  "int \<Rightarrow> int list \<Rightarrow> candle option \<Rightarrow> candle list list \<Rightarrow> candle list \<Rightarrow> gap_record list \<Rightarrow> candle list
    \<Rightarrow> segmentation_result result" where
  "partition_loop w seen prev dn cur gs [] = Inr \<lparr>segments = dn @ [cur], gaps = gs\<rparr>"
| "partition_loop w seen prev dn cur gs (c # cs) =
     (if open_time_ms c \<in> set seen then Inl DuplicateCandleError
      else case prev of
        None \<Rightarrow> partition_loop w (open_time_ms c # seen) (Some c) dn (cur @ [c]) gs cs
      | Some p \<Rightarrow>
          if open_time_ms c \<le> open_time_ms p then Inl OutOfOrderCandleError
          else if open_time_ms c - open_time_ms p \<noteq> w
          then partition_loop w (open_time_ms c # seen) (Some c) (dn @ [cur]) [c] (gs @ [mk_gap w p c]) cs
          else partition_loop w (open_time_ms c # seen) (Some c) dn (cur @ [c]) gs cs)"

definition partition_into_segments :: "candle list \<Rightarrow> string \<Rightarrow> segmentation_result result" where
  "partition_into_segments candles interval =
     (if candles = [] then Inl EmptyDataError
      else bindr (interval_to_ms interval) (\<lambda>w. partition_loop w [] None [] [] [] candles))"

text \<open>
  What the loop maintains: the segments built so far are non-empty and contiguous, and
  the current segment ends in the previous candle.
\<close>

definition seg_inv :: "int \<Rightarrow> candle option \<Rightarrow> candle list list \<Rightarrow> candle list \<Rightarrow> bool" where
  "seg_inv w prev dn cur \<longleftrightarrow>
     (\<forall>s\<in>set dn. s \<noteq> [] \<and> contiguous w s) \<and> contiguous w cur \<and>
     (case prev of None \<Rightarrow> cur = [] | Some p \<Rightarrow> cur \<noteq> [] \<and> last cur = p)"

lemma contiguous_snoc:
  "contiguous w (cs @ [c]) \<longleftrightarrow> contiguous w cs \<and> (cs \<noteq> [] \<longrightarrow> open_time_ms c = open_time_ms (last cs) + w)"
proof (cases cs rule: rev_cases)
  case Nil
  then show ?thesis by (simp add: contiguous_def)
next
  case (snoc bs b)
  show ?thesis
  proof
    assume a: "contiguous w (cs @ [c])"
    have "open_time_ms c = open_time_ms (last cs) + w"
      using a [unfolded contiguous_def, rule_format, of "length bs"] snoc by (simp add: nth_append)
    moreover have "contiguous w cs" unfolding contiguous_def
    proof (intro allI impI)
      fix i assume "Suc i < length cs"
      then show "open_time_ms (cs ! Suc i) = open_time_ms (cs ! i) + w"
        using a [unfolded contiguous_def, rule_format, of i] by (simp add: nth_append)
    qed
    ultimately show "contiguous w cs \<and> (cs \<noteq> [] \<longrightarrow> open_time_ms c = open_time_ms (last cs) + w)" by simp
  next
    assume a: "contiguous w cs \<and> (cs \<noteq> [] \<longrightarrow> open_time_ms c = open_time_ms (last cs) + w)"
    show "contiguous w (cs @ [c])" unfolding contiguous_def
    proof (intro allI impI)
      fix i assume i: "Suc i < length (cs @ [c])"
      show "open_time_ms ((cs @ [c]) ! Suc i) = open_time_ms ((cs @ [c]) ! i) + w"
      proof (cases "Suc i < length cs")
        case True
        then show ?thesis using a by (simp add: nth_append contiguous_def)
      next
        case False
        with i snoc have "i = length bs" by simp
        then show ?thesis using a snoc by (simp add: nth_append)
      qed
    qed
  qed
qed

lemma partition_loop_spec:
  assumes "partition_loop w seen prev dn cur gs cs = Inr r" "seg_inv w prev dn cur"
    and "cs \<noteq> [] \<or> prev \<noteq> None"
  shows "concat (segments r) = concat dn @ cur @ cs \<and> (\<forall>s\<in>set (segments r). s \<noteq> [] \<and> contiguous w s)
    \<and> length (gaps r) + 1 + length dn = length gs + length (segments r)"
  using assms
proof (induction w seen prev dn cur gs cs rule: partition_loop.induct)
  case (1 w seen prev dn cur gs)
  then show ?case by (auto simp: seg_inv_def split: option.splits)
next
  case (2 w seen prev dn cur gs c cs)
  have dup: "open_time_ms c \<notin> set seen" using "2.prems"(1) by (auto split: if_splits)
  show ?case
  proof (cases prev)
    case None
    have "seg_inv w (Some c) dn (cur @ [c])"
      using "2.prems"(2) None by (auto simp: seg_inv_def contiguous_def)
    with "2.IH"(1) [OF dup None] "2.prems"(1) None dup show ?thesis by simp
  next
    case (Some p)
    have ord: "\<not> open_time_ms c \<le> open_time_ms p" using "2.prems"(1) Some dup by (auto split: if_splits)
    show ?thesis
    proof (cases "open_time_ms c - open_time_ms p = w")
      case True
      have "seg_inv w (Some c) dn (cur @ [c])"
        using "2.prems"(2) Some True by (auto simp: seg_inv_def contiguous_snoc)
      with "2.IH"(3) [OF dup Some ord] True "2.prems"(1) Some dup ord show ?thesis by simp
    next
      case False
      have "seg_inv w (Some c) (dn @ [cur]) [c]"
        using "2.prems"(2) Some by (auto simp: seg_inv_def contiguous_def)
      with "2.IH"(2) [OF dup Some ord False] False "2.prems"(1) Some dup ord show ?thesis by simp
    qed
  qed
qed

lemma seg_inv_start: "seg_inv w None [] []"
  by (simp add: seg_inv_def contiguous_def)

text \<open>
  Every segment is contiguous and nothing is lost, added or reordered; there is exactly
  one gap record between two neighbouring segments.
\<close>

lemma partition_into_segments_spec:
  assumes "partition_into_segments cs i = Inr r"
  shows "concat (segments r) = cs \<and> length (segments r) = Suc (length (gaps r)) \<and>
    (\<exists>w. interval_to_ms i = Inr w \<and> (\<forall>s\<in>set (segments r). s \<noteq> [] \<and> contiguous w s))"
proof -
  from assms obtain w where w: "interval_to_ms i = Inr w" "cs \<noteq> []"
    and r: "partition_loop w [] None [] [] [] cs = Inr r"
    by (auto simp: partition_into_segments_def split: if_splits)
  from partition_loop_spec [OF r seg_inv_start] w show ?thesis by auto
qed

text \<open>On data that the live validation accepts, segmentation finds one segment and no gap.\<close>

lemma partition_loop_contig:
  assumes "0 < w" "\<forall>s\<in>set seen. case prev of None \<Rightarrow> False | Some p \<Rightarrow> s \<le> open_time_ms p"
    and "contig_from w prev cs"
  shows "partition_loop w seen prev dn cur gs cs = Inr \<lparr>segments = dn @ [cur @ cs], gaps = gs\<rparr>"
  using assms(2,3)
proof (induction cs arbitrary: seen prev cur)
  case Nil
  then show ?case by simp
next
  case (Cons c cs)
  show ?case
  proof (cases prev)
    case None
    with Cons.prems(1) have "seen = []" by (cases seen) auto
    with None Cons.IH [of "[open_time_ms c]" "Some c"] Cons.prems(2) show ?thesis by simp
  next
    case (Some p)
    with Cons.prems(2) have e: "open_time_ms c = open_time_ms p + w" by simp
    with Cons.prems(1) Some assms(1) have "open_time_ms c \<notin> set seen" by force
    moreover have "\<forall>s\<in>set (open_time_ms c # seen). s \<le> open_time_ms c"
      using Cons.prems(1) Some e assms(1) by force
    ultimately show ?thesis
      using Cons.IH [of "open_time_ms c # seen" "Some c"] Cons.prems(2) Some e assms(1) by simp
  qed
qed

section \<open>The exclusive end boundary and ingestion\<close>

definition exclusive_upper_bound_for_request :: "int \<Rightarrow> int" where
  "exclusive_upper_bound_for_request end_time_ms = end_time_ms - 1"

definition below_exclusive_end :: "candle list \<Rightarrow> int option \<Rightarrow> candle list" where
  "below_exclusive_end candles end_time_ms =
     (case end_time_ms of None \<Rightarrow> candles | Some e \<Rightarrow> filter (\<lambda>c. open_time_ms c < e) candles)"

text \<open>
  \<open>get_klines\<close> is the exchange behind the client, any function of the request (start,
  inclusive end, limit); the reference time is the exchange's server time when the caller
  gives none.
\<close>

definition fetch_completed_candles ::
  "(int option \<Rightarrow> int option \<Rightarrow> int \<Rightarrow> ('w, candle list) step) \<Rightarrow> ('w, int) step \<Rightarrow>
   int option \<Rightarrow> int option \<Rightarrow> int \<Rightarrow> int option \<Rightarrow> ('w, candle list) step" where
  "fetch_completed_candles get_klines server_time start_time_ms end_time_ms limit reference_time_ms =
     sbind (case reference_time_ms of None \<Rightarrow> server_time | Some t \<Rightarrow> sreturn t) (\<lambda>reference.
     sbind (get_klines start_time_ms (map_option (\<lambda>e. e - 1) end_time_ms) limit) (\<lambda>raw_candles.
       let completed = filter (\<lambda>c. close_time_ms c < reference) raw_candles
       in sreturn (case end_time_ms of None \<Rightarrow> completed
               | Some e \<Rightarrow> filter (\<lambda>c. open_time_ms c < e) completed)))"

definition require_non_empty :: "candle list \<Rightarrow> candle list result" where
  "require_non_empty candles = (if candles = [] then Inl EmptyDataError else Inr candles)"

lemma fetch_completed_sound:
  assumes "fetch_completed_candles gk st s e l (Some t) w = (Inr cs, w')" "c \<in> set cs"
  shows "close_time_ms c < t \<and> (\<forall>b. e = Some b \<longrightarrow> open_time_ms c < b)"
  using assms by (cases e) (auto simp: fetch_completed_candles_def Let_def sbind_eq_Inr)

section \<open>The research cutoff\<close>

text \<open>2025-05-16T00:00:00Z in epoch milliseconds.\<close>

definition RESEARCH_CUTOFF_MS :: int where
  "RESEARCH_CUTOFF_MS = 1747353600000"

definition assert_pre_cutoff :: "candle list \<Rightarrow> unit result" where
  "assert_pre_cutoff candles =
     (if filter (\<lambda>c. RESEARCH_CUTOFF_MS \<le> open_time_ms c) candles \<noteq> []
      then Inl ResearchCutoffViolation else Inr ())"

definition split_at_cutoff :: "candle list \<Rightarrow> candle list \<times> candle list" where
  "split_at_cutoff candles =
     (filter (\<lambda>c. open_time_ms c < RESEARCH_CUTOFF_MS) candles,
      filter (\<lambda>c. RESEARCH_CUTOFF_MS \<le> open_time_ms c) candles)"

lemma assert_pre_cutoff_iff:
  "assert_pre_cutoff cs = Inr () \<longleftrightarrow> (\<forall>c\<in>set cs. open_time_ms c < RESEARCH_CUTOFF_MS)"
  by (auto simp: assert_pre_cutoff_def filter_empty_conv not_le)

lemma split_at_cutoff_pre: "assert_pre_cutoff (fst (split_at_cutoff cs)) = Inr ()"
  by (simp add: assert_pre_cutoff_iff split_at_cutoff_def)

end
