(* ===== verification/Config.thy ===== *)
theory Config
  imports Numbers
begin

text \<open>
  The configuration model (\<open>config/models.py\<close>): its records, and the validity that the
  field constraints and validators of the source enforce when a configuration is built.
\<close>

datatype mode = BACKTEST | TESTNET | SHADOW

record market_config =
  cfg_symbol :: string
  cfg_interval :: string

definition ALLOWED_INTERVALS :: "string list" where
  "ALLOWED_INTERVALS =
    [''1m'', ''3m'', ''5m'', ''15m'', ''30m'', ''1h'', ''2h'', ''4h'', ''6h'', ''8h'', ''12h'',
     ''1d'', ''3d'', ''1w'', ''1M'']"

definition valid_interval :: "market_config \<Rightarrow> bool" where
  "valid_interval c \<longleftrightarrow> cfg_interval c \<in> set ALLOWED_INTERVALS"

record strategy_config =
  cfg_ema_fast :: int
  cfg_ema_slow :: int

definition valid_strategy :: "strategy_config \<Rightarrow> bool" where
  "valid_strategy c \<longleftrightarrow> 0 < cfg_ema_fast c \<and> 0 < cfg_ema_slow c \<and> cfg_ema_fast c < cfg_ema_slow c"

record sizing_config =
  max_allocation_pct :: flt
  min_quote_buffer :: flt

definition valid_sizing :: "sizing_config \<Rightarrow> bool" where
  "valid_sizing c \<longleftrightarrow> 0 < max_allocation_pct c \<and> max_allocation_pct c \<le> 1 \<and> 0 \<le> min_quote_buffer c"

record fees_config =
  taker_fee_pct :: flt
  maker_fee_pct :: flt
  slippage_pct :: flt

definition valid_fees :: "fees_config \<Rightarrow> bool" where
  "valid_fees c \<longleftrightarrow> 0 \<le> taker_fee_pct c \<and> 0 \<le> maker_fee_pct c \<and> 0 \<le> slippage_pct c"

record risk_config =
  max_position_pct :: flt
  max_risk_per_trade_pct :: flt
  max_daily_loss_pct :: flt
  max_drawdown_pct :: flt
  max_trades_per_day :: int
  cooldown_bars_after_loss :: int
  stale_data_max_age_seconds :: int
  min_quote_balance :: flt
  max_consecutive_api_errors :: int

definition valid_risk :: "risk_config \<Rightarrow> bool" where
  "valid_risk c \<longleftrightarrow>
     0 < max_position_pct c \<and> max_position_pct c \<le> 1 \<and>
     0 < max_risk_per_trade_pct c \<and> max_risk_per_trade_pct c \<le> 1 \<and>
     0 < max_daily_loss_pct c \<and> max_daily_loss_pct c \<le> 1 \<and>
     0 < max_drawdown_pct c \<and> max_drawdown_pct c \<le> 1 \<and>
     0 < max_trades_per_day c \<and> 0 \<le> cooldown_bars_after_loss c \<and>
     0 < stale_data_max_age_seconds c \<and> 0 \<le> min_quote_balance c \<and> 0 < max_consecutive_api_errors c"

record stop_loss_config =
  stop_distance_pct :: flt

definition valid_stop_loss :: "stop_loss_config \<Rightarrow> bool" where
  "valid_stop_loss c \<longleftrightarrow> 0 < stop_distance_pct c \<and> stop_distance_pct c < 1"

datatype gap_policy = Reject_Gaps | Segment_Gaps

record backtest_config =
  train_fraction :: flt
  validation_fraction :: flt
  test_fraction :: flt
  min_trades_for_significance :: int
  cfg_starting_equity :: flt
  cfg_gap_policy :: gap_policy
  exclude_open_position_segments :: bool

text \<open>The three fractions sum to one, in float arithmetic, up to \<open>1e-6\<close>.\<close>

definition fractions_sum_to_one :: "backtest_config \<Rightarrow> bool" where
  "fractions_sum_to_one c =
     (let total = train_fraction c + validation_fraction c + test_fraction c
      in \<bar>total - 1\<bar> \<le> Flt (fround (1 / 10 ^ 6)))"

definition valid_backtest :: "backtest_config \<Rightarrow> bool" where
  "valid_backtest c \<longleftrightarrow>
     0 < train_fraction c \<and> train_fraction c < 1 \<and> 0 < validation_fraction c \<and> validation_fraction c < 1 \<and>
     0 < test_fraction c \<and> test_fraction c < 1 \<and> 0 < min_trades_for_significance c \<and>
     0 < cfg_starting_equity c \<and> fractions_sum_to_one c"

record telegram_config =
  tg_enabled :: bool

record app_config =
  cfg_mode :: mode
  cfg_market :: market_config
  cfg_strategy :: strategy_config
  cfg_sizing :: sizing_config
  cfg_fees :: fees_config
  cfg_risk :: risk_config
  cfg_stop_loss :: stop_loss_config
  cfg_backtest :: backtest_config
  cfg_telegram :: telegram_config

definition valid_config :: "app_config \<Rightarrow> bool" where
  "valid_config c \<longleftrightarrow>
     valid_interval (cfg_market c) \<and> valid_strategy (cfg_strategy c) \<and> valid_sizing (cfg_sizing c) \<and>
     valid_fees (cfg_fees c) \<and> valid_risk (cfg_risk c) \<and> valid_stop_loss (cfg_stop_loss c) \<and>
     valid_backtest (cfg_backtest c)"

text \<open>The defaults of the source.\<close>

definition float_lit :: "rat \<Rightarrow> flt" where
  "float_lit x = Flt (fround x)"

definition default_config :: "mode \<Rightarrow> app_config" where
  "default_config m =
    \<lparr>cfg_mode = m,
     cfg_market = \<lparr>cfg_symbol = ''BTCUSDT'', cfg_interval = ''4h''\<rparr>,
     cfg_strategy = \<lparr>cfg_ema_fast = 20, cfg_ema_slow = 50\<rparr>,
     cfg_sizing = \<lparr>max_allocation_pct = float_lit (9 / 10), min_quote_buffer = float_lit 5\<rparr>,
     cfg_fees = \<lparr>taker_fee_pct = float_lit (1 / 1000), maker_fee_pct = float_lit (1 / 1000),
                 slippage_pct = float_lit (5 / 10000)\<rparr>,
     cfg_risk = \<lparr>max_position_pct = float_lit (9 / 10), max_risk_per_trade_pct = float_lit (9 / 10),
                 max_daily_loss_pct = float_lit (5 / 100), max_drawdown_pct = float_lit (15 / 100),
                 max_trades_per_day = 4, cooldown_bars_after_loss = 2,
                 stale_data_max_age_seconds = 21600, min_quote_balance = float_lit 5,
                 max_consecutive_api_errors = 3\<rparr>,
     cfg_stop_loss = \<lparr>stop_distance_pct = float_lit (5 / 100)\<rparr>,
     cfg_backtest = \<lparr>train_fraction = float_lit (6 / 10), validation_fraction = float_lit (2 / 10),
                     test_fraction = float_lit (2 / 10), min_trades_for_significance = 20,
                     cfg_starting_equity = float_lit 50, cfg_gap_policy = Segment_Gaps,
                     exclude_open_position_segments = True\<rparr>,
     cfg_telegram = \<lparr>tg_enabled = False\<rparr>\<rparr>"

text \<open>The defaults pass the validators, float rounding of the fractions included.\<close>

lemma default_config_valid: "valid_config (default_config m)"
  by code_simp

end
