(* ===== verification/Sizing.thy ===== *)
theory Sizing
  imports Numbers
begin

text \<open>
  Exchange filters and position sizing (\<open>sizing/exchange_filters.py\<close>,
  \<open>sizing/position_sizer.py\<close>). The step and tick sizes keep the exponent they were
  read with, which \<open>quantize\<close> uses; every other price and quantity is a value. The
  interface \<open>down_rounding\<close> is what the sizer and the order validator need of the
  rounding: a result that is a non-negative multiple not above its input; it is
  interpreted on the code's \<open>round_down_to_step\<close>.
\<close>

section \<open>Exchange filters\<close>

record symbol_filters =
  f_symbol :: string
  tick_size :: declit
  min_price :: dec
  max_price :: dec
  step_size :: declit
  min_qty :: dec
  max_qty :: dec
  min_notional :: dec
  max_notional :: "dec option"
  apply_min_notional_to_market :: bool

text \<open>
  The parsed \<open>exchangeInfo\<close> answer: of each symbol its name and its filters, where they are
  given, each a filter type and its entries. A raw value is the decimal literal that its
  text is, a boolean, a null, or anything else, which \<open>Decimal(str(...))\<close> refuses.
\<close>

datatype raw_value = Raw_Number declit | Raw_Bool bool | Raw_Null | Raw_Other

type_synonym raw_dict = "(string \<times> raw_value) list"

record symbol_info =
  si_symbol :: "string option"
  si_filters :: "(string option \<times> raw_dict) list option"

definition raw_decimal :: "raw_value \<Rightarrow> declit result" where
  "raw_decimal v = (case v of Raw_Number d \<Rightarrow> Inr d | _ \<Rightarrow> Inl InvalidOperation)"

definition raw_field :: "raw_dict \<Rightarrow> string \<Rightarrow> declit result" where
  "raw_field d k = (case map_of d k of None \<Rightarrow> Inr (DecLit 0 0) | Some v \<Rightarrow> raw_decimal v)"

text \<open>\<open>bool(...)\<close> of a raw value; a number is read as non-empty text, which is true.\<close>

definition raw_truth :: "raw_value \<Rightarrow> bool" where
  "raw_truth v = (case v of Raw_Bool b \<Rightarrow> b | Raw_Null \<Rightarrow> False | _ \<Rightarrow> True)"

text \<open>The last filter of a type wins.\<close>

definition filter_of_type :: "(string \<times> raw_dict) list \<Rightarrow> string \<Rightarrow> raw_dict" where
  "filter_of_type fs ty = (case map_of (rev fs) ty of None \<Rightarrow> [] | Some d \<Rightarrow> d)"

definition notional_filter_of :: "(string \<times> raw_dict) list \<Rightarrow> raw_dict" where
  "notional_filter_of fs =
     (if filter_of_type fs ''NOTIONAL'' \<noteq> [] then filter_of_type fs ''NOTIONAL'' else filter_of_type fs ''MIN_NOTIONAL'')"

definition apply_min_to_market_of :: "raw_dict \<Rightarrow> bool" where
  "apply_min_to_market_of d =
     (case map_of d ''applyMinToMarket'' of
        Some v \<Rightarrow> raw_truth v
      | None \<Rightarrow> (case map_of d ''applyToMarket'' of None \<Rightarrow> True | Some v \<Rightarrow> raw_truth v))"

definition max_notional_of :: "raw_dict \<Rightarrow> dec option result" where
  "max_notional_of d =
     (case map_of d ''maxNotional'' of
        None \<Rightarrow> Inr None
      | Some Raw_Null \<Rightarrow> Inr None
      | Some v \<Rightarrow> bindr (raw_decimal v) (\<lambda>x. Inr (Some (lit_val x))))"

definition from_exchange_info :: "symbol_info list \<Rightarrow> symbol_filters result" where
  "from_exchange_info symbols =
     (case symbols of
        [] \<Rightarrow> Inl (ValueError ''no symbols'')
      | info # _ \<Rightarrow>
          bindr (of_option KeyError (si_filters info)) (\<lambda>raw.
          bindr (map_res (\<lambda>(ty, d). bindr (of_option KeyError ty) (\<lambda>t. Inr (t, d))) raw) (\<lambda>fs.
          let price = filter_of_type fs ''PRICE_FILTER''; lot = filter_of_type fs ''LOT_SIZE''; notional = notional_filter_of fs in
          bindr (raw_field notional ''minNotional'') (\<lambda>min_notional.
          bindr (of_option KeyError (si_symbol info)) (\<lambda>symbol.
          bindr (raw_field price ''tickSize'') (\<lambda>tick.
          bindr (raw_field price ''minPrice'') (\<lambda>min_price.
          bindr (raw_field price ''maxPrice'') (\<lambda>max_price.
          bindr (raw_field lot ''stepSize'') (\<lambda>step.
          bindr (raw_field lot ''minQty'') (\<lambda>min_qty.
          bindr (raw_field lot ''maxQty'') (\<lambda>max_qty.
          bindr (max_notional_of notional) (\<lambda>max_notional.
          Inr \<lparr>f_symbol = symbol, tick_size = tick, min_price = lit_val min_price, max_price = lit_val max_price,
               step_size = step, min_qty = lit_val min_qty, max_qty = lit_val max_qty, min_notional = lit_val min_notional,
               max_notional = max_notional, apply_min_notional_to_market = apply_min_to_market_of notional\<rparr>))))))))))))"

definition round_down_to_step :: "dec \<Rightarrow> declit \<Rightarrow> dec result" where
  "round_down_to_step value step =
     (if lit_val step = 0 then Inr value
      else let steps = to_integral_down (value / lit_val step);
               result = steps * lit_val step
           in quantize_down result (expn step))"

definition round_price :: "dec \<Rightarrow> symbol_filters \<Rightarrow> dec result" where
  "round_price price filters = round_down_to_step price (tick_size filters)"

definition round_quantity :: "dec \<Rightarrow> symbol_filters \<Rightarrow> dec result" where
  "round_quantity quantity filters = round_down_to_step quantity (step_size filters)"

definition meets_min_notional :: "dec \<Rightarrow> dec \<Rightarrow> symbol_filters \<Rightarrow> bool" where
  "meets_min_notional price quantity filters =
     (if \<not> apply_min_notional_to_market filters then True
      else min_notional filters \<le> price * quantity)"

definition meets_lot_size :: "dec \<Rightarrow> symbol_filters \<Rightarrow> bool" where
  "meets_lot_size quantity filters =
     (if quantity < min_qty filters then False
      else \<not> (max_qty filters \<noteq> 0 \<and> max_qty filters < quantity))"

subsection \<open>Rounding down\<close>

lemma round_down_nonneg:
  assumes "round_down_to_step v step = Inr y" "0 \<le> v" "0 \<le> lit_val step"
  shows "0 \<le> y"
proof (cases "lit_val step = 0")
  case False
  let ?n = "to_integral_down (v / lit_val step)"
  have "0 \<le> ?n" using assms(2,3) by (intro to_integral_down_nonneg) auto
  then have "0 \<le> ?n * lit_val step" using assms(3) by auto
  moreover have "quantize_down (?n * lit_val step) (expn step) = Inr y"
    using assms(1) False by (simp add: round_down_to_step_def Let_def)
  ultimately show ?thesis using quantize_down_nonneg(1) by blast
qed (use assms in \<open>simp add: round_down_to_step_def\<close>)

text \<open>
  Whatever the operands, the result exceeds the input by at most two roundings: the
  quotient is rounded to 28 digits before its integer part is taken, and so is the product.
\<close>

lemma round_down_upper:
  assumes r: "round_down_to_step v step = Inr y" and v: "0 \<le> v" and s: "0 \<le> lit_val step"
  shows "dval y \<le> (1 + unit_roundoff 10 28)\<^sup>2 * dval v"
proof (cases "lit_val step = 0")
  case True
  have "1 \<le> (1 + unit_roundoff 10 28 :: rat)\<^sup>2"
    using dec.eps_nonneg by (simp add: power2_eq_square algebra_simps)
  then have "1 * dval v \<le> (1 + unit_roundoff 10 28)\<^sup>2 * dval v"
    using v by (intro mult_right_mono) (auto simp: dec_arith)
  with r True show ?thesis by (simp add: round_down_to_step_def)
next
  case False
  let ?e = "1 + unit_roundoff 10 28 :: rat" and ?s = "lit_val step"
  let ?n = "to_integral_down (v / ?s)"
  have e: "0 \<le> ?e" using dec.eps_nonneg by simp
  have s0: "0 < dval ?s" using s False by (simp add: dec_arith)
  have v0: "0 \<le> dval v" using v by (simp add: dec_arith)
  have q: "quantize_down (?n * ?s) (expn step) = Inr y"
    using r False by (simp add: round_down_to_step_def Let_def)
  have nn: "0 \<le> ?n" using v s by (intro to_integral_down_nonneg) auto
  have "dval y \<le> dval (?n * ?s)"
    using quantize_down_nonneg(2) [OF q] dec_mult_nonneg [OF nn s] by (simp add: dec_le_iff)
  also have "\<dots> \<le> ?e * (dval ?n * dval ?s)"
    unfolding dval_times using nn s0 by (intro dec.upper) (simp add: dec_arith)
  also have "\<dots> \<le> ?e * (dval (v / ?s) * dval ?s)"
  proof (intro mult_left_mono mult_right_mono)
    show "dval ?n \<le> dval (v / ?s)"
      using to_integral_down_le [OF dec_divide_nonneg [OF v s]] by (simp add: dec_le_iff)
  qed (use e s0 in auto)
  also have "\<dots> \<le> ?e * (?e * (dval v / dval ?s) * dval ?s)"
  proof (intro mult_left_mono mult_right_mono)
    show "dval (v / ?s) \<le> ?e * (dval v / dval ?s)"
      unfolding dval_divide using v0 s0 by (intro dec.upper) simp
  qed (use e s0 in auto)
  also have "\<dots> = ?e\<^sup>2 * dval v" using s0 by (simp add: power2_eq_square)
  finally show ?thesis .
qed

text \<open>
  On what the program feeds it (a step that is a power of ten, as Binance publishes it,
  and a quantity of at most 28 digits) the rounding is the exact floor.
\<close>

lemma round_down_floor:
  assumes r: "round_down_to_step v step = Inr y"
    and step: "dval (lit_val step) = 10 powi k" and v: "rep v" "0 \<le> v"
    and small: "dval v < 10 ^ 28 * 10 powi k"
  shows "dval y = of_int \<lfloor>dval v / 10 powi k\<rfloor> * 10 powi k"
proof -
  let ?P = "10 powi k :: rat"
  have P: "0 < ?P" by simp
  have ne: "lit_val step \<noteq> 0" using step by (simp add: dec_arith)
  have v0: "0 \<le> dval v" using v by (simp add: dec_arith)
  obtain m j where mj: "dval v = of_int m * 10 powi j" "\<bar>m\<bar> \<le> 10 ^ 28"
    using rnd_of_form [of 10 28 "dval v"] v(1) by (auto simp: rep_def dround_def)
  have "dround (dval v / ?P) = dval v / ?P"
    unfolding dround_def using mj
    by (intro rnd_representable [where m = m and k = "j - k"]) (simp_all add: power_int_diff)
  then have q: "dval (v / lit_val step) = dval v / ?P" by (simp add: dval_divide step)
  let ?n = "\<lfloor>dval v / ?P\<rfloor>"
  have n0: "0 \<le> ?n" "of_int ?n \<le> dval v / ?P" using v0 P by simp_all
  have "dval v / ?P < 10 ^ 28" using small P by (simp only: pos_divide_less_eq)
  with n0 have "of_int ?n < (of_int (10 ^ 28) :: rat)" by simp
  then have n1: "?n < 10 ^ 28" by (simp only: of_int_less_iff)
  have "dval (v / lit_val step) \<ge> 0" using q v0 by simp
  then have t: "to_integral_down (v / lit_val step) = Dec (of_int ?n)"
    by (simp add: to_integral_down_def q)
  have "dround (of_int ?n * ?P) = of_int ?n * ?P"
    unfolding dround_def using n0 n1 by (intro rnd_representable [where m = ?n and k = k]) auto
  then have w: "to_integral_down (v / lit_val step) * lit_val step = Dec (of_int ?n * ?P)"
    by (simp add: t times_dec_def step)
  have y: "quantize_down (Dec (of_int ?n * ?P)) (expn step) = Inr y"
    using r ne by (simp add: round_down_to_step_def Let_def w)
  have c: "10 powi k = (of_int (coef step) :: rat) * 10 powi expn step"
    using step by (simp add: lit_val_def)
  then have d: "of_int ?n * ?P / 10 powi expn step = (of_int (?n * coef step) :: rat)" by simp
  have "0 \<le> of_int ?n * ?P / 10 powi expn step" using n0(1) P by (intro divide_nonneg_nonneg mult_nonneg_nonneg) auto
  then have "to_integral_down (Dec (of_int ?n * ?P / 10 powi expn step)) = Dec (of_int (?n * coef step))"
    unfolding d by (simp add: to_integral_down_def del: of_int_mult)
  with y have "y = Dec (of_int (?n * coef step) * 10 powi expn step)"
    by (simp add: quantize_down_def Let_def split: if_splits)
  then show ?thesis by (simp add: c)
qed

subsection \<open>The interface the sizer and the validator rely on\<close>

locale down_rounding =
  fixes rnd_qty :: "dec \<Rightarrow> symbol_filters \<Rightarrow> dec result" and ok :: "symbol_filters \<Rightarrow> bool"
  assumes nonneg: "ok f \<Longrightarrow> rnd_qty q f = Inr y \<Longrightarrow> 0 \<le> q \<Longrightarrow> 0 \<le> y"
    and upper: "ok f \<Longrightarrow> rnd_qty q f = Inr y \<Longrightarrow> 0 \<le> q \<Longrightarrow> dval y \<le> (1 + unit_roundoff 10 28)\<^sup>2 * dval q"
begin

lemma zero: "ok f \<Longrightarrow> rnd_qty 0 f = Inr y \<Longrightarrow> y = 0"
  using nonneg [of f 0 y] upper [of f 0 y] by (auto simp: dec_arith)

lemma bounded: "ok f \<Longrightarrow> rnd_qty q f = Inr y \<Longrightarrow> 0 \<le> q \<Longrightarrow> dval q \<le> c \<Longrightarrow>
  dval y \<le> (1 + unit_roundoff 10 28)\<^sup>2 * c"
  using upper [of f q y] mult_left_mono [of "dval q" c "(1 + unit_roundoff 10 28)\<^sup>2"] by fastforce

end

text \<open>Filters as the exchange publishes them: no negative step, tick or minimum.\<close>

definition wf_filters :: "symbol_filters \<Rightarrow> bool" where
  "wf_filters f \<longleftrightarrow> 0 \<le> lit_val (step_size f) \<and> 0 \<le> lit_val (tick_size f) \<and> 0 \<le> min_qty f \<and> 0 \<le> min_notional f"

interpretation rq: down_rounding round_quantity wf_filters
  by unfold_locales (auto simp: round_quantity_def wf_filters_def intro: round_down_nonneg round_down_upper)

interpretation rp: down_rounding round_price wf_filters
  by unfold_locales (auto simp: round_price_def wf_filters_def intro: round_down_nonneg round_down_upper)

section \<open>Position sizing\<close>

record sizing_decision =
  sd_approved :: bool
  sd_quantity :: "dec option"
  sd_reason :: string

definition rejected :: "string \<Rightarrow> sizing_decision" where
  "rejected reason = \<lparr>sd_approved = False, sd_quantity = None, sd_reason = reason\<rparr>"

definition sized_ok :: "dec \<Rightarrow> sizing_decision" where
  "sized_ok quantity = \<lparr>sd_approved = True, sd_quantity = Some quantity, sd_reason = ''SIZED_OK''\<rparr>"

lemma sizing_sel [simp]:
  "\<not> sd_approved (rejected r)" "sd_quantity (rejected r) = None" "sd_reason (rejected r) = r"
  "sd_approved (sized_ok q)" "sd_quantity (sized_ok q) = Some q" "sd_reason (sized_ok q) = ''SIZED_OK''"
  by (simp_all add: rejected_def sized_ok_def)

text \<open>The two exchange minima, checked in this order after every rounding.\<close>

definition check_minima :: "dec \<Rightarrow> dec \<Rightarrow> symbol_filters \<Rightarrow> sizing_decision" where
  "check_minima price quantity filters =
     (if \<not> meets_lot_size quantity filters then rejected ''BELOW_MIN_LOT_SIZE''
      else if \<not> meets_min_notional price quantity filters then rejected ''BELOW_MIN_NOTIONAL''
      else sized_ok quantity)"

definition compute_buy_quantity ::
  "dec \<Rightarrow> dec \<Rightarrow> flt \<Rightarrow> dec \<Rightarrow> symbol_filters \<Rightarrow> sizing_decision result" where
  "compute_buy_quantity available_quote_balance price max_allocation_pct min_quote_buffer filters =
     (if price \<le> 0 then Inr (rejected ''INVALID_PRICE'')
      else let spendable = available_quote_balance - min_quote_buffer
      in if spendable \<le> 0 then Inr (rejected ''BELOW_MIN_QUOTE_BUFFER'')
      else let budget = spendable * dec_of_float max_allocation_pct;
               raw_quantity = budget / price
      in bindr (round_quantity raw_quantity filters) (\<lambda>quantity.
           Inr (check_minima price quantity filters)))"

definition total_loss_per_unit :: "dec \<Rightarrow> dec \<Rightarrow> dec \<Rightarrow> dec \<Rightarrow> dec" where
  "total_loss_per_unit entry_price stop_price slippage fee =
     (let effective_entry = entry_price * (1 + slippage);
          effective_exit = stop_price * (1 - slippage)
      in ((effective_entry - effective_exit) + effective_entry * fee) + effective_exit * fee)"

definition compute_risk_based_buy_quantity ::
  "dec \<Rightarrow> dec \<Rightarrow> dec \<Rightarrow> flt \<Rightarrow> flt \<Rightarrow> flt \<Rightarrow> flt \<Rightarrow> symbol_filters \<Rightarrow> sizing_decision result" where
  "compute_risk_based_buy_quantity equity entry_price stop_price max_risk_per_trade_pct
     max_position_pct taker_fee_pct slippage_pct filters =
     (if entry_price \<le> 0 \<or> stop_price \<le> 0 then Inr (rejected ''INVALID_PRICE'')
      else if equity \<le> 0 then Inr (rejected ''INVALID_EQUITY'')
      else let slippage = dec_of_float slippage_pct;
               fee = dec_of_float taker_fee_pct;
               total_loss = total_loss_per_unit entry_price stop_price slippage fee
      in if total_loss \<le> 0 then Inr (rejected ''INVALID_STOP_DISTANCE'')
      else let risk_budget = equity * dec_of_float max_risk_per_trade_pct;
               risk_based_quantity = risk_budget / total_loss;
               max_notional = equity * dec_of_float max_position_pct;
               position_cap_quantity = max_notional / entry_price
      in bindr (round_quantity (min risk_based_quantity position_cap_quantity) filters) (\<lambda>quantity.
           Inr (check_minima entry_price quantity filters)))"

definition compute_sell_quantity :: "dec \<Rightarrow> dec \<Rightarrow> symbol_filters \<Rightarrow> sizing_decision result" where
  "compute_sell_quantity held_quantity price filters =
     bindr (round_quantity held_quantity filters) (\<lambda>quantity.
       Inr (if quantity \<le> 0 \<or> held_quantity < quantity then rejected ''NO_SELLABLE_QUANTITY''
            else check_minima price quantity filters))"

subsection \<open>What an approved size promises\<close>

lemma check_minima_approved [simp]:
  "sd_approved (check_minima p q f) \<longleftrightarrow> meets_lot_size q f \<and> meets_min_notional p q f"
  by (simp add: check_minima_def)

lemma check_minima_ok [simp]:
  "meets_lot_size q f \<Longrightarrow> meets_min_notional p q f \<Longrightarrow> check_minima p q f = sized_ok q"
  by (simp add: check_minima_def)

lemma check_minima_quantity [simp]:
  "sd_quantity (check_minima p q f) = (if meets_lot_size q f \<and> meets_min_notional p q f then Some q else None)"
  by (simp add: check_minima_def)

lemma compute_sell_approved:
  assumes "compute_sell_quantity h p f = Inr d" "sd_approved d"
  shows "\<exists>q. d = sized_ok q \<and> 0 < q \<and> q \<le> h \<and> meets_lot_size q f \<and> meets_min_notional p q f
    \<and> round_quantity h f = Inr q"
  using assms by (auto simp: compute_sell_quantity_def not_le not_less split: if_splits)

lemma compute_sell_outcomes:
  assumes "compute_sell_quantity h p f = Inr d"
  shows "sd_approved d \<longleftrightarrow> sd_quantity d \<noteq> None"
  using assms by (auto simp: compute_sell_quantity_def split: if_splits)

lemma compute_risk_based_approved:
  assumes "compute_risk_based_buy_quantity e p s mr mp fe sl f = Inr d" "sd_approved d"
  shows "\<exists>q raw. d = sized_ok q \<and> round_quantity raw f = Inr q \<and> meets_lot_size q f \<and> meets_min_notional p q f
    \<and> 0 < e \<and> 0 < p \<and> 0 < s
    \<and> 0 < total_loss_per_unit p s (dec_of_float sl) (dec_of_float fe)
    \<and> raw = min (e * dec_of_float mr / total_loss_per_unit p s (dec_of_float sl) (dec_of_float fe))
                (e * dec_of_float mp / p)"
  using assms
  by (auto simp: compute_risk_based_buy_quantity_def Let_def not_le split: if_splits)

lemma compute_risk_based_outcomes:
  assumes "compute_risk_based_buy_quantity e p s mr mp fe sl f = Inr d"
  shows "sd_approved d \<longleftrightarrow> sd_quantity d \<noteq> None"
  using assms by (auto simp: compute_risk_based_buy_quantity_def Let_def split: if_splits)

section \<open>Budgets\<close>

text \<open>A quantity rounded down from at most \<open>e * m / l\<close> costs at most the share \<open>m\<close> of \<open>e\<close>.\<close>

lemma budget_share:
  assumes "wf_filters f" "round_quantity raw f = Inr q" "0 \<le> raw" "raw \<le> e * m / l" "0 < l" "0 \<le> e" "0 \<le> m"
  shows "dval q * dval l \<le> (1 + unit_roundoff 10 28) ^ 4 * (dval e * dval m)"
proof -
  let ?u = "1 + unit_roundoff 10 28 :: rat"
  have u: "0 \<le> ?u" using dec.eps_nonneg by simp
  have em: "0 \<le> dval e * dval m" using assms(6,7) by (simp add: dec_arith)
  have l: "0 < dval l" using assms(5) by (simp add: dec_arith)
  have "0 \<le> dval (e * m) / dval l"
    using l dec_mult_nonneg [OF assms(6,7)] by (intro divide_nonneg_pos) (simp_all add: dec_le_iff)
  then have "dval (e * m / l) \<le> ?u * (dval (e * m) / dval l)" unfolding dval_divide by (rule dec.upper)
  also have "\<dots> \<le> ?u * (?u * (dval e * dval m) / dval l)"
    using dec.upper [OF em] u l by (intro mult_left_mono divide_right_mono) (simp_all add: dval_times)
  finally have "dval raw \<le> ?u * (?u * (dval e * dval m) / dval l)" using assms(4) by (simp add: dec_le_iff)
  then have "dval q \<le> ?u\<^sup>2 * (?u * (?u * (dval e * dval m) / dval l))"
    by (rule rq.bounded [OF assms(1,2,3)])
  also have "\<dots> = ?u ^ 4 * (dval e * dval m) / dval l" by (simp add: power2_eq_square power4_eq_xxxx)
  finally show ?thesis using l by (simp add: pos_le_divide_eq)
qed

end
