(* ===== verification/Risk.thy ===== *)
theory Risk
  imports Config Sizing
begin

text \<open>
  The independent risk engine (\<open>risk/limits.py\<close>, \<open>risk/engine.py\<close>), the
  kill switch (\<open>risk/kill_switch.py\<close>) and the order validator (\<open>execution/order_validator.py\<close>), the
  two gates every proposed trade passes after sizing.
\<close>

section \<open>Data contracts\<close>

datatype signal_type = BUY | EXIT | HOLD

record trade_intent =
  ti_signal_type :: signal_type
  ti_symbol :: string
  ti_quantity :: dec
  ti_price :: dec

text \<open>The constructor raises on a HOLD.\<close>

definition mk_trade_intent :: "signal_type \<Rightarrow> string \<Rightarrow> dec \<Rightarrow> dec \<Rightarrow> trade_intent result" where
  "mk_trade_intent signal_type symbol quantity price =
     (if signal_type \<noteq> BUY \<and> signal_type \<noteq> EXIT then Inl (ValueError ''TradeIntent'')
      else Inr \<lparr>ti_signal_type = signal_type, ti_symbol = symbol, ti_quantity = quantity, ti_price = price\<rparr>)"

record risk_context =
  rc_equity :: dec
  rc_quote_balance :: dec
  rc_trades_today :: int
  rc_cooldown_bars_remaining :: int
  rc_daily_realized_pnl_pct :: flt
  rc_current_drawdown_pct :: flt
  rc_data_age_seconds :: flt
  rc_consecutive_api_errors :: int
  rc_kill_switch_engaged :: bool
  rc_is_duplicate_order :: bool
  rc_reconciliation_blocked :: bool

record risk_decision =
  rd_approved :: bool
  rd_reason :: string

abbreviation approve :: "string \<Rightarrow> risk_decision" where
  "approve r \<equiv> \<lparr>rd_approved = True, rd_reason = r\<rparr>"

abbreviation reject :: "string \<Rightarrow> risk_decision" where
  "reject r \<equiv> \<lparr>rd_approved = False, rd_reason = r\<rparr>"

section \<open>The engine\<close>

definition check_universal_gates :: "risk_config \<Rightarrow> risk_context \<Rightarrow> risk_decision option" where
  "check_universal_gates config context =
     (if rc_kill_switch_engaged context then Some (reject ''KILL_SWITCH_ENGAGED'')
      else if max_consecutive_api_errors config \<le> rc_consecutive_api_errors context
        then Some (reject ''CONSECUTIVE_API_ERROR_SHUTDOWN'')
      else if of_int (stale_data_max_age_seconds config) < fval (rc_data_age_seconds context)
        then Some (reject ''STALE_DATA'')
      else if rc_is_duplicate_order context then Some (reject ''DUPLICATE_ORDER_BLOCKED'')
      else if rc_reconciliation_blocked context
        then Some (reject ''RECONCILIATION_DISCREPANCY_BLOCKS_ALL_ORDERS'')
      else None)"

definition check_buy_gates :: "risk_config \<Rightarrow> trade_intent \<Rightarrow> risk_context \<Rightarrow> risk_decision" where
  "check_buy_gates config intent context =
     (if max_drawdown_pct config \<le> rc_current_drawdown_pct context then reject ''MAX_DRAWDOWN_SHUTDOWN''
      else if rc_daily_realized_pnl_pct context \<le> - max_daily_loss_pct config
        then reject ''MAX_DAILY_LOSS_SHUTDOWN''
      else if max_trades_per_day config \<le> rc_trades_today context then reject ''MAX_TRADES_PER_DAY_REACHED''
      else if 0 < rc_cooldown_bars_remaining context then reject ''COOLDOWN_AFTER_LOSS_ACTIVE''
      else if rc_quote_balance context < dec_of_float (min_quote_balance config)
        then reject ''BELOW_MIN_QUOTE_BALANCE''
      else if rc_equity context \<le> 0 then reject ''INVALID_EQUITY''
      else let notional = ti_quantity intent * ti_price intent;
               position_pct = notional / rc_equity context
      in if dec_of_float (max_position_pct config) < position_pct then reject ''EXCEEDS_MAX_POSITION_PCT''
      else approve ''APPROVED'')"

definition risk_evaluate :: "risk_config \<Rightarrow> trade_intent \<Rightarrow> risk_context \<Rightarrow> risk_decision" where
  "risk_evaluate config intent context =
     (case check_universal_gates config context of
        Some d \<Rightarrow> d
      | None \<Rightarrow> if ti_signal_type intent = EXIT then approve ''APPROVED_EXIT_ALWAYS_ALLOWED''
                else check_buy_gates config intent context)"

text \<open>The universal gates as one predicate: what must hold for any order at all.\<close>

definition universal_ok :: "risk_config \<Rightarrow> risk_context \<Rightarrow> bool" where
  "universal_ok c x \<longleftrightarrow>
     \<not> rc_kill_switch_engaged x \<and> rc_consecutive_api_errors x < max_consecutive_api_errors c \<and>
     fval (rc_data_age_seconds x) \<le> of_int (stale_data_max_age_seconds c) \<and>
     \<not> rc_is_duplicate_order x \<and> \<not> rc_reconciliation_blocked x"

definition buy_ok :: "risk_config \<Rightarrow> trade_intent \<Rightarrow> risk_context \<Rightarrow> bool" where
  "buy_ok c i x \<longleftrightarrow>
     rc_current_drawdown_pct x < max_drawdown_pct c \<and>
     - max_daily_loss_pct c < rc_daily_realized_pnl_pct x \<and>
     rc_trades_today x < max_trades_per_day c \<and> rc_cooldown_bars_remaining x \<le> 0 \<and>
     dec_of_float (min_quote_balance c) \<le> rc_quote_balance x \<and> 0 < rc_equity x \<and>
     ti_quantity i * ti_price i / rc_equity x \<le> dec_of_float (max_position_pct c)"

lemma universal_gates_iff: "check_universal_gates c x = None \<longleftrightarrow> universal_ok c x"
  by (auto simp: check_universal_gates_def universal_ok_def not_le not_less)

lemma universal_gates_reject: "check_universal_gates c x = Some d \<Longrightarrow> \<not> rd_approved d"
  by (auto simp: check_universal_gates_def split: if_splits)

lemma buy_gates_iff: "rd_approved (check_buy_gates c i x) \<longleftrightarrow> buy_ok c i x"
  by (auto simp: check_buy_gates_def buy_ok_def Let_def not_le not_less)

lemma risk_evaluate_iff:
  "rd_approved (risk_evaluate c i x) \<longleftrightarrow>
     universal_ok c x \<and> (ti_signal_type i = EXIT \<or> buy_ok c i x)"
proof (cases "check_universal_gates c x")
  case None
  then have "universal_ok c x" by (simp flip: universal_gates_iff)
  with None show ?thesis by (simp add: risk_evaluate_def buy_gates_iff)
next
  case (Some d)
  then have "\<not> universal_ok c x" by (simp flip: universal_gates_iff)
  with Some universal_gates_reject show ?thesis by (auto simp: risk_evaluate_def)
qed

text \<open>An exit is only ever stopped by a universal gate.\<close>

lemma risk_evaluate_exit:
  "ti_signal_type i = EXIT \<Longrightarrow> universal_ok c x \<Longrightarrow>
     risk_evaluate c i x = approve ''APPROVED_EXIT_ALWAYS_ALLOWED''"
  by (simp add: risk_evaluate_def flip: universal_gates_iff)

section \<open>The kill switch\<close>

text \<open>
  The flag file as its text, when it exists; \<open>timestamp\<close> is the clock's ISO text. The
  text is stripped of surrounding white space before it is written, and again when read.
\<close>

definition is_space :: "char \<Rightarrow> bool" where
  "is_space c \<longleftrightarrow> c \<in> {CHR '' '', CHR 0x09, CHR 0x0A, CHR 0x0B, CHR 0x0C, CHR 0x0D}"

definition strip :: "string \<Rightarrow> string" where
  "strip s = rev (dropWhile is_space (rev (dropWhile is_space s)))"

definition kill_engage :: "string \<Rightarrow> string \<Rightarrow> string option \<Rightarrow> string option" where
  "kill_engage timestamp reason file = Some (strip (timestamp @ '' '' @ reason) @ [CHR 0x0A])"

definition kill_disengage :: "string option \<Rightarrow> string option" where
  "kill_disengage file = None"

definition kill_is_engaged :: "string option \<Rightarrow> bool" where
  "kill_is_engaged file \<longleftrightarrow> file \<noteq> None"

definition kill_reason :: "string option \<Rightarrow> string option" where
  "kill_reason file = map_option strip file"

text \<open>Stripping on the right, then a stripped text and its line end.\<close>

definition rstrip :: "string \<Rightarrow> string" where
  "rstrip s = rev (dropWhile is_space (rev s))"

lemma strip_rstrip: "strip s = rstrip (dropWhile is_space s)"
  by (simp add: strip_def rstrip_def)

lemma rstrip_newline: "rstrip (s @ [CHR 0x0A]) = rstrip s"
  by (simp add: rstrip_def is_space_def)

lemma dropWhile_idle: "s = [] \<or> \<not> is_space (hd s) \<Longrightarrow> dropWhile is_space s = s"
  by (cases s) auto

lemma rstrip_rstrip: "rstrip (rstrip s) = rstrip s"
proof -
  have "dropWhile is_space (rev s) = [] \<or> \<not> is_space (hd (dropWhile is_space (rev s)))"
    using hd_dropWhile by blast
  then show ?thesis by (simp add: rstrip_def dropWhile_idle)
qed

lemma rstrip_prefix: "\<exists>t. s = rstrip s @ t"
  unfolding rstrip_def by (metis rev_append rev_rev_ident takeWhile_dropWhile_id)

lemma strip_head: "strip s = [] \<or> \<not> is_space (hd (strip s))"
proof -
  let ?d = "dropWhile is_space s"
  obtain t where t: "?d = strip s @ t" using rstrip_prefix [of ?d] by (auto simp: strip_rstrip)
  show ?thesis
  proof (cases "strip s = []")
    case False
    with t have "?d \<noteq> []" "hd (strip s) = hd ?d" by auto
    then show ?thesis using hd_dropWhile [of is_space s] by simp
  qed simp
qed

lemma strip_strip: "strip (strip s @ [CHR 0x0A]) = strip s"
proof (cases "strip s = []")
  case True
  have "strip [CHR 0x0A] = []" by (simp add: strip_def is_space_def)
  with True show ?thesis by simp
next
  case False
  then have "dropWhile is_space (strip s @ [CHR 0x0A]) = strip s @ [CHR 0x0A]"
    using strip_head [of s] by (cases "strip s") auto
  then have "strip (strip s @ [CHR 0x0A]) = rstrip (strip s)"
    unfolding strip_rstrip [of "strip s @ _"] by (simp only: rstrip_newline)
  then show ?thesis by (simp only: strip_rstrip rstrip_rstrip)
qed

lemma kill_switch_roundtrip:
  "kill_is_engaged (kill_engage ts r file)"
  "kill_reason (kill_engage ts r file) = Some (strip (ts @ '' '' @ r))"
  "\<not> kill_is_engaged (kill_disengage file)"
  "kill_reason (kill_disengage file) = None"
  by (simp_all add: kill_is_engaged_def kill_engage_def kill_reason_def kill_disengage_def strip_strip)

section \<open>The order validator\<close>

record order_validation_result =
  ov_approved :: bool
  ov_quantity :: "dec option"
  ov_reason :: string

abbreviation ov_reject :: "string \<Rightarrow> order_validation_result" where
  "ov_reject r \<equiv> \<lparr>ov_approved = False, ov_quantity = None, ov_reason = r\<rparr>"

definition validate_order :: "trade_intent \<Rightarrow> symbol_filters \<Rightarrow> order_validation_result result" where
  "validate_order intent filters =
     (if ti_symbol intent \<noteq> f_symbol filters then Inr (ov_reject ''SYMBOL_MISMATCH'')
      else bindr (round_quantity (ti_quantity intent) filters) (\<lambda>quantity. Inr (
        if quantity \<le> 0 then ov_reject ''ZERO_QUANTITY_AFTER_ROUNDING''
        else if \<not> meets_lot_size quantity filters then ov_reject ''BELOW_MIN_LOT_SIZE''
        else if \<not> meets_min_notional (ti_price intent) quantity filters then ov_reject ''BELOW_MIN_NOTIONAL''
        else \<lparr>ov_approved = True, ov_quantity = Some quantity, ov_reason = ''VALIDATED''\<rparr>)))"

lemma validate_order_approved:
  assumes "validate_order i f = Inr v" "ov_approved v"
  shows "\<exists>q. ov_quantity v = Some q \<and> round_quantity (ti_quantity i) f = Inr q \<and> 0 < q
    \<and> meets_lot_size q f \<and> meets_min_notional (ti_price i) q f \<and> ti_symbol i = f_symbol f"
  using assms by (auto simp: validate_order_def not_le split: if_splits)

lemma validate_order_outcomes:
  "validate_order i f = Inr v \<Longrightarrow> ov_approved v \<longleftrightarrow> ov_quantity v \<noteq> None"
  by (auto simp: validate_order_def split: if_splits)

end
