(* ===== verification/Strategy.thy ===== *)
theory Strategy
  imports Market_Data Risk Orders
begin

text \<open>
  Indicators and the baseline strategy: signals (\<open>strategy/base.py\<close>), moving averages
  (\<open>indicators/moving_averages.py\<close>), volatility (\<open>indicators/volatility.py\<close>) and the
  EMA crossover (\<open>strategy/trend_baseline.py\<close>).

  The rolling and exponential means are pandas' (\<open>Series.ewm(...).mean()\<close>,
  \<open>Series.rolling(...).mean()\<close>, ...), a library the repository only calls: they are
  parameters, functions from a series and a period to a series, where \<open>None\<close> stands
  for the NaN that pandas puts before a window is full. What the program relies on is
  causality, the locale \<open>causal\<close>.
\<close>

section \<open>Causality\<close>

locale causal =
  fixes f :: "'a list \<Rightarrow> 'b list"
  assumes causal_take: "f (take n xs) = take n (f xs)"
    and causal_length: "length (f xs) = length xs"
begin

lemma nth_prefix: "i < n \<Longrightarrow> i < length xs \<Longrightarrow> f (take n xs) ! i = f xs ! i"
  using causal_take [of n xs] by simp

text \<open>The value at an index depends only on the values up to it: no look-ahead.\<close>

lemma no_look_ahead: "take (Suc i) xs = take (Suc i) ys \<Longrightarrow> i < length xs \<Longrightarrow> i < length ys \<Longrightarrow> f xs ! i = f ys ! i"
  by (metis lessI nth_prefix)

lemma last_eq_nth: "xs \<noteq> [] \<Longrightarrow> last (f xs) = f xs ! (length xs - 1)"
  using causal_length [of xs] by (metis last_conv_nth length_0_conv)

end

section \<open>Indicators\<close>

definition ema :: "(flt list \<Rightarrow> int \<Rightarrow> flt list) \<Rightarrow> flt list \<Rightarrow> int \<Rightarrow> flt list result" where
  "ema ewm_mean values period =
     (if period \<le> 0 then Inl (ValueError ''period'') else Inr (ewm_mean values period))"

type_synonym rolling = "flt list \<Rightarrow> int \<Rightarrow> flt option list"

text \<open>\<open>sma\<close>, \<open>rolling_std\<close>, \<open>rolling_max\<close> and \<open>rolling_min\<close> differ in the pandas
  reduction only, which is the parameter.\<close>

definition rolling_indicator :: "rolling \<Rightarrow> flt list \<Rightarrow> int \<Rightarrow> flt option list result" where
  "rolling_indicator reduce values period =
     (if period \<le> 0 then Inl (ValueError ''period'') else Inr (reduce values period))"

fun true_range_from :: "flt option \<Rightarrow> candle list \<Rightarrow> flt list" where
  "true_range_from prev [] = []"
| "true_range_from prev (c # cs) =
     (let high = float_of_dec (c_high c); low = float_of_dec (c_low c);
          tr = (case prev of None \<Rightarrow> high - low
                | Some p \<Rightarrow> max (max (high - low) \<bar>high - p\<bar>) \<bar>low - p\<bar>)
      in tr # true_range_from (Some (float_of_dec (c_close c))) cs)"

definition true_range :: "candle list \<Rightarrow> flt list" where
  "true_range candles = true_range_from None candles"

definition atr :: "rolling \<Rightarrow> candle list \<Rightarrow> int \<Rightarrow> flt option list result" where
  "atr rolling_mean candles period = rolling_indicator rolling_mean (true_range candles) period"

lemma true_range_from_length: "length (true_range_from p cs) = length cs"
  by (induction cs arbitrary: p) (simp_all add: Let_def)

lemma true_range_from_take: "true_range_from p (take n cs) = take n (true_range_from p cs)"
  by (induction cs arbitrary: p n) (simp_all add: Let_def take_Cons split: nat.split)

interpretation tr: causal true_range
  by unfold_locales (simp_all add: true_range_def true_range_from_length true_range_from_take)

text \<open>The true range of a candle whose low does not exceed its high is never negative.\<close>

lemma true_range_from_nonneg:
  "\<forall>c\<in>set cs. c_low c \<le> c_high c \<Longrightarrow> x \<in> set (true_range_from p cs) \<Longrightarrow> 0 \<le> x"
proof (induction cs arbitrary: p)
  case (Cons c cs)
  have "0 \<le> float_of_dec (c_high c) - float_of_dec (c_low c)"
    using float_of_dec_mono Cons.prems(1) by (simp add: flt_arith flt.nonneg_iff)
  with Cons show ?case by (auto simp: Let_def max.coboundedI1 split: option.splits)
qed simp

section \<open>Signals\<close>

record signal =
  sg_type :: signal_type
  sg_reason_code :: string
  sg_candle_close_time_ms :: int
  sg_inputs :: payload

text \<open>A strategy is any function of the completed candles and the position.\<close>

type_synonym signal_generator = "candle list \<Rightarrow> position_side \<Rightarrow> signal result"

definition side_value :: "position_side \<Rightarrow> string" where
  "side_value s = (case s of FLAT \<Rightarrow> ''flat'' | LONG \<Rightarrow> ''long'')"

definition signal_value :: "signal_type \<Rightarrow> string" where
  "signal_value t = (case t of BUY \<Rightarrow> ''buy'' | EXIT \<Rightarrow> ''exit'' | HOLD \<Rightarrow> ''hold'')"

section \<open>The EMA crossover\<close>

record ema_crossover =
  ema_fast_period :: int
  ema_slow_period :: int

definition mk_ema_crossover :: "int \<Rightarrow> int \<Rightarrow> ema_crossover result" where
  "mk_ema_crossover fast slow =
     (if fast \<le> 0 \<or> slow \<le> 0 then Inl (ValueError ''EMA periods'')
      else if slow \<le> fast then Inl (ValueError ''ema_fast'')
      else Inr \<lparr>ema_fast_period = fast, ema_slow_period = slow\<rparr>)"

definition crossover_inputs ::
  "ema_crossover \<Rightarrow> candle \<Rightarrow> flt \<Rightarrow> flt \<Rightarrow> flt \<Rightarrow> flt \<Rightarrow> position_side \<Rightarrow> payload" where
  "crossover_inputs s c fast_prev fast_curr slow_prev slow_curr pos =
    [(''symbol'', JStr (c_symbol c)), (''interval'', JStr (c_interval c)),
     (''close'', JFlt (float_of_dec (c_close c))),
     (''ema_fast_period'', JInt (ema_fast_period s)), (''ema_slow_period'', JInt (ema_slow_period s)),
     (''ema_fast_prev'', JFlt fast_prev), (''ema_fast_curr'', JFlt fast_curr),
     (''ema_slow_prev'', JFlt slow_prev), (''ema_slow_curr'', JFlt slow_curr),
     (''current_position'', JStr (side_value pos))]"

definition crossover_decision :: "flt \<Rightarrow> flt \<Rightarrow> flt \<Rightarrow> flt \<Rightarrow> position_side \<Rightarrow> signal_type \<times> string" where
  "crossover_decision fast_prev fast_curr slow_prev slow_curr pos =
     (if fast_prev \<le> slow_prev \<and> slow_curr < fast_curr
      then if pos = LONG then (HOLD, ''HOLD_ALREADY_LONG'') else (BUY, ''BULLISH_EMA_CROSSOVER'')
      else if slow_prev \<le> fast_prev \<and> fast_curr < slow_curr
      then if pos = FLAT then (HOLD, ''HOLD_ALREADY_FLAT'') else (EXIT, ''BEARISH_EMA_CROSSOVER'')
      else (HOLD, ''HOLD_NO_CROSSOVER''))"

definition ema_generate_signal ::
  "(flt list \<Rightarrow> int \<Rightarrow> flt list) \<Rightarrow> ema_crossover \<Rightarrow> signal_generator" where
  "ema_generate_signal ewm_mean s candles current_position =
     (if int (length candles) < ema_slow_period s + 1 then Inl InsufficientDataError
      else let closes = map (\<lambda>c. float_of_dec (c_close c)) candles
      in bindr (ema ewm_mean closes (ema_fast_period s)) (\<lambda>fast_values.
         bindr (ema ewm_mean closes (ema_slow_period s)) (\<lambda>slow_values.
         bindr (nth_res fast_values (-2)) (\<lambda>fast_prev.
         bindr (nth_res fast_values (-1)) (\<lambda>fast_curr.
         bindr (nth_res slow_values (-2)) (\<lambda>slow_prev.
         bindr (nth_res slow_values (-1)) (\<lambda>slow_curr.
         bindr (nth_res candles (-1)) (\<lambda>last_candle.
           case crossover_decision fast_prev fast_curr slow_prev slow_curr current_position of
             (ty, reason) \<Rightarrow>
               Inr \<lparr>sg_type = ty, sg_reason_code = reason,
                    sg_candle_close_time_ms = close_time_ms last_candle,
                    sg_inputs = crossover_inputs s last_candle fast_prev fast_curr slow_prev slow_curr
                      current_position\<rparr>))))))))"

lemma crossover_decision_sound:
  "fst (crossover_decision fp fc sp sc pos) = BUY \<Longrightarrow> pos = FLAT \<and> fp \<le> sp \<and> sc < fc"
  "fst (crossover_decision fp fc sp sc pos) = EXIT \<Longrightarrow> pos = LONG \<and> sp \<le> fp \<and> fc < sc"
  by (cases pos; auto simp: crossover_decision_def split: if_splits)+

text \<open>A buy is only signalled when flat, an exit only when long.\<close>

lemma ema_generate_signal_side:
  assumes "ema_generate_signal ewm s cs pos = Inr sg"
  shows "(sg_type sg = BUY \<longrightarrow> pos = FLAT) \<and> (sg_type sg = EXIT \<longrightarrow> pos = LONG)
    \<and> sg_candle_close_time_ms sg = close_time_ms (last cs)"
proof -
  from assms obtain fp fc sp sc l where ty: "sg_type sg = fst (crossover_decision fp fc sp sc pos)"
    and l: "nth_res cs (-1) = Inr l" "sg_candle_close_time_ms sg = close_time_ms l"
    unfolding ema_generate_signal_def Let_def
    by (cases "int (length cs) < ema_slow_period s + 1") (auto simp: case_prod_beta)
  have "l = last cs" using l(1) nth_res_last [of cs] by (cases "cs = []") (simp_all add: nth_res_def)
  then show ?thesis using l(2) crossover_decision_sound(1,2) [of fp fc sp sc pos] ty by simp
qed

text \<open>
  With a length-preserving exponential mean the strategy always answers once there are
  enough candles: it raises only on too few.
\<close>

lemma nth_res_neg: "k \<le> length xs \<Longrightarrow> 0 < k \<Longrightarrow> nth_res xs (- int k) = Inr (xs ! (length xs - k))"
  by (simp add: nth_res_def Let_def nat_diff_distrib flip: of_nat_diff)

lemma ema_generate_signal_total:
  assumes s: "0 < ema_fast_period s" "0 < ema_slow_period s" and len: "\<And>xs p. length (ewm xs p) = length xs"
  shows "is_ok (ema_generate_signal ewm s cs pos) \<longleftrightarrow> ema_slow_period s + 1 \<le> int (length cs)"
proof (cases "ema_slow_period s + 1 \<le> int (length cs)")
  case True
  let ?closes = "map (\<lambda>c. float_of_dec (c_close c)) cs"
  have n: "2 \<le> length cs" using True s(2) by linarith
  have e: "ema ewm ?closes p = Inr (ewm ?closes p)" if "0 < p" for p using that by (simp add: ema_def)
  have i2: "nth_res ys (-2) = Inr (ys ! (length ys - 2))" if "2 \<le> length ys" for ys :: "flt list"
    using nth_res_neg [of 2 ys] that by simp
  have i1: "nth_res ys (-1) = Inr (ys ! (length ys - 1))" if "2 \<le> length ys" for ys :: "flt list"
    using nth_res_neg [of 1 ys] that by simp
  have c1: "nth_res cs (-1) = Inr (cs ! (length cs - 1))" using nth_res_neg [of 1 cs] n by simp
  show ?thesis using True n
    by (simp add: ema_generate_signal_def Let_def e s i1 i2 c1 len case_prod_beta)
qed (simp add: ema_generate_signal_def)

end
