(* ===== verification/Core_Properties.thy ===== *)
theory Core_Properties
  imports Execution_Store Strategy
begin

text \<open>
  The properties of the trading core: sizing, the risk engine, the portfolio, the
  application of order reports and the data layer, each with a concrete instance.
\<close>

section \<open>Sizing and risk\<close>

text \<open>
  C13. A risk-sized entry stays within its risk budget and its position cap: the quantity times
  the modelled loss per unit (slippage and both fees included) is at most the risk fraction
  of the equity, and its notional at most the position fraction, up to the roundings of the
  arithmetic; and it meets both exchange minima.
\<close>

theorem risk_sized_buy_within_budget:
  assumes "compute_risk_based_buy_quantity e p s mr mp fe sl f = Inr d" and "sd_approved d"
    and "wf_filters f" and "0 \<le> mr" and "0 \<le> mp"
  shows "\<exists>q. sd_quantity d = Some q \<and> meets_lot_size q f \<and> meets_min_notional p q f \<and>
    dval q * dval (total_loss_per_unit p s (dec_of_float sl) (dec_of_float fe))
      \<le> (1 + unit_roundoff 10 28) ^ 4 * (dval e * dval (dec_of_float mr)) \<and>
    dval q * dval p \<le> (1 + unit_roundoff 10 28) ^ 4 * (dval e * dval (dec_of_float mp))"
proof -
  obtain q raw where q: "d = sized_ok q" "round_quantity raw f = Inr q" "meets_lot_size q f" "meets_min_notional p q f"
    and pos: "0 < e" "0 < p" "0 < total_loss_per_unit p s (dec_of_float sl) (dec_of_float fe)"
    and raw: "raw = min (e * dec_of_float mr / total_loss_per_unit p s (dec_of_float sl) (dec_of_float fe))
                        (e * dec_of_float mp / p)"
    using compute_risk_based_approved [OF assms(1,2)] by blast
  have m: "0 \<le> dec_of_float mr" "0 \<le> dec_of_float mp" using dec_of_float_nonneg assms(4,5) by blast+
  have "0 \<le> raw" unfolding raw min_def using pos m by (auto intro!: dec_divide_nonneg dec_mult_nonneg intro: less_imp_le)
  from budget_share [OF assms(3) q(2) this] show ?thesis using q pos m raw by (auto simp: less_imp_le)
qed

definition sample_filters :: symbol_filters where
  "sample_filters = \<lparr>f_symbol = ''BTCUSDT'', tick_size = DecLit 1 (-2), min_price = 0, max_price = Dec 1000000,
     step_size = DecLit 1 (-3), min_qty = Dec (1 / 1000), max_qty = Dec 1000, min_notional = Dec 10,
     max_notional = None, apply_min_notional_to_market = True\<rparr>"

lemma sample_filters_wf: "wf_filters sample_filters"
  by code_simp

definition sample_sizing :: "sizing_decision result" where
  "sample_sizing = compute_risk_based_buy_quantity (Dec 1000) (Dec 100) (Dec 95) (Flt (1 / 64)) (Flt (1 / 2)) 0 0 sample_filters"

lemma sample_sizing_value: "sample_sizing = Inr (sized_ok (Dec (3125 / 1000)))"
  by code_simp

theorem risk_sized_buy_within_budget_witness:
  "\<exists>q. sd_quantity (sized_ok (Dec (3125 / 1000))) = Some q \<and>
    dval q * dval (total_loss_per_unit (Dec 100) (Dec 95) (dec_of_float 0) (dec_of_float 0))
      \<le> (1 + unit_roundoff 10 28) ^ 4 * (dval (Dec 1000) * dval (dec_of_float (Flt (1 / 64))))"
  using risk_sized_buy_within_budget [OF sample_sizing_value [unfolded sample_sizing_def] sizing_sel(4) sample_filters_wf]
  by (auto simp: less_eq_flt_def zero_flt_def)

text \<open>
  On a power-of-ten step, as the exchange's steps are, rounding a representable quantity down
  is exact: the result is the largest multiple of the step that does not exceed it.
\<close>

theorem round_down_is_exact_floor:
  assumes "round_down_to_step v step = Inr y" and "dval (lit_val step) = 10 powi k"
    and "rep v" and "0 \<le> v" and "dval v < 10 ^ 28 * 10 powi k"
  shows "dval y = of_int \<lfloor>dval v / 10 powi k\<rfloor> * 10 powi k \<and> y \<le> v \<and> dval v < dval y + 10 powi k"
proof -
  have y: "dval y = of_int \<lfloor>dval v / 10 powi k\<rfloor> * 10 powi k"
    using assms by (rule round_down_floor)
  have P: "0 < (10 powi k :: rat)" by simp
  have "of_int \<lfloor>dval v / 10 powi k\<rfloor> \<le> dval v / 10 powi k" "dval v / 10 powi k < of_int \<lfloor>dval v / 10 powi k\<rfloor> + 1"
    by linarith+
  then have "of_int \<lfloor>dval v / 10 powi k\<rfloor> * 10 powi k \<le> dval v"
    "dval v < (of_int \<lfloor>dval v / 10 powi k\<rfloor> + 1) * 10 powi k"
    using P by (simp_all only: pos_le_divide_eq pos_divide_less_eq)
  with y show ?thesis by (simp add: dec_le_iff distrib_right)
qed

theorem round_down_is_exact_floor_witness:
  "round_down_to_step (Dec (123 / 100)) (DecLit 1 (-1)) = Inr (Dec (12 / 10)) \<and> Dec (12 / 10) \<le> Dec (123 / 100)"
proof -
  have r: "round_down_to_step (Dec (123 / 100)) (DecLit 1 (-1)) = Inr (Dec (12 / 10))" by code_simp
  have "rep (Dec (123 / 100))" "(0 :: dec) \<le> Dec (123 / 100)" by code_simp+
  from round_down_is_exact_floor [OF r _ this, of "-1"] r show ?thesis
    by (simp add: lit_val_def power_int_minus)
qed

text \<open>
  The risk engine approves a trade exactly when every universal gate holds (kill switch, API
  errors, data age, duplicate, reconciliation) and, unless it is an exit, every buy gate too;
  so an exit is never stopped by a drawdown, loss, cooldown or position limit.
\<close>

theorem risk_engine_decides:
  "rd_approved (risk_evaluate c i x) \<longleftrightarrow>
     (\<not> rc_kill_switch_engaged x \<and> rc_consecutive_api_errors x < max_consecutive_api_errors c \<and>
      fval (rc_data_age_seconds x) \<le> of_int (stale_data_max_age_seconds c) \<and>
      \<not> rc_is_duplicate_order x \<and> \<not> rc_reconciliation_blocked x) \<and>
     (ti_signal_type i = EXIT \<or>
      (rc_current_drawdown_pct x < max_drawdown_pct c \<and>
       - max_daily_loss_pct c < rc_daily_realized_pnl_pct x \<and>
       rc_trades_today x < max_trades_per_day c \<and> rc_cooldown_bars_remaining x \<le> 0 \<and>
       dec_of_float (min_quote_balance c) \<le> rc_quote_balance x \<and> 0 < rc_equity x \<and>
       ti_quantity i * ti_price i / rc_equity x \<le> dec_of_float (max_position_pct c)))"
  by (simp add: risk_evaluate_iff universal_ok_def buy_ok_def)

section \<open>The portfolio\<close>

text \<open>The portfolios that fills lead to, from a flat start.\<close>

inductive traded :: "portfolio \<Rightarrow> bool" where
  start: "0 \<le> q \<Longrightarrow> rep q \<Longrightarrow> traded (portfolio_initial q)"
| fill: "traded s \<Longrightarrow> apply_fill_delta s side base quote cq cb est = Inr t \<Longrightarrow>
    0 \<le> quote \<Longrightarrow> 0 \<le> cq \<Longrightarrow> rep cq \<Longrightarrow> (side = SELL_SIDE \<longrightarrow> cq \<le> base * (quote / base)) \<Longrightarrow> traded t"

lemma rep_initial: "rep q \<Longrightarrow> rep_portfolio (portfolio_initial q)"
  by (simp add: rep_portfolio_def portfolio_initial_def)



text \<open>
  A position opened by one buy and closed by one sale of the whole holding leaves the portfolio
  flat with nothing carried over, and realizes exactly the price difference times the
  quantity, less both fees, each operation rounded as the code rounds it.
\<close>

theorem round_trip_realizes_net_pnl:
  assumes "apply_buy s q p f e = Inr t" and "apply_sell t (base_balance t) p' f' e' = Inr u"
    and "wf_portfolio s" and "rep q" and "0 < q" and "rep f"
  shows "position_side u = FLAT \<and> base_balance u = 0 \<and> avg_entry_price u = None \<and> open_position_entry_fee u = 0 \<and>
    quote_balance u = (quote_balance s - (q * p + f)) + (q * p' - f') \<and>
    realized_pnl_quote u = realized_pnl_quote s + (q * (p' - p) - f' - f)"
proof -
  have b: "position_side s = FLAT" "quote_balance t = quote_balance s - (q * p + f)" "base_balance t = base_balance s + q"
    "realized_pnl_quote t = realized_pnl_quote s" "avg_entry_price t = Some p"
    using apply_buy_exact [OF assms(1)] by simp_all
  have fee: "open_position_entry_fee t = f" using assms(1) by (auto simp: apply_buy_def Let_def split: if_splits)
  have "base_balance s = 0" using b(1) assms(3) by (simp add: wf_portfolio_def)
  then have q: "base_balance t = q" using b(3) rep_add_zero [OF assms(4)] by simp
  have "q / q = 1" using assms(5) rep_integer [of 1] by (simp add: dec_eq_iff dval_divide dec_less_iff rep_def)
  then have "f * (q / q) = f" using assms(6) by (simp add: dec_eq_iff dval_times rep_def)
  then have "entry_fee_allocated t q = f" using assms(5) by (simp add: entry_fee_allocated_def q fee)
  then show ?thesis using assms(2) apply_sell_full_close [OF assms(2) refl] b q
    by (auto simp: apply_sell_eq Let_def)
qed

definition sample_long :: portfolio where
  "sample_long = \<lparr>quote_balance = Dec 50, base_balance = Dec 2, position_side = LONG, avg_entry_price = Some (Dec 25),
     realized_pnl_quote = 0, open_position_entry_fee = 0, pnl_is_estimated = False\<rparr>"

theorem round_trip_realizes_net_pnl_witness:
  "\<exists>u. apply_sell sample_long (Dec 2) (Dec 30) 0 False = Inr u \<and> realized_pnl_quote u = 0 + (Dec 2 * (Dec 30 - Dec 25) - 0 - 0)"
proof -
  have b: "apply_buy (portfolio_initial (Dec 100)) (Dec 2) (Dec 25) 0 False = Inr sample_long" by code_simp
  have "is_ok (apply_sell sample_long (base_balance sample_long) (Dec 30) 0 False)" by code_simp
  then obtain u where u: "apply_sell sample_long (base_balance sample_long) (Dec 30) 0 False = Inr u"
    by (auto simp: is_ok_iff)
  have "wf_portfolio (portfolio_initial (Dec 100))" "rep (Dec 2)" "0 < Dec 2" "rep 0" by code_simp+
  from round_trip_realizes_net_pnl [OF b u this] u show ?thesis by (simp add: sample_long_def portfolio_initial_def)
qed

section \<open>Order reports\<close>

text \<open>
  C15. The application of an order report is all or nothing: when it raises, injected faults
  included, the database is as before; when it returns, the pending row existed, the
  stored portfolio and the row's applied amounts both became those of the report, and the
  row is resolved exactly when the report's status is final.
\<close>

theorem order_application_is_atomic:
  "case apply_order_result_atomically sy qa ba order fee now db of
     (Inl e, db') \<Rightarrow> db' = db
   | (Inr r, db') \<Rightarrow>
       \<exists>row. get_pending (or_client_order_id order) db = Some row \<and>
         load_portfolio sy db' = Some (oa_portfolio r) \<and>
         get_pending (or_client_order_id order) db' = Some (resolve_row order r now row) \<and>
         po_applied (resolve_row order r now row) = applied_of r \<and>
         (po_status (resolve_row order r now row) = STATUS_RESOLVED \<longleftrightarrow> oa_is_terminal r)"
proof (cases "apply_order_result_atomically sy qa ba order fee now db")
  case (Pair res db')
  show ?thesis
  proof (cases res)
    case (Inl e)
    then show ?thesis using Pair apply_order_rollback by simp
  next
    case (Inr r)
    with Pair obtain row :: pending_order and p where g: "get_pending (or_client_order_id order) db = Some row"
      and db': "db' = update_pending order r now (write_portfolio sy (oa_portfolio r) now db)"
      using apply_order_commit by blast
    have "po_client_order_id row = or_client_order_id order" using g by (rule get_pending_id)
    then show ?thesis unfolding Pair Inr db'
      by (simp add: get_pending_update g load_portfolio_write) (simp add: resolve_row_def)
  qed
qed

text \<open>
  C16. Exactly once: applying the same report again, in a later transaction, commits and changes
  neither the portfolio nor the applied amounts, and realizes no profit or loss.
\<close>

theorem report_applies_once:
  assumes "apply_order_result_atomically sy qa ba order fee now db = (Inr r, db')"
  shows "\<exists>r2 db2. apply_order_result_atomically sy qa ba order fee now2 db' = (Inr r2, db2)
    \<and> load_portfolio sy db2 = load_portfolio sy db'
    \<and> map_option po_applied (get_pending (or_client_order_id order) db2)
      = map_option po_applied (get_pending (or_client_order_id order) db')
    \<and> oa_realized_pnl_delta r2 = None"
  using assms by (rule apply_order_twice)

definition sample_db :: exec_db where
  "sample_db = create_pending ''ta-1'' ''BTCUSDT'' ''SELL'' 1 0 0
     \<lparr>portfolio_state = [''BTCUSDT'' \<mapsto> (sample_long, 0)], pending_orders = [], raise_fault_at = None\<rparr>"

definition sample_report :: order_result where
  "sample_report = \<lparr>or_order_id = 7, or_client_order_id = ''ta-1'', or_status = ''FILLED'', or_executed_qty = 1,
     or_cumulative_quote_qty = Dec 30, or_transact_time_ms = 0,
     or_fills = [\<lparr>fl_price = Dec 30, fl_qty = 1, fl_commission = 0, fl_commission_asset = ''USDT''\<rparr>]\<rparr>"

theorem report_applies_once_witness:
  "\<exists>r db' r2 db2. apply_order_result_atomically ''BTCUSDT'' ''USDT'' ''BTC'' sample_report 0 5 sample_db = (Inr r, db')
    \<and> apply_order_result_atomically ''BTCUSDT'' ''USDT'' ''BTC'' sample_report 0 6 db' = (Inr r2, db2)
    \<and> load_portfolio ''BTCUSDT'' db2 = load_portfolio ''BTCUSDT'' db'"
proof -
  have "is_ok (fst (apply_order_result_atomically ''BTCUSDT'' ''USDT'' ''BTC'' sample_report 0 5 sample_db))"
    by code_simp
  then obtain r db' where r: "apply_order_result_atomically ''BTCUSDT'' ''USDT'' ''BTC'' sample_report 0 5 sample_db = (Inr r, db')"
    by (metis is_ok_iff prod.collapse)
  with report_applies_once [OF r] show ?thesis by blast
qed

text \<open>
  After an ambiguous submission, retrying is allowed exactly when the exchange answered that
  it does not know the order; any other answer or error forbids it.
\<close>

theorem retry_only_when_unknown_to_exchange:
  "(case reconcile_order answer of Inl e \<Rightarrow> False | Inr (status, ord) \<Rightarrow> safe_to_retry status)
     \<longleftrightarrow> answer = Inl (BinanceApiError (Some ORDER_DOES_NOT_EXIST_CODE))"
proof (cases "reconcile_order answer")
  case (Inl e)
  then show ?thesis by (auto simp: reconcile_order_def)
next
  case (Inr v)
  then show ?thesis using safe_to_retry_iff [of answer "fst v" "snd v"] by (simp add: case_prod_beta)
qed

section \<open>Market data and signals\<close>

text \<open>
  The live validation accepts exactly the non-empty series in which every candle opens one
  interval after the one before, and returns it unchanged; these are exactly the series on
  which the research segmentation finds one segment and no gap.
\<close>

theorem validation_accepts_contiguous:
  "(validate_candle_sequence cs i = Inr ds \<longleftrightarrow>
     ds = cs \<and> cs \<noteq> [] \<and> (\<exists>w. interval_to_ms i = Inr w \<and> contiguous w cs)) \<and>
   (validate_candle_sequence cs i = Inr ds \<longleftrightarrow>
     ds = cs \<and> partition_into_segments cs i = Inr \<lparr>segments = [cs], gaps = []\<rparr>)"
proof -
  have "(cs \<noteq> [] \<and> (\<exists>w. interval_to_ms i = Inr w \<and> contiguous w cs)) \<longleftrightarrow>
      partition_into_segments cs i = Inr \<lparr>segments = [cs], gaps = []\<rparr>" (is "?C \<longleftrightarrow> ?P")
  proof
    assume ?C
    then obtain w where w: "cs \<noteq> []" "interval_to_ms i = Inr w" "contiguous w cs" by blast
    then have "partition_loop w [] None [] [] [] cs = Inr \<lparr>segments = [] @ [[] @ cs], gaps = []\<rparr>"
      by (intro partition_loop_contig) (auto simp: contig_from_None dest: interval_to_ms_pos)
    with w show ?P by (simp add: partition_into_segments_def)
  next
    assume ?P
    from partition_into_segments_spec [OF this] show ?C by auto
  qed
  then show ?thesis using validate_candle_sequence_iff [of cs i ds] by blast
qed

text \<open>
  C17. Segmentation of research data loses, adds and reorders nothing: the segments put end to end
  are the input, each is non-empty and contiguous, and there is exactly one gap record
  between two neighbouring segments.
\<close>

theorem segmentation_is_a_partition:
  assumes "partition_into_segments cs i = Inr r"
  shows "concat (segments r) = cs \<and> length (segments r) = Suc (length (gaps r)) \<and>
    (\<exists>w. interval_to_ms i = Inr w \<and> (\<forall>s\<in>set (segments r). s \<noteq> [] \<and> contiguous w s))"
  using assms by (rule partition_into_segments_spec)

definition sample_candle :: "int \<Rightarrow> candle" where
  "sample_candle i = \<lparr>c_symbol = ''BTCUSDT'', c_interval = ''1h'', open_time_ms = i * 3600000,
     close_time_ms = i * 3600000 + 3599999, c_open = 1, c_high = 1, c_low = 1, c_close = 1, c_volume = 1\<rparr>"

theorem segmentation_is_a_partition_witness:
  "\<exists>r. partition_into_segments [sample_candle 0, sample_candle 1, sample_candle 5] ''1h'' = Inr r \<and>
     concat (segments r) = [sample_candle 0, sample_candle 1, sample_candle 5] \<and> length (segments r) = 2"
proof -
  let ?cs = "[sample_candle 0, sample_candle 1, sample_candle 5]"
  have "(case partition_into_segments ?cs ''1h'' of Inl _ \<Rightarrow> False | Inr r \<Rightarrow> length (gaps r) = 1)" by code_simp
  then obtain r where r: "partition_into_segments ?cs ''1h'' = Inr r" "length (gaps r) = 1"
    by (auto split: sum.splits)
  with segmentation_is_a_partition [OF r(1)] show ?thesis by auto
qed

text \<open>
  With an exponential mean that keeps the length of its input, the baseline strategy answers
  exactly when there is one candle more than the slow period; and an answer only buys from
  flat, only exits from long, and is stamped with the last candle's close.
\<close>

theorem strategy_answers_and_respects_position:
  assumes "\<forall>xs p. length (ewm xs p) = length xs" and "0 < ema_fast_period s" and "0 < ema_slow_period s"
  shows "(is_ok (ema_generate_signal ewm s cs pos) \<longleftrightarrow> ema_slow_period s + 1 \<le> int (length cs)) \<and>
    (case ema_generate_signal ewm s cs pos of Inl e \<Rightarrow> True
     | Inr sg \<Rightarrow> (sg_type sg = BUY \<longrightarrow> pos = FLAT) \<and> (sg_type sg = EXIT \<longrightarrow> pos = LONG) \<and>
         sg_candle_close_time_ms sg = close_time_ms (last cs))"
proof
  show "is_ok (ema_generate_signal ewm s cs pos) \<longleftrightarrow> ema_slow_period s + 1 \<le> int (length cs)"
    using assms by (intro ema_generate_signal_total) auto
qed (auto split: sum.split dest: ema_generate_signal_side)

theorem strategy_answers_and_respects_position_witness:
  "is_ok (ema_generate_signal (\<lambda>xs p. xs) \<lparr>ema_fast_period = 1, ema_slow_period = 2\<rparr>
     [sample_candle 0, sample_candle 1, sample_candle 2] FLAT)"
  using strategy_answers_and_respects_position [of "\<lambda>xs p. xs" "\<lparr>ema_fast_period = 1, ema_slow_period = 2\<rparr>"
    "[sample_candle 0, sample_candle 1, sample_candle 2]" FLAT] by simp

text \<open>
  The kill switch reads back what was written: after engaging it is engaged with the stripped
  text as its reason, whatever was there before, and after disengaging it is off.
\<close>

theorem kill_switch_reads_back:
  "kill_is_engaged (kill_engage ts r file) \<and> kill_reason (kill_engage ts r file) = Some (strip (ts @ '' '' @ r)) \<and>
   \<not> kill_is_engaged (kill_disengage file) \<and> kill_reason (kill_disengage file) = None"
  using kill_switch_roundtrip by simp

end
