(* ===== verification/Live_Runner.thy ===== *)
theory Live_Runner
  imports Execution_Store Strategy
begin

text \<open>
  One testnet decision cycle: the reconciliation at its start
  (\<open>execution/startup_reconciliation.py\<close>) and the cycle itself
  (\<open>execution/live_runner.py\<close>).

  The exchange is a parameter: a record of operations on its own hidden state
  \<open>'w\<close>, each of which may answer or raise anything and may change that state, so that two
  identical calls can be answered differently. The state of a cycle is the exchange,
  the journal, the execution store and the risk store; \<open>lv_orders\<close> is a trace of the
  calls of \<open>place_market_order\<close>, in order, each with the portfolio stored at that moment;
  the code does not read it.
\<close>

section \<open>State and environment\<close>

record 'w exchange =
  x_server_time :: "('w, int) step"
  x_local_time :: "('w, int) step"
  x_klines :: "string \<Rightarrow> string \<Rightarrow> int option \<Rightarrow> int option \<Rightarrow> int \<Rightarrow> ('w, candle list) step"
  x_filters :: "string \<Rightarrow> ('w, symbol_filters) step"
  x_balances :: "('w, string \<rightharpoonup> dec \<times> dec) step"
  x_place :: "string \<Rightarrow> order_side \<Rightarrow> dec \<Rightarrow> string \<Rightarrow> ('w, order_result) step"
  x_get_order :: "string \<Rightarrow> string \<Rightarrow> ('w, order_result) step"
  x_kill_switch :: "('w, bool) step"

record order_call =
  oc_symbol :: string
  oc_side :: order_side
  oc_quantity :: dec
  oc_client_order_id :: string
  oc_portfolio :: "portfolio option"

record 'w live =
  lv_world :: 'w
  lv_journal :: journal_db
  lv_exec :: exec_db
  lv_risk :: risk_db
  lv_orders :: "order_call list"

type_synonym ('w, 'a) cycle = "('w live, 'a) step"

definition on_exchange :: "('w, 'a) step \<Rightarrow> ('w, 'a) cycle" where
  "on_exchange m = szoom lv_world (\<lambda>w s. s\<lparr>lv_world := w\<rparr>) m"

definition on_store :: "(exec_db, 'a) step \<Rightarrow> ('w, 'a) cycle" where
  "on_store m = szoom lv_exec (\<lambda>d s. s\<lparr>lv_exec := d\<rparr>) m"

definition jrecord :: "string \<Rightarrow> payload \<Rightarrow> int \<Rightarrow> ('w, unit) cycle" where
  "jrecord ty pl t = smodify (\<lambda>s. s\<lparr>lv_journal := journal_record ty pl t (lv_journal s)\<rparr>)"

definition save_risk :: "string \<Rightarrow> risk_state \<Rightarrow> ('w, unit) cycle" where
  "save_risk symbol st = smodify (\<lambda>s. s\<lparr>lv_risk := risk_save symbol st (lv_risk s)\<rparr>)"

definition place_market_order ::
  "'w exchange \<Rightarrow> string \<Rightarrow> order_side \<Rightarrow> dec \<Rightarrow> string \<Rightarrow> ('w, order_result) cycle" where
  "place_market_order x symbol side quantity client_order_id =
     sbind (smodify (\<lambda>s. s\<lparr>lv_orders := lv_orders s @
         [\<lparr>oc_symbol = symbol, oc_side = side, oc_quantity = quantity,
           oc_client_order_id = client_order_id, oc_portfolio = load_portfolio symbol (lv_exec s)\<rparr>]\<rparr>)) (\<lambda>_.
     on_exchange (x_place x symbol side quantity client_order_id))"

record cycle_result =
  cr_action :: string
  cr_reason_code :: string
  cr_detail :: payload

definition cycle_result :: "string \<Rightarrow> string \<Rightarrow> payload \<Rightarrow> cycle_result" where
  "cycle_result action reason detail = \<lparr>cr_action = action, cr_reason_code = reason, cr_detail = detail\<rparr>"

section \<open>Startup reconciliation\<close>

definition BALANCE_RECONCILIATION_TOLERANCE :: dec where
  "BALANCE_RECONCILIATION_TOLERANCE = Dec (1 / 10 ^ 7)"

definition ask_order :: "'w exchange \<Rightarrow> string \<Rightarrow> string \<Rightarrow> ('w, reconciled_status \<times> order_result option) cycle" where
  "ask_order x symbol client_order_id =
     sbind (sanswer (on_exchange (x_get_order x symbol client_order_id))) (\<lambda>answer.
     slift (reconcile_order answer))"

definition never_submitted :: "pending_order \<Rightarrow> int \<Rightarrow> order_result" where
  "never_submitted pending now_ms =
     \<lparr>or_order_id = 0, or_client_order_id = po_client_order_id pending, or_status = ''NEVER_SUBMITTED'',
      or_executed_qty = ap_executed_qty (po_applied pending),
      or_cumulative_quote_qty = ap_cumulative_quote_qty (po_applied pending),
      or_transact_time_ms = now_ms, or_fills = []\<rparr>"

text \<open>
  The loop over the open pending orders; the result is \<open>None\<close> when nothing blocks, and
  otherwise the reason of \<open>PendingOrderReconciliationResult(True, reason)\<close>.
\<close>

fun reconcile_pending_loop ::
  "'w exchange \<Rightarrow> string \<Rightarrow> string \<Rightarrow> string \<Rightarrow> dec \<Rightarrow> int \<Rightarrow> pending_order list \<Rightarrow> ('w, string option) cycle" where
  "reconcile_pending_loop x symbol qa ba fee now_ms [] = sreturn None"
| "reconcile_pending_loop x symbol qa ba fee now_ms (pending # rest) =
     sbind (ask_order x symbol (po_client_order_id pending)) (\<lambda>(status, order).
       if status = NOT_FOUND then
         sbind (on_store (apply_order_result_atomically symbol qa ba (never_submitted pending now_ms) fee now_ms)) (\<lambda>_.
         sbind (jrecord ''RECONCILIATION_STARTUP''
           [(''client_order_id'', JStr (po_client_order_id pending)), (''outcome'', JStr ''NOT_FOUND'')] now_ms) (\<lambda>_.
         reconcile_pending_loop x symbol qa ba fee now_ms rest))
       else case (if status = UNKNOWN then None else order) of
         None \<Rightarrow>
           sbind (jrecord ''RECONCILIATION_STARTUP''
             [(''client_order_id'', JStr (po_client_order_id pending)), (''outcome'', JStr ''UNKNOWN'')] now_ms) (\<lambda>_.
           sreturn (Some (''unresolved order '' @ po_client_order_id pending @
             '': reconciliation returned an unrecognized outcome'')))
       | Some ord \<Rightarrow>
           sbind (on_store (apply_order_result_atomically symbol qa ba ord fee now_ms)) (\<lambda>result.
           sbind (jrecord (oa_event_type result)
             ((''client_order_id'', JStr (po_client_order_id pending)) # oa_payload result) now_ms) (\<lambda>_.
           if \<not> oa_is_terminal result
           then sreturn (Some (''order '' @ po_client_order_id pending @ '' is still open ('' @ or_status ord @ '')''))
           else reconcile_pending_loop x symbol qa ba fee now_ms rest)))"

definition reconcile_pending_orders ::
  "'w exchange \<Rightarrow> string \<Rightarrow> string \<Rightarrow> string \<Rightarrow> dec \<Rightarrow> int \<Rightarrow> ('w, string option) cycle" where
  "reconcile_pending_orders x symbol qa ba fee now_ms =
     sbind (sget (\<lambda>s. load_open_pending symbol (lv_exec s))) (\<lambda>open_orders.
     reconcile_pending_loop x symbol qa ba fee now_ms open_orders)"

text \<open>The total of an asset: free plus locked, zero when the account does not list it.\<close>

definition asset_total :: "(string \<rightharpoonup> dec \<times> dec) \<Rightarrow> string \<Rightarrow> dec" where
  "asset_total balances asset = (case balances asset of None \<Rightarrow> 0 + 0 | Some (free, locked) \<Rightarrow> free + locked)"

definition balances_agree :: "portfolio \<Rightarrow> dec \<Rightarrow> dec \<Rightarrow> bool" where
  "balances_agree p quote_total base_total \<longleftrightarrow>
     \<not> (BALANCE_RECONCILIATION_TOLERANCE < \<bar>quote_balance p - quote_total\<bar> \<or>
        BALANCE_RECONCILIATION_TOLERANCE < \<bar>base_balance p - base_total\<bar>)"

text \<open>The reason of a mismatch (the code adds the figures to its text), \<open>None\<close> when the balances agree.\<close>

definition reconcile_balances :: "'w exchange \<Rightarrow> string \<Rightarrow> string \<Rightarrow> string \<Rightarrow> ('w, string option) cycle" where
  "reconcile_balances x symbol qa ba =
     sbind (sget (\<lambda>s. load_portfolio symbol (lv_exec s))) (\<lambda>pf.
       case pf of
         None \<Rightarrow> sreturn (Some ''no portfolio state to reconcile'')
       | Some p \<Rightarrow>
           sbind (on_exchange (x_balances x)) (\<lambda>balances.
           sreturn (if balances_agree p (asset_total balances qa) (asset_total balances ba)
                    then None else Some ''balance mismatch'')))"

section \<open>The parts of a cycle\<close>

definition reconcile_initial_portfolio ::
  "'w exchange \<Rightarrow> string \<Rightarrow> symbol_filters \<Rightarrow> ('w, portfolio) cycle" where
  "reconcile_initial_portfolio x symbol filters =
     sbind (slift (quote_asset_of symbol)) (\<lambda>qa.
     sbind (slift (base_asset_of symbol)) (\<lambda>ba.
     sbind (on_exchange (x_balances x)) (\<lambda>balances.
       if min_qty filters \<le> asset_total balances ba then sraise ColdStartReconciliationError
       else sreturn (portfolio_initial (asset_total balances qa)))))"

text \<open>The block under \<open>try\<close>: server time, clock check, candles, validation, filters.\<close>

definition fetch_market ::
  "'w exchange \<Rightarrow> app_config \<Rightarrow> ('w, int \<times> candle list \<times> symbol_filters) cycle" where
  "fetch_market x config =
     (let symbol = cfg_symbol (cfg_market config); interval = cfg_interval (cfg_market config) in
     sbind (on_exchange (x_server_time x)) (\<lambda>server_time_ms.
     sbind (on_exchange (x_local_time x)) (\<lambda>local_time_ms.
     sbind (slift (compute_clock_offset server_time_ms local_time_ms DEFAULT_MAX_CLOCK_DRIFT_MS)) (\<lambda>_.
     sbind (on_exchange (fetch_completed_candles (x_klines x symbol interval) (x_server_time x) None None
         (cfg_ema_slow (cfg_strategy config) + 10) (Some server_time_ms))) (\<lambda>candles.
     sbind (slift (require_non_empty candles)) (\<lambda>_.
     sbind (slift (validate_candle_sequence candles interval)) (\<lambda>_.
     sbind (slift (validate_not_stale candles server_time_ms (stale_data_max_age_seconds (cfg_risk config)))) (\<lambda>_.
     sbind (on_exchange (x_filters x symbol)) (\<lambda>filters.
     sreturn (server_time_ms, candles, filters))))))))))"

definition market_failed :: "exn \<Rightarrow> ('w, cycle_result) cycle" where
  "market_failed e =
     (if e = ClockDriftError
      then sbind (jrecord ''EXCEPTION'' [(''stage'', JStr ''clock_sync''), (''error'', JExn e)] 0) (\<lambda>_.
           sreturn (cycle_result ''ERROR'' ''CLOCK_DRIFT_EXCEEDS_TOLERANCE'' [(''error'', JExn e)]))
      else sbind (jrecord ''EXCEPTION'' [(''stage'', JStr ''data_fetch''), (''error'', JExn e)] 0) (\<lambda>_.
           sreturn (cycle_result ''NO_TRADE'' ''DATA_UNAVAILABLE_OR_INVALID'' [(''error'', JExn e)])))"

text \<open>The risk state of this cycle: fresh, rolled into a new day, or carried on.\<close>

definition roll_risk_state :: "risk_state option \<Rightarrow> dec \<Rightarrow> string \<Rightarrow> risk_state" where
  "roll_risk_state stored equity_now key =
     (let r = (case stored of
           None \<Rightarrow> risk_state_initial equity_now key
         | Some r \<Rightarrow>
             if day_key r \<noteq> key
             then \<lparr>day_key = key, daily_start_equity = equity_now, daily_realized_pnl_pct = 0, trades_today = 0,
                   peak_equity = peak_equity r, cooldown_bars_remaining = cooldown_bars_remaining r,
                   consecutive_api_errors = consecutive_api_errors r\<rparr>
             else r)
      in r\<lparr>cooldown_bars_remaining := max 0 (cooldown_bars_remaining r - 1),
           peak_equity := max (peak_equity r) equity_now\<rparr>)"

definition payload_has_id :: "string \<Rightarrow> payload \<Rightarrow> bool" where
  "payload_has_id client_order_id pl =
     (case map_of pl ''client_order_id'' of Some (JStr s) \<Rightarrow> s = client_order_id | _ \<Rightarrow> False)"

definition already_submitted :: "string \<Rightarrow> 'w live \<Rightarrow> bool" where
  "already_submitted client_order_id s \<longleftrightarrow>
     get_pending client_order_id (lv_exec s) \<noteq> None \<or>
     (\<exists>e\<in>set (entries_by_type ''ORDER_SUBMITTED'' (lv_journal s)).
        payload_has_id client_order_id (je_payload e))"

definition bump_api_errors :: "risk_state \<Rightarrow> risk_state" where
  "bump_api_errors r = r\<lparr>consecutive_api_errors := consecutive_api_errors r + 1\<rparr>"

text \<open>
  Submission with reconciliation before any retry: \<open>Inl\<close> an early return, \<open>Inr\<close> the
  order to apply.
\<close>

definition submission_failed ::
  "string \<Rightarrow> risk_state \<Rightarrow> payload \<Rightarrow> int \<Rightarrow> cycle_result \<Rightarrow> ('w, cycle_result + order_result) cycle" where
  "submission_failed symbol r pl t result =
     sbind (save_risk symbol (bump_api_errors r)) (\<lambda>_.
     sbind (jrecord ''EXCEPTION'' pl t) (\<lambda>_.
     sreturn (Inl result)))"

definition retry_order ::
  "'w exchange \<Rightarrow> string \<Rightarrow> risk_state \<Rightarrow> dec \<Rightarrow> string \<Rightarrow> int \<Rightarrow> ('w, cycle_result + order_result) cycle" where
  "retry_order x symbol r quantity client_order_id t =
     scatch (sbind (place_market_order x symbol SELL_SIDE quantity client_order_id) (\<lambda>reply. sreturn (Inr reply)))
       (\<lambda>e. case e of
          RequestException \<Rightarrow> submission_failed symbol r [(''stage'', JStr ''retry_after_timeout''), (''error'', JExn e)] t
            (cycle_result ''ERROR'' ''RETRY_FAILED'' [(''error'', JExn e)])
        | BinanceApiError _ \<Rightarrow> submission_failed symbol r [(''stage'', JStr ''retry_after_timeout''), (''error'', JExn e)] t
            (cycle_result ''ERROR'' ''RETRY_FAILED'' [(''error'', JExn e)])
        | _ \<Rightarrow> sraise e)"

definition reconciled_value :: "reconciled_status \<Rightarrow> string" where
  "reconciled_value s = (case s of CONFIRMED_TERMINAL \<Rightarrow> ''confirmed_terminal''
     | CONFIRMED_OPEN \<Rightarrow> ''confirmed_open'' | NOT_FOUND \<Rightarrow> ''not_found'' | UNKNOWN \<Rightarrow> ''unknown'')"

definition ambiguous_submission ::
  "'w exchange \<Rightarrow> string \<Rightarrow> risk_state \<Rightarrow> dec \<Rightarrow> string \<Rightarrow> int \<Rightarrow> ('w, cycle_result + order_result) cycle" where
  "ambiguous_submission x symbol r quantity client_order_id t =
     sbind (ask_order x symbol client_order_id) (\<lambda>(status, reconciled).
     sbind (jrecord ''RECONCILIATION'' [(''status'', JStr (reconciled_value status))] t) (\<lambda>_.
       if safe_to_retry status then retry_order x symbol r quantity client_order_id t
       else case (if status = CONFIRMED_TERMINAL \<or> status = CONFIRMED_OPEN then reconciled else None) of
         Some reply \<Rightarrow> sreturn (Inr reply)
       | None \<Rightarrow> submission_failed symbol r [(''stage'', JStr ''reconciliation_unknown'')] t
           (cycle_result ''ERROR'' ''RECONCILIATION_UNKNOWN'' [])))"

definition submit_order ::
  "'w exchange \<Rightarrow> string \<Rightarrow> risk_state \<Rightarrow> dec \<Rightarrow> string \<Rightarrow> int \<Rightarrow> ('w, cycle_result + order_result) cycle" where
  "submit_order x symbol r quantity client_order_id t =
     scatch (sbind (place_market_order x symbol SELL_SIDE quantity client_order_id) (\<lambda>reply. sreturn (Inr reply)))
       (\<lambda>e. case e of
          RequestException \<Rightarrow> ambiguous_submission x symbol r quantity client_order_id t
        | BinanceApiError _ \<Rightarrow> submission_failed symbol r [(''stage'', JStr ''place_order''), (''error'', JExn e)] t
            (cycle_result ''ERROR'' ''API_ERROR'' [(''error'', JExn e)])
        | _ \<Rightarrow> sraise e)"

text \<open>The risk state after an order was applied.\<close>

definition settle_risk :: "risk_config \<Rightarrow> order_application \<Rightarrow> risk_state \<Rightarrow> risk_state" where
  "settle_risk rc result r0 =
     (let r1 = r0\<lparr>consecutive_api_errors := 0\<rparr>;
          r2 = (if 0 < oa_executed_qty result \<or> oa_is_terminal result
                then r1\<lparr>trades_today := trades_today r1 + 1\<rparr> else r1)
      in case oa_realized_pnl_delta result of
           None \<Rightarrow> r2
         | Some delta \<Rightarrow>
             let r3 = (if 0 < daily_start_equity r2
                       then r2\<lparr>daily_realized_pnl_pct := daily_realized_pnl_pct r2
                              + float_of_dec (delta / daily_start_equity r2)\<rparr> else r2)
             in if delta < 0 then r3\<lparr>cooldown_bars_remaining := cooldown_bars_after_loss rc\<rparr> else r3)"

definition settle_order ::
  "app_config \<Rightarrow> string \<Rightarrow> string \<Rightarrow> string \<Rightarrow> risk_state \<Rightarrow> string \<Rightarrow> int \<Rightarrow> int \<Rightarrow> order_result
    \<Rightarrow> ('w, cycle_result) cycle" where
  "settle_order config symbol qa ba r client_order_id t now_ms order =
     sbind (on_store (apply_order_result_atomically symbol qa ba order
         (dec_of_float (taker_fee_pct (cfg_fees config))) now_ms)) (\<lambda>result.
     sbind (jrecord (oa_event_type result) (oa_payload result) t) (\<lambda>_.
     sbind (save_risk symbol (settle_risk (cfg_risk config) result r)) (\<lambda>_.
     sreturn (
       if \<not> oa_is_terminal result
       then cycle_result ''NO_TRADE'' ''ORDER_STILL_OPEN''
         [(''status'', JStr (or_status order)), (''client_order_id'', JStr client_order_id)]
       else if oa_executed_qty result = 0
       then cycle_result ''NO_TRADE'' (or_status order) [(''client_order_id'', JStr client_order_id)]
       else cycle_result ''SELL'' (or_status order)
         [(''quantity'', JDec (oa_executed_qty result)), (''client_order_id'', JStr client_order_id)]))))"

definition no_trade :: "string \<Rightarrow> risk_state \<Rightarrow> string \<Rightarrow> payload \<Rightarrow> ('w, cycle_result) cycle" where
  "no_trade symbol r reason detail =
     sbind (save_risk symbol r) (\<lambda>_. sreturn (cycle_result ''NO_TRADE'' reason detail))"

definition decision_payload :: "bool \<Rightarrow> string \<Rightarrow> payload" where
  "decision_payload ok reason = [(''approved'', JBool ok), (''reason_code'', JStr reason)]"

definition live_risk_context ::
  "risk_state \<Rightarrow> portfolio \<Rightarrow> dec \<Rightarrow> int \<Rightarrow> candle \<Rightarrow> bool \<Rightarrow> bool \<Rightarrow> bool \<Rightarrow> risk_context" where
  "live_risk_context r p equity_now server_time_ms last_candle kill submitted blocked =
     \<lparr>rc_equity = equity_now, rc_quote_balance = quote_balance p, rc_trades_today = trades_today r,
      rc_cooldown_bars_remaining = cooldown_bars_remaining r,
      rc_daily_realized_pnl_pct = daily_realized_pnl_pct r,
      rc_current_drawdown_pct =
        (if 0 < peak_equity r then float_of_dec ((peak_equity r - equity_now) / peak_equity r) else 0),
      rc_data_age_seconds = int_truediv (server_time_ms - close_time_ms last_candle) 1000,
      rc_consecutive_api_errors = consecutive_api_errors r, rc_kill_switch_engaged = kill,
      rc_is_duplicate_order = submitted, rc_reconciliation_blocked = blocked\<rparr>"

text \<open>
  The sell path, from the validated quantity on: the intent is made durable before the
  exchange is called.
\<close>

definition execute_sell ::
  "'w exchange \<Rightarrow> app_config \<Rightarrow> string \<Rightarrow> string \<Rightarrow> risk_state \<Rightarrow> candle \<Rightarrow> int \<Rightarrow> string \<Rightarrow> dec
    \<Rightarrow> ('w, cycle_result) cycle" where
  "execute_sell x config qa ba r last_candle server_time_ms client_order_id quantity =
     (let symbol = cfg_symbol (cfg_market config); t = close_time_ms last_candle in
     sbind (on_store (smodify (create_pending client_order_id symbol ''SELL'' quantity t server_time_ms))) (\<lambda>_.
     sbind (jrecord ''ORDER_SUBMITTED''
       [(''client_order_id'', JStr client_order_id), (''side'', JStr ''SELL''), (''quantity'', JDec quantity)] t) (\<lambda>_.
     sbind (submit_order x symbol r quantity client_order_id t) (\<lambda>outcome.
       case outcome of
         Inl early \<Rightarrow> sreturn early
       | Inr order \<Rightarrow> settle_order config symbol qa ba r client_order_id t server_time_ms order))))"

definition sell_path ::
  "'w exchange \<Rightarrow> (string \<Rightarrow> string) \<Rightarrow> app_config \<Rightarrow> string \<Rightarrow> string \<Rightarrow> risk_state \<Rightarrow> portfolio \<Rightarrow> dec
    \<Rightarrow> signal \<Rightarrow> candle \<Rightarrow> int \<Rightarrow> symbol_filters \<Rightarrow> bool \<Rightarrow> ('w, cycle_result) cycle" where
  "sell_path x sha256_hex config qa ba r p equity_now sig last_candle server_time_ms filters blocked =
     (let symbol = cfg_symbol (cfg_market config); t = close_time_ms last_candle in
     sbind (slift (compute_sell_quantity (base_balance p) (c_close last_candle) filters)) (\<lambda>sizing.
     sbind (jrecord ''SIZING'' (decision_payload (sd_approved sizing) (sd_reason sizing)) t) (\<lambda>_.
     case (if sd_approved sizing then sd_quantity sizing else None) of
       None \<Rightarrow> no_trade symbol r (sd_reason sizing) []
     | Some sized \<Rightarrow>
         (let client_order_id = generate_client_order_id sha256_hex symbol ''SELL'' t in
         sbind (sget (already_submitted client_order_id)) (\<lambda>submitted.
         sbind (slift (mk_trade_intent (sg_type sig) symbol sized (c_close last_candle))) (\<lambda>intent.
         sbind (on_exchange (x_kill_switch x)) (\<lambda>kill.
         (let decision = risk_evaluate (cfg_risk config) intent
               (live_risk_context r p equity_now server_time_ms last_candle kill submitted blocked) in
         sbind (jrecord ''RISK_DECISION'' (decision_payload (rd_approved decision) (rd_reason decision)) t) (\<lambda>_.
         if \<not> rd_approved decision then no_trade symbol r (rd_reason decision) []
         else
         sbind (slift (validate_order intent filters)) (\<lambda>validation.
         sbind (jrecord ''ORDER_VALIDATION'' (decision_payload (ov_approved validation) (ov_reason validation)) t) (\<lambda>_.
         case (if ov_approved validation then ov_quantity validation else None) of
           None \<Rightarrow> no_trade symbol r (ov_reason validation) []
         | Some quantity \<Rightarrow>
             execute_sell x config qa ba r last_candle server_time_ms client_order_id quantity)))))))))))"

definition TESTNET_ENTRY_DISABLED_REASON :: string where
  "TESTNET_ENTRY_DISABLED_REASON = ''TESTNET_AUTO_ENTRY_DISABLED_PENDING_PROTECTIVE_ORDER''"

definition RECONCILIATION_BLOCKS_SELL_REASON :: string where
  "RECONCILIATION_BLOCKS_SELL_REASON = ''RECONCILIATION_DISCREPANCY_BLOCKS_ALL_ORDERS''"

definition act_on_signal ::
  "'w exchange \<Rightarrow> (string \<Rightarrow> string) \<Rightarrow> app_config \<Rightarrow> string \<Rightarrow> string \<Rightarrow> risk_state \<Rightarrow> portfolio \<Rightarrow> dec
    \<Rightarrow> signal \<Rightarrow> candle \<Rightarrow> int \<Rightarrow> symbol_filters \<Rightarrow> string option \<Rightarrow> ('w, cycle_result) cycle" where
  "act_on_signal x sha256_hex config qa ba r p equity_now sig last_candle server_time_ms filters mismatch =
     (let symbol = cfg_symbol (cfg_market config); t = close_time_ms last_candle in
     sbind (jrecord ''SIGNAL''
       ([(''type'', JStr (signal_value (sg_type sig))), (''reason_code'', JStr (sg_reason_code sig))] @ sg_inputs sig) t) (\<lambda>_.
     if sg_type sig = HOLD then
       sbind (save_risk symbol r) (\<lambda>_. sreturn (cycle_result ''HOLD'' (sg_reason_code sig) []))
     else if sg_type sig = BUY then
       sbind (jrecord ''SIGNAL_SUPPRESSED'' [(''reason'', JStr TESTNET_ENTRY_DISABLED_REASON)] t) (\<lambda>_.
       no_trade symbol r TESTNET_ENTRY_DISABLED_REASON [])
     else case mismatch of
       Some reason \<Rightarrow>
         sbind (jrecord ''SIGNAL_SUPPRESSED''
           [(''reason'', JStr RECONCILIATION_BLOCKS_SELL_REASON), (''detail'', JStr reason)] t) (\<lambda>_.
         no_trade symbol r RECONCILIATION_BLOCKS_SELL_REASON [(''reason'', JStr reason)])
     | None \<Rightarrow> sell_path x sha256_hex config qa ba r p equity_now sig last_candle server_time_ms filters False))"

definition cycle_after_fetch ::
  "'w exchange \<Rightarrow> (flt list \<Rightarrow> int \<Rightarrow> flt list) \<Rightarrow> (string \<Rightarrow> string) \<Rightarrow> app_config \<Rightarrow> string \<Rightarrow> string
    \<Rightarrow> int \<Rightarrow> candle list \<Rightarrow> symbol_filters \<Rightarrow> ('w, cycle_result) cycle" where
  "cycle_after_fetch x ewm_mean sha256_hex config qa ba server_time_ms candles filters =
     (let symbol = cfg_symbol (cfg_market config) in
     sbind (slift (nth_res candles (-1))) (\<lambda>last_candle.
     sbind (sget (\<lambda>s. load_portfolio symbol (lv_exec s))) (\<lambda>stored.
     sbind (case stored of
         Some _ \<Rightarrow> sreturn ()
       | None \<Rightarrow> sbind (reconcile_initial_portfolio x symbol filters) (\<lambda>p.
           on_store (smodify (save_portfolio symbol p server_time_ms)))) (\<lambda>_.
     sbind (reconcile_pending_orders x symbol qa ba (dec_of_float (taker_fee_pct (cfg_fees config))) server_time_ms) (\<lambda>blocked.
       case blocked of
         Some reason \<Rightarrow> sreturn (cycle_result ''NO_TRADE'' ''UNRESOLVED_ORDER_BLOCKS_NEW_SIGNAL'' [(''reason'', JStr reason)])
       | None \<Rightarrow>
         sbind (sget (\<lambda>s. load_portfolio symbol (lv_exec s))) (\<lambda>reloaded.
         sbind (slift (of_option AssertionError reloaded)) (\<lambda>p.
         sbind (reconcile_balances x symbol qa ba) (\<lambda>mismatch.
         sbind (case mismatch of None \<Rightarrow> sreturn ()
           | Some reason \<Rightarrow> jrecord ''RECONCILIATION_DISCREPANCY'' [(''reason'', JStr reason)] server_time_ms) (\<lambda>_.
         sbind (sget (\<lambda>s. risk_load symbol (lv_risk s))) (\<lambda>stored_risk.
         (let equity_now = portfolio_equity p (c_close last_candle);
              r = roll_risk_state stored_risk equity_now (utc_day_key server_time_ms) in
         sbind (slift (mk_ema_crossover (cfg_ema_fast (cfg_strategy config)) (cfg_ema_slow (cfg_strategy config)))) (\<lambda>strategy.
         sbind (slift (ema_generate_signal ewm_mean strategy candles (position_side p))) (\<lambda>sig.
         act_on_signal x sha256_hex config qa ba r p equity_now sig last_candle server_time_ms filters mismatch)))))))))))))"

definition run_testnet_cycle ::
  "'w exchange \<Rightarrow> (flt list \<Rightarrow> int \<Rightarrow> flt list) \<Rightarrow> (string \<Rightarrow> string) \<Rightarrow> app_config \<Rightarrow> ('w, cycle_result) cycle" where
  "run_testnet_cycle x ewm_mean sha256_hex config =
     sbind (slift (quote_asset_of (cfg_symbol (cfg_market config)))) (\<lambda>qa.
     sbind (slift (base_asset_of (cfg_symbol (cfg_market config)))) (\<lambda>ba.
     sbind (scatch (sbind (fetch_market x config) (\<lambda>d. sreturn (Inr d)))
         (\<lambda>e. sbind (market_failed e) (\<lambda>result. sreturn (Inl result)))) (\<lambda>fetched.
       case fetched of
         Inl result \<Rightarrow> sreturn result
       | Inr (server_time_ms, candles, filters) \<Rightarrow>
           cycle_after_fetch x ewm_mean sha256_hex config qa ba server_time_ms candles filters)))"

end
