(* ===== verification/Live_Invariants.thy ===== *)
theory Live_Invariants
  imports Live_Runner
begin

text \<open>
  What the steps of a testnet cycle keep: the interfaces under which a predicate on the
  state survives the exchange, the journal, the stores and the submission of an order.
\<close>

section \<open>What every step keeps\<close>

text \<open>
  A predicate on the cycle's state is \<open>calm\<close> when the exchange, the journal and a new pending
  row cannot break it; \<open>calm_risk\<close> when saving a risk state (with a given property) cannot
  either; \<open>quiet\<close> when no store operation of the reconciliation can; \<open>firm\<close> when it is both;
  \<open>steady\<close> when an order submission cannot break it either.
\<close>

locale calm =
  fixes I :: "'w live \<Rightarrow> bool"
  assumes world: "I s \<Longrightarrow> I (s\<lparr>lv_world := w\<rparr>)"
    and journal: "I s \<Longrightarrow> I (s\<lparr>lv_journal := lv_journal s @ [je]\<rparr>)"
    and exec_create: "I s \<Longrightarrow> I (s\<lparr>lv_exec := create_pending i sy sd q t now (lv_exec s)\<rparr>)"
begin

lemma on_exchange [stepI]: "preserves I (on_exchange m)"
  unfolding on_exchange_def by (rule preserves_zoom) (rule world)

lemma jrecord [stepI]: "preserves I (jrecord ty pl t)"
  unfolding jrecord_def journal_record_def by (rule preserves_modify) (rule journal)

lemma on_store_create [stepI]: "preserves I (on_store (smodify (create_pending i sy sd q t now)))"
  unfolding on_store_def by (rule preserves_zoom) (simp add: exec_create)

lemma ask_order [stepI]: "preserves I (ask_order x sy i)"
  unfolding ask_order_def by (intro stepI)

lemma reconcile_balances [stepI]: "preserves I (reconcile_balances x sy qa ba)"
  unfolding reconcile_balances_def by (intro stepI)

lemma reconcile_initial_portfolio [stepI]: "preserves I (reconcile_initial_portfolio x sy f)"
  unfolding reconcile_initial_portfolio_def by (intro stepI)

lemma fetch_market [stepI]: "preserves I (fetch_market x config)"
  unfolding fetch_market_def Let_def by (intro stepI)

lemma market_failed [stepI]: "preserves I (market_failed e)"
  unfolding market_failed_def by (intro stepI)

end


text \<open>
  The gates that a sell has passed when the exchange is called: what \<open>sell_path\<close> knows of
  the validated quantity.
\<close>

definition sell_gates ::
  "'w exchange \<Rightarrow> app_config \<Rightarrow> symbol_filters \<Rightarrow> risk_state \<Rightarrow> portfolio \<Rightarrow> candle \<Rightarrow> int \<Rightarrow> dec \<Rightarrow> bool" where
  "sell_gates x config f r p c now q \<longleftrightarrow>
     0 < q \<and> meets_lot_size q f \<and> meets_min_notional (c_close c) q f \<and>
     (\<exists>sized. 0 < sized \<and> sized \<le> base_balance p \<and> round_quantity sized f = Inr q) \<and>
     possible (\<lambda>_. True) (x_kill_switch x) False \<and>
     consecutive_api_errors r < max_consecutive_api_errors (cfg_risk config) \<and>
     fval (int_truediv (now - close_time_ms c) 1000) \<le> of_int (stale_data_max_age_seconds (cfg_risk config))"

lemma possible_zoom: "possible I (szoom get put m) x \<Longrightarrow> possible (\<lambda>_. True) m x"
proof -
  assume "possible I (szoom get put m) x"
  then obtain s t where "szoom get put m s = (Inr x, t)" by (auto simp: possible_def)
  then show ?thesis by (cases "m (get s)") (auto simp: possible_def szoom_def)
qed

lemma sell_gatesI:
  assumes "possible I (slift (compute_sell_quantity (base_balance p) (c_close c) f)) d"
    and "(if sd_approved d then sd_quantity d else None) = Some sized"
    and "possible I (slift (mk_trade_intent ty sy sized (c_close c))) i"
    and "possible I (on_exchange (x_kill_switch x)) kill"
    and "\<not> \<not> rd_approved (risk_evaluate (cfg_risk config) i (live_risk_context r p eq now c kill sub blk))"
    and "possible I (slift (validate_order i f)) v" "(if ov_approved v then ov_quantity v else None) = Some q"
  shows "sell_gates x config f r p c now q \<and> \<not> sub \<and> \<not> blk"
proof -
  note d = possibleD(1) [OF assms(1)] and ti = possibleD(1) [OF assms(3)] and vo = possibleD(1) [OF assms(6)]
  have "sd_approved d" using assms(2) by (simp split: if_splits)
  then have s: "0 < sized" "sized \<le> base_balance p"
    using compute_sell_approved [OF d] assms(2) by auto
  have i: "ti_quantity i = sized" "ti_price i = c_close c"
    using ti by (auto simp: mk_trade_intent_def split: if_splits)
  have "ov_approved v" using assms(7) by (simp split: if_splits)
  then have v: "round_quantity sized f = Inr q" "0 < q" "meets_lot_size q f" "meets_min_notional (c_close c) q f"
    using validate_order_approved [OF vo] assms(7) i by auto
  have u: "universal_ok (cfg_risk config) (live_risk_context r p eq now c kill sub blk)"
    using assms(5) by (simp add: risk_evaluate_iff)
  then have "kill = False" by (simp add: universal_ok_def live_risk_context_def)
  then have "possible (\<lambda>_. True) (x_kill_switch x) False"
    using assms(4) unfolding on_exchange_def by (auto dest: possible_zoom)
  with s v u show ?thesis by (auto simp: sell_gates_def universal_ok_def live_risk_context_def)
qed

section \<open>The risk state and the signal\<close>

locale calm_risk = calm +
  fixes R :: "risk_state \<Rightarrow> bool"
  assumes risk: "I s \<Longrightarrow> R r \<Longrightarrow> I (s\<lparr>lv_risk := risk_save sy r (lv_risk s)\<rparr>)"
begin

lemma save_risk: "R r \<Longrightarrow> preserves I (save_risk sy r)"
  unfolding save_risk_def by (rule preserves_modify) (rule risk)

lemma no_trade: "R r \<Longrightarrow> preserves I (no_trade sy r reason detail)"
  unfolding no_trade_def by (intro stepI save_risk)

text \<open>Nothing of acting on a signal but the final submission can break it.\<close>

lemma sell_path_reaches:
  assumes R: "R r" and imp: "\<And>s. I s \<Longrightarrow> Q s"
    and sell: "\<And>i q s. sell_gates x config f r p c now q \<Longrightarrow>
      i = generate_client_order_id sha (cfg_symbol (cfg_market config)) ''SELL'' (close_time_ms c) \<Longrightarrow>
      I s \<Longrightarrow> \<not> already_submitted i s \<Longrightarrow> reaches I Q (execute_sell x config qa ba r c now i q)"
  shows "reaches I Q (sell_path x sha config qa ba r p eq sig c now f blk)"
proof -
  have stop: "reaches I Q (no_trade sy r reason detail)" for sy reason detail
    by (intro reaches_done no_trade R imp)
  let ?i = "generate_client_order_id sha (cfg_symbol (cfg_market config)) ''SELL'' (close_time_ms c)"
  have go: "reaches I Q (execute_sell x config qa ba r c now ?i q)"
    if "sell_gates x config f r p c now q \<and> \<not> sub \<and> \<not> blk" "possible I (sget (already_submitted ?i)) sub" for q sub
    using that by (auto simp: possible_get intro: sell)
  show ?thesis
    unfolding sell_path_def Let_def
    by (intro reaches_bind reach_cases stop go sell_gatesI stepI imp; assumption)
qed

lemma act_on_signal_reaches:
  assumes R: "R r" and imp: "\<And>s. I s \<Longrightarrow> Q s"
    and sell: "\<And>i q s. sell_gates x config f r p c now q \<Longrightarrow> sg_type sig = EXIT \<Longrightarrow> mismatch = None \<Longrightarrow>
      i = generate_client_order_id sha (cfg_symbol (cfg_market config)) ''SELL'' (close_time_ms c) \<Longrightarrow>
      I s \<Longrightarrow> \<not> already_submitted i s \<Longrightarrow> reaches I Q (execute_sell x config qa ba r c now i q)"
  shows "reaches I Q (act_on_signal x sha config qa ba r p eq sig c now f mismatch)"
proof -
  have "reaches I Q (sell_path x sha config qa ba r p eq sig c now f False)"
    if "sg_type sig \<noteq> HOLD" "sg_type sig \<noteq> BUY" "mismatch = None"
    using that by (intro sell_path_reaches R imp sell; (assumption | cases "sg_type sig"; simp))
  moreover have "reaches I Q (no_trade sy r reason detail)" for sy reason detail
    by (intro reaches_done no_trade R imp)
  moreover have "reaches I Q (sbind (save_risk sy r) (\<lambda>_. sreturn v))" for sy and v :: cycle_result
    by (intro reaches_done stepI save_risk R imp)
  ultimately show ?thesis
    unfolding act_on_signal_def Let_def
    by (intro reaches_bind [OF jrecord _ imp] reach_cases; blast)
qed

end

section \<open>Reconciliation and the whole cycle\<close>

locale quiet = calm +
  assumes exec_save: "I s \<Longrightarrow> I (s\<lparr>lv_exec := save_portfolio sy p now (lv_exec s)\<rparr>)"
    and exec_apply: "I s \<Longrightarrow> apply_order_result_atomically sy qa ba order fee now (lv_exec s) = (res, db) \<Longrightarrow>
      I (s\<lparr>lv_exec := db\<rparr>)"
begin

lemma on_store_save [stepI]: "preserves I (on_store (smodify (save_portfolio sy p now)))"
  unfolding on_store_def by (rule preserves_zoom) (simp add: exec_save)

lemma on_store_apply [stepI]: "preserves I (on_store (apply_order_result_atomically sy qa ba order fee now))"
  unfolding on_store_def by (rule preserves_zoom) (rule exec_apply)

lemma reconcile_pending_loop [stepI]: "preserves I (reconcile_pending_loop x sy qa ba fee now ps)"
proof (induction ps)
  case Nil
  show ?case unfolding reconcile_pending_loop.simps by (intro stepI)
next
  case (Cons p ps)
  show ?case unfolding reconcile_pending_loop.simps by (intro stepI Cons.IH)
qed

lemma reconcile_pending_orders [stepI]: "preserves I (reconcile_pending_orders x sy qa ba fee now)"
  unfolding reconcile_pending_orders_def by (intro stepI)

end

text \<open>
  What is known when the exchange is asked to sell \<open>q\<close> under the id \<open>i\<close>: the gates were
  passed with the risk state and the portfolio of the stores, the exchange's balances
  agreed with that portfolio, and the strategy said to exit on the last of the validated
  candles.
\<close>

definition market_ok :: "'w exchange \<Rightarrow> app_config \<Rightarrow> int \<Rightarrow> candle list \<Rightarrow> symbol_filters \<Rightarrow> bool" where
  "market_ok x config now cs f \<longleftrightarrow>
     possible (\<lambda>_. True) (x_filters x (cfg_symbol (cfg_market config))) f \<and>
     cs \<noteq> [] \<and> is_ok (validate_candle_sequence cs (cfg_interval (cfg_market config))) \<and>
     is_ok (validate_not_stale cs now (stale_data_max_age_seconds (cfg_risk config)))"

definition exit_signalled :: "(flt list \<Rightarrow> int \<Rightarrow> flt list) \<Rightarrow> app_config \<Rightarrow> candle list \<Rightarrow> portfolio \<Rightarrow> bool" where
  "exit_signalled ewm config cs p \<longleftrightarrow>
     (\<exists>strategy sig. mk_ema_crossover (cfg_ema_fast (cfg_strategy config)) (cfg_ema_slow (cfg_strategy config)) = Inr strategy \<and>
        ema_generate_signal ewm strategy cs (position_side p) = Inr sig \<and> sg_type sig = EXIT)"

definition sell_justified ::
  "'w exchange \<Rightarrow> (flt list \<Rightarrow> int \<Rightarrow> flt list) \<Rightarrow> (string \<Rightarrow> string) \<Rightarrow> app_config \<Rightarrow> string \<Rightarrow> string
    \<Rightarrow> risk_state option \<Rightarrow> risk_state \<Rightarrow> portfolio \<Rightarrow> candle \<Rightarrow> int \<Rightarrow> symbol_filters \<Rightarrow> string \<Rightarrow> dec \<Rightarrow> bool" where
  "sell_justified x ewm sha config qa ba stored r p c now f i q \<longleftrightarrow>
     (\<exists>cs. market_ok x config now cs f \<and> c = last cs \<and> exit_signalled ewm config cs p) \<and>
     sell_gates x config f r p c now q \<and>
     i = generate_client_order_id sha (cfg_symbol (cfg_market config)) ''SELL'' (close_time_ms c) \<and>
     r = roll_risk_state stored (portfolio_equity p (c_close c)) (utc_day_key now) \<and>
     (\<exists>b. possible (\<lambda>_. True) (x_balances x) b \<and> balances_agree p (asset_total b qa) (asset_total b ba))"

lemma reconcile_balances_None:
  assumes "possible (\<lambda>s. I s \<and> load_portfolio sy (lv_exec s) = Some p) (reconcile_balances x sy qa ba) None"
  shows "\<exists>b. possible (\<lambda>_. True) (x_balances x) b \<and> balances_agree p (asset_total b qa) (asset_total b ba)"
proof -
  from assms obtain s t b where b: "on_exchange (x_balances x) s = (Inr b, t)"
    and a: "balances_agree p (asset_total b qa) (asset_total b ba)"
    by (auto simp: possible_def reconcile_balances_def sbind_eq_Inr split: if_splits)
  have "possible (\<lambda>_. True) (on_exchange (x_balances x)) b" using b by (auto simp: possible_def)
  then have "possible (\<lambda>_. True) (x_balances x) b" unfolding on_exchange_def by (rule possible_zoom)
  with a show ?thesis by blast
qed

lemma calm_portfolio:
  "calm I \<Longrightarrow> calm (\<lambda>s. I s \<and> load_portfolio sy (lv_exec s) = v)"
  by (auto simp: calm_def create_pending_def load_portfolio_def)

lemma calm_risk_portfolio:
  "calm_risk I R \<Longrightarrow> calm_risk (\<lambda>s. I s \<and> load_portfolio sy (lv_exec s) = v) R"
  by (simp add: calm_risk_def calm_risk_axioms_def calm_portfolio)

lemma fetch_market_ok:
  assumes "possible I (fetch_market x config) (now, cs, f)"
  shows "market_ok x config now cs f"
proof -
  from assms obtain s t where *: "fetch_market x config s = (Inr (now, cs, f), t)" by (auto simp: possible_def)
  then obtain u where "on_exchange (x_filters x (cfg_symbol (cfg_market config))) u = (Inr f, t)"
    by (auto simp: fetch_market_def Let_def sbind_eq_Inr)
  then have "possible (\<lambda>_. True) (on_exchange (x_filters x (cfg_symbol (cfg_market config)))) f"
    unfolding possible_def by blast
  then have "possible (\<lambda>_. True) (x_filters x (cfg_symbol (cfg_market config))) f"
    unfolding on_exchange_def by (rule possible_zoom)
  then show ?thesis using *
    by (auto simp: market_ok_def fetch_market_def Let_def sbind_eq_Inr require_non_empty_def is_ok_iff split: if_splits)
qed

text \<open>
  A cycle watched from its start: \<open>I\<close> holds until the risk state is read, the weaker \<open>K\<close> from
  then on.
\<close>

locale watch = start: quiet I + act: calm_risk K R for I K :: "'w live \<Rightarrow> bool" and R +
  assumes weaker: "I s \<Longrightarrow> K s"
begin

lemma cycle_after_fetch_reaches:
  assumes imp: "\<And>s. K s \<Longrightarrow> Q s"
    and roll: "\<And>s eq key. I s \<Longrightarrow> R (roll_risk_state (risk_load (cfg_symbol (cfg_market config)) (lv_risk s)) eq key)"
    and sell: "\<And>r p c i q s s'. I s \<Longrightarrow> K s' \<Longrightarrow> \<not> already_submitted i s' \<Longrightarrow>
      sell_justified x ewm sha config qa ba (risk_load (cfg_symbol (cfg_market config)) (lv_risk s)) r p c now f i q \<Longrightarrow>
      reaches (\<lambda>s. K s \<and> load_portfolio (cfg_symbol (cfg_market config)) (lv_exec s) = Some p) Q
        (execute_sell x config qa ba r c now i q)"
    and market: "market_ok x config now cs f"
  shows "reaches I Q (cycle_after_fetch x ewm sha config qa ba now cs f)"
proof -
  let ?sy = "cfg_symbol (cfg_market config)"
  let ?J = "\<lambda>p s. I s \<and> load_portfolio ?sy (lv_exec s) = Some p"
  let ?K = "\<lambda>p s. K s \<and> load_portfolio ?sy (lv_exec s) = Some p"
  have cr: "calm_risk (?K p) R" for p by (rule calm_risk_portfolio) (rule act.calm_risk_axioms)
  have cm: "calm (?J p)" for p by (rule calm_portfolio) (rule start.calm_axioms)
  note J_steps = calm.jrecord [OF cm] calm.reconcile_balances [OF cm]
  have act: "reaches (?J p) Q (act_on_signal x sha config qa ba
        (roll_risk_state stored (portfolio_equity p (c_close c)) (utc_day_key now)) p
        (portfolio_equity p (c_close c)) sig c now f mismatch)"
    if "possible I (slift (nth_res cs (-1))) c"
      "possible (?J p) (reconcile_balances x ?sy qa ba) mismatch"
      "possible (?J p) (slift (mk_ema_crossover (cfg_ema_fast (cfg_strategy config)) (cfg_ema_slow (cfg_strategy config)))) strategy"
      "possible (?J p) (slift (ema_generate_signal ewm strategy cs (position_side p))) sig"
      and st: "possible (?J p) (sget (\<lambda>s. risk_load ?sy (lv_risk s))) stored" for p c stored strategy sig mismatch
  proof -
    let ?r = "roll_risk_state stored (portfolio_equity p (c_close c)) (utc_day_key now)"
    have c: "c = last cs" using possibleD(1) [OF that(1)] nth_res_last [of cs] market by (simp add: market_ok_def)
    from st obtain s0 where s0: "I s0" "stored = risk_load ?sy (lv_risk s0)" by (auto simp: possible_get)
    have "reaches (?K p) Q (act_on_signal x sha config qa ba ?r p (portfolio_equity p (c_close c)) sig c now f mismatch)"
    proof (rule calm_risk.act_on_signal_reaches [OF cr])
      show "R ?r" using roll s0 by simp
      fix i q s
      assume g: "sell_gates x config f ?r p c now q"
        and ex: "sg_type sig = EXIT" and m: "mismatch = None" and i: "i = generate_client_order_id sha ?sy ''SELL'' (close_time_ms c)"
        and s: "?K p s" "\<not> already_submitted i s"
      have "sell_justified x ewm sha config qa ba stored ?r p c now f i q"
        using g i c ex m market possibleD(1) [OF that(3)] possibleD(1) [OF that(4)] that(2) reconcile_balances_None
        unfolding sell_justified_def exit_signalled_def by blast
      then show "reaches (?K p) Q (execute_sell x config qa ba ?r c now i q)"
        using s0 s by (intro sell) auto
    qed (use imp in blast)
    then show ?thesis by (rule reaches_pre) (auto intro: weaker)
  qed
  have imp': "Q s" if "?J p s" for p s using that imp weaker by blast
  have tail: "reaches (?J p) Q
      (sbind (reconcile_balances x ?sy qa ba) (\<lambda>mismatch.
       sbind (case mismatch of None \<Rightarrow> sreturn ()
           | Some reason \<Rightarrow> jrecord ''RECONCILIATION_DISCREPANCY'' [(''reason'', JStr reason)] now) (\<lambda>_.
       sbind (sget (\<lambda>s. risk_load ?sy (lv_risk s))) (\<lambda>stored_risk.
       sbind (slift (mk_ema_crossover (cfg_ema_fast (cfg_strategy config)) (cfg_ema_slow (cfg_strategy config)))) (\<lambda>strategy.
       sbind (slift (ema_generate_signal ewm strategy cs (position_side p))) (\<lambda>sig.
       act_on_signal x sha config qa ba (roll_risk_state stored_risk (portfolio_equity p (c_close c)) (utc_day_key now)) p
         (portfolio_equity p (c_close c)) sig c now f mismatch))))))"
    if "possible I (slift (nth_res cs (-1))) c" for p c
    by (intro reaches_bind stepI J_steps act [OF that] imp'; assumption)
  have after: "reaches I Q (sbind (sget (\<lambda>s. load_portfolio ?sy (lv_exec s))) (\<lambda>reloaded.
      sbind (slift (of_option AssertionError reloaded)) (\<lambda>p. g p)))"
    if "\<And>p. reaches (?J p) Q (g p)" for g :: "portfolio \<Rightarrow> ('w, cycle_result) cycle"
  proof (rule reaches_get)
    fix v :: "portfolio option"
    show "reaches (\<lambda>s. I s \<and> load_portfolio ?sy (lv_exec s) = v) Q
        (sbind (slift (of_option AssertionError v)) (\<lambda>p. g p))"
    proof (cases v)
      case None
      then show ?thesis by (auto intro!: reachesI imp weaker)
    next
      case (Some p)
      then show ?thesis using that [of p] by (simp add: slift_def sbind_def)
    qed
  qed
  show ?thesis
    unfolding cycle_after_fetch_def Let_def
    by (intro reaches_bind reach_cases after tail imp [OF weaker] stepI start.on_store_save start.reconcile_initial_portfolio
        start.reconcile_pending_orders reaches_done [OF preserves_basic(1)]; assumption)
qed

lemma run_reaches:
  assumes imp: "\<And>s. K s \<Longrightarrow> Q s"
    and roll: "\<And>s eq key. I s \<Longrightarrow> R (roll_risk_state (risk_load (cfg_symbol (cfg_market config)) (lv_risk s)) eq key)"
    and sell: "\<And>qa ba now f r p c i q s s'. I s \<Longrightarrow> K s' \<Longrightarrow> \<not> already_submitted i s' \<Longrightarrow>
      quote_asset_of (cfg_symbol (cfg_market config)) = Inr qa \<Longrightarrow>
      base_asset_of (cfg_symbol (cfg_market config)) = Inr ba \<Longrightarrow>
      sell_justified x ewm sha config qa ba (risk_load (cfg_symbol (cfg_market config)) (lv_risk s)) r p c now f i q \<Longrightarrow>
      reaches (\<lambda>s. K s \<and> load_portfolio (cfg_symbol (cfg_market config)) (lv_exec s) = Some p) Q
        (execute_sell x config qa ba r c now i q)"
  shows "reaches I Q (run_testnet_cycle x ewm sha config)"
proof -
  have go: "reaches I Q (cycle_after_fetch x ewm sha config qa ba now cs f)"
    if "possible I (slift (quote_asset_of (cfg_symbol (cfg_market config)))) qa"
      "possible I (slift (base_asset_of (cfg_symbol (cfg_market config)))) ba"
      "possible I (fetch_market x config) d" "d = (now, y)" "y = (cs, f)" for qa ba d now y cs f
    by (rule cycle_after_fetch_reaches [OF imp roll sell fetch_market_ok])
       (use that in \<open>auto dest: possibleD(1)\<close>)
  show ?thesis
    unfolding run_testnet_cycle_def
    by (intro reaches_bind reaches_catch_sum reaches_prod go imp [OF weaker] stepI start.fetch_market start.market_failed; assumption)
qed

end

section \<open>Submitting and settling an order\<close>

locale firm = quiet + calm_risk I "\<lambda>_. True"
begin

lemma save_any_risk [stepI]: "preserves I (save_risk sy r)"
  by (rule save_risk) simp

lemma no_trade_any [stepI]: "preserves I (no_trade sy r reason detail)"
  by (rule no_trade) simp

lemma submission_failed [stepI]: "preserves I (submission_failed sy r pl t result)"
  unfolding submission_failed_def by (intro stepI)

lemma settle_order [stepI]: "preserves I (settle_order config sy qa ba r i t now order)"
  unfolding settle_order_def by (intro stepI)

end

locale steady = firm +
  assumes orders: "I s \<Longrightarrow> I (s\<lparr>lv_orders := lv_orders s @ [c]\<rparr>)"
begin

lemma place_market_order [stepI]: "preserves I (place_market_order x sy sd q i)"
  unfolding place_market_order_def by (intro stepI preserves_modify orders)

lemma retry_order [stepI]: "preserves I (retry_order x sy r q i t)"
  unfolding retry_order_def by (intro stepI)

lemma ambiguous_submission [stepI]: "preserves I (ambiguous_submission x sy r q i t)"
  unfolding ambiguous_submission_def by (intro stepI)

lemma submit_order [stepI]: "preserves I (submit_order x sy r q i t)"
  unfolding submit_order_def by (intro stepI)

lemma execute_sell [stepI]: "preserves I (execute_sell x config qa ba r c now i q)"
  unfolding execute_sell_def Let_def by (intro stepI)

lemma sell_path [stepI]: "preserves I (sell_path x sha config qa ba r p eq sig c now f blk)"
  unfolding sell_path_def Let_def by (intro stepI)

lemma act_on_signal [stepI]: "preserves I (act_on_signal x sha config qa ba r p eq sig c now f m)"
  unfolding act_on_signal_def Let_def by (intro stepI)

lemma cycle_after_fetch [stepI]: "preserves I (cycle_after_fetch x ewm sha config qa ba now cs f)"
  unfolding cycle_after_fetch_def Let_def by (intro stepI)

lemma run: "preserves I (run_testnet_cycle x ewm sha config)"
  unfolding run_testnet_cycle_def by (intro stepI)

end

section \<open>The predicates of the model\<close>

text \<open>Three predicates that every step keeps, raises included.\<close>

interpretation journal_grows: steady "\<lambda>s. \<exists>js. lv_journal s = J @ js" for J
  by unfold_locales auto

interpretation store_sound: steady "\<lambda>s. store_inv (lv_exec s)"
  by unfold_locales (auto simp: store_inv_create save_portfolio_def store_inv_write intro: store_inv_apply)

definition has_pending :: "string \<Rightarrow> exec_db \<Rightarrow> bool" where
  "has_pending i db \<longleftrightarrow> get_pending i db \<noteq> None"

lemma has_pending_iff: "has_pending i db \<longleftrightarrow> i \<in> po_client_order_id ` set (pending_orders db)"
  unfolding has_pending_def get_pending_def by (force simp: find_None_iff simp del: not_None_eq)

lemma has_pending_create: "has_pending j (create_pending i sy sd q t now db) \<longleftrightarrow> j = i \<or> has_pending j db"
proof (cases "has_pending i db")
  case True
  then have "create_pending i sy sd q t now db = db" by (simp add: create_pending_def has_pending_def)
  with True show ?thesis by auto
next
  case False
  then have "\<not> get_pending i db \<noteq> None" by (simp add: has_pending_def)
  then show ?thesis by (auto simp: create_pending_def has_pending_iff)
qed

lemma load_portfolio_create [simp]:
  "load_portfolio sy' (create_pending i sy sd q t now db) = load_portfolio sy' db"
  by (simp add: create_pending_def load_portfolio_def)

lemma has_pending_save: "has_pending j (save_portfolio sy p now db) \<longleftrightarrow> has_pending j db"
  by (simp add: has_pending_def save_portfolio_def)

lemma has_pending_apply:
  assumes "apply_order_result_atomically sy qa ba order fee now db = (res, db')"
  shows "has_pending i db' \<longleftrightarrow> has_pending i db"
proof (cases res)
  case (Inl e)
  then show ?thesis using assms apply_order_rollback by blast
next
  case (Inr r)
  then obtain p where "db' = update_pending order r now (write_portfolio sy p now db)"
    using assms apply_order_commit by blast
  then show ?thesis by (simp add: has_pending_def get_pending_update)
qed

interpretation pending_stays: steady "\<lambda>s. has_pending i (lv_exec s)" for i
  by unfold_locales (auto simp: has_pending_create has_pending_save dest: has_pending_apply)

text \<open>
  Before an order is sent: the trace of orders, the stored risk states and every pending id
  are those of the start of the cycle.
\<close>

definition before_order :: "order_call list \<Rightarrow> (string \<Rightarrow> bool) \<Rightarrow> risk_db \<Rightarrow> 'w live \<Rightarrow> bool" where
  "before_order L P R s \<longleftrightarrow> lv_orders s = L \<and> lv_risk s = R \<and> (\<forall>i. P i \<longrightarrow> has_pending i (lv_exec s))"

text \<open>After: at most \<open>n\<close> copies of one call more, whose pending row is there.\<close>

definition ordered :: "nat \<Rightarrow> order_call \<Rightarrow> order_call list \<Rightarrow> 'w live \<Rightarrow> bool" where
  "ordered n c L s \<longleftrightarrow>
     (\<exists>k\<le>n. lv_orders s = L @ replicate k c) \<and> has_pending (oc_client_order_id c) (lv_exec s)"

interpretation before_order: quiet "before_order L P R" for L P R
  by unfold_locales (auto simp: before_order_def has_pending_create has_pending_save dest: has_pending_apply)

interpretation sent: firm "ordered n c L" for n c L
  by unfold_locales (auto simp: ordered_def has_pending_create has_pending_save dest: has_pending_apply)

text \<open>Between the two calls of one submission the stored portfolio is still that of the first.\<close>

definition sending :: "nat \<Rightarrow> order_call \<Rightarrow> order_call list \<Rightarrow> 'w live \<Rightarrow> bool" where
  "sending n c L s \<longleftrightarrow> ordered n c L s \<and> load_portfolio (oc_symbol c) (lv_exec s) = oc_portfolio c"

interpretation sending: calm_risk "sending n c L" "\<lambda>_. True" for n c L
  unfolding sending_def [abs_def] by (rule calm_risk_portfolio) (rule sent.calm_risk_axioms)

text \<open>One call of the exchange appends one order to the trace, whatever it answers.\<close>

lemma place_sends:
  assumes "c = \<lparr>oc_symbol = sy, oc_side = sd, oc_quantity = q, oc_client_order_id = i, oc_portfolio = pf\<rparr>"
  shows "triple (sending n c L) (place_market_order x sy sd q i) (\<lambda>_. sending (Suc n) c L) (sending (Suc n) c L)"
  unfolding place_market_order_def
proof (rule triple_bind)
  have "sending (Suc n) c L (s\<lparr>lv_orders := lv_orders s @ [\<lparr>oc_symbol = sy, oc_side = sd, oc_quantity = q,
      oc_client_order_id = i, oc_portfolio = load_portfolio sy (lv_exec s)\<rparr>]\<rparr>)" if s: "sending n c L s" for s
  proof -
    from s obtain k where "k \<le> n" "lv_orders s = L @ replicate k c"
      and pf: "load_portfolio sy (lv_exec s) = pf" by (auto simp: sending_def ordered_def assms)
    then have "lv_orders s @ [c] = L @ replicate (Suc k) c \<and> Suc k \<le> Suc n"
      by (simp add: replicate_append_same)
    then show ?thesis using s pf by (auto simp: sending_def ordered_def assms)
  qed
  then show "triple (sending n c L) (smodify (\<lambda>s. s\<lparr>lv_orders := lv_orders s @ [\<lparr>oc_symbol = sy, oc_side = sd,
      oc_quantity = q, oc_client_order_id = i, oc_portfolio = load_portfolio sy (lv_exec s)\<rparr>]\<rparr>))
      (\<lambda>_. sending (Suc n) c L) (sending (Suc n) c L)"
    by (auto intro!: tripleI)
  show "triple (sending (Suc n) c L) (on_exchange (x_place x sy sd q i)) (\<lambda>_. sending (Suc n) c L) (sending (Suc n) c L)"
    for u :: unit by (rule preserves_triple) (rule sending.on_exchange)
qed

lemma sending_ordered: "sending n c L s \<Longrightarrow> n \<le> m \<Longrightarrow> ordered m c L s"
  by (auto simp: sending_def ordered_def intro: order_trans)

text \<open>A call followed by a handler that keeps to its bound.\<close>

lemma send_then:
  assumes c: "c = \<lparr>oc_symbol = sy, oc_side = sd, oc_quantity = q, oc_client_order_id = i, oc_portfolio = pf\<rparr>"
    and h: "\<And>e. reaches (sending (Suc n) c L) (ordered m c L) (h e)" and m: "Suc n \<le> m"
  shows "triple (sending n c L)
    (scatch (sbind (place_market_order x sy sd q i) (\<lambda>reply. sreturn (Inr reply))) h)
    (\<lambda>_. ordered m c L) (ordered m c L)"
proof (rule triple_catch)
  show "triple (sending n c L) (sbind (place_market_order x sy sd q i) (\<lambda>reply. sreturn (Inr reply)))
      (\<lambda>_. ordered m c L) (sending (Suc n) c L)"
    by (rule triple_bind [OF place_sends [OF c]]) (use m in \<open>auto intro!: tripleI intro: sending_ordered\<close>)
  show "triple (sending (Suc n) c L) (h e) (\<lambda>_. ordered m c L) (ordered m c L)" for e
    using h by (simp add: reaches_def)
qed

text \<open>The second call is made only when the exchange can say that it does not know the order.\<close>

definition can_be_missing :: "'w exchange \<Rightarrow> string \<Rightarrow> string \<Rightarrow> bool" where
  "can_be_missing x sy i \<longleftrightarrow> (\<exists>w. fst (x_get_order x sy i w) = Inl (BinanceApiError (Some ORDER_DOES_NOT_EXIST_CODE)))"

definition max_calls :: "'w exchange \<Rightarrow> string \<Rightarrow> string \<Rightarrow> nat" where
  "max_calls x sy i = (if can_be_missing x sy i then 2 else 1)"

lemma ask_order_missing:
  assumes "possible I (ask_order x sy i) (status, ord)" "safe_to_retry status"
  shows "can_be_missing x sy i"
proof -
  from assms(1) obtain s t where "ask_order x sy i s = (Inr (status, ord), t)" by (auto simp: possible_def)
  moreover obtain answer w where a: "x_get_order x sy i (lv_world s) = (answer, w)"
    by (cases "x_get_order x sy i (lv_world s)")
  ultimately have "reconcile_order answer = Inr (status, ord)"
    by (simp add: ask_order_def on_exchange_def szoom_def sanswer_def sbind_def)
  then have "answer = Inl (BinanceApiError (Some ORDER_DOES_NOT_EXIST_CODE))"
    using safe_to_retry_iff assms(2) by blast
  with a have "fst (x_get_order x sy i (lv_world s)) = Inl (BinanceApiError (Some ORDER_DOES_NOT_EXIST_CODE))" by simp
  then show ?thesis unfolding can_be_missing_def by blast
qed

lemma submission_failed_reaches:
  "1 \<le> m \<Longrightarrow> n \<le> m \<Longrightarrow> reaches (sending n c L) (ordered m c L) (submission_failed sy r pl t res)"
  unfolding submission_failed_def
  by (rule reaches_done) (auto intro!: stepI sending.save_risk sending.jrecord dest: sending_ordered)

lemma raise_reaches: "n \<le> m \<Longrightarrow> reaches (sending n c L) (ordered m c L) (sraise e)"
  by (rule reaches_done [OF preserves_basic(2)]) (erule sending_ordered)

lemma return_reaches: "n \<le> m \<Longrightarrow> reaches (sending n c L) (ordered m c L) (sreturn v)"
  by (rule reaches_done [OF preserves_basic(1)]) (erule sending_ordered)

lemma retry_order_reaches:
  assumes c: "c = \<lparr>oc_symbol = sy, oc_side = SELL_SIDE, oc_quantity = q, oc_client_order_id = i, oc_portfolio = pf\<rparr>"
  shows "reaches (sending 1 c L) (ordered 2 c L) (retry_order x sy r q i t)"
proof -
  have "triple (sending 1 c L) (retry_order x sy r q i t) (\<lambda>_. ordered 2 c L) (ordered 2 c L)"
    unfolding retry_order_def
    by (rule send_then [OF c]) (auto split: exn.splits intro: submission_failed_reaches raise_reaches simp del: One_nat_def)
  then show ?thesis by (auto simp: reaches_def intro: sending_ordered)
qed

lemma ambiguous_submission_reaches:
  assumes c: "c = \<lparr>oc_symbol = sy, oc_side = SELL_SIDE, oc_quantity = q, oc_client_order_id = i, oc_portfolio = pf\<rparr>"
  shows "reaches (sending 1 c L) (ordered (max_calls x sy i) c L) (ambiguous_submission x sy r q i t)"
proof -
  have n: "1 \<le> max_calls x sy i" by (simp add: max_calls_def)
  note imp = sending_ordered [OF _ n] and fin = submission_failed_reaches [OF n n] and ret = return_reaches [OF n]
  have again: "reaches (sending 1 c L) (ordered (max_calls x sy i) c L) (retry_order x sy r q i t)"
    if "possible (sending 1 c L) (ask_order x sy i) v" "v = (status, ord)" "safe_to_retry status" for v status ord
    using retry_order_reaches [OF c] ask_order_missing that by (fastforce simp: max_calls_def)
  show ?thesis
    unfolding ambiguous_submission_def
    by (intro reaches_bind reach_cases again fin ret imp sending.ask_order sending.jrecord; assumption)
qed

lemma execute_sell_reaches:
  assumes c: "c = \<lparr>oc_symbol = cfg_symbol (cfg_market config), oc_side = SELL_SIDE, oc_quantity = q,
    oc_client_order_id = i, oc_portfolio = Some p\<rparr>"
    and s: "lv_orders s = L" "load_portfolio (cfg_symbol (cfg_market config)) (lv_exec s) = Some p"
    and run: "execute_sell x config qa ba r cl now i q s = (res, t)"
  shows "ordered (max_calls x (cfg_symbol (cfg_market config)) i) c L t"
proof -
  let ?sy = "cfg_symbol (cfg_market config)" and ?n = "max_calls x (cfg_symbol (cfg_market config)) i"
  have n: "Suc 0 \<le> ?n" by (simp add: max_calls_def)
  have submit: "triple (sending 0 c L) (submit_order x ?sy r q i (close_time_ms cl)) (\<lambda>_. ordered ?n c L) (ordered ?n c L)"
    unfolding submit_order_def using n
    by (intro send_then [OF c]) (auto split: exn.splits intro: submission_failed_reaches raise_reaches
        ambiguous_submission_reaches [OF c, unfolded One_nat_def])
  have settle: "triple (ordered ?n c L) (case v of Inl early \<Rightarrow> sreturn early
      | Inr order \<Rightarrow> settle_order config ?sy qa ba r i (close_time_ms cl) now order) (\<lambda>_. ordered ?n c L) (ordered ?n c L)" for v
    by (intro preserves_triple stepI sent.settle_order)
  let ?J = "\<lambda>s. lv_orders s = L \<and> load_portfolio ?sy (lv_exec s) = Some p"
  have create: "triple ?J (on_store (smodify (create_pending i ?sy sd q (close_time_ms cl) now))) (\<lambda>_. sending 0 c L) (sending 0 c L)" for sd
    by (rule tripleI) (auto simp: on_store_def szoom_def sending_def ordered_def c has_pending_create)
  have early: "triple ?J (on_store (smodify (create_pending i ?sy sd q (close_time_ms cl) now))) (\<lambda>_. sending 0 c L) (ordered ?n c L)" for sd
    by (rule triple_weaken [OF create]) (auto elim: sending_ordered)
  have log: "triple (sending 0 c L) (jrecord ty pl tm) (\<lambda>_. sending 0 c L) (ordered ?n c L)" for ty pl tm
    by (rule triple_weaken [OF preserves_triple [OF sending.jrecord]]) (auto elim: sending_ordered)
  have "triple ?J (execute_sell x config qa ba r cl now i q) (\<lambda>_. ordered ?n c L) (ordered ?n c L)"
    unfolding execute_sell_def Let_def
    by (rule triple_bind, rule early, rule triple_bind, rule log, rule triple_bind, rule submit, rule settle)
  then show ?thesis using s run by (cases res) (auto dest: triple_Inr triple_Inl)
qed

end
