(* ===== verification/Live_Safety.thy ===== *)
theory Live_Safety
  imports Live_Invariants
begin

text \<open>
  What the testnet runner may do to the exchange: the orders of one cycle, and the orders of
  any sequence of cycles with an exchange that changes freely between them.
\<close>

section \<open>One cycle\<close>

definition sell_call :: "'w exchange \<Rightarrow> (flt list \<Rightarrow> int \<Rightarrow> flt list) \<Rightarrow> (string \<Rightarrow> string) \<Rightarrow> app_config
    \<Rightarrow> 'w live \<Rightarrow> order_call \<Rightarrow> bool" where
  "sell_call x ewm sha config s c \<longleftrightarrow>
     oc_symbol c = cfg_symbol (cfg_market config) \<and> oc_side c = SELL_SIDE \<and>
     \<not> has_pending (oc_client_order_id c) (lv_exec s) \<and>
     (\<exists>qa ba r p cl now f. oc_portfolio c = Some p \<and>
        quote_asset_of (cfg_symbol (cfg_market config)) = Inr qa \<and>
        base_asset_of (cfg_symbol (cfg_market config)) = Inr ba \<and>
        sell_justified x ewm sha config qa ba (risk_load (cfg_symbol (cfg_market config)) (lv_risk s))
          r p cl now f (oc_client_order_id c) (oc_quantity c))"

text \<open>The orders of a cycle: none, or copies of one justified sell whose pending row is durable.\<close>

definition cycle_orders :: "'w exchange \<Rightarrow> (flt list \<Rightarrow> int \<Rightarrow> flt list) \<Rightarrow> (string \<Rightarrow> string) \<Rightarrow> app_config
    \<Rightarrow> 'w live \<Rightarrow> 'w live \<Rightarrow> bool" where
  "cycle_orders x ewm sha config s t \<longleftrightarrow>
     lv_orders t = lv_orders s \<or>
     (\<exists>c. sell_call x ewm sha config s c \<and>
        ordered (max_calls x (cfg_symbol (cfg_market config)) (oc_client_order_id c)) c (lv_orders s) t)"

lemma before_order_start: "before_order (lv_orders s) (\<lambda>i. has_pending i (lv_exec s)) (lv_risk s) s"
  by (simp add: before_order_def)

definition deciding :: "order_call list \<Rightarrow> (string \<Rightarrow> bool) \<Rightarrow> 'w live \<Rightarrow> bool" where
  "deciding L P s \<longleftrightarrow> lv_orders s = L \<and> (\<forall>i. P i \<longrightarrow> has_pending i (lv_exec s))"

interpretation one_cycle: watch "before_order L P D" "deciding L P" "\<lambda>_. True" for L P D
  by unfold_locales (auto simp: deciding_def before_order_def has_pending_create)

lemma not_submitted: "\<not> already_submitted i s \<Longrightarrow> \<not> has_pending i (lv_exec s)"
  by (simp add: already_submitted_def has_pending_def)

lemma cycle_orders:
  assumes run: "run_testnet_cycle x ewm sha config s = (res, t)"
  shows "cycle_orders x ewm sha config s t"
proof -
  let ?sy = "cfg_symbol (cfg_market config)"
  let ?P = "\<lambda>i. has_pending i (lv_exec s)"
  have "reaches (before_order (lv_orders s) ?P (lv_risk s)) (cycle_orders x ewm sha config s)
      (run_testnet_cycle x ewm sha config)"
  proof (rule one_cycle.run_reaches)
    show "cycle_orders x ewm sha config s u" if "deciding (lv_orders s) ?P u" for u
      using that by (simp add: deciding_def cycle_orders_def)
  next
    fix qa ba now f r p cl i q s0 s'
    assume s0: "before_order (lv_orders s) ?P (lv_risk s) s0" and s': "deciding (lv_orders s) ?P s'"
      "\<not> already_submitted i s'" and a: "quote_asset_of ?sy = Inr qa" "base_asset_of ?sy = Inr ba"
      and j: "sell_justified x ewm sha config qa ba (risk_load ?sy (lv_risk s0)) r p cl now f i q"
    let ?c = "\<lparr>oc_symbol = ?sy, oc_side = SELL_SIDE, oc_quantity = q, oc_client_order_id = i, oc_portfolio = Some p\<rparr>"
    have "lv_risk s0 = lv_risk s" using s0 by (simp add: before_order_def)
    moreover have "\<not> has_pending i (lv_exec s)" using s' not_submitted by (auto simp: deciding_def)
    ultimately have call: "sell_call x ewm sha config s ?c" using a j by (auto simp: sell_call_def)
    show "reaches (\<lambda>u. deciding (lv_orders s) ?P u \<and> load_portfolio ?sy (lv_exec u) = Some p)
        (cycle_orders x ewm sha config s) (execute_sell x config qa ba r cl now i q)"
    proof (rule reachesI)
      fix u v res'
      assume "deciding (lv_orders s) ?P u \<and> load_portfolio ?sy (lv_exec u) = Some p"
        and "execute_sell x config qa ba r cl now i q u = (res', v)"
      then have "ordered (max_calls x ?sy i) ?c (lv_orders s) v"
        by (intro execute_sell_reaches) (auto simp: deciding_def)
      with call show "cycle_orders x ewm sha config s v" by (auto simp: cycle_orders_def)
    qed (simp add: deciding_def cycle_orders_def)
  qed simp
  then show ?thesis using before_order_start run by (rule reachesD)
qed

section \<open>The shutdown after repeated API errors\<close>

definition latched :: "string \<Rightarrow> int \<Rightarrow> order_call list \<Rightarrow> 'w live \<Rightarrow> bool" where
  "latched sy m L s \<longleftrightarrow> lv_orders s = L \<and> (\<exists>r. risk_load sy (lv_risk s) = Some r \<and> m \<le> consecutive_api_errors r)"

interpretation shutdown: watch "latched sy m L" "latched sy m L" "\<lambda>r. m \<le> consecutive_api_errors r" for sy m L
  by unfold_locales (auto simp: latched_def)

lemma roll_keeps_errors:
  "consecutive_api_errors (roll_risk_state (Some r) eq key) = consecutive_api_errors r"
  by (simp add: roll_risk_state_def Let_def)

lemma shutdown_cycle:
  assumes "run_testnet_cycle x ewm sha config s = (res, t)"
    and "latched (cfg_symbol (cfg_market config)) (max_consecutive_api_errors (cfg_risk config)) L s"
  shows "latched (cfg_symbol (cfg_market config)) (max_consecutive_api_errors (cfg_risk config)) L t"
proof -
  let ?I = "latched (cfg_symbol (cfg_market config)) (max_consecutive_api_errors (cfg_risk config)) L"
  have "reaches ?I ?I (run_testnet_cycle x ewm sha config)"
    by (rule shutdown.run_reaches)
       (auto simp: latched_def roll_keeps_errors sell_justified_def sell_gates_def)
  then show ?thesis using assms(2,1) by (rule reachesD)
qed

section \<open>Any number of cycles\<close>

text \<open>
  The runs of the program against one database: after each cycle the outside world (the
  exchange, the clock, the operator's kill switch) may be anything.
\<close>

inductive history :: "'w exchange \<Rightarrow> (flt list \<Rightarrow> int \<Rightarrow> flt list) \<Rightarrow> (string \<Rightarrow> string) \<Rightarrow> app_config
    \<Rightarrow> 'w live \<Rightarrow> 'w live \<Rightarrow> bool" for x ewm sha config s where
  start: "history x ewm sha config s s"
| cycle: "history x ewm sha config s t \<Longrightarrow> run_testnet_cycle x ewm sha config t = (res, u) \<Longrightarrow>
    history x ewm sha config s (u\<lparr>lv_world := w\<rparr>)"

text \<open>How often an id was sent.\<close>

definition copies :: "string \<Rightarrow> 'w live \<Rightarrow> nat" where
  "copies i s = length (filter (\<lambda>c. oc_client_order_id c = i) (lv_orders s))"

definition trace_ok :: "string \<Rightarrow> 'w live \<Rightarrow> bool" where
  "trace_ok sy s \<longleftrightarrow>
     (\<forall>i. copies i s \<le> 2 \<and> (0 < copies i s \<longrightarrow> has_pending i (lv_exec s))) \<and>
     (\<forall>c\<in>set (lv_orders s). oc_symbol c = sy \<and> oc_side c = SELL_SIDE)"

lemma pending_after: "run_testnet_cycle x ewm sha config s = (res, t) \<Longrightarrow> has_pending i (lv_exec s) \<Longrightarrow> has_pending i (lv_exec t)"
  using preservesD [OF pending_stays.run] by blast

lemma copies_append:
  "lv_orders t = lv_orders s @ replicate k c \<Longrightarrow>
   copies i t = copies i s + (if oc_client_order_id c = i then k else 0)"
  by (simp add: copies_def)

lemma trace_ok_cycle:
  assumes run: "run_testnet_cycle x ewm sha config s = (res, t)"
    and ok: "trace_ok (cfg_symbol (cfg_market config)) s"
  shows "trace_ok (cfg_symbol (cfg_market config)) t"
  using cycle_orders [OF run] unfolding cycle_orders_def
proof (elim disjE exE conjE)
  assume "lv_orders t = lv_orders s"
  then show ?thesis using ok pending_after [OF run] by (auto simp: trace_ok_def copies_def)
next
  fix c :: order_call
  let ?n = "max_calls x (cfg_symbol (cfg_market config)) (oc_client_order_id c)"
  assume c: "sell_call x ewm sha config s c" and o: "ordered ?n c (lv_orders s) t"
  from o obtain k where k: "k \<le> ?n" "lv_orders t = lv_orders s @ replicate k c" and p: "has_pending (oc_client_order_id c) (lv_exec t)"
    by (auto simp: ordered_def)
  have "k \<le> 2" using k(1) by (simp add: max_calls_def split: if_splits)
  have zero: "copies (oc_client_order_id c) s = 0"
    using c ok by (auto simp: sell_call_def trace_ok_def)
  have "copies i t \<le> 2 \<and> (0 < copies i t \<longrightarrow> has_pending i (lv_exec t))" for i
    using copies_append [OF k(2), of i] zero ok \<open>k \<le> 2\<close> p pending_after [OF run, of i]
    by (auto simp: trace_ok_def)
  moreover have "\<forall>d\<in>set (lv_orders t). oc_symbol d = cfg_symbol (cfg_market config) \<and> oc_side d = SELL_SIDE"
    using c ok k(2) by (auto simp: sell_call_def trace_ok_def)
  ultimately show ?thesis by (simp add: trace_ok_def)
qed

lemma trace_ok_world [simp]: "trace_ok sy (s\<lparr>lv_world := w\<rparr>) = trace_ok sy s"
  by (simp add: trace_ok_def copies_def)

lemma latched_world [simp]: "latched sy m L (s\<lparr>lv_world := w\<rparr>) = latched sy m L s"
  by (simp add: latched_def)

end
