(* ===== verification/Live_Example.thy ===== *)
theory Live_Example
  imports Live_Safety
begin

text \<open>
  A concrete run: an exchange that times out on the first submission, does not know the
  order when asked, and fills the second submission. It shows that the hypotheses of the
  properties of the live runner can hold, at their extreme (two calls in one cycle).
\<close>

definition demo_config :: app_config where
  "demo_config = (default_config TESTNET)\<lparr>cfg_strategy := \<lparr>cfg_ema_fast = 1, cfg_ema_slow = 2\<rparr>,
     cfg_fees := \<lparr>taker_fee_pct = 0, maker_fee_pct = 0, slippage_pct = 0\<rparr>\<rparr>"

text \<open>
  An exponential mean as a list function: weight 1 for span 1, one half for any other, so that
  every value of the run is a short binary fraction.
\<close>

fun ewm_from :: "flt \<Rightarrow> flt \<Rightarrow> flt list \<Rightarrow> flt list" where
  "ewm_from alpha prev [] = []"
| "ewm_from alpha prev (x # xs) = (let y = alpha * x + (1 - alpha) * prev in y # ewm_from alpha y xs)"

definition demo_ewm :: "flt list \<Rightarrow> int \<Rightarrow> flt list" where
  "demo_ewm xs n = (case xs of [] \<Rightarrow> [] | x # r \<Rightarrow> x # ewm_from (if n = 1 then 1 else Flt (1 / 2)) x r)"

definition demo_candle :: "int \<Rightarrow> rat \<Rightarrow> candle" where
  "demo_candle i p = \<lparr>c_symbol = ''BTCUSDT'', c_interval = ''4h'', open_time_ms = i * 14400000,
     close_time_ms = i * 14400000 + 14399999, c_open = Dec p, c_high = Dec p, c_low = Dec p,
     c_close = Dec p, c_volume = 1\<rparr>"

definition demo_candles :: "candle list" where
  "demo_candles = [demo_candle 0 100, demo_candle 1 110, demo_candle 2 50]"

definition demo_now :: int where
  "demo_now = 43200999"

definition demo_filters :: symbol_filters where
  "demo_filters = \<lparr>f_symbol = ''BTCUSDT'', tick_size = DecLit 1 0, min_price = 0, max_price = Dec 1000000,
     step_size = DecLit 1 0, min_qty = 1, max_qty = Dec 1000, min_notional = Dec 10,
     max_notional = None, apply_min_notional_to_market = True\<rparr>"

definition demo_order :: "string \<Rightarrow> dec \<Rightarrow> order_result" where
  "demo_order i q = \<lparr>or_order_id = 7, or_client_order_id = i, or_status = ''FILLED'', or_executed_qty = q,
     or_cumulative_quote_qty = q * Dec 50, or_transact_time_ms = demo_now,
     or_fills = [\<lparr>fl_price = Dec 50, fl_qty = q, fl_commission = 0, fl_commission_asset = ''USDT''\<rparr>]\<rparr>"

definition demo_balances :: "string \<rightharpoonup> dec \<times> dec" where
  "demo_balances = [''USDT'' \<mapsto> (Dec 100, 0), ''BTC'' \<mapsto> (1, 0)]"

text \<open>The exchange's own state counts the submissions it has seen.\<close>

definition demo_exchange :: "nat exchange" where
  "demo_exchange = \<lparr>
     x_server_time = sreturn demo_now, x_local_time = sreturn demo_now,
     x_klines = (\<lambda>_ _ _ _ _. sreturn demo_candles), x_filters = (\<lambda>_. sreturn demo_filters),
     x_balances = sreturn demo_balances,
     x_place = (\<lambda>sy sd q i n. (if n = 0 then Inl RequestException else Inr (demo_order i q), Suc n)),
     x_get_order = (\<lambda>sy i. sraise (BinanceApiError (Some ORDER_DOES_NOT_EXIST_CODE))),
     x_kill_switch = sreturn False\<rparr>"

definition demo_portfolio :: portfolio where
  "demo_portfolio = \<lparr>quote_balance = Dec 100, base_balance = 1, position_side = LONG, avg_entry_price = Some (Dec 100),
     realized_pnl_quote = 0, open_position_entry_fee = 0, pnl_is_estimated = False\<rparr>"

definition demo_state :: "nat live" where
  "demo_state = \<lparr>lv_world = 0, lv_journal = [],
     lv_exec = \<lparr>portfolio_state = [''BTCUSDT'' \<mapsto> (demo_portfolio, 0)], pending_orders = [], raise_fault_at = None\<rparr>,
     lv_risk = Map.empty, lv_orders = []\<rparr>"

definition demo_sha :: "string \<Rightarrow> string" where
  "demo_sha raw = ''0123456789abcdef01234567''"

definition demo_run :: "cycle_result result \<times> nat live" where
  "demo_run = run_testnet_cycle demo_exchange demo_ewm demo_sha demo_config demo_state"

section \<open>The run, step by step\<close>

definition demo_last :: candle where
  "demo_last = demo_candle 2 50"

definition demo_strategy :: ema_crossover where
  "demo_strategy = \<lparr>ema_fast_period = 1, ema_slow_period = 2\<rparr>"

definition demo_signal :: signal where
  "demo_signal = (case ema_generate_signal demo_ewm demo_strategy demo_candles LONG of Inr s \<Rightarrow> s)"

lemma demo_clock: "compute_clock_offset demo_now demo_now DEFAULT_MAX_CLOCK_DRIFT_MS = Inr 0"
  by code_simp

lemma demo_completed: "filter (\<lambda>c. close_time_ms c < demo_now) demo_candles = demo_candles"
  by code_simp

lemma demo_sequence: "validate_candle_sequence demo_candles ''4h'' = Inr demo_candles"
  by code_simp

lemma demo_fresh: "validate_not_stale demo_candles demo_now 21600 = Inr demo_candles"
  by code_simp

lemma demo_last_candle: "nth_res demo_candles (- 1) = Inr demo_last"
  by code_simp

lemma demo_assets: "quote_asset_of ''BTCUSDT'' = Inr ''USDT''" "base_asset_of ''BTCUSDT'' = Inr ''BTC''"
  by code_simp+

lemma demo_agree: "balances_agree demo_portfolio (asset_total demo_balances ''USDT'') (asset_total demo_balances ''BTC'')"
  by code_simp

lemma demo_signal: "ema_generate_signal demo_ewm demo_strategy demo_candles LONG = Inr demo_signal"
proof -
  have "is_ok (ema_generate_signal demo_ewm demo_strategy demo_candles LONG)" by code_simp
  then show ?thesis by (auto simp: demo_signal_def is_ok_iff)
qed

lemma demo_exit: "sg_type demo_signal = EXIT"
  by code_simp

lemma demo_sizing: "compute_sell_quantity 1 (Dec 50) demo_filters = Inr (sized_ok 1)"
  by code_simp

lemma demo_order_validation:
  "validate_order \<lparr>ti_signal_type = EXIT, ti_symbol = ''BTCUSDT'', ti_quantity = 1, ti_price = Dec 50\<rparr> demo_filters
   = Inr \<lparr>ov_approved = True, ov_quantity = Some 1, ov_reason = ''VALIDATED''\<rparr>"
  by code_simp

lemma demo_config_fields:
  "cfg_symbol (cfg_market demo_config) = ''BTCUSDT''" "cfg_interval (cfg_market demo_config) = ''4h''"
  "cfg_strategy demo_config = \<lparr>cfg_ema_fast = 1, cfg_ema_slow = 2\<rparr>"
  "stale_data_max_age_seconds (cfg_risk demo_config) = 21600"
  "max_consecutive_api_errors (cfg_risk demo_config) = 3"
  by (simp_all add: demo_config_def default_config_def)

lemma demo_fetch:
  "fetch_market demo_exchange demo_config s = (Inr (demo_now, demo_candles, demo_filters), s)"
  by (simp add: fetch_market_def Let_def sbind_def on_exchange_def szoom_def demo_exchange_def demo_config_fields
      demo_clock fetch_completed_candles_def demo_completed require_non_empty_def demo_sequence demo_fresh)
     (simp add: demo_candles_def)

definition demo_risk :: risk_state where
  "demo_risk = roll_risk_state None (portfolio_equity demo_portfolio (Dec 50)) (utc_day_key demo_now)"

lemma demo_strategy_made: "mk_ema_crossover 1 2 = Inr demo_strategy"
  by (simp add: mk_ema_crossover_def demo_strategy_def)

lemma demo_last_close [simp]: "c_close demo_last = Dec 50"
  by (simp add: demo_last_def demo_candle_def)

lemma demo_portfolio_fields [simp]: "base_balance demo_portfolio = 1" "position_side demo_portfolio = LONG"
  by (simp_all add: demo_portfolio_def)

lemma demo_state_fields [simp]:
  "load_portfolio ''BTCUSDT'' (lv_exec demo_state) = Some demo_portfolio"
  "load_open_pending sy (lv_exec demo_state) = []"
  "get_pending i (lv_exec demo_state) = None"
  "lv_risk demo_state = Map.empty" "lv_journal demo_state = []" "lv_orders demo_state = []" "lv_world demo_state = 0"
  by (simp_all add: demo_state_def load_portfolio_def load_open_pending_def get_pending_def)

lemma demo_after:
  "cycle_after_fetch demo_exchange demo_ewm demo_sha demo_config ''USDT'' ''BTC'' demo_now demo_candles demo_filters demo_state
   = act_on_signal demo_exchange demo_sha demo_config ''USDT'' ''BTC'' demo_risk demo_portfolio
       (portfolio_equity demo_portfolio (Dec 50)) demo_signal demo_last demo_now demo_filters None demo_state"
proof -
  have b: "reconcile_balances demo_exchange ''BTCUSDT'' ''USDT'' ''BTC'' demo_state = (Inr None, demo_state)"
    by (simp add: reconcile_balances_def sbind_def on_exchange_def szoom_def demo_exchange_def demo_agree)
  show ?thesis
    by (simp add: cycle_after_fetch_def Let_def sbind_def demo_config_fields demo_last_candle reconcile_pending_orders_def
        b risk_load_def demo_strategy_made demo_signal demo_risk_def)
qed

definition demo_id :: string where
  "demo_id = generate_client_order_id demo_sha ''BTCUSDT'' ''SELL'' (close_time_ms demo_last)"

lemma demo_approved:
  "risk_evaluate (cfg_risk demo_config) \<lparr>ti_signal_type = EXIT, ti_symbol = ''BTCUSDT'', ti_quantity = 1, ti_price = Dec 50\<rparr>
     (live_risk_context demo_risk demo_portfolio eq demo_now demo_last False False False)
   = approve ''APPROVED_EXIT_ALWAYS_ALLOWED''"
proof (rule risk_evaluate_exit)
  have "fval (int_truediv (demo_now - close_time_ms demo_last) 1000) \<le> 21600" by code_simp
  then show "universal_ok (cfg_risk demo_config) (live_risk_context demo_risk demo_portfolio eq demo_now demo_last False False False)"
    by (simp add: universal_ok_def live_risk_context_def demo_config_fields demo_risk_def roll_risk_state_def Let_def
        risk_state_initial_def)
qed simp

lemma demo_acts:
  "\<exists>s. lv_orders s = [] \<and> lv_world s = 0 \<and> lv_exec s = lv_exec demo_state \<and>
     act_on_signal demo_exchange demo_sha demo_config ''USDT'' ''BTC'' demo_risk demo_portfolio
       (portfolio_equity demo_portfolio (Dec 50)) demo_signal demo_last demo_now demo_filters None demo_state
     = execute_sell demo_exchange demo_config ''USDT'' ''BTC'' demo_risk demo_last demo_now demo_id 1 s"
proof -
  let ?i = "\<lparr>ti_signal_type = EXIT, ti_symbol = ''BTCUSDT'', ti_quantity = 1, ti_price = Dec 50\<rparr>"
  have i: "mk_trade_intent EXIT ''BTCUSDT'' 1 (Dec 50) = Inr ?i" by (simp add: mk_trade_intent_def)
  have k: "on_exchange (x_kill_switch demo_exchange) s = (Inr False, s)" for s :: "nat live"
    by (simp add: on_exchange_def szoom_def demo_exchange_def)
  show ?thesis
    unfolding act_on_signal_def sell_path_def demo_config_fields Let_def demo_last_close demo_portfolio_fields demo_sizing
      demo_exit demo_id_def [symmetric]
    by (simp add: sbind_def jrecord_def i k demo_approved demo_order_validation already_submitted_def entries_by_type_def
        journal_record_def conj_disj_distribR ex_disj_distrib)
       (rule exI, intro conjI, rule_tac [4] refl, simp_all)
qed

text \<open>The two calls, the first of which times out.\<close>

definition demo_call :: order_call where
  "demo_call = \<lparr>oc_symbol = ''BTCUSDT'', oc_side = SELL_SIDE, oc_quantity = 1, oc_client_order_id = demo_id,
     oc_portfolio = Some demo_portfolio\<rparr>"

interpretation trace_fixed: firm "\<lambda>s. lv_orders s = L" for L
  by unfold_locales simp_all

lemma demo_submits:
  assumes s: "lv_world s = 0" "lv_orders s = []" "load_portfolio ''BTCUSDT'' (lv_exec s) = Some demo_portfolio"
  shows "\<exists>t. submit_order demo_exchange ''BTCUSDT'' r 1 demo_id tm s = (Inr (Inr (demo_order demo_id 1)), t)
     \<and> lv_orders t = [demo_call, demo_call]"
  using s
  by (simp add: submit_order_def ambiguous_submission_def retry_order_def place_market_order_def ask_order_def
      sbind_def scatch_def sanswer_def on_exchange_def szoom_def demo_exchange_def reconcile_order_def safe_to_retry_def
      jrecord_def demo_call_def)

lemma demo_orders: "lv_orders (snd demo_run) = [demo_call, demo_call]"
proof -
  obtain s where s: "lv_orders s = []" "lv_world s = 0" "lv_exec s = lv_exec demo_state"
    and act: "act_on_signal demo_exchange demo_sha demo_config ''USDT'' ''BTC'' demo_risk demo_portfolio
       (portfolio_equity demo_portfolio (Dec 50)) demo_signal demo_last demo_now demo_filters None demo_state
     = execute_sell demo_exchange demo_config ''USDT'' ''BTC'' demo_risk demo_last demo_now demo_id 1 s"
    using demo_acts by blast
  have run: "demo_run = execute_sell demo_exchange demo_config ''USDT'' ''BTC'' demo_risk demo_last demo_now demo_id 1 s"
    by (simp add: demo_run_def run_testnet_cycle_def sbind_def scatch_def demo_config_fields demo_assets demo_fetch demo_after act)
  define u where "u = snd (jrecord ''ORDER_SUBMITTED'' [(''client_order_id'', JStr demo_id), (''side'', JStr ''SELL''),
      (''quantity'', JDec 1)] (close_time_ms demo_last)
    (snd (on_store (smodify (create_pending demo_id ''BTCUSDT'' ''SELL'' 1 (close_time_ms demo_last) demo_now)) s)))"
  have u: "lv_world u = 0" "lv_orders u = []" "load_portfolio ''BTCUSDT'' (lv_exec u) = Some demo_portfolio"
    using s by (simp_all add: u_def jrecord_def on_store_def szoom_def)
  obtain t where t: "submit_order demo_exchange ''BTCUSDT'' demo_risk 1 demo_id (close_time_ms demo_last) u
      = (Inr (Inr (demo_order demo_id 1)), t)" "lv_orders t = [demo_call, demo_call]"
    using demo_submits [OF u] by blast
  have "demo_run = settle_order demo_config ''BTCUSDT'' ''USDT'' ''BTC'' demo_risk demo_id (close_time_ms demo_last) demo_now
      (demo_order demo_id 1) t"
    unfolding run execute_sell_def Let_def demo_config_fields
    using t(1) by (simp add: u_def sbind_def jrecord_def on_store_def szoom_def)
  then show ?thesis using t(2) preservesD [OF trace_fixed.settle_order] by (metis prod.collapse)
qed

end
