(* ===== verification/Live_Properties.thy ===== *)
theory Live_Properties
  imports Live_Example
begin

text \<open>
  The properties of the testnet runner, each with a run in which its hypotheses hold.
\<close>

lemma demo_runs: "run_testnet_cycle demo_exchange demo_ewm demo_sha demo_config demo_state = (fst demo_run, snd demo_run)"
  by (simp add: demo_run_def)

lemma demo_history: "history demo_exchange demo_ewm demo_sha demo_config demo_state ((snd demo_run)\<lparr>lv_world := 0\<rparr>)"
  using demo_runs by (rule history.cycle [OF history.start])

lemma demo_sends: "lv_orders (snd demo_run) \<noteq> lv_orders demo_state"
  by (simp add: demo_orders)

lemma sell_call_of_cycle:
  assumes "run_testnet_cycle x ewm sha config s = (res, t)" "lv_orders t \<noteq> lv_orders s"
  obtains c k where "sell_call x ewm sha config s c" "1 \<le> k"
    "k \<le> max_calls x (cfg_symbol (cfg_market config)) (oc_client_order_id c)"
    "lv_orders t = lv_orders s @ replicate k c" "has_pending (oc_client_order_id c) (lv_exec t)"
proof -
  from cycle_orders [OF assms(1)] assms(2) obtain c k where c: "sell_call x ewm sha config s c"
    "k \<le> max_calls x (cfg_symbol (cfg_market config)) (oc_client_order_id c)"
    "lv_orders t = lv_orders s @ replicate k c" "has_pending (oc_client_order_id c) (lv_exec t)"
    by (auto simp: cycle_orders_def ordered_def)
  moreover from this(3) assms(2) have "1 \<le> k" by (cases k) auto
  ultimately show ?thesis using that by blast
qed

lemma exit_is_long: "exit_signalled ewm config cs p \<Longrightarrow> position_side p = LONG"
  by (auto simp: exit_signalled_def dest: ema_generate_signal_side)

text \<open>
  C1. Whatever the exchange answers, and even when the cycle raises, the orders of one testnet
  cycle are none, or one or two copies of one market sell of the configured symbol: the
  stored portfolio is long, the strategy says to exit on contiguous and fresh candles, the
  exchange's balances agree with the portfolio, the client order id was not in the store
  before, and its pending row is there after the cycle.
\<close>

theorem cycle_sends_one_justified_sell:
  assumes "run_testnet_cycle x ewm sha config s = (res, t)"
    and "lv_orders t \<noteq> lv_orders s"
  shows "\<exists>c k p cs now f qa ba b.
    lv_orders t = lv_orders s @ replicate k c \<and> 1 \<le> k \<and> k \<le> 2 \<and>
    oc_symbol c = cfg_symbol (cfg_market config) \<and> oc_side c = SELL_SIDE \<and> 0 < oc_quantity c \<and>
    oc_portfolio c = Some p \<and> position_side p = LONG \<and>
    market_ok x config now cs f \<and> exit_signalled ewm config cs p \<and>
    oc_client_order_id c = generate_client_order_id sha (oc_symbol c) ''SELL'' (close_time_ms (last cs)) \<and>
    quote_asset_of (oc_symbol c) = Inr qa \<and> base_asset_of (oc_symbol c) = Inr ba \<and>
    possible (\<lambda>_. True) (x_balances x) b \<and> balances_agree p (asset_total b qa) (asset_total b ba) \<and>
    \<not> has_pending (oc_client_order_id c) (lv_exec s) \<and> has_pending (oc_client_order_id c) (lv_exec t)"
proof -
  from assms obtain c k where c: "sell_call x ewm sha config s c" and k: "1 \<le> k"
    "k \<le> max_calls x (cfg_symbol (cfg_market config)) (oc_client_order_id c)"
    "lv_orders t = lv_orders s @ replicate k c" "has_pending (oc_client_order_id c) (lv_exec t)"
    by (rule sell_call_of_cycle)
  from k(2) have "k \<le> 2" by (simp add: max_calls_def split: if_splits)
  with c k(1,3,4) show ?thesis
    unfolding sell_call_def sell_justified_def sell_gates_def using exit_is_long by metis
qed

theorem cycle_sends_one_justified_sell_witness:
  "\<exists>c k. lv_orders (snd demo_run) = lv_orders demo_state @ replicate k c \<and> 1 \<le> k \<and> k \<le> 2 \<and> oc_side c = SELL_SIDE"
  using cycle_sends_one_justified_sell [OF demo_runs demo_sends] by blast

text \<open>
  C2. When every filter the exchange can return is well formed, no order of a cycle sells more
  than the base balance of the stored portfolio, up to the two half-even roundings of the step
  division at 28 digits.
\<close>

theorem cycle_never_oversells:
  assumes "run_testnet_cycle x ewm sha config s = (res, t)"
    and "\<forall>f. possible (\<lambda>_. True) (x_filters x (cfg_symbol (cfg_market config))) f \<longrightarrow> wf_filters f"
    and "lv_orders t = lv_orders s @ cs" and "c \<in> set cs"
  shows "\<exists>p. oc_portfolio c = Some p \<and>
    dval (oc_quantity c) \<le> (1 + unit_roundoff 10 28)\<^sup>2 * dval (base_balance p)"
proof -
  have "lv_orders t \<noteq> lv_orders s" using assms(3,4) by auto
  with assms(1) obtain d k where d: "sell_call x ewm sha config s d" and k: "1 \<le> k"
    "k \<le> max_calls x (cfg_symbol (cfg_market config)) (oc_client_order_id d)"
    "lv_orders t = lv_orders s @ replicate k d" "has_pending (oc_client_order_id d) (lv_exec t)"
    by (rule sell_call_of_cycle)
  from k(3) assms(3,4) have "c = d" by auto
  with d obtain p sized f where p: "oc_portfolio c = Some p" "0 < sized" "sized \<le> base_balance p"
      "round_quantity sized f = Inr (oc_quantity c)"
    and f: "possible (\<lambda>_. True) (x_filters x (cfg_symbol (cfg_market config))) f"
    unfolding sell_call_def sell_justified_def sell_gates_def market_ok_def by metis
  then have "wf_filters f" using assms(2) by blast
  from rq.bounded [OF this p(4), of "dval (base_balance p)"] p show ?thesis by (auto simp: dec_arith)
qed

lemma demo_filters_possible:
  "possible (\<lambda>_. True) (x_filters demo_exchange sy) f \<longleftrightarrow> f = demo_filters"
  by (auto simp: possible_def demo_exchange_def)

lemma demo_filters_wf: "wf_filters demo_filters"
  by code_simp

theorem cycle_never_oversells_witness:
  "\<exists>p. oc_portfolio demo_call = Some p \<and>
    dval (oc_quantity demo_call) \<le> (1 + unit_roundoff 10 28)\<^sup>2 * dval (base_balance p)"
  by (rule cycle_never_oversells [OF demo_runs, of "[demo_call, demo_call]"])
     (simp_all add: demo_filters_possible demo_filters_wf demo_orders)

text \<open>
  C3. The second submission of a cycle happens only when the exchange can say that it does not
  know the order: otherwise one cycle makes at most one call.
\<close>

theorem retry_needs_not_found:
  assumes "run_testnet_cycle x ewm sha config s = (res, t)"
    and "\<forall>i w. fst (x_get_order x (cfg_symbol (cfg_market config)) i w)
      \<noteq> Inl (BinanceApiError (Some ORDER_DOES_NOT_EXIST_CODE))"
  shows "length (lv_orders t) \<le> Suc (length (lv_orders s))"
proof (cases "lv_orders t = lv_orders s")
  case False
  with assms(1) obtain c k where "k \<le> max_calls x (cfg_symbol (cfg_market config)) (oc_client_order_id c)"
    "lv_orders t = lv_orders s @ replicate k c"
    by (rule sell_call_of_cycle)
  then show ?thesis using assms(2) by (auto simp: max_calls_def can_be_missing_def split: if_splits)
qed simp

theorem retry_needs_not_found_witness:
  "length (lv_orders (snd (run_testnet_cycle (demo_exchange\<lparr>x_get_order := \<lambda>_ _. sraise RequestException\<rparr>)
     demo_ewm demo_sha demo_config demo_state))) \<le> 1"
proof -
  let ?r = "run_testnet_cycle (demo_exchange\<lparr>x_get_order := \<lambda>_ _. sraise RequestException\<rparr>)
     demo_ewm demo_sha demo_config demo_state"
  have "?r = (fst ?r, snd ?r)" by simp
  from retry_needs_not_found [OF this] show ?thesis by simp
qed

text \<open>C4. With the kill switch engaged, a cycle sends no order.\<close>

theorem kill_switch_blocks_orders:
  assumes "run_testnet_cycle x ewm sha config s = (res, t)"
    and "\<forall>w. fst (x_kill_switch x w) \<noteq> Inr False"
  shows "lv_orders t = lv_orders s"
proof (rule ccontr)
  assume "lv_orders t \<noteq> lv_orders s"
  with assms(1) obtain c k where "sell_call x ewm sha config s c"
    by (rule sell_call_of_cycle)
  then have "possible (\<lambda>_. True) (x_kill_switch x) False"
    unfolding sell_call_def sell_justified_def sell_gates_def by blast
  then obtain w w' where "x_kill_switch x w = (Inr False, w')" by (auto simp: possible_def)
  then show False using assms(2) by (metis fst_conv)
qed

theorem kill_switch_blocks_orders_witness:
  "lv_orders (snd (run_testnet_cycle (demo_exchange\<lparr>x_kill_switch := sreturn True\<rparr>)
     demo_ewm demo_sha demo_config demo_state)) = []"
proof -
  let ?r = "run_testnet_cycle (demo_exchange\<lparr>x_kill_switch := sreturn True\<rparr>) demo_ewm demo_sha demo_config demo_state"
  have "?r = (fst ?r, snd ?r)" by simp
  from kill_switch_blocks_orders [OF this] show ?thesis by simp
qed

text \<open>
  C5. Over any number of cycles, with the outside world changing between them, the program only
  ever sells the configured symbol, and no client order id is sent more than twice; every
  id sent has its row in the store, so that the next cycle reconciles it.
\<close>

theorem no_id_sent_more_than_twice:
  assumes "history x ewm sha config s t" and "lv_orders s = []"
  shows "copies i t \<le> 2 \<and> (0 < copies i t \<longrightarrow> has_pending i (lv_exec t)) \<and>
    (\<forall>c\<in>set (lv_orders t). oc_symbol c = cfg_symbol (cfg_market config) \<and> oc_side c = SELL_SIDE)"
proof -
  have "trace_ok (cfg_symbol (cfg_market config)) t"
    using assms(1)
  proof induction
    case start
    then show ?case using assms(2) by (simp add: trace_ok_def copies_def)
  next
    case (cycle t res u w)
    then show ?case using trace_ok_cycle by simp
  qed
  then show ?thesis by (simp add: trace_ok_def)
qed

theorem no_id_sent_more_than_twice_witness:
  "copies demo_id (snd demo_run) = 2 \<and> has_pending demo_id (lv_exec (snd demo_run))"
  using no_id_sent_more_than_twice [OF demo_history, of demo_id]
  by (simp add: copies_def demo_orders demo_call_def)

text \<open>
  The shutdown after repeated API errors latches: once the stored count has reached the
  configured maximum, no later cycle sends an order, however many cycles run and whatever the
  exchange answers then.
\<close>

theorem api_error_shutdown_latches:
  assumes "history x ewm sha config s t"
    and "risk_load (cfg_symbol (cfg_market config)) (lv_risk s) = Some r"
    and "max_consecutive_api_errors (cfg_risk config) \<le> consecutive_api_errors r"
  shows "lv_orders t = lv_orders s \<and>
    (\<exists>r'. risk_load (cfg_symbol (cfg_market config)) (lv_risk t) = Some r' \<and>
       max_consecutive_api_errors (cfg_risk config) \<le> consecutive_api_errors r')"
proof -
  let ?I = "latched (cfg_symbol (cfg_market config)) (max_consecutive_api_errors (cfg_risk config)) (lv_orders s)"
  have "?I t" using assms(1)
  proof induction
    case start
    then show ?case using assms(2,3) by (auto simp: latched_def)
  next
    case (cycle t res u w)
    then show ?case using shutdown_cycle by simp
  qed
  then show ?thesis by (auto simp: latched_def)
qed

definition demo_shutdown :: "nat live" where
  "demo_shutdown = demo_state\<lparr>lv_risk := [''BTCUSDT'' \<mapsto> demo_risk\<lparr>consecutive_api_errors := 3\<rparr>]\<rparr>"

theorem api_error_shutdown_latches_witness:
  "lv_orders (snd (run_testnet_cycle demo_exchange demo_ewm demo_sha demo_config demo_shutdown)) = []"
proof -
  let ?r = "run_testnet_cycle demo_exchange demo_ewm demo_sha demo_config demo_shutdown"
  have "?r = (fst ?r, snd ?r)" by simp
  then have h: "history demo_exchange demo_ewm demo_sha demo_config demo_shutdown ((snd ?r)\<lparr>lv_world := 0\<rparr>)"
    by (rule history.cycle [OF history.start])
  from api_error_shutdown_latches [OF h] show ?thesis
    by (simp add: demo_shutdown_def demo_config_fields risk_load_def)
qed

text \<open>
  C12. Over any number of cycles, raises included, the journal only grows, and the pending table
  keeps one row per client order id, each resolved exactly when it says how and when.
\<close>

theorem history_keeps_store_and_journal:
  assumes "history x ewm sha config s t" and "store_inv (lv_exec s)"
  shows "store_inv (lv_exec t) \<and> (\<exists>new. lv_journal t = lv_journal s @ new)"
  using assms(1)
proof induction
  case start
  then show ?case using assms(2) by simp
next
  case (cycle t res u w)
  then have "store_inv (lv_exec u)" using preservesD [OF store_sound.run] by blast
  moreover have "\<exists>new. lv_journal u = lv_journal s @ new"
    using cycle preservesD [OF journal_grows.run] by blast
  ultimately show ?case by simp
qed

lemma demo_store_inv: "store_inv (lv_exec demo_state)"
  by (simp add: store_inv_def demo_state_def)

theorem history_keeps_store_and_journal_witness:
  "store_inv (lv_exec (snd demo_run)) \<and> (\<exists>new. lv_journal (snd demo_run) = lv_journal demo_state @ new)"
  using history_keeps_store_and_journal [OF demo_history demo_store_inv] by simp

text \<open>
  The risk state after an order: the error count is reset; the trade is counted when
  anything was executed or the order is over; and a cooldown starts exactly on a realized
  loss.
\<close>

theorem settle_risk_effects:
  "consecutive_api_errors (settle_risk rc res r) = 0 \<and>
   trades_today (settle_risk rc res r) =
     trades_today r + (if 0 < oa_executed_qty res \<or> oa_is_terminal res then 1 else 0) \<and>
   cooldown_bars_remaining (settle_risk rc res r) =
     (case oa_realized_pnl_delta res of None \<Rightarrow> cooldown_bars_remaining r
      | Some d \<Rightarrow> if d < 0 then cooldown_bars_after_loss rc else cooldown_bars_remaining r) \<and>
   peak_equity (settle_risk rc res r) = peak_equity r \<and> day_key (settle_risk rc res r) = day_key r"
  by (simp add: settle_risk_def Let_def split: option.split)

end
