(* ===== verification/Risk_Reward.thy ===== *)
theory Risk_Reward
  imports Sizing
begin

text \<open>
  The fixed 1:2 net reward/risk policy of the research engine (\<open>backtest/risk_reward.py\<close>):
  the plan of an entry before the fill, and its re-validation from the real fill price.
\<close>

section \<open>Constants and the plan\<close>

definition FIXED_MAX_RISK_PER_TRADE_PCT :: flt where
  "FIXED_MAX_RISK_PER_TRADE_PCT = Flt (fround (1 / 100))"

definition MIN_NET_REWARD_TO_RISK :: dec where
  "MIN_NET_REWARD_TO_RISK = Dec 2"

lemma fixed_risk_value: "dec_of_float FIXED_MAX_RISK_PER_TRADE_PCT = Dec (1 / 100)"
  by code_simp

definition RR_APPROVED :: string where
  "RR_APPROVED = ''RR_APPROVED''"

definition RR_REJECTED_POST_FILL :: string where
  "RR_REJECTED_POST_FILL = ''RR_REJECTED_POST_FILL_REVALIDATION_FAILED''"

definition RR_REJECTED_BELOW_MINIMUM :: string where
  "RR_REJECTED_BELOW_MINIMUM = ''RR_REJECTED_NET_REWARD_TO_RISK_BELOW_MINIMUM''"

definition EXCHANGE_FILTER_REJECTION_REASONS :: "string list" where
  "EXCHANGE_FILTER_REJECTION_REASONS =
     [''RR_REJECTED_BELOW_MIN_LOT_SIZE'', ''RR_REJECTED_BELOW_MIN_NOTIONAL'', ''RR_REJECTED_INVALID_TARGET'']"

record risk_reward_plan =
  rr_approved :: bool
  rr_reason :: string
  rr_quantity :: "dec option"
  rr_stop_price :: "dec option"
  rr_target_price :: "dec option"
  planned_risk_quote :: "dec option"
  planned_risk_pct :: "flt option"
  planned_reward_quote :: "dec option"
  planned_reward_pct :: "flt option"
  gross_reward_to_risk :: "flt option"
  net_reward_to_risk :: "flt option"

definition rr_rejected :: "string \<Rightarrow> dec option \<Rightarrow> risk_reward_plan" where
  "rr_rejected reason stop =
     \<lparr>rr_approved = False, rr_reason = reason, rr_quantity = None, rr_stop_price = stop, rr_target_price = None,
      planned_risk_quote = None, planned_risk_pct = None, planned_reward_quote = None, planned_reward_pct = None,
      gross_reward_to_risk = None, net_reward_to_risk = None\<rparr>"

section \<open>The arithmetic\<close>

definition rr_loss_per_unit :: "dec \<Rightarrow> dec \<Rightarrow> dec \<Rightarrow> dec \<Rightarrow> dec" where
  "rr_loss_per_unit effective_entry stop_price fee slippage =
     (let effective_stop_exit = stop_price * (1 - slippage)
      in ((effective_entry - effective_stop_exit) + effective_entry * fee) + effective_stop_exit * fee)"

definition rr_gain_per_unit :: "dec \<Rightarrow> dec \<Rightarrow> dec \<Rightarrow> dec \<Rightarrow> dec" where
  "rr_gain_per_unit effective_entry target_price fee slippage =
     (let effective_target_exit = target_price * (1 - slippage)
      in ((effective_target_exit - effective_entry) - effective_entry * fee) - effective_target_exit * fee)"

definition solve_target_price :: "dec \<Rightarrow> dec \<Rightarrow> dec \<Rightarrow> dec \<Rightarrow> dec result" where
  "solve_target_price effective_entry loss_per_unit fee slippage =
     (let required_reward = MIN_NET_REWARD_TO_RISK * loss_per_unit;
          numerator = required_reward + effective_entry * (1 + fee);
          denominator = (1 - slippage) * (1 - fee)
      in ddiv numerator denominator)"

definition round_target_up_to_tick :: "dec \<Rightarrow> symbol_filters \<Rightarrow> dec option result" where
  "round_target_up_to_tick target_price filters =
     bindr (if 0 < lit_val (tick_size filters)
            then let steps = to_integral_up (target_price / lit_val (tick_size filters))
                 in quantize_up (steps * lit_val (tick_size filters)) (expn (tick_size filters))
            else Inr target_price) (\<lambda>rounded.
     Inr (if 0 < max_price filters \<and> max_price filters < rounded then None else Some rounded))"

section \<open>The plan before the fill\<close>

text \<open>The figures of a plan at an entry price \<open>entry\<close> (the reference price of the gross ratio).\<close>

definition plan_figures ::
  "dec \<Rightarrow> dec \<Rightarrow> dec \<Rightarrow> dec \<Rightarrow> dec \<Rightarrow> dec \<Rightarrow> dec \<Rightarrow> risk_reward_plan \<Rightarrow> risk_reward_plan result" where
  "plan_figures entry stop_price target_price quantity loss_per_unit gain_per_unit equity p =
     (let risk = quantity * loss_per_unit; reward = quantity * gain_per_unit
      in bindr (ddiv (target_price - entry) (entry - stop_price)) (\<lambda>gross.
         Inr (p\<lparr>rr_stop_price := Some stop_price, rr_target_price := Some target_price,
              planned_risk_quote := Some risk, planned_reward_quote := Some reward,
              planned_risk_pct := (if 0 < equity then Some (float_of_dec (risk / equity)) else None),
              planned_reward_pct := (if 0 < equity then Some (float_of_dec (reward / equity)) else None),
              gross_reward_to_risk := Some (float_of_dec gross),
              net_reward_to_risk := (if 0 < risk then Some (float_of_dec (reward / risk)) else None)\<rparr>)))"

definition rr_sized_plan ::
  "dec \<Rightarrow> dec \<Rightarrow> dec \<Rightarrow> dec \<Rightarrow> dec \<Rightarrow> dec \<Rightarrow> dec \<Rightarrow> dec \<Rightarrow> symbol_filters \<Rightarrow> risk_reward_plan result" where
  "rr_sized_plan equity reference_price stop_price effective_entry loss_per_unit quantity fee slippage filters =
     bindr (solve_target_price effective_entry loss_per_unit fee slippage) (\<lambda>raw_target.
     bindr (round_target_up_to_tick raw_target filters) (\<lambda>target.
       case target of
         None \<Rightarrow> Inr (rr_rejected ''RR_REJECTED_INVALID_TARGET'' (Some stop_price))
       | Some target_price \<Rightarrow>
           if target_price \<le> reference_price
           then Inr (rr_rejected ''RR_REJECTED_INVALID_TARGET'' (Some stop_price))
           else
             let gain_per_unit = rr_gain_per_unit effective_entry target_price fee slippage;
                 ok = \<not> quantity * gain_per_unit < MIN_NET_REWARD_TO_RISK * (quantity * loss_per_unit)
             in plan_figures reference_price stop_price target_price quantity loss_per_unit gain_per_unit equity
               ((rr_rejected (if ok then RR_APPROVED else RR_REJECTED_BELOW_MINIMUM) None)
                 \<lparr>rr_approved := ok, rr_quantity := (if ok then Some quantity else None)\<rparr>)))"

definition plan_risk_reward_entry ::
  "dec \<Rightarrow> dec \<Rightarrow> dec \<Rightarrow> flt \<Rightarrow> flt \<Rightarrow> flt \<Rightarrow> symbol_filters \<Rightarrow> risk_reward_plan result" where
  "plan_risk_reward_entry equity quote_bal reference_price stop_distance taker slip filters =
     (if reference_price \<le> 0 then Inr (rr_rejected ''RR_REJECTED_INVALID_PRICE'' None)
      else if equity \<le> 0 then Inr (rr_rejected ''RR_REJECTED_INVALID_EQUITY'' None)
      else if quote_bal \<le> 0 then Inr (rr_rejected ''RR_REJECTED_INSUFFICIENT_QUOTE_BALANCE'' None)
      else if \<not> (0 < stop_distance \<and> stop_distance < 1)
        then Inr (rr_rejected ''RR_REJECTED_INVALID_STOP_DISTANCE'' None)
      else let fee = dec_of_float taker;
               slippage = dec_of_float slip;
               stop_price = reference_price * (1 - dec_of_float stop_distance);
               effective_entry = reference_price * (1 + slippage);
               loss_per_unit = rr_loss_per_unit effective_entry stop_price fee slippage
      in if loss_per_unit \<le> 0 then Inr (rr_rejected ''RR_REJECTED_INVALID_STOP_DISTANCE'' (Some stop_price))
      else let risk_budget = equity * dec_of_float FIXED_MAX_RISK_PER_TRADE_PCT;
               risk_based_quantity = risk_budget / loss_per_unit
      in bindr (ddiv quote_bal (effective_entry * (1 + fee))) (\<lambda>affordability_cap_quantity.
         bindr (round_quantity (min risk_based_quantity affordability_cap_quantity) filters) (\<lambda>quantity.
           if quantity \<le> 0 \<or> \<not> meets_lot_size quantity filters
           then Inr (rr_rejected ''RR_REJECTED_BELOW_MIN_LOT_SIZE'' (Some stop_price))
           else if \<not> meets_min_notional reference_price quantity filters
           then Inr (rr_rejected ''RR_REJECTED_BELOW_MIN_NOTIONAL'' (Some stop_price))
           else rr_sized_plan equity reference_price stop_price effective_entry loss_per_unit quantity fee slippage
             filters)))"

section \<open>Re-validation from the fill\<close>

definition build_realized_plan ::
  "risk_reward_plan \<Rightarrow> dec \<Rightarrow> flt \<Rightarrow> flt \<Rightarrow> flt \<Rightarrow> dec \<Rightarrow> symbol_filters \<Rightarrow> risk_reward_plan result" where
  "build_realized_plan plan fill_price stop_distance taker slip equity filters =
     (case (if rr_approved plan then rr_quantity plan else None) of
        None \<Rightarrow> Inl (ValueError ''approved plan'')
      | Some quantity \<Rightarrow>
          let fee = dec_of_float taker;
              slippage = dec_of_float slip;
              stop_price = fill_price * (1 - dec_of_float stop_distance);
              loss_per_unit = rr_loss_per_unit fill_price stop_price fee slippage;
              failed = plan\<lparr>rr_approved := False, rr_reason := RR_REJECTED_POST_FILL\<rparr>
          in if loss_per_unit \<le> 0 then Inr (failed\<lparr>rr_stop_price := Some stop_price, rr_target_price := None\<rparr>)
          else bindr (solve_target_price fill_price loss_per_unit fee slippage) (\<lambda>raw_target.
               bindr (round_target_up_to_tick raw_target filters) (\<lambda>target.
                 case target of
                   None \<Rightarrow> Inr (failed\<lparr>rr_stop_price := Some stop_price, rr_target_price := None\<rparr>)
                 | Some target_price \<Rightarrow>
                     if target_price \<le> fill_price
                     then Inr (failed\<lparr>rr_stop_price := Some stop_price, rr_target_price := None\<rparr>)
                     else let gain_per_unit = rr_gain_per_unit fill_price target_price fee slippage;
                              risk = quantity * loss_per_unit;
                              ok = risk \<le> equity * dec_of_float FIXED_MAX_RISK_PER_TRADE_PCT \<and>
                                   MIN_NET_REWARD_TO_RISK * risk \<le> quantity * gain_per_unit
                          in plan_figures fill_price stop_price target_price quantity loss_per_unit gain_per_unit equity
                            (if ok then plan else failed))))"

section \<open>What an approved plan promises\<close>

text \<open>The figures an approved plan carries: everything a position opened under it relies on.\<close>

definition plan_ok :: "dec \<Rightarrow> dec \<Rightarrow> risk_reward_plan \<Rightarrow> bool" where
  "plan_ok equity entry p \<longleftrightarrow>
     (\<exists>q sp tp risk reward. rr_quantity p = Some q \<and> rr_stop_price p = Some sp \<and> rr_target_price p = Some tp \<and>
        planned_risk_quote p = Some risk \<and> planned_reward_quote p = Some reward \<and>
        entry < tp \<and> MIN_NET_REWARD_TO_RISK * risk \<le> reward \<and>
        risk \<le> equity * dec_of_float FIXED_MAX_RISK_PER_TRADE_PCT)"

lemma plan_figures_eq:
  assumes "plan_figures entry sp tp q l g eq p = Inr r"
  shows "rr_approved r = rr_approved p \<and> rr_reason r = rr_reason p \<and> rr_quantity r = rr_quantity p \<and> rr_stop_price r = Some sp \<and>
    rr_target_price r = Some tp \<and> planned_risk_quote r = Some (q * l) \<and> planned_reward_quote r = Some (q * g)"
  using assms by (auto simp: plan_figures_def Let_def)

lemma build_realized_plan_approved:
  assumes "build_realized_plan plan fp sd tk sl eq f = Inr p" "rr_approved p"
  shows "plan_ok eq fp p \<and> rr_quantity p = rr_quantity plan \<and> rr_approved plan \<and>
    rr_stop_price p = Some (fp * (1 - dec_of_float sd))"
proof -
  let ?sp = "fp * (1 - dec_of_float sd)" and ?fee = "dec_of_float tk" and ?slip = "dec_of_float sl"
  let ?l = "rr_loss_per_unit fp ?sp ?fee ?slip"
  from assms(1) obtain q where q: "rr_approved plan" "rr_quantity plan = Some q"
    unfolding build_realized_plan_def by (auto split: option.splits if_splits)
  have pos: "\<not> ?l \<le> 0"
    using assms q by (auto simp: build_realized_plan_def Let_def)
  obtain raw tg where raw: "solve_target_price fp ?l ?fee ?slip = Inr raw" "round_target_up_to_tick raw f = Inr tg"
    using assms(1) q pos by (auto simp: build_realized_plan_def Let_def)
  from assms q pos raw obtain tp where tp: "tg = Some tp" "\<not> tp \<le> fp"
    by (cases tg) (auto simp: build_realized_plan_def Let_def split: if_splits)
  define ok where "ok \<longleftrightarrow> q * ?l \<le> eq * dec_of_float FIXED_MAX_RISK_PER_TRADE_PCT \<and>
      MIN_NET_REWARD_TO_RISK * (q * ?l) \<le> q * rr_gain_per_unit fp tp ?fee ?slip"
  have fig: "plan_figures fp ?sp tp q ?l (rr_gain_per_unit fp tp ?fee ?slip) eq
      (if ok then plan else plan\<lparr>rr_approved := False, rr_reason := RR_REJECTED_POST_FILL\<rparr>) = Inr p"
    using assms(1) q pos raw tp by (simp add: build_realized_plan_def Let_def ok_def)
  note e = plan_figures_eq [OF fig]
  have ok using e assms(2) by (simp split: if_splits)
  then show ?thesis using e q tp unfolding plan_ok_def ok_def by (simp add: not_le)
qed

lemma rr_rejected_not_approved [simp]: "\<not> rr_approved (rr_rejected r s)"
  by (simp add: rr_rejected_def)

lemma rr_sized_plan_approved:
  assumes "rr_sized_plan eq ref sp ee l q fee sl f = Inr p" "rr_approved p"
  shows "rr_quantity p = Some q \<and> (\<exists>tp. rr_target_price p = Some tp \<and> ref < tp) \<and> rr_stop_price p = Some sp \<and>
    (\<exists>risk reward. planned_risk_quote p = Some risk \<and> risk = q * l \<and> planned_reward_quote p = Some reward \<and>
      MIN_NET_REWARD_TO_RISK * risk \<le> reward)"
proof -
  from assms(1) obtain raw tg where raw: "solve_target_price ee l fee sl = Inr raw" "round_target_up_to_tick raw f = Inr tg"
    by (auto simp: rr_sized_plan_def)
  from assms raw obtain tp where tp: "tg = Some tp" "\<not> tp \<le> ref"
    by (cases tg) (auto simp: rr_sized_plan_def split: if_splits)
  define ok where "ok \<longleftrightarrow> \<not> q * rr_gain_per_unit ee tp fee sl < MIN_NET_REWARD_TO_RISK * (q * l)"
  have fig: "plan_figures ref sp tp q l (rr_gain_per_unit ee tp fee sl) eq
      ((rr_rejected (if ok then RR_APPROVED else RR_REJECTED_BELOW_MINIMUM) None)
         \<lparr>rr_approved := ok, rr_quantity := (if ok then Some q else None)\<rparr>) = Inr p"
    using assms(1) raw tp by (simp add: rr_sized_plan_def Let_def ok_def)
  note e = plan_figures_eq [OF fig]
  have ok using e assms(2) by simp
  then show ?thesis using e tp unfolding ok_def by (simp add: not_le not_less)
qed

lemma plan_risk_reward_approved:
  assumes "plan_risk_reward_entry eq qb ref sd tk sl f = Inr p" "rr_approved p"
  shows "\<exists>q raw cap. rr_quantity p = Some q \<and> 0 < q \<and> meets_lot_size q f \<and> meets_min_notional ref q f \<and>
    0 < ref \<and> 0 < eq \<and> 0 < qb \<and> round_quantity raw f = Inr q \<and>
    ddiv qb (ref * (1 + dec_of_float sl) * (1 + dec_of_float tk)) = Inr cap \<and>
    0 < rr_loss_per_unit (ref * (1 + dec_of_float sl)) (ref * (1 - dec_of_float sd)) (dec_of_float tk) (dec_of_float sl) \<and>
    raw = min (eq * dec_of_float FIXED_MAX_RISK_PER_TRADE_PCT /
      rr_loss_per_unit (ref * (1 + dec_of_float sl)) (ref * (1 - dec_of_float sd)) (dec_of_float tk) (dec_of_float sl)) cap \<and>
    (\<exists>tp risk reward. rr_target_price p = Some tp \<and> ref < tp \<and> planned_risk_quote p = Some risk \<and>
      planned_reward_quote p = Some reward \<and> MIN_NET_REWARD_TO_RISK * risk \<le> reward)"
proof -
  let ?ee = "ref * (1 + dec_of_float sl)" and ?sp = "ref * (1 - dec_of_float sd)"
  let ?l = "rr_loss_per_unit ?ee ?sp (dec_of_float tk) (dec_of_float sl)"
  have g: "\<not> ref \<le> 0" "\<not> eq \<le> 0" "\<not> qb \<le> 0" "0 < sd \<and> sd < 1" "\<not> ?l \<le> 0"
    using assms unfolding plan_risk_reward_entry_def Let_def by (auto split: if_splits)
  obtain cap q where c: "ddiv qb (?ee * (1 + dec_of_float tk)) = Inr cap"
    and q: "round_quantity (min (eq * dec_of_float FIXED_MAX_RISK_PER_TRADE_PCT / ?l) cap) f = Inr q"
    using assms(1) g by (auto simp: plan_risk_reward_entry_def Let_def)
  have q2: "\<not> q \<le> 0" "meets_lot_size q f" "meets_min_notional ref q f"
    using assms g c q unfolding plan_risk_reward_entry_def Let_def by (auto split: if_splits)
  have "rr_sized_plan eq ref ?sp ?ee ?l q (dec_of_float tk) (dec_of_float sl) f = Inr p"
    using assms(1) g c q q2 by (simp add: plan_risk_reward_entry_def Let_def)
  from rr_sized_plan_approved [OF this assms(2)] g c q q2 show ?thesis by (force simp: not_le)
qed

end
