(* ===== verification/Backtest_Engine.thy ===== *)
theory Backtest_Engine
  imports Risk_Reward Execution_Store Strategy "HOL-Library.AList"
begin

text \<open>
  The research backtest (\<open>backtest/engine.py\<close>) with its simulated broker
  (\<open>execution/backtest_broker.py\<close>): one independent run over a contiguous segment, bar by
  bar. The mutable objects of a run (\<open>_LoopState\<close>, \<open>_DiagBuilder\<close>, the lists it fills and
  the optional journal) are one state record, its dicts association lists in insertion order; a raise ends the run and leaves the state as
  it was then.
\<close>

section \<open>The simulated broker\<close>

record simulated_fill =
  sf_fill_price :: dec
  sf_fee_quote :: dec

record backtest_broker =
  bk_taker_fee_pct :: dec
  bk_slippage_pct :: dec

definition mk_broker :: "fees_config \<Rightarrow> backtest_broker" where
  "mk_broker fees = \<lparr>bk_taker_fee_pct = dec_of_float (taker_fee_pct fees), bk_slippage_pct = dec_of_float (slippage_pct fees)\<rparr>"

definition simulate_buy :: "backtest_broker \<Rightarrow> dec \<Rightarrow> dec \<Rightarrow> simulated_fill" where
  "simulate_buy b quantity price =
     (let fill_price = price * (1 + bk_slippage_pct b)
      in \<lparr>sf_fill_price = fill_price, sf_fee_quote = quantity * fill_price * bk_taker_fee_pct b\<rparr>)"

definition simulate_sell :: "backtest_broker \<Rightarrow> dec \<Rightarrow> dec \<Rightarrow> simulated_fill" where
  "simulate_sell b quantity price =
     (let fill_price = price * (1 - bk_slippage_pct b)
      in \<lparr>sf_fill_price = fill_price, sf_fee_quote = quantity * fill_price * bk_taker_fee_pct b\<rparr>)"

section \<open>State of a run\<close>

definition EXIT_REASON_STRATEGY :: string where "EXIT_REASON_STRATEGY = ''STRATEGY_EXIT''"
definition EXIT_REASON_STOP_LOSS :: string where "EXIT_REASON_STOP_LOSS = ''STOP_LOSS''"
definition EXIT_REASON_TAKE_PROFIT :: string where "EXIT_REASON_TAKE_PROFIT = ''TAKE_PROFIT''"

record trade =
  t_entry_time_ms :: int
  t_exit_time_ms :: int
  t_entry_price :: dec
  t_exit_price :: dec
  t_quantity :: dec
  t_fees_paid :: dec
  t_pnl_quote :: dec
  t_exit_reason :: string
  t_entry_fee_quote :: dec
  t_exit_fee_quote :: dec
  t_entry_reference_price :: dec
  t_exit_reference_price :: dec

record equity_point =
  ep_timestamp_ms :: int
  ep_equity :: dec
  ep_in_position :: bool

record open_trade =
  ot_entry_time_ms :: int
  ot_entry_price :: dec
  ot_quantity :: dec
  ot_entry_fee :: dec
  ot_entry_reference_price :: dec
  ot_realized_plan :: "risk_reward_plan option"

record snapshot =
  sn_cash_quote :: dec
  sn_base_quantity :: dec
  sn_open_trade :: "open_trade option"

record diag =
  buy_signals_generated :: int
  exit_signals_generated :: int
  executed_entries :: int
  rejected_entries_by_reason :: "(string \<times> int) list"
  shutdown_first_activation :: "(string \<times> int \<times> dec \<times> flt) list"
  shutdown_last_active :: "(string \<times> int) list"
  last_approved_buy_time_ms :: "int option"
  rr_entries_approved :: int
  rr_rejected_net_rr_below_minimum :: int
  rr_rejected_exchange_filter :: int
  rr_rejected_post_fill_revalidation :: int
  rr_gap_losses_exceeding_planned_risk :: int
  rr_planned_risk_quote_total :: dec
  rr_planned_reward_quote_total :: dec
  rr_planned_risk_pct_values :: "flt list"
  rr_planned_reward_pct_values :: "flt list"
  rr_gross_reward_to_risk_values :: "flt list"
  rr_net_reward_to_risk_values :: "flt list"
  rr_planned_risk_quote_values :: "dec list"
  rr_planned_reward_quote_values :: "dec list"

definition diag_start :: diag where
  "diag_start =
    \<lparr>buy_signals_generated = 0, exit_signals_generated = 0, executed_entries = 0,
     rejected_entries_by_reason = [], shutdown_first_activation = [],
     shutdown_last_active = [], last_approved_buy_time_ms = None, rr_entries_approved = 0,
     rr_rejected_net_rr_below_minimum = 0, rr_rejected_exchange_filter = 0,
     rr_rejected_post_fill_revalidation = 0, rr_gap_losses_exceeding_planned_risk = 0,
     rr_planned_risk_quote_total = 0, rr_planned_reward_quote_total = 0, rr_planned_risk_pct_values = [],
     rr_planned_reward_pct_values = [], rr_gross_reward_to_risk_values = [], rr_net_reward_to_risk_values = [],
     rr_planned_risk_quote_values = [], rr_planned_reward_quote_values = []\<rparr>"

record seg_state =
  sg_portfolio :: portfolio
  sg_open_trade :: "open_trade option"
  sg_stop_price :: "dec option"
  sg_target_price :: "dec option"
  sg_trades_today :: int
  sg_daily_realized_pnl_pct :: flt
  sg_daily_start_equity :: dec
  sg_cooldown_bars_remaining :: int
  sg_peak_equity :: dec
  sg_pending_signal :: "signal_type option"
  sg_current_day :: "int option"
  sg_trades :: "trade list"
  sg_equity_curve :: "equity_point list"
  sg_snapshots :: "snapshot list"
  sg_diag :: diag
  sg_journal :: "journal_db option"

type_synonym 'a run = "(seg_state, 'a) step"

definition bt_record :: "string \<Rightarrow> payload \<Rightarrow> int \<Rightarrow> unit run" where
  "bt_record ty pl t = smodify (\<lambda>s. s\<lparr>sg_journal := map_option (journal_record ty pl t) (sg_journal s)\<rparr>)"

definition on_diag :: "(diag \<Rightarrow> diag) \<Rightarrow> unit run" where
  "on_diag h = smodify (\<lambda>s. s\<lparr>sg_diag := h (sg_diag s)\<rparr>)"

section \<open>Diagnostics\<close>

definition record_rejected_entry :: "string \<Rightarrow> diag \<Rightarrow> diag" where
  "record_rejected_entry reason d =
     d\<lparr>rejected_entries_by_reason := AList.update reason
        ((case map_of (rejected_entries_by_reason d) reason of None \<Rightarrow> 0 | Some n \<Rightarrow> n) + 1) (rejected_entries_by_reason d)\<rparr>"

definition record_risk_gate_rejection :: "string \<Rightarrow> int \<Rightarrow> dec \<Rightarrow> flt \<Rightarrow> diag \<Rightarrow> diag" where
  "record_risk_gate_rejection reason time_ms equity drawdown d0 =
     (let d = record_rejected_entry reason d0;
          d1 = (if map_of (shutdown_first_activation d) reason = None
                then d\<lparr>shutdown_first_activation :=
                       AList.update reason (time_ms, equity, drawdown) (shutdown_first_activation d)\<rparr>
                else d)
      in d1\<lparr>shutdown_last_active := AList.update reason time_ms (shutdown_last_active d1)\<rparr>)"

text \<open>What an approved entry under the fixed policy adds.\<close>

definition push_some :: "'a option \<Rightarrow> 'a list \<Rightarrow> 'a list" where
  "push_some v xs = (case v of None \<Rightarrow> xs | Some x \<Rightarrow> xs @ [x])"

definition add_some :: "dec option \<Rightarrow> dec \<Rightarrow> dec" where
  "add_some v x = (case v of None \<Rightarrow> x | Some y \<Rightarrow> x + y)"

definition record_rr_entry :: "risk_reward_plan \<Rightarrow> diag \<Rightarrow> diag" where
  "record_rr_entry p d =
     d\<lparr>rr_entries_approved := rr_entries_approved d + 1,
       rr_planned_risk_quote_total := add_some (planned_risk_quote p) (rr_planned_risk_quote_total d),
       rr_planned_reward_quote_total := add_some (planned_reward_quote p) (rr_planned_reward_quote_total d),
       rr_planned_risk_pct_values := push_some (planned_risk_pct p) (rr_planned_risk_pct_values d),
       rr_planned_reward_pct_values := push_some (planned_reward_pct p) (rr_planned_reward_pct_values d),
       rr_planned_risk_quote_values := push_some (planned_risk_quote p) (rr_planned_risk_quote_values d),
       rr_planned_reward_quote_values := push_some (planned_reward_quote p) (rr_planned_reward_quote_values d),
       rr_gross_reward_to_risk_values := push_some (gross_reward_to_risk p) (rr_gross_reward_to_risk_values d),
       rr_net_reward_to_risk_values := push_some (net_reward_to_risk p) (rr_net_reward_to_risk_values d)\<rparr>"

section \<open>Exits\<close>

definition exceeds_planned_risk :: "string \<Rightarrow> dec \<Rightarrow> open_trade \<Rightarrow> bool" where
  "exceeds_planned_risk exit_reason realized ot \<longleftrightarrow>
     exit_reason = EXIT_REASON_STOP_LOSS \<and>
     (case ot_realized_plan ot of None \<Rightarrow> False
      | Some p \<Rightarrow> (case planned_risk_quote p of None \<Rightarrow> False | Some risk \<Rightarrow> risk < - realized))"

definition closed_trade ::
  "open_trade \<Rightarrow> int \<Rightarrow> dec \<Rightarrow> simulated_fill \<Rightarrow> dec \<Rightarrow> string \<Rightarrow> dec \<Rightarrow> trade" where
  "closed_trade ot exit_time_ms quantity f realized exit_reason exit_reference_price =
     \<lparr>t_entry_time_ms = ot_entry_time_ms ot, t_exit_time_ms = exit_time_ms, t_entry_price = ot_entry_price ot,
      t_exit_price = sf_fill_price f, t_quantity = quantity, t_fees_paid = ot_entry_fee ot + sf_fee_quote f,
      t_pnl_quote = realized, t_exit_reason = exit_reason, t_entry_fee_quote = ot_entry_fee ot,
      t_exit_fee_quote = sf_fee_quote f, t_entry_reference_price = ot_entry_reference_price ot,
      t_exit_reference_price = exit_reference_price\<rparr>"

definition close_position :: "risk_config \<Rightarrow> int \<Rightarrow> dec \<Rightarrow> simulated_fill \<Rightarrow> string \<Rightarrow> dec \<Rightarrow> portfolio \<Rightarrow> seg_state \<Rightarrow> seg_state" where
  "close_position rc exit_time_ms quantity f exit_reason exit_reference_price p s =
     (let realized = realized_pnl_quote p - realized_pnl_quote (sg_portfolio s);
          s1 = s\<lparr>sg_portfolio := p\<rparr>;
          s2 = (case sg_open_trade s of None \<Rightarrow> s1
            | Some ot \<Rightarrow>
                s1\<lparr>sg_trades := sg_trades s1 @
                     [closed_trade ot exit_time_ms quantity f realized exit_reason exit_reference_price],
                   sg_diag := (if exceeds_planned_risk exit_reason realized ot
                     then (sg_diag s1)\<lparr>rr_gap_losses_exceeding_planned_risk :=
                            rr_gap_losses_exceeding_planned_risk (sg_diag s1) + 1\<rparr> else sg_diag s1)\<rparr>);
          s3 = (if 0 < sg_daily_start_equity s2
                then s2\<lparr>sg_daily_realized_pnl_pct := sg_daily_realized_pnl_pct s2
                       + float_of_dec (realized / sg_daily_start_equity s2)\<rparr> else s2);
          s4 = (if realized < 0 then s3\<lparr>sg_cooldown_bars_remaining := cooldown_bars_after_loss rc\<rparr> else s3)
      in s4\<lparr>sg_trades_today := sg_trades_today s4 + 1, sg_stop_price := None, sg_target_price := None,
            sg_open_trade := None\<rparr>)"

definition apply_exit_fill :: "risk_config \<Rightarrow> int \<Rightarrow> dec \<Rightarrow> simulated_fill \<Rightarrow> string \<Rightarrow> dec \<Rightarrow> unit run" where
  "apply_exit_fill rc exit_time_ms quantity f exit_reason exit_reference_price =
     sbind (sget sg_portfolio) (\<lambda>portfolio.
     sbind (slift (apply_sell portfolio quantity (sf_fill_price f) (sf_fee_quote f) False)) (\<lambda>p.
     smodify (close_position rc exit_time_ms quantity f exit_reason exit_reference_price p)))"

definition execute_stop_exit :: "risk_config \<Rightarrow> backtest_broker \<Rightarrow> candle \<Rightarrow> unit run" where
  "execute_stop_exit rc b candle =
     sbind (sget sg_stop_price) (\<lambda>stop.
     sbind (slift (of_option (ValueError ''stop price'') stop)) (\<lambda>stop_price.
     (let fill_reference_price = min stop_price (c_open candle) in
     sbind (sget (\<lambda>s. base_balance (sg_portfolio s))) (\<lambda>quantity.
     sbind (apply_exit_fill rc (open_time_ms candle) quantity (simulate_sell b quantity fill_reference_price)
       EXIT_REASON_STOP_LOSS fill_reference_price) (\<lambda>_.
     bt_record ''STOP_LOSS_TRIGGERED''
       [(''stop_price'', JDec fill_reference_price), (''quantity'', JDec quantity)] (open_time_ms candle))))))"

definition execute_take_profit_exit :: "risk_config \<Rightarrow> backtest_broker \<Rightarrow> candle \<Rightarrow> unit run" where
  "execute_take_profit_exit rc b candle =
     sbind (sget sg_target_price) (\<lambda>target.
     sbind (slift (of_option (ValueError ''target price'') target)) (\<lambda>fill_reference_price.
     sbind (sget (\<lambda>s. base_balance (sg_portfolio s))) (\<lambda>quantity.
     sbind (apply_exit_fill rc (open_time_ms candle) quantity (simulate_sell b quantity fill_reference_price)
       EXIT_REASON_TAKE_PROFIT fill_reference_price) (\<lambda>_.
     bt_record ''TAKE_PROFIT_TRIGGERED''
       [(''target_price'', JDec fill_reference_price), (''quantity'', JDec quantity)] (open_time_ms candle)))))"

section \<open>A pending signal fills at the next open\<close>

definition size_signal ::
  "bool \<Rightarrow> app_config \<Rightarrow> symbol_filters \<Rightarrow> signal_type \<Rightarrow> dec \<Rightarrow> dec \<Rightarrow> portfolio
    \<Rightarrow> (sizing_decision \<times> risk_reward_plan option) result" where
  "size_signal policy config filters ty equity reference_price p =
     (if ty = BUY then
        if policy then
          bindr (plan_risk_reward_entry equity (quote_balance p) reference_price
            (stop_distance_pct (cfg_stop_loss config)) (taker_fee_pct (cfg_fees config))
            (slippage_pct (cfg_fees config)) filters) (\<lambda>plan.
          Inr (\<lparr>sd_approved = rr_approved plan, sd_quantity = rr_quantity plan, sd_reason = rr_reason plan\<rparr>, Some plan))
        else
          let stop_price = reference_price * (1 - dec_of_float (stop_distance_pct (cfg_stop_loss config)))
          in bindr (compute_risk_based_buy_quantity equity reference_price stop_price
               (max_risk_per_trade_pct (cfg_risk config)) (max_position_pct (cfg_risk config))
               (taker_fee_pct (cfg_fees config)) (slippage_pct (cfg_fees config)) filters) (\<lambda>d. Inr (d, None))
      else bindr (compute_sell_quantity (base_balance p) reference_price filters) (\<lambda>d. Inr (d, None)))"

text \<open>What a rejected size adds to the diagnostics.\<close>

definition sizing_rejected :: "signal_type \<Rightarrow> string \<Rightarrow> risk_reward_plan option \<Rightarrow> diag \<Rightarrow> diag" where
  "sizing_rejected ty reason plan d0 =
     (if ty \<noteq> BUY then d0
      else let d = record_rejected_entry reason d0
      in case plan of
           None \<Rightarrow> d
         | Some p \<Rightarrow>
             if rr_reason p \<in> set EXCHANGE_FILTER_REJECTION_REASONS
             then d\<lparr>rr_rejected_exchange_filter := rr_rejected_exchange_filter d + 1\<rparr>
             else if rr_reason p = RR_REJECTED_BELOW_MINIMUM
             then d\<lparr>rr_rejected_net_rr_below_minimum := rr_rejected_net_rr_below_minimum d + 1\<rparr>
             else d)"

text \<open>The plan of the position, from the real fill; \<open>None\<close> without the policy.\<close>

definition realized_plan_of ::
  "app_config \<Rightarrow> symbol_filters \<Rightarrow> dec \<Rightarrow> dec \<Rightarrow> dec \<Rightarrow> risk_reward_plan option \<Rightarrow> risk_reward_plan option result" where
  "realized_plan_of config filters equity quantity fill_price plan =
     (case plan of
        None \<Rightarrow> Inr None
      | Some p \<Rightarrow>
          bindr (build_realized_plan (p\<lparr>rr_quantity := Some quantity\<rparr>) fill_price
            (stop_distance_pct (cfg_stop_loss config)) (taker_fee_pct (cfg_fees config))
            (slippage_pct (cfg_fees config)) equity filters) (\<lambda>r. Inr (Some r)))"

definition opened ::
  "app_config \<Rightarrow> candle \<Rightarrow> dec \<Rightarrow> simulated_fill \<Rightarrow> dec \<Rightarrow> risk_reward_plan option \<Rightarrow> portfolio \<Rightarrow> seg_state \<Rightarrow> seg_state" where
  "opened config candle quantity f reference_price plan p s =
     (let ot = \<lparr>ot_entry_time_ms = open_time_ms candle, ot_entry_price = sf_fill_price f, ot_quantity = quantity,
                ot_entry_fee = sf_fee_quote f, ot_entry_reference_price = reference_price, ot_realized_plan = plan\<rparr>;
          d = (case plan of None \<Rightarrow> sg_diag s | Some r \<Rightarrow> record_rr_entry r (sg_diag s))
      in s\<lparr>sg_portfolio := p,
           sg_stop_price := (case plan of
               None \<Rightarrow> Some (sf_fill_price f * (1 - dec_of_float (stop_distance_pct (cfg_stop_loss config))))
             | Some r \<Rightarrow> rr_stop_price r),
           sg_target_price := (case plan of None \<Rightarrow> sg_target_price s | Some r \<Rightarrow> rr_target_price r),
           sg_open_trade := Some ot,
           sg_trades_today := sg_trades_today s + 1,
           sg_diag := d\<lparr>executed_entries := executed_entries d + 1,
                        last_approved_buy_time_ms := Some (open_time_ms candle)\<rparr>\<rparr>)"

definition enter_position ::
  "app_config \<Rightarrow> symbol_filters \<Rightarrow> backtest_broker \<Rightarrow> candle \<Rightarrow> dec \<Rightarrow> dec \<Rightarrow> dec \<Rightarrow> risk_reward_plan option \<Rightarrow> unit run" where
  "enter_position config filters b candle equity reference_price quantity plan =
     (let f = simulate_buy b quantity reference_price in
     sbind (slift (realized_plan_of config filters equity quantity (sf_fill_price f) plan)) (\<lambda>realized.
     if (case realized of None \<Rightarrow> False | Some r \<Rightarrow> \<not> rr_approved r)
     then on_diag (\<lambda>d0. let d = record_rejected_entry (case realized of None \<Rightarrow> [] | Some r \<Rightarrow> rr_reason r) d0
            in d\<lparr>rr_rejected_post_fill_revalidation := rr_rejected_post_fill_revalidation d + 1\<rparr>)
     else
       sbind (sget sg_portfolio) (\<lambda>portfolio.
       sbind (slift (apply_buy portfolio quantity (sf_fill_price f) (sf_fee_quote f) False)) (\<lambda>p.
       smodify (opened config candle quantity f reference_price realized p)))))"

definition backtest_risk_context :: "dec \<Rightarrow> flt \<Rightarrow> seg_state \<Rightarrow> risk_context" where
  "backtest_risk_context equity drawdown s =
     \<lparr>rc_equity = equity, rc_quote_balance = quote_balance (sg_portfolio s), rc_trades_today = sg_trades_today s,
      rc_cooldown_bars_remaining = sg_cooldown_bars_remaining s,
      rc_daily_realized_pnl_pct = sg_daily_realized_pnl_pct s, rc_current_drawdown_pct = drawdown,
      rc_data_age_seconds = 0, rc_consecutive_api_errors = 0, rc_kill_switch_engaged = False,
      rc_is_duplicate_order = False, rc_reconciliation_blocked = False\<rparr>"

definition drawdown_of :: "dec \<Rightarrow> dec \<Rightarrow> flt" where
  "drawdown_of peak equity = (if 0 < peak then float_of_dec ((peak - equity) / peak) else 0)"

definition gate_payload :: "signal_type \<Rightarrow> bool \<Rightarrow> string \<Rightarrow> payload" where
  "gate_payload ty ok reason =
     [(''signal_type'', JStr (signal_value ty)), (''approved'', JBool ok), (''reason_code'', JStr reason)]"

definition fill_signal ::
  "app_config \<Rightarrow> symbol_filters \<Rightarrow> backtest_broker \<Rightarrow> signal_type \<Rightarrow> candle \<Rightarrow> dec \<Rightarrow> dec \<Rightarrow> risk_reward_plan option \<Rightarrow> unit run" where
  "fill_signal config filters b ty candle equity quantity plan =
     (if ty = BUY then enter_position config filters b candle equity (c_open candle) quantity plan
      else apply_exit_fill (cfg_risk config) (open_time_ms candle) quantity (simulate_sell b quantity (c_open candle))
        EXIT_REASON_STRATEGY (c_open candle))"

definition gate_signal ::
  "app_config \<Rightarrow> risk_config \<Rightarrow> symbol_filters \<Rightarrow> backtest_broker \<Rightarrow> signal_type \<Rightarrow> candle \<Rightarrow> dec \<Rightarrow> flt
    \<Rightarrow> dec \<Rightarrow> risk_reward_plan option \<Rightarrow> unit run" where
  "gate_signal config rc filters b ty candle equity drawdown sized plan =
     sbind (slift (mk_trade_intent ty (c_symbol candle) sized (c_open candle))) (\<lambda>intent.
     sbind (sget (backtest_risk_context equity drawdown)) (\<lambda>context.
     (let decision = risk_evaluate rc intent context in
     sbind (bt_record ''RISK_DECISION'' (gate_payload ty (rd_approved decision) (rd_reason decision)) (open_time_ms candle)) (\<lambda>_.
     if \<not> rd_approved decision
     then if ty = BUY then on_diag (record_risk_gate_rejection (rd_reason decision) (open_time_ms candle) equity drawdown)
          else sreturn ()
     else
     sbind (slift (validate_order intent filters)) (\<lambda>validation.
     sbind (bt_record ''ORDER_VALIDATION'' (gate_payload ty (ov_approved validation) (ov_reason validation)) (open_time_ms candle)) (\<lambda>_.
     case (if ov_approved validation then ov_quantity validation else None) of
       None \<Rightarrow> if ty = BUY then on_diag (record_rejected_entry (ov_reason validation)) else sreturn ()
     | Some quantity \<Rightarrow> fill_signal config filters b ty candle equity quantity plan))))))"

definition resolve_pending_signal ::
  "bool \<Rightarrow> app_config \<Rightarrow> risk_config \<Rightarrow> symbol_filters \<Rightarrow> backtest_broker \<Rightarrow> signal_type \<Rightarrow> candle \<Rightarrow> unit run" where
  "resolve_pending_signal policy config rc filters b ty candle =
     (let reference_price = c_open candle in
     sbind (smodify (\<lambda>s. s\<lparr>sg_peak_equity := max (sg_peak_equity s) (portfolio_equity (sg_portfolio s) reference_price)\<rparr>)) (\<lambda>_.
     sbind (sget (\<lambda>s. portfolio_equity (sg_portfolio s) reference_price)) (\<lambda>equity.
     sbind (sget (\<lambda>s. drawdown_of (sg_peak_equity s) equity)) (\<lambda>drawdown.
     sbind (sget sg_portfolio) (\<lambda>p.
     sbind (slift (size_signal policy config filters ty equity reference_price p)) (\<lambda>(sizing, plan).
     sbind (bt_record ''SIZING'' (gate_payload ty (sd_approved sizing) (sd_reason sizing)) (open_time_ms candle)) (\<lambda>_.
     case (if sd_approved sizing then sd_quantity sizing else None) of
       None \<Rightarrow> on_diag (sizing_rejected ty (sd_reason sizing) plan)
     | Some sized \<Rightarrow> gate_signal config rc filters b ty candle equity drawdown sized plan)))))))"

section \<open>One bar\<close>

text \<open>A new UTC day is detected at the open, before the pending signal fills.\<close>

definition start_bar :: "candle \<Rightarrow> seg_state \<Rightarrow> seg_state" where
  "start_bar candle s =
     (let day = open_time_ms candle div MS_PER_DAY;
          s1 = (if sg_current_day s = Some day then s
                else s\<lparr>sg_current_day := Some day,
                       sg_daily_start_equity := portfolio_equity (sg_portfolio s) (c_open candle),
                       sg_daily_realized_pnl_pct := 0, sg_trades_today := 0\<rparr>)
      in s1\<lparr>sg_cooldown_bars_remaining := max 0 (sg_cooldown_bars_remaining s1 - 1)\<rparr>)"

definition fill_pending :: "bool \<Rightarrow> app_config \<Rightarrow> risk_config \<Rightarrow> symbol_filters \<Rightarrow> backtest_broker \<Rightarrow> candle \<Rightarrow> unit run" where
  "fill_pending policy config rc filters b candle =
     sbind (sget sg_pending_signal) (\<lambda>pending.
       case pending of
         None \<Rightarrow> sreturn ()
       | Some ty \<Rightarrow>
           sbind (resolve_pending_signal policy config rc filters b ty candle) (\<lambda>_.
           smodify (\<lambda>s. s\<lparr>sg_pending_signal := None\<rparr>)))"

text \<open>The protective exits, checked on the fill candle already; the stop comes first.\<close>

definition stop_hit :: "candle \<Rightarrow> seg_state \<Rightarrow> bool" where
  "stop_hit candle s \<longleftrightarrow> position_side (sg_portfolio s) = LONG \<and>
     (case sg_stop_price s of None \<Rightarrow> False | Some stop \<Rightarrow> c_low candle \<le> stop)"

definition target_hit :: "candle \<Rightarrow> seg_state \<Rightarrow> bool" where
  "target_hit candle s \<longleftrightarrow> position_side (sg_portfolio s) = LONG \<and> sg_stop_price s \<noteq> None \<and>
     (case sg_target_price s of None \<Rightarrow> False | Some target \<Rightarrow> target \<le> c_high candle)"

definition protect :: "bool \<Rightarrow> risk_config \<Rightarrow> backtest_broker \<Rightarrow> candle \<Rightarrow> unit run" where
  "protect policy rc b candle =
     sbind (sget (stop_hit candle)) (\<lambda>stop.
     if stop then execute_stop_exit rc b candle
     else sbind (sget (target_hit candle)) (\<lambda>target.
       if policy \<and> target then execute_take_profit_exit rc b candle else sreturn ()))"

definition take_signal :: "signal \<Rightarrow> seg_state \<Rightarrow> seg_state" where
  "take_signal sig s =
     (case sg_type sig of
        BUY \<Rightarrow> s\<lparr>sg_diag := (sg_diag s)\<lparr>buy_signals_generated := buy_signals_generated (sg_diag s) + 1\<rparr>,
                 sg_pending_signal := Some BUY\<rparr>
      | EXIT \<Rightarrow> s\<lparr>sg_diag := (sg_diag s)\<lparr>exit_signals_generated := exit_signals_generated (sg_diag s) + 1\<rparr>,
                  sg_pending_signal := Some EXIT\<rparr>
      | HOLD \<Rightarrow> s)"

definition close_bar :: "candle \<Rightarrow> seg_state \<Rightarrow> seg_state" where
  "close_bar candle s =
     s\<lparr>sg_equity_curve := sg_equity_curve s @
         [\<lparr>ep_timestamp_ms = close_time_ms candle, ep_equity = portfolio_equity (sg_portfolio s) (c_close candle),
           ep_in_position = (position_side (sg_portfolio s) = LONG)\<rparr>],
       sg_snapshots := sg_snapshots s @
         [\<lparr>sn_cash_quote = quote_balance (sg_portfolio s), sn_base_quantity = base_balance (sg_portfolio s),
           sn_open_trade = sg_open_trade s\<rparr>]\<rparr>"

definition run_bar ::
  "bool \<Rightarrow> app_config \<Rightarrow> risk_config \<Rightarrow> symbol_filters \<Rightarrow> backtest_broker \<Rightarrow> signal_generator \<Rightarrow> candle list
    \<Rightarrow> candle \<Rightarrow> unit run" where
  "run_bar policy config rc filters b strategy history candle =
     sbind (smodify (start_bar candle)) (\<lambda>_.
     sbind (fill_pending policy config rc filters b candle) (\<lambda>_.
     sbind (protect policy (cfg_risk config) b candle) (\<lambda>_.
     sbind (smodify (\<lambda>s. s\<lparr>sg_peak_equity := max (sg_peak_equity s) (portfolio_equity (sg_portfolio s) (c_close candle))\<rparr>)) (\<lambda>_.
     sbind (sget (\<lambda>s. strategy history (position_side (sg_portfolio s)))) (\<lambda>answer.
     sbind (slift answer) (\<lambda>sig.
     sbind (bt_record ''SIGNAL''
       ([(''type'', JStr (signal_value (sg_type sig))), (''reason_code'', JStr (sg_reason_code sig))] @ sg_inputs sig)
       (close_time_ms candle)) (\<lambda>_.
     smodify (\<lambda>s. close_bar candle (take_signal sig s)))))))))"

section \<open>A segment\<close>

fun run_bars ::
  "bool \<Rightarrow> app_config \<Rightarrow> risk_config \<Rightarrow> symbol_filters \<Rightarrow> backtest_broker \<Rightarrow> signal_generator \<Rightarrow> candle list
    \<Rightarrow> int list \<Rightarrow> unit run" where
  "run_bars policy config rc filters b strategy segment [] = sreturn ()"
| "run_bars policy config rc filters b strategy segment (i # is) =
     sbind (slift (nth_res segment i)) (\<lambda>candle.
     sbind (run_bar policy config rc filters b strategy (take (nat (i + 1)) segment) candle) (\<lambda>_.
     run_bars policy config rc filters b strategy segment is))"

definition seg_start :: "dec \<Rightarrow> candle \<Rightarrow> journal_db option \<Rightarrow> seg_state" where
  "seg_start starting_equity first j =
     \<lparr>sg_portfolio = portfolio_initial starting_equity, sg_open_trade = None, sg_stop_price = None,
      sg_target_price = None, sg_trades_today = 0, sg_daily_realized_pnl_pct = 0,
      sg_daily_start_equity = starting_equity, sg_cooldown_bars_remaining = 0,
      sg_peak_equity = portfolio_equity (portfolio_initial starting_equity) (c_close first),
      sg_pending_signal = None, sg_current_day = None, sg_trades = [], sg_equity_curve = [], sg_snapshots = [],
      sg_diag = diag_start, sg_journal = j\<rparr>"

text \<open>The maximal drawdown of a curve, in percent, with the time it was first reached.\<close>

fun drawdown_loop :: "dec \<Rightarrow> flt \<Rightarrow> int option \<Rightarrow> equity_point list \<Rightarrow> flt \<times> int option" where
  "drawdown_loop peak max_dd dd_at [] = (max_dd, dd_at)"
| "drawdown_loop peak max_dd dd_at (pt # pts) =
     (let peak' = max peak (ep_equity pt)
      in if 0 < peak'
         then let drawdown = float_of_dec ((peak' - ep_equity pt) / peak')
              in if max_dd < drawdown then drawdown_loop peak' drawdown (Some (ep_timestamp_ms pt)) pts
                 else drawdown_loop peak' max_dd dd_at pts
         else drawdown_loop peak' max_dd dd_at pts)"

definition max_drawdown_with_time :: "equity_point list \<Rightarrow> flt \<times> int option" where
  "max_drawdown_with_time curve =
     (case curve of [] \<Rightarrow> (0, None)
      | pt # pts \<Rightarrow> (case drawdown_loop (ep_equity pt) 0 None curve of (dd, dd_at) \<Rightarrow> (dd * Flt 100, dd_at)))"

record shutdown_activation =
  sa_reason_code :: string
  sa_first_activated_time_ms :: int
  sa_equity_at_activation :: dec
  sa_drawdown_pct_at_activation :: flt
  sa_last_active_time_ms :: int
  sa_blocked_buy_count :: int
  sa_remained_latched_to_end :: bool
  sa_duration_ms :: int

definition shutdown_activation_of :: "diag \<Rightarrow> int \<Rightarrow> string \<times> int \<times> dec \<times> flt \<Rightarrow> shutdown_activation result" where
  "shutdown_activation_of d segment_end_time_ms = (\<lambda>(reason, first_ms, equity, drawdown).
     bindr (of_option KeyError (map_of (shutdown_last_active d) reason)) (\<lambda>last_active_ms.
     let latched = (case last_approved_buy_time_ms d of None \<Rightarrow> True | Some t \<Rightarrow> t < first_ms)
     in Inr \<lparr>sa_reason_code = reason, sa_first_activated_time_ms = first_ms,
          sa_equity_at_activation = equity, sa_drawdown_pct_at_activation = drawdown,
          sa_last_active_time_ms = last_active_ms,
          sa_blocked_buy_count = (case map_of (rejected_entries_by_reason d) reason of None \<Rightarrow> 0 | Some n \<Rightarrow> n),
          sa_remained_latched_to_end = latched,
          sa_duration_ms = (if latched then segment_end_time_ms - first_ms else last_active_ms - first_ms)\<rparr>))"

record run_diagnostics =
  rd_buy_signals_generated :: int
  rd_exit_signals_generated :: int
  rd_unexecuted_signals :: int
  rd_executed_entries :: int
  rd_executed_strategy_exits :: int
  rd_executed_stop_loss_exits :: int
  rd_executed_take_profit_exits :: int
  rd_rejected_entries_by_reason :: "(string \<times> int) list"
  rd_first_executed_trade_time_ms :: "int option"
  rd_last_executed_trade_time_ms :: "int option"
  rd_max_drawdown_pct :: flt
  rd_max_drawdown_time_ms :: "int option"
  rd_shutdown_activations :: "shutdown_activation list"
  rd_starting_equity :: dec
  rd_ending_equity :: dec
  rd_ending_cash_quote :: dec
  rd_ending_base_quantity :: dec
  rd_ends_with_open_position :: bool

record open_position_info =
  oi_entry_time_ms :: int
  oi_entry_price :: dec
  oi_entry_reference_price :: dec
  oi_quantity :: dec
  oi_entry_fee_quote :: dec

definition open_trade_to_info :: "open_trade option \<Rightarrow> open_position_info option" where
  "open_trade_to_info ot =
     map_option (\<lambda>t. \<lparr>oi_entry_time_ms = ot_entry_time_ms t, oi_entry_price = ot_entry_price t,
       oi_entry_reference_price = ot_entry_reference_price t, oi_quantity = ot_quantity t,
       oi_entry_fee_quote = ot_entry_fee t\<rparr>) ot"

record risk_reward_diagnostics =
  rrd_entries_approved :: int
  rrd_entries_rejected_net_rr_below_minimum :: int
  rrd_entries_rejected_exchange_filter :: int
  rrd_entries_rejected_post_fill_revalidation :: int
  rrd_stop_loss_exits :: int
  rrd_take_profit_exits :: int
  rrd_gap_losses_exceeding_planned_risk :: int
  rrd_planned_risk_quote_total :: dec
  rrd_planned_reward_quote_total :: dec
  rrd_planned_risk_pct_values :: "flt list"
  rrd_planned_reward_pct_values :: "flt list"
  rrd_gross_reward_to_risk_values :: "flt list"
  rrd_net_reward_to_risk_values :: "flt list"
  rrd_planned_risk_quote_values :: "dec list"
  rrd_planned_reward_quote_values :: "dec list"

record segment_run_result =
  sr_trades :: "trade list"
  sr_equity_curve :: "equity_point list"
  sr_ends_with_open_position :: bool
  sr_pending_signal :: "signal_type option"
  sr_diagnostics :: run_diagnostics
  sr_open_position :: "open_position_info option"
  sr_snapshots :: "snapshot list"
  sr_risk_reward :: "risk_reward_diagnostics option"

definition count_exits :: "string \<Rightarrow> trade list \<Rightarrow> int" where
  "count_exits reason trades = int (length (filter (\<lambda>t. t_exit_reason t = reason) trades))"

definition diagnostics_of :: "dec \<Rightarrow> candle \<Rightarrow> shutdown_activation list \<Rightarrow> seg_state \<Rightarrow> run_diagnostics" where
  "diagnostics_of starting_equity last_candle activations s =
     (let d = sg_diag s; trades = sg_trades s
      in \<lparr>rd_buy_signals_generated = buy_signals_generated d, rd_exit_signals_generated = exit_signals_generated d,
          rd_unexecuted_signals = (if sg_pending_signal s = None then 0 else 1),
          rd_executed_entries = executed_entries d,
          rd_executed_strategy_exits = count_exits EXIT_REASON_STRATEGY trades,
          rd_executed_stop_loss_exits = count_exits EXIT_REASON_STOP_LOSS trades,
          rd_executed_take_profit_exits = count_exits EXIT_REASON_TAKE_PROFIT trades,
          rd_rejected_entries_by_reason = rejected_entries_by_reason d,
          rd_first_executed_trade_time_ms = (if trades = [] then None else Some (t_entry_time_ms (hd trades))),
          rd_last_executed_trade_time_ms = (if trades = [] then None else Some (t_exit_time_ms (last trades))),
          rd_max_drawdown_pct = fst (max_drawdown_with_time (sg_equity_curve s)),
          rd_max_drawdown_time_ms = snd (max_drawdown_with_time (sg_equity_curve s)),
          rd_shutdown_activations = activations,
          rd_starting_equity = starting_equity,
          rd_ending_equity = portfolio_equity (sg_portfolio s) (c_close last_candle),
          rd_ending_cash_quote = quote_balance (sg_portfolio s),
          rd_ending_base_quantity = base_balance (sg_portfolio s),
          rd_ends_with_open_position = (position_side (sg_portfolio s) = LONG)\<rparr>)"

definition risk_reward_diagnostics_of :: "seg_state \<Rightarrow> risk_reward_diagnostics" where
  "risk_reward_diagnostics_of s =
     (let d = sg_diag s
      in \<lparr>rrd_entries_approved = rr_entries_approved d,
          rrd_entries_rejected_net_rr_below_minimum = rr_rejected_net_rr_below_minimum d,
          rrd_entries_rejected_exchange_filter = rr_rejected_exchange_filter d,
          rrd_entries_rejected_post_fill_revalidation = rr_rejected_post_fill_revalidation d,
          rrd_stop_loss_exits = count_exits EXIT_REASON_STOP_LOSS (sg_trades s),
          rrd_take_profit_exits = count_exits EXIT_REASON_TAKE_PROFIT (sg_trades s),
          rrd_gap_losses_exceeding_planned_risk = rr_gap_losses_exceeding_planned_risk d,
          rrd_planned_risk_quote_total = rr_planned_risk_quote_total d,
          rrd_planned_reward_quote_total = rr_planned_reward_quote_total d,
          rrd_planned_risk_pct_values = rr_planned_risk_pct_values d,
          rrd_planned_reward_pct_values = rr_planned_reward_pct_values d,
          rrd_gross_reward_to_risk_values = rr_gross_reward_to_risk_values d,
          rrd_net_reward_to_risk_values = rr_net_reward_to_risk_values d,
          rrd_planned_risk_quote_values = rr_planned_risk_quote_values d,
          rrd_planned_reward_quote_values = rr_planned_reward_quote_values d\<rparr>)"

definition segment_result :: "bool \<Rightarrow> dec \<Rightarrow> candle \<Rightarrow> shutdown_activation list \<Rightarrow> seg_state \<Rightarrow> segment_run_result" where
  "segment_result policy starting_equity last_candle activations s =
     \<lparr>sr_trades = sg_trades s, sr_equity_curve = sg_equity_curve s,
      sr_ends_with_open_position = (position_side (sg_portfolio s) = LONG),
      sr_pending_signal = sg_pending_signal s,
      sr_diagnostics = diagnostics_of starting_equity last_candle activations s,
      sr_open_position = open_trade_to_info (sg_open_trade s), sr_snapshots = sg_snapshots s,
      sr_risk_reward = (if policy then Some (risk_reward_diagnostics_of s) else None)\<rparr>"

text \<open>
  A run returns its result and the journal it leaves. The note on a signal left pending is
  known by the signal (its text is fixed).
\<close>

definition run_segment ::
  "candle list \<Rightarrow> app_config \<Rightarrow> symbol_filters \<Rightarrow> signal_generator \<Rightarrow> risk_config \<Rightarrow> backtest_broker
    \<Rightarrow> journal_db option \<Rightarrow> int \<Rightarrow> dec \<Rightarrow> bool \<Rightarrow> (segment_run_result \<times> journal_db option) result" where
  "run_segment segment config filters strategy rc b j min_required starting_equity policy =
     bindr (nth_res segment (min_required - 1)) (\<lambda>first.
     case run_bars policy config rc filters b strategy segment [min_required - 1 .. int (length segment) - 1]
       (seg_start starting_equity first j) of
       (Inl e, s) \<Rightarrow> Inl e
     | (Inr _, s) \<Rightarrow> bindr (nth_res segment (-1)) (\<lambda>last_candle.
         bindr (map_res (shutdown_activation_of (sg_diag s) (close_time_ms last_candle)) (shutdown_first_activation (sg_diag s)))
           (\<lambda>activations. Inr (segment_result policy starting_equity last_candle activations s, sg_journal s))))"

end
