(* ===== verification/Backtest_Invariants.thy ===== *)
theory Backtest_Invariants
  imports Backtest_Engine "HOL-Library.Sublist"
begin

text \<open>
  What one bar of a backtest keeps: the interface \<open>bar_steps\<close> lists the elementary changes
  of a run's state, and a predicate that survives them survives every run, raises included.
  It is interpreted on the well-formedness of the run and on the drawdown shutdown.
\<close>

section \<open>The elementary changes of a run\<close>

text \<open>
  What an exit is priced from: the open, the worse of stop and open, or the target.
\<close>

definition exit_reference :: "candle \<Rightarrow> seg_state \<Rightarrow> string \<Rightarrow> dec \<Rightarrow> bool" where
  "exit_reference c s reason ref \<longleftrightarrow>
     reason = EXIT_REASON_STRATEGY \<and> ref = c_open c \<or>
     reason = EXIT_REASON_STOP_LOSS \<and> (\<exists>sp. sg_stop_price s = Some sp \<and> ref = min sp (c_open c)) \<or>
     reason = EXIT_REASON_TAKE_PROFIT \<and> sg_target_price s = Some ref"

text \<open>A position is entered only when the risk engine approved the context of some state.\<close>

definition entry_gate :: "risk_config \<Rightarrow> (seg_state \<Rightarrow> bool) \<Rightarrow> candle \<Rightarrow> bool" where
  "entry_gate rc I c \<longleftrightarrow>
     (\<exists>s1 s2 s3 eq intent. I s1 \<and> I s2 \<and> I s3 \<and> eq = portfolio_equity (sg_portfolio s1) (c_open c) \<and>
        ti_signal_type intent = BUY \<and>
        rd_approved (risk_evaluate rc intent (backtest_risk_context eq (drawdown_of (sg_peak_equity s2) eq) s3)))"

text \<open>The plan of a position: none, or one re-validated from the fill for the quantity filled.\<close>

definition position_plan :: "app_config \<Rightarrow> dec \<Rightarrow> dec \<Rightarrow> risk_reward_plan option \<Rightarrow> bool" where
  "position_plan config q fill_price plan \<longleftrightarrow>
     (case plan of None \<Rightarrow> True | Some r \<Rightarrow> (\<exists>eq. plan_ok eq fill_price r) \<and> rr_quantity r = Some q \<and>
        rr_stop_price r = Some (fill_price * (1 - dec_of_float (stop_distance_pct (cfg_stop_loss config)))))"

text \<open>Diagnostics that agree on the entries and their plans.\<close>

definition same_books :: "diag \<Rightarrow> diag \<Rightarrow> bool" where
  "same_books d e \<longleftrightarrow>
     executed_entries d = executed_entries e \<and> rr_entries_approved d = rr_entries_approved e \<and>
     rr_planned_risk_quote_values d = rr_planned_risk_quote_values e \<and>
     rr_planned_reward_quote_values d = rr_planned_reward_quote_values e \<and>
     rr_gap_losses_exceeding_planned_risk d = rr_gap_losses_exceeding_planned_risk e"

lemma reaches_self: "reaches I I m \<longleftrightarrow> preserves I m"
  by (simp add: reaches_def preserves_def)

locale fill_steps =
  fixes config :: app_config and rc :: risk_config and b :: backtest_broker
    and C :: "candle \<Rightarrow> bool" and I :: "seg_state \<Rightarrow> bool" and policy :: bool
  assumes journal: "I s \<Longrightarrow> I (s\<lparr>sg_journal := j\<rparr>)"
    and diag: "I s \<Longrightarrow> same_books d (sg_diag s) \<Longrightarrow> I (s\<lparr>sg_diag := d\<rparr>)"
    and peak: "I s \<Longrightarrow> I (s\<lparr>sg_peak_equity := max (sg_peak_equity s) (portfolio_equity (sg_portfolio s) price)\<rparr>)"
    and pending: "I s \<Longrightarrow> I (s\<lparr>sg_pending_signal := v\<rparr>)"
    and exit: "C c \<Longrightarrow> I s \<Longrightarrow> 0 < q \<or> q = base_balance (sg_portfolio s) \<Longrightarrow> exit_reference c s reason ref \<Longrightarrow>
      f = simulate_sell b q ref \<Longrightarrow> apply_sell (sg_portfolio s) q (sf_fill_price f) (sf_fee_quote f) False = Inr p \<Longrightarrow>
      I (close_position (cfg_risk config) (open_time_ms c) q f reason ref p s)"
    and enter: "C c \<Longrightarrow> I s \<Longrightarrow> 0 < q \<Longrightarrow> f = simulate_buy b q (c_open c) \<Longrightarrow> entry_gate rc I c \<Longrightarrow>
      position_plan config q (sf_fill_price f) plan \<Longrightarrow> (policy \<Longrightarrow> plan \<noteq> None) \<Longrightarrow>
      apply_buy (sg_portfolio s) q (sf_fill_price f) (sf_fee_quote f) False = Inr p \<Longrightarrow>
      I (opened config c q f (c_open c) plan p s)"
begin

lemma bt_record [stepI]: "preserves I (bt_record ty pl t)"
  unfolding bt_record_def by (rule preserves_modify) (rule journal)

lemma on_diag: "(\<And>d. same_books (h d) d) \<Longrightarrow> preserves I (on_diag h)"
  unfolding on_diag_def by (rule preserves_modify) (simp add: diag)

lemma diag_rejected [stepI]: "preserves I (on_diag (record_rejected_entry r))"
  by (rule on_diag) (simp add: same_books_def record_rejected_entry_def)

lemma diag_gate [stepI]: "preserves I (on_diag (record_risk_gate_rejection r t e d))"
  by (rule on_diag) (simp add: same_books_def record_risk_gate_rejection_def record_rejected_entry_def Let_def)

lemma diag_sizing [stepI]: "preserves I (on_diag (sizing_rejected ty r plan))"
  by (rule on_diag) (simp add: same_books_def sizing_rejected_def record_rejected_entry_def Let_def split: option.split)

lemma exit_fill:
  assumes "C c" "\<And>s. J s \<Longrightarrow> I s \<and> (0 < q \<or> q = base_balance (sg_portfolio s)) \<and> exit_reference c s reason ref"
  shows "reaches J I (apply_exit_fill (cfg_risk config) (open_time_ms c) q (simulate_sell b q ref) reason ref)"
proof (rule reachesI)
  fix s r t
  assume J: "J s" and run: "apply_exit_fill (cfg_risk config) (open_time_ms c) q (simulate_sell b q ref) reason ref s = (r, t)"
  let ?f = "simulate_sell b q ref"
  show "I t"
  proof (cases "apply_sell (sg_portfolio s) q (sf_fill_price ?f) (sf_fee_quote ?f) False")
    case (Inl e)
    then have "t = s" using run by (simp add: apply_exit_fill_def sbind_def)
    then show ?thesis using assms(2) J by blast
  next
    case (Inr p)
    then have "t = close_position (cfg_risk config) (open_time_ms c) q ?f reason ref p s"
      using run by (simp add: apply_exit_fill_def sbind_def)
    then show ?thesis using exit [OF assms(1) _ _ _ refl Inr] assms(2) J by blast
  qed
qed (use assms(2) in blast)

lemma enter_position:
  assumes "C c" "0 < q" "entry_gate rc I c" "policy \<Longrightarrow> plan \<noteq> None"
  shows "preserves I (enter_position config filters b c eq (c_open c) q plan)"
proof (rule preservesI)
  fix s r t
  assume s: "I s" and run: "enter_position config filters b c eq (c_open c) q plan s = (r, t)"
  let ?f = "simulate_buy b q (c_open c)"
  show "I t"
  proof (cases "realized_plan_of config filters eq q (sf_fill_price ?f) plan")
    case (Inl e)
    then show ?thesis using run s by (simp add: enter_position_def Let_def sbind_def)
  next
    case (Inr realized)
    show ?thesis
    proof (cases "case realized of None \<Rightarrow> False | Some r \<Rightarrow> \<not> rr_approved r")
      case True
      then show ?thesis using run s Inr diag
        by (auto simp: enter_position_def Let_def sbind_def on_diag_def record_rejected_entry_def same_books_def)
    next
      case False
      have ok: "position_plan config q (sf_fill_price ?f) realized"
        using Inr False build_realized_plan_approved
        by (fastforce simp: position_plan_def realized_plan_of_def split: option.splits)
      have planned: "realized \<noteq> None" if policy
        using Inr assms(4) [OF that] by (auto simp: realized_plan_of_def split: option.splits)
      show ?thesis
      proof (cases "apply_buy (sg_portfolio s) q (sf_fill_price ?f) (sf_fee_quote ?f) False")
        case (Inl e)
        then show ?thesis using run s Inr False by (simp add: enter_position_def Let_def sbind_def split: option.splits)
      next
        case (Inr p)
        then have "t = opened config c q ?f (c_open c) realized p s"
          using run False \<open>realized_plan_of _ _ _ _ _ _ = Inr realized\<close>
          by (simp add: enter_position_def Let_def sbind_def split: option.splits)
        then show ?thesis using enter [OF assms(1) s assms(2) refl assms(3) ok planned Inr] by simp
      qed
    qed
  qed
qed

lemma fill_signal:
  assumes "C c" "0 < q" "ty = BUY \<Longrightarrow> entry_gate rc I c" "policy \<Longrightarrow> ty = BUY \<Longrightarrow> plan \<noteq> None"
  shows "preserves I (fill_signal config filters b ty c eq q plan)"
proof -
  have "reaches I I (apply_exit_fill (cfg_risk config) (open_time_ms c) q (simulate_sell b q (c_open c)) EXIT_REASON_STRATEGY (c_open c))"
    by (rule exit_fill) (use assms in \<open>auto simp: exit_reference_def\<close>)
  then show ?thesis unfolding fill_signal_def using assms
    by (auto simp: reaches_self intro: enter_position)
qed

lemma gate_signal:
  assumes "C c" and gate: "ty = BUY \<Longrightarrow> \<exists>s1 s2. I s1 \<and> I s2 \<and> eq = portfolio_equity (sg_portfolio s1) (c_open c) \<and> dd = drawdown_of (sg_peak_equity s2) eq"
    and planned: "policy \<Longrightarrow> ty = BUY \<Longrightarrow> plan \<noteq> None"
  shows "preserves I (gate_signal config rc filters b ty c eq dd sized plan)"
proof -
  have go: "reaches I I (fill_signal config filters b ty c eq q plan)"
    if "possible I (slift (mk_trade_intent ty (c_symbol c) sized (c_open c))) intent"
      and "possible I (sget (backtest_risk_context eq dd)) ctx"
      and "\<not> \<not> rd_approved (risk_evaluate rc intent ctx)"
      and "possible I (slift (validate_order intent filters)) v"
      and "(if ov_approved v then ov_quantity v else None) = Some q" for intent ctx v q
  proof -
    have q: "0 < q" using validate_order_approved [OF possibleD(1) [OF that(4)]] that(5) by (auto split: if_splits)
    have "entry_gate rc I c" if b: "ty = BUY"
    proof -
      obtain s1 s2 where s12: "I s1" "I s2" "eq = portfolio_equity (sg_portfolio s1) (c_open c)" "dd = drawdown_of (sg_peak_equity s2) eq"
        using gate [OF b] by blast
      obtain s3 where s3: "I s3" "ctx = backtest_risk_context eq dd s3"
        using \<open>possible I (sget (backtest_risk_context eq dd)) ctx\<close> by (auto simp: possible_get)
      have "ti_signal_type intent = BUY"
        using possibleD(1) [OF \<open>possible I (slift (mk_trade_intent _ _ _ _)) intent\<close>] b
        by (auto simp: mk_trade_intent_def)
      with s12 s3 \<open>\<not> \<not> rd_approved _\<close> show ?thesis unfolding entry_gate_def by blast
    qed
    with assms(1) q show ?thesis unfolding reaches_self using planned by (rule fill_signal)
  qed
  have "reaches I I (gate_signal config rc filters b ty c eq dd sized plan)"
    unfolding gate_signal_def Let_def
    by (intro reaches_bind reach_cases go stepI reaches_self [THEN iffD2, OF diag_gate] reaches_self [THEN iffD2, OF diag_rejected]
        reaches_self [THEN iffD2, OF preserves_basic(1)]; assumption)
  then show ?thesis unfolding reaches_self .
qed

lemma resolve_pending_signal:
  assumes "C c"
  shows "preserves I (resolve_pending_signal policy config rc filters b ty c)"
proof -
  have pk: "preserves I (smodify (\<lambda>s. s\<lparr>sg_peak_equity := max (sg_peak_equity s) (portfolio_equity (sg_portfolio s) (c_open c))\<rparr>))"
    by (rule preserves_modify) (rule peak)
  have go: "reaches I I (gate_signal config rc filters b ty c eq dd sized plan)"
    if "possible I (sget (\<lambda>s. portfolio_equity (sg_portfolio s) (c_open c))) eq"
      "possible I (sget (\<lambda>s. drawdown_of (sg_peak_equity s) eq)) dd"
      "possible I (slift (size_signal policy config filters ty eq (c_open c) p)) x" "x = (sizing, plan)" for eq dd sized plan p sizing x
  proof -
    have "plan \<noteq> None" if policy "ty = BUY"
      using possibleD(1) [OF \<open>possible I (slift _) _\<close>] that \<open>x = _\<close> by (auto simp: size_signal_def)
    then show ?thesis using gate_signal [OF assms, of ty eq dd plan] that(1,2) unfolding reaches_self possible_get by blast
  qed
  have "reaches I I (resolve_pending_signal policy config rc filters b ty c)"
    unfolding resolve_pending_signal_def Let_def
    by (intro reaches_bind reach_cases go pk stepI reaches_self [THEN iffD2, OF diag_sizing]; assumption)
  then show ?thesis unfolding reaches_self .
qed

lemma fill_pending: "C c \<Longrightarrow> preserves I (fill_pending policy config rc filters b c)"
  unfolding fill_pending_def by (intro stepI resolve_pending_signal preserves_modify pending)

lemma stop_exit:
  assumes "C c" "I s" "stop_hit c s" "execute_stop_exit (cfg_risk config) b c s = (r, t)"
  shows "I t"
proof -
  from assms(3) obtain sp where sp: "sg_stop_price s = Some sp" "position_side (sg_portfolio s) = LONG"
    by (auto simp: stop_hit_def split: option.splits)
  let ?q = "base_balance (sg_portfolio s)" and ?ref = "min sp (c_open c)"
  have "reaches (\<lambda>u. u = s) I (sbind (apply_exit_fill (cfg_risk config) (open_time_ms c) ?q (simulate_sell b ?q ?ref)
      EXIT_REASON_STOP_LOSS ?ref) (\<lambda>_. bt_record ty pl tm))" for ty pl tm
    unfolding reaches_def
  proof (intro conjI triple_bind allI impI)
    have "reaches (\<lambda>u. u = s) I (apply_exit_fill (cfg_risk config) (open_time_ms c) ?q (simulate_sell b ?q ?ref) EXIT_REASON_STOP_LOSS ?ref)"
      by (rule exit_fill [OF assms(1)]) (use sp assms(2) in \<open>auto simp: exit_reference_def\<close>)
    then show "triple (\<lambda>u. u = s) (apply_exit_fill (cfg_risk config) (open_time_ms c) ?q (simulate_sell b ?q ?ref) EXIT_REASON_STOP_LOSS ?ref) (\<lambda>_. I) I"
      by (simp add: reaches_def)
    show "triple I (bt_record ty pl tm) (\<lambda>_. I) I" by (rule preserves_triple) (rule bt_record)
  qed (use assms(2) in simp)
  then show ?thesis using assms(4) sp
    by (auto simp: execute_stop_exit_def sbind_def [of "sget _"] sbind_def [of "slift _"] Let_def dest: reachesD)
qed

lemma target_exit:
  assumes "C c" "I s" "target_hit c s" "execute_take_profit_exit (cfg_risk config) b c s = (r, t)"
  shows "I t"
proof -
  from assms(3) obtain tp where tp: "sg_target_price s = Some tp" "position_side (sg_portfolio s) = LONG"
    by (auto simp: target_hit_def split: option.splits)
  let ?q = "base_balance (sg_portfolio s)"
  have "reaches (\<lambda>u. u = s) I (sbind (apply_exit_fill (cfg_risk config) (open_time_ms c) ?q (simulate_sell b ?q tp)
      EXIT_REASON_TAKE_PROFIT tp) (\<lambda>_. bt_record ty pl tm))" for ty pl tm
    unfolding reaches_def
  proof (intro conjI triple_bind allI impI)
    have "reaches (\<lambda>u. u = s) I (apply_exit_fill (cfg_risk config) (open_time_ms c) ?q (simulate_sell b ?q tp) EXIT_REASON_TAKE_PROFIT tp)"
      by (rule exit_fill [OF assms(1)]) (use tp assms(2) in \<open>auto simp: exit_reference_def\<close>)
    then show "triple (\<lambda>u. u = s) (apply_exit_fill (cfg_risk config) (open_time_ms c) ?q (simulate_sell b ?q tp) EXIT_REASON_TAKE_PROFIT tp) (\<lambda>_. I) I"
      by (simp add: reaches_def)
    show "triple I (bt_record ty pl tm) (\<lambda>_. I) I" by (rule preserves_triple) (rule bt_record)
  qed (use assms(2) in simp)
  then show ?thesis using assms(4) tp
    by (auto simp: execute_take_profit_exit_def sbind_def [of "sget _"] sbind_def [of "slift _"] dest: reachesD)
qed

lemma protect:
  assumes "C c"
  shows "preserves I (protect policy (cfg_risk config) b c)"
proof (rule preservesI)
  fix s r t
  assume s: "I s" and run: "protect policy (cfg_risk config) b c s = (r, t)"
  show "I t"
  proof (cases "stop_hit c s")
    case True
    then show ?thesis using run stop_exit [OF assms s] by (simp add: protect_def sbind_def)
  next
    case False
    then show ?thesis using run target_exit [OF assms s] s
      by (simp add: protect_def sbind_def split: if_splits)
  qed
qed

lemma take_signal: "I s \<Longrightarrow> I (take_signal sig s)"
  unfolding take_signal_def by (auto intro!: pending diag simp: same_books_def split: signal_type.split)

end

locale bar_steps = fill_steps +
  assumes start: "C c \<Longrightarrow> I s \<Longrightarrow> I (start_bar c s)"
    and close: "I s \<Longrightarrow> I (close_bar c s)"
begin

lemma run_bar:
  assumes "C c"
  shows "preserves I (run_bar policy config rc filters b strategy history c)"
  unfolding run_bar_def
  by (intro stepI fill_pending protect assms preserves_modify start peak close take_signal)

lemma run_bars:
  assumes "\<And>i c. i \<in> set is \<Longrightarrow> nth_res segment i = Inr c \<Longrightarrow> C c"
  shows "preserves I (run_bars policy config rc filters b strategy segment is)"
  using assms
proof (induction "is")
  case Nil
  show ?case unfolding run_bars.simps by (intro stepI)
next
  case (Cons i "is")
  have go: "reaches I I (sbind (run_bar policy config rc filters b strategy h c) (\<lambda>_. run_bars policy config rc filters b strategy segment is))"
    if "possible I (slift (nth_res segment i)) c" for c h
    unfolding reaches_self using Cons possibleD(1) [OF that] by (intro stepI run_bar Cons.IH) auto
  have "reaches I I (run_bars policy config rc filters b strategy segment (i # is))"
    unfolding run_bars.simps by (intro reaches_bind stepI go; assumption)
  then show ?case unfolding reaches_self .
qed

end

section \<open>A run is well formed\<close>

text \<open>Costs as fractions, and a stop below the entry.\<close>

definition sane_costs :: "app_config \<Rightarrow> backtest_broker \<Rightarrow> bool" where
  "sane_costs config b \<longleftrightarrow> 0 \<le> bk_taker_fee_pct b \<and> bk_taker_fee_pct b \<le> 1 \<and> 0 \<le> bk_slippage_pct b \<and>
     bk_slippage_pct b \<le> 1 \<and> dec_of_float (stop_distance_pct (cfg_stop_loss config)) \<le> 1"

text \<open>
  An open trade is a position held, protected by the stop at the configured distance below its
  fill and, under the fixed policy, by the target of a plan that keeps to it; without one
  there is neither.
\<close>

definition protected :: "app_config \<Rightarrow> seg_state \<Rightarrow> bool" where
  "protected config s \<longleftrightarrow>
     (case sg_open_trade s of
        None \<Rightarrow> sg_stop_price s = None \<and> sg_target_price s = None
      | Some ot \<Rightarrow>
          position_side (sg_portfolio s) = LONG \<and> base_balance (sg_portfolio s) = 0 + ot_quantity ot \<and>
          0 < ot_quantity ot \<and> 0 \<le> ot_entry_price ot \<and>
          sg_stop_price s = Some (ot_entry_price ot * (1 - dec_of_float (stop_distance_pct (cfg_stop_loss config)))) \<and>
          position_plan config (ot_quantity ot) (ot_entry_price ot) (ot_realized_plan ot) \<and>
          sg_target_price s = Option.bind (ot_realized_plan ot) rr_target_price)"

text \<open>
  A closed trade: its price is the reference less the slippage, a stop is never priced better
  than the stop of the position, a target never below its entry.
\<close>

definition trade_booked :: "app_config \<Rightarrow> backtest_broker \<Rightarrow> trade \<Rightarrow> bool" where
  "trade_booked config b t \<longleftrightarrow>
     0 < t_quantity t \<and> 0 \<le> t_entry_price t \<and> 0 \<le> t_exit_price t \<and>
     t_fees_paid t = t_entry_fee_quote t + t_exit_fee_quote t \<and>
     t_exit_price t = t_exit_reference_price t * (1 - bk_slippage_pct b) \<and>
     (t_exit_reason t = EXIT_REASON_STRATEGY \<or>
      t_exit_reason t = EXIT_REASON_STOP_LOSS \<and>
        t_exit_reference_price t \<le> t_entry_price t * (1 - dec_of_float (stop_distance_pct (cfg_stop_loss config))) \<or>
      t_exit_reason t = EXIT_REASON_TAKE_PROFIT \<and> t_entry_price t < t_exit_reference_price t)"

definition seg_ok :: "app_config \<Rightarrow> backtest_broker \<Rightarrow> seg_state \<Rightarrow> bool" where
  "seg_ok config b s \<longleftrightarrow> wf_portfolio (sg_portfolio s) \<and> rep_portfolio (sg_portfolio s) \<and> protected config s \<and>
     executed_entries (sg_diag s) = int (length (sg_trades s)) + (if sg_open_trade s = None then 0 else 1) \<and>
     (\<forall>t \<in> set (sg_trades s). trade_booked config b t)"

lemma fee_le_proceeds:
  assumes "0 \<le> k" "k \<le> 1" "0 \<le> q" "0 \<le> p"
  shows "q * p * k \<le> (q * p :: dec)"
proof -
  have "q * p * k \<le> q * p * 1" using assms by (intro dec_mult_left_mono dec_mult_nonneg)
  also have "q * p * 1 = q * p" by (simp add: dec_eq_iff dval_times dec.idem)
  finally show ?thesis .
qed

lemma simulated_sell:
  assumes "sane_costs config b" "0 \<le> q" "0 \<le> ref" "f = simulate_sell b q ref"
  shows "0 \<le> sf_fill_price f \<and> 0 \<le> sf_fee_quote f \<and> sf_fee_quote f \<le> q * sf_fill_price f"
proof -
  have "0 \<le> ref * (1 - bk_slippage_pct b)" using assms by (intro dec_mult_nonneg) (auto simp: sane_costs_def)
  with assms show ?thesis
    by (auto simp: simulate_sell_def Let_def sane_costs_def intro!: fee_le_proceeds dec_mult_nonneg)
qed

lemma simulated_buy:
  assumes "sane_costs config b" "0 \<le> q" "0 \<le> ref" "f = simulate_buy b q ref"
  shows "0 \<le> sf_fill_price f \<and> 0 \<le> sf_fee_quote f \<and> rep (sf_fee_quote f)"
proof -
  have "0 \<le> ref * (1 + bk_slippage_pct b)" using assms
    by (intro dec_mult_nonneg dec_add_nonneg) (auto simp: sane_costs_def less_eq_dec_def)
  with assms show ?thesis by (auto simp: simulate_buy_def Let_def sane_costs_def intro!: dec_mult_nonneg)
qed

lemma protected_reference:
  assumes "protected config s" "sane_costs config b" "0 \<le> c_open c" "exit_reference c s reason ref"
  shows "0 \<le> ref"
proof (cases "sg_open_trade s")
  case None
  with assms show ?thesis by (auto simp: protected_def exit_reference_def)
next
  case (Some ot)
  then have sp: "0 \<le> ot_entry_price ot * (1 - dec_of_float (stop_distance_pct (cfg_stop_loss config)))"
    using assms by (auto simp: protected_def sane_costs_def intro!: dec_mult_nonneg)
  have "0 \<le> tp" if "sg_target_price s = Some tp" for tp
    using that Some assms(1) by (auto simp: protected_def position_plan_def plan_ok_def bind_eq_Some_conv split: option.splits)
  with sp Some assms show ?thesis by (auto simp: protected_def exit_reference_def)
qed

lemma close_position_fields:
  "sg_portfolio (close_position rc t q f reason ref p s) = p"
  "sg_open_trade (close_position rc t q f reason ref p s) = None"
  "sg_stop_price (close_position rc t q f reason ref p s) = None"
  "sg_target_price (close_position rc t q f reason ref p s) = None"
  "sg_trades (close_position rc t q f reason ref p s) = sg_trades s @ (case sg_open_trade s of None \<Rightarrow> []
     | Some ot \<Rightarrow> [closed_trade ot t q f (realized_pnl_quote p - realized_pnl_quote (sg_portfolio s)) reason ref])"
  "executed_entries (sg_diag (close_position rc t q f reason ref p s)) = executed_entries (sg_diag s)"
  "sg_equity_curve (close_position rc t q f reason ref p s) = sg_equity_curve s"
  "sg_snapshots (close_position rc t q f reason ref p s) = sg_snapshots s"
  by (simp_all add: close_position_def Let_def split: option.split)

lemma opened_fields:
  "sg_portfolio (opened config c q f ref plan p s) = p"
  "sg_trades (opened config c q f ref plan p s) = sg_trades s"
  "sg_equity_curve (opened config c q f ref plan p s) = sg_equity_curve s"
  "sg_snapshots (opened config c q f ref plan p s) = sg_snapshots s"
  "executed_entries (sg_diag (opened config c q f ref plan p s)) = executed_entries (sg_diag s) + 1"
  "sg_open_trade (opened config c q f ref plan p s) \<noteq> None"
  by (simp_all add: opened_def Let_def record_rr_entry_def split: option.split)

lemma seg_ok_close:
  assumes "sane_costs config b" "0 \<le> c_open c" "seg_ok config b s" "0 < q \<or> q = base_balance (sg_portfolio s)"
    and "exit_reference c s reason ref"
    and "f = simulate_sell b q ref" and sell: "apply_sell (sg_portfolio s) q (sf_fill_price f) (sf_fee_quote f) False = Inr p"
  shows "seg_ok config b (close_position rc t q f reason ref p s)"
proof -
  have ok: "wf_portfolio (sg_portfolio s)" "rep_portfolio (sg_portfolio s)" "protected config s"
    using assms(3) by (auto simp: seg_ok_def)
  have q: "0 < q" using assms(4) ok(1) apply_sell_is_long [OF sell] by (auto simp: wf_portfolio_LONG)
  have f: "0 \<le> sf_fill_price f \<and> 0 \<le> sf_fee_quote f \<and> sf_fee_quote f \<le> q * sf_fill_price f"
    using simulated_sell [OF assms(1) _ _ assms(6)] protected_reference [OF ok(3) assms(1,2,5)] q by simp
  have "wf_portfolio p" using apply_sell_wf [OF sell ok(1) q] f ok(2) by (simp add: rep_portfolio_def)
  moreover have "rep_portfolio p" using sell by (rule apply_sell_rep)
  moreover have "trade_booked config b (closed_trade ot t q f r reason ref)" if "sg_open_trade s = Some ot" for ot r
  proof -
    have "reason = EXIT_REASON_TAKE_PROFIT \<Longrightarrow> ot_entry_price ot < ref"
      if "sg_target_price s = Some ref" using that \<open>sg_open_trade s = Some ot\<close> ok(3)
      by (auto simp: protected_def position_plan_def plan_ok_def bind_eq_Some_conv split: option.splits)
    then show ?thesis using that ok(3) f q assms(5,6)
      by (auto simp: protected_def trade_booked_def closed_trade_def exit_reference_def simulate_sell_def Let_def)
  qed
  ultimately show ?thesis using assms(3)
    by (auto simp: seg_ok_def protected_def close_position_fields split: option.splits)
qed

lemma seg_ok_opened:
  assumes "sane_costs config b" "0 \<le> c_open c" "seg_ok config b s" "0 < q" "f = simulate_buy b q (c_open c)"
    and plan: "position_plan config q (sf_fill_price f) plan"
    and buy: "apply_buy (sg_portfolio s) q (sf_fill_price f) (sf_fee_quote f) False = Inr p"
  shows "seg_ok config b (opened config c q f (c_open c) plan p s)"
proof -
  have ok: "wf_portfolio (sg_portfolio s)" "rep_portfolio (sg_portfolio s)" "protected config s"
    using assms(3) by (auto simp: seg_ok_def)
  have f: "0 \<le> sf_fill_price f" "0 \<le> sf_fee_quote f" "rep (sf_fee_quote f)"
    using simulated_buy [OF assms(1) _ assms(2,5)] assms(4) by simp_all
  have flat: "position_side (sg_portfolio s) = FLAT" "base_balance p = base_balance (sg_portfolio s) + q" "position_side p = LONG"
    using buy by (cases "position_side (sg_portfolio s)"; auto simp: apply_buy_def Let_def split: if_splits)+
  then have none: "sg_open_trade s = None" "sg_target_price s = None" "base_balance p = 0 + q"
    using ok(1,3) by (auto simp: protected_def wf_portfolio_def split: option.splits)
  have "wf_portfolio p" using apply_buy_wf [OF buy ok(1) assms(4)] f by simp
  moreover have "rep_portfolio p" using apply_buy_rep [OF buy ok(2) f(3)] .
  moreover have "protected config (opened config c q f (c_open c) plan p s)"
    using none flat assms(4) f(1) plan
    by (auto simp: protected_def opened_def Let_def position_plan_def split: option.splits)
  ultimately show ?thesis using assms(3) none
    by (simp add: seg_ok_def opened_fields)
qed

text \<open>What the invariant reads.\<close>

lemma seg_ok_cong:
  assumes "sg_portfolio t = sg_portfolio s" "sg_open_trade t = sg_open_trade s" "sg_stop_price t = sg_stop_price s"
    "sg_target_price t = sg_target_price s" "executed_entries (sg_diag t) = executed_entries (sg_diag s)"
    "sg_trades t = sg_trades s"
  shows "seg_ok config b s \<Longrightarrow> seg_ok config b t"
  using assms by (cases "sg_open_trade s") (simp_all add: seg_ok_def protected_def)

interpretation well_formed: bar_steps config rc b "\<lambda>c. 0 \<le> c_open c" "\<lambda>s. sane_costs config b \<and> seg_ok config b s" policy
  for config rc b policy
proof unfold_locales
  fix s :: seg_state and c and f and p and q reason ref plan
  let ?I = "\<lambda>s. sane_costs config b \<and> seg_ok config b s"
  assume s: "?I s"
  have same: "?I t" if "seg_ok config b s \<Longrightarrow> seg_ok config b t" for t using s that by blast
  show "?I (start_bar c s)" by (rule same, erule seg_ok_cong [rotated -1]) (simp_all add: start_bar_def Let_def)
  show "?I (close_bar c s)" by (rule same, erule seg_ok_cong [rotated -1]) (simp_all add: close_bar_def)
  show "?I (s\<lparr>sg_journal := j\<rparr>)" for j by (rule same, erule seg_ok_cong [rotated -1]) simp_all
  show "?I (s\<lparr>sg_diag := d\<rparr>)" if "same_books d (sg_diag s)" for d
    by (rule same, erule seg_ok_cong [rotated -1]) (use that in \<open>simp_all add: same_books_def\<close>)
  show "?I (s\<lparr>sg_peak_equity := max (sg_peak_equity s) (portfolio_equity (sg_portfolio s) price)\<rparr>)" for price
    by (rule same, erule seg_ok_cong [rotated -1]) simp_all
  show "?I (s\<lparr>sg_pending_signal := v\<rparr>)" for v by (rule same, erule seg_ok_cong [rotated -1]) simp_all
  show "?I (close_position (cfg_risk config) (open_time_ms c) q f reason ref p s)"
    if "0 \<le> c_open c" "0 < q \<or> q = base_balance (sg_portfolio s)" "exit_reference c s reason ref" "f = simulate_sell b q ref"
      "apply_sell (sg_portfolio s) q (sf_fill_price f) (sf_fee_quote f) False = Inr p"
    using s seg_ok_close [OF _ that(1) _ that(2-5)] by blast
  show "?I (opened config c q f (c_open c) plan p s)"
    if "0 \<le> c_open c" "0 < q" "f = simulate_buy b q (c_open c)" "position_plan config q (sf_fill_price f) plan"
      "apply_buy (sg_portfolio s) q (sf_fill_price f) (sf_fee_quote f) False = Inr p"
    using s seg_ok_opened [OF _ that(1) _ that(2-5)] by blast
qed

section \<open>The drawdown shutdown\<close>

text \<open>
  Flat with the whole account in cash, and the cash below the peak by at least the limit:
  nothing can be entered, so neither cash nor peak moves again.
\<close>

definition shut_down :: "risk_config \<Rightarrow> dec \<Rightarrow> dec \<Rightarrow> trade list \<Rightarrow> seg_state \<Rightarrow> bool" where
  "shut_down rc cash peak trades s \<longleftrightarrow>
     position_side (sg_portfolio s) = FLAT \<and> base_balance (sg_portfolio s) = 0 \<and>
     quote_balance (sg_portfolio s) = cash \<and> sg_peak_equity s = peak \<and> sg_trades s = trades \<and>
     rep cash \<and> cash \<le> peak \<and> max_drawdown_pct rc \<le> drawdown_of peak cash"

lemma shut_down_equity: "shut_down rc cash peak trades s \<Longrightarrow> portfolio_equity (sg_portfolio s) price = cash"
  by (simp add: shut_down_def portfolio_equity_def rep_add_zero)

lemma shut_down_entry: "\<not> entry_gate rc (shut_down rc cash peak trades) c"
proof
  assume "entry_gate rc (shut_down rc cash peak trades) c"
  then obtain s1 s2 s3 intent where s: "shut_down rc cash peak trades s1" "shut_down rc cash peak trades s2"
    and b: "ti_signal_type intent = BUY"
    and ok: "rd_approved (risk_evaluate rc intent (backtest_risk_context (portfolio_equity (sg_portfolio s1) (c_open c))
      (drawdown_of (sg_peak_equity s2) (portfolio_equity (sg_portfolio s1) (c_open c))) s3))"
    unfolding entry_gate_def by blast
  have "max_drawdown_pct rc \<le> drawdown_of peak cash" "sg_peak_equity s2 = peak" using s(2) by (auto simp: shut_down_def)
  then show False using ok b shut_down_equity [OF s(1)]
    by (simp add: risk_evaluate_iff buy_ok_def backtest_risk_context_def not_less [symmetric])
qed

interpretation halted: bar_steps config rc b "\<lambda>_. True" "shut_down rc cash peak trades" policy for config rc b cash peak trades policy
proof unfold_locales
  fix s :: seg_state and c and f and p and q reason ref plan
  let ?I = "shut_down rc cash peak trades"
  assume s: "?I s"
  show "?I (start_bar c s)" using s by (simp add: shut_down_def start_bar_def Let_def)
  show "?I (close_bar c s)" using s by (simp add: shut_down_def close_bar_def)
  show "?I (s\<lparr>sg_journal := j\<rparr>)" "?I (s\<lparr>sg_diag := d\<rparr>)" "?I (s\<lparr>sg_pending_signal := v\<rparr>)" for j d v
    using s by (simp_all add: shut_down_def)
  show "?I (s\<lparr>sg_peak_equity := max (sg_peak_equity s) (portfolio_equity (sg_portfolio s) price)\<rparr>)" for price
    using s shut_down_equity [OF s] by (simp add: shut_down_def)
  show "?I (close_position (cfg_risk config) (open_time_ms c) q f reason ref p s)"
    if "apply_sell (sg_portfolio s) q (sf_fill_price f) (sf_fee_quote f) False = Inr p"
    using s apply_sell_is_long [OF that] by (simp add: shut_down_def)
  show "?I (opened config c q f (c_open c) plan p s)" if "entry_gate rc ?I c"
    using that shut_down_entry by blast
qed

section \<open>What a bar records\<close>

text \<open>Only the close of a bar extends the curve and the snapshots.\<close>

interpretation unrecorded: fill_steps config rc b "\<lambda>_. True" "\<lambda>s. sg_equity_curve s = cv \<and> sg_snapshots s = sn" policy
  for config rc b cv sn policy
  by unfold_locales (auto simp: close_position_fields opened_fields)

text \<open>A snapshot marked at a close.\<close>

definition marked :: "snapshot \<Rightarrow> candle \<Rightarrow> dec" where
  "marked n c = sn_cash_quote n + sn_base_quantity n * c_close c"

lemma run_bar_records:
  assumes "run_bar policy config rc filters b strategy h c s = (Inr x, t)"
  shows "\<exists>e n. sg_equity_curve t = sg_equity_curve s @ [e] \<and> sg_snapshots t = sg_snapshots s @ [n] \<and>
    ep_timestamp_ms e = close_time_ms c \<and> ep_equity e = marked n c"
proof -
  let ?I = "\<lambda>u. sg_equity_curve u = sg_equity_curve s \<and> sg_snapshots u = sg_snapshots s"
  note kept = preservesD [where I = ?I]
  from assms obtain u1 u2 u3 u4 v1 v2 v3 w x where
    u: "fill_pending policy config rc filters b c (start_bar c s) = (Inr v1, u1)"
      "protect policy (cfg_risk config) b c u1 = (Inr v2, u2)"
      "bt_record w x (close_time_ms c) (u2\<lparr>sg_peak_equity := max (sg_peak_equity u2) (portfolio_equity (sg_portfolio u2) (c_close c))\<rparr>) = (Inr v3, u3)"
    and t: "\<exists>sig. t = close_bar c (take_signal sig u3)"
    unfolding run_bar_def sbind_eq_Inr step_simps by (clarsimp, blast)
  have "?I (start_bar c s)" by (simp add: start_bar_def Let_def)
  then have "?I u1" using kept [OF unrecorded.fill_pending _ u(1)] by blast
  then have "?I u2" using kept [OF unrecorded.protect _ u(2)] by blast
  then have "?I u3" using u(3) by (auto simp: bt_record_def)
  then have "?I (take_signal sig u3)" for sig by (auto simp: take_signal_def split: signal_type.split)
  then show ?thesis using t by (auto simp: close_bar_def marked_def portfolio_equity_def)
qed

lemma run_bars_records:
  assumes "run_bars policy config rc filters b strategy segment is s = (Inr x, t)"
  shows "\<exists>cs es ns. map (nth_res segment) is = map Inr cs \<and>
    sg_equity_curve t = sg_equity_curve s @ es \<and> sg_snapshots t = sg_snapshots s @ ns \<and>
    map ep_timestamp_ms es = map close_time_ms cs \<and> map ep_equity es = map2 marked ns cs \<and> length ns = length cs"
  using assms
proof (induction "is" arbitrary: s)
  case (Cons i "is")
  then obtain c u y where c: "nth_res segment i = Inr c"
    and bar: "run_bar policy config rc filters b strategy (take (nat (i + 1)) segment) c s = (Inr y, u)"
    and rest: "run_bars policy config rc filters b strategy segment is u = (Inr x, t)"
    by (auto simp: sbind_eq_Inr)
  from Cons.IH [OF rest] obtain cs es ns where r: "map (nth_res segment) is = map Inr cs"
    "sg_equity_curve t = sg_equity_curve u @ es" "sg_snapshots t = sg_snapshots u @ ns"
    "map ep_timestamp_ms es = map close_time_ms cs" "map ep_equity es = map2 marked ns cs" "length ns = length cs" by blast
  from run_bar_records [OF bar] obtain e n where "sg_equity_curve u = sg_equity_curve s @ [e]"
    "sg_snapshots u = sg_snapshots s @ [n]" "ep_timestamp_ms e = close_time_ms c" "ep_equity e = marked n c" by blast
  with c r show ?case by (intro exI [of _ "c # cs"] exI [of _ "e # es"] exI [of _ "n # ns"]) simp
qed simp

section \<open>When trades happen\<close>

text \<open>Every trade and the open position carry open times of bars of the run.\<close>

definition traded_in :: "int set \<Rightarrow> seg_state \<Rightarrow> bool" where
  "traded_in T s \<longleftrightarrow> (\<forall>t \<in> set (sg_trades s). t_entry_time_ms t \<in> T \<and> t_exit_time_ms t \<in> T) \<and>
     (case sg_open_trade s of None \<Rightarrow> True | Some ot \<Rightarrow> ot_entry_time_ms ot \<in> T)"

interpretation in_window: bar_steps config rc b "\<lambda>c. open_time_ms c \<in> T" "traded_in T" policy for config rc b T policy
proof unfold_locales
  fix s :: seg_state and c and f and p and q reason ref plan
  assume s: "traded_in T s"
  show "traded_in T (start_bar c s)" using s by (simp add: traded_in_def start_bar_def Let_def)
  show "traded_in T (close_bar c s)" using s by (simp add: traded_in_def close_bar_def)
  show "traded_in T (s\<lparr>sg_journal := j\<rparr>)" "traded_in T (s\<lparr>sg_diag := d\<rparr>)" "traded_in T (s\<lparr>sg_pending_signal := v\<rparr>)"
    "traded_in T (s\<lparr>sg_peak_equity := e\<rparr>)" for j d v e
    using s by (simp_all add: traded_in_def)
  show "traded_in T (close_position (cfg_risk config) (open_time_ms c) q f reason ref p s)" if "open_time_ms c \<in> T"
    using s that by (auto simp: traded_in_def close_position_fields closed_trade_def split: option.splits)
  show "traded_in T (opened config c q f (c_open c) plan p s)" if "open_time_ms c \<in> T"
    using s that by (auto simp: traded_in_def opened_fields) (simp add: opened_def Let_def)
qed

text \<open>What a run has recorded stays.\<close>

interpretation growing: bar_steps config rc b "\<lambda>_. True"
  "\<lambda>s. prefix tr (sg_trades s) \<and> prefix cv (sg_equity_curve s) \<and> prefix sn (sg_snapshots s)" policy
  for config rc b tr cv sn policy
  by unfold_locales (auto simp: close_position_fields opened_fields start_bar_def close_bar_def Let_def intro: prefix_append)

section \<open>No bar looks ahead\<close>

lemma run_bars_append:
  "run_bars policy config rc filters b strategy segment (is @ js) =
     sbind (run_bars policy config rc filters b strategy segment is)
       (\<lambda>_. run_bars policy config rc filters b strategy segment js)"
  by (induction "is") (auto simp: fun_eq_iff sbind_def split: prod.split sum.split)

lemma nth_res_take: "0 \<le> i \<Longrightarrow> i < int n \<Longrightarrow> nth_res (take n xs) i = nth_res xs i"
  by (auto simp: nth_res_def)

lemma run_bars_take:
  assumes "\<And>i. i \<in> set is \<Longrightarrow> 0 \<le> i \<and> i < int n"
  shows "run_bars policy config rc filters b strategy (take n segment) is = run_bars policy config rc filters b strategy segment is"
  using assms
proof (induction "is")
  case (Cons i "is")
  have i: "0 \<le> i" "i < int n" using Cons.prems [of i] by simp_all
  then have "take (nat (i + 1)) (take n segment) = take (nat (i + 1)) segment" by (simp add: min_absorb1)
  with Cons nth_res_take [OF i, of segment] show ?case by simp
qed simp

end
