(* ===== verification/Backtest_Example.thy ===== *)
theory Backtest_Example
  imports Backtest_Invariants
begin

text \<open>
  A concrete backtest: three bars, a buy signal after the first, filled at the second open
  and stopped out on the third. It shows that the hypotheses of the properties can hold.
\<close>

definition bt_config :: app_config where
  "bt_config = (default_config BACKTEST)\<lparr>
     cfg_fees := \<lparr>taker_fee_pct = 0, maker_fee_pct = 0, slippage_pct = 0\<rparr>,
     cfg_stop_loss := \<lparr>stop_distance_pct = Flt (1 / 4)\<rparr>,
     cfg_risk := \<lparr>max_position_pct = Flt (3 / 4), max_risk_per_trade_pct = Flt (1 / 4), max_daily_loss_pct = Flt (1 / 2),
                 max_drawdown_pct = Flt (1 / 8), max_trades_per_day = 4, cooldown_bars_after_loss = 2,
                 stale_data_max_age_seconds = 21600, min_quote_balance = Flt 5,
                 max_consecutive_api_errors = 3\<rparr>\<rparr>"

definition bt_filters :: symbol_filters where
  "bt_filters = \<lparr>f_symbol = ''BTCUSDT'', tick_size = DecLit 1 0, min_price = 0, max_price = Dec 1000000,
     step_size = DecLit 1 0, min_qty = 1, max_qty = Dec 1000, min_notional = Dec 10,
     max_notional = None, apply_min_notional_to_market = True\<rparr>"

definition bt_candle :: "int \<Rightarrow> rat \<Rightarrow> rat \<Rightarrow> candle" where
  "bt_candle i op lo = \<lparr>c_symbol = ''BTCUSDT'', c_interval = ''4h'', open_time_ms = i * 14400000,
     close_time_ms = i * 14400000 + 14399999, c_open = Dec op, c_high = Dec op, c_low = Dec lo,
     c_close = Dec lo, c_volume = 1\<rparr>"

definition bt_segment :: "candle list" where
  "bt_segment = [bt_candle 0 100 100, bt_candle 1 100 90, bt_candle 2 70 60]"

definition bt_strategy :: signal_generator where
  "bt_strategy h side = Inr \<lparr>sg_type = (if length h = 1 then BUY else HOLD), sg_reason_code = ''DEMO'',
     sg_candle_close_time_ms = 0, sg_inputs = []\<rparr>"

definition bt_run :: "(segment_run_result \<times> journal_db option) result" where
  "bt_run = run_segment bt_segment bt_config bt_filters bt_strategy (cfg_risk bt_config) (mk_broker (cfg_fees bt_config))
     None 1 (Dec 1000) False"

section \<open>The arithmetic of the run\<close>

definition bt_broker :: backtest_broker where
  "bt_broker = \<lparr>bk_taker_fee_pct = 0, bk_slippage_pct = 0\<rparr>"

lemma bt_broker: "mk_broker (cfg_fees bt_config) = bt_broker"
  by code_simp

lemma bt_sane: "sane_costs bt_config bt_broker"
  by code_simp

definition bt_cash :: portfolio where
  "bt_cash = portfolio_initial (Dec 1000)"

definition bt_long :: portfolio where
  "bt_long = \<lparr>quote_balance = Dec 300, base_balance = Dec 7, position_side = LONG, avg_entry_price = Some (Dec 100),
     realized_pnl_quote = 0, open_position_entry_fee = 0, pnl_is_estimated = False\<rparr>"

definition bt_flat :: portfolio where
  "bt_flat = \<lparr>quote_balance = Dec 790, base_balance = 0, position_side = FLAT, avg_entry_price = None,
     realized_pnl_quote = Dec (- 210), open_position_entry_fee = 0, pnl_is_estimated = False\<rparr>"

lemma bt_sides [simp]:
  "position_side bt_cash = FLAT" "position_side bt_long = LONG" "position_side bt_flat = FLAT" "base_balance bt_long = Dec 7"
  by (simp_all add: bt_cash_def bt_long_def bt_flat_def portfolio_initial_def)

lemma bt_equity: "portfolio_equity bt_cash (Dec 100) = Dec 1000" "portfolio_equity bt_long (Dec 90) = Dec 930"
  by code_simp+

lemma bt_drawdown: "drawdown_of (Dec 1000) (Dec 1000) = 0"
  by code_simp

lemma bt_size: "size_signal False bt_config bt_filters BUY (Dec 1000) (Dec 100) bt_cash = Inr (sized_ok (Dec 7), None)"
  by code_simp

abbreviation bt_intent :: trade_intent where
  "bt_intent \<equiv> \<lparr>ti_signal_type = BUY, ti_symbol = ''BTCUSDT'', ti_quantity = Dec 7, ti_price = Dec 100\<rparr>"

lemma bt_made: "mk_trade_intent BUY ''BTCUSDT'' (Dec 7) (Dec 100) = Inr bt_intent"
  by code_simp

lemma bt_valid:
  "validate_order bt_intent bt_filters = Inr \<lparr>ov_approved = True, ov_quantity = Some (Dec 7), ov_reason = ''VALIDATED''\<rparr>"
  by code_simp

lemma bt_gate:
  "risk_evaluate (cfg_risk bt_config) bt_intent
     \<lparr>rc_equity = Dec 1000, rc_quote_balance = quote_balance bt_cash, rc_trades_today = 0, rc_cooldown_bars_remaining = 0,
      rc_daily_realized_pnl_pct = 0, rc_current_drawdown_pct = 0, rc_data_age_seconds = 0, rc_consecutive_api_errors = 0,
      rc_kill_switch_engaged = False, rc_is_duplicate_order = False, rc_reconciliation_blocked = False\<rparr>
   = approve ''APPROVED''"
  by code_simp

lemma bt_bought: "apply_buy bt_cash (Dec 7) (Dec 100) 0 False = Inr bt_long"
  and bt_sold: "apply_sell bt_long (Dec 7) (Dec 70) 0 False = Inr bt_flat"
  by code_simp+

lemma bt_fills: "simulate_buy bt_broker (Dec 7) (Dec 100) = \<lparr>sf_fill_price = Dec 100, sf_fee_quote = 0\<rparr>"
  "simulate_sell bt_broker (Dec 7) (Dec 70) = \<lparr>sf_fill_price = Dec 70, sf_fee_quote = 0\<rparr>"
  by code_simp+

lemma bt_stop: "Dec 100 * (1 - dec_of_float (stop_distance_pct (cfg_stop_loss bt_config))) = Dec 75"
  by code_simp

lemma bt_order: "min (Dec 75) (Dec 70) = Dec 70" "max (Dec 1000) (Dec 930) = Dec 1000" "\<not> Dec 90 \<le> Dec 75" "Dec 60 \<le> Dec 75"
  by code_simp+

section \<open>The run, bar by bar\<close>

abbreviation bt_bar :: "candle list \<Rightarrow> candle \<Rightarrow> unit run" where
  "bt_bar \<equiv> run_bar False bt_config (cfg_risk bt_config) bt_filters bt_broker bt_strategy"

definition bt_s0 :: seg_state where
  "bt_s0 = seg_start (Dec 1000) (bt_candle 0 100 100) None"

definition bt_s1 :: seg_state where
  "bt_s1 = snd (bt_bar [bt_candle 0 100 100] (bt_candle 0 100 100) bt_s0)"

lemma bt_candle_sel [simp]:
  "c_open (bt_candle i p q) = Dec p" "c_low (bt_candle i p q) = Dec q" "c_close (bt_candle i p q) = Dec q"
  "open_time_ms (bt_candle i p q) = i * 14400000" "c_symbol (bt_candle i p q) = ''BTCUSDT''"
  by (simp_all add: bt_candle_def)

lemmas bt_unfold = run_bar_def sbind_def fill_pending_def protect_def stop_hit_def target_hit_def bt_record_def
  close_bar_def take_signal_def bt_strategy_def start_bar_def Let_def MS_PER_DAY_def

lemma bt_bar0:
  "fst (bt_bar [bt_candle 0 100 100] (bt_candle 0 100 100) bt_s0) = Inr () \<and> sg_portfolio bt_s1 = bt_cash \<and> sg_pending_signal bt_s1 = Some BUY \<and>
   sg_peak_equity bt_s1 = Dec 1000 \<and> sg_trades bt_s1 = [] \<and> sg_stop_price bt_s1 = None \<and> sg_open_trade bt_s1 = None \<and>
   sg_trades_today bt_s1 = 0 \<and> sg_cooldown_bars_remaining bt_s1 = 0 \<and> sg_daily_realized_pnl_pct bt_s1 = 0 \<and>
   sg_current_day bt_s1 = Some 0 \<and> sg_journal bt_s1 = None \<and> shutdown_first_activation (sg_diag bt_s1) = []"
  by (simp add: bt_s1_def bt_s0_def seg_start_def diag_start_def bt_unfold bt_equity bt_cash_def [symmetric])

definition bt_s2 :: seg_state where
  "bt_s2 = snd (bt_bar [bt_candle 0 100 100, bt_candle 1 100 90] (bt_candle 1 100 90) bt_s1)"

definition bt_open :: open_trade where
  "bt_open = \<lparr>ot_entry_time_ms = 14400000, ot_entry_price = Dec 100, ot_quantity = Dec 7, ot_entry_fee = 0,
     ot_entry_reference_price = Dec 100, ot_realized_plan = None\<rparr>"

lemma bt_bar1:
  "fst (bt_bar [bt_candle 0 100 100, bt_candle 1 100 90] (bt_candle 1 100 90) bt_s1) = Inr () \<and> sg_portfolio bt_s2 = bt_long \<and>
   sg_pending_signal bt_s2 = None \<and> sg_trades bt_s2 = [] \<and> sg_stop_price bt_s2 = Some (Dec 75) \<and>
   sg_open_trade bt_s2 = Some bt_open \<and> sg_current_day bt_s2 = Some 0 \<and> sg_journal bt_s2 = None \<and> shutdown_first_activation (sg_diag bt_s2) = []"
  by (simp add: bt_s2_def bt_unfold resolve_pending_signal_def gate_signal_def fill_signal_def enter_position_def bt_bar0
      bt_equity bt_drawdown bt_size bt_made bt_gate bt_valid bt_fills bt_bought bt_stop bt_order backtest_risk_context_def
      realized_plan_of_def opened_def bt_open_def)

definition bt_s3 :: seg_state where
  "bt_s3 = snd (bt_bar bt_segment (bt_candle 2 70 60) bt_s2)"

definition bt_trade :: trade where
  "bt_trade = closed_trade bt_open 28800000 (Dec 7) \<lparr>sf_fill_price = Dec 70, sf_fee_quote = 0\<rparr>
     (realized_pnl_quote bt_flat - realized_pnl_quote bt_long) EXIT_REASON_STOP_LOSS (Dec 70)"

lemma bt_exit:
  assumes "sg_portfolio s = bt_long" "sg_stop_price s = Some (Dec 75)"
  shows "execute_stop_exit rc bt_broker (bt_candle 2 70 60) s = bt_record ''STOP_LOSS_TRIGGERED''
    [(''stop_price'', JDec (Dec 70)), (''quantity'', JDec (Dec 7))] 28800000
    (close_position rc 28800000 (Dec 7) \<lparr>sf_fill_price = Dec 70, sf_fee_quote = 0\<rparr> EXIT_REASON_STOP_LOSS (Dec 70) bt_flat s)"
  by (simp add: execute_stop_exit_def apply_exit_fill_def sbind_def Let_def assms bt_fills bt_sold bt_order)

lemma bt_bar2:
  "fst (bt_bar bt_segment (bt_candle 2 70 60) bt_s2) = Inr () \<and> sg_portfolio bt_s3 = bt_flat \<and> sg_trades bt_s3 = [bt_trade] \<and>
   sg_open_trade bt_s3 = None \<and> sg_journal bt_s3 = None \<and> shutdown_first_activation (sg_diag bt_s3) = []"
proof -
  have j: "sg_journal (close_position rc t q f r ref p s) = sg_journal s" for rc t q f r ref p s
    by (simp add: close_position_def Let_def split: option.split)
  have d: "shutdown_first_activation (sg_diag (close_position rc t q f r ref p s)) = shutdown_first_activation (sg_diag s)" for rc t q f r ref p s
    by (simp add: close_position_def Let_def split: option.split)
  show ?thesis
    by (simp add: bt_s3_def bt_unfold bt_exit bt_bar1 bt_order bt_trade_def close_position_fields j d bt_segment_def)
qed

lemma bt_bars:
  "run_bars False bt_config (cfg_risk bt_config) bt_filters bt_broker bt_strategy bt_segment [0, 1] bt_s0 = (Inr (), bt_s2)"
  "run_bars False bt_config (cfg_risk bt_config) bt_filters bt_broker bt_strategy bt_segment [0, 1, 2] bt_s0 = (Inr (), bt_s3)"
proof -
  have c: "nth_res bt_segment 0 = Inr (bt_candle 0 100 100)" "nth_res bt_segment 1 = Inr (bt_candle 1 100 90)"
    "nth_res bt_segment 2 = Inr (bt_candle 2 70 60)" by (simp_all add: bt_segment_def nth_res_def)
  have b: "bt_bar [bt_candle 0 100 100] (bt_candle 0 100 100) bt_s0 = (Inr (), bt_s1)"
    "bt_bar [bt_candle 0 100 100, bt_candle 1 100 90] (bt_candle 1 100 90) bt_s1 = (Inr (), bt_s2)"
    "bt_bar bt_segment (bt_candle 2 70 60) bt_s2 = (Inr (), bt_s3)"
    using bt_bar0 bt_bar1 bt_bar2 by (simp_all add: bt_s1_def bt_s2_def bt_s3_def prod_eq_iff)
  note cb = c [unfolded bt_segment_def] b [unfolded bt_segment_def]
  show "run_bars False bt_config (cfg_risk bt_config) bt_filters bt_broker bt_strategy bt_segment [0, 1] bt_s0 = (Inr (), bt_s2)"
    "run_bars False bt_config (cfg_risk bt_config) bt_filters bt_broker bt_strategy bt_segment [0, 1, 2] bt_s0 = (Inr (), bt_s3)"
    by (simp_all add: cb bt_segment_def sbind_def)
qed

definition bt_result :: segment_run_result where
  "bt_result = segment_result False (Dec 1000) (bt_candle 2 70 60) [] bt_s3"

lemma bt_run:
  "run_segment bt_segment bt_config bt_filters bt_strategy (cfg_risk bt_config) bt_broker None 1 (Dec 1000) False
   = Inr (bt_result, None)"
proof -
  have "[0 .. 2] = [0, 1, 2 :: int]" by (simp add: upto.simps)
  with bt_bars bt_bar2 show ?thesis
    by (simp add: run_segment_def bt_segment_def nth_res_def bt_s0_def bt_result_def)
qed

lemma bt_run_two:
  "\<exists>r. run_segment (take 2 bt_segment) bt_config bt_filters bt_strategy (cfg_risk bt_config) bt_broker None 1 (Dec 1000) False
   = Inr (r, None)"
proof -
  have "[0 .. 1] = [0, 1 :: int]" by (simp add: upto.simps)
  with bt_bars(1) run_bars_take [of "[0, 1]" 2] bt_bar1 show ?thesis
    by (simp add: run_segment_def bt_segment_def nth_res_def bt_s0_def)
qed

lemma bt_result_trades: "sr_trades bt_result = [bt_trade]"
  using bt_bar2 by (simp add: bt_result_def segment_result_def)

end
