(* ===== verification/Backtest_Properties.thy ===== *)
theory Backtest_Properties
  imports Backtest_Example
begin

text \<open>
  The properties of the research backtest: its accounts, the absence of look-ahead, the
  protection of a position, the drawdown shutdown and the fixed reward-to-risk policy.
\<close>

section \<open>A run of a segment\<close>

lemma run_segment_cases:
  assumes "run_segment segment config filters strategy rc b j m E policy = Inr (r, j')"
  obtains first s last_candle acts where "nth_res segment (m - 1) = Inr first" "nth_res segment (-1) = Inr last_candle"
    "run_bars policy config rc filters b strategy segment [m - 1 .. int (length segment) - 1] (seg_start E first j) = (Inr (), s)"
    "r = segment_result policy E last_candle acts s" "j' = sg_journal s"
proof -
  obtain first where f: "nth_res segment (m - 1) = Inr first"
    using assms by (cases "nth_res segment (m - 1)") (simp_all add: run_segment_def)
  let ?run = "run_bars policy config rc filters b strategy segment [m - 1 .. int (length segment) - 1] (seg_start E first j)"
  obtain v s where v: "?run = (v, s)" by (cases ?run)
  show thesis
  proof (cases v)
    case (Inr u)
    then obtain lc acts where "nth_res segment (-1) = Inr lc" "r = segment_result policy E lc acts s" "j' = sg_journal s"
      using assms f v by (auto simp: run_segment_def)
    then show thesis using that [of first lc s acts] f v Inr by simp
  qed (use assms f v in \<open>simp add: run_segment_def\<close>)
qed

lemma seg_ok_start: "0 \<le> E \<Longrightarrow> rep E \<Longrightarrow> seg_ok config b (seg_start E first j)"
  using rep_ops(1) by (simp add: seg_ok_def seg_start_def wf_initial protected_def diag_start_def rep_portfolio_def portfolio_initial_def)
    (simp add: wf_initial [unfolded portfolio_initial_def])

lemma nth_res_set: "nth_res xs i = Inr x \<Longrightarrow> x \<in> set xs"
  by (auto simp: nth_res_def Let_def split: if_splits)

lemma bars_well_formed:
  assumes "run_bars policy config (rc :: risk_config) filters b strategy segment is (seg_start E first j) = (r, s)"
    and "sane_costs config b" "0 \<le> E" "rep E" "\<And>c. c \<in> set segment \<Longrightarrow> 0 \<le> c_open c"
  shows "seg_ok config b s"
proof -
  have keep: "preserves (\<lambda>s. sane_costs config b \<and> seg_ok config b s) (run_bars policy config rc filters b strategy segment is)"
    by (rule well_formed.run_bars) (rule assms(5), erule nth_res_set)
  have "sane_costs config b \<and> seg_ok config b (seg_start E first j)" using assms(2-4) seg_ok_start by blast
  from preservesD [OF keep this assms(1)] show ?thesis by blast
qed

lemma nth_res_range:
  assumes "map (nth_res xs) [int k .. int (length xs) - 1] = map Inr ys"
  shows "ys = drop k xs"
proof -
  have l: "length ys = length xs - k" using arg_cong [OF assms, of length] by simp
  show ?thesis
  proof (rule nth_equalityI)
    show "length ys = length (drop k xs)" using l by simp
    fix i assume i: "i < length ys"
    then have "Inr (ys ! i) = nth_res xs ([int k .. int (length xs) - 1] ! i)"
      using arg_cong [OF assms, of "\<lambda>zs. zs ! i"] l by simp
    also have "[int k .. int (length xs) - 1] ! i = int (k + i)" using i l by simp
    finally show "ys ! i = drop k xs ! i" using i l by (simp del: of_nat_add)
  qed
qed

lemma traded_in_start: "traded_in T (seg_start E first j)"
  by (simp add: traded_in_def seg_start_def)

lemma nth_res_lt: "nth_res xs i = Inr x \<Longrightarrow> i < int (length xs)"
  by (auto simp: nth_res_def Let_def split: if_splits)

text \<open>What a finished run has recorded, bar by bar, and where it ends.\<close>

lemma run_segment_records:
  assumes "run_segment segment config filters strategy rc b j m E policy = Inr (r, j')" and "1 \<le> m"
  shows "m \<le> int (length segment) \<and>
    map ep_timestamp_ms (sr_equity_curve r) = map close_time_ms (drop (nat (m - 1)) segment) \<and>
    map ep_equity (sr_equity_curve r) = map2 marked (sr_snapshots r) (drop (nat (m - 1)) segment) \<and>
    length (sr_snapshots r) = length (drop (nat (m - 1)) segment) \<and>
    rd_ending_equity (sr_diagnostics r) = rd_ending_cash_quote (sr_diagnostics r)
      + rd_ending_base_quantity (sr_diagnostics r) * c_close (last segment) \<and>
    (\<forall>t \<in> set (sr_trades r). t_entry_time_ms t \<in> open_time_ms ` set (drop (nat (m - 1)) segment) \<and>
       t_exit_time_ms t \<in> open_time_ms ` set (drop (nat (m - 1)) segment))"
proof -
  obtain first s lc acts where first: "nth_res segment (m - 1) = Inr first"
    and run: "run_bars policy config rc filters b strategy segment [m - 1 .. int (length segment) - 1] (seg_start E first j) = (Inr (), s)"
    and lc: "nth_res segment (-1) = Inr lc" and r: "r = segment_result policy E lc acts s"
    using run_segment_cases [OF assms(1)] by metis
  have m: "m \<le> int (length segment)" using nth_res_lt [OF first] by simp
  then have last: "lc = last segment" using lc assms(2) nth_res_last [of segment] by (cases segment) auto
  obtain cs es ns where cs: "map (nth_res segment) [m - 1 .. int (length segment) - 1] = map Inr cs"
    "sg_equity_curve s = es" "sg_snapshots s = ns" "map ep_timestamp_ms es = map close_time_ms cs"
    "map ep_equity es = map2 marked ns cs" "length ns = length cs"
    using run_bars_records [OF run] by (auto simp: seg_start_def)
  have drp: "cs = drop (nat (m - 1)) segment" by (rule nth_res_range) (use cs(1) assms(2) in simp)
  let ?T = "open_time_ms ` set (drop (nat (m - 1)) segment)"
  have bars: "open_time_ms c \<in> ?T" if "i \<in> set [m - 1 .. int (length segment) - 1]" "nth_res segment i = Inr c" for i c
  proof -
    have "Inr c \<in> set (map (nth_res segment) [m - 1 .. int (length segment) - 1])" using that by (metis image_eqI list.set_map)
    then show ?thesis unfolding cs(1) drp by auto
  qed
  have "preserves (traded_in ?T) (run_bars policy config rc filters b strategy segment [m - 1 .. int (length segment) - 1])"
    by (rule in_window.run_bars) (rule bars)
  from preservesD [OF this traded_in_start run] have "traded_in ?T s" .
  then show ?thesis using m cs(2-) last
    by (auto simp: r drp segment_result_def diagnostics_of_def Let_def portfolio_equity_def traded_in_def)
qed

lemma exit_reasons_differ:
  "EXIT_REASON_STRATEGY \<noteq> EXIT_REASON_STOP_LOSS" "EXIT_REASON_STRATEGY \<noteq> EXIT_REASON_TAKE_PROFIT"
  "EXIT_REASON_STOP_LOSS \<noteq> EXIT_REASON_TAKE_PROFIT"
  by (simp_all add: EXIT_REASON_STRATEGY_def EXIT_REASON_STOP_LOSS_def EXIT_REASON_TAKE_PROFIT_def)

lemma exits_partition:
  assumes "\<And>t. t \<in> set ts \<Longrightarrow> t_exit_reason t \<in> {EXIT_REASON_STRATEGY, EXIT_REASON_STOP_LOSS, EXIT_REASON_TAKE_PROFIT}"
  shows "int (length ts) = count_exits EXIT_REASON_STRATEGY ts + count_exits EXIT_REASON_STOP_LOSS ts
    + count_exits EXIT_REASON_TAKE_PROFIT ts"
  using assms
proof (induction ts)
  case (Cons t ts)
  have "t_exit_reason t \<in> {EXIT_REASON_STRATEGY, EXIT_REASON_STOP_LOSS, EXIT_REASON_TAKE_PROFIT}"
    using Cons.prems by simp
  then show ?case using Cons exit_reasons_differ by (auto simp: count_exits_def)
qed (simp add: count_exits_def)

lemma upto_join: "a \<le> b \<Longrightarrow> b \<le> c \<Longrightarrow> [a .. c - 1] = [a .. b - 1] @ [b .. c - 1 :: int]"
  by (cases "b = c") (simp_all add: upto_split1)

text \<open>
  C7. The books of a backtest balance: every trade is priced and charged as its exit kind
  prescribes (a stop never better than the stop price), the executed entries are the exits
  of the three kinds plus the open position, cash never goes negative, and there is one equity
  point (stamped with the close time) and one snapshot per bar from the first tradable one.
\<close>

theorem backtest_books_balance:
  assumes "run_segment segment config filters strategy rc b j m E policy = Inr (r, j')"
    and "sane_costs config b" and "0 \<le> E" and "rep E" and "\<forall>c \<in> set segment. 0 \<le> c_open c" and "1 \<le> m"
  shows "(\<forall>t \<in> set (sr_trades r). trade_booked config b t) \<and>
    rd_executed_entries (sr_diagnostics r) = rd_executed_strategy_exits (sr_diagnostics r)
      + rd_executed_stop_loss_exits (sr_diagnostics r) + rd_executed_take_profit_exits (sr_diagnostics r)
      + (if sr_open_position r = None then 0 else 1) \<and>
    0 \<le> rd_ending_cash_quote (sr_diagnostics r) \<and> 0 \<le> rd_ending_base_quantity (sr_diagnostics r) \<and>
    map ep_timestamp_ms (sr_equity_curve r) = map close_time_ms (drop (nat (m - 1)) segment) \<and>
    length (sr_snapshots r) = length (sr_equity_curve r)"
proof -
  obtain first s lc acts where run: "run_bars policy config rc filters b strategy segment [m - 1 .. int (length segment) - 1]
      (seg_start E first j) = (Inr (), s)" and r: "r = segment_result policy E lc acts s"
    using run_segment_cases [OF assms(1)] by metis
  have ok: "seg_ok config b s" using bars_well_formed [OF run assms(2-4)] assms(5) by blast
  obtain cs es ns where cs: "map (nth_res segment) [m - 1 .. int (length segment) - 1] = map Inr cs"
    "sg_equity_curve s = es" "sg_snapshots s = ns" "map ep_timestamp_ms es = map close_time_ms cs"
    "map ep_equity es = map2 marked ns cs" "length ns = length cs"
    using run_bars_records [OF run] by (auto simp: seg_start_def)
  have drp: "cs = drop (nat (m - 1)) segment" by (rule nth_res_range) (use cs(1) assms(6) in simp)
  have sn: "length (sg_snapshots s) = length (sg_equity_curve s)"
    using cs(2,3,6) arg_cong [OF cs(4), of length] by simp
  have pf: "0 \<le> base_balance (sg_portfolio s) \<and> 0 \<le> quote_balance (sg_portfolio s)"
    using ok by (intro wf_portfolio_nonneg) (simp add: seg_ok_def)
  have n: "executed_entries (sg_diag s) = int (length (sg_trades s)) + (if sg_open_trade s = None then 0 else 1)"
    and tr: "\<forall>t \<in> set (sg_trades s). trade_booked config b t" using ok by (simp_all add: seg_ok_def)
  have "int (length (sg_trades s)) = count_exits EXIT_REASON_STRATEGY (sg_trades s)
      + count_exits EXIT_REASON_STOP_LOSS (sg_trades s) + count_exits EXIT_REASON_TAKE_PROFIT (sg_trades s)"
    by (rule exits_partition) (use tr in \<open>auto simp: trade_booked_def\<close>)
  then show ?thesis using tr n pf cs(2,4) drp sn
    by (simp add: r segment_result_def diagnostics_of_def Let_def open_trade_to_info_def)
qed

theorem backtest_books_balance_witness:
  "length (sr_trades bt_result) = 1 \<and> t_exit_reason bt_trade = EXIT_REASON_STOP_LOSS \<and> trade_booked bt_config bt_broker bt_trade"
proof -
  have "(0 :: dec) \<le> Dec 1000" "rep (Dec 1000)" "\<forall>c \<in> set bt_segment. 0 \<le> c_open c" by code_simp+
  from backtest_books_balance [OF bt_run bt_sane this] show ?thesis
    by (simp add: bt_result_trades bt_trade_def closed_trade_def)
qed

text \<open>
  C8. No look-ahead: a backtest of the first \<open>n\<close> candles is a prefix of the backtest of the whole
  series. Whatever the later candles are, the trades, the equity curve and the snapshots
  up to bar \<open>n\<close> are the same.
\<close>

theorem backtest_has_no_look_ahead:
  assumes "run_segment (take n segment) config filters strategy rc b j m E policy = Inr (r, j1)"
    and "run_segment segment config filters strategy rc b j m E policy = Inr (r', j2)" and "1 \<le> m"
  shows "prefix (sr_trades r) (sr_trades r') \<and> prefix (sr_equity_curve r) (sr_equity_curve r') \<and>
    prefix (sr_snapshots r) (sr_snapshots r')"
proof -
  define k where "k = length (take n segment)"
  obtain f1 s1 l1 a1 where 1: "nth_res (take n segment) (m - 1) = Inr f1"
    "run_bars policy config rc filters b strategy (take n segment) [m - 1 .. int k - 1] (seg_start E f1 j) = (Inr (), s1)"
    "r = segment_result policy E l1 a1 s1"
    using run_segment_cases [OF assms(1)] unfolding k_def by metis
  obtain f2 s2 l2 a2 where 2: "nth_res segment (m - 1) = Inr f2"
    "run_bars policy config rc filters b strategy segment [m - 1 .. int (length segment) - 1] (seg_start E f2 j) = (Inr (), s2)"
    "r' = segment_result policy E l2 a2 s2"
    using run_segment_cases [OF assms(2)] by metis
  have m: "0 \<le> m - 1" "m - 1 < int k" using 1(1) assms(3) by (auto simp: nth_res_def k_def Let_def split: if_splits)
  have kn: "k \<le> n" "k \<le> length segment" by (simp_all add: k_def)
  have f: "f1 = f2" using 1(1) 2(1) nth_res_take [of "m - 1" n segment] m kn by simp
  have split: "[m - 1 .. int (length segment) - 1] = [m - 1 .. int k - 1] @ [int k .. int (length segment) - 1]"
    by (rule upto_join) (use m kn in simp_all)
  have "run_bars policy config rc filters b strategy segment [m - 1 .. int k - 1] (seg_start E f2 j) = (Inr (), s1)"
    using 1(2) run_bars_take [of "[m - 1 .. int k - 1]" n policy config rc filters b strategy segment] m kn f by auto
  then have rest: "run_bars policy config rc filters b strategy segment [int k .. int (length segment) - 1] s1 = (Inr (), s2)"
    using 2(2) unfolding split run_bars_append by simp
  have "prefix (sg_trades s1) (sg_trades s2) \<and> prefix (sg_equity_curve s1) (sg_equity_curve s2) \<and> prefix (sg_snapshots s1) (sg_snapshots s2)"
    by (rule preservesD [OF growing.run_bars _ rest]) auto
  then show ?thesis by (simp add: 1(3) 2(3) segment_result_def)
qed

theorem backtest_has_no_look_ahead_witness:
  "\<exists>r. run_segment (take 2 bt_segment) bt_config bt_filters bt_strategy (cfg_risk bt_config) bt_broker None 1 (Dec 1000) False
     = Inr (r, None) \<and> prefix (sr_trades r) [bt_trade]"
proof -
  obtain r where r: "run_segment (take 2 bt_segment) bt_config bt_filters bt_strategy (cfg_risk bt_config) bt_broker None 1
     (Dec 1000) False = Inr (r, None)" using bt_run_two by blast
  from backtest_has_no_look_ahead [OF r bt_run] r show ?thesis by (auto simp: bt_result_trades)
qed

section \<open>Positions\<close>

text \<open>
  C9. Whatever a strategy answers and wherever a run stops, even by a raise, an open trade is a held
  position with a stop in force at the configured distance below its fill; under the fixed
  policy it also has a target above the fill, worth at least the minimal multiple of the
  planned risk, which is within the risk budget of some equity.
\<close>

theorem open_trade_is_always_protected:
  assumes "run_bars policy config rc filters b strategy segment is (seg_start E first j) = (r, s)"
    and "sane_costs config b" and "0 \<le> E" and "rep E" and "\<forall>c \<in> set segment. 0 \<le> c_open c"
    and "sg_open_trade s = Some ot"
  shows "position_side (sg_portfolio s) = LONG \<and> base_balance (sg_portfolio s) = 0 + ot_quantity ot \<and> 0 < ot_quantity ot \<and>
    sg_stop_price s = Some (ot_entry_price ot * (1 - dec_of_float (stop_distance_pct (cfg_stop_loss config)))) \<and>
    (case ot_realized_plan ot of None \<Rightarrow> sg_target_price s = None
     | Some p \<Rightarrow> \<exists>tp risk reward eq. sg_target_price s = Some tp \<and> ot_entry_price ot < tp \<and>
         planned_risk_quote p = Some risk \<and> planned_reward_quote p = Some reward \<and>
         MIN_NET_REWARD_TO_RISK * risk \<le> reward \<and> risk \<le> eq * dec_of_float FIXED_MAX_RISK_PER_TRADE_PCT)"
proof -
  have "protected config s" using bars_well_formed [OF assms(1-4)] assms(5) by (simp add: seg_ok_def)
  then show ?thesis using assms(6)
    by (auto simp: protected_def position_plan_def plan_ok_def split: option.splits)
qed

theorem open_trade_is_always_protected_witness:
  "sg_open_trade bt_s2 = Some bt_open \<and> sg_stop_price bt_s2 = Some (Dec 75) \<and> base_balance (sg_portfolio bt_s2) = 0 + Dec 7"
proof -
  have "(0 :: dec) \<le> Dec 1000" "rep (Dec 1000)" "\<forall>c \<in> set bt_segment. 0 \<le> c_open c" by code_simp+
  moreover have "sg_open_trade bt_s2 = Some bt_open" using bt_bar1 by simp
  ultimately show ?thesis
    using open_trade_is_always_protected [OF bt_bars(1) [unfolded bt_s0_def] bt_sane] by (simp add: bt_open_def bt_stop)
qed

text \<open>
  C18. The drawdown shutdown of a backtest is final: once flat with the cash at or beyond the
  drawdown limit below the peak, no strategy on no market makes another trade; cash, peak and trades
  stay as they are to the end of the segment.
\<close>

theorem drawdown_shutdown_is_final:
  assumes "run_bars policy config rc filters b strategy segment is s = (r, t)"
    and "position_side (sg_portfolio s) = FLAT" and "base_balance (sg_portfolio s) = 0"
    and "rep (quote_balance (sg_portfolio s))" and "quote_balance (sg_portfolio s) \<le> sg_peak_equity s"
    and "max_drawdown_pct rc \<le> drawdown_of (sg_peak_equity s) (quote_balance (sg_portfolio s))"
  shows "sg_trades t = sg_trades s \<and> position_side (sg_portfolio t) = FLAT \<and>
    quote_balance (sg_portfolio t) = quote_balance (sg_portfolio s) \<and> sg_peak_equity t = sg_peak_equity s"
proof -
  let ?I = "shut_down rc (quote_balance (sg_portfolio s)) (sg_peak_equity s) (sg_trades s)"
  have "?I s" using assms by (simp add: shut_down_def)
  from preservesD [OF halted.run_bars [OF TrueI] this assms(1)] have "?I t" .
  then show ?thesis by (simp add: shut_down_def)
qed

definition bt_loss :: seg_state where
  "bt_loss = (seg_start (Dec 790) (bt_candle 0 100 100) None)\<lparr>sg_peak_equity := Dec 1000, sg_pending_signal := Some BUY\<rparr>"

theorem drawdown_shutdown_is_final_witness:
  "sg_trades (snd (run_bars False bt_config (cfg_risk bt_config) bt_filters bt_broker bt_strategy bt_segment [0, 1, 2] bt_loss)) = []"
proof -
  let ?run = "run_bars False bt_config (cfg_risk bt_config) bt_filters bt_broker bt_strategy bt_segment [0, 1, 2] bt_loss"
  have "position_side (sg_portfolio bt_loss) = FLAT" "base_balance (sg_portfolio bt_loss) = 0"
    "rep (quote_balance (sg_portfolio bt_loss))" "quote_balance (sg_portfolio bt_loss) \<le> sg_peak_equity bt_loss"
    "max_drawdown_pct (cfg_risk bt_config) \<le> drawdown_of (sg_peak_equity bt_loss) (quote_balance (sg_portfolio bt_loss))"
    by code_simp+
  moreover have "?run = (fst ?run, snd ?run)" by simp
  ultimately have "sg_trades (snd ?run) = sg_trades bt_loss" using drawdown_shutdown_is_final by blast
  then show ?thesis by (simp add: bt_loss_def seg_start_def)
qed

section \<open>The fixed reward-to-risk policy\<close>

lemma share_of_quote:
  assumes "wf_filters f" "round_quantity raw f = Inr q" "0 \<le> raw" "raw \<le> e / l" "0 < l" "0 \<le> e"
  shows "dval q * dval l \<le> (1 + unit_roundoff 10 28) ^ 3 * dval e"
proof -
  let ?u = "1 + unit_roundoff 10 28 :: rat"
  have l: "0 < dval l" "0 \<le> dval e / dval l" using assms(5,6) by (simp_all add: dec_arith)
  have "dval raw \<le> dval (e / l)" using assms(4) by (simp add: dec_le_iff)
  also have "\<dots> \<le> ?u * (dval e / dval l)" unfolding dval_divide by (rule dec.upper [OF l(2)])
  finally have "dval q \<le> ?u\<^sup>2 * (?u * (dval e / dval l))" by (rule rq.bounded [OF assms(1-3)])
  then show ?thesis using l by (simp add: pos_le_divide_eq power2_eq_square power3_eq_cube)
qed

text \<open>
  C19. An entry approved by the fixed policy is affordable, within its risk budget and worth its
  risk: the quantity times the loss per unit (slippage and fees included) is at most the
  fixed fraction of equity, its full cost at most the cash, both up to the roundings of the arithmetic;
  the target lies above the price and the planned net reward is at least twice the risk.
\<close>

theorem fixed_policy_entry_is_sound:
  assumes "plan_risk_reward_entry eq qb ref sd tk sl f = Inr p" and "rr_approved p"
    and "wf_filters f" and "0 \<le> tk" and "0 \<le> sl"
  shows "\<exists>q tp risk reward. rr_quantity p = Some q \<and> 0 < q \<and> meets_lot_size q f \<and> meets_min_notional ref q f \<and>
    dval q * dval (rr_loss_per_unit (ref * (1 + dec_of_float sl)) (ref * (1 - dec_of_float sd)) (dec_of_float tk) (dec_of_float sl))
      \<le> (1 + unit_roundoff 10 28) ^ 4 * (dval eq * dval (dec_of_float FIXED_MAX_RISK_PER_TRADE_PCT)) \<and>
    dval q * dval (ref * (1 + dec_of_float sl) * (1 + dec_of_float tk)) \<le> (1 + unit_roundoff 10 28) ^ 3 * dval qb \<and>
    rr_target_price p = Some tp \<and> ref < tp \<and> planned_risk_quote p = Some risk \<and> planned_reward_quote p = Some reward \<and>
    MIN_NET_REWARD_TO_RISK * risk \<le> reward"
proof -
  let ?l = "rr_loss_per_unit (ref * (1 + dec_of_float sl)) (ref * (1 - dec_of_float sd)) (dec_of_float tk) (dec_of_float sl)"
  let ?c = "ref * (1 + dec_of_float sl) * (1 + dec_of_float tk)" and ?m = "dec_of_float FIXED_MAX_RISK_PER_TRADE_PCT"
  obtain q raw cap where q: "rr_quantity p = Some q" "0 < q" "meets_lot_size q f" "meets_min_notional ref q f"
    and pos: "0 < ref" "0 < eq" "0 < qb" "0 < ?l" and raw: "round_quantity raw f = Inr q" "ddiv qb ?c = Inr cap" "raw = min (eq * ?m / ?l) cap"
    and tp: "\<exists>tp risk reward. rr_target_price p = Some tp \<and> ref < tp \<and> planned_risk_quote p = Some risk \<and>
      planned_reward_quote p = Some reward \<and> MIN_NET_REWARD_TO_RISK * risk \<le> reward"
    using plan_risk_reward_approved [OF assms(1,2)] by blast
  have c: "0 < ?c" using pos(1) dec_of_float_nonneg [OF assms(4)] dec_of_float_nonneg [OF assms(5)]
    by (intro dec_mult_pos dec_add_pos_nonneg) (simp_all add: less_dec_def)
  have cap: "cap = qb / ?c" using raw(2) c by simp
  have m: "0 \<le> ?m" by code_simp
  have "0 \<le> eq * ?m / ?l" "0 \<le> qb / ?c"
    by (intro dec_divide_nonneg dec_mult_nonneg less_imp_le [OF pos(2)] m less_imp_le [OF pos(4)],
        intro dec_divide_nonneg less_imp_le [OF pos(3)] less_imp_le [OF c])
  then have nn: "0 \<le> raw" unfolding raw(3) cap by simp
  have le: "raw \<le> eq * ?m / ?l" "raw \<le> qb / ?c" unfolding raw(3) cap by simp_all
  show ?thesis
    using q tp budget_share [OF assms(3) raw(1) nn le(1) pos(4) less_imp_le [OF pos(2)] m]
      share_of_quote [OF assms(3) raw(1) nn le(2) c less_imp_le [OF pos(3)]] by blast
qed

definition rr_demo :: "risk_reward_plan result" where
  "rr_demo = plan_risk_reward_entry (Dec 10000) (Dec 10000) (Dec 100) (Flt (1 / 8)) 0 0 bt_filters"

definition rr_demo_plan :: risk_reward_plan where
  "rr_demo_plan = (case rr_demo of Inr p \<Rightarrow> p | Inl _ \<Rightarrow> rr_rejected [] None)"

lemma rr_demo_value: "is_ok rr_demo"
  by code_simp

lemma rr_demo_approved: "rr_demo = Inr rr_demo_plan" "rr_approved rr_demo_plan"
proof -
  obtain p where p: "rr_demo = Inr p" using rr_demo_value by (auto simp: is_ok_iff)
  show "rr_demo = Inr rr_demo_plan" unfolding rr_demo_plan_def p by simp
  show "rr_approved rr_demo_plan" by code_simp
qed

lemma bt_filters_wf: "wf_filters bt_filters"
  by code_simp

theorem fixed_policy_entry_is_sound_witness:
  "\<exists>q tp risk reward. rr_quantity rr_demo_plan = Some q \<and> 0 < q \<and> rr_target_price rr_demo_plan = Some tp \<and> Dec 100 < tp \<and>
    planned_risk_quote rr_demo_plan = Some risk \<and> planned_reward_quote rr_demo_plan = Some reward \<and>
    MIN_NET_REWARD_TO_RISK * risk \<le> reward"
  using fixed_policy_entry_is_sound [OF rr_demo_approved(1) [unfolded rr_demo_def] rr_demo_approved(2) bt_filters_wf order_refl order_refl]
  by blast

end
