(* ===== verification/Float_Math.thy ===== *)
theory Float_Math
  imports Numbers
begin

text \<open>
  What the reports use of the standard library on floats: sums, means, medians, and the
  correctly rounded square root. \<open>sum\<close> adds from left to right (CPython 3.11, the
  version the project is checked against; later versions compensate). The power function of the
  platform's C library is a parameter where it is used.
\<close>

definition fsum :: "flt list \<Rightarrow> flt" where
  "fsum xs = foldl (+) 0 xs"

definition fmean :: "flt list \<Rightarrow> flt" where
  "fmean xs = fsum xs / float_of_int (int (length xs))"

text \<open>\<open>statistics.median\<close>.\<close>

definition fmedian :: "flt list \<Rightarrow> flt result" where
  "fmedian xs =
     (let ys = sort xs; n = length ys
      in if n = 0 then Inl (ValueError ''no median'')
         else if odd n then Inr (ys ! (n div 2))
         else Inr ((ys ! (n div 2 - 1) + ys ! (n div 2)) / Flt 2))"

text \<open>\<open>max\<close> and \<open>min\<close> of a sequence.\<close>

definition list_max :: "('a :: linorder) list \<Rightarrow> 'a result" where
  "list_max xs = (case xs of [] \<Rightarrow> Inl (ValueError ''empty sequence'') | x # r \<Rightarrow> Inr (foldl max x r))"

definition list_min :: "('a :: linorder) list \<Rightarrow> 'a result" where
  "list_min xs = (case xs of [] \<Rightarrow> Inl (ValueError ''empty sequence'') | x # r \<Rightarrow> Inr (foldl min x r))"

lemma foldl_max_ge: "x \<le> foldl max x r \<and> (\<forall>y \<in> set r. y \<le> foldl max x r)" for x :: "'a :: linorder"
proof (induction r arbitrary: x)
  case (Cons y r)
  from Cons [of "max x y"] show ?case by (auto intro: order_trans)
qed simp

lemma foldl_max_in: "foldl max x r \<in> set (x # r)" for x :: "'a :: linorder"
  by (induction r arbitrary: x) (simp, metis foldl_Cons list.set_intros max_def set_ConsD)

lemma list_max_greatest: "list_max xs = Inr m \<Longrightarrow> m \<in> set xs \<and> (\<forall>y \<in> set xs. y \<le> m)"
proof (cases xs)
  case (Cons x r)
  moreover assume "list_max xs = Inr m"
  ultimately show ?thesis using foldl_max_ge [of x r] foldl_max_in [of x r] by (simp add: list_max_def)
qed (simp add: list_max_def)

section \<open>Square root\<close>

text \<open>The integer square root, two bits at a time.\<close>

fun isqrt :: "nat \<Rightarrow> nat" where
  "isqrt n = (if n = 0 then 0 else let r = 2 * isqrt (n div 4) in if (r + 1) * (r + 1) \<le> n then r + 1 else r)"

declare isqrt.simps [simp del]

lemma isqrt_bounds: "isqrt n * isqrt n \<le> n \<and> n < (isqrt n + 1) * (isqrt n + 1)"
proof (induction n rule: isqrt.induct)
  case (1 n)
  show ?case
  proof (cases "n = 0")
    case False
    let ?s = "isqrt (n div 4)"
    have s: "?s * ?s \<le> n div 4" "n div 4 < (?s + 1) * (?s + 1)" using 1 False by auto
    have "4 * (?s * ?s) \<le> n" using s(1) by linarith
    moreover have "n < 4 * ((?s + 1) * (?s + 1))" using s(2) by linarith
    moreover have "isqrt n = (if (2 * ?s + 1) * (2 * ?s + 1) \<le> n then 2 * ?s + 1 else 2 * ?s)"
      using False by (simp add: isqrt.simps [of n] Let_def)
    ultimately show ?thesis by (auto simp: algebra_simps)
  qed (simp add: isqrt.simps)
qed

text \<open>
  The root scaled to more than a hundred binary digits, with a half added when it is not
  exact: the rounding to 53 digits is then that of the exact root.
\<close>

definition sqrt_shift :: "rat \<Rightarrow> int" where
  "sqrt_shift x = 120 - expo 2 x div 2"

definition rat_sqrt :: "rat \<Rightarrow> flt" where
  "rat_sqrt x =
     (if x = 0 then 0
      else let k = sqrt_shift x;
               y = x * 4 powi k;
               m = isqrt (nat \<lfloor>y\<rfloor>);
               h = (if of_nat (m * m) = y then 0 else 1 / 2)
           in Flt (fround ((of_nat m + h) / 2 powi k)))"

definition fsqrt :: "flt \<Rightarrow> flt result" where
  "fsqrt f = (if fval f < 0 then Inl (ValueError ''math domain error'') else Inr (rat_sqrt (fval f)))"

lemma rat_sqrt_nonneg: "0 \<le> rat_sqrt x"
  by (auto simp: rat_sqrt_def Let_def flt_arith intro!: flt.nonneg divide_nonneg_pos)

lemma fsqrt_nonneg: "fsqrt f = Inr g \<Longrightarrow> 0 \<le> g"
  using rat_sqrt_nonneg by (auto simp: fsqrt_def split: if_splits)

lemma fsqrt_ok: "0 \<le> f \<Longrightarrow> \<exists>g. fsqrt f = Inr g"
  by (simp add: fsqrt_def flt_arith)

text \<open>The value that is rounded is the root up to one unit of its hundredth digit.\<close>

lemma sqrt_scaled_bounds:
  fixes x :: rat
  assumes "0 < x" "y = x * 4 powi k" "m = isqrt (nat \<lfloor>y\<rfloor>)"
  shows "(of_nat m / 2 powi k)\<^sup>2 \<le> x" "x < ((of_nat m + 1) / 2 powi k)\<^sup>2"
proof -
  have P: "0 < (2 powi k :: rat)" "(2 powi k :: rat)\<^sup>2 = 4 powi k"
    by (simp_all flip: power_int_mult_distrib add: power2_eq_square)
  have y: "0 < y" using assms(1,2) by simp
  have fl: "of_nat (nat \<lfloor>y\<rfloor>) \<le> y" "y < of_nat (nat \<lfloor>y\<rfloor>) + 1" using y by (simp_all add: of_nat_nat) linarith
  have "(of_nat m :: rat)\<^sup>2 \<le> of_nat (nat \<lfloor>y\<rfloor>)" "of_nat (nat \<lfloor>y\<rfloor>) + 1 \<le> (of_nat m + 1 :: rat)\<^sup>2"
    using isqrt_bounds [of "nat \<lfloor>y\<rfloor>"] unfolding assms(3) power2_eq_square
    by (metis of_nat_mult of_nat_le_iff, metis of_nat_mult of_nat_add of_nat_1 of_nat_le_iff Suc_leI Suc_eq_plus1)
  with fl have "(of_nat m :: rat)\<^sup>2 \<le> x * 4 powi k" "x * 4 powi k < (of_nat m + 1)\<^sup>2"
    unfolding assms(2) [symmetric] by linarith+
  then show "(of_nat m / 2 powi k)\<^sup>2 \<le> x" "x < ((of_nat m + 1) / 2 powi k)\<^sup>2"
    using P by (simp_all add: power_divide pos_divide_le_eq pos_less_divide_eq)
qed

section \<open>Statistics with exact intermediate results\<close>

definition math_fsum :: "flt list \<Rightarrow> flt" where
  "math_fsum xs = Flt (fround (sum_list (map fval xs)))"

definition statistics_fmean :: "flt list \<Rightarrow> flt result" where
  "statistics_fmean xs =
     (if xs = [] then Inl (ValueError ''fmean'') else Inr (math_fsum xs / float_of_int (int (length xs))))"

definition statistics_pstdev :: "flt list \<Rightarrow> flt result" where
  "statistics_pstdev xs =
     (if xs = [] then Inl (ValueError ''pstdev'')
      else let n = rat_of_int (int (length xs)); mean = sum_list (map fval xs) / n
      in Inr (rat_sqrt (sum_list (map (\<lambda>x. (fval x - mean)\<^sup>2) xs) / n)))"

end
