(* ===== verification/Performance.thy ===== *)
theory Performance
  imports Float_Math Backtest_Engine
begin

text \<open>
  The performance report (\<open>metrics/performance.py\<close>): return, drawdown, volatility and the
  ratios of one equity curve, the trade statistics, and the buy-and-hold comparison. The
  power function \<open>pw\<close> of the C library is a parameter; it may overflow.
\<close>

type_synonym pow_fun = "flt \<Rightarrow> flt \<Rightarrow> flt result"

definition MS_PER_YEAR :: int where
  "MS_PER_YEAR = 365 * 24 * 60 * 60 * 1000"

section \<open>Buy and hold\<close>

datatype hold_note = No_Candles | Not_Positive | Held

record buy_and_hold_report =
  bh_return_pct :: "flt option"
  bh_max_drawdown_pct :: "flt option"
  bh_start_time_ms :: "int option"
  bh_end_time_ms :: "int option"
  bh_buy_fee_pct_applied :: flt
  bh_note :: hold_note

definition periods_per_year :: "string \<Rightarrow> flt result" where
  "periods_per_year interval = bindr (interval_to_ms interval) (\<lambda>ms. Inr (int_truediv MS_PER_YEAR ms))"

text \<open>The drawdown loop of the buy-and-hold curve.\<close>

fun hold_drawdown :: "flt \<Rightarrow> flt \<Rightarrow> flt list \<Rightarrow> flt" where
  "hold_drawdown peak max_dd [] = max_dd"
| "hold_drawdown peak max_dd (v # vs) =
     (let peak' = max peak v
      in if 0 < peak' then hold_drawdown peak' (max max_dd ((peak' - v) / peak')) vs else hold_drawdown peak' max_dd vs)"

definition compute_buy_and_hold_report :: "candle list \<Rightarrow> dec \<Rightarrow> flt \<Rightarrow> buy_and_hold_report" where
  "compute_buy_and_hold_report window_candles starting_equity buy_fee_pct =
     (case window_candles of
        [] \<Rightarrow> \<lparr>bh_return_pct = None, bh_max_drawdown_pct = None, bh_start_time_ms = None, bh_end_time_ms = None,
               bh_buy_fee_pct_applied = buy_fee_pct, bh_note = No_Candles\<rparr>
      | first # _ \<Rightarrow>
          let entry_price = c_close first;
              start_time = close_time_ms first;
              end_time = close_time_ms (last window_candles)
          in if entry_price \<le> 0 \<or> starting_equity \<le> 0
             then \<lparr>bh_return_pct = None, bh_max_drawdown_pct = None, bh_start_time_ms = Some start_time,
                   bh_end_time_ms = Some end_time, bh_buy_fee_pct_applied = buy_fee_pct, bh_note = Not_Positive\<rparr>
             else let effective_capital = starting_equity * (1 - dec_of_float buy_fee_pct);
                      quantity = effective_capital / entry_price;
                      curve = map (\<lambda>c. float_of_dec (quantity * c_close c)) window_candles;
                      return_pct = (last curve / float_of_dec starting_equity - 1) * Flt 100
                  in \<lparr>bh_return_pct = Some return_pct,
                      bh_max_drawdown_pct = Some (hold_drawdown (hd curve) 0 curve * Flt 100),
                      bh_start_time_ms = Some start_time, bh_end_time_ms = Some end_time,
                      bh_buy_fee_pct_applied = buy_fee_pct, bh_note = Held\<rparr>)"

section \<open>The report\<close>

record performance_report =
  pr_trade_count :: int
  pr_total_return_pct :: flt
  pr_annualized_return_pct :: "flt option"
  pr_max_drawdown_pct :: flt
  pr_volatility_pct :: "flt option"
  pr_sharpe_ratio :: "flt option"
  pr_sortino_ratio :: "flt option"
  pr_win_rate :: "flt option"
  pr_profit_factor :: "flt option"
  pr_avg_win_quote :: "flt option"
  pr_avg_loss_quote :: "flt option"
  pr_exposure_pct :: flt
  pr_turnover :: flt
  pr_buy_and_hold_return_pct :: "flt option"
  pr_low_trade_count_warning :: bool
  pr_starting_equity :: dec
  pr_ending_equity :: dec
  pr_strategy_exit_count :: int
  pr_stop_loss_exit_count :: int
  pr_take_profit_exit_count :: int
  pr_buy_and_hold :: "buy_and_hold_report option"
  pr_periods_per_year :: flt

fun drawdown_pct_loop :: "flt \<Rightarrow> flt \<Rightarrow> flt list \<Rightarrow> flt" where
  "drawdown_pct_loop peak max_dd [] = max_dd"
| "drawdown_pct_loop peak max_dd (v # vs) =
     (let peak' = max peak v
      in if 0 < peak' then let drawdown = (peak' - v) / peak' in drawdown_pct_loop peak' (max max_dd drawdown) vs
         else drawdown_pct_loop peak' max_dd vs)"

definition max_drawdown_pct_of :: "flt list \<Rightarrow> flt" where
  "max_drawdown_pct_of equities = drawdown_pct_loop (hd equities) 0 equities * Flt 100"

fun period_returns :: "flt list \<Rightarrow> flt list" where
  "period_returns (a # b # r) = (if 0 < a then [b / a - 1] else []) @ period_returns (b # r)"
| "period_returns _ = []"

text \<open>Volatility, Sharpe and Sortino, from two returns on.\<close>

definition risk_ratios :: "pow_fun \<Rightarrow> flt \<Rightarrow> flt list \<Rightarrow> (flt option \<times> flt option \<times> flt option) result" where
  "risk_ratios pw ppy returns =
     (if length returns < 2 then Inr (None, None, None)
      else
        let mean_return = fmean returns in
        bindr (map_res (\<lambda>r. pw (r - mean_return) (Flt 2)) returns) (\<lambda>squares.
        bindr (fsqrt (fsum squares / float_of_int (int (length returns) - 1))) (\<lambda>std_dev.
        bindr (fsqrt ppy) (\<lambda>root.
        bindr (map_res (\<lambda>r. pw r (Flt 2)) (map (\<lambda>r. min r 0) returns)) (\<lambda>down_squares.
        bindr (fsqrt (fsum down_squares / float_of_int (int (length returns)))) (\<lambda>downside_dev.
        Inr (Some (std_dev * root * Flt 100),
             if 0 < std_dev then Some (mean_return / std_dev * root) else None,
             if 0 < downside_dev then Some (mean_return / downside_dev * root) else None)))))))"

definition annualized_return :: "pow_fun \<Rightarrow> int \<Rightarrow> flt \<Rightarrow> flt \<Rightarrow> flt option result" where
  "annualized_return pw duration_ms starting ending =
     (if 0 < duration_ms \<and> 0 < starting \<and> 0 < ending
      then let years = int_truediv duration_ms MS_PER_YEAR
           in bindr (pw (ending / starting) (1 / years)) (\<lambda>g. Inr (Some ((g - 1) * Flt 100)))
      else Inr None)"

text \<open>Wins, losses and turnover; the averages and the factor are absent where they are undefined.\<close>

record trade_stats =
  ts_win_rate :: "flt option"
  ts_profit_factor :: "flt option"
  ts_avg_win :: "flt option"
  ts_avg_loss :: "flt option"
  ts_turnover :: flt

definition trade_stats_of :: "trade list \<Rightarrow> flt \<Rightarrow> trade_stats" where
  "trade_stats_of trades starting =
     (if trades = [] then \<lparr>ts_win_rate = None, ts_profit_factor = None, ts_avg_win = None, ts_avg_loss = None, ts_turnover = 0\<rparr>
      else
        let wins = map (\<lambda>t. float_of_dec (t_pnl_quote t)) (filter (\<lambda>t. 0 < t_pnl_quote t) trades);
            losses = map (\<lambda>t. float_of_dec (t_pnl_quote t)) (filter (\<lambda>t. t_pnl_quote t < 0) trades);
            gross_profit = fsum wins;
            gross_loss = \<bar>fsum losses\<bar>;
            total_notional = fsum (map (\<lambda>t. float_of_dec (t_quantity t * t_entry_price t) + float_of_dec (t_quantity t * t_exit_price t)) trades)
        in \<lparr>ts_win_rate = Some (Flt 100 * float_of_int (int (length wins)) / float_of_int (int (length trades))),
            ts_profit_factor = (if 0 < gross_loss then Some (gross_profit / gross_loss) else None),
            ts_avg_win = (if wins \<noteq> [] then Some (fmean wins) else None),
            ts_avg_loss = (if losses \<noteq> [] then Some (fmean losses) else None),
            ts_turnover = (if 0 < starting then total_notional / starting else 0)\<rparr>)"

definition exposure_of :: "equity_point list \<Rightarrow> flt" where
  "exposure_of curve =
     (if curve = [] then 0
      else Flt 100 * float_of_int (int (length (filter ep_in_position curve))) / float_of_int (int (length curve)))"

definition empty_report :: "buy_and_hold_report option \<Rightarrow> flt \<Rightarrow> performance_report" where
  "empty_report bh ppy =
     \<lparr>pr_trade_count = 0, pr_total_return_pct = 0, pr_annualized_return_pct = None, pr_max_drawdown_pct = 0,
      pr_volatility_pct = None, pr_sharpe_ratio = None, pr_sortino_ratio = None, pr_win_rate = None,
      pr_profit_factor = None, pr_avg_win_quote = None, pr_avg_loss_quote = None, pr_exposure_pct = 0,
      pr_turnover = 0, pr_buy_and_hold_return_pct = Option.bind bh bh_return_pct, pr_low_trade_count_warning = True,
      pr_starting_equity = 0, pr_ending_equity = 0, pr_strategy_exit_count = 0, pr_stop_loss_exit_count = 0,
      pr_take_profit_exit_count = 0, pr_buy_and_hold = bh, pr_periods_per_year = ppy\<rparr>"

definition compute_performance_report ::
  "pow_fun \<Rightarrow> trade list \<Rightarrow> equity_point list \<Rightarrow> string \<Rightarrow> int \<Rightarrow> buy_and_hold_report option \<Rightarrow> performance_report result" where
  "compute_performance_report pw trades equity_curve interval min_trades bh =
     bindr (periods_per_year interval) (\<lambda>ppy.
     if equity_curve = [] then Inr (empty_report bh ppy)
     else
       let equities = map (\<lambda>p. float_of_dec (ep_equity p)) equity_curve;
           starting = hd equities;
           ending = last equities;
           stats = trade_stats_of trades starting
       in bindr (annualized_return pw (ep_timestamp_ms (last equity_curve) - ep_timestamp_ms (hd equity_curve)) starting ending) (\<lambda>annualized.
          bindr (risk_ratios pw ppy (period_returns equities)) (\<lambda>(volatility, sharpe, sortino).
          Inr \<lparr>pr_trade_count = int (length trades),
               pr_total_return_pct = (if 0 < starting then (ending / starting - 1) * Flt 100 else 0),
               pr_annualized_return_pct = annualized,
               pr_max_drawdown_pct = max_drawdown_pct_of equities,
               pr_volatility_pct = volatility, pr_sharpe_ratio = sharpe, pr_sortino_ratio = sortino,
               pr_win_rate = ts_win_rate stats, pr_profit_factor = ts_profit_factor stats,
               pr_avg_win_quote = ts_avg_win stats, pr_avg_loss_quote = ts_avg_loss stats,
               pr_exposure_pct = exposure_of equity_curve, pr_turnover = ts_turnover stats,
               pr_buy_and_hold_return_pct = Option.bind bh bh_return_pct,
               pr_low_trade_count_warning = (int (length trades) < min_trades),
               pr_starting_equity = ep_equity (hd equity_curve), pr_ending_equity = ep_equity (last equity_curve),
               pr_strategy_exit_count = count_exits EXIT_REASON_STRATEGY trades,
               pr_stop_loss_exit_count = count_exits EXIT_REASON_STOP_LOSS trades,
               pr_take_profit_exit_count = count_exits EXIT_REASON_TAKE_PROFIT trades,
               pr_buy_and_hold = bh, pr_periods_per_year = ppy\<rparr>)))"

section \<open>Drawdown against its definition\<close>

text \<open>
  The decline of each point from the highest point up to it, where that is positive; the
  maximal drawdown is the largest of them.
\<close>

definition decline :: "flt list \<Rightarrow> nat \<Rightarrow> flt" where
  "decline xs i = (let peak = Max (set (take (Suc i) xs)) in if 0 < peak then (peak - xs ! i) / peak else 0)"

definition drawdown_spec :: "flt list \<Rightarrow> flt" where
  "drawdown_spec xs = Max (insert 0 (decline xs ` {..<length xs}))"

lemma hold_drawdown_eq: "hold_drawdown p d vs = drawdown_pct_loop p d vs"
  by (induction vs arbitrary: p d) (simp_all add: Let_def)

text \<open>One step of the loop, as a fold over the declines.\<close>

lemma drawdown_pct_loop_spec:
  assumes "pre \<noteq> []" "p = Max (set pre)" "d = drawdown_spec pre"
  shows "drawdown_pct_loop p d vs = drawdown_spec (pre @ vs)"
  using assms
proof (induction vs arbitrary: pre p d)
  case (Cons v vs)
  let ?pre = "pre @ [v]" and ?p = "max p v"
  have p: "?p = Max (set ?pre)" using Cons.prems by (simp add: max.commute)
  have dec: "decline ?pre i = decline pre i" if "i < length pre" for i
    using that by (simp add: decline_def nth_append Let_def)
  have last: "decline ?pre (length pre) = (if 0 < ?p then (?p - v) / ?p else 0)"
    using p by (simp add: decline_def Let_def)
  have "decline ?pre ` {..<length ?pre} = insert (decline ?pre (length pre)) (decline pre ` {..<length pre})"
    using image_cong [OF refl dec, of "{..<length pre}" id] by (simp add: lessThan_Suc)
  then have "drawdown_spec ?pre = max d (decline ?pre (length pre))"
    using Cons.prems(3) by (simp add: drawdown_spec_def insert_commute [of 0] max.commute)
  moreover have "0 \<le> d" using Cons.prems(3) by (simp add: drawdown_spec_def)
  ultimately have d: "(if 0 < ?p then max d ((?p - v) / ?p) else d) = drawdown_spec ?pre"
    using last by (simp add: max_def)
  have step: "drawdown_pct_loop p d (v # vs) = drawdown_pct_loop ?p (if 0 < ?p then max d ((?p - v) / ?p) else d) vs"
    by (simp add: Let_def)
  show ?case unfolding step d using Cons.IH [OF _ p refl] by simp
qed simp

text \<open>A float of the program: its value is one of the 53-digit numbers.\<close>

definition frep :: "flt \<Rightarrow> bool" where
  "frep x \<longleftrightarrow> fround (fval x) = fval x"

lemma frep_ops [simp]: "frep (x + y)" "frep (x - y)" "frep (x * y)" "frep (x / y)" "frep (float_of_dec d)" "frep 0"
  by (simp_all add: frep_def flt_arith float_of_dec_def flt.idem flt.zero)

lemma flt_ratio_bounds:
  fixes p v :: flt
  assumes "v \<le> p" "0 < p"
  shows "0 \<le> (p - v) / p" "0 \<le> v \<Longrightarrow> frep p \<Longrightarrow> (p - v) / p \<le> 1"
proof -
  show "0 \<le> (p - v) / p" using assms by (auto simp: flt_arith intro!: flt.nonneg divide_nonneg_pos)
  assume v: "0 \<le> v" "frep p"
  then have "fround (fval p - fval v) \<le> fval p" by (intro flt.le_representable) (simp_all add: flt_arith frep_def)
  then have "fround (fval p - fval v) / fval p \<le> 1" using assms(2) by (simp add: flt_arith)
  then have "fround (fround (fval p - fval v) / fval p) \<le> 1"
    using rnd_representable [of 2 53 1 1 0] by (intro flt.le_representable) (simp_all add: fround_def)
  then show "(p - v) / p \<le> 1" by (simp add: flt_arith)
qed

lemma drawdown_spec_bounds:
  assumes "\<And>v. v \<in> set xs \<Longrightarrow> frep v \<and> 0 \<le> v"
  shows "0 \<le> drawdown_spec xs \<and> drawdown_spec xs \<le> 1"
proof -
  have "decline xs i \<le> 1" if i: "i < length xs" for i
  proof -
    let ?T = "set (take (Suc i) xs)"
    have x: "xs ! i \<in> ?T" using i by (simp add: take_Suc_conv_app_nth)
    then have m: "Max ?T \<in> ?T" "xs ! i \<le> Max ?T" by (auto intro: Max_in)
    then have "frep (Max ?T)" "0 \<le> xs ! i" using assms in_set_takeD i by fastforce+
    then show ?thesis using flt_ratio_bounds(2) [OF m(2)] by (simp add: decline_def Let_def less_eq_flt_def)
  qed
  moreover have "(0 :: flt) \<le> 1" by (simp add: less_eq_flt_def)
  ultimately show ?thesis by (auto simp: drawdown_spec_def intro!: Max.boundedI)
qed

end
