(* ===== verification/Extended_Report.thy ===== *)
theory Extended_Report
  imports Performance "HOL-Library.Product_Lexorder"
begin

text \<open>
  The extended diagnostics of a finished run (\<open>metrics/extended_report.py\<close>): the accounting
  identity, the profit breakdown, the explanation of a window, the figures over time, the
  distribution of trades, the bootstrap interval and the rolling windows. Texts are known
  by the data they are built from; the generator behind \<open>random.Random(seed)\<close> is a
  parameter.
\<close>

definition MS_PER_HOUR :: int where
  "MS_PER_HOUR = 60 * 60 * 1000"

section \<open>Accounting identity and profit breakdown\<close>

record accounting_identity =
  ai_ending_cash_quote :: dec
  ai_ending_base_quantity :: dec
  ai_final_mark_price :: dec
  ai_computed_ending_equity :: dec
  ai_reported_ending_equity :: dec
  ai_difference_quote :: dec
  ai_identity_holds :: bool

definition compute_accounting_identity :: "dec \<Rightarrow> dec \<Rightarrow> dec \<Rightarrow> dec \<Rightarrow> accounting_identity" where
  "compute_accounting_identity cash base mark reported =
     (let computed = cash + base * mark; difference = computed - reported
      in \<lparr>ai_ending_cash_quote = cash, ai_ending_base_quantity = base, ai_final_mark_price = mark,
          ai_computed_ending_equity = computed, ai_reported_ending_equity = reported,
          ai_difference_quote = difference, ai_identity_holds = (difference = 0)\<rparr>)"

record pnl_breakdown =
  pb_realized :: dec
  pb_unrealized :: "dec option"
  pb_total_marked_to_market :: dec
  pb_entry_fees :: dec
  pb_exit_fees :: dec
  pb_slippage :: dec

definition dsum :: "dec list \<Rightarrow> dec" where
  "dsum xs = foldl (+) 0 xs"

definition compute_pnl_breakdown :: "trade list \<Rightarrow> open_position_info option \<Rightarrow> dec \<Rightarrow> pnl_breakdown" where
  "compute_pnl_breakdown trades open_position final_mark_price =
     (let realized = dsum (map t_pnl_quote trades);
          entry_fees = dsum (map t_entry_fee_quote trades);
          exit_fees = dsum (map t_exit_fee_quote trades);
          slippage = dsum (map (\<lambda>t. \<bar>t_entry_price t - t_entry_reference_price t\<bar> * t_quantity t
            + \<bar>t_exit_price t - t_exit_reference_price t\<bar> * t_quantity t) trades)
      in case open_position of
           None \<Rightarrow> \<lparr>pb_realized = realized, pb_unrealized = None, pb_total_marked_to_market = realized + 0,
                    pb_entry_fees = entry_fees, pb_exit_fees = exit_fees, pb_slippage = slippage\<rparr>
         | Some op \<Rightarrow>
             let unrealized = (final_mark_price - oi_entry_price op) * oi_quantity op - oi_entry_fee_quote op
             in \<lparr>pb_realized = realized, pb_unrealized = Some unrealized, pb_total_marked_to_market = realized + unrealized,
                 pb_entry_fees = entry_fees + oi_entry_fee_quote op, pb_exit_fees = exit_fees,
                 pb_slippage = slippage + \<bar>oi_entry_price op - oi_entry_reference_price op\<bar> * oi_quantity op\<rparr>)"

section \<open>Explanation of a window\<close>

text \<open>The reasons, with the values their texts quote.\<close>

datatype entries_note = Entries_Exceed int int | Entries_Equal int int

datatype stop_note = Latched_Shutdown shutdown_activation | Strategy_Silent int int int

record window_explanation =
  we_open_position_since :: "int option"
  we_entries_note :: entries_note
  we_trading_stopped :: "stop_note option"

text \<open>\<open>min\<close> and \<open>max\<close> by a key: the first one wins.\<close>

definition min_by :: "('a \<Rightarrow> 'k :: linorder) \<Rightarrow> 'a \<Rightarrow> 'a list \<Rightarrow> 'a" where
  "min_by key x xs = foldl (\<lambda>m y. if key y < key m then y else m) x xs"

definition max_by :: "('a \<Rightarrow> 'k :: linorder) \<Rightarrow> 'a \<Rightarrow> 'a list \<Rightarrow> 'a" where
  "max_by key x xs = foldl (\<lambda>m y. if key m < key y then y else m) x xs"

definition explain_window ::
  "trade list \<Rightarrow> int \<Rightarrow> open_position_info option \<Rightarrow> shutdown_activation list \<Rightarrow> (string \<times> int) list \<Rightarrow> int \<Rightarrow> int
    \<Rightarrow> window_explanation" where
  "explain_window trades entries open_position activations rejections window_end buy_signals =
     (let closed = int (length trades);
          latched = filter sa_remained_latched_to_end activations;
          last_time = (if trades \<noteq> [] then Some (t_exit_time_ms (last trades)) else map_option oi_entry_time_ms open_position)
      in \<lparr>we_open_position_since = map_option oi_entry_time_ms open_position,
          we_entries_note = (if closed < entries then Entries_Exceed entries closed else Entries_Equal entries closed),
          we_trading_stopped =
            (case latched of
               a # r \<Rightarrow> Some (Latched_Shutdown (min_by sa_first_activated_time_ms a r))
             | [] \<Rightarrow>
                 (case last_time of
                    None \<Rightarrow> None
                  | Some t \<Rightarrow> if t < window_end \<and> rejections = [] then Some (Strategy_Silent t window_end buy_signals)
                              else None))\<rparr>)"

section \<open>Figures over time\<close>

record monthly_return =
  mr_year :: int
  mr_month :: int
  mr_return_pct :: flt

definition month_of :: "equity_point \<Rightarrow> int \<times> int" where
  "month_of pt = (case civil_from_days (ep_timestamp_ms pt div MS_PER_DAY) of (y, m, d) \<Rightarrow> (y, m))"

definition month_end :: "equity_point list \<Rightarrow> int \<times> int \<Rightarrow> dec" where
  "month_end curve key = ep_equity (last (filter (\<lambda>pt. month_of pt = key) curve))"

fun monthly_loop :: "equity_point list \<Rightarrow> dec \<Rightarrow> (int \<times> int) list \<Rightarrow> monthly_return list" where
  "monthly_loop curve start_equity [] = []"
| "monthly_loop curve start_equity (key # keys) =
     (let end_equity = month_end curve key
      in (if 0 < start_equity
          then [\<lparr>mr_year = fst key, mr_month = snd key, mr_return_pct = float_of_dec ((end_equity / start_equity - 1) * Dec 100)\<rparr>]
          else []) @ monthly_loop curve end_equity keys)"

definition monthly_returns_of :: "equity_point list \<Rightarrow> monthly_return list" where
  "monthly_returns_of curve =
     (case curve of [] \<Rightarrow> []
      | pt # _ \<Rightarrow> monthly_loop curve (ep_equity pt) (sort (remdups (map month_of curve))))"

text \<open>The longest time below a peak: the peak with its time, the start of the current decline, the best so far.\<close>

fun underwater_loop ::
  "dec \<Rightarrow> int \<Rightarrow> int option \<Rightarrow> int \<Rightarrow> (int \<times> int) option \<Rightarrow> equity_point list \<Rightarrow> int option \<times> int \<times> (int \<times> int) option" where
  "underwater_loop peak peak_time start best found [] = (start, best, found)"
| "underwater_loop peak peak_time start best found (pt # pts) =
     (if peak \<le> ep_equity pt
      then (case start of
              None \<Rightarrow> underwater_loop (ep_equity pt) (ep_timestamp_ms pt) None best found pts
            | Some s \<Rightarrow>
                if best < ep_timestamp_ms pt - s
                then underwater_loop (ep_equity pt) (ep_timestamp_ms pt) None (ep_timestamp_ms pt - s)
                       (Some (s, ep_timestamp_ms pt)) pts
                else underwater_loop (ep_equity pt) (ep_timestamp_ms pt) None best found pts)
      else underwater_loop peak peak_time (case start of None \<Rightarrow> Some peak_time | Some s \<Rightarrow> Some s) best found pts)"

definition longest_underwater :: "equity_point list \<Rightarrow> (int \<times> int \<times> int) option" where
  "longest_underwater curve =
     (case curve of [] \<Rightarrow> None
      | pt # _ \<Rightarrow>
          (case underwater_loop (ep_equity pt) (ep_timestamp_ms pt) None 0 None curve of
             (start, best, found) \<Rightarrow>
               let duration = (case start of None \<Rightarrow> 0 | Some s \<Rightarrow> ep_timestamp_ms (last curve) - s)
               in (case (if best < duration then (duration, map_option (\<lambda>s. (s, ep_timestamp_ms (last curve))) start)
                         else (best, found)) of
                     (b, None) \<Rightarrow> None
                   | (b, Some (s, e)) \<Rightarrow> Some (b, s, e))))"

record time_based_performance =
  tb_cagr_pct :: "flt option"
  tb_monthly_returns :: "monthly_return list"
  tb_positive_months_pct :: "flt option"
  tb_longest_underwater_days :: "flt option"
  tb_longest_underwater_start_ms :: "int option"
  tb_longest_underwater_end_ms :: "int option"
  tb_exposure_pct :: flt
  tb_exposure_adjusted_return_pct :: "flt option"
  tb_calmar_ratio :: "flt option"

definition compute_time_based_performance ::
  "equity_point list \<Rightarrow> flt \<Rightarrow> flt option \<Rightarrow> flt \<Rightarrow> flt \<Rightarrow> time_based_performance" where
  "compute_time_based_performance curve total_return annualized max_dd exposure =
     (let months = monthly_returns_of curve; under = longest_underwater curve
      in \<lparr>tb_cagr_pct = annualized, tb_monthly_returns = months,
          tb_positive_months_pct = (if months = [] then None
            else Some (Flt 100 * float_of_int (int (length (filter (\<lambda>m. 0 < mr_return_pct m) months)))
                 / float_of_int (int (length months)))),
          tb_longest_underwater_days = map_option (\<lambda>(b, s, e). int_truediv b MS_PER_DAY) under,
          tb_longest_underwater_start_ms = map_option (\<lambda>(b, s, e). s) under,
          tb_longest_underwater_end_ms = map_option (\<lambda>(b, s, e). e) under,
          tb_exposure_pct = exposure,
          tb_exposure_adjusted_return_pct = (if 0 < exposure then Some (total_return / (exposure / Flt 100)) else None),
          tb_calmar_ratio = (case annualized of None \<Rightarrow> None
            | Some a \<Rightarrow> if 0 < max_dd then Some (a / max_dd) else None)\<rparr>)"

section \<open>Distribution of trades\<close>

record holding_period_stats =
  hp_min_hours :: flt
  hp_median_hours :: flt
  hp_mean_hours :: flt
  hp_max_hours :: flt

record trade_distribution =
  td_trade_count :: int
  td_median_trade_return_pct :: flt
  td_average_winner_quote :: "flt option"
  td_average_loser_quote :: "flt option"
  td_largest_winner_quote :: "flt option"
  td_largest_loser_quote :: "flt option"
  td_best_trade_pnl_quote :: dec
  td_best_trade_contribution_pct :: "flt option"
  td_total_pnl_excluding_best_trade_quote :: dec
  td_return_pct_excluding_best_trade :: "flt option"
  td_max_consecutive_wins :: int
  td_max_consecutive_losses :: int
  td_holding_period :: holding_period_stats

definition trade_return_pct :: "trade \<Rightarrow> flt" where
  "trade_return_pct t =
     (let notional = t_entry_price t * t_quantity t
      in if 0 < notional then float_of_dec (t_pnl_quote t / notional * Dec 100) else 0)"

text \<open>The streaks: longest wins and losses, and the current ones.\<close>

fun streak_loop :: "int \<Rightarrow> int \<Rightarrow> int \<Rightarrow> int \<Rightarrow> trade list \<Rightarrow> int \<times> int" where
  "streak_loop max_wins max_losses cur_wins cur_losses [] = (max_wins, max_losses)"
| "streak_loop max_wins max_losses cur_wins cur_losses (t # ts) =
     (let w = (if 0 < t_pnl_quote t then cur_wins + 1 else 0);
          l = (if 0 < t_pnl_quote t then 0 else if t_pnl_quote t < 0 then cur_losses + 1 else 0)
      in streak_loop (max max_wins w) (max max_losses l) w l ts)"

definition holding_period_of :: "trade list \<Rightarrow> holding_period_stats result" where
  "holding_period_of trades =
     (let hours = map (\<lambda>t. int_truediv (t_exit_time_ms t - t_entry_time_ms t) MS_PER_HOUR) trades
      in bindr (list_min hours) (\<lambda>lo. bindr (fmedian hours) (\<lambda>mid. bindr (list_max hours) (\<lambda>hi.
         Inr \<lparr>hp_min_hours = lo, hp_median_hours = mid, hp_mean_hours = fmean hours, hp_max_hours = hi\<rparr>))))"

definition compute_trade_distribution :: "trade list \<Rightarrow> dec \<Rightarrow> trade_distribution option result" where
  "compute_trade_distribution trades starting_equity =
     (case trades of
        [] \<Rightarrow> Inr None
      | first # r \<Rightarrow>
          let winners = map (\<lambda>t. float_of_dec (t_pnl_quote t)) (filter (\<lambda>t. 0 < t_pnl_quote t) trades);
              losers = map (\<lambda>t. float_of_dec (t_pnl_quote t)) (filter (\<lambda>t. t_pnl_quote t < 0) trades);
              best = t_pnl_quote (max_by t_pnl_quote first r);
              total = dsum (map t_pnl_quote trades);
              rest = total - best
          in bindr (fmedian (map trade_return_pct trades)) (\<lambda>median_return.
             bindr (holding_period_of trades) (\<lambda>holding.
             Inr (Some
               \<lparr>td_trade_count = int (length trades), td_median_trade_return_pct = median_return,
                td_average_winner_quote = (if winners \<noteq> [] then Some (fmean winners) else None),
                td_average_loser_quote = (if losers \<noteq> [] then Some (fmean losers) else None),
                td_largest_winner_quote = (case list_max winners of Inl e \<Rightarrow> None | Inr x \<Rightarrow> Some x),
                td_largest_loser_quote = (case list_min losers of Inl e \<Rightarrow> None | Inr x \<Rightarrow> Some x),
                td_best_trade_pnl_quote = best,
                td_best_trade_contribution_pct = (if total \<noteq> 0 then Some (float_of_dec (best / total * Dec 100)) else None),
                td_total_pnl_excluding_best_trade_quote = rest,
                td_return_pct_excluding_best_trade =
                  (if 0 < starting_equity then Some (float_of_dec (rest / starting_equity * Dec 100)) else None),
                td_max_consecutive_wins = fst (streak_loop 0 0 0 0 trades),
                td_max_consecutive_losses = snd (streak_loop 0 0 0 0 trades),
                td_holding_period = holding\<rparr>))))"

section \<open>Bootstrap\<close>

record bootstrap_interval =
  bs_n_trades :: int
  bs_n_resamples :: int
  bs_seed :: int
  bs_confidence_level :: flt
  bs_mean_total_return_pct :: "flt option"
  bs_ci_low_pct :: "flt option"
  bs_ci_high_pct :: "flt option"

text \<open>\<open>draw seed k n\<close>: the \<open>k\<close>-th call of \<open>randrange(n)\<close> on a fresh generator with the seed.\<close>

type_synonym generator = "int \<Rightarrow> nat \<Rightarrow> int \<Rightarrow> int"

definition BOOTSTRAP_SEED :: int where "BOOTSTRAP_SEED = 1337"
definition BOOTSTRAP_RESAMPLES :: nat where "BOOTSTRAP_RESAMPLES = 2000"
definition BOOTSTRAP_CONFIDENCE_LEVEL :: flt where "BOOTSTRAP_CONFIDENCE_LEVEL = Flt (fround (95 / 100))"

definition resampled_return :: "generator \<Rightarrow> int \<Rightarrow> flt list \<Rightarrow> dec \<Rightarrow> nat \<Rightarrow> flt result" where
  "resampled_return draw seed pnls starting_equity r =
     (let n = length pnls
      in bindr (map_res (\<lambda>i. nth_res pnls (draw seed (r * n + i) (int n))) [0 ..< n]) (\<lambda>picked.
         Inr (fsum picked / float_of_dec starting_equity * Flt 100)))"

definition compute_bootstrap :: "generator \<Rightarrow> trade list \<Rightarrow> dec \<Rightarrow> nat \<Rightarrow> int \<Rightarrow> flt \<Rightarrow> bootstrap_interval result" where
  "compute_bootstrap draw trades starting_equity n_resamples seed level =
     (let empty = \<lparr>bs_n_trades = int (length trades), bs_n_resamples = int n_resamples, bs_seed = seed,
            bs_confidence_level = level, bs_mean_total_return_pct = None, bs_ci_low_pct = None, bs_ci_high_pct = None\<rparr>
      in if length trades < 2 \<or> starting_equity \<le> 0 then Inr empty
         else let pnls = map (\<lambda>t. float_of_dec (t_pnl_quote t)) trades
         in bindr (map_res (resampled_return draw seed pnls starting_equity) [0 ..< n_resamples]) (\<lambda>returns.
            let ordered = sort returns;
                alpha = 1 - level;
                low_idx = max 0 (int_of_float (alpha / Flt 2 * float_of_int (int n_resamples)));
                high_idx = min (int n_resamples - 1) (int_of_float ((1 - alpha / Flt 2) * float_of_int (int n_resamples)) - 1)
            in if n_resamples = 0 then Inl ZeroDivisionError
               else bindr (nth_res ordered low_idx) (\<lambda>low. bindr (nth_res ordered high_idx) (\<lambda>high.
                    Inr (empty\<lparr>bs_mean_total_return_pct := Some (fmean ordered), bs_ci_low_pct := Some low,
                              bs_ci_high_pct := Some high\<rparr>)))))"

section \<open>Rolling windows\<close>

record rolling_window_point =
  rw_window_index :: int
  rw_trade_count :: int
  rw_start_time_ms :: int
  rw_end_time_ms :: int
  rw_return_pct :: flt
  rw_max_drawdown_pct :: flt

definition ROLLING_WINDOW_TRADE_COUNT :: nat where
  "ROLLING_WINDOW_TRADE_COUNT = 10"

text \<open>Chunks of \<open>k\<close> from a list; a step of zero is an error of \<open>range\<close>.\<close>

function chunks :: "nat \<Rightarrow> 'a list \<Rightarrow> 'a list list" where
  "chunks k xs = (if k = 0 \<or> xs = [] then [] else take k xs # chunks k (drop k xs))"
  by pat_completeness auto
termination
  by (relation "measure (\<lambda>(k, xs). length xs)") auto

declare chunks.simps [simp del]

fun window_loop :: "dec \<Rightarrow> dec \<Rightarrow> flt \<Rightarrow> trade list \<Rightarrow> dec \<times> flt" where
  "window_loop equity_now peak max_dd [] = (equity_now, max_dd)"
| "window_loop equity_now peak max_dd (t # ts) =
     (let e = equity_now + t_pnl_quote t; p = max peak e
      in window_loop e p (if 0 < p then max max_dd (float_of_dec ((p - e) / p)) else max_dd) ts)"

definition rolling_window :: "dec \<Rightarrow> nat \<times> trade list \<Rightarrow> rolling_window_point" where
  "rolling_window starting_equity = (\<lambda>(i, chunk).
     (case window_loop starting_equity starting_equity 0 chunk of (equity_now, dd) \<Rightarrow>
       \<lparr>rw_window_index = int i, rw_trade_count = int (length chunk), rw_start_time_ms = t_entry_time_ms (hd chunk),
        rw_end_time_ms = t_exit_time_ms (last chunk),
        rw_return_pct = float_of_dec ((equity_now - starting_equity) / starting_equity * Dec 100),
        rw_max_drawdown_pct = dd * Flt 100\<rparr>))"

definition compute_rolling_windows :: "trade list \<Rightarrow> dec \<Rightarrow> nat \<Rightarrow> rolling_window_point list result" where
  "compute_rolling_windows trades starting_equity k =
     (if trades = [] \<or> starting_equity \<le> 0 then Inr []
      else if k = 0 then Inl (ValueError ''range'')
      else Inr (map (rolling_window starting_equity) (List.enumerate 0 (chunks k trades))))"

section \<open>The whole report\<close>

record extended_report =
  er_accounting :: accounting_identity
  er_pnl_breakdown :: pnl_breakdown
  er_explanation :: window_explanation
  er_time_based :: time_based_performance
  er_trade_distribution :: "trade_distribution option"
  er_bootstrap :: bootstrap_interval
  er_rolling_windows :: "rolling_window_point list"
  er_already_consumed :: bool
  er_scope_note :: bool

text \<open>The inputs taken from the run, as one record.\<close>

record window_end =
  wn_end_time_ms :: int
  wn_starting_equity :: dec
  wn_cash_quote :: dec
  wn_base_quantity :: dec
  wn_mark_price :: dec
  wn_reported_equity :: dec
  wn_open_position :: "open_position_info option"

definition compute_extended_diagnostics ::
  "generator \<Rightarrow> trade list \<Rightarrow> equity_point list \<Rightarrow> window_end \<Rightarrow> performance_report \<Rightarrow> run_diagnostics \<Rightarrow> bool \<Rightarrow> bool
    \<Rightarrow> extended_report result" where
  "compute_extended_diagnostics draw trades curve w report d already_consumed scoped =
     bindr (compute_trade_distribution trades (wn_starting_equity w)) (\<lambda>dist.
     bindr (compute_bootstrap draw trades (wn_starting_equity w) BOOTSTRAP_RESAMPLES BOOTSTRAP_SEED BOOTSTRAP_CONFIDENCE_LEVEL) (\<lambda>boot.
     bindr (compute_rolling_windows trades (wn_starting_equity w) ROLLING_WINDOW_TRADE_COUNT) (\<lambda>windows.
     Inr \<lparr>er_accounting = compute_accounting_identity (wn_cash_quote w) (wn_base_quantity w) (wn_mark_price w) (wn_reported_equity w),
          er_pnl_breakdown = compute_pnl_breakdown trades (wn_open_position w) (wn_mark_price w),
          er_explanation = explain_window trades (rd_executed_entries d) (wn_open_position w) (rd_shutdown_activations d)
            (rd_rejected_entries_by_reason d) (wn_end_time_ms w) (rd_buy_signals_generated d),
          er_time_based = compute_time_based_performance curve (pr_total_return_pct report) (pr_annualized_return_pct report)
            (pr_max_drawdown_pct report) (pr_exposure_pct report),
          er_trade_distribution = dist, er_bootstrap = boot, er_rolling_windows = windows,
          er_already_consumed = already_consumed, er_scope_note = scoped\<rparr>)))"

end
