(* ===== verification/Backtest_Runs.thy ===== *)
theory Backtest_Runs
  imports Extended_Report
begin

text \<open>
  The two entry points of the research backtest (\<open>backtest/engine.py\<close>): \<open>run_backtest\<close>, one
  continuous run per contiguous segment with chronological train/validation/test labels,
  and \<open>run_independent_holdout_evaluation\<close>, one fresh run per window. Warnings are known by the data
  their texts quote. The exponential mean, the power function and the random generator
  are parameters.
\<close>

section \<open>Results\<close>

datatype split = Train | Validation | Test | Overall

datatype warning =
    Segment_Too_Short int int
  | Unexecuted_Signal signal_type
  | Cancelled_Signal int signal_type
  | Open_At_Gap int bool
  | Gaps_Preserved int
  | Low_Trade_Count split int
  | Several_Segments int
  | No_Train_Window int
  | Empty_Window int split
  | Window_Low_Trades int split int
  | Window_Pending int split signal_type

record segment_report =
  sp_index :: int
  sp_start_time_ms :: int
  sp_end_time_ms :: int
  sp_candle_count :: int
  sp_trade_count :: int
  sp_ends_with_open_position :: bool
  sp_excluded_from_overall :: bool
  sp_cancelled_pending_signal :: "signal_type option"
  sp_skipped_insufficient_candles :: bool
  sp_performance :: "performance_report option"
  sp_diagnostics :: "run_diagnostics option"
  sp_open_position :: "open_position_info option"
  sp_extended :: "extended_report option"

record aggregate_trade_stats =
  ag_segments_included :: int
  ag_total_trades :: int
  ag_total_realized_pnl_quote :: dec
  ag_win_rate :: "flt option"
  ag_total_strategy_exits :: int
  ag_total_stop_loss_exits :: int

record backtest_result =
  br_trades :: "trade list"
  br_equity_curve :: "equity_point list"
  br_reports :: "(split \<times> performance_report) list"
  br_warnings :: "warning list"
  br_unexecuted_final_signal :: "signal_type option"
  br_gaps :: "gap_record list"
  br_segments :: "segment_report list"
  br_aggregate :: "aggregate_trade_stats option"
  br_diagnostics :: "run_diagnostics option"
  br_extended_reports :: "(split \<times> extended_report) list"

record holdout_window =
  hw_segment_index :: int
  hw_label :: split
  hw_warm_up_start_time_ms :: int
  hw_warm_up_candle_count :: int
  hw_window_start_time_ms :: int
  hw_window_end_time_ms :: int
  hw_candle_count :: int
  hw_performance :: performance_report
  hw_diagnostics :: run_diagnostics
  hw_ends_with_open_position :: bool
  hw_unresolved_pending_signal :: "signal_type option"
  hw_open_position :: "open_position_info option"
  hw_extended :: extended_report

record holdout_result =
  hr_windows :: "holdout_window list"
  hr_warnings :: "warning list"

section \<open>What a run is given\<close>

text \<open>The platform: the pandas mean, the C power function, the random generator.\<close>

record platform =
  pl_ewm :: "flt list \<Rightarrow> int \<Rightarrow> flt list"
  pl_pow :: pow_fun
  pl_draw :: generator

text \<open>The objects both entry points build from the configuration.\<close>

record run_setup =
  rs_config :: app_config
  rs_filters :: symbol_filters
  rs_strategy :: signal_generator
  rs_broker :: backtest_broker
  rs_min_required :: int
  rs_starting_equity :: dec

definition prepare_run :: "platform \<Rightarrow> app_config \<Rightarrow> symbol_filters \<Rightarrow> run_setup result" where
  "prepare_run pl config filters =
     bindr (mk_ema_crossover (cfg_ema_fast (cfg_strategy config)) (cfg_ema_slow (cfg_strategy config))) (\<lambda>strategy.
     Inr \<lparr>rs_config = config, rs_filters = filters, rs_strategy = ema_generate_signal (pl_ewm pl) strategy,
          rs_broker = mk_broker (cfg_fees config), rs_min_required = cfg_ema_slow (cfg_strategy config) + 1,
          rs_starting_equity = dec_of_float (cfg_starting_equity (cfg_backtest config))\<rparr>)"

definition raw_segments :: "candle list \<Rightarrow> app_config \<Rightarrow> segmentation_result result" where
  "raw_segments candles config =
     (if cfg_gap_policy (cfg_backtest config) = Reject_Gaps
      then bindr (validate_candle_sequence candles (cfg_interval (cfg_market config))) (\<lambda>_.
           Inr \<lparr>segments = [candles], gaps = []\<rparr>)
      else partition_into_segments candles (cfg_interval (cfg_market config)))"

text \<open>\<open>xs[a:b]\<close> for indices that are not negative.\<close>

definition slice :: "int \<Rightarrow> int \<Rightarrow> 'a list \<Rightarrow> 'a list" where
  "slice a b xs = take (nat b - nat a) (drop (nat a) xs)"

definition segment_run :: "run_setup \<Rightarrow> candle list \<Rightarrow> journal_db option \<Rightarrow> (segment_run_result \<times> journal_db option) result" where
  "segment_run u segment j =
     run_segment segment (rs_config u) (rs_filters u) (rs_strategy u) (cfg_risk (rs_config u)) (rs_broker u) j
       (rs_min_required u) (rs_starting_equity u) False"

text \<open>The report of a run over the candles \<open>window\<close>, with its buy-and-hold comparison.\<close>

definition window_report :: "platform \<Rightarrow> run_setup \<Rightarrow> candle list \<Rightarrow> trade list \<Rightarrow> equity_point list \<Rightarrow> performance_report result" where
  "window_report pl u window trades curve =
     compute_performance_report (pl_pow pl) trades curve (cfg_interval (cfg_market (rs_config u)))
       (min_trades_for_significance (cfg_backtest (rs_config u)))
       (Some (compute_buy_and_hold_report window (rs_starting_equity u) (taker_fee_pct (cfg_fees (rs_config u)))))"

text \<open>The end of a run as the extended report reads it, marked at the close of \<open>c\<close>.\<close>

definition run_end :: "run_setup \<Rightarrow> candle \<Rightarrow> segment_run_result \<Rightarrow> window_end" where
  "run_end u c r =
     \<lparr>wn_end_time_ms = close_time_ms c, wn_starting_equity = rs_starting_equity u,
      wn_cash_quote = rd_ending_cash_quote (sr_diagnostics r), wn_base_quantity = rd_ending_base_quantity (sr_diagnostics r),
      wn_mark_price = c_close c, wn_reported_equity = rd_ending_equity (sr_diagnostics r),
      wn_open_position = sr_open_position r\<rparr>"

section \<open>The segments of a continuous backtest\<close>

record run_acc =
  ra_segments :: "segment_report list"
  ra_warnings :: "warning list"
  ra_unexecuted :: "signal_type option"
  ra_used :: "(candle list \<times> segment_run_result) list"
  ra_journal :: "journal_db option"

definition skipped_segment :: "int \<Rightarrow> candle list \<Rightarrow> segment_report" where
  "skipped_segment i segment =
     \<lparr>sp_index = i, sp_start_time_ms = (case segment of [] \<Rightarrow> 0 | c # _ \<Rightarrow> open_time_ms c),
      sp_end_time_ms = (if segment = [] then 0 else close_time_ms (last segment)),
      sp_candle_count = int (length segment), sp_trade_count = 0, sp_ends_with_open_position = False,
      sp_excluded_from_overall = True, sp_cancelled_pending_signal = None, sp_skipped_insufficient_candles = True,
      sp_performance = None, sp_diagnostics = None, sp_open_position = None, sp_extended = None\<rparr>"

definition used_segment ::
  "int \<Rightarrow> int \<Rightarrow> bool \<Rightarrow> segment_run_result \<Rightarrow> performance_report \<Rightarrow> extended_report \<Rightarrow> candle \<Rightarrow> candle \<Rightarrow> segment_report" where
  "used_segment idx candle_count exclude r performance extended first_candle last_candle =
     \<lparr>sp_index = idx, sp_start_time_ms = open_time_ms first_candle, sp_end_time_ms = close_time_ms last_candle,
      sp_candle_count = candle_count, sp_trade_count = int (length (sr_trades r)),
      sp_ends_with_open_position = sr_ends_with_open_position r, sp_excluded_from_overall = exclude,
      sp_cancelled_pending_signal = sr_pending_signal r, sp_skipped_insufficient_candles = False,
      sp_performance = Some performance, sp_diagnostics = Some (sr_diagnostics r),
      sp_open_position = sr_open_position r, sp_extended = Some extended\<rparr>"

definition pending_warning :: "int \<Rightarrow> bool \<Rightarrow> segment_run_result \<Rightarrow> warning list" where
  "pending_warning i is_last r =
     (case sr_pending_signal r of None \<Rightarrow> []
      | Some ty \<Rightarrow> if is_last then [Unexecuted_Signal ty] else [Cancelled_Signal i ty])"

definition segment_step ::
  "platform \<Rightarrow> run_setup \<Rightarrow> nat \<Rightarrow> run_acc \<Rightarrow> nat \<times> candle list \<Rightarrow> run_acc result" where
  "segment_step pl u count acc = (\<lambda>(i, segment).
     let is_last = (Suc i = count); idx = int i; m = rs_min_required u; config = rs_config u in
     if int (length segment) < m
     then Inr (acc\<lparr>ra_segments := ra_segments acc @ [skipped_segment idx segment],
                   ra_warnings := ra_warnings acc @ [Segment_Too_Short idx (int (length segment))]\<rparr>)
     else
       bindr (segment_run u segment (ra_journal acc)) (\<lambda>(r, j).
       let ends_open_at_gap = (sr_ends_with_open_position r \<and> \<not> is_last);
           exclude = (ends_open_at_gap \<and> exclude_open_position_segments (cfg_backtest config))
       in
       bindr (window_report pl u (drop (nat (m - 1)) segment) (sr_trades r) (sr_equity_curve r)) (\<lambda>performance.
       bindr (nth_res segment (-1)) (\<lambda>last_candle.
       bindr (nth_res segment 0) (\<lambda>first_candle.
       bindr (compute_extended_diagnostics (pl_draw pl) (sr_trades r) (sr_equity_curve r) (run_end u last_candle r) performance
         (sr_diagnostics r) False False) (\<lambda>extended.
       Inr (acc\<lparr>ra_segments := ra_segments acc @
              [used_segment idx (int (length segment)) exclude r performance extended first_candle last_candle],
            ra_warnings := ra_warnings acc @ pending_warning idx is_last r @
              (if ends_open_at_gap then [Open_At_Gap idx exclude] else []),
            ra_unexecuted := (if is_last \<and> sr_pending_signal r \<noteq> None then sr_pending_signal r else ra_unexecuted acc),
            ra_used := (if exclude then ra_used acc else ra_used acc @ [(segment, r)]),
            ra_journal := j\<rparr>)))))))"

section \<open>The chronological labels of one run\<close>

definition index_for_time :: "candle list \<Rightarrow> int \<Rightarrow> int \<Rightarrow> int" where
  "index_for_time segment time_ms offset =
     (case find (\<lambda>(i, c). open_time_ms c = time_ms) (List.enumerate 0 segment) of None \<Rightarrow> offset | Some (i, c) \<Rightarrow> int i)"

definition split_bounds :: "backtest_config \<Rightarrow> int \<Rightarrow> int \<Rightarrow> (split \<times> int \<times> int) list" where
  "split_bounds b m n =
     (let train_end = m - 1 + int_of_float (float_of_int (n - (m - 1)) * train_fraction b);
          validation_end = train_end + int_of_float (float_of_int (n - (m - 1)) * validation_fraction b)
      in [(Train, m - 1, train_end), (Validation, train_end, validation_end), (Test, validation_end, n), (Overall, m - 1, n)])"

text \<open>What the split ends with: the snapshot at its last bar, when there is one.\<close>

definition split_end :: "run_setup \<Rightarrow> candle list \<Rightarrow> segment_run_result \<Rightarrow> equity_point list \<Rightarrow> int \<Rightarrow> int \<Rightarrow> window_end result" where
  "split_end u segment r curve start_idx end_idx =
     (let snapshot_idx = end_idx - (rs_min_required u - 1) - 1;
          d = sr_diagnostics r;
          snap = (if 0 \<le> snapshot_idx \<and> snapshot_idx < int (length (sr_snapshots r))
                  then Some (sr_snapshots r ! nat snapshot_idx) else None)
      in bindr (nth_res segment (if start_idx < end_idx then end_idx - 1 else -1)) (\<lambda>mark.
         Inr \<lparr>wn_end_time_ms = close_time_ms mark, wn_starting_equity = rs_starting_equity u,
              wn_cash_quote = (case snap of None \<Rightarrow> rd_ending_cash_quote d | Some s \<Rightarrow> sn_cash_quote s),
              wn_base_quantity = (case snap of None \<Rightarrow> rd_ending_base_quantity d | Some s \<Rightarrow> sn_base_quantity s),
              wn_mark_price = c_close mark,
              wn_reported_equity = (if curve = [] then rd_ending_equity d else ep_equity (last curve)),
              wn_open_position = (case snap of None \<Rightarrow> sr_open_position r | Some s \<Rightarrow> open_trade_to_info (sn_open_trade s))\<rparr>))"

definition split_trades :: "candle list \<Rightarrow> int \<Rightarrow> trade list \<Rightarrow> int \<Rightarrow> int \<Rightarrow> trade list" where
  "split_trades segment offset trades start_idx end_idx =
     filter (\<lambda>t. let i = index_for_time segment (t_exit_time_ms t) offset in start_idx \<le> i \<and> i < end_idx) trades"

definition split_report ::
  "platform \<Rightarrow> run_setup \<Rightarrow> candle list \<Rightarrow> segment_run_result \<Rightarrow> split \<times> int \<times> int
    \<Rightarrow> (split \<times> performance_report \<times> extended_report) result" where
  "split_report pl u segment r = (\<lambda>(name, start_idx, end_idx).
     let offset = rs_min_required u - 1;
         trades = split_trades segment offset (sr_trades r) start_idx end_idx;
         curve = slice (max 0 (start_idx - offset)) (max 0 (end_idx - offset)) (sr_equity_curve r);
         whole = (start_idx = offset \<and> end_idx = int (length segment))
     in bindr (window_report pl u (slice start_idx end_idx segment) trades curve) (\<lambda>report.
        bindr (split_end u segment r curve start_idx end_idx) (\<lambda>w.
        bindr (compute_extended_diagnostics (pl_draw pl) trades curve w report (sr_diagnostics r) (name = Test) (\<not> whole)) (\<lambda>extended.
        Inr (name, report, extended)))))"

definition low_count_warning :: "split \<times> performance_report \<times> extended_report \<Rightarrow> warning list" where
  "low_count_warning = (\<lambda>(name, report, _).
     if pr_low_trade_count_warning report then [Low_Trade_Count name (pr_trade_count report)] else [])"

definition aggregate_of :: "nat \<Rightarrow> trade list \<Rightarrow> aggregate_trade_stats" where
  "aggregate_of used trades =
     \<lparr>ag_segments_included = int used, ag_total_trades = int (length trades),
      ag_total_realized_pnl_quote = dsum (map t_pnl_quote trades),
      ag_win_rate = (if trades = [] then None
        else Some (Flt 100 * float_of_int (int (length (filter (\<lambda>t. 0 < t_pnl_quote t) trades))) / float_of_int (int (length trades)))),
      ag_total_strategy_exits = count_exits EXIT_REASON_STRATEGY trades,
      ag_total_stop_loss_exits = count_exits EXIT_REASON_STOP_LOSS trades\<rparr>"

definition all_trades :: "(candle list \<times> segment_run_result) list \<Rightarrow> trade list" where
  "all_trades used = concat (map (\<lambda>(_, r). sr_trades r) used)"

definition finish_backtest :: "platform \<Rightarrow> run_setup \<Rightarrow> gap_record list \<Rightarrow> run_acc \<Rightarrow> backtest_result result" where
  "finish_backtest pl u gs acc =
     (let used = ra_used acc;
          warnings = ra_warnings acc @ (if gs = [] then [] else [Gaps_Preserved (int (length gs))]);
          base = \<lparr>br_trades = all_trades used, br_equity_curve = concat (map (\<lambda>(_, r). sr_equity_curve r) used),
            br_reports = [], br_warnings = warnings, br_unexecuted_final_signal = ra_unexecuted acc, br_gaps = gs,
            br_segments = ra_segments acc, br_aggregate = None, br_diagnostics = None, br_extended_reports = []\<rparr>
      in case used of
           [] \<Rightarrow> Inr base
         | [(segment, r)] \<Rightarrow>
             bindr (map_res (split_report pl u segment r)
               (split_bounds (cfg_backtest (rs_config u)) (rs_min_required u) (int (length segment)))) (\<lambda>splits.
             Inr (base\<lparr>br_reports := map (\<lambda>(name, report, _). (name, report)) splits,
                       br_extended_reports := map (\<lambda>(name, _, extended). (name, extended)) splits,
                       br_warnings := warnings @ concat (map low_count_warning splits),
                       br_diagnostics := Some (sr_diagnostics r)\<rparr>))
         | _ \<Rightarrow> Inr (base\<lparr>br_aggregate := Some (aggregate_of (length used) (all_trades used)),
                          br_warnings := warnings @ [Several_Segments (int (length used))]\<rparr>))"

definition run_acc_start :: "journal_db option \<Rightarrow> run_acc" where
  "run_acc_start j = \<lparr>ra_segments = [], ra_warnings = [], ra_unexecuted = None, ra_used = [], ra_journal = j\<rparr>"

definition run_backtest ::
  "platform \<Rightarrow> candle list \<Rightarrow> app_config \<Rightarrow> symbol_filters \<Rightarrow> journal_db option \<Rightarrow> backtest_result result" where
  "run_backtest pl candles config filters j =
     bindr (raw_segments candles config) (\<lambda>seg.
     bindr (prepare_run pl config filters) (\<lambda>u.
     if \<not> (\<exists>s \<in> set (segments seg). rs_min_required u \<le> int (length s)) then Inl (ValueError ''too few candles'')
     else
       bindr (foldr_res (segment_step pl u (length (segments seg))) (run_acc_start j) (List.enumerate 0 (segments seg))) (\<lambda>acc.
       finish_backtest pl u (gaps seg) acc)))"

section \<open>Independent holdout windows\<close>

record holdout_acc =
  ha_windows :: "holdout_window list"
  ha_warnings :: "warning list"
  ha_journal :: "journal_db option"

definition holdout_window_of ::
  "run_setup \<Rightarrow> int \<Rightarrow> split \<Rightarrow> int \<Rightarrow> segment_run_result \<Rightarrow> performance_report \<Rightarrow> extended_report \<Rightarrow> candle \<Rightarrow> candle \<Rightarrow> candle
    \<Rightarrow> holdout_window" where
  "holdout_window_of u idx name candle_count r report extended warm_candle first_candle last_candle =
     \<lparr>hw_segment_index = idx, hw_label = name, hw_warm_up_start_time_ms = open_time_ms warm_candle,
      hw_warm_up_candle_count = rs_min_required u - 1, hw_window_start_time_ms = open_time_ms first_candle,
      hw_window_end_time_ms = close_time_ms last_candle, hw_candle_count = candle_count,
      hw_performance = report, hw_diagnostics = sr_diagnostics r,
      hw_ends_with_open_position = sr_ends_with_open_position r,
      hw_unresolved_pending_signal = sr_pending_signal r, hw_open_position = sr_open_position r,
      hw_extended = extended\<rparr>"

definition holdout_window_step ::
  "platform \<Rightarrow> run_setup \<Rightarrow> int \<Rightarrow> candle list \<Rightarrow> holdout_acc \<Rightarrow> split \<times> int \<times> int \<Rightarrow> holdout_acc result" where
  "holdout_window_step pl u idx segment acc = (\<lambda>(name, start_idx, end_idx).
     if end_idx \<le> start_idx then Inr (acc\<lparr>ha_warnings := ha_warnings acc @ [Empty_Window idx name]\<rparr>)
     else
       let warm_up = start_idx - (rs_min_required u - 1) in
       bindr (segment_run u (slice warm_up end_idx segment) (ha_journal acc)) (\<lambda>(r, j).
       bindr (window_report pl u (slice start_idx end_idx segment) (sr_trades r) (sr_equity_curve r)) (\<lambda>report.
       bindr (nth_res segment (end_idx - 1)) (\<lambda>last_candle.
       bindr (compute_extended_diagnostics (pl_draw pl) (sr_trades r) (sr_equity_curve r) (run_end u last_candle r) report
         (sr_diagnostics r) (name = Test) False) (\<lambda>extended.
       bindr (nth_res segment warm_up) (\<lambda>warm_candle.
       bindr (nth_res segment start_idx) (\<lambda>first_candle.
       Inr (acc\<lparr>ha_warnings := ha_warnings acc @
              (if pr_low_trade_count_warning report then [Window_Low_Trades idx name (pr_trade_count report)] else []) @
              (case sr_pending_signal r of None \<Rightarrow> [] | Some ty \<Rightarrow> [Window_Pending idx name ty]),
            ha_windows := ha_windows acc @
              [holdout_window_of u idx name (end_idx - start_idx) r report extended warm_candle first_candle last_candle],
            ha_journal := j\<rparr>))))))))"

definition holdout_segment_step :: "platform \<Rightarrow> run_setup \<Rightarrow> holdout_acc \<Rightarrow> nat \<times> candle list \<Rightarrow> holdout_acc result" where
  "holdout_segment_step pl u acc = (\<lambda>(i, segment).
     let n = int (length segment); m = rs_min_required u; b = cfg_backtest (rs_config u);
         train_end = m - 1 + int_of_float (float_of_int (n - (m - 1)) * train_fraction b)
     in if n < m then Inr (acc\<lparr>ha_warnings := ha_warnings acc @ [Segment_Too_Short (int i) n]\<rparr>)
        else if train_end \<le> m - 1 then Inr (acc\<lparr>ha_warnings := ha_warnings acc @ [No_Train_Window (int i)]\<rparr>)
        else foldr_res (holdout_window_step pl u (int i) segment) acc (take 3 (split_bounds b m n)))"

definition run_independent_holdout_evaluation ::
  "platform \<Rightarrow> candle list \<Rightarrow> app_config \<Rightarrow> symbol_filters \<Rightarrow> journal_db option \<Rightarrow> holdout_result result" where
  "run_independent_holdout_evaluation pl candles config filters j =
     bindr (raw_segments candles config) (\<lambda>seg.
     bindr (prepare_run pl config filters) (\<lambda>u.
     bindr (foldr_res (holdout_segment_step pl u) \<lparr>ha_windows = [], ha_warnings = [], ha_journal = j\<rparr>
       (List.enumerate 0 (segments seg))) (\<lambda>acc.
     Inr \<lparr>hr_windows = ha_windows acc, hr_warnings = ha_warnings acc\<rparr>)))"

end
