(* ===== verification/Report_Facts.thy ===== *)
theory Report_Facts
  imports Backtest_Runs "HOL-Library.Sublist"
begin

text \<open>
  Facts about the reports: the accounting identity, streaks, rolling windows, the bootstrap
  interval and the bounds of the chronological splits.
\<close>

section \<open>Accounting\<close>

lemma accounting_holds_iff:
  "ai_identity_holds (compute_accounting_identity cash base mark reported) \<longleftrightarrow> cash + base * mark = reported"
proof -
  have "x - y = 0 \<longleftrightarrow> x = y" for x y :: dec
    using dec_diff_nonneg_iff [of x y] dec_diff_nonpos_iff [of x y] by (metis order.antisym order_refl)
  then show ?thesis by (simp add: compute_accounting_identity_def Let_def)
qed

section \<open>Streaks\<close>

text \<open>One counter of a streak: the best so far and the current one.\<close>

fun run_loop :: "('a \<Rightarrow> bool) \<Rightarrow> int \<Rightarrow> int \<Rightarrow> 'a list \<Rightarrow> int" where
  "run_loop P best cur [] = best"
| "run_loop P best cur (x # xs) = (let c = (if P x then cur + 1 else 0) in run_loop P (max best c) c xs)"

lemma streak_loop_runs:
  "streak_loop w l cw cl ts = (run_loop (\<lambda>t. 0 < t_pnl_quote t) w cw ts, run_loop (\<lambda>t. t_pnl_quote t < 0) l cl ts)"
proof (induction ts arbitrary: w l cw cl)
  case (Cons t ts)
  then show ?case by (cases "0 < t_pnl_quote t") (auto simp: Let_def)
qed simp

text \<open>The longest suffix of a list whose elements satisfy \<open>P\<close>.\<close>

definition tail_run :: "('a \<Rightarrow> bool) \<Rightarrow> 'a list \<Rightarrow> 'a list" where
  "tail_run P xs = rev (takeWhile P (rev xs))"

definition longest_run :: "('a \<Rightarrow> bool) \<Rightarrow> 'a list \<Rightarrow> int \<Rightarrow> bool" where
  "longest_run P xs n \<longleftrightarrow>
     (\<forall>bs. sublist bs xs \<and> (\<forall>x \<in> set bs. P x) \<longrightarrow> int (length bs) \<le> n) \<and>
     (\<exists>bs. sublist bs xs \<and> (\<forall>x \<in> set bs. P x) \<and> int (length bs) = n)"

lemma tail_run_snoc: "tail_run P (xs @ [x]) = (if P x then tail_run P xs @ [x] else [])"
  by (simp add: tail_run_def)

lemma tail_run_suffix: "suffix (tail_run P xs) xs \<and> (\<forall>x \<in> set (tail_run P xs). P x)"
  unfolding tail_run_def suffix_def
  by (auto dest: set_takeWhileD intro!: exI [of _ "rev (dropWhile P (rev xs))"] simp flip: rev_append)

lemma tail_run_longest:
  assumes "suffix bs xs" "\<forall>x \<in> set bs. P x"
  shows "length bs \<le> length (tail_run P xs)"
proof -
  from assms(1) obtain ys where "rev xs = rev bs @ ys" by (auto simp: suffix_def)
  then have "takeWhile P (rev xs) = rev bs @ takeWhile P ys" using takeWhile_append2 [of "rev bs" P ys] assms(2) by simp
  then show ?thesis by (simp add: tail_run_def)
qed

lemma sublist_snoc: "sublist bs (xs @ [x]) \<longleftrightarrow> sublist bs xs \<or> suffix bs (xs @ [x])"
proof
  assume "sublist bs (xs @ [x])"
  then obtain ps ss where s: "xs @ [x] = ps @ bs @ ss" by (auto simp: sublist_def)
  show "sublist bs xs \<or> suffix bs (xs @ [x])"
  proof (cases ss rule: rev_cases)
    case (snoc zs z)
    then have "xs = ps @ bs @ zs" using s by simp
    then show ?thesis by (auto simp: sublist_def)
  qed (use s in \<open>auto simp: suffix_def\<close>)
next
  assume "sublist bs xs \<or> suffix bs (xs @ [x])"
  then show "sublist bs (xs @ [x])" using sublist_order.order.trans [of bs xs "xs @ [x]"] by auto
qed

lemma longest_run_snoc:
  assumes "longest_run P xs n"
  shows "longest_run P (xs @ [x]) (max n (int (length (tail_run P (xs @ [x])))))"
proof -
  let ?t = "tail_run P (xs @ [x])"
  have t: "suffix ?t (xs @ [x])" "\<forall>y \<in> set ?t. P y" using tail_run_suffix [of P "xs @ [x]"] by simp_all
  have le: "int (length bs) \<le> max n (int (length ?t))" if "sublist bs (xs @ [x])" "\<forall>y \<in> set bs. P y" for bs
  proof (cases "sublist bs xs")
    case True
    then have "int (length bs) \<le> n" using assms that(2) unfolding longest_run_def by blast
    then show ?thesis by simp
  next
    case False
    then have "length bs \<le> length ?t" using that tail_run_longest unfolding sublist_snoc by blast
    then show ?thesis by simp
  qed
  obtain bs where bs: "sublist bs xs" "\<forall>y \<in> set bs. P y" "int (length bs) = n"
    using assms by (auto simp: longest_run_def)
  have "\<exists>bs. sublist bs (xs @ [x]) \<and> (\<forall>y \<in> set bs. P y) \<and> int (length bs) = max n (int (length ?t))"
  proof (cases "n \<le> int (length ?t)")
    case True
    then show ?thesis using t by (intro exI [of _ ?t]) (simp add: sublist_snoc)
  next
    case False
    then show ?thesis using bs by (intro exI [of _ bs]) (simp add: sublist_snoc)
  qed
  with le show ?thesis unfolding longest_run_def by blast
qed

lemma run_loop_spec:
  assumes "longest_run P pre b" "c = int (length (tail_run P pre))"
  shows "longest_run P (pre @ xs) (run_loop P b c xs)"
  using assms
proof (induction xs arbitrary: pre b c)
  case (Cons x xs)
  have c: "int (length (tail_run P (pre @ [x]))) = (if P x then c + 1 else 0)"
    using Cons.prems(2) by (simp add: tail_run_snoc)
  have "longest_run P ((pre @ [x]) @ xs) (run_loop P (max b (int (length (tail_run P (pre @ [x])))))
      (int (length (tail_run P (pre @ [x])))) xs)"
    by (rule Cons.IH [OF longest_run_snoc [OF Cons.prems(1)] refl])
  then show ?case unfolding c by (simp add: Let_def)
qed simp

lemma streaks_are_longest:
  "longest_run (\<lambda>t. 0 < t_pnl_quote t) ts (fst (streak_loop 0 0 0 0 ts))"
  "longest_run (\<lambda>t. t_pnl_quote t < 0) ts (snd (streak_loop 0 0 0 0 ts))"
  using run_loop_spec [of _ "[]" 0 0 ts] by (simp_all add: streak_loop_runs longest_run_def tail_run_def)

section \<open>Rolling windows\<close>

lemma concat_chunks: "0 < k \<Longrightarrow> concat (chunks k xs) = xs"
proof (induction k xs rule: chunks.induct)
  case (1 k xs)
  then show ?case by (cases "xs = []") (simp add: chunks.simps, simp add: chunks.simps [of k xs])
qed

lemma chunks_sizes:
  assumes "0 < k" "i < length (chunks k xs)"
  shows "chunks k xs ! i \<noteq> [] \<and> length (chunks k xs ! i) \<le> k \<and> (Suc i < length (chunks k xs) \<longrightarrow> length (chunks k xs ! i) = k)"
  using assms
proof (induction k xs arbitrary: i rule: chunks.induct)
  case (1 k xs)
  show ?case
  proof (cases "xs = []")
    case False
    then have e: "chunks k xs = take k xs # chunks k (drop k xs)" using 1(2) by (simp add: chunks.simps)
    show ?thesis
    proof (cases i)
      case 0
      have "chunks k (drop k xs) \<noteq> [] \<Longrightarrow> k < length xs" by (auto simp: chunks.simps [of k "drop k xs"] split: if_splits)
      then show ?thesis using 0 e False 1(2) by auto
    next
      case (Suc j)
      then show ?thesis using 1(1) [of j] 1(2,3) False e by simp
    qed
  qed (use 1 in \<open>simp add: chunks.simps\<close>)
qed

section \<open>Order of the bootstrap interval\<close>

lemma map_res_ok: "(\<And>x. x \<in> set xs \<Longrightarrow> \<exists>y. f x = Inr y) \<Longrightarrow> \<exists>ys. map_res f xs = Inr ys"
proof (induction xs)
  case (Cons x xs)
  then obtain y ys where "f x = Inr y" "map_res f xs = Inr ys" by (metis list.set_intros)
  then show ?case by simp
qed simp

lemma resampled_return_ok:
  assumes "\<And>k. 0 \<le> draw seed k (int (length pnls)) \<and> draw seed k (int (length pnls)) < int (length pnls)"
  shows "\<exists>x. resampled_return draw seed pnls E r = Inr x"
proof -
  have "\<exists>ys. map_res (\<lambda>i. nth_res pnls (draw seed (r * length pnls + i) (int (length pnls)))) [0 ..< length pnls] = Inr ys"
    by (rule map_res_ok) (use assms in \<open>auto simp: nth_res_def Let_def not_less [symmetric]\<close>)
  then show ?thesis by (auto simp: resampled_return_def Let_def)
qed

lemma nth_res_sorted_mono:
  assumes "sorted xs" "nth_res xs i = Inr a" "nth_res xs j = Inr b" "0 \<le> i" "i \<le> j"
  shows "a \<le> b"
  using assms by (auto simp: nth_res_def Let_def nat_mono intro: sorted_nth_mono split: if_splits)

section \<open>Bounds of the splits\<close>

lemma float_of_int_exact: "0 \<le> n \<Longrightarrow> n < 2 ^ 53 \<Longrightarrow> fval (float_of_int n) = of_int n"
  using rnd_representable [of 2 53 "of_int n" n 0] by (simp add: float_of_int_def fround_def)

lemma shares_fit:
  assumes "0 \<le> n" "n < 2 ^ 53" "0 \<le> a" "0 \<le> b" "fval a + fval b \<le> 1"
  shows "0 \<le> int_of_float (float_of_int n * a)" "0 \<le> int_of_float (float_of_int n * b)"
    "int_of_float (float_of_int n * a) + int_of_float (float_of_int n * b) \<le> n"
proof -
  let ?p = "of_int n * fval a" and ?q = "of_int n * fval b"
  have nn: "0 \<le> ?p" "0 \<le> ?q" using assms(1,3,4) by (simp_all add: flt_arith)
  have v: "fval (float_of_int n * a) = fround ?p" "fval (float_of_int n * b) = fround ?q"
    using float_of_int_exact [OF assms(1,2)] by (simp_all add: flt_arith)
  have r: "0 \<le> fround ?p" "0 \<le> fround ?q" using nn by (simp_all add: flt.nonneg)
  have i: "int_of_float (float_of_int n * a) = \<lfloor>fround ?p\<rfloor>" "int_of_float (float_of_int n * b) = \<lfloor>fround ?q\<rfloor>"
    using r by (simp_all add: int_of_float_def v)
  show "0 \<le> int_of_float (float_of_int n * a)" "0 \<le> int_of_float (float_of_int n * b)" using r by (simp_all add: i)
  have e: "unit_roundoff 2 53 = (1 / 2 ^ 53 :: rat)" by (simp add: unit_roundoff_def)
  have "fround ?p + fround ?q \<le> (1 + unit_roundoff 2 53) * (?p + ?q)"
    using flt.upper [OF nn(1)] flt.upper [OF nn(2)] by (simp add: distrib_left)
  also have "\<dots> \<le> (1 + unit_roundoff 2 53) * of_int n"
    using assms(1,5) by (intro mult_left_mono) (simp_all add: e mult_left_le flip: distrib_left)
  also have "\<dots> < of_int n + 1"
  proof -
    have "(of_int n :: rat) < 2 ^ 53" using assms(2) by (metis of_int_less_iff of_int_power of_int_numeral)
    then show ?thesis by (simp add: e distrib_right)
  qed
  finally have "fround ?p + fround ?q < of_int n + 1" .
  moreover have "of_int (\<lfloor>fround ?p\<rfloor> + \<lfloor>fround ?q\<rfloor>) \<le> fround ?p + fround ?q" by (simp add: add_mono)
  ultimately have "(of_int (\<lfloor>fround ?p\<rfloor> + \<lfloor>fround ?q\<rfloor>) :: rat) < of_int (n + 1)" by simp
  then show "int_of_float (float_of_int n * a) + int_of_float (float_of_int n * b) \<le> n"
    unfolding i of_int_less_iff by simp
qed

end
