(* ===== verification/Quiet_Runs.thy ===== *)
theory Quiet_Runs
  imports Report_Facts
begin

text \<open>
  When the reports exist: the performance report never raises on a known interval, and a
  run whose strategy only holds completes, with the whole evaluation around it. These are
  the runs the concrete instances of the evaluation's properties are taken from.
\<close>

section \<open>Totality of the performance report\<close>

definition pow_total :: "pow_fun \<Rightarrow> bool" where
  "pow_total pw \<longleftrightarrow> (\<forall>x y. \<exists>z. pw x y = Inr z) \<and> (\<forall>x z. pw x (Flt 2) = Inr z \<longrightarrow> 0 \<le> z)"

lemma foldl_plus_nonneg: "(0 :: flt) \<le> a \<Longrightarrow> (\<And>x. x \<in> set xs \<Longrightarrow> 0 \<le> x) \<Longrightarrow> 0 \<le> foldl (+) a xs"
proof (induction xs arbitrary: a)
  case (Cons x xs)
  have "0 \<le> a + x" using Cons.prems(1) Cons.prems(2) [of x] by (auto simp: flt_arith intro!: flt.nonneg add_nonneg_nonneg)
  then show ?case using Cons by simp
qed simp

lemma fsum_nonneg: "(\<And>x. x \<in> set xs \<Longrightarrow> 0 \<le> x) \<Longrightarrow> 0 \<le> fsum xs"
  unfolding fsum_def by (rule foldl_plus_nonneg) simp_all

lemma flt_divide_nonneg: "0 \<le> x \<Longrightarrow> 0 \<le> y \<Longrightarrow> 0 \<le> (x / y :: flt)"
  by (auto simp: flt_arith intro!: flt.nonneg divide_nonneg_nonneg)

lemma float_of_int_nonneg: "0 \<le> n \<Longrightarrow> 0 \<le> float_of_int n"
  by (auto simp: flt_arith float_of_int_def intro!: flt.nonneg)

lemma squares_ok:
  assumes "pow_total pw"
  shows "\<exists>ys. map_res (\<lambda>r. pw (g r) (Flt 2)) xs = Inr ys \<and> 0 \<le> fsum ys"
proof -
  have "\<exists>ys. map_res (\<lambda>r. pw (g r) (Flt 2)) xs = Inr ys" by (rule map_res_ok) (use assms in \<open>simp add: pow_total_def\<close>)
  then obtain ys where ys: "map_res (\<lambda>r. pw (g r) (Flt 2)) xs = Inr ys" by blast
  have "0 \<le> y" if "y \<in> set ys" for y using map_res_set [OF ys that] assms by (auto simp: pow_total_def)
  with ys show ?thesis using fsum_nonneg by blast
qed

lemma root_ok: "0 \<le> x \<Longrightarrow> 0 \<le> n \<Longrightarrow> \<exists>y. fsqrt (x / float_of_int n) = Inr y"
  by (intro fsqrt_ok flt_divide_nonneg float_of_int_nonneg)

lemma risk_ratios_ok:
  assumes "pow_total pw" "0 \<le> ppy"
  shows "\<exists>x. risk_ratios pw ppy returns = Inr x"
proof (cases "length returns < 2")
  case False
  obtain sq where sq: "map_res (\<lambda>r. pw (r - fmean returns) (Flt 2)) returns = Inr sq" "0 \<le> fsum sq"
    using squares_ok [OF assms(1), of "\<lambda>r. r - fmean returns" returns] by blast
  have "0 \<le> int (length returns) - 1" using False by linarith
  then obtain sd where sd: "fsqrt (fsum sq / float_of_int (int (length returns) - 1)) = Inr sd"
    using root_ok [OF sq(2)] by blast
  obtain rt where rt: "fsqrt ppy = Inr rt" using fsqrt_ok [OF assms(2)] by blast
  obtain dq where dq: "map_res (\<lambda>r. pw r (Flt 2)) (map (\<lambda>r. min r 0) returns) = Inr dq" "0 \<le> fsum dq"
    using squares_ok [OF assms(1), of "\<lambda>r. r" "map (\<lambda>r. min r 0) returns"] by blast
  obtain dd where dd: "fsqrt (fsum dq / float_of_int (int (length returns))) = Inr dd"
    using root_ok [OF dq(2), of "int (length returns)"] by auto
  show ?thesis using False by (simp add: risk_ratios_def Let_def sq(1) sd rt dq(1) dd)
qed (simp add: risk_ratios_def)

lemma performance_report_ok:
  assumes "pow_total pw" "interval_to_ms interval = Inr w"
  shows "\<exists>p. compute_performance_report pw trades curve interval k bh = Inr p"
proof (cases "curve = []")
  case False
  let ?eq = "map (\<lambda>p. float_of_dec (ep_equity p)) curve"
  let ?dur = "ep_timestamp_ms (last curve) - ep_timestamp_ms (hd curve)" and ?ppy = "int_truediv MS_PER_YEAR w"
  have ppy: "0 \<le> ?ppy" using interval_to_ms_pos [OF assms(2)]
    by (auto simp: int_truediv_def flt_arith MS_PER_YEAR_def intro!: flt.nonneg divide_nonneg_pos)
  obtain an where an: "annualized_return pw ?dur (hd ?eq) (last ?eq) = Inr an"
    using assms(1) by (cases "0 < ?dur \<and> 0 < hd ?eq \<and> 0 < last ?eq")
      (auto simp: annualized_return_def pow_total_def Let_def, metis bindr_simps(2))
  obtain rr where rr: "risk_ratios pw ?ppy (period_returns ?eq) = Inr rr" using risk_ratios_ok [OF assms(1) ppy] by blast
  show ?thesis using False an rr assms(2)
    by (cases rr) (simp add: compute_performance_report_def periods_per_year_def Let_def)
qed (use assms(2) in \<open>simp add: compute_performance_report_def periods_per_year_def\<close>)

section \<open>Runs that only hold\<close>

definition idle :: "seg_state \<Rightarrow> bool" where
  "idle s \<longleftrightarrow> position_side (sg_portfolio s) = FLAT \<and> sg_pending_signal s = None \<and> sg_trades s = [] \<and>
     sg_open_trade s = None \<and> shutdown_first_activation (sg_diag s) = []"

lemma hold_bar:
  assumes "idle s" "strategy h FLAT = Inr sig" "sg_type sig = HOLD"
  shows "\<exists>t. run_bar policy config rc filters b strategy h c s = (Inr (), t) \<and> idle t"
  using assms
  by (simp add: idle_def run_bar_def sbind_def fill_pending_def protect_def stop_hit_def target_hit_def bt_record_def
      start_bar_def Let_def take_signal_def close_bar_def)

lemma hold_bars:
  assumes "idle s" "\<And>i. i \<in> set is \<Longrightarrow> 0 \<le> i \<and> i < int (length segment)"
    and "\<And>i. i \<in> set is \<Longrightarrow> \<exists>sig. strategy (take (nat (i + 1)) segment) FLAT = Inr sig \<and> sg_type sig = HOLD"
  shows "\<exists>t. run_bars policy config rc filters b strategy segment is s = (Inr (), t) \<and> idle t"
  using assms
proof (induction "is" arbitrary: s)
  case (Cons i "is")
  have i: "0 \<le> i" "i < int (length segment)" using Cons.prems(2) [of i] by simp_all
  then have c: "nth_res segment i = Inr (segment ! nat i)" using nth_res_nat [of "nat i" segment] by simp
  obtain sig where "strategy (take (nat (i + 1)) segment) FLAT = Inr sig" "sg_type sig = HOLD" using Cons.prems(3) [of i] by auto
  from hold_bar [of s strategy, OF Cons.prems(1) this] obtain u where
    u: "run_bar policy config rc filters b strategy (take (nat (i + 1)) segment) (segment ! nat i) s = (Inr (), u)" "idle u" by blast
  from Cons.IH [OF u(2)] Cons.prems(2,3) obtain t where
    "run_bars policy config rc filters b strategy segment is u = (Inr (), t)" "idle t" by auto
  then show ?case using c u(1) by (simp add: sbind_def)
qed simp

lemma hold_segment:
  assumes "1 \<le> m" "m \<le> int (length segment)"
    and "\<And>k. m \<le> int k \<Longrightarrow> k \<le> length segment \<Longrightarrow> \<exists>sig. strategy (take k segment) FLAT = Inr sig \<and> sg_type sig = HOLD"
  shows "\<exists>r j'. run_segment segment config filters strategy rc b j m E policy = Inr (r, j') \<and> sr_trades r = [] \<and>
    sr_ends_with_open_position r = False"
proof -
  let ?f = "segment ! nat (m - 1)"
  have f: "nth_res segment (m - 1) = Inr ?f" using nth_res_nat [of "nat (m - 1)" segment] assms(1,2) by simp
  have l: "nth_res segment (-1) = Inr (last segment)" using assms(1,2) by (intro nth_res_last) auto
  have "idle (seg_start E ?f j)" by (simp add: idle_def seg_start_def portfolio_initial_def diag_start_def)
  moreover have "\<exists>sig. strategy (take (nat (i + 1)) segment) FLAT = Inr sig \<and> sg_type sig = HOLD"
    if "i \<in> set [m - 1 .. int (length segment) - 1]" for i
    by (rule assms(3)) (use that assms(1) in auto)
  ultimately obtain t where "run_bars policy config rc filters b strategy segment [m - 1 .. int (length segment) - 1]
      (seg_start E ?f j) = (Inr (), t)" "idle t"
    using hold_bars [of "seg_start E ?f j" "[m - 1 .. int (length segment) - 1]" segment strategy policy config rc filters b] assms(1) by auto
  then show ?thesis using f l by (simp add: run_segment_def idle_def segment_result_def)
qed

lemma no_trade_diagnostics_ok:
  "\<exists>e. compute_extended_diagnostics draw [] curve w report d consumed scoped = Inr e"
  by (simp add: compute_extended_diagnostics_def compute_trade_distribution_def compute_bootstrap_def compute_rolling_windows_def)

section \<open>An evaluation that only holds\<close>

text \<open>With the same mean for both periods the crossover strategy never signals.\<close>

lemma equal_means_hold:
  assumes "0 < ema_fast_period s" "0 < ema_slow_period s" "ema_slow_period s + 1 \<le> int (length cs)"
  shows "\<exists>sig. ema_generate_signal (\<lambda>xs n. xs) s cs FLAT = Inr sig \<and> sg_type sig = HOLD"
proof -
  have "is_ok (ema_generate_signal (\<lambda>xs n. xs) s cs FLAT)"
    using ema_generate_signal_total [of s "\<lambda>xs n. xs" cs FLAT] assms by simp
  then obtain sig where sig: "ema_generate_signal (\<lambda>xs n. xs) s cs FLAT = Inr sig" by (auto simp: is_ok_iff)
  have "sg_type sig = HOLD"
    using sig assms by (auto simp: ema_generate_signal_def ema_def Let_def crossover_decision_def)
  with sig show ?thesis by blast
qed

definition quiet_setup :: "platform \<Rightarrow> run_setup \<Rightarrow> bool" where
  "quiet_setup pl u \<longleftrightarrow> pow_total (pl_pow pl) \<and> is_ok (interval_to_ms (cfg_interval (cfg_market (rs_config u)))) \<and>
     1 \<le> rs_min_required u \<and>
     (\<forall>cs. rs_min_required u \<le> int (length cs) \<longrightarrow> (\<exists>sig. rs_strategy u cs FLAT = Inr sig \<and> sg_type sig = HOLD))"

lemma quiet_run:
  assumes "quiet_setup pl u" "rs_min_required u \<le> int (length segment)"
  shows "\<exists>r j'. segment_run u segment j = Inr (r, j') \<and> sr_trades r = [] \<and> \<not> sr_ends_with_open_position r"
proof -
  have "\<exists>r j'. run_segment segment (rs_config u) (rs_filters u) (rs_strategy u) (cfg_risk (rs_config u)) (rs_broker u) j
      (rs_min_required u) (rs_starting_equity u) False = Inr (r, j') \<and> sr_trades r = [] \<and> sr_ends_with_open_position r = False"
    by (rule hold_segment) (use assms in \<open>auto simp: quiet_setup_def\<close>)
  then show ?thesis by (simp add: segment_run_def)
qed

lemma quiet_report: "quiet_setup pl u \<Longrightarrow> \<exists>p. window_report pl u window trades curve = Inr p"
  using performance_report_ok by (auto simp: window_report_def quiet_setup_def is_ok_iff)

lemma quiet_window:
  assumes "quiet_setup pl u" "rs_min_required u - 1 \<le> a" "a < b" "b \<le> int (length segment)"
  shows "\<exists>acc'. holdout_window_step pl u idx segment acc (name, a, b) = Inr acc' \<and>
    length (ha_windows acc') = Suc (length (ha_windows acc))"
proof -
  let ?m = "rs_min_required u" and ?sl = "slice (a - (rs_min_required u - 1)) b segment"
  have m: "1 \<le> ?m" using assms(1) by (simp add: quiet_setup_def)
  have "length ?sl = nat b - nat (a - (?m - 1))" using assms m by (simp add: slice_def)
  then have "?m \<le> int (length ?sl)" using assms m by linarith
  from quiet_run [OF assms(1) this] obtain r j' where r: "segment_run u ?sl (ha_journal acc) = Inr (r, j')" "sr_trades r = []" by blast
  obtain p where p: "window_report pl u (slice a b segment) [] (sr_equity_curve r) = Inr p" using quiet_report [OF assms(1)] by blast
  have n: "nth_res segment i = Inr (segment ! nat i)" if "0 \<le> i" "i < int (length segment)" for i
    using nth_res_nat [of "nat i" segment] that by simp
  obtain e where e: "compute_extended_diagnostics (pl_draw pl) [] (sr_equity_curve r) (run_end u (segment ! nat (b - 1)) r) p
      (sr_diagnostics r) (name = Test) False = Inr e" using no_trade_diagnostics_ok by blast
  show ?thesis using assms m r p e by (simp add: holdout_window_step_def Let_def n)
qed

lemma quiet_split:
  assumes "quiet_setup pl u" "segment \<noteq> []" "0 \<le> a" "b \<le> int (length segment)" "sr_trades r = []"
  shows "\<exists>p e. split_report pl u segment r (name, a, b) = Inr (name, p, e)"
proof -
  let ?off = "rs_min_required u - 1"
  let ?curve = "slice (max 0 (a - ?off)) (max 0 (b - ?off)) (sr_equity_curve r)" and ?i = "if a < b then b - 1 else -1"
  have ok: "\<exists>c. nth_res segment ?i = Inr c"
    using nth_res_nat [of "nat (b - 1)" segment] nth_res_last [OF assms(2)] assms(3,4) by (cases "a < b") auto
  then obtain c where c: "nth_res segment ?i = Inr c" ..
  obtain p where p: "window_report pl u (slice a b segment) [] ?curve = Inr p" using quiet_report [OF assms(1)] by blast
  have "\<exists>w. split_end u segment r ?curve a b = Inr w" using c by (simp add: split_end_def Let_def)
  then obtain w where w: "split_end u segment r ?curve a b = Inr w" ..
  obtain e where "compute_extended_diagnostics (pl_draw pl) [] ?curve w p (sr_diagnostics r) (name = Test)
      (\<not> (a = ?off \<and> b = int (length segment))) = Inr e" using no_trade_diagnostics_ok by blast
  then show ?thesis using p w assms(5) by (simp add: split_report_def split_trades_def Let_def)
qed

text \<open>One segment, the last of the data, is recorded with the run that its reports read.\<close>

lemma quiet_segment_step:
  assumes "quiet_setup pl u" "rs_min_required u \<le> int (length segment)"
  shows "\<exists>acc' r. segment_step pl u (Suc i) acc (i, segment) = Inr acc' \<and> ra_used acc' = ra_used acc @ [(segment, r)] \<and>
    sr_trades r = []"
proof -
  obtain r j' where r: "segment_run u segment (ra_journal acc) = Inr (r, j')" "sr_trades r = []"
    using quiet_run [OF assms] by blast
  have ne: "segment \<noteq> []" using assms by (auto simp: quiet_setup_def)
  then have n: "nth_res segment (-1) = Inr (last segment)" "nth_res segment 0 = Inr (hd segment)"
    using nth_res_last [of segment] nth_res_nat [of 0 segment] by (simp_all add: hd_conv_nth)
  obtain p where p: "window_report pl u (drop (nat (rs_min_required u - 1)) segment) [] (sr_equity_curve r) = Inr p"
    using quiet_report [OF assms(1)] by blast
  obtain e where "compute_extended_diagnostics (pl_draw pl) [] (sr_equity_curve r) (run_end u (last segment) r) p
      (sr_diagnostics r) False False = Inr e" using no_trade_diagnostics_ok by blast
  then show ?thesis using assms(2) r n p by (simp add: segment_step_def Let_def)
qed

end
