(* ===== verification/Report_Properties.thy ===== *)
theory Report_Properties
  imports Backtest_Properties Quiet_Runs
begin

text \<open>
  The properties of the backtest's entry points and of its reports: what the windows of an
  evaluation cover, that their accounts add up, and that the reported figures are what they
  are named after.
\<close>

section \<open>Windows\<close>

lemma prepare_run_fields:
  assumes "prepare_run pl config filters = Inr u" "valid_config config"
  shows "1 \<le> rs_min_required u" "rs_config u = config" "rs_min_required u = cfg_ema_slow (cfg_strategy config) + 1"
    "rs_starting_equity u = dec_of_float (cfg_starting_equity (cfg_backtest config))"
  using assms by (auto simp: prepare_run_def valid_config_def valid_strategy_def)

lemma slice_drop: "0 \<le> a \<Longrightarrow> 0 \<le> k \<Longrightarrow> drop (nat k) (slice a b xs) = slice (a + k) b xs"
  by (simp add: slice_def drop_take nat_add_distrib add.commute)

lemma slice_last:
  assumes "0 \<le> a" "a < b" "b \<le> int (length xs)"
  shows "slice a b xs \<noteq> [] \<and> last (slice a b xs) = xs ! nat (b - 1)"
proof -
  have l: "length (slice a b xs) = nat b - nat a" using assms by (simp add: slice_def)
  then have ne: "slice a b xs \<noteq> []" using assms by (cases "slice a b xs") auto
  then have "last (slice a b xs) = slice a b xs ! (nat b - nat a - 1)" by (simp add: last_conv_nth l)
  also have "\<dots> = xs ! (nat a + (nat b - nat a - 1))" using assms by (simp add: slice_def)
  also have "nat a + (nat b - nat a - 1) = nat (b - 1)" using assms by linarith
  finally show ?thesis using ne by simp
qed

lemma nth_res_pos: "0 \<le> i \<Longrightarrow> nth_res xs i = Inr x \<Longrightarrow> nat i < length xs \<and> x = xs ! nat i"
  by (auto simp: nth_res_def split: if_splits)

lemma extended_accounting:
  "compute_extended_diagnostics draw trades curve w report d consumed scoped = Inr e \<Longrightarrow>
     er_accounting e = compute_accounting_identity (wn_cash_quote w) (wn_base_quantity w) (wn_mark_price w) (wn_reported_equity w)"
  by (auto simp: compute_extended_diagnostics_def)

text \<open>A run marked at the last candle it was given accounts for its equity.\<close>

lemma run_end_identity:
  assumes "segment_run u segment j = Inr (r, j')" "1 \<le> rs_min_required u" "c_close c = c_close (last segment)"
    and "compute_extended_diagnostics draw trades curve (run_end u c r) report d consumed scoped = Inr e"
  shows "ai_identity_holds (er_accounting e)"
  using run_segment_records [OF assms(1) [unfolded segment_run_def] assms(2)] assms(3)
  by (simp add: extended_accounting [OF assms(4)] accounting_holds_iff run_end_def)

text \<open>What one window of the evaluation promises.\<close>

definition window_sound :: "run_setup \<Rightarrow> holdout_window \<Rightarrow> bool" where
  "window_sound u w \<longleftrightarrow> ai_identity_holds (er_accounting (hw_extended w)) \<and> 0 < hw_candle_count w \<and>
     hw_warm_up_candle_count w = rs_min_required u - 1 \<and> hw_label w \<noteq> Overall \<and>
     (er_already_consumed (hw_extended w) \<longleftrightarrow> hw_label w = Test) \<and>
     rd_starting_equity (hw_diagnostics w) = rs_starting_equity u"

lemma run_segment_starting:
  assumes "run_segment segment config filters strategy rc b j m E policy = Inr (r, j')"
  shows "rd_starting_equity (sr_diagnostics r) = E"
proof -
  obtain first lc s acts where "r = segment_result policy E lc acts s"
    using run_segment_cases [OF assms] by metis
  then show ?thesis by (simp add: segment_result_def diagnostics_of_def Let_def)
qed

lemma holdout_window_step_sound:
  assumes "holdout_window_step pl u idx segment acc (name, a, b) = Inr acc'"
    and "1 \<le> rs_min_required u" "rs_min_required u - 1 \<le> a" "name \<noteq> Overall" "\<forall>w \<in> set (ha_windows acc). window_sound u w"
  shows "\<forall>w \<in> set (ha_windows acc'). window_sound u w"
proof (cases "b \<le> a")
  case True
  then show ?thesis using assms(1,5) by (auto simp: holdout_window_step_def)
next
  case False
  let ?m = "rs_min_required u"
  have "\<exists>r j report lc e wc fc. segment_run u (slice (a - (?m - 1)) b segment) (ha_journal acc) = Inr (r, j) \<and>
      nth_res segment (b - 1) = Inr lc \<and>
      compute_extended_diagnostics (pl_draw pl) (sr_trades r) (sr_equity_curve r) (run_end u lc r) report (sr_diagnostics r)
        (name = Test) False = Inr e \<and>
      ha_windows acc' = ha_windows acc @ [holdout_window_of u idx name (b - a) r report e wc fc lc]"
    using assms(1) False unfolding holdout_window_step_def Let_def by (clarsimp, blast)
  then obtain r j report lc e wc fc where run: "segment_run u (slice (a - (?m - 1)) b segment) (ha_journal acc) = Inr (r, j)"
    and lc: "nth_res segment (b - 1) = Inr lc"
    and e: "compute_extended_diagnostics (pl_draw pl) (sr_trades r) (sr_equity_curve r) (run_end u lc r) report (sr_diagnostics r) (name = Test) False = Inr e"
    and acc': "ha_windows acc' = ha_windows acc @ [holdout_window_of u idx name (b - a) r report e wc fc lc]" by blast
  have b: "nat (b - 1) < length segment" "lc = segment ! nat (b - 1)"
    using nth_res_pos [OF _ lc] False assms(2,3) by auto
  have "last (slice (a - (?m - 1)) b segment) = lc"
    using slice_last [of "a - (?m - 1)" b segment] False assms(2,3) b by simp
  then have "ai_identity_holds (er_accounting e)" using run_end_identity [OF run assms(2) _ e] by simp
  moreover have "er_already_consumed e \<longleftrightarrow> name = Test" using e by (auto simp: compute_extended_diagnostics_def)
  ultimately show ?thesis using assms(4,5) False run_segment_starting [OF run [unfolded segment_run_def]]
    by (auto simp: acc' window_sound_def holdout_window_of_def)
qed

lemma split_bounds_from:
  assumes "(name, a, b) \<in> set (take 3 (split_bounds bc m n))" "0 \<le> validation_fraction bc" "m - 1 < m - 1 + int_of_float (float_of_int (n - (m - 1)) * train_fraction bc)" "m \<le> n"
  shows "m - 1 \<le> a \<and> name \<noteq> Overall"
proof -
  have "0 \<le> float_of_int (n - (m - 1)) * validation_fraction bc"
    using assms(2,4) by (auto simp: flt_arith float_of_int_def intro!: flt.nonneg mult_nonneg_nonneg)
  then have "0 \<le> int_of_float (float_of_int (n - (m - 1)) * validation_fraction bc)" by (simp add: int_of_float_def flt_arith)
  then show ?thesis using assms by (auto simp: split_bounds_def Let_def)
qed


text \<open>Seven equal candles, and a platform on which the two means agree.\<close>

definition ev_platform :: platform where
  "ev_platform = \<lparr>pl_ewm = (\<lambda>xs n. xs), pl_pow = (\<lambda>_ _. Inr 1), pl_draw = (\<lambda>_ _ _. 0)\<rparr>"

definition ev_config :: app_config where
  "ev_config = (default_config BACKTEST)\<lparr>cfg_strategy := \<lparr>cfg_ema_fast = 1, cfg_ema_slow = 2\<rparr>\<rparr>"

definition ev_candles :: "candle list" where
  "ev_candles = map (\<lambda>i. bt_candle i 100 100) [0, 1, 2, 3, 4, 5, 6]"

definition ev_setup :: run_setup where
  "ev_setup = \<lparr>rs_config = ev_config, rs_filters = bt_filters,
     rs_strategy = ema_generate_signal (\<lambda>xs n. xs) \<lparr>ema_fast_period = 1, ema_slow_period = 2\<rparr>,
     rs_broker = mk_broker (cfg_fees ev_config), rs_min_required = 3,
     rs_starting_equity = dec_of_float (cfg_starting_equity (cfg_backtest ev_config))\<rparr>"

lemma ev_config_valid: "valid_config ev_config"
  using default_config_valid [of BACKTEST] by (simp add: ev_config_def valid_config_def valid_strategy_def)

lemma ev_prepared: "prepare_run ev_platform ev_config bt_filters = Inr ev_setup"
  by (simp add: prepare_run_def ev_config_def default_config_def mk_ema_crossover_def ev_setup_def ev_platform_def)

lemma ev_raw: "raw_segments ev_candles ev_config = Inr \<lparr>segments = [ev_candles], gaps = []\<rparr>"
  by code_simp

lemma ev_bounds: "split_bounds (cfg_backtest ev_config) 3 7 = [(Train, 2, 5), (Validation, 5, 6), (Test, 6, 7), (Overall, 2, 7)]"
  by code_simp

lemma ev_quiet: "quiet_setup ev_platform ev_setup"
proof -
  have "is_ok (interval_to_ms (cfg_interval (cfg_market ev_config)))" by code_simp
  moreover have "pow_total (pl_pow ev_platform)" by (simp add: pow_total_def ev_platform_def less_eq_flt_def)
  moreover have "\<exists>sig. rs_strategy ev_setup cs FLAT = Inr sig \<and> sg_type sig = HOLD" if "3 \<le> int (length cs)" for cs
    using equal_means_hold [of "\<lparr>ema_fast_period = 1, ema_slow_period = 2\<rparr>" cs] that by (simp add: ev_setup_def)
  ultimately show ?thesis by (simp add: quiet_setup_def ev_setup_def)
qed

lemma ev_holdout:
  "\<exists>h. run_independent_holdout_evaluation ev_platform ev_candles ev_config bt_filters None = Inr h \<and> length (hr_windows h) = 3"
proof -
  let ?a = "\<lparr>ha_windows = [], ha_warnings = [], ha_journal = None\<rparr>" and ?step = "holdout_window_step ev_platform ev_setup 0 ev_candles"
  have n: "length ev_candles = 7" by (simp add: ev_candles_def)
  note w = quiet_window [OF ev_quiet, where segment = ev_candles and idx = 0]
  obtain a1 where 1: "?step ?a (Train, 2, 5) = Inr a1" "length (ha_windows a1) = 1"
    using w [of 2 5 ?a Train] by (auto simp: n ev_setup_def)
  obtain a2 where 2: "?step a1 (Validation, 5, 6) = Inr a2" "length (ha_windows a2) = 2"
    using w [of 5 6 a1 Validation] 1(2) by (auto simp: n ev_setup_def)
  obtain a3 where 3: "?step a2 (Test, 6, 7) = Inr a3" "length (ha_windows a3) = 3"
    using w [of 6 7 a2 Test] 2(2) by (auto simp: n ev_setup_def)
  have train: "int_of_float (float_of_int 5 * train_fraction (cfg_backtest ev_config)) = 3"
    using ev_bounds by (simp add: split_bounds_def Let_def)
  have "holdout_segment_step ev_platform ev_setup ?a (0, ev_candles) = Inr a3"
    using 1 2 3 train ev_bounds by (simp add: holdout_segment_step_def Let_def n ev_setup_def)
  then show ?thesis using 3(2) by (simp add: run_independent_holdout_evaluation_def ev_raw ev_prepared)
qed


section \<open>The continuous backtest\<close>

lemma map2_nth_last:
  assumes "map f es = map2 g ns cs" "length ns = length cs" "i < length cs"
  shows "i < length es \<and> f (es ! i) = g (ns ! i) (cs ! i)"
proof -
  have "length es = length cs" using arg_cong [OF assms(1), of length] assms(2) by simp
  then show ?thesis using arg_cong [OF assms(1), of "\<lambda>l. l ! i"] assms(2,3) by simp
qed

text \<open>A split with a bar of its own is marked by the snapshot of its last bar.\<close>

lemma split_report_accounted:
  assumes "segment_run u segment j = Inr (r, j')" "1 \<le> rs_min_required u"
    and "rs_min_required u - 1 \<le> a" "a < b" "b \<le> int (length segment)"
    and "split_report pl u segment r (name, a, b) = Inr (name', p, e)"
  shows "ai_identity_holds (er_accounting e)"
proof -
  let ?m = "rs_min_required u" and ?cs = "drop (nat (rs_min_required u - 1)) segment"
  let ?curve = "slice (max 0 (a - (?m - 1))) (max 0 (b - (?m - 1))) (sr_equity_curve r)" and ?k = "nat (b - ?m)"
  note rec = run_segment_records [OF assms(1) [unfolded segment_run_def] assms(2)]
  have k: "?k < length ?cs" "?cs ! ?k = segment ! nat (b - 1)" "nat (b - 1) < length segment" using assms(2-5) by (auto simp: nat_diff_distrib)
  have eq: "?k < length (sr_equity_curve r)" "ep_equity (sr_equity_curve r ! ?k) = marked (sr_snapshots r ! ?k) (?cs ! ?k)"
    using map2_nth_last [of ep_equity "sr_equity_curve r" marked "sr_snapshots r" ?cs ?k] rec k(1) by auto
  have len: "length (sr_equity_curve r) = length ?cs" using rec arg_cong [of _ _ length] by (metis length_map)
  have cv: "?curve \<noteq> []" "last ?curve = sr_equity_curve r ! ?k"
    using slice_last [of "a - (?m - 1)" "b - (?m - 1)" "sr_equity_curve r"] assms(2-5) len by (auto simp: max_def)
  obtain w where w: "split_end u segment r ?curve a b = Inr w"
    and e: "compute_extended_diagnostics (pl_draw pl) (split_trades segment (?m - 1) (sr_trades r) a b) ?curve w p (sr_diagnostics r) (name = Test)
      (\<not> (a = ?m - 1 \<and> b = int (length segment))) = Inr e"
    using assms(6) by (auto simp: split_report_def Let_def)
  have n: "nth_res segment (b - 1) = Inr (segment ! nat (b - 1))"
    using nth_res_nat [of "nat (b - 1)" segment] k(3) assms(2-4) by simp
  have idx: "b - (?m - 1) - 1 = b - ?m" "0 \<le> b - ?m" "b - ?m < int (length (sr_snapshots r))" using assms(2-5) rec k(1) by auto
  have "wn_cash_quote w = sn_cash_quote (sr_snapshots r ! ?k)" "wn_base_quantity w = sn_base_quantity (sr_snapshots r ! ?k)"
    "wn_mark_price w = c_close (segment ! nat (b - 1))" "wn_reported_equity w = ep_equity (last ?curve)"
    using w cv(1) n idx assms(4) by (auto simp: split_end_def Let_def)
  then show ?thesis using eq(2) cv(2) k(2) by (simp add: extended_accounting [OF e] accounting_holds_iff marked_def)
qed

definition acc_sound :: "run_setup \<Rightarrow> run_acc \<Rightarrow> bool" where
  "acc_sound u acc \<longleftrightarrow>
     (\<forall>sp \<in> set (ra_segments acc). \<forall>e. sp_extended sp = Some e \<longrightarrow> ai_identity_holds (er_accounting e)) \<and>
     (\<forall>(segment, r) \<in> set (ra_used acc). \<exists>j j'. segment_run u segment j = Inr (r, j') \<and> rs_min_required u \<le> int (length segment))"

lemma segment_step_sound:
  assumes "segment_step pl u count acc (i, segment) = Inr acc'" "1 \<le> rs_min_required u" "acc_sound u acc"
  shows "acc_sound u acc'"
proof (cases "int (length segment) < rs_min_required u")
  case True
  then show ?thesis using assms(1,3) by (auto simp: segment_step_def Let_def acc_sound_def skipped_segment_def)
next
  case False
  obtain r j lc fc p e ex where run: "segment_run u segment (ra_journal acc) = Inr (r, j)" and lc: "nth_res segment (-1) = Inr lc"
    and e: "compute_extended_diagnostics (pl_draw pl) (sr_trades r) (sr_equity_curve r) (run_end u lc r) p (sr_diagnostics r) False False = Inr e"
    and segs: "ra_segments acc' = ra_segments acc @ [used_segment (int i) (int (length segment)) ex r p e fc lc]"
    and used: "ra_used acc' = (if ex then ra_used acc else ra_used acc @ [(segment, r)])"
    using assms(1) False unfolding segment_step_def Let_def by clarsimp
  have acc': "ra_segments acc' = ra_segments acc @ [used_segment (int i) (int (length segment)) ex r p e fc lc]"
    "sp_extended (used_segment (int i) (int (length segment)) ex r p e fc lc) = Some e"
    "set (ra_used acc') \<subseteq> insert (segment, r) (set (ra_used acc))"
    using segs used by (auto simp: used_segment_def)
  have "lc = last segment" using lc nth_res_last [of segment] by (cases segment) (auto simp: nth_res_def)
  then have "ai_identity_holds (er_accounting e)" using run_end_identity [OF run assms(2) _ e] by simp
  note id = this
  show ?thesis
    unfolding acc_sound_def
  proof (intro conjI ballI allI impI)
    fix sp e' assume "sp \<in> set (ra_segments acc')" "sp_extended sp = Some e'"
    then show "ai_identity_holds (er_accounting e')" using id acc'(1,2) assms(3) unfolding acc_sound_def by auto
  next
    fix x assume "x \<in> set (ra_used acc')"
    then consider "x = (segment, r)" | "x \<in> set (ra_used acc)" using acc'(3) by blast
    then show "case x of (segment, r) \<Rightarrow> \<exists>j j'. segment_run u segment j = Inr (r, j') \<and> rs_min_required u \<le> int (length segment)"
    proof cases
      case 1
      have "rs_min_required u \<le> int (length segment)" using False by simp
      then show ?thesis using run unfolding 1 by blast
    next
      case 2
      then show ?thesis using assms(3) unfolding acc_sound_def by blast
    qed
  qed
qed

text \<open>
  A continuous backtest accounts for itself: in the extended report of every segment, and of
  every chronological split that has a bar, the ending cash plus the ending base at the marked price is
  exactly the reported equity. The overall split always has one.
\<close>

theorem continuous_backtest_accounts:
  assumes "run_backtest pl candles config filters j = Inr res" and "valid_config config"
  shows "(\<forall>sp \<in> set (br_segments res). \<forall>e. sp_extended sp = Some e \<longrightarrow> ai_identity_holds (er_accounting e)) \<and>
    (\<forall>e. (Overall, e) \<in> set (br_extended_reports res) \<longrightarrow> ai_identity_holds (er_accounting e))"
proof -
  obtain seg where "raw_segments candles config = Inr seg" using assms(1) by (auto simp: run_backtest_def)
  then obtain u acc where u: "prepare_run pl config filters = Inr u"
    and run: "foldr_res (segment_step pl u (length (segments seg))) (run_acc_start j) (List.enumerate 0 (segments seg)) = Inr acc"
    and fin: "finish_backtest pl u (gaps seg) acc = Inr res"
    using assms(1) by (auto simp: run_backtest_def split: if_splits)
  note f = prepare_run_fields [OF u assms(2)]
  have acc: "acc_sound u acc"
  proof (rule foldr_res_invariant [OF run, where I = "acc_sound u"])
    fix a a' and p :: "nat \<times> candle list"
    assume "acc_sound u a" "segment_step pl u (length (segments seg)) a p = Inr a'"
    then show "acc_sound u a'" using segment_step_sound [OF _ f(1)] by (cases p) blast
  qed (simp add: acc_sound_def run_acc_start_def)
  have segs: "br_segments res = ra_segments acc"
    using fin by (auto simp: finish_backtest_def Let_def split: list.splits prod.splits)
  have "ai_identity_holds (er_accounting e)" if e: "(Overall, e) \<in> set (br_extended_reports res)" for e
  proof -
    from fin e obtain segment r splits where used: "ra_used acc = [(segment, r)]"
      and sp: "map_res (split_report pl u segment r) (split_bounds (cfg_backtest (rs_config u)) (rs_min_required u) (int (length segment))) = Inr splits"
      and res: "br_extended_reports res = map (\<lambda>(name, _, extended). (name, extended)) splits"
      by (auto simp: finish_backtest_def Let_def split: list.splits prod.splits)
    obtain j1 j2 where r: "segment_run u segment j1 = Inr (r, j2)" "rs_min_required u \<le> int (length segment)"
      using acc used by (auto simp: acc_sound_def)
    from e res obtain p where "(Overall, p, e) \<in> set splits" by auto
    from map_res_set [OF sp this] obtain name a b where nab: "(name, a, b) \<in> set (split_bounds (cfg_backtest (rs_config u)) (rs_min_required u) (int (length segment)))"
      "split_report pl u segment r (name, a, b) = Inr (Overall, p, e)" by auto
    then have "name = Overall" by (auto simp: split_report_def Let_def)
    then have ab: "a = rs_min_required u - 1" "b = int (length segment)" using nab(1) by (auto simp: split_bounds_def Let_def)
    show ?thesis by (rule split_report_accounted [OF r(1) f(1) _ _ _ nab(2)]) (use ab r(2) in auto)
  qed
  with acc segs show ?thesis unfolding acc_sound_def by simp
qed

lemma ev_backtest:
  "\<exists>res e. run_backtest ev_platform ev_candles ev_config bt_filters None = Inr res \<and> (Overall, e) \<in> set (br_extended_reports res)"
proof -
  have m: "rs_min_required ev_setup = 3" "rs_config ev_setup = ev_config" and n: "length ev_candles = 7"
    by (simp_all add: ev_setup_def ev_candles_def)
  obtain acc r where acc: "segment_step ev_platform ev_setup 1 (run_acc_start None) (0, ev_candles) = Inr acc"
    "ra_used acc = [(ev_candles, r)]" "sr_trades r = []"
    using quiet_segment_step [OF ev_quiet, of ev_candles 0 "run_acc_start None"] by (auto simp: m n run_acc_start_def)
  have "\<exists>p e. split_report ev_platform ev_setup ev_candles r (name, a, b) = Inr (name, p, e)" if "0 \<le> a" "b \<le> 7" for name a b
    by (rule quiet_split [OF ev_quiet _ that(1) _ acc(3)]) (use that n in auto)
  note sp = this
  obtain p1 e1 where 1: "split_report ev_platform ev_setup ev_candles r (Train, 2, 5) = Inr (Train, p1, e1)" using sp [of 2 5 Train] by auto
  obtain p2 e2 where 2: "split_report ev_platform ev_setup ev_candles r (Validation, 5, 6) = Inr (Validation, p2, e2)" using sp [of 5 6 Validation] by auto
  obtain p3 e3 where 3: "split_report ev_platform ev_setup ev_candles r (Test, 6, 7) = Inr (Test, p3, e3)" using sp [of 6 7 Test] by auto
  obtain p4 e4 where 4: "split_report ev_platform ev_setup ev_candles r (Overall, 2, 7) = Inr (Overall, p4, e4)" using sp [of 2 7 Overall] by auto
  show ?thesis
    using acc 1 2 3 4 by (simp add: run_backtest_def ev_raw ev_prepared m n finish_backtest_def Let_def ev_bounds)
qed

theorem continuous_backtest_accounts_witness:
  "\<exists>res e. run_backtest ev_platform ev_candles ev_config bt_filters None = Inr res \<and>
    (Overall, e) \<in> set (br_extended_reports res) \<and> ai_identity_holds (er_accounting e)"
proof -
  obtain res e where r: "run_backtest ev_platform ev_candles ev_config bt_filters None = Inr res" "(Overall, e) \<in> set (br_extended_reports res)"
    using ev_backtest by blast
  with continuous_backtest_accounts [OF r(1) ev_config_valid] show ?thesis by blast
qed

end
