(* ===== verification/Metric_Properties.thy ===== *)
theory Metric_Properties
  imports Report_Properties "HOL-Library.Multiset"
begin

text \<open>
  What the reported figures mean: every trade belongs to one chronological split, the drawdown
  is the largest decline from a peak, the streaks are the longest ones, the bootstrap interval
  is ordered, the rolling windows cut the trades without loss, and the reports of a completed
  run always exist.
\<close>

section \<open>Trades of the splits\<close>

lemma index_for_time_nth:
  assumes "distinct (map open_time_ms cs)" "i < length cs" "open_time_ms (cs ! i) = t"
  shows "index_for_time cs t d = int i"
proof -
  have "find (\<lambda>(k, c). open_time_ms c = t) (List.enumerate 0 cs) = Some (i, cs ! i)"
    unfolding find_Some_iff
  proof (intro exI [of _ i] conjI allI impI)
    fix k assume k: "k < i"
    then have "open_time_ms (cs ! k) \<noteq> open_time_ms (cs ! i)"
      using assms(1,2) by (simp add: distinct_conv_nth)
    then show "\<not> (case List.enumerate 0 cs ! k of (k, c) \<Rightarrow> open_time_ms c = t)"
      using assms(2,3) k by (simp add: nth_enumerate_eq)
  qed (use assms in \<open>simp_all add: nth_enumerate_eq\<close>)
  then show ?thesis by (simp add: index_for_time_def)
qed

lemma filter_three_ranges:
  fixes f :: "'a \<Rightarrow> int"
  assumes "\<And>x. x \<in> set xs \<Longrightarrow> a \<le> f x \<and> f x < d" "a \<le> b" "b \<le> c" "c \<le> d"
  shows "mset (filter (\<lambda>x. a \<le> f x \<and> f x < b) xs) + mset (filter (\<lambda>x. b \<le> f x \<and> f x < c) xs)
    + mset (filter (\<lambda>x. c \<le> f x \<and> f x < d) xs) = mset xs"
  using assms(1)
proof (induction xs)
  case (Cons x xs)
  have "a \<le> f x" "f x < d" using Cons.prems [of x] by simp_all
  then consider "f x < b" | "b \<le> f x" "f x < c" | "c \<le> f x" by linarith
  then show ?case using Cons assms(2-4) by cases auto
qed simp

text \<open>
  Every trade of a continuous run belongs to exactly one of the chronological splits: over candles
  with distinct times, the trades of the train, validation and test labels together are the trades of
  the run, each once, and the overall label has all of them in their order. In particular none is
  lost to the warm-up, whose candles never trade.
\<close>

theorem splits_partition_the_trades:
  assumes "segment_run u segment j = Inr (r, j')" and "1 \<le> rs_min_required u"
    and "distinct (map open_time_ms segment)" and "int (length segment) < 2 ^ 53"
    and "0 \<le> train_fraction b" and "0 \<le> validation_fraction b" and "fval (train_fraction b) + fval (validation_fraction b) \<le> 1"
    and "part = (\<lambda>(name :: split, first, last). split_trades segment (rs_min_required u - 1) (sr_trades r) first last)"
    and "bounds = split_bounds b (rs_min_required u) (int (length segment))"
  shows "mset (concat (map part (take 3 bounds))) = mset (sr_trades r) \<and> part (bounds ! 3) = sr_trades r"
proof -
  let ?m = "rs_min_required u" and ?n = "int (length segment)"
  let ?ix = "\<lambda>t. index_for_time segment (t_exit_time_ms t) (?m - 1)"
  note rec = run_segment_records [OF assms(1) [unfolded segment_run_def] assms(2)]
  have ix: "?m - 1 \<le> ?ix t \<and> ?ix t < ?n" if t: "t \<in> set (sr_trades r)" for t
  proof -
    from rec t obtain c where "c \<in> set (drop (nat (?m - 1)) segment)" and c: "open_time_ms c = t_exit_time_ms t" by (metis imageE)
    then obtain k where k: "k < length (drop (nat (?m - 1)) segment)" "drop (nat (?m - 1)) segment ! k = c"
      by (metis in_set_conv_nth)
    have i: "nat (?m - 1) + k < length segment" using k(1) by simp
    have "?ix t = int (nat (?m - 1) + k)"
      by (rule index_for_time_nth [OF assms(3) i]) (use k i c in \<open>simp add: nth_drop\<close>)
    then show ?thesis using i assms(2) by auto
  qed
  have "0 \<le> ?n - (?m - 1)" "?n - (?m - 1) < 2 ^ 53" using rec assms(2,4) by linarith+
  note fit = shares_fit [OF this assms(5-7)]
  have all: "filter (\<lambda>t. ?m - 1 \<le> ?ix t \<and> ?ix t < ?n) (sr_trades r) = sr_trades r" using ix by (simp add: filter_id_conv)
  show ?thesis
    unfolding assms(8,9) split_bounds_def Let_def split_trades_def
    using filter_three_ranges [where f = ?ix, OF ix, of "sr_trades r"
        "?m - 1 + int_of_float (float_of_int (?n - (?m - 1)) * train_fraction b)"
        "?m - 1 + int_of_float (float_of_int (?n - (?m - 1)) * train_fraction b)
          + int_of_float (float_of_int (?n - (?m - 1)) * validation_fraction b)"] fit all
    by (simp add: add.assoc)
qed

definition bt_setup :: run_setup where
  "bt_setup = \<lparr>rs_config = bt_config, rs_filters = bt_filters, rs_strategy = bt_strategy, rs_broker = bt_broker,
     rs_min_required = 1, rs_starting_equity = Dec 1000\<rparr>"

lemma bt_setup_run: "segment_run bt_setup bt_segment None = Inr (bt_result, None)"
  using bt_run by (simp add: segment_run_def bt_setup_def)

theorem splits_partition_the_trades_witness:
  "split_trades bt_segment 0 (sr_trades bt_result) 0 3 = [bt_trade]"
proof -
  let ?b = "cfg_backtest (default_config BACKTEST)"
  have b: "rs_min_required bt_setup = 1" by (simp add: bt_setup_def)
  have h: "distinct (map open_time_ms bt_segment)" "int (length bt_segment) < 2 ^ 53"
    "0 \<le> train_fraction ?b" "0 \<le> validation_fraction ?b" "fval (train_fraction ?b) + fval (validation_fraction ?b) \<le> 1"
    by code_simp+
  have m: "1 \<le> rs_min_required bt_setup" by (simp add: b)
  have n: "int (length bt_segment) = 3" by (simp add: bt_segment_def)
  show ?thesis
    using conjunct2 [OF splits_partition_the_trades [OF bt_setup_run m h refl refl]] unfolding b n
    by (simp add: split_bounds_def Let_def bt_result_trades)
qed

section \<open>Drawdown\<close>

lemma drawdown_spec_single: "drawdown_spec [v] = 0"
  by (simp add: drawdown_spec_def decline_def Let_def lessThan_Suc flt_arith flt.zero)

lemma drawdown_of_list: "vs \<noteq> [] \<Longrightarrow> drawdown_pct_loop (hd vs) 0 vs = drawdown_spec vs"
proof (cases vs)
  case (Cons v r)
  have "drawdown_pct_loop v 0 r = drawdown_spec ([v] @ r)"
    by (rule drawdown_pct_loop_spec) (simp_all add: drawdown_spec_single)
  moreover have "max (0 :: flt) ((v - v) / v) = 0" by (simp add: flt_arith flt.zero)
  ultimately show ?thesis using Cons by (simp add: Let_def)
qed simp

lemma float_nonneg: "0 \<le> d \<Longrightarrow> 0 \<le> float_of_dec d"
  by (auto simp: float_of_dec_def flt_arith dec_arith intro!: flt.nonneg)

lemma percent_bounds:
  assumes "0 \<le> x" "x \<le> (1 :: flt)"
  shows "0 \<le> x * Flt 100 \<and> x * Flt 100 \<le> Flt 100"
proof -
  have "fround (fval x * 100) \<le> 100"
    using assms rnd_representable [of 2 53 100 100 0] by (intro flt.le_representable) (simp_all add: flt_arith fround_def)
  then show ?thesis using assms by (auto simp: flt_arith intro!: flt.nonneg)
qed

text \<open>
  C21. The reported maximal drawdown is the largest relative decline of the equity curve from the highest
  point before it, in percent; without negative equity it is between 0 and 100. The buy-and-hold
  comparison measures its own curve in the same way.
\<close>

theorem reported_drawdown_is_maximal_decline:
  assumes "compute_performance_report pw trades curve interval k bh = Inr p" and "curve \<noteq> []"
    and "equities = map (\<lambda>pt. float_of_dec (ep_equity pt)) curve"
    and "\<forall>pt \<in> set curve. 0 \<le> ep_equity pt"
    and "compute_buy_and_hold_report window E fee = h" and "bh_note h = Held"
    and "held = map (\<lambda>c. float_of_dec (E * (1 - dec_of_float fee) / c_close (hd window) * c_close c)) window"
  shows "pr_max_drawdown_pct p = drawdown_spec equities * Flt 100 \<and>
    0 \<le> pr_max_drawdown_pct p \<and> pr_max_drawdown_pct p \<le> Flt 100 \<and>
    bh_max_drawdown_pct h = Some (drawdown_spec held * Flt 100)"
proof (intro conjI)
  have ne: "equities \<noteq> []" using assms(2,3) by simp
  show eq: "pr_max_drawdown_pct p = drawdown_spec equities * Flt 100"
    using assms(1,2) drawdown_of_list [OF ne]
    by (auto simp: compute_performance_report_def max_drawdown_pct_of_def Let_def assms(3))
  have "frep v \<and> 0 \<le> v" if "v \<in> set equities" for v
    using that assms(3,4) by (auto simp: float_nonneg)
  then have "0 \<le> drawdown_spec equities \<and> drawdown_spec equities \<le> 1" by (rule drawdown_spec_bounds)
  then show "0 \<le> pr_max_drawdown_pct p" "pr_max_drawdown_pct p \<le> Flt 100" using percent_bounds unfolding eq by blast+
  have "held \<noteq> []" "hold_drawdown (hd held) 0 held = drawdown_spec held"
    using assms(5-7) drawdown_of_list [of held] by (auto simp: compute_buy_and_hold_report_def hold_drawdown_eq split: list.splits)
  then show "bh_max_drawdown_pct h = Some (drawdown_spec held * Flt 100)"
    using assms(5-7) by (auto simp: compute_buy_and_hold_report_def Let_def split: list.splits if_splits)
qed

definition md_curve :: "equity_point list" where
  "md_curve = map (\<lambda>(t, e). \<lparr>ep_timestamp_ms = t, ep_equity = Dec e, ep_in_position = True\<rparr>) [(0, 100), (1, 75), (2, 80)]"

theorem reported_drawdown_is_maximal_decline_witness:
  "\<exists>p. compute_performance_report (\<lambda>_ _. Inr 1) [] md_curve ''4h'' 20 None = Inr p \<and> pr_max_drawdown_pct p = Flt 25"
proof -
  have "interval_to_ms ''4h'' = Inr 14400000" by code_simp
  then obtain p where p: "compute_performance_report (\<lambda>_ _. Inr 1) [] md_curve ''4h'' 20 None = Inr p"
    using performance_report_ok [of "\<lambda>_ _. Inr 1" "''4h''" 14400000 "[]" md_curve 20 None] by (auto simp: pow_total_def less_eq_flt_def)
  have ne: "md_curve \<noteq> []" and nn: "\<forall>pt \<in> set md_curve. 0 \<le> ep_equity pt" by code_simp+
  have h: "bh_note (compute_buy_and_hold_report bt_segment (Dec 50) 0) = Held" by code_simp
  have "drawdown_pct_loop (Flt 100) 0 (map (\<lambda>pt. float_of_dec (ep_equity pt)) md_curve) * Flt 100 = Flt 25" by code_simp
  moreover have "hd (map (\<lambda>pt. float_of_dec (ep_equity pt)) md_curve) = Flt 100" by code_simp
  ultimately have "drawdown_spec (map (\<lambda>pt. float_of_dec (ep_equity pt)) md_curve) * Flt 100 = Flt 25"
    using drawdown_of_list [of "map (\<lambda>pt. float_of_dec (ep_equity pt)) md_curve"] ne by simp
  with reported_drawdown_is_maximal_decline [OF p ne refl nn refl h refl] p show ?thesis by metis
qed

section \<open>Distribution of the trades\<close>

lemma max_by_spec: "max_by key x xs \<in> set (x # xs) \<and> (\<forall>y \<in> set (x # xs). key y \<le> key (max_by key x xs))"
proof (induction xs rule: rev_induct)
  case (snoc y ys)
  let ?m = "max_by key x ys"
  have "max_by key x (ys @ [y]) = (if key ?m < key y then y else ?m)" by (simp add: max_by_def)
  then show ?case using snoc by auto
qed (simp add: max_by_def)

lemma fmedian_ok: "xs \<noteq> [] \<Longrightarrow> \<exists>x. fmedian xs = Inr x"
proof -
  assume "xs \<noteq> []"
  then have "length (sort xs) \<noteq> 0" by (metis length_0_conv length_sort)
  then show ?thesis by (simp add: fmedian_def Let_def del: length_0_conv)
qed

lemma list_extremes_ok: "xs \<noteq> [] \<Longrightarrow> \<exists>lo. list_min xs = Inr lo" "xs \<noteq> [] \<Longrightarrow> \<exists>hi. list_max xs = Inr hi"
  by (cases xs; simp add: list_min_def list_max_def)+

lemma holding_period_ok: "trades \<noteq> [] \<Longrightarrow> \<exists>x. holding_period_of trades = Inr x"
proof -
  assume "trades \<noteq> []"
  let ?h = "map (\<lambda>t. int_truediv (t_exit_time_ms t - t_entry_time_ms t) MS_PER_HOUR) trades"
  from \<open>trades \<noteq> []\<close> have "?h \<noteq> []" by simp
  then obtain m lo hi where "fmedian ?h = Inr m" "list_min ?h = Inr lo" "list_max ?h = Inr hi"
    using fmedian_ok list_extremes_ok by blast
  then show ?thesis by (simp add: holding_period_of_def Let_def)
qed

lemma trade_distribution_ok: "trades \<noteq> [] \<Longrightarrow> \<exists>d. compute_trade_distribution trades E = Inr (Some d)"
proof -
  assume ne: "trades \<noteq> []"
  then obtain x m where "holding_period_of trades = Inr x" "fmedian (map trade_return_pct trades) = Inr m"
    using holding_period_ok [OF ne] fmedian_ok [of "map trade_return_pct trades"] by auto
  with ne show ?thesis by (cases trades) (simp_all add: compute_trade_distribution_def Let_def del: streak_loop.simps)
qed

text \<open>
  The reported streaks are the longest runs of winning and of losing trades in a row, the reported best
  trade is one of the trades and none made more, and the total without it is the sum less it.
\<close>

theorem reported_streaks_and_best_trade:
  assumes "compute_trade_distribution trades E = Inr (Some d)"
  shows "longest_run (\<lambda>t. 0 < t_pnl_quote t) trades (td_max_consecutive_wins d) \<and>
    longest_run (\<lambda>t. t_pnl_quote t < 0) trades (td_max_consecutive_losses d) \<and>
    td_best_trade_pnl_quote d \<in> t_pnl_quote ` set trades \<and>
    (\<forall>t \<in> set trades. t_pnl_quote t \<le> td_best_trade_pnl_quote d) \<and>
    td_total_pnl_excluding_best_trade_quote d = dsum (map t_pnl_quote trades) - td_best_trade_pnl_quote d"
proof (cases trades)
  case (Cons first r)
  have "td_max_consecutive_wins d = fst (streak_loop 0 0 0 0 trades)" "td_max_consecutive_losses d = snd (streak_loop 0 0 0 0 trades)"
    and b: "td_best_trade_pnl_quote d = t_pnl_quote (max_by t_pnl_quote first r)"
      "td_total_pnl_excluding_best_trade_quote d = dsum (map t_pnl_quote trades) - t_pnl_quote (max_by t_pnl_quote first r)"
    using assms unfolding Cons by (auto simp: compute_trade_distribution_def Let_def simp del: streak_loop.simps)
  then show ?thesis using streaks_are_longest [of trades] max_by_spec [of t_pnl_quote first r] unfolding Cons by auto
qed (use assms in \<open>simp add: compute_trade_distribution_def\<close>)

definition md_trades :: "trade list" where
  "md_trades = map (\<lambda>p. bt_trade\<lparr>t_pnl_quote := Dec p\<rparr>) [3, 5, - 1, 2, - 4]"

theorem reported_streaks_and_best_trade_witness:
  "\<exists>d. compute_trade_distribution md_trades (Dec 50) = Inr (Some d) \<and>
    (\<forall>t \<in> set md_trades. t_pnl_quote t \<le> td_best_trade_pnl_quote d)"
proof -
  obtain d where d: "compute_trade_distribution md_trades (Dec 50) = Inr (Some d)"
    using trade_distribution_ok [of md_trades] by (auto simp: md_trades_def)
  with reported_streaks_and_best_trade [OF d] show ?thesis by blast
qed

section \<open>Bootstrap and rolling windows\<close>

lemma bootstrap_returns:
  assumes "2 \<le> length trades" and "0 < E" and "\<forall>k. 0 \<le> draw BOOTSTRAP_SEED k (int (length trades)) \<and>
    draw BOOTSTRAP_SEED k (int (length trades)) < int (length trades)"
  shows "\<exists>b low high r1 r2. compute_bootstrap draw trades E BOOTSTRAP_RESAMPLES BOOTSTRAP_SEED BOOTSTRAP_CONFIDENCE_LEVEL = Inr b \<and>
    bs_ci_low_pct b = Some low \<and> bs_ci_high_pct b = Some high \<and> low \<le> high \<and>
    resampled_return draw BOOTSTRAP_SEED (map (\<lambda>t. float_of_dec (t_pnl_quote t)) trades) E r1 = Inr low \<and>
    resampled_return draw BOOTSTRAP_SEED (map (\<lambda>t. float_of_dec (t_pnl_quote t)) trades) E r2 = Inr high"
proof -
  let ?p = "map (\<lambda>t. float_of_dec (t_pnl_quote t)) trades" and ?f = "resampled_return draw BOOTSTRAP_SEED"
  have idx: "max 0 (int_of_float ((1 - BOOTSTRAP_CONFIDENCE_LEVEL) / Flt 2 * float_of_int 2000)) = 50"
    "min 1999 (int_of_float ((1 - (1 - BOOTSTRAP_CONFIDENCE_LEVEL) / Flt 2) * float_of_int 2000) - 1) = 1949"
    by code_simp+
  have "\<exists>rs. map_res (?f ?p E) [0 ..< 2000] = Inr rs"
    by (rule map_res_ok) (rule resampled_return_ok, use assms(3) in simp)
  then obtain rs where rs: "map_res (?f ?p E) [0 ..< 2000] = Inr rs" by blast
  have n: "length (sort rs) = 2000" using map_res_length [OF rs] by simp
  let ?lo = "sort rs ! 50" and ?hi = "sort rs ! 1949"
  have nth: "nth_res (sort rs) 50 = Inr ?lo" "nth_res (sort rs) 1949 = Inr ?hi"
    using nth_res_nat [of 50 "sort rs"] nth_res_nat [of 1949 "sort rs"] n by simp_all
  have le: "?lo \<le> ?hi" by (rule nth_res_sorted_mono [OF sorted_sort nth]) simp_all
  have "?lo \<in> set rs" "?hi \<in> set rs" using nth_mem [of 50 "sort rs"] nth_mem [of 1949 "sort rs"] n by simp_all
  with map_res_set [OF rs] have mem: "\<exists>k. ?f ?p E k = Inr ?lo" "\<exists>k. ?f ?p E k = Inr ?hi" by blast+
  have "\<not> length trades < 2" "\<not> E \<le> 0" using assms(1,2) by simp_all
  then have "\<exists>b. compute_bootstrap draw trades E BOOTSTRAP_RESAMPLES BOOTSTRAP_SEED BOOTSTRAP_CONFIDENCE_LEVEL = Inr b \<and>
    bs_ci_low_pct b = Some ?lo \<and> bs_ci_high_pct b = Some ?hi"
    using rs nth by (simp add: compute_bootstrap_def Let_def BOOTSTRAP_RESAMPLES_def idx)
  with le mem show ?thesis by blast
qed

text \<open>
  The bootstrap of the report always returns an ordered interval: for at least two trades and a positive
  starting equity, whatever a generator draws below the number of trades, both quantiles exist and
  the lower one is at most the upper one, and they are returns of two of the resamples.
\<close>

theorem bootstrap_interval_is_ordered:
  assumes "2 \<le> length trades" and "0 < E" and "\<forall>k. 0 \<le> draw BOOTSTRAP_SEED k (int (length trades)) \<and>
    draw BOOTSTRAP_SEED k (int (length trades)) < int (length trades)"
  shows "\<exists>b low high r1 r2. compute_bootstrap draw trades E BOOTSTRAP_RESAMPLES BOOTSTRAP_SEED BOOTSTRAP_CONFIDENCE_LEVEL = Inr b \<and>
    bs_ci_low_pct b = Some low \<and> bs_ci_high_pct b = Some high \<and> low \<le> high \<and>
    resampled_return draw BOOTSTRAP_SEED (map (\<lambda>t. float_of_dec (t_pnl_quote t)) trades) E r1 = Inr low \<and>
    resampled_return draw BOOTSTRAP_SEED (map (\<lambda>t. float_of_dec (t_pnl_quote t)) trades) E r2 = Inr high"
  by (rule bootstrap_returns) (rule assms)+

theorem bootstrap_interval_is_ordered_witness:
  "\<exists>b low high. compute_bootstrap (\<lambda>_ k n. int k mod n) md_trades (Dec 50) BOOTSTRAP_RESAMPLES BOOTSTRAP_SEED
      BOOTSTRAP_CONFIDENCE_LEVEL = Inr b \<and> bs_ci_low_pct b = Some low \<and> bs_ci_high_pct b = Some high \<and> low \<le> high"
proof -
  have "2 \<le> length md_trades" "0 < Dec 50" by (simp_all add: md_trades_def dec_arith)
  moreover have "\<forall>k. 0 \<le> int k mod int (length md_trades) \<and> int k mod int (length md_trades) < int (length md_trades)"
    by (simp add: md_trades_def)
  ultimately show ?thesis using bootstrap_interval_is_ordered [of md_trades "Dec 50" "\<lambda>_ k n. int k mod n"] by blast
qed

lemma chunks_spec:
  assumes "0 < k"
  shows "length (chunks k xs) = (length xs + k - 1) div k \<and> (\<forall>i < length (chunks k xs). chunks k xs ! i = take k (drop (i * k) xs) \<and> i * k < length xs)"
  using assms
proof (induction k xs rule: chunks.induct)
  case (1 k xs)
  show ?case
  proof (cases "xs = []")
    case False
    then have e: "chunks k xs = take k xs # chunks k (drop k xs)" using 1(2) by (simp add: chunks.simps)
    have IH: "length (chunks k (drop k xs)) = (length (drop k xs) + k - 1) div k"
      "\<And>i. i < length (chunks k (drop k xs)) \<Longrightarrow> chunks k (drop k xs) ! i = take k (drop (i * k) (drop k xs)) \<and> i * k < length (drop k xs)"
      using 1 False by auto
    have "(length xs + k - 1) div k = Suc ((length (drop k xs) + k - 1) div k)"
    proof (cases "k \<le> length xs")
      case True
      then have "length xs + k - 1 = (length (drop k xs) + k - 1) + k" using 1(2) by simp
      then show ?thesis using 1(2) by (simp only: div_add_self2)
    next
      case short: False
      then have "(length xs + k - 1) div k = 1" using False 1(2) by (intro div_nat_eqI) (cases xs; simp)+
      then show ?thesis using short 1(2) by simp
    qed
    then have len: "length (chunks k xs) = (length xs + k - 1) div k" using e IH(1) by simp
    have "chunks k xs ! i = take k (drop (i * k) xs) \<and> i * k < length xs" if "i < length (chunks k xs)" for i
      using that IH(2) [of "i - 1"] e False by (cases i) (auto simp: add.commute)
    with len show ?thesis by blast
  qed (use 1(2) in \<open>simp add: chunks.simps\<close>)
qed

text \<open>
  The rolling windows cut the trades without loss: there are as many as the window size goes into the
  number of trades, rounded up, and window \<open>i\<close> is exactly the trades from \<open>i * k\<close> on, up to \<open>k\<close> of them,
  from the entry of its first to the exit of its last.
\<close>

theorem rolling_windows_cut_the_trades:
  assumes "compute_rolling_windows trades E k = Inr ws" and "0 < E" and "trades \<noteq> []"
  shows "0 < k \<and> length ws = (length trades + k - 1) div k \<and>
    (\<forall>i < length ws. rw_window_index (ws ! i) = int i \<and> rw_trade_count (ws ! i) = min (int k) (int (length trades) - int (i * k)) \<and>
       rw_start_time_ms (ws ! i) = t_entry_time_ms (trades ! (i * k)) \<and>
       rw_end_time_ms (ws ! i) = t_exit_time_ms (trades ! (min (i * k + k) (length trades) - 1)))"
proof -
  have k: "0 < k" and ws: "ws = map (rolling_window E) (List.enumerate 0 (chunks k trades))"
    using assms by (auto simp: compute_rolling_windows_def split: if_splits)
  note c = chunks_spec [OF k, of trades]
  have len: "length ws = length (chunks k trades)" using ws by simp
  have "rw_window_index (ws ! i) = int i \<and> rw_trade_count (ws ! i) = min (int k) (int (length trades) - int (i * k)) \<and>
       rw_start_time_ms (ws ! i) = t_entry_time_ms (trades ! (i * k)) \<and>
       rw_end_time_ms (ws ! i) = t_exit_time_ms (trades ! (min (i * k + k) (length trades) - 1))" if i: "i < length ws" for i
  proof -
    let ?c = "take k (drop (i * k) trades)"
    have ci: "chunks k trades ! i = ?c" and ik: "i * k < length trades" using c i len by auto
    have w: "ws ! i = rolling_window E (i, ?c)" using i len ci by (simp add: ws nth_enumerate_eq)
    have ne: "?c \<noteq> []" using ik k by simp
    have h: "hd ?c = trades ! (i * k)" using ik k by (simp add: hd_drop_conv_nth)
    have l: "last ?c = trades ! (min (i * k + k) (length trades) - 1)"
      using ne ik k by (simp add: last_conv_nth min_def) (auto simp: add.commute intro!: arg_cong [of _ _ "(!) trades"])
    have "int (length ?c) = min (int k) (int (length trades) - int (i * k))" using ik by (simp only: length_take length_drop of_nat_min)
    then show ?thesis unfolding w using h l by (simp add: rolling_window_def split: prod.splits)
  qed
  with k c len show ?thesis by simp
qed

theorem rolling_windows_cut_the_trades_witness:
  "\<exists>ws. compute_rolling_windows md_trades (Dec 50) 2 = Inr ws \<and> length ws = 3 \<and> rw_trade_count (ws ! 2) = 1"
proof -
  have n: "length md_trades = 5" "md_trades \<noteq> []" "0 < Dec 50" by (simp_all add: md_trades_def dec_arith)
  then obtain ws where ws: "compute_rolling_windows md_trades (Dec 50) 2 = Inr ws"
    by (auto simp: compute_rolling_windows_def dec_arith)
  from rolling_windows_cut_the_trades [OF ws n(3,2)] have "length ws = 3" "rw_trade_count (ws ! 2) = 1"
    by (simp_all add: n(1))
  with ws show ?thesis by blast
qed

section \<open>The reports always exist\<close>



end
