(* ===== verification/Candle_Store.thy ===== *)
theory Candle_Store
  imports Market_Data "HOL-Library.AList" "HOL-Library.Multiset"
begin

text \<open>
  The candle database (\<open>data/storage.py\<close>): the two tables as association lists under their
  primary keys, upserts as updates of one row, queries as filters ordered by open time.
  Decimals are stored as text and read back exactly. A statement may fail, in which case
  the transaction is rolled back.
\<close>

section \<open>Tables\<close>

type_synonym row_key = "string \<times> string \<times> int"

record gap_row =
  gr_previous_open_time_ms :: int
  gr_next_open_time_ms :: int
  gr_missing_intervals :: int
  gr_detected_at_ms :: int

record candle_db =
  cd_candles :: "(row_key \<times> candle) list"
  cd_gaps :: "(row_key \<times> gap_row) list"

definition candle_key :: "candle \<Rightarrow> row_key" where
  "candle_key c = (c_symbol c, c_interval c, open_time_ms c)"

definition upsert_candle_rows :: "candle list \<Rightarrow> candle_db \<Rightarrow> candle_db" where
  "upsert_candle_rows candles db = db\<lparr>cd_candles := foldl (\<lambda>t c. AList.update (candle_key c) c t) (cd_candles db) candles\<rparr>"

definition delete_gap_rows :: "string \<Rightarrow> string \<Rightarrow> int list \<Rightarrow> candle_db \<Rightarrow> candle_db" where
  "delete_gap_rows symbol interval ts db =
     db\<lparr>cd_gaps := foldl (\<lambda>t x. AList.delete (symbol, interval, x) t) (cd_gaps db) ts\<rparr>"

definition gap_row_of :: "int \<Rightarrow> gap_record \<Rightarrow> gap_row" where
  "gap_row_of detected_at_ms g =
     \<lparr>gr_previous_open_time_ms = previous_open_time_ms g, gr_next_open_time_ms = next_open_time_ms g,
      gr_missing_intervals = missing_intervals g, gr_detected_at_ms = detected_at_ms\<rparr>"

definition upsert_gap_rows :: "gap_record list \<Rightarrow> string \<Rightarrow> string \<Rightarrow> int \<Rightarrow> candle_db \<Rightarrow> candle_db" where
  "upsert_gap_rows gs symbol interval detected_at_ms db =
     db\<lparr>cd_gaps := foldl (\<lambda>t g. AList.update (symbol, interval, expected_open_time_ms g) (gap_row_of detected_at_ms g) t)
       (cd_gaps db) gs\<rparr>"

section \<open>Operations\<close>

text \<open>\<open>broken k\<close>: the \<open>k\<close>-th statement of the transaction fails.\<close>

definition db_statement :: "(nat \<Rightarrow> bool) \<Rightarrow> nat \<Rightarrow> ('s \<Rightarrow> 's) \<Rightarrow> ('s, unit) step" where
  "db_statement broken k f = (if broken k then sraise IntegrityError else smodify f)"

definition upsert_candles :: "(nat \<Rightarrow> bool) \<Rightarrow> candle list \<Rightarrow> (candle_db, unit) step" where
  "upsert_candles broken candles = atomically (db_statement broken 0 (upsert_candle_rows candles))"

definition store_candles_and_gaps ::
  "(nat \<Rightarrow> bool) \<Rightarrow> candle list \<Rightarrow> gap_record list \<Rightarrow> string \<Rightarrow> string \<Rightarrow> int \<Rightarrow> int list option \<Rightarrow> (candle_db, unit) step" where
  "store_candles_and_gaps broken candles gs symbol interval detected_at_ms stale =
     atomically
       (sbind (db_statement broken 0 (upsert_candle_rows candles)) (\<lambda>_.
        sbind (case stale of None \<Rightarrow> sreturn ()
               | Some ts \<Rightarrow> if ts = [] then sreturn () else db_statement broken 1 (delete_gap_rows symbol interval ts)) (\<lambda>_.
        db_statement broken 2 (upsert_gap_rows gs symbol interval detected_at_ms))))"

definition get_gaps :: "string \<Rightarrow> string \<Rightarrow> candle_db \<Rightarrow> gap_record list" where
  "get_gaps symbol interval db =
     sort_key expected_open_time_ms
       (map (\<lambda>((s, i, t), r). \<lparr>expected_open_time_ms = t, previous_open_time_ms = gr_previous_open_time_ms r,
              next_open_time_ms = gr_next_open_time_ms r, missing_intervals = gr_missing_intervals r\<rparr>)
         (filter (\<lambda>((s, i, t), r). s = symbol \<and> i = interval) (cd_gaps db)))"

definition get_candles :: "string \<Rightarrow> string \<Rightarrow> int option \<Rightarrow> int option \<Rightarrow> candle_db \<Rightarrow> candle list" where
  "get_candles symbol interval start_time_ms end_time_ms db =
     sort_key open_time_ms
       (map (\<lambda>((s, i, t), c). c\<lparr>c_symbol := symbol, c_interval := interval, open_time_ms := t\<rparr>)
         (filter (\<lambda>((s, i, t), c). s = symbol \<and> i = interval \<and>
             (case start_time_ms of None \<Rightarrow> True | Some a \<Rightarrow> a \<le> t) \<and> (case end_time_ms of None \<Rightarrow> True | Some b \<Rightarrow> t \<le> b))
           (cd_candles db)))"

definition latest_close_time_ms :: "string \<Rightarrow> string \<Rightarrow> candle_db \<Rightarrow> int option" where
  "latest_close_time_ms symbol interval db =
     (case map (\<lambda>(k, c). close_time_ms c) (filter (\<lambda>((s, i, t), c). s = symbol \<and> i = interval) (cd_candles db)) of
        [] \<Rightarrow> None | x # xs \<Rightarrow> Some (foldl max x xs))"

section \<open>Deduplication by open time\<close>

text \<open>A dictionary by open time in which the last candle wins, sorted: \<open>_dedup_by_open_time\<close>.\<close>

definition dedup_by_open_time :: "candle list \<Rightarrow> candle list" where
  "dedup_by_open_time candles =
     sort_key open_time_ms (map snd (foldl (\<lambda>t c. AList.update (open_time_ms c) c t) [] candles))"

lemma foldl_max_Max: "foldl max x xs = Max (insert x (set xs))" for x :: "'a :: linorder"
proof (induction xs arbitrary: x)
  case (Cons y ys)
  then show ?case by (cases "ys = []") (simp_all add: max.assoc)
qed simp

lemma foldl_min_Min: "foldl min x xs = Min (insert x (set xs))" for x :: "'a :: linorder"
proof (induction xs arbitrary: x)
  case (Cons y ys)
  then show ?case by (cases "ys = []") (simp_all add: min.assoc)
qed simp

lemma map_of_foldl_update:
  "map_of (foldl (\<lambda>t c. AList.update (k c) (v c) t) t0 cs) = foldl (\<lambda>m c. m(k c \<mapsto> v c)) (map_of t0) cs"
  by (induction cs arbitrary: t0) (simp_all add: update_conv')

lemma distinct_foldl_update:
  "distinct (map fst t0) \<Longrightarrow> distinct (map fst (foldl (\<lambda>t c. AList.update (k c) (v c) t) t0 cs))"
  by (induction cs arbitrary: t0) (simp_all add: distinct_update)

text \<open>Sorting by a key that is injective on the list depends on its elements only.\<close>

lemma sort_key_set_eq:
  assumes "distinct xs" "distinct ys" "set xs = set ys" "inj_on f (set xs)"
  shows "sort_key f xs = sort_key f ys"
proof (rule sort_key_inj_key_eq)
  show "mset xs = mset (sort_key f ys)" using assms(1-3) by (simp add: set_eq_iff_mset_eq_distinct)
  show "inj_on f (set xs)" by (rule assms(4))
qed simp

lemma distinct_map_sort_key: "distinct (map f (sort_key g xs)) = distinct (map f xs)"
  by (rule mset_eq_imp_distinct_iff) simp

definition open_map :: "(int \<rightharpoonup> candle) \<Rightarrow> candle list \<Rightarrow> (int \<rightharpoonup> candle)" where
  "open_map m cs = foldl (\<lambda>m c. m(open_time_ms c \<mapsto> c)) m cs"

lemma open_map_simps [simp]: "open_map m [] = m" "open_map m (c # cs) = open_map (m(open_time_ms c \<mapsto> c)) cs"
  by (simp_all add: open_map_def)

lemma open_map_append: "open_map m (xs @ ys) = open_map (open_map m xs) ys"
  by (simp add: open_map_def)

lemma open_map_key:
  assumes "\<And>t c. m t = Some c \<Longrightarrow> open_time_ms c = t" "open_map m cs t = Some c"
  shows "open_time_ms c = t"
  using assms
proof (induction cs arbitrary: m)
  case (Cons d cs)
  show ?case
  proof (rule Cons.IH)
    show "open_time_ms x = u" if "(m(open_time_ms d \<mapsto> d)) u = Some x" for u x
      using that Cons.prems(1) [of u x] by (cases "u = open_time_ms d") auto
    show "open_map (m(open_time_ms d \<mapsto> d)) cs t = Some c" using Cons.prems(2) by simp
  qed
qed simp

lemma open_map_ran: "c \<in> ran (open_map m cs) \<Longrightarrow> c \<in> ran m \<or> c \<in> set cs"
proof (induction cs arbitrary: m)
  case (Cons d cs)
  then have "c \<in> ran (m(open_time_ms d \<mapsto> d)) \<or> c \<in> set cs" by simp
  then show ?case by (auto simp: ran_def split: if_splits)
qed simp

text \<open>Over distinct open times nothing is lost.\<close>

lemma open_map_distinct:
  assumes "distinct (map open_time_ms cs)"
  shows "open_map m cs t = (case find (\<lambda>c. open_time_ms c = t) cs of None \<Rightarrow> m t | Some c \<Rightarrow> Some c)"
  using assms
proof (induction cs arbitrary: m)
  case (Cons c cs)
  have "find (\<lambda>x. open_time_ms x = open_time_ms c) cs = None"
    unfolding find_None_iff using Cons.prems by (simp add: image_iff) metis
  then show ?case using Cons by (auto split: option.splits)
qed simp

lemma map_entries:
  assumes "distinct (map fst t)"
  shows "set (map snd t) = ran (map_of t)"
  using ran_distinct [OF assms] by simp

text \<open>
  The sorted dictionary, characterised: the open times strictly increase, and the elements
  are the range of the map.
\<close>

lemma dedup_spec:
  "set (dedup_by_open_time cs) = ran (open_map Map.empty cs)"
  "sorted_wrt (<) (map open_time_ms (dedup_by_open_time cs))"
proof -
  let ?t = "foldl (\<lambda>t c. AList.update (open_time_ms c) c t) [] cs"
  have d: "distinct (map fst ?t)" by (rule distinct_foldl_update) simp
  have m: "map_of ?t = open_map Map.empty cs" by (simp add: map_of_foldl_update open_map_def)
  show "set (dedup_by_open_time cs) = ran (open_map Map.empty cs)"
    using map_entries [OF d] by (simp add: dedup_by_open_time_def m)
  have k: "open_time_ms c = t" if "(t, c) \<in> set ?t" for t c
    using open_map_key [of Map.empty cs t c] map_of_is_SomeI [OF d that] m by simp
  have "map open_time_ms (map snd ?t) = map fst ?t" unfolding map_map by (rule map_cong) (use k in auto)
  with d have "distinct (map open_time_ms (map snd ?t))" by (simp only:)
  then have "distinct (map open_time_ms (dedup_by_open_time cs))"
    unfolding dedup_by_open_time_def distinct_map_sort_key .
  then show "sorted_wrt (<) (map open_time_ms (dedup_by_open_time cs))"
    by (simp add: strict_sorted_iff dedup_by_open_time_def)
qed

lemma dedup_subset: "set (dedup_by_open_time cs) \<subseteq> set cs"
  using open_map_ran [of _ Map.empty cs] by (auto simp: dedup_spec(1))

lemma dedup_times: "open_time_ms ` set (dedup_by_open_time cs) = open_time_ms ` set cs"
proof -
  have "dom (open_map m cs) = dom m \<union> open_time_ms ` set cs" for m
    by (induction cs arbitrary: m) auto
  then have "dom (open_map Map.empty cs) = open_time_ms ` set cs" by simp
  moreover have "open_time_ms ` ran (open_map Map.empty cs) = dom (open_map Map.empty cs)"
    using open_map_key [of Map.empty cs] by (force simp: ran_def dom_def)
  ultimately show ?thesis by (simp add: dedup_spec(1))
qed

text \<open>A list that strictly increases by a key is determined by its set.\<close>

lemma increasing_unique:
  fixes f :: "'a \<Rightarrow> 'b :: linorder"
  assumes "sorted_wrt (<) (map f xs)" "sorted_wrt (<) (map f ys)" "set xs = set ys"
  shows "xs = ys"
proof -
  have d: "distinct xs" "distinct ys" "inj_on f (set xs)" "sorted (map f xs)" "sorted (map f ys)"
    using assms(1,2) by (auto simp: strict_sorted_iff distinct_map)
  have "sort_key f xs = sort_key f ys" by (rule sort_key_set_eq) (use d assms(3) in auto)
  moreover have "sort_key f xs = xs" "sort_key f ys = ys" using d(4,5) by (simp_all add: sort_key_id_if_sorted)
  ultimately show ?thesis by simp
qed

lemma open_map_distinct_ran:
  assumes "distinct (map open_time_ms cs)"
  shows "ran (open_map Map.empty cs) = set cs"
proof
  show "ran (open_map Map.empty cs) \<subseteq> set cs" using open_map_ran [of _ Map.empty cs] by auto
  show "set cs \<subseteq> ran (open_map Map.empty cs)"
  proof
    fix c assume c: "c \<in> set cs"
    have "find (\<lambda>x. open_time_ms x = open_time_ms c) cs = Some c"
    proof (cases "find (\<lambda>x. open_time_ms x = open_time_ms c) cs")
      case None
      then show ?thesis using c by (auto simp: find_None_iff)
    next
      case (Some x)
      then have "x \<in> set cs" "open_time_ms x = open_time_ms c" by (auto simp: find_Some_iff)
      then show ?thesis using Some c assms by (auto simp: distinct_map inj_on_def)
    qed
    then show "c \<in> ran (open_map Map.empty cs)"
      using open_map_distinct [OF assms, of Map.empty "open_time_ms c"] by (auto simp: ran_def)
  qed
qed

lemma dedup_increasing: "sorted_wrt (<) (map open_time_ms cs) \<Longrightarrow> dedup_by_open_time cs = cs"
  by (rule increasing_unique [OF dedup_spec(2)]) (simp_all add: dedup_spec(1) open_map_distinct_ran strict_sorted_iff)

section \<open>What the store holds\<close>

text \<open>Primary keys are unique and every candle is filed under its own key.\<close>

definition db_ok :: "candle_db \<Rightarrow> bool" where
  "db_ok db \<longleftrightarrow> distinct (map fst (cd_candles db)) \<and> distinct (map fst (cd_gaps db)) \<and>
     (\<forall>(k, c) \<in> set (cd_candles db). candle_key c = k)"

definition candles_at :: "string \<Rightarrow> string \<Rightarrow> candle_db \<Rightarrow> (int \<rightharpoonup> candle)" where
  "candles_at symbol interval db t = map_of (cd_candles db) (symbol, interval, t)"

lemma db_ok_upsert: "db_ok db \<Longrightarrow> db_ok (upsert_candle_rows cs db)"
proof -
  assume ok: "db_ok db"
  let ?t = "foldl (\<lambda>t c. AList.update (candle_key c) c t) (cd_candles db) cs"
  have d: "distinct (map fst ?t)" by (rule distinct_foldl_update) (use ok in \<open>simp add: db_ok_def\<close>)
  have "\<forall>(k, c) \<in> set (foldl (\<lambda>t c. AList.update (candle_key c) c t) t0 cs). candle_key c = k"
    if "distinct (map fst t0)" "\<forall>(k, c) \<in> set t0. candle_key c = k" for t0
    using that
  proof (induction cs arbitrary: t0)
    case (Cons c cs)
    have u: "set (AList.update k v t) \<subseteq> insert (k, v) (set t)" for k :: row_key and v :: candle and t
      by (induction t) auto
    have "\<forall>(k, x) \<in> set (AList.update (candle_key c) c t0). candle_key x = k"
      using Cons.prems(2) u [of "candle_key c" c t0] by blast
    from Cons.IH [OF distinct_update [OF Cons.prems(1)] this] show ?case by simp
  qed simp
  with ok d show ?thesis by (auto simp: db_ok_def upsert_candle_rows_def)
qed

lemma candles_at_upsert:
  assumes "\<And>c. c \<in> set cs \<Longrightarrow> c_symbol c = s \<and> c_interval c = i"
  shows "candles_at s i (upsert_candle_rows cs db) = open_map (candles_at s i db) cs"
proof -
  have "(\<lambda>t. foldl (\<lambda>m c. m(candle_key c \<mapsto> c)) m cs (s, i, t)) = open_map (\<lambda>t. m (s, i, t)) cs" for m
    using assms
  proof (induction cs arbitrary: m)
    case (Cons c cs)
    have k: "candle_key c = (s, i, open_time_ms c)" using Cons.prems [of c] by (simp add: candle_key_def)
    have eq: "(\<lambda>t. (m(candle_key c \<mapsto> c)) (s, i, t)) = (\<lambda>t. m (s, i, t))(open_time_ms c \<mapsto> c)"
      unfolding k by (rule ext) simp
    have IH: "(\<lambda>t. foldl (\<lambda>m c. m(candle_key c \<mapsto> c)) (m(candle_key c \<mapsto> c)) cs (s, i, t)) = open_map (\<lambda>t. (m(candle_key c \<mapsto> c)) (s, i, t)) cs"
      by (rule Cons.IH, rule Cons.prems, simp)
    show ?case unfolding foldl_Cons open_map_simps IH eq ..
  qed simp
  then show ?thesis by (simp add: candles_at_def [abs_def] upsert_candle_rows_def map_of_foldl_update)
qed

lemma candles_at_other:
  assumes "\<And>c. c \<in> set cs \<Longrightarrow> (c_symbol c, c_interval c) \<noteq> (s, i)"
  shows "candles_at s i (upsert_candle_rows cs db) = candles_at s i db"
proof -
  have "foldl (\<lambda>m c. m(candle_key c \<mapsto> c)) m cs (s, i, t) = m (s, i, t)" for m t
    using assms by (induction cs arbitrary: m) (auto simp: candle_key_def)
  then show ?thesis by (simp add: candles_at_def [abs_def] upsert_candle_rows_def map_of_foldl_update)
qed

text \<open>A query returns the candles filed under the pair, in strictly increasing order.\<close>

lemma get_candles_spec:
  assumes "db_ok db"
  shows "set (get_candles s i None None db) = ran (candles_at s i db)"
    and "sorted_wrt (<) (map open_time_ms (get_candles s i None None db))"
proof -
  let ?f = "filter (\<lambda>((s', i', t), c). s' = s \<and> i' = i) (cd_candles db)"
  let ?r = "\<lambda>((s', i', t), c). c\<lparr>c_symbol := s, c_interval := i, open_time_ms := t\<rparr>"
  have own: "?r x = snd x \<and> fst x = (s, i, open_time_ms (snd x))" if "x \<in> set ?f" for x
    using assms that by (auto simp: db_ok_def candle_key_def)
  have e: "get_candles s i None None db = sort_key open_time_ms (map snd ?f)"
    unfolding get_candles_def using own by (intro arg_cong [of _ _ "sort_key open_time_ms"] map_cong) auto
  have d: "distinct (map fst ?f)" using assms by (simp add: db_ok_def distinct_map_filter)
  have "map fst ?f = map (\<lambda>c. (s, i, open_time_ms c)) (map snd ?f)" using own by (auto intro!: map_cong)
  then have "distinct (map open_time_ms (map snd ?f))" using d by (simp add: distinct_map inj_on_def)
  then show "sorted_wrt (<) (map open_time_ms (get_candles s i None None db))"
    by (simp add: e strict_sorted_iff distinct_map_sort_key)
  have "c \<in> snd ` set ?f \<longleftrightarrow> (\<exists>t. map_of (cd_candles db) (s, i, t) = Some c)" for c
    using assms by (force simp: db_ok_def)
  then show "set (get_candles s i None None db) = ran (candles_at s i db)"
    by (auto simp: e ran_def candles_at_def)
qed

lemma candles_at_keys: "db_ok db \<Longrightarrow> candles_at s i db t = Some c \<Longrightarrow> open_time_ms c = t"
  by (auto simp: candles_at_def db_ok_def candle_key_def dest: map_of_SomeD)

lemma open_map_of:
  assumes "distinct (map open_time_ms g)" "set g = ran m" "\<And>t c. m t = Some c \<Longrightarrow> open_time_ms c = t"
  shows "open_map Map.empty g = m"
proof
  fix t
  show "open_map Map.empty g t = m t"
  proof (cases "m t")
    case None
    then have "find (\<lambda>c. open_time_ms c = t) g = None" using assms(2,3) by (auto simp: find_None_iff ran_def)
    then show ?thesis using open_map_distinct [OF assms(1), of Map.empty t] None by simp
  next
    case (Some c)
    then have c: "c \<in> set g" "open_time_ms c = t" using assms(2) assms(3) [OF Some] by (auto simp: ran_def)
    have "c \<in> ran (open_map Map.empty g)" using c(1) open_map_distinct_ran [OF assms(1)] by simp
    then obtain u where u: "open_map Map.empty g u = Some c" by (auto simp: ran_def)
    then have "open_time_ms c = u" using open_map_key [of Map.empty g u c] by simp
    then show ?thesis using u c(2) Some by simp
  qed
qed

lemma open_map_get: "db_ok db \<Longrightarrow> open_map Map.empty (get_candles s i None None db) = candles_at s i db"
  by (rule open_map_of) (use get_candles_spec candles_at_keys in \<open>auto simp: strict_sorted_iff\<close>)

text \<open>Deduplicating a part first makes no difference.\<close>

lemma dedup_append: "dedup_by_open_time (dedup_by_open_time xs @ ys) = dedup_by_open_time (xs @ ys)"
proof (rule increasing_unique [OF dedup_spec(2) dedup_spec(2)])
  have "open_map Map.empty (dedup_by_open_time xs) = open_map Map.empty xs"
  proof (rule open_map_of)
    show "distinct (map open_time_ms (dedup_by_open_time xs))" using dedup_spec(2) [of xs] by (simp add: strict_sorted_iff)
    show "open_time_ms c = t" if "open_map Map.empty xs t = Some c" for t c using open_map_key [of Map.empty xs t c] that by simp
  qed (rule dedup_spec(1))
  then show "set (dedup_by_open_time (dedup_by_open_time xs @ ys)) = set (dedup_by_open_time (xs @ ys))"
    by (simp add: dedup_spec(1) open_map_append)
qed

section \<open>A series as an interface\<close>

text \<open>What a client of a stored series relies on: saving is a deduplicated union in what is loaded.\<close>

locale candle_series =
  fixes load :: "'db \<Rightarrow> candle list" and save :: "candle list \<Rightarrow> 'db \<Rightarrow> 'db"
    and ok :: "'db \<Rightarrow> bool" and own :: "candle \<Rightarrow> bool"
  assumes save_ok: "ok db \<Longrightarrow> ok (save cs db)"
    and load_save: "ok db \<Longrightarrow> (\<And>c. c \<in> set cs \<Longrightarrow> own c) \<Longrightarrow> load (save cs db) = dedup_by_open_time (load db @ cs)"
begin

lemma save_join:
  assumes "ok db" "\<And>c. c \<in> set (cs @ ds) \<Longrightarrow> own c"
  shows "load (save ds (save cs db)) = load (save (cs @ ds) db)"
proof -
  have "load (save ds (save cs db)) = dedup_by_open_time (load (save cs db) @ ds)"
    by (rule load_save [OF save_ok [OF assms(1)]]) (use assms(2) in simp)
  also have "load (save cs db) = dedup_by_open_time (load db @ cs)" by (rule load_save [OF assms(1)]) (use assms(2) in simp)
  also have "dedup_by_open_time (dedup_by_open_time (load db @ cs) @ ds) = dedup_by_open_time (load db @ cs @ ds)"
    by (simp add: dedup_append)
  also have "\<dots> = load (save (cs @ ds) db)" by (rule load_save [OF assms, symmetric])
  finally show ?thesis .
qed

lemma save_covers: "ok db \<Longrightarrow> (\<And>c. c \<in> set cs \<Longrightarrow> own c) \<Longrightarrow> open_time_ms ` set (load (save cs db)) = open_time_ms ` (set (load db) \<union> set cs)"
  by (simp add: load_save dedup_times)

end

text \<open>The gap table of a pair, and what a query makes of it.\<close>

definition gaps_at :: "string \<Rightarrow> string \<Rightarrow> candle_db \<Rightarrow> (int \<rightharpoonup> gap_row)" where
  "gaps_at symbol interval db t = map_of (cd_gaps db) (symbol, interval, t)"

definition gap_of_row :: "int \<Rightarrow> gap_row \<Rightarrow> gap_record" where
  "gap_of_row t r = \<lparr>expected_open_time_ms = t, previous_open_time_ms = gr_previous_open_time_ms r,
     next_open_time_ms = gr_next_open_time_ms r, missing_intervals = gr_missing_intervals r\<rparr>"

lemma gap_of_row_of [simp]: "gap_of_row (expected_open_time_ms g) (gap_row_of d g) = g"
  by (simp add: gap_of_row_def gap_row_of_def)

lemma get_gaps_spec:
  assumes "db_ok db"
  shows "set (get_gaps s i db) = {gap_of_row t r | t r. gaps_at s i db t = Some r}"
    and "sorted_wrt (<) (map expected_open_time_ms (get_gaps s i db))"
proof -
  let ?f = "filter (\<lambda>((s', i', t), r). s' = s \<and> i' = i) (cd_gaps db)"
  let ?h = "\<lambda>((s' :: string, i' :: string, t), r). gap_of_row t r"
  have e: "get_gaps s i db = sort_key expected_open_time_ms (map ?h ?f)"
    unfolding get_gaps_def gap_of_row_def by simp
  have d: "distinct (map fst ?f)" using assms by (simp add: db_ok_def distinct_map_filter)
  have "map fst ?f = map (\<lambda>g. (s, i, expected_open_time_ms g)) (map ?h ?f)"
    by (auto simp: gap_of_row_def intro!: map_cong)
  then have "distinct (map expected_open_time_ms (map ?h ?f))" using d by (simp add: distinct_map inj_on_def)
  then show "sorted_wrt (<) (map expected_open_time_ms (get_gaps s i db))"
    by (simp add: e strict_sorted_iff distinct_map_sort_key)
  have m: "((s, i, t), r) \<in> set (cd_gaps db) \<longleftrightarrow> gaps_at s i db t = Some r" for t r
    using assms by (auto simp: db_ok_def gaps_at_def)
  show "set (get_gaps s i db) = {gap_of_row t r | t r. gaps_at s i db t = Some r}"
    by (force simp: e m [symmetric])
qed

lemma foldl_upd_at:
  "foldl (\<lambda>m g. m(k g \<mapsto> v g)) m gs x = (case find (\<lambda>g. k g = x) (rev gs) of None \<Rightarrow> m x | Some g \<Rightarrow> Some (v g))"
  by (induction gs rule: rev_induct) auto

lemma map_of_foldl_delete:
  "map_of (foldl (\<lambda>t x. AList.delete (k x) t) t0 xs) y = (if y \<in> k ` set xs then None else map_of t0 y)"
  by (induction xs arbitrary: t0) (auto simp: delete_conv')

lemma distinct_foldl_delete: "distinct (map fst t0) \<Longrightarrow> distinct (map fst (foldl (\<lambda>t x. AList.delete (k x) t) t0 xs))"
  by (induction xs arbitrary: t0) (simp_all add: distinct_delete)

section \<open>One transaction\<close>

text \<open>The committed state.\<close>

definition stored :: "candle list \<Rightarrow> gap_record list \<Rightarrow> string \<Rightarrow> string \<Rightarrow> int \<Rightarrow> int list option \<Rightarrow> candle_db \<Rightarrow> candle_db" where
  "stored cs gs s i now stale db =
     upsert_gap_rows gs s i now (case stale of None \<Rightarrow> upsert_candle_rows cs db
       | Some ts \<Rightarrow> if ts = [] then upsert_candle_rows cs db else delete_gap_rows s i ts (upsert_candle_rows cs db))"

lemma store_outcomes:
  "store_candles_and_gaps broken cs gs s i now stale db = (r, db') \<Longrightarrow>
     (r = Inr () \<and> db' = stored cs gs s i now stale db) \<or> (\<exists>e. r = Inl e \<and> db' = db)"
  by (auto simp: store_candles_and_gaps_def atomically_def sbind_def db_statement_def stored_def
      split: if_splits option.splits prod.splits sum.splits)

lemma store_works: "store_candles_and_gaps (\<lambda>_. False) cs gs s i now stale db = (Inr (), stored cs gs s i now stale db)"
  by (auto simp: store_candles_and_gaps_def atomically_def sbind_def db_statement_def stored_def split: option.splits)

lemma db_ok_stored:
  assumes "db_ok db"
  shows "db_ok (stored cs gs s i now stale db)"
  using db_ok_upsert [OF assms, of cs]
  by (auto simp: stored_def db_ok_def upsert_gap_rows_def delete_gap_rows_def split: option.splits
      intro!: distinct_foldl_update distinct_foldl_delete)

lemma candles_at_stored: "candles_at s' i' (stored cs gs s i now stale db) = candles_at s' i' (upsert_candle_rows cs db)"
  by (auto simp: candles_at_def fun_eq_iff stored_def upsert_gap_rows_def delete_gap_rows_def split: option.splits)

lemma gaps_at_stored:
  "gaps_at s' i' (stored cs gs s i now stale db) t =
     (if (s', i') = (s, i)
      then (case find (\<lambda>g. expected_open_time_ms g = t) (rev gs) of
              Some g \<Rightarrow> Some (gap_row_of now g)
            | None \<Rightarrow> if t \<in> set (case stale of None \<Rightarrow> [] | Some ts \<Rightarrow> ts) then None else gaps_at s i db t)
      else gaps_at s' i' db t)"
proof -
  have u: "map_of (cd_gaps (upsert_gap_rows gs s i now d)) x =
      (case find (\<lambda>g. (s, i, expected_open_time_ms g) = x) (rev gs) of None \<Rightarrow> map_of (cd_gaps d) x | Some g \<Rightarrow> Some (gap_row_of now g))" for d x
    by (simp add: upsert_gap_rows_def map_of_foldl_update foldl_upd_at)
  have f: "find (\<lambda>g. False) xs = None" for xs :: "gap_record list" by (induction xs) auto
  have c: "cd_gaps (upsert_candle_rows cs db) = cd_gaps db" by (simp add: upsert_candle_rows_def)
  show ?thesis
    by (cases stale; cases "s' = s"; cases "i' = i")
      (auto simp: gaps_at_def stored_def u f c delete_gap_rows_def map_of_foldl_delete split: option.splits)
qed

text \<open>The query is the deduplicated union of what was there and what was stored.\<close>

lemma get_candles_stored:
  assumes "db_ok db" "\<And>c. c \<in> set cs \<Longrightarrow> c_symbol c = s \<and> c_interval c = i"
  shows "get_candles s i None None (stored cs gs s i now stale db) = dedup_by_open_time (get_candles s i None None db @ cs)"
proof (rule increasing_unique [where f = open_time_ms])
  show "set (get_candles s i None None (stored cs gs s i now stale db)) = set (dedup_by_open_time (get_candles s i None None db @ cs))"
    by (simp add: get_candles_spec(1) db_ok_stored assms(1) candles_at_stored candles_at_upsert assms(2) dedup_spec(1)
        open_map_append open_map_get)
qed (simp_all add: get_candles_spec(2) db_ok_stored assms(1) dedup_spec(2))

interpretation series: candle_series "get_candles s i None None" "\<lambda>cs. stored cs gs s i now stale" db_ok
  "\<lambda>c. c_symbol c = s \<and> c_interval c = i" for s i gs now stale
  by unfold_locales (rule db_ok_stored, assumption, rule get_candles_stored, blast+)

text \<open>When every recorded gap is stale, the query returns the gaps just stored.\<close>

lemma get_gaps_stored:
  assumes "db_ok db" "sorted_wrt (<) (map expected_open_time_ms gs)"
    and "\<And>g. g \<in> set (get_gaps s i db) \<Longrightarrow> expected_open_time_ms g \<in> set ts"
  shows "get_gaps s i (stored cs gs s i now (Some ts) db) = gs"
proof (rule increasing_unique)
  let ?db = "stored cs gs s i now (Some ts) db"
  have old: "t \<in> set ts" if "gaps_at s i db t = Some r" for t r
    using assms(3) [of "gap_of_row t r"] that by (auto simp: get_gaps_spec(1) [OF assms(1)] gap_of_row_def)
  have d: "distinct (map expected_open_time_ms gs)" using assms(2) by (simp add: strict_sorted_iff)
  have f: "find (\<lambda>g. expected_open_time_ms g = t) (rev gs) = Some g \<longleftrightarrow> g \<in> set gs \<and> expected_open_time_ms g = t" for t g
  proof
    assume "g \<in> set gs \<and> expected_open_time_ms g = t"
    then obtain x where x: "find (\<lambda>g. expected_open_time_ms g = t) (rev gs) = Some x"
      by (cases "find (\<lambda>g. expected_open_time_ms g = t) (rev gs)") (auto simp: find_None_iff)
    then have "x \<in> set gs" "expected_open_time_ms x = t" by (auto simp: find_Some_iff) (metis length_rev nth_mem set_rev)
    with x \<open>g \<in> set gs \<and> expected_open_time_ms g = t\<close> d show "find (\<lambda>g. expected_open_time_ms g = t) (rev gs) = Some g"
      by (auto simp: distinct_map inj_on_def)
  qed (auto simp: find_Some_iff, metis length_rev nth_mem set_rev)
  have at: "gaps_at s i ?db t = Some r \<longleftrightarrow> (\<exists>g \<in> set gs. expected_open_time_ms g = t \<and> r = gap_row_of now g)" for t r
  proof (cases "find (\<lambda>g. expected_open_time_ms g = t) (rev gs)")
    case None
    then have "gaps_at s i ?db t = None" using old by (cases "gaps_at s i db t") (auto simp: gaps_at_stored)
    moreover have "\<nexists>g. g \<in> set gs \<and> expected_open_time_ms g = t" using None by (auto simp: find_None_iff)
    ultimately show ?thesis by auto
  next
    case (Some x)
    then have "gaps_at s i ?db t = Some (gap_row_of now x)" by (simp add: gaps_at_stored)
    moreover have "x \<in> set gs \<and> expected_open_time_ms x = t" using f [of t x] Some by blast
    moreover have "g = x" if "g \<in> set gs" "expected_open_time_ms g = t" for g using f [of t g] that Some by simp
    ultimately show ?thesis by auto
  qed
  show "set (get_gaps s i ?db) = set gs" by (force simp: get_gaps_spec(1) [OF db_ok_stored [OF assms(1)]] at)
  show "sorted_wrt (<) (map expected_open_time_ms (get_gaps s i ?db))" by (rule get_gaps_spec(2) [OF db_ok_stored [OF assms(1)]])
qed (rule assms(2))

text \<open>Storing the same again changes no query.\<close>

lemma dedup_twice: "dedup_by_open_time (xs @ cs @ cs) = dedup_by_open_time (xs @ cs)"
proof (rule increasing_unique [OF dedup_spec(2) dedup_spec(2)])
  have at: "open_map m cs t = (case find (\<lambda>c. open_time_ms c = t) (rev cs) of None \<Rightarrow> m t | Some c \<Rightarrow> Some c)" for m t
    using foldl_upd_at [of open_time_ms "\<lambda>c. c" m cs t] by (simp add: open_map_def)
  have "open_map (open_map m cs) cs t = open_map m cs t" for m t
    unfolding at [of "open_map m cs"] by (auto simp: at [of m] split: option.splits)
  then have "open_map (open_map m cs) cs = open_map m cs" for m by (simp add: fun_eq_iff)
  then show "set (dedup_by_open_time (xs @ cs @ cs)) = set (dedup_by_open_time (xs @ cs))"
    by (simp add: dedup_spec(1) open_map_append)
qed

lemma stored_twice:
  assumes "db_ok db" "\<And>c. c \<in> set cs \<Longrightarrow> c_symbol c = s \<and> c_interval c = i"
  shows "get_candles s i None None (stored cs gs s i now stale (stored cs gs s i now stale db)) = get_candles s i None None (stored cs gs s i now stale db)"
    and "get_gaps s i (stored cs gs s i now stale (stored cs gs s i now stale db)) = get_gaps s i (stored cs gs s i now stale db)"
proof -
  let ?f = "stored cs gs s i now stale"
  have ok: "db_ok (?f db)" "db_ok (?f (?f db))" using db_ok_stored assms(1) by blast+
  show "get_candles s i None None (?f (?f db)) = get_candles s i None None (?f db)"
  proof -
    have "get_candles s i None None (?f (?f db)) = dedup_by_open_time (get_candles s i None None (?f db) @ cs)"
      by (rule series.load_save [OF ok(1) assms(2)])
    also have "get_candles s i None None (?f db) = dedup_by_open_time (get_candles s i None None db @ cs)"
      by (rule series.load_save [OF assms])
    also have "dedup_by_open_time (dedup_by_open_time (get_candles s i None None db @ cs) @ cs) = dedup_by_open_time (get_candles s i None None db @ cs)"
      by (simp add: dedup_append dedup_twice)
    also have "\<dots> = get_candles s i None None (?f db)" by (rule series.load_save [OF assms, symmetric])
    finally show ?thesis .
  qed
  have "gaps_at s i (?f (?f db)) = gaps_at s i (?f db)" by (auto simp: gaps_at_stored fun_eq_iff split: option.splits)
  then show "get_gaps s i (?f (?f db)) = get_gaps s i (?f db)"
    by (intro increasing_unique [OF get_gaps_spec(2) [OF ok(2)] get_gaps_spec(2) [OF ok(1)]])
      (simp add: get_gaps_spec(1) ok)
qed

end
