(* ===== verification/Historical_Fetch.thy ===== *)
theory Historical_Fetch
  imports Candle_Store
begin

text \<open>
  The download of history (\<open>data/historical_fetch.py\<close>): paging with bounded retries, the
  focused retry of every gap, and the final gate on the exclusive end. The exchange client
  and the clock are parameters; they answer from a state of their own and may raise. A
  request that fails with a \<open>RequestException\<close> is a value, any other exception is the raise
  of the step. The paging loop runs on fuel.
\<close>

section \<open>The exchange behind the client\<close>

text \<open>
  A failed request: an \<open>HTTPError\<close> with the status of its response and its \<open>Retry-After\<close>
  header, when they exist, as \<open>float\<close> reads it (\<open>None\<close>: it does not), or another \<open>RequestException\<close>.
\<close>

datatype request_error = HTTP_Error "(int \<times> flt option option) option" | Connection_Error

record kline_query =
  kq_symbol :: string
  kq_interval :: string
  kq_start_time_ms :: int
  kq_end_time_ms :: int
  kq_limit :: int

record 'w candle_api =
  ca_klines :: "kline_query \<Rightarrow> ('w, request_error + candle list) step"
  ca_server_time :: "('w, int) step"
  ca_sleep :: "flt \<Rightarrow> ('w, unit) step"

definition DEFAULT_BACKOFF_SECONDS :: flt where
  "DEFAULT_BACKOFF_SECONDS = Flt 2"

definition PAGE_LIMIT :: int where
  "PAGE_LIMIT = 1000"

definition DEFAULT_MAX_RETRIES :: nat where
  "DEFAULT_MAX_RETRIES = 5"

definition backoff :: "nat \<Rightarrow> flt" where
  "backoff attempt = DEFAULT_BACKOFF_SECONDS * float_of_int (2 ^ attempt)"

text \<open>What one call of the fetch is about: the series, the exclusive end, the number of tries.\<close>

record fetch_plan =
  fp_symbol :: string
  fp_interval :: string
  fp_end_time_ms :: int
  fp_page_limit :: int
  fp_max_retries :: nat

section \<open>Pages\<close>

definition page_delay :: "request_error \<Rightarrow> nat \<Rightarrow> flt result" where
  "page_delay err attempt =
     (case err of
        HTTP_Error (Some (status, retry_after)) \<Rightarrow>
          if status = 429
          then (case retry_after of None \<Rightarrow> Inr DEFAULT_BACKOFF_SECONDS | Some r \<Rightarrow> of_option (ValueError ''float'') r)
          else Inr (backoff attempt)
      | _ \<Rightarrow> Inr (backoff attempt))"

text \<open>The tries from \<open>attempt\<close> on, \<open>remaining\<close> of them.\<close>

fun fetch_page_from :: "'w candle_api \<Rightarrow> fetch_plan \<Rightarrow> int \<Rightarrow> nat \<Rightarrow> nat \<Rightarrow> ('w, candle list) step" where
  "fetch_page_from api pl start attempt 0 = sraise (ProjectError ''HistoricalFetchError'')"
| "fetch_page_from api pl start attempt (Suc remaining) =
     sbind (ca_klines api \<lparr>kq_symbol = fp_symbol pl, kq_interval = fp_interval pl, kq_start_time_ms = start,
         kq_end_time_ms = exclusive_upper_bound_for_request (fp_end_time_ms pl), kq_limit = fp_page_limit pl\<rparr>) (\<lambda>answer.
     case answer of
       Inr page \<Rightarrow> sreturn (below_exclusive_end page (Some (fp_end_time_ms pl)))
     | Inl err \<Rightarrow>
         sbind (slift (page_delay err attempt)) (\<lambda>delay.
         sbind (ca_sleep api delay) (\<lambda>_.
         fetch_page_from api pl start (Suc attempt) remaining)))"

definition fetch_page_with_retries :: "'w candle_api \<Rightarrow> fetch_plan \<Rightarrow> int \<Rightarrow> ('w, candle list) step" where
  "fetch_page_with_retries api pl start = fetch_page_from api pl start 0 (fp_max_retries pl)"

fun fetch_loop :: "nat \<Rightarrow> 'w candle_api \<Rightarrow> fetch_plan \<Rightarrow> int \<Rightarrow> int \<Rightarrow> candle list \<Rightarrow> ('w, candle list) step" where
  "fetch_loop 0 api pl step_ms cursor acc = (if cursor < fp_end_time_ms pl then sraise OutOfFuel else sreturn acc)"
| "fetch_loop (Suc fuel) api pl step_ms cursor acc =
     (if cursor < fp_end_time_ms pl
      then sbind (fetch_page_with_retries api pl cursor) (\<lambda>page.
           if page = [] then sreturn acc
           else if int (length page) < fp_page_limit pl then sreturn (acc @ page)
           else fetch_loop fuel api pl step_ms (open_time_ms (last page) + step_ms) (acc @ page))
      else sreturn acc)"

section \<open>Gaps\<close>

record fetch_result =
  fr_candles :: "candle list"
  fr_confirmed_gaps :: "gap_record list"

text \<open>The focused retries of one gap, with the last answer.\<close>

fun narrow_recovery_from ::
  "'w candle_api \<Rightarrow> string \<Rightarrow> string \<Rightarrow> gap_record \<Rightarrow> int option \<Rightarrow> candle list \<Rightarrow> nat \<Rightarrow> nat \<Rightarrow> ('w, candle list) step" where
  "narrow_recovery_from api symbol interval gap end_time last_result attempt 0 = sreturn last_result"
| "narrow_recovery_from api symbol interval gap end_time last_result attempt (Suc remaining) =
     sbind (ca_klines api \<lparr>kq_symbol = symbol, kq_interval = interval, kq_start_time_ms = expected_open_time_ms gap,
         kq_end_time_ms = exclusive_upper_bound_for_request (next_open_time_ms gap), kq_limit = missing_intervals gap + 2\<rparr>) (\<lambda>answer.
     case answer of
       Inl err \<Rightarrow>
         sbind (ca_sleep api (backoff attempt)) (\<lambda>_.
         narrow_recovery_from api symbol interval gap end_time last_result (Suc attempt) remaining)
     | Inr page \<Rightarrow>
         let found = below_exclusive_end
               (filter (\<lambda>c. expected_open_time_ms gap \<le> open_time_ms c \<and> open_time_ms c < next_open_time_ms gap) page) end_time
         in if found \<noteq> [] then sreturn found
            else sbind (ca_sleep api (backoff attempt)) (\<lambda>_.
                 narrow_recovery_from api symbol interval gap end_time found (Suc attempt) remaining))"

definition attempt_narrow_recovery ::
  "'w candle_api \<Rightarrow> string \<Rightarrow> string \<Rightarrow> gap_record \<Rightarrow> nat \<Rightarrow> int option \<Rightarrow> ('w, candle list) step" where
  "attempt_narrow_recovery api symbol interval gap max_retries end_time =
     narrow_recovery_from api symbol interval gap end_time [] 0 max_retries"

fun recover_gaps ::
  "'w candle_api \<Rightarrow> string \<Rightarrow> string \<Rightarrow> nat \<Rightarrow> int option \<Rightarrow> candle list \<Rightarrow> gap_record list \<Rightarrow> ('w, candle list) step" where
  "recover_gaps api symbol interval max_retries end_time acc [] = sreturn acc"
| "recover_gaps api symbol interval max_retries end_time acc (g # gs) =
     sbind (attempt_narrow_recovery api symbol interval g max_retries end_time) (\<lambda>found.
     recover_gaps api symbol interval max_retries end_time (acc @ found) gs)"

definition confirm_gaps ::
  "'w candle_api \<Rightarrow> string \<Rightarrow> string \<Rightarrow> candle list \<Rightarrow> nat \<Rightarrow> int option \<Rightarrow> ('w, fetch_result) step" where
  "confirm_gaps api symbol interval candles max_retries end_time =
     (if candles = [] then sraise EmptyDataError
      else sbind (slift (partition_into_segments candles interval)) (\<lambda>segmentation.
        if gaps segmentation = [] then sreturn \<lparr>fr_candles = candles, fr_confirmed_gaps = []\<rparr>
        else sbind (recover_gaps api symbol interval max_retries end_time candles (gaps segmentation)) (\<lambda>recovered.
             let final_candles = dedup_by_open_time recovered in
             sbind (slift (partition_into_segments final_candles interval)) (\<lambda>final.
             sreturn \<lparr>fr_candles = final_candles, fr_confirmed_gaps = gaps final\<rparr>))))"

section \<open>The whole range\<close>

definition assert_no_candle_at_or_after :: "candle list \<Rightarrow> int \<Rightarrow> unit result" where
  "assert_no_candle_at_or_after candles end_time =
     (if filter (\<lambda>c. end_time \<le> open_time_ms c) candles \<noteq> [] then Inl (ProjectError ''HistoricalFetchError'') else Inr ())"

definition fetch_historical_range ::
  "nat \<Rightarrow> 'w candle_api \<Rightarrow> fetch_plan \<Rightarrow> int \<Rightarrow> int option \<Rightarrow> ('w, fetch_result) step" where
  "fetch_historical_range fuel api pl start_time_ms reference_time_ms =
     sbind (case reference_time_ms of None \<Rightarrow> ca_server_time api | Some t \<Rightarrow> sreturn t) (\<lambda>reference.
     sbind (slift (interval_to_ms (fp_interval pl))) (\<lambda>step_ms.
     sbind (fetch_loop fuel api pl step_ms start_time_ms []) (\<lambda>all_candles.
     let completed = filter (\<lambda>c. close_time_ms c < reference) (below_exclusive_end all_candles (Some (fp_end_time_ms pl)));
         deduped = dedup_by_open_time completed
     in if deduped = [] then sreturn \<lparr>fr_candles = [], fr_confirmed_gaps = []\<rparr>
        else sbind (confirm_gaps api (fp_symbol pl) (fp_interval pl) deduped (fp_max_retries pl) (Some (fp_end_time_ms pl))) (\<lambda>result.
             sbind (slift (assert_no_candle_at_or_after (fr_candles result) (fp_end_time_ms pl))) (\<lambda>_.
             sreturn result)))))"

text \<open>Fuel for the pages of a range: every full page moves the cursor on by at least one interval.\<close>

definition range_fuel :: "int \<Rightarrow> int \<Rightarrow> int \<Rightarrow> nat" where
  "range_fuel step_ms start_time_ms end_time_ms = nat ((end_time_ms - start_time_ms) div step_ms) + 1"

end
