(* ===== verification/Candidates.thy ===== *)
theory Candidates
  imports Strategy Float_Math
begin

text \<open>
  The single-timeframe candidates of the research (\<open>research/candidates/\<close>): the
  volatility-normalised breakout, the same breakout behind a bullish regime gate, the
  conservative mean reversion, and the trend with its one entry per cycle. pandas is a
  parameter; a series of its has the length of its input, and \<open>None\<close> is NaN, with
  which every comparison is false.
\<close>

record pandas =
  pd_ewm :: "flt list \<Rightarrow> int \<Rightarrow> flt list"
  pd_mean :: rolling
  pd_max :: rolling

definition closes_of :: "candle list \<Rightarrow> flt list" where
  "closes_of candles = map (\<lambda>c. float_of_dec (c_close c)) candles"

definition answer :: "signal_type \<Rightarrow> string \<Rightarrow> candle \<Rightarrow> payload \<Rightarrow> signal" where
  "answer ty reason c inputs =
     \<lparr>sg_type = ty, sg_reason_code = reason, sg_candle_close_time_ms = close_time_ms c, sg_inputs = inputs\<rparr>"

definition jnum :: "flt option \<Rightarrow> jval" where
  "jnum x = (case x of None \<Rightarrow> JNaN | Some f \<Rightarrow> JFlt f)"

section \<open>Volatility-normalised breakout\<close>

record breakout =
  vb_channel_period :: int
  vb_atr_period :: int
  vb_breakout_atr_multiple :: flt

definition mk_breakout :: "int \<Rightarrow> int \<Rightarrow> flt \<Rightarrow> breakout result" where
  "mk_breakout channel_period atr_period breakout_atr_multiple =
     (if channel_period \<le> 0 \<or> atr_period \<le> 0 then Inl (ValueError ''periods'')
      else if breakout_atr_multiple < 0 then Inl (ValueError ''breakout_atr_multiple'')
      else Inr \<lparr>vb_channel_period = channel_period, vb_atr_period = atr_period,
                vb_breakout_atr_multiple = breakout_atr_multiple\<rparr>)"

definition vb_min_required :: "breakout \<Rightarrow> int" where
  "vb_min_required s = max (vb_channel_period s + 1) (vb_atr_period s)"

text \<open>A breakout of \<open>distance\<close> is confirmed; a NaN range confirms nothing.\<close>

definition breakout_confirmed :: "flt \<Rightarrow> flt \<Rightarrow> flt option \<Rightarrow> bool" where
  "breakout_confirmed multiple distance atr_curr \<longleftrightarrow>
     0 < distance \<and> (case atr_curr of None \<Rightarrow> False | Some a \<Rightarrow> a \<le> 0 \<or> multiple * a \<le> distance)"

definition preceding_candles :: "int \<Rightarrow> candle list \<Rightarrow> candle list" where
  "preceding_candles period candles = butlast (drop (length candles - nat (period + 1)) candles)"

definition breakout_signal :: "pandas \<Rightarrow> breakout \<Rightarrow> signal_generator" where
  "breakout_signal pd s candles current_position =
     (if int (length candles) < vb_min_required s then Inl InsufficientDataError
      else bindr (nth_res candles (-1)) (\<lambda>last_candle.
        let close = float_of_dec (c_close last_candle);
            preceding = preceding_candles (vb_channel_period s) candles
        in
        bindr (list_max (map (\<lambda>c. float_of_dec (c_high c)) preceding)) (\<lambda>donchian_high.
        bindr (list_min (map (\<lambda>c. float_of_dec (c_low c)) preceding)) (\<lambda>donchian_low.
        bindr (atr (pd_mean pd) candles (vb_atr_period s)) (\<lambda>atr_values.
        bindr (nth_res atr_values (-1)) (\<lambda>atr_curr.
        let inputs = [(''symbol'', JStr (c_symbol last_candle)), (''close'', JFlt close),
              (''donchian_high'', JFlt donchian_high), (''donchian_low'', JFlt donchian_low),
              (''atr_curr'', jnum atr_curr), (''breakout_atr_multiple'', JFlt (vb_breakout_atr_multiple s)),
              (''current_position'', JStr (side_value current_position))]
        in Inr
          (if current_position = FLAT
           then if breakout_confirmed (vb_breakout_atr_multiple s) (close - donchian_high) atr_curr
                then answer BUY ''VOLATILITY_CONFIRMED_UPSIDE_BREAKOUT'' last_candle inputs
                else answer HOLD ''HOLD_NO_CONFIRMED_BREAKOUT'' last_candle inputs
           else if close < donchian_low then answer EXIT ''CHANNEL_BREAKDOWN'' last_candle inputs
           else answer HOLD ''HOLD_WITHIN_CHANNEL'' last_candle inputs)))))))"

section \<open>Breakout behind the regime gate\<close>

definition EMA_REGIME_PERIOD :: int where
  "EMA_REGIME_PERIOD = 200"

definition EMA_REGIME_SLOPE_LOOKBACK_CANDLES :: int where
  "EMA_REGIME_SLOPE_LOOKBACK_CANDLES = 20"

record gate_counters =
  gc_breakout_signals_evaluated :: int
  gc_breakout_signals_blocked_by_regime_gate :: int

definition gated_min_required :: "breakout \<Rightarrow> int" where
  "gated_min_required s = max (vb_min_required s) (EMA_REGIME_PERIOD + EMA_REGIME_SLOPE_LOOKBACK_CANDLES)"

definition gated_inputs :: "payload \<Rightarrow> flt \<Rightarrow> flt \<Rightarrow> flt \<Rightarrow> payload" where
  "gated_inputs inputs close_curr ema_curr ema_prior =
     inputs @ [(''ema200_curr'', JFlt ema_curr), (''ema200_prior'', JFlt ema_prior),
       (''above_ema200'', JBool (ema_curr < close_curr)), (''ema200_rising'', JBool (ema_prior < ema_curr))]"

definition gate_decision :: "payload \<Rightarrow> int \<Rightarrow> flt \<Rightarrow> flt \<Rightarrow> flt \<Rightarrow> (gate_counters, signal) step" where
  "gate_decision inputs t close_curr ema_curr ema_prior =
     (let inputs' = gated_inputs inputs close_curr ema_curr ema_prior in
      if ema_curr < close_curr \<and> ema_prior < ema_curr
      then sreturn \<lparr>sg_type = BUY, sg_reason_code = ''BREAKOUT_CONFIRMED_BULLISH_REGIME'',
                    sg_candle_close_time_ms = t, sg_inputs = inputs'\<rparr>
      else sbind (smodify (\<lambda>c. c\<lparr>gc_breakout_signals_blocked_by_regime_gate := gc_breakout_signals_blocked_by_regime_gate c + 1\<rparr>)) (\<lambda>_.
           sreturn \<lparr>sg_type = HOLD, sg_reason_code = ''HOLD_REGIME_GATE_BLOCKED'',
                    sg_candle_close_time_ms = t, sg_inputs = inputs'\<rparr>))"

definition gated_breakout_signal :: "pandas \<Rightarrow> breakout \<Rightarrow> candle list \<Rightarrow> position_side \<Rightarrow> (gate_counters, signal) step" where
  "gated_breakout_signal pd s candles current_position =
     (if int (length candles) < gated_min_required s then sraise InsufficientDataError
      else sbind (slift (breakout_signal pd s candles current_position)) (\<lambda>sig.
        if sg_type sig \<noteq> BUY then sreturn sig
        else sbind (smodify (\<lambda>c. c\<lparr>gc_breakout_signals_evaluated := gc_breakout_signals_evaluated c + 1\<rparr>)) (\<lambda>_.
          let closes = closes_of candles; current_idx = int (length candles) - 1 in
          sbind (slift (ema (pd_ewm pd) closes EMA_REGIME_PERIOD)) (\<lambda>ema_values.
          sbind (slift (nth_res ema_values current_idx)) (\<lambda>ema_curr.
          sbind (slift (nth_res ema_values (current_idx - EMA_REGIME_SLOPE_LOOKBACK_CANDLES))) (\<lambda>ema_prior.
          sbind (slift (nth_res closes current_idx)) (\<lambda>close_curr.
          gate_decision (sg_inputs sig) (sg_candle_close_time_ms sig) close_curr ema_curr ema_prior))))))) "

section \<open>Conservative mean reversion\<close>

definition REGIME_EMA_FAST :: int where
  "REGIME_EMA_FAST = 10"

definition REGIME_EMA_SLOW :: int where
  "REGIME_EMA_SLOW = 40"

record mean_reversion =
  mr_bb_period :: int
  mr_bb_std_mult :: flt
  mr_atr_period :: int
  mr_max_trend_strength_atr :: flt

definition mk_mean_reversion :: "int \<Rightarrow> flt \<Rightarrow> int \<Rightarrow> flt \<Rightarrow> mean_reversion result" where
  "mk_mean_reversion bb_period bb_std_mult atr_period max_trend_strength_atr =
     (if bb_period \<le> 0 \<or> atr_period \<le> 0 then Inl (ValueError ''periods'')
      else if bb_std_mult \<le> 0 then Inl (ValueError ''bb_std_mult'')
      else if max_trend_strength_atr < 0 then Inl (ValueError ''max_trend_strength_atr'')
      else Inr \<lparr>mr_bb_period = bb_period, mr_bb_std_mult = bb_std_mult, mr_atr_period = atr_period,
                mr_max_trend_strength_atr = max_trend_strength_atr\<rparr>)"

definition mr_min_required :: "mean_reversion \<Rightarrow> int" where
  "mr_min_required s = max (max (mr_bb_period s) (mr_atr_period s)) REGIME_EMA_SLOW + 1"

definition trend_strength :: "flt \<Rightarrow> flt \<Rightarrow> flt option \<Rightarrow> flt" where
  "trend_strength fast slow atr_curr =
     (case atr_curr of None \<Rightarrow> 0 | Some a \<Rightarrow> if 0 < a then \<bar>fast - slow\<bar> / a else 0)"

definition reversion_decision :: "position_side \<Rightarrow> bool \<Rightarrow> flt \<Rightarrow> flt \<Rightarrow> flt \<Rightarrow> signal_type \<times> string" where
  "reversion_decision current_position range_bound close lower_band basis =
     (if current_position = FLAT
      then if range_bound \<and> close < lower_band then (BUY, ''OVERSOLD_DIP_IN_RANGE_BOUND_REGIME'')
           else (HOLD, ''HOLD_NO_QUALIFYING_DIP'')
      else if \<not> range_bound then (EXIT, ''REGIME_SHIFTED_TO_TRENDING_ABANDON_REVERSION_THESIS'')
      else if basis \<le> close then (EXIT, ''REVERTED_TO_MEAN'')
      else (HOLD, ''HOLD_AWAITING_REVERSION''))"

definition mean_reversion_signal :: "pandas \<Rightarrow> mean_reversion \<Rightarrow> signal_generator" where
  "mean_reversion_signal pd s candles current_position =
     (if int (length candles) < mr_min_required s then Inl InsufficientDataError
      else let closes = closes_of candles; window = drop (length closes - nat (mr_bb_period s)) closes in
        bindr (nth_res candles (-1)) (\<lambda>last_candle.
        bindr (nth_res closes (-1)) (\<lambda>close.
        bindr (statistics_fmean window) (\<lambda>basis.
        bindr (statistics_pstdev window) (\<lambda>std.
        bindr (atr (pd_mean pd) candles (mr_atr_period s)) (\<lambda>atr_values.
        bindr (nth_res atr_values (-1)) (\<lambda>atr_curr.
        bindr (ema (pd_ewm pd) closes REGIME_EMA_FAST) (\<lambda>fast_values.
        bindr (nth_res fast_values (-1)) (\<lambda>regime_fast.
        bindr (ema (pd_ewm pd) closes REGIME_EMA_SLOW) (\<lambda>slow_values.
        bindr (nth_res slow_values (-1)) (\<lambda>regime_slow.
        let lower_band = basis - mr_bb_std_mult s * std; upper_band = basis + mr_bb_std_mult s * std;
            strength = trend_strength regime_fast regime_slow atr_curr;
            range_bound = (strength \<le> mr_max_trend_strength_atr s);
            inputs = [(''symbol'', JStr (c_symbol last_candle)), (''close'', JFlt close), (''basis'', JFlt basis),
              (''lower_band'', JFlt lower_band), (''upper_band'', JFlt upper_band), (''trend_strength_atr'', JFlt strength),
              (''max_trend_strength_atr'', JFlt (mr_max_trend_strength_atr s)), (''range_bound'', JBool range_bound),
              (''current_position'', JStr (side_value current_position))]
        in case reversion_decision current_position range_bound close lower_band basis of
             (ty, reason) \<Rightarrow> Inr (answer ty reason last_candle inputs))))))))))))"

section \<open>Trend with one entry per cycle\<close>

record trend_regime =
  tg_ema_fast_period :: int
  tg_ema_slow_period :: int
  tg_atr_period :: int
  tg_min_trend_strength_atr :: flt

definition mk_trend_regime :: "int \<Rightarrow> int \<Rightarrow> int \<Rightarrow> flt \<Rightarrow> trend_regime result" where
  "mk_trend_regime ema_fast ema_slow atr_period min_trend_strength_atr =
     (if ema_fast \<le> 0 \<or> ema_slow \<le> 0 \<or> atr_period \<le> 0 then Inl (ValueError ''periods'')
      else if ema_slow \<le> ema_fast then Inl (ValueError ''ema_fast'')
      else if min_trend_strength_atr < 0 then Inl (ValueError ''min_trend_strength_atr'')
      else Inr \<lparr>tg_ema_fast_period = ema_fast, tg_ema_slow_period = ema_slow, tg_atr_period = atr_period,
                tg_min_trend_strength_atr = min_trend_strength_atr\<rparr>)"

definition tg_min_required :: "trend_regime \<Rightarrow> int" where
  "tg_min_required s = max (tg_ema_slow_period s) (tg_atr_period s) + 1"

text \<open>The most recent bullish crossover that is still in the visible history.\<close>

definition crossover_index :: "flt list \<Rightarrow> flt list \<Rightarrow> nat \<Rightarrow> nat \<Rightarrow> nat option" where
  "crossover_index fast slow earliest current =
     find (\<lambda>k. fast ! (k - 1) \<le> slow ! (k - 1)) (rev [earliest + 1 ..< current + 1])"

text \<open>The one candle of the cycle at which the separation reaches the threshold.\<close>

definition confirmation_index :: "flt list \<Rightarrow> flt list \<Rightarrow> flt option list \<Rightarrow> flt \<Rightarrow> nat \<Rightarrow> nat \<Rightarrow> nat option" where
  "confirmation_index fast slow atrs threshold crossover current =
     find (\<lambda>j. threshold \<le> trend_strength (fast ! j) (slow ! j) (atrs ! j)) [crossover ..< current + 1]"

definition bearish_decision :: "flt list \<Rightarrow> flt list \<Rightarrow> nat \<Rightarrow> position_side \<Rightarrow> signal_type \<times> string" where
  "bearish_decision fast slow current current_position =
     (if slow ! (current - 1) \<le> fast ! (current - 1) \<and> fast ! current < slow ! current
      then if current_position = FLAT then (HOLD, ''HOLD_ALREADY_FLAT'') else (EXIT, ''BEARISH_EMA_CROSSOVER_CYCLE_RESET'')
      else (HOLD, ''HOLD_NOT_IN_BULLISH_STATE''))"

definition cycle_decision :: "nat option \<Rightarrow> nat \<Rightarrow> position_side \<Rightarrow> signal_type \<times> string" where
  "cycle_decision confirmation current current_position =
     (case confirmation of
        None \<Rightarrow> (HOLD, ''ARMED_AWAITING_TREND_CONFIRMATION'')
      | Some j \<Rightarrow>
          if current_position = LONG then (HOLD, ''HOLD_ALREADY_LONG'')
          else if j = current then (BUY, ''BULLISH_TREND_CONFIRMED_ENTRY'')
          else (HOLD, ''HOLD_CYCLE_ALREADY_ENTERED_NO_REENTRY_WITHOUT_FRESH_CYCLE''))"

definition trend_inputs :: "trend_regime \<Rightarrow> candle \<Rightarrow> flt \<Rightarrow> flt \<Rightarrow> flt option \<Rightarrow> position_side \<Rightarrow> payload" where
  "trend_inputs s c fast_curr slow_curr atr_curr pos =
     [(''symbol'', JStr (c_symbol c)), (''close'', JFlt (float_of_dec (c_close c))), (''ema_fast_curr'', JFlt fast_curr),
      (''ema_slow_curr'', JFlt slow_curr), (''atr_curr'', jnum atr_curr),
      (''trend_strength_atr'', JFlt (trend_strength fast_curr slow_curr atr_curr)),
      (''min_trend_strength_atr'', JFlt (tg_min_trend_strength_atr s)), (''in_bullish_state'', JBool (slow_curr < fast_curr)),
      (''current_position'', JStr (side_value pos))]"

definition trend_signal :: "pandas \<Rightarrow> trend_regime \<Rightarrow> signal_generator" where
  "trend_signal pd s candles current_position =
     (if int (length candles) < tg_min_required s then Inl InsufficientDataError
      else let closes = closes_of candles; current = length candles - 1; earliest = nat (tg_min_required s - 1) in
        bindr (ema (pd_ewm pd) closes (tg_ema_fast_period s)) (\<lambda>fast.
        bindr (ema (pd_ewm pd) closes (tg_ema_slow_period s)) (\<lambda>slow.
        bindr (atr (pd_mean pd) candles (tg_atr_period s)) (\<lambda>atrs.
        bindr (nth_res candles (-1)) (\<lambda>last_candle.
        let inputs = trend_inputs s last_candle (fast ! current) (slow ! current) (atrs ! current) current_position in
        if \<not> slow ! current < fast ! current
        then (case bearish_decision fast slow current current_position of
                (ty, reason) \<Rightarrow> Inr (answer ty reason last_candle inputs))
        else case crossover_index fast slow earliest current of
          None \<Rightarrow> Inr (answer HOLD ''HOLD_UNOBSERVED_CYCLE'' last_candle inputs)
        | Some crossover \<Rightarrow>
            (case cycle_decision (confirmation_index fast slow atrs (tg_min_trend_strength_atr s) crossover current)
                    current current_position of
               (ty, reason) \<Rightarrow> Inr (answer ty reason last_candle
                 (inputs @ [(''cycle_crossover_time_ms'', JInt (close_time_ms (candles ! crossover)))]))))))))"

end
