(* ===== verification/Multi_Timeframe.thy ===== *)
theory Multi_Timeframe
  imports Candidates
begin

text \<open>
  The multi-timeframe candidate (\<open>research/candidates/multitimeframe_breakout.py\<close>): hourly
  candles are aggregated into completed 4-hour and weekly buckets; a rising weekly average
  permits entries, a confirmed 4-hour breakout arms one, and the first confirming hour of
  its window takes it. The counters are telemetry only.
\<close>

definition HOUR_MS :: int where "HOUR_MS = 60 * 60 * 1000"
definition FOUR_H_HOURS :: int where "FOUR_H_HOURS = 4"
definition WEEK_HOURS :: int where "WEEK_HOURS = 7 * 24"
definition FOUR_H_MS :: int where "FOUR_H_MS = FOUR_H_HOURS * HOUR_MS"
definition WEEK_MS :: int where "WEEK_MS = WEEK_HOURS * HOUR_MS"
definition EPOCH_MONDAY_OFFSET_MS :: int where "EPOCH_MONDAY_OFFSET_MS = 3 * 24 * HOUR_MS"

definition WEEKLY_EMA_PERIOD :: int where "WEEKLY_EMA_PERIOD = 40"
definition WEEKLY_EMA_SLOPE_LOOKBACK_CANDLES :: int where "WEEKLY_EMA_SLOPE_LOOKBACK_CANDLES = 4"
definition FOUR_H_CHANNEL_PERIOD :: int where "FOUR_H_CHANNEL_PERIOD = 20"
definition FOUR_H_ATR_PERIOD :: int where "FOUR_H_ATR_PERIOD = 14"
definition FOUR_H_BREAKOUT_ATR_MULTIPLE :: flt where "FOUR_H_BREAKOUT_ATR_MULTIPLE = Flt (1 / 4)"
definition FOUR_H_EMA_REGIME_PERIOD :: int where "FOUR_H_EMA_REGIME_PERIOD = 200"
definition FOUR_H_EMA_SLOPE_LOOKBACK_CANDLES :: int where "FOUR_H_EMA_SLOPE_LOOKBACK_CANDLES = 20"
definition CONFIRMATION_WINDOW_1H_CANDLES :: int where "CONFIRMATION_WINDOW_1H_CANDLES = 4"

lemmas mtf_constants = HOUR_MS_def FOUR_H_HOURS_def WEEK_HOURS_def FOUR_H_MS_def WEEK_MS_def EPOCH_MONDAY_OFFSET_MS_def
  WEEKLY_EMA_PERIOD_def WEEKLY_EMA_SLOPE_LOOKBACK_CANDLES_def FOUR_H_CHANNEL_PERIOD_def FOUR_H_ATR_PERIOD_def
  FOUR_H_EMA_REGIME_PERIOD_def FOUR_H_EMA_SLOPE_LOOKBACK_CANDLES_def CONFIRMATION_WINDOW_1H_CANDLES_def

section \<open>The warm-up\<close>

definition weekly_floor_hours :: int where
  "weekly_floor_hours = (WEEKLY_EMA_PERIOD + WEEKLY_EMA_SLOPE_LOOKBACK_CANDLES) * WEEK_HOURS + WEEK_HOURS"

definition four_h_floor_hours :: int where
  "four_h_floor_hours =
     max (max (FOUR_H_CHANNEL_PERIOD + 1) FOUR_H_ATR_PERIOD) (FOUR_H_EMA_REGIME_PERIOD + FOUR_H_EMA_SLOPE_LOOKBACK_CANDLES)
       * FOUR_H_HOURS + FOUR_H_HOURS"

definition multitimeframe_min_required_candles :: int where
  "multitimeframe_min_required_candles = max weekly_floor_hours four_h_floor_hours + CONFIRMATION_WINDOW_1H_CANDLES"

section \<open>Buckets\<close>

definition four_h_bucket_start_ms :: "int \<Rightarrow> int" where
  "four_h_bucket_start_ms t = t - t mod FOUR_H_MS"

definition weekly_bucket_start_ms :: "int \<Rightarrow> int" where
  "weekly_bucket_start_ms t = (let shifted = t + EPOCH_MONDAY_OFFSET_MS in shifted - shifted mod WEEK_MS - EPOCH_MONDAY_OFFSET_MS)"

record completed_bucket =
  cb_candle :: candle
  cb_last_hour_index :: int

definition bucket_complete :: "int \<Rightarrow> int \<Rightarrow> candle list \<Rightarrow> bool" where
  "bucket_complete hours_per_bucket start grp \<longleftrightarrow>
     int (length grp) = hours_per_bucket \<and> open_time_ms (hd grp) = start \<and>
     (\<forall>k \<in> set [0 ..< length grp - 1]. open_time_ms (grp ! (k + 1)) - open_time_ms (grp ! k) = HOUR_MS)"

definition bucket_candle :: "int \<Rightarrow> candle list \<Rightarrow> candle" where
  "bucket_candle hours_per_bucket grp =
     \<lparr>c_symbol = c_symbol (hd grp), c_interval = int_str hours_per_bucket @ ''h_aggregated'',
      open_time_ms = open_time_ms (hd grp), close_time_ms = close_time_ms (last grp), c_open = c_open (hd grp),
      c_high = foldl max (c_high (hd grp)) (map c_high (tl grp)),
      c_low = foldl min (c_low (hd grp)) (map c_low (tl grp)),
      c_close = c_close (last grp), c_volume = foldl (+) 0 (map c_volume grp)\<rparr>"

text \<open>The buckets of the candles from index \<open>i\<close> on: maximal runs with one bucket start.\<close>

function buckets_from :: "int \<Rightarrow> (int \<Rightarrow> int) \<Rightarrow> int \<Rightarrow> candle list \<Rightarrow> completed_bucket list" where
  "buckets_from hours start_fn i [] = []"
| "buckets_from hours start_fn i (c # cs) =
     (let start = start_fn (open_time_ms c);
          grp = c # takeWhile (\<lambda>d. start_fn (open_time_ms d) = start) cs;
          rest = dropWhile (\<lambda>d. start_fn (open_time_ms d) = start) cs;
          j = i + int (length grp);
          later = buckets_from hours start_fn j rest
      in if bucket_complete hours start grp
         then \<lparr>cb_candle = bucket_candle hours grp, cb_last_hour_index = j - 1\<rparr> # later else later)"
  by pat_completeness auto
termination
  by (relation "measure (\<lambda>(_, _, _, cs). length cs)") (auto simp: less_Suc_eq_le length_dropWhile_le)

definition aggregate_completed_buckets :: "candle list \<Rightarrow> int \<Rightarrow> (int \<Rightarrow> int) \<Rightarrow> completed_bucket list" where
  "aggregate_completed_buckets candles hours_per_bucket start_fn = buckets_from hours_per_bucket start_fn 0 candles"

section \<open>The weekly filter\<close>

definition weekly_filter_bullish :: "pandas \<Rightarrow> candle list \<Rightarrow> bool result" where
  "weekly_filter_bullish pd candles =
     (let weekly = aggregate_completed_buckets candles WEEK_HOURS weekly_bucket_start_ms;
          n = int (length weekly)
      in if n < WEEKLY_EMA_PERIOD + WEEKLY_EMA_SLOPE_LOOKBACK_CANDLES then Inr False
         else let closes = closes_of (map cb_candle weekly) in
           bindr (ema (pd_ewm pd) closes WEEKLY_EMA_PERIOD) (\<lambda>ema_values.
           bindr (nth_res ema_values (n - 1)) (\<lambda>ema_curr.
           bindr (nth_res ema_values (n - 1 - WEEKLY_EMA_SLOPE_LOOKBACK_CANDLES)) (\<lambda>ema_prior.
           bindr (nth_res closes (n - 1)) (\<lambda>close.
           Inr (ema_curr < close \<and> ema_prior < ema_curr))))))"

section \<open>Setups\<close>

record setup_event =
  se_setup_hour_index :: int
  se_breakout_level :: flt
  se_window_start_index :: int
  se_window_end_index :: int
  se_confirmation_index :: "int option"

definition min_four_h_idx :: int where
  "min_four_h_idx = max (max FOUR_H_CHANNEL_PERIOD (FOUR_H_ATR_PERIOD - 1))
     (FOUR_H_EMA_REGIME_PERIOD + FOUR_H_EMA_SLOPE_LOOKBACK_CANDLES - 1)"

definition hour_confirms :: "flt \<Rightarrow> candle \<Rightarrow> bool" where
  "hour_confirms level c \<longleftrightarrow> level < float_of_dec (c_close c) \<and> c_open c < c_close c"

text \<open>The first confirming hour of the window that is visible.\<close>

definition first_confirmation :: "candle list \<Rightarrow> flt \<Rightarrow> int \<Rightarrow> int \<Rightarrow> int option" where
  "first_confirmation candles level window_start window_end =
     find (\<lambda>h. hour_confirms level (candles ! nat h)) [window_start .. min window_end (int (length candles) - 1)]"

definition setup_at :: "candle list \<Rightarrow> int \<Rightarrow> flt \<Rightarrow> setup_event" where
  "setup_at candles setup_hour_index level =
     (let window_start = setup_hour_index + 1; window_end = setup_hour_index + CONFIRMATION_WINDOW_1H_CANDLES in
      \<lparr>se_setup_hour_index = setup_hour_index, se_breakout_level = level, se_window_start_index = window_start,
       se_window_end_index = window_end, se_confirmation_index = first_confirmation candles level window_start window_end\<rparr>)"

text \<open>The four series of the 4-hour candles: closes, average, range, and highest highs.\<close>

record four_h_series =
  fs_closes :: "flt list"
  fs_ema200 :: "flt list"
  fs_atr14 :: "flt option list"
  fs_donchian :: "flt option list"

definition four_h_setup :: "four_h_series \<Rightarrow> nat \<Rightarrow> flt option" where
  "four_h_setup x i =
     (case fs_donchian x ! (i - 1) of
        None \<Rightarrow> None
      | Some level \<Rightarrow>
          if \<not> breakout_confirmed FOUR_H_BREAKOUT_ATR_MULTIPLE (fs_closes x ! i - level) (fs_atr14 x ! i) then None
          else if fs_ema200 x ! i < fs_closes x ! i \<and>
                  fs_ema200 x ! (i - nat FOUR_H_EMA_SLOPE_LOOKBACK_CANDLES) < fs_ema200 x ! i
          then Some level else None)"

definition four_h_series_of :: "pandas \<Rightarrow> candle list \<Rightarrow> four_h_series result" where
  "four_h_series_of pd cs =
     (let closes = closes_of cs; highs = map (\<lambda>c. float_of_dec (c_high c)) cs in
      bindr (ema (pd_ewm pd) closes FOUR_H_EMA_REGIME_PERIOD) (\<lambda>ema200.
      bindr (atr (pd_mean pd) cs FOUR_H_ATR_PERIOD) (\<lambda>atr14.
      bindr (rolling_indicator (pd_max pd) highs FOUR_H_CHANNEL_PERIOD) (\<lambda>donchian.
      Inr \<lparr>fs_closes = closes, fs_ema200 = ema200, fs_atr14 = atr14, fs_donchian = donchian\<rparr>))))"

definition scan_setup_events :: "pandas \<Rightarrow> candle list \<Rightarrow> setup_event list result" where
  "scan_setup_events pd candles =
     (let buckets = aggregate_completed_buckets candles FOUR_H_HOURS four_h_bucket_start_ms in
      if int (length buckets) \<le> min_four_h_idx then Inr []
      else bindr (four_h_series_of pd (map cb_candle buckets)) (\<lambda>x.
        Inr (List.map_filter
          (\<lambda>i. map_option (setup_at candles (cb_last_hour_index (buckets ! i))) (four_h_setup x i))
          [nat min_four_h_idx ..< length buckets])))"

section \<open>The signal\<close>

record mtf_counters =
  mc_weekly_filter_rejections :: int
  mc_four_h_setups_detected :: int
  mc_setups_armed :: int
  mc_setups_expired :: int
  mc_one_h_confirmations :: int
  mc_entries :: int

definition count_event :: "int \<Rightarrow> setup_event \<Rightarrow> mtf_counters \<Rightarrow> mtf_counters" where
  "count_event current_idx e c =
     (let c1 = (if se_setup_hour_index e = current_idx
                then c\<lparr>mc_four_h_setups_detected := mc_four_h_setups_detected c + 1, mc_setups_armed := mc_setups_armed c + 1\<rparr> else c);
          c2 = (if se_confirmation_index e = Some current_idx
                then c1\<lparr>mc_one_h_confirmations := mc_one_h_confirmations c1 + 1\<rparr> else c1)
      in if se_window_end_index e = current_idx \<and> se_confirmation_index e = None
         then c2\<lparr>mc_setups_expired := mc_setups_expired c2 + 1\<rparr> else c2)"

text \<open>\<open>max(..., key=...)\<close>: the first event with the largest setup hour.\<close>

fun governing_from :: "setup_event \<Rightarrow> setup_event list \<Rightarrow> setup_event" where
  "governing_from e [] = e"
| "governing_from e (f # es) = governing_from (if se_setup_hour_index e < se_setup_hour_index f then f else e) es"

definition active_events :: "int \<Rightarrow> setup_event list \<Rightarrow> setup_event list" where
  "active_events current_idx events =
     filter (\<lambda>e. se_window_start_index e \<le> current_idx \<and> current_idx \<le> se_window_end_index e) events"

definition window_answer :: "int \<Rightarrow> candle \<Rightarrow> payload \<Rightarrow> setup_event list \<Rightarrow> (mtf_counters, signal) step" where
  "window_answer current_idx last_candle inputs active =
     (case active of
        [] \<Rightarrow> sreturn (answer HOLD ''HOLD_NO_ARMED_SETUP'' last_candle inputs)
      | e # es \<Rightarrow>
          let governing = governing_from e es;
              inputs' = inputs @ [(''governing_setup_hour_index'', JInt (se_setup_hour_index governing)),
                (''governing_breakout_level'', JFlt (se_breakout_level governing))]
          in case se_confirmation_index governing of
               None \<Rightarrow> sreturn (answer HOLD ''HOLD_AWAITING_1H_CONFIRMATION'' last_candle inputs')
             | Some h \<Rightarrow>
                 if h < current_idx then sreturn (answer HOLD ''HOLD_SETUP_ALREADY_CONSUMED'' last_candle inputs')
                 else sbind (smodify (\<lambda>c. c\<lparr>mc_entries := mc_entries c + 1\<rparr>)) (\<lambda>_.
                   sreturn (answer BUY ''MULTITIMEFRAME_1H_CONFIRMED_ENTRY'' last_candle inputs')))"

definition multitimeframe_step :: "pandas \<Rightarrow> candle list \<Rightarrow> position_side \<Rightarrow> (mtf_counters, signal) step" where
  "multitimeframe_step pd candles current_position =
     (if int (length candles) < multitimeframe_min_required_candles then sraise InsufficientDataError
      else let current_idx = int (length candles) - 1 in
        sbind (slift (nth_res candles (-1))) (\<lambda>last_candle.
        let inputs = [(''symbol'', JStr (c_symbol last_candle)), (''close'', JFlt (float_of_dec (c_close last_candle))),
              (''current_position'', JStr (side_value current_position))] in
        sbind (slift (weekly_filter_bullish pd candles)) (\<lambda>bullish.
        if \<not> bullish
        then sbind (smodify (\<lambda>c. c\<lparr>mc_weekly_filter_rejections := mc_weekly_filter_rejections c + 1\<rparr>)) (\<lambda>_.
             sreturn (answer HOLD ''HOLD_WEEKLY_FILTER_BLOCKED'' last_candle inputs))
        else sbind (slift (scan_setup_events pd candles)) (\<lambda>events.
          sbind (smodify (\<lambda>c. foldl (\<lambda>c e. count_event current_idx e c) c events)) (\<lambda>_.
          if current_position = LONG then sreturn (answer HOLD ''HOLD_ALREADY_LONG'' last_candle inputs)
          else window_answer current_idx last_candle inputs (active_events current_idx events))))))"

definition mtf_counters_start :: mtf_counters where
  "mtf_counters_start =
     \<lparr>mc_weekly_filter_rejections = 0, mc_four_h_setups_detected = 0, mc_setups_armed = 0, mc_setups_expired = 0,
      mc_one_h_confirmations = 0, mc_entries = 0\<rparr>"

text \<open>As a strategy: the answer, which does not depend on the counters.\<close>

definition multitimeframe_signal :: "pandas \<Rightarrow> signal_generator" where
  "multitimeframe_signal pd candles current_position = fst (multitimeframe_step pd candles current_position mtf_counters_start)"

lemma multitimeframe_counters_irrelevant: "fst (multitimeframe_step pd candles pos c) = fst (multitimeframe_step pd candles pos c')"
  by (auto simp: multitimeframe_step_def window_answer_def sbind_def slift_def smodify_def sreturn_def sraise_def Let_def
      split: sum.splits option.splits list.splits)

end
