(* ===== verification/Gap_Recovery.thy ===== *)
theory Gap_Recovery
  imports Historical_Fetch Multi_Timeframe
begin

text \<open>
  The audit and recovery of confirmed hourly gaps (\<open>data/gap_recovery.py\<close>): the bounded
  download of minute candles, the classification of every missing hour, the audit of all
  gaps with its checkpoint and its handling of an interrupt, and the one function that
  writes. The exchange, the clock, the progress callback and sha256 are parameters; the
  texts of the details are known by the data they quote.
\<close>

section \<open>Results of the audit\<close>

datatype recovery_outcome = FULLY_RECOVERABLE | PARTIALLY_RECOVERABLE | GENUINE_NO_DATA | UNRESOLVED

datatype stop_reason = Gap_Time_Budget_Exceeded | Max_Retries_Exhausted

datatype hour_detail =
    No_Minutes
  | Only_Minutes int
  | Not_A_Clean_Run int
  | Native_Mismatch
  | Reconstructed
  | Not_Checked stop_reason
  | After_Cutoff

record provenance =
  pv_source :: string
  pv_retrieved_at_ms :: int
  pv_component_count :: int
  pv_first_component_open_time_ms :: int
  pv_last_component_open_time_ms :: int
  pv_validation_result :: string
  pv_content_hash :: string

record missing_hour =
  mh_open_time_ms :: int
  mh_outcome :: recovery_outcome
  mh_found_1m_candle_count :: int
  mh_detail :: hour_detail
  mh_reconstructed_candle :: "candle option"
  mh_provenance :: "provenance option"

record gap_result =
  gf_gap :: gap_record
  gf_missing_hours :: "missing_hour list"

record segment_length =
  sl_index :: int
  sl_start_time_ms :: int
  sl_end_time_ms :: int
  sl_candle_count :: int

record gap_report =
  gq_symbol :: string
  gq_interval :: string
  gq_generated_at_ms :: int
  gq_total_gaps :: int
  gq_total_missing_hours :: int
  gq_fully_recoverable_hours :: int
  gq_partially_recoverable_hours :: int
  gq_genuine_no_data_hours :: int
  gq_unresolved_hours :: int
  gq_gap_results :: "gap_result list"
  gq_resulting_segments :: "segment_length list"
  gq_min_required_candles :: int
  gq_complete_blocks :: int
  gq_interrupted :: bool
  gq_gaps_processed :: int

section \<open>Constants\<close>

definition RECOVERY_SOURCE :: string where "RECOVERY_SOURCE = ''binance_1m_klines_aggregation''"
definition ONE_HOUR_MS :: int where "ONE_HOUR_MS = 3600000"
definition ONE_MINUTE_MS :: int where "ONE_MINUTE_MS = 60000"
definition MINUTES_PER_HOUR :: nat where "MINUTES_PER_HOUR = 60"
definition KLINE_PAGE_LIMIT :: int where "KLINE_PAGE_LIMIT = 1000"
definition AUDIT_MAX_RETRIES :: nat where "AUDIT_MAX_RETRIES = 3"
definition AUDIT_BACKOFF_SECONDS :: flt where "AUDIT_BACKOFF_SECONDS = Flt 1"
definition AUDIT_MAX_BACKOFF_SECONDS :: flt where "AUDIT_MAX_BACKOFF_SECONDS = Flt 5"
definition MAX_SECONDS_PER_GAP :: flt where "MAX_SECONDS_PER_GAP = Flt 60"
definition DEFAULT_BLOCK_DURATION_DAYS :: int where "DEFAULT_BLOCK_DURATION_DAYS = 365"

section \<open>One hour from sixty minutes\<close>

definition is_continuous_60_minutes :: "candle list \<Rightarrow> int \<Rightarrow> bool" where
  "is_continuous_60_minutes candles hour_open_time_ms \<longleftrightarrow>
     length candles = MINUTES_PER_HOUR \<and> open_time_ms (candles ! 0) = hour_open_time_ms \<and>
     (\<forall>i \<in> set [0 ..< MINUTES_PER_HOUR - 1]. open_time_ms (candles ! (i + 1)) - open_time_ms (candles ! i) = ONE_MINUTE_MS)"

definition aggregate_1m_to_1h :: "string \<Rightarrow> int \<Rightarrow> candle list \<Rightarrow> candle" where
  "aggregate_1m_to_1h symbol hour_open_time_ms minute_candles =
     \<lparr>c_symbol = symbol, c_interval = ''1h'', open_time_ms = hour_open_time_ms,
      close_time_ms = hour_open_time_ms + ONE_HOUR_MS - 1,
      c_open = c_open (hd minute_candles),
      c_high = foldl max (c_high (hd minute_candles)) (map c_high (tl minute_candles)),
      c_low = foldl min (c_low (hd minute_candles)) (map c_low (tl minute_candles)),
      c_close = c_close (last minute_candles),
      c_volume = foldl (+) 0 (map c_volume minute_candles)\<rparr>"

definition missing_hours_for_gap :: "gap_record \<Rightarrow> int list" where
  "missing_hours_for_gap gap = map (\<lambda>i. expected_open_time_ms gap + i * ONE_HOUR_MS) [0 .. missing_intervals gap - 1]"

section \<open>Segments after recovery\<close>

definition blocks_of_segment :: "int \<Rightarrow> int \<Rightarrow> int \<Rightarrow> candle list \<Rightarrow> int" where
  "blocks_of_segment step_ms block_duration_ms warm_up segment =
     (if int (length segment) < warm_up then 0
      else (open_time_ms (last segment) - open_time_ms (segment ! nat (warm_up - 1)) + step_ms) div block_duration_ms)"

definition count_round3_complete_blocks :: "candle list \<Rightarrow> string \<Rightarrow> int \<Rightarrow> int \<Rightarrow> int result" where
  "count_round3_complete_blocks candles interval warm_up block_duration_days =
     (if candles = [] then Inr 0
      else bindr (interval_to_ms interval) (\<lambda>step_ms.
           bindr (partition_into_segments candles interval) (\<lambda>segmentation.
           Inr (sum_list (map (blocks_of_segment step_ms (block_duration_days * MS_PER_DAY) warm_up) (segments segmentation))))))"

definition segment_lengths :: "candle list \<Rightarrow> string \<Rightarrow> segment_length list result" where
  "segment_lengths candles interval =
     (if candles = [] then Inr []
      else bindr (partition_into_segments candles interval) (\<lambda>segmentation.
           Inr (map (\<lambda>(i, segment). \<lparr>sl_index = int i, sl_start_time_ms = open_time_ms (hd segment),
                      sl_end_time_ms = close_time_ms (last segment), sl_candle_count = int (length segment)\<rparr>)
             (List.enumerate 0 (segments segmentation)))))"

section \<open>The environment of an audit\<close>

datatype progress =
    Gap_Started int int gap_record
  | Requesting int int nat nat kline_query
  | Request_Failed int int nat bool
  | Request_Answered int int nat int
  | Gap_Done int int int int int int
  | Gap_Reused int int
  | Audit_Interrupted int int

text \<open>A JSON value; a decimal and a detail are texts known by what they stand for.\<close>

datatype js = J_Null | J_Int int | J_Str string | J_Dec dec | J_Detail hour_detail | J_Obj "(string \<times> js) list" | J_Arr "js list"

record 'w audit_env =
  au_api :: "'w candle_api"
  au_now :: "('w, flt) step"
  au_emit :: "progress \<Rightarrow> ('w, unit) step"
  au_sha256 :: "js \<Rightarrow> string"
  au_max_retries :: nat
  au_max_seconds_per_gap :: flt
  au_now_ms :: int

text \<open>The place of a gap in the audit, for the progress messages.\<close>

type_synonym place = "int \<times> int"

definition capped_backoff_seconds :: "nat \<Rightarrow> flt" where
  "capped_backoff_seconds attempt = min AUDIT_MAX_BACKOFF_SECONDS (AUDIT_BACKOFF_SECONDS * float_of_int (2 ^ (attempt - 1)))"

section \<open>Bounded requests\<close>

text \<open>The tries from \<open>attempt\<close> on; \<open>None\<close> when they are exhausted. \<open>q\<close> has the exclusive end.\<close>

fun klines_from :: "'w audit_env \<Rightarrow> place \<Rightarrow> kline_query \<Rightarrow> nat \<Rightarrow> nat \<Rightarrow> ('w, candle list option) step" where
  "klines_from env pl q attempt 0 = sreturn None"
| "klines_from env pl q attempt (Suc remaining) =
     sbind (au_emit env (Requesting (fst pl) (snd pl) attempt (au_max_retries env) q)) (\<lambda>_.
     sbind (ca_klines (au_api env) (q\<lparr>kq_end_time_ms := exclusive_upper_bound_for_request (kq_end_time_ms q)\<rparr>)) (\<lambda>answer.
     case answer of
       Inl err \<Rightarrow>
         sbind (au_emit env (Request_Failed (fst pl) (snd pl) attempt (remaining \<noteq> 0))) (\<lambda>_.
         sbind (if remaining \<noteq> 0 then ca_sleep (au_api env) (capped_backoff_seconds attempt) else sreturn ()) (\<lambda>_.
         klines_from env pl q (Suc attempt) remaining))
     | Inr raw \<Rightarrow>
         let page = below_exclusive_end raw (Some (kq_end_time_ms q)) in
         sbind (au_emit env (Request_Answered (fst pl) (snd pl) attempt (int (length page)))) (\<lambda>_.
         sreturn (Some page))))"

definition fetch_klines_with_bounded_retries :: "'w audit_env \<Rightarrow> place \<Rightarrow> kline_query \<Rightarrow> ('w, candle list option) step" where
  "fetch_klines_with_bounded_retries env pl q = klines_from env pl q 1 (au_max_retries env)"

fun minute_loop ::
  "nat \<Rightarrow> 'w audit_env \<Rightarrow> place \<Rightarrow> string \<Rightarrow> int \<Rightarrow> flt \<Rightarrow> int \<Rightarrow> candle list \<Rightarrow> ('w, candle list \<times> int \<times> stop_reason option) step" where
  "minute_loop 0 env pl symbol end_ms deadline cursor acc =
     (if cursor < end_ms then sraise OutOfFuel else sreturn (acc, end_ms, None))"
| "minute_loop (Suc fuel) env pl symbol end_ms deadline cursor acc =
     (if cursor < end_ms
      then sbind (au_now env) (\<lambda>now.
        if deadline \<le> now then sreturn (acc, cursor, Some Gap_Time_Budget_Exceeded)
        else sbind (fetch_klines_with_bounded_retries env pl \<lparr>kq_symbol = symbol, kq_interval = ''1m'', kq_start_time_ms = cursor,
                      kq_end_time_ms = end_ms, kq_limit = KLINE_PAGE_LIMIT\<rparr>) (\<lambda>answer.
          case answer of
            None \<Rightarrow> sreturn (acc, cursor, Some Max_Retries_Exhausted)
          | Some page \<Rightarrow>
              if page = [] then sreturn (acc, end_ms, None)
              else if int (length page) < KLINE_PAGE_LIMIT then sreturn (acc @ page, end_ms, None)
              else minute_loop fuel env pl symbol end_ms deadline (open_time_ms (last page) + ONE_MINUTE_MS) (acc @ page)))
      else sreturn (acc, end_ms, None))"

definition fetch_1m_range ::
  "'w audit_env \<Rightarrow> place \<Rightarrow> string \<Rightarrow> int \<Rightarrow> int \<Rightarrow> flt \<Rightarrow> ('w, candle list \<times> int \<times> stop_reason option) step" where
  "fetch_1m_range env pl symbol start_ms end_ms deadline =
     minute_loop (range_fuel ONE_MINUTE_MS start_ms end_ms) env pl symbol end_ms deadline start_ms []"

definition fetch_native_1h :: "'w audit_env \<Rightarrow> place \<Rightarrow> string \<Rightarrow> int \<Rightarrow> ('w, candle option) step" where
  "fetch_native_1h env pl symbol hour_open_time_ms =
     sbind (fetch_klines_with_bounded_retries env pl \<lparr>kq_symbol = symbol, kq_interval = ''1h'', kq_start_time_ms = hour_open_time_ms,
              kq_end_time_ms = hour_open_time_ms + ONE_HOUR_MS, kq_limit = 1\<rparr>) (\<lambda>answer.
     sreturn (case answer of None \<Rightarrow> None | Some page \<Rightarrow> find (\<lambda>c. open_time_ms c = hour_open_time_ms) page))"

section \<open>Classification of one hour\<close>

definition candle_payload :: "candle \<Rightarrow> js" where
  "candle_payload c = J_Obj
     [(''symbol'', J_Str (c_symbol c)), (''interval'', J_Str (c_interval c)), (''open_time_ms'', J_Int (open_time_ms c)),
      (''close_time_ms'', J_Int (close_time_ms c)), (''open'', J_Dec (c_open c)), (''high'', J_Dec (c_high c)),
      (''low'', J_Dec (c_low c)), (''close'', J_Dec (c_close c)), (''volume'', J_Dec (c_volume c))]"

definition content_hash :: "(js \<Rightarrow> string) \<Rightarrow> candle \<Rightarrow> string" where
  "content_hash sha256 c = sha256 (candle_payload c)"

definition unrecovered :: "int \<Rightarrow> recovery_outcome \<Rightarrow> int \<Rightarrow> hour_detail \<Rightarrow> missing_hour" where
  "unrecovered hour outcome found detail =
     \<lparr>mh_open_time_ms = hour, mh_outcome = outcome, mh_found_1m_candle_count = found, mh_detail = detail,
      mh_reconstructed_candle = None, mh_provenance = None\<rparr>"

definition same_ohlcv :: "candle \<Rightarrow> candle \<Rightarrow> bool" where
  "same_ohlcv a b \<longleftrightarrow> c_open a = c_open b \<and> c_high a = c_high b \<and> c_low a = c_low b \<and> c_close a = c_close b \<and> c_volume a = c_volume b"

definition recovered_hour :: "'w audit_env \<Rightarrow> int \<Rightarrow> candle list \<Rightarrow> candle \<Rightarrow> string \<Rightarrow> missing_hour" where
  "recovered_hour env hour minutes reconstructed validation =
     \<lparr>mh_open_time_ms = hour, mh_outcome = FULLY_RECOVERABLE, mh_found_1m_candle_count = int (length minutes),
      mh_detail = Reconstructed, mh_reconstructed_candle = Some reconstructed,
      mh_provenance = Some \<lparr>pv_source = RECOVERY_SOURCE, pv_retrieved_at_ms = au_now_ms env,
        pv_component_count = int (length minutes), pv_first_component_open_time_ms = open_time_ms (hd minutes),
        pv_last_component_open_time_ms = open_time_ms (last minutes), pv_validation_result = validation,
        pv_content_hash = content_hash (au_sha256 env) reconstructed\<rparr>\<rparr>"

text \<open>What the cross-check with the native candle found: skipped, or the answer.\<close>

definition judged_hour :: "'w audit_env \<Rightarrow> int \<Rightarrow> candle list \<Rightarrow> candle \<Rightarrow> candle option option \<Rightarrow> missing_hour" where
  "judged_hour env hour minutes reconstructed native =
     (let count = int (length minutes) in
      case native of
        Some (Some c) \<Rightarrow>
          if \<not> same_ohlcv c reconstructed then unrecovered hour UNRESOLVED count Native_Mismatch
          else recovered_hour env hour minutes reconstructed ''VALID_MATCHES_NATIVE_1H''
      | Some None \<Rightarrow> recovered_hour env hour minutes reconstructed ''VALID_NATIVE_1H_UNAVAILABLE_AS_EXPECTED_FOR_A_CONFIRMED_GAP''
      | None \<Rightarrow> recovered_hour env hour minutes reconstructed ''VALID_NATIVE_1H_CHECK_SKIPPED_TIME_BUDGET'')"

definition classify_hour :: "'w audit_env \<Rightarrow> place \<Rightarrow> string \<Rightarrow> flt \<Rightarrow> int \<Rightarrow> candle list \<Rightarrow> ('w, missing_hour) step" where
  "classify_hour env pl symbol deadline hour minutes =
     (let count = int (length minutes) in
      if minutes = [] then sreturn (unrecovered hour GENUINE_NO_DATA 0 No_Minutes)
      else if \<not> is_continuous_60_minutes minutes hour
      then sreturn (if length minutes < MINUTES_PER_HOUR then unrecovered hour PARTIALLY_RECOVERABLE count (Only_Minutes count)
                    else unrecovered hour UNRESOLVED count (Not_A_Clean_Run count))
      else
        let reconstructed = aggregate_1m_to_1h symbol hour minutes in
        sbind (au_now env) (\<lambda>now.
        sbind (if now < deadline then sbind (fetch_native_1h env pl symbol hour) (\<lambda>c. sreturn (Some c)) else sreturn None) (\<lambda>native.
        sreturn (judged_hour env hour minutes reconstructed native))))"

section \<open>One gap\<close>

fun classify_hours ::
  "'w audit_env \<Rightarrow> place \<Rightarrow> string \<Rightarrow> flt \<Rightarrow> candle list \<Rightarrow> int \<Rightarrow> stop_reason option \<Rightarrow> int list \<Rightarrow> ('w, missing_hour list) step" where
  "classify_hours env pl symbol deadline minutes reached stopped [] = sreturn []"
| "classify_hours env pl symbol deadline minutes reached stopped (hour # hours) =
     sbind (case stopped of
              Some reason \<Rightarrow>
                if reached \<le> hour then sreturn (unrecovered hour UNRESOLVED 0 (Not_Checked reason))
                else classify_hour env pl symbol deadline hour (filter (\<lambda>c. hour \<le> open_time_ms c \<and> open_time_ms c < hour + ONE_HOUR_MS) minutes)
            | None \<Rightarrow>
                classify_hour env pl symbol deadline hour (filter (\<lambda>c. hour \<le> open_time_ms c \<and> open_time_ms c < hour + ONE_HOUR_MS) minutes)) (\<lambda>x.
     sbind (classify_hours env pl symbol deadline minutes reached stopped hours) (\<lambda>xs.
     sreturn (x # xs)))"

definition count_outcome :: "recovery_outcome \<Rightarrow> missing_hour list \<Rightarrow> int" where
  "count_outcome outcome hours = int (length (filter (\<lambda>h. mh_outcome h = outcome) hours))"

definition analyze_one_gap :: "'w audit_env \<Rightarrow> place \<Rightarrow> string \<Rightarrow> gap_record \<Rightarrow> ('w, gap_result) step" where
  "analyze_one_gap env pl symbol gap =
     sbind (au_now env) (\<lambda>start.
     let deadline = start + au_max_seconds_per_gap env;
         hours = missing_hours_for_gap gap;
         fetchable = filter (\<lambda>h. h < RESEARCH_CUTOFF_MS) hours;
         cutoff_hours = filter (\<lambda>h. RESEARCH_CUTOFF_MS \<le> h) hours
     in
     sbind (au_emit env (Gap_Started (fst pl) (snd pl) gap)) (\<lambda>_.
     sbind (if fetchable = [] then sreturn ([], 0, None)
            else fetch_1m_range env pl symbol (hd fetchable) (last fetchable + ONE_HOUR_MS) deadline) (\<lambda>(fetched, reached, stopped).
     sbind (classify_hours env pl symbol deadline (dedup_by_open_time fetched) reached stopped fetchable) (\<lambda>checked.
     let outcomes = checked @ map (\<lambda>h. unrecovered h UNRESOLVED 0 After_Cutoff) cutoff_hours in
     sbind (au_now env) (\<lambda>_.
     sbind (au_emit env (Gap_Done (fst pl) (snd pl) (count_outcome FULLY_RECOVERABLE outcomes)
              (count_outcome PARTIALLY_RECOVERABLE outcomes) (count_outcome GENUINE_NO_DATA outcomes) (count_outcome UNRESOLVED outcomes))) (\<lambda>_.
     sreturn \<lparr>gf_gap = gap, gf_missing_hours = outcomes\<rparr>))))))"

end
