(* ===== verification/Gap_Audit.thy ===== *)
theory Gap_Audit
  imports Gap_Recovery
begin

text \<open>
  The audit of all gaps and the recovery (\<open>data/gap_recovery.py\<close>, from the checkpoint on):
  the JSON form of a result, the checkpoint by the identity of a gap, the loop with the
  interrupt it catches, the report, and \<open>apply_gap_recovery\<close>. A checkpoint value of
  another JSON type than the program writes is read as a \<open>TypeError\<close>.
\<close>

section \<open>JSON\<close>

abbreviation type_error :: exn where
  "type_error \<equiv> ProjectError ''TypeError''"

definition js_get :: "js \<Rightarrow> string \<Rightarrow> js result" where
  "js_get d key = (case d of J_Obj kvs \<Rightarrow> of_option KeyError (map_of kvs key) | _ \<Rightarrow> Inl type_error)"

definition js_int :: "js \<Rightarrow> string \<Rightarrow> int result" where
  "js_int d key = bindr (js_get d key) (\<lambda>v. case v of J_Int n \<Rightarrow> Inr n | _ \<Rightarrow> Inl type_error)"

definition js_str :: "js \<Rightarrow> string \<Rightarrow> string result" where
  "js_str d key = bindr (js_get d key) (\<lambda>v. case v of J_Str x \<Rightarrow> Inr x | _ \<Rightarrow> Inl type_error)"

text \<open>\<open>Decimal(text)\<close>: a text that is not a number raises \<open>InvalidOperation\<close>.\<close>

definition js_dec :: "js \<Rightarrow> string \<Rightarrow> dec result" where
  "js_dec d key = bindr (js_get d key) (\<lambda>v. case v of J_Dec x \<Rightarrow> Inr x | J_Str x \<Rightarrow> Inl InvalidOperation | _ \<Rightarrow> Inl type_error)"

definition candle_from_json :: "js \<Rightarrow> candle result" where
  "candle_from_json d =
     bindr (js_str d ''symbol'') (\<lambda>symbol. bindr (js_str d ''interval'') (\<lambda>interval.
     bindr (js_int d ''open_time_ms'') (\<lambda>opened. bindr (js_int d ''close_time_ms'') (\<lambda>closed.
     bindr (js_dec d ''open'') (\<lambda>op. bindr (js_dec d ''high'') (\<lambda>hi. bindr (js_dec d ''low'') (\<lambda>lo.
     bindr (js_dec d ''close'') (\<lambda>cl. bindr (js_dec d ''volume'') (\<lambda>vol.
     Inr \<lparr>c_symbol = symbol, c_interval = interval, open_time_ms = opened, close_time_ms = closed,
          c_open = op, c_high = hi, c_low = lo, c_close = cl, c_volume = vol\<rparr>)))))))))"

definition provenance_to_json :: "provenance \<Rightarrow> js" where
  "provenance_to_json p = J_Obj
     [(''source'', J_Str (pv_source p)), (''retrieved_at_ms'', J_Int (pv_retrieved_at_ms p)),
      (''component_count'', J_Int (pv_component_count p)),
      (''first_component_open_time_ms'', J_Int (pv_first_component_open_time_ms p)),
      (''last_component_open_time_ms'', J_Int (pv_last_component_open_time_ms p)),
      (''validation_result'', J_Str (pv_validation_result p)), (''content_hash'', J_Str (pv_content_hash p))]"

definition provenance_from_json :: "js \<Rightarrow> provenance result" where
  "provenance_from_json d =
     bindr (js_str d ''source'') (\<lambda>source. bindr (js_int d ''retrieved_at_ms'') (\<lambda>retrieved.
     bindr (js_int d ''component_count'') (\<lambda>count. bindr (js_int d ''first_component_open_time_ms'') (\<lambda>first.
     bindr (js_int d ''last_component_open_time_ms'') (\<lambda>lst. bindr (js_str d ''validation_result'') (\<lambda>val.
     bindr (js_str d ''content_hash'') (\<lambda>hash.
     Inr \<lparr>pv_source = source, pv_retrieved_at_ms = retrieved, pv_component_count = count,
          pv_first_component_open_time_ms = first, pv_last_component_open_time_ms = lst,
          pv_validation_result = val, pv_content_hash = hash\<rparr>)))))))"

definition outcome_value :: "recovery_outcome \<Rightarrow> string" where
  "outcome_value x =
     (case x of FULLY_RECOVERABLE \<Rightarrow> ''fully_recoverable'' | PARTIALLY_RECOVERABLE \<Rightarrow> ''partially_recoverable''
      | GENUINE_NO_DATA \<Rightarrow> ''genuine_no_data_exchange_outage'' | UNRESOLVED \<Rightarrow> ''unresolved'')"

definition outcome_of_value :: "string \<Rightarrow> recovery_outcome result" where
  "outcome_of_value v = of_option (ValueError ''outcome'')
     (find (\<lambda>x. outcome_value x = v) [FULLY_RECOVERABLE, PARTIALLY_RECOVERABLE, GENUINE_NO_DATA, UNRESOLVED])"

definition js_detail :: "js \<Rightarrow> string \<Rightarrow> hour_detail result" where
  "js_detail d key = bindr (js_get d key) (\<lambda>v. case v of J_Detail x \<Rightarrow> Inr x | _ \<Rightarrow> Inl type_error)"

definition or_null :: "('a \<Rightarrow> js) \<Rightarrow> 'a option \<Rightarrow> js" where
  "or_null f x = (case x of None \<Rightarrow> J_Null | Some y \<Rightarrow> f y)"

definition from_nullable :: "(js \<Rightarrow> 'a result) \<Rightarrow> js \<Rightarrow> 'a option result" where
  "from_nullable f d = (if d = J_Null then Inr None else bindr (f d) (\<lambda>x. Inr (Some x)))"

definition missing_hour_to_json :: "missing_hour \<Rightarrow> js" where
  "missing_hour_to_json m = J_Obj
     [(''open_time_ms'', J_Int (mh_open_time_ms m)), (''outcome'', J_Str (outcome_value (mh_outcome m))),
      (''found_1m_candle_count'', J_Int (mh_found_1m_candle_count m)), (''detail'', J_Detail (mh_detail m)),
      (''reconstructed_candle'', or_null candle_payload (mh_reconstructed_candle m)),
      (''provenance'', or_null provenance_to_json (mh_provenance m))]"

definition missing_hour_from_json :: "js \<Rightarrow> missing_hour result" where
  "missing_hour_from_json d =
     bindr (js_int d ''open_time_ms'') (\<lambda>opened. bindr (bindr (js_str d ''outcome'') outcome_of_value) (\<lambda>outcome.
     bindr (js_int d ''found_1m_candle_count'') (\<lambda>found. bindr (js_detail d ''detail'') (\<lambda>detail.
     bindr (bindr (js_get d ''reconstructed_candle'') (from_nullable candle_from_json)) (\<lambda>c.
     bindr (bindr (js_get d ''provenance'') (from_nullable provenance_from_json)) (\<lambda>p.
     Inr \<lparr>mh_open_time_ms = opened, mh_outcome = outcome, mh_found_1m_candle_count = found, mh_detail = detail,
          mh_reconstructed_candle = c, mh_provenance = p\<rparr>))))))"

definition gap_to_json :: "gap_record \<Rightarrow> js" where
  "gap_to_json g = J_Obj
     [(''expected_open_time_ms'', J_Int (expected_open_time_ms g)), (''previous_open_time_ms'', J_Int (previous_open_time_ms g)),
      (''next_open_time_ms'', J_Int (next_open_time_ms g)), (''missing_intervals'', J_Int (missing_intervals g))]"

definition gap_result_to_json :: "gap_result \<Rightarrow> js" where
  "gap_result_to_json r = J_Obj [(''gap'', gap_to_json (gf_gap r)), (''missing_hours'', J_Arr (map missing_hour_to_json (gf_missing_hours r)))]"

definition gap_from_json :: "js \<Rightarrow> gap_record result" where
  "gap_from_json g =
     bindr (js_int g ''expected_open_time_ms'') (\<lambda>expected. bindr (js_int g ''previous_open_time_ms'') (\<lambda>previous.
     bindr (js_int g ''next_open_time_ms'') (\<lambda>nxt. bindr (js_int g ''missing_intervals'') (\<lambda>missing.
     Inr \<lparr>expected_open_time_ms = expected, previous_open_time_ms = previous, next_open_time_ms = nxt,
          missing_intervals = missing\<rparr>))))"

definition gap_result_from_json :: "js \<Rightarrow> gap_result result" where
  "gap_result_from_json d =
     bindr (bindr (js_get d ''gap'') gap_from_json) (\<lambda>gap.
     bindr (js_get d ''missing_hours'') (\<lambda>v.
     bindr (case v of J_Arr xs \<Rightarrow> map_res missing_hour_from_json xs | _ \<Rightarrow> Inl type_error) (\<lambda>hours.
     Inr \<lparr>gf_gap = gap, gf_missing_hours = hours\<rparr>)))"

section \<open>The checkpoint\<close>

text \<open>
  The entries, by the identity of the gap (all four fields, which the key text lists). A
  file is absent, not JSON, or a JSON value.
\<close>

type_synonym checkpoint = "(gap_record \<times> js) list"

datatype checkpoint_file = No_File | Not_Json | Entries "(gap_record \<times> js) list" | Other_Json

definition checkpoint_load :: "checkpoint_file \<Rightarrow> checkpoint" where
  "checkpoint_load f = (case f of Entries es \<Rightarrow> es | _ \<Rightarrow> [])"

definition checkpoint_get :: "checkpoint \<Rightarrow> gap_record \<Rightarrow> gap_result option result" where
  "checkpoint_get ck gap =
     (case map_of ck gap of
        None \<Rightarrow> Inr None
      | Some raw \<Rightarrow>
          if raw = J_Null then Inr None
          else (case gap_result_from_json raw of
                  Inr r \<Rightarrow> Inr (Some r)
                | Inl e \<Rightarrow> (case e of KeyError \<Rightarrow> Inr None | ValueError _ \<Rightarrow> Inr None
                           | _ \<Rightarrow> if e = type_error then Inr None else Inl e)))"

definition checkpoint_record :: "gap_result \<Rightarrow> checkpoint \<Rightarrow> checkpoint" where
  "checkpoint_record r ck = AList.update (gf_gap r) (gap_result_to_json r) ck"

section \<open>The audit\<close>

text \<open>The state of the loop: the outside, the results so far and the checkpoint, when one is given.\<close>

record audit_progress =
  ap_results :: "gap_result list"
  ap_checkpoint :: "checkpoint option"

definition outside :: "('w, 'a) step \<Rightarrow> ('w \<times> audit_progress, 'a) step" where
  "outside m = szoom fst (\<lambda>w s. (w, snd s)) m"

definition keep_result :: "gap_result \<Rightarrow> bool \<Rightarrow> 'w \<times> audit_progress \<Rightarrow> 'w \<times> audit_progress" where
  "keep_result r fresh s =
     (fst s, (snd s)\<lparr>ap_results := ap_results (snd s) @ [r],
        ap_checkpoint := (if fresh then map_option (checkpoint_record r) (ap_checkpoint (snd s)) else ap_checkpoint (snd s))\<rparr>)"

definition audit_gap :: "'w audit_env \<Rightarrow> string \<Rightarrow> int \<Rightarrow> nat \<times> gap_record \<Rightarrow> ('w \<times> audit_progress, unit) step" where
  "audit_gap env symbol n_gaps = (\<lambda>(idx, gap).
     sbind (sget (\<lambda>s. ap_checkpoint (snd s))) (\<lambda>ck.
     sbind (slift (case ck of None \<Rightarrow> Inr None | Some entries \<Rightarrow> checkpoint_get entries gap)) (\<lambda>cached.
     case cached of
       Some r \<Rightarrow> sbind (outside (au_emit env (Gap_Reused (int idx) n_gaps))) (\<lambda>_. smodify (keep_result r False))
     | None \<Rightarrow> sbind (outside (analyze_one_gap env (int idx, n_gaps) symbol gap)) (\<lambda>r. smodify (keep_result r True)))))"

fun audit_gaps :: "'w audit_env \<Rightarrow> string \<Rightarrow> int \<Rightarrow> (nat \<times> gap_record) list \<Rightarrow> ('w \<times> audit_progress, unit) step" where
  "audit_gaps env symbol n_gaps [] = sreturn ()"
| "audit_gaps env symbol n_gaps (x # xs) = sbind (audit_gap env symbol n_gaps x) (\<lambda>_. audit_gaps env symbol n_gaps xs)"

text \<open>The candles of the fully recoverable hours; each must have one.\<close>

definition all_hours :: "gap_result list \<Rightarrow> missing_hour list" where
  "all_hours results = concat (map gf_missing_hours results)"

definition recovered_candles :: "gap_result list \<Rightarrow> candle list result" where
  "recovered_candles results =
     map_res (\<lambda>h. of_option AssertionError (mh_reconstructed_candle h)) (filter (\<lambda>h. mh_outcome h = FULLY_RECOVERABLE) (all_hours results))"

definition forensic_report ::
  "'w audit_env \<Rightarrow> string \<Rightarrow> string \<Rightarrow> candle list \<Rightarrow> gap_record list \<Rightarrow> bool \<Rightarrow> gap_result list \<Rightarrow> gap_report result" where
  "forensic_report env symbol interval pre_cutoff_existing confirmed interrupted results =
     (let hours = all_hours results in
      bindr (recovered_candles results) (\<lambda>recovered.
      let merged = dedup_by_open_time (pre_cutoff_existing @ recovered) in
      bindr (segment_lengths merged interval) (\<lambda>lengths.
      bindr (count_round3_complete_blocks merged interval multitimeframe_min_required_candles DEFAULT_BLOCK_DURATION_DAYS) (\<lambda>blocks.
      Inr \<lparr>gq_symbol = symbol, gq_interval = interval, gq_generated_at_ms = au_now_ms env, gq_total_gaps = int (length confirmed),
           gq_total_missing_hours = sum_list (map missing_intervals confirmed),
           gq_fully_recoverable_hours = count_outcome FULLY_RECOVERABLE hours,
           gq_partially_recoverable_hours = count_outcome PARTIALLY_RECOVERABLE hours,
           gq_genuine_no_data_hours = count_outcome GENUINE_NO_DATA hours,
           gq_unresolved_hours = count_outcome UNRESOLVED hours,
           gq_gap_results = results, gq_resulting_segments = lengths,
           gq_min_required_candles = multitimeframe_min_required_candles, gq_complete_blocks = blocks,
           gq_interrupted = interrupted, gq_gaps_processed = int (length results)\<rparr>))))"

definition run_gap_forensics ::
  "'w audit_env \<Rightarrow> string \<Rightarrow> string \<Rightarrow> candle list \<Rightarrow> gap_record list \<Rightarrow> ('w \<times> audit_progress, gap_report) step" where
  "run_gap_forensics env symbol interval existing confirmed =
     (if interval \<noteq> ''1h'' then sraise (ValueError ''interval'')
      else
        let n_gaps = int (length confirmed) in
        sbind (smodify (\<lambda>s. (fst s, (snd s)\<lparr>ap_results := []\<rparr>))) (\<lambda>_.
        sbind (scatch (sbind (audit_gaps env symbol n_gaps (List.enumerate 1 confirmed)) (\<lambda>_. sreturn False))
          (\<lambda>e. if e = KeyboardInterrupt
               then sbind (sget (\<lambda>s. int (length (ap_results (snd s))))) (\<lambda>processed.
                    sbind (outside (au_emit env (Audit_Interrupted processed n_gaps))) (\<lambda>_. sreturn True))
               else sraise e)) (\<lambda>interrupted.
        sbind (sget (\<lambda>s. ap_results (snd s))) (\<lambda>results.
        slift (forensic_report env symbol interval (fst (split_at_cutoff existing)) confirmed interrupted results)))))"

section \<open>Recovery\<close>

record recovery_result =
  ry_stored_candle_count :: int
  ry_remaining_confirmed_gaps :: "gap_record list"

definition stored_hours :: "gap_report \<Rightarrow> candle list" where
  "stored_hours report =
     List.map_filter (\<lambda>h. if mh_outcome h = FULLY_RECOVERABLE then mh_reconstructed_candle h else None) (all_hours (gq_gap_results report))"

definition apply_gap_recovery :: "(nat \<Rightarrow> bool) \<Rightarrow> string \<Rightarrow> string \<Rightarrow> gap_report \<Rightarrow> int \<Rightarrow> (candle_db, recovery_result) step" where
  "apply_gap_recovery broken symbol interval report detected_at_ms =
     (if gq_interrupted report then sraise (ProjectError ''IncompleteAuditError'')
      else if gq_interval report \<noteq> interval \<or> gq_symbol report \<noteq> symbol then sraise (ValueError ''report'')
      else
        let recovered = stored_hours report;
            old = map gf_gap (gq_gap_results report)
        in if recovered = [] then sreturn \<lparr>ry_stored_candle_count = 0, ry_remaining_confirmed_gaps = old\<rparr>
           else
             sbind (sget (get_candles symbol interval None None)) (\<lambda>existing.
             let merged = dedup_by_open_time (existing @ recovered) in
             sbind (slift (partition_into_segments merged interval)) (\<lambda>segmentation.
             sbind (store_candles_and_gaps broken recovered (gaps segmentation) symbol interval detected_at_ms
               (Some (map expected_open_time_ms old))) (\<lambda>_.
             sreturn \<lparr>ry_stored_candle_count = int (length recovered), ry_remaining_confirmed_gaps = gaps segmentation\<rparr>))))"

end
