(* ===== verification/Fetch_Facts.thy ===== *)
theory Fetch_Facts
  imports Gap_Audit
begin

text \<open>
  Facts about the download and the audit: what the values of their steps satisfy whatever
  the exchange does, and when the paging loops end.
\<close>

section \<open>What a step yields\<close>

definition yields :: "('s, 'a) step \<Rightarrow> ('a \<Rightarrow> bool) \<Rightarrow> bool" where
  "yields m Q \<longleftrightarrow> (\<forall>s x t. m s = (Inr x, t) \<longrightarrow> Q x)"

lemma yieldsD: "yields m Q \<Longrightarrow> m s = (Inr x, t) \<Longrightarrow> Q x"
  by (auto simp: yields_def)

named_theorems yieldI "introduction rules for yields"

lemma yields_return [yieldI]: "Q x \<Longrightarrow> yields (sreturn x) Q"
  by (simp add: yields_def)

lemma yields_raise [yieldI]: "yields (sraise e) Q"
  by (simp add: yields_def)

lemma yields_lift: "(\<And>x. r = Inr x \<Longrightarrow> Q x) \<Longrightarrow> yields (slift r) Q"
  by (auto simp: yields_def slift_def split: sum.splits)

lemma yields_bind: "yields m P \<Longrightarrow> (\<And>x. P x \<Longrightarrow> yields (f x) Q) \<Longrightarrow> yields (sbind m f) Q"
  by (fastforce simp: yields_def sbind_eq_Inr)

lemma yields_any: "yields m (\<lambda>_. True)"
  by (simp add: yields_def)

lemma yields_then: "(\<And>x. yields (f x) Q) \<Longrightarrow> yields (sbind m f) Q"
  by (rule yields_bind [OF yields_any])

lemma yields_if [yieldI]: "(b \<Longrightarrow> yields m Q) \<Longrightarrow> (\<not> b \<Longrightarrow> yields n Q) \<Longrightarrow> yields (if b then m else n) Q"
  by simp

section \<open>Steps that never run out of fuel\<close>

definition ends :: "('s, 'a) step \<Rightarrow> bool" where
  "ends m \<longleftrightarrow> (\<forall>s. fst (m s) \<noteq> Inl OutOfFuel)"

named_theorems endI "introduction rules for ends"

lemma ends_return [endI]: "ends (sreturn x)"
  by (simp add: ends_def)

lemma ends_raise [endI]: "e \<noteq> OutOfFuel \<Longrightarrow> ends (sraise e)"
  by (simp add: ends_def)

lemma ends_lift: "r \<noteq> Inl OutOfFuel \<Longrightarrow> ends (slift r)"
  by (auto simp: ends_def slift_def split: sum.splits)

lemma ends_bind [endI]: "ends m \<Longrightarrow> (\<And>x. ends (f x)) \<Longrightarrow> ends (sbind m f)"
  by (auto simp: ends_def sbind_def split: sum.splits prod.splits) (metis fst_conv)

lemma ends_if [endI]: "(b \<Longrightarrow> ends m) \<Longrightarrow> (\<not> b \<Longrightarrow> ends n) \<Longrightarrow> ends (if b then m else n)"
  by simp

lemma ends_sum [endI]: "(\<And>x. ends (f x)) \<Longrightarrow> (\<And>y. ends (g y)) \<Longrightarrow> ends (case v of Inl x \<Rightarrow> f x | Inr y \<Rightarrow> g y)"
  by (cases v) simp_all

section \<open>Segmentation raises only its own errors\<close>

lemma partition_loop_ends: "partition_loop w seen prev dn cur gs cs \<noteq> Inl OutOfFuel"
  by (induction w seen prev dn cur gs cs rule: partition_loop.induct) (auto split: option.splits)

lemma partition_ends: "partition_into_segments cs i \<noteq> Inl OutOfFuel"
  using partition_loop_ends
  by (auto simp: partition_into_segments_def interval_to_ms_def of_option_def bindr_eq_Inl split: option.splits)

text \<open>On strictly increasing candles segmentation never raises.\<close>

lemma partition_loop_increasing:
  assumes "sorted_wrt (<) (map open_time_ms cs)"
    and "\<forall>c \<in> set cs. \<forall>x \<in> set seen. x < open_time_ms c"
    and "\<forall>p. prev = Some p \<longrightarrow> (\<forall>c \<in> set cs. open_time_ms p < open_time_ms c)"
  shows "\<exists>r. partition_loop w seen prev dn cur gs cs = Inr r"
  using assms
proof (induction cs arbitrary: seen prev dn cur gs)
  case (Cons c cs)
  have new: "open_time_ms c \<notin> set seen" using Cons.prems(2) by force
  have later: "\<forall>d \<in> set cs. open_time_ms c < open_time_ms d" using Cons.prems(1) by simp
  have seen: "\<forall>d \<in> set cs. \<forall>x \<in> set (open_time_ms c # seen). x < open_time_ms d"
    using Cons.prems(2) later by simp
  have sorted: "sorted_wrt (<) (map open_time_ms cs)" using Cons.prems(1) by simp
  note IH = Cons.IH [OF sorted seen, of "Some c"]
  show ?case using new IH later Cons.prems(3) by (cases prev) auto
qed simp

lemma partition_increasing:
  assumes "sorted_wrt (<) (map open_time_ms cs)" "cs \<noteq> []" "interval_to_ms i = Inr w"
  shows "\<exists>r. partition_into_segments cs i = Inr r"
  using partition_loop_increasing [OF assms(1), of "[]" None w "[]" "[]" "[]"] assms(2,3)
  by (simp add: partition_into_segments_def)

text \<open>The gaps of a segmentation come in increasing order.\<close>

lemma partition_loop_gaps:
  assumes "partition_loop w seen prev dn cur gs cs = Inr r" "sorted_wrt (<) (map expected_open_time_ms gs)"
    and "\<forall>g \<in> set gs. \<forall>p. prev = Some p \<longrightarrow> expected_open_time_ms g < open_time_ms p + w" "prev = None \<longrightarrow> gs = []"
  shows "sorted_wrt (<) (map expected_open_time_ms (gaps r))"
  using assms
proof (induction w seen prev dn cur gs cs rule: partition_loop.induct)
  case (2 w seen prev dn cur gs c cs)
  have dup: "open_time_ms c \<notin> set seen" using "2.prems"(1) by (auto split: if_splits)
  show ?case
  proof (cases prev)
    case None
    show ?thesis by (rule "2.IH"(1) [OF dup None]) (use "2.prems" None dup in auto)
  next
    case (Some p)
    have lt: "\<not> open_time_ms c \<le> open_time_ms p" using "2.prems"(1) Some dup by (auto split: if_splits)
    have old: "\<forall>g \<in> set gs. expected_open_time_ms g < open_time_ms p + w" using "2.prems"(3) Some by blast
    show ?thesis
    proof (cases "open_time_ms c - open_time_ms p = w")
      case True
      show ?thesis
        by (rule "2.IH"(3) [OF dup Some lt]) (use "2.prems"(1,2) old Some dup lt True in \<open>auto intro: less_trans\<close>)
    next
      case False
      show ?thesis
        by (rule "2.IH"(2) [OF dup Some lt False])
          (use "2.prems"(1,2) old Some dup lt False in \<open>auto simp: mk_gap_def sorted_wrt_append intro: less_trans\<close>)
    qed
  qed
qed auto

lemma partition_gaps_increasing: "partition_into_segments cs i = Inr r \<Longrightarrow> sorted_wrt (<) (map expected_open_time_ms (gaps r))"
  using partition_loop_gaps [of _ "[]" None "[]" "[]" "[]" cs r] by (auto simp: partition_into_segments_def split: if_splits)

section \<open>Pages\<close>

text \<open>Whatever the exchange answers, only candles it answered are kept, and only below the end.\<close>

definition answers :: "'w candle_api \<Rightarrow> (candle \<Rightarrow> bool) \<Rightarrow> bool" where
  "answers api P \<longleftrightarrow> (\<forall>q. yields (ca_klines api q) (\<lambda>a. \<forall>page. a = Inr page \<longrightarrow> (\<forall>c \<in> set page. P c)))"

lemma answers_yields: "answers api P \<Longrightarrow> yields (ca_klines api q) (\<lambda>a. \<forall>page. a = Inr page \<longrightarrow> (\<forall>c \<in> set page. P c))"
  by (simp add: answers_def)

lemma fetch_page_yields:
  assumes "answers api P"
  shows "yields (fetch_page_from api pl start attempt remaining) (\<lambda>page. \<forall>c \<in> set page. P c \<and> open_time_ms c < fp_end_time_ms pl)"
proof (induction remaining arbitrary: attempt)
  case (Suc n)
  show ?case
    unfolding fetch_page_from.simps
  proof (rule yields_bind [OF answers_yields [OF assms]])
    fix a :: "request_error + candle list"
    assume a: "\<forall>page. a = Inr page \<longrightarrow> (\<forall>c \<in> set page. P c)"
    show "yields (case a of Inr page \<Rightarrow> sreturn (below_exclusive_end page (Some (fp_end_time_ms pl)))
      | Inl err \<Rightarrow> sbind (slift (page_delay err attempt)) (\<lambda>delay. sbind (ca_sleep api delay) (\<lambda>_.
          fetch_page_from api pl start (Suc attempt) n))) (\<lambda>page. \<forall>c \<in> set page. P c \<and> open_time_ms c < fp_end_time_ms pl)"
      using a Suc by (cases a) (auto intro!: yields_then yieldI simp: below_exclusive_end_def)
  qed
qed (simp add: yieldI)

lemma fetch_loop_yields:
  assumes "answers api P" "\<forall>c \<in> set acc. P c"
  shows "yields (fetch_loop fuel api pl step cursor acc) (\<lambda>cs. \<forall>c \<in> set cs. P c)"
  using assms(2)
proof (induction fuel arbitrary: cursor acc)
  case (Suc n)
  show ?case
  proof (cases "cursor < fp_end_time_ms pl")
    case True
    have "yields (fetch_loop n api pl step c (acc @ page)) (\<lambda>cs. \<forall>c \<in> set cs. P c)"
      if "\<forall>c \<in> set page. P c \<and> open_time_ms c < fp_end_time_ms pl" for page c
      by (rule Suc.IH) (use that Suc.prems in auto)
    then show ?thesis
      using True Suc.prems fetch_page_yields [OF assms(1), of pl cursor 0 "fp_max_retries pl"]
      by (auto simp: fetch_page_with_retries_def intro!: yields_bind yieldI)
  qed (use Suc.prems in \<open>simp add: yields_def\<close>)
qed (use assms(2) in \<open>simp add: yieldI\<close>)

lemma narrow_recovery_yields:
  assumes "answers api P" "\<forall>c \<in> set lst. P c \<and> open_time_ms c < e"
  shows "yields (narrow_recovery_from api sy i g (Some e) lst attempt remaining) (\<lambda>cs. \<forall>c \<in> set cs. P c \<and> open_time_ms c < e)"
  using assms(2)
proof (induction remaining arbitrary: attempt lst)
  case (Suc n)
  show ?case
    unfolding narrow_recovery_from.simps Let_def
  proof (rule yields_bind [OF answers_yields [OF assms(1)]])
    fix a :: "request_error + candle list"
    assume a: "\<forall>page. a = Inr page \<longrightarrow> (\<forall>c \<in> set page. P c)"
    let ?f = "\<lambda>page. below_exclusive_end (filter (\<lambda>c. expected_open_time_ms g \<le> open_time_ms c \<and> open_time_ms c < next_open_time_ms g) page) (Some e)"
    have f: "\<forall>c \<in> set (?f page). P c \<and> open_time_ms c < e" if "a = Inr page" for page
      using a that by (auto simp: below_exclusive_end_def)
    show "yields (case a of
        Inl err \<Rightarrow> sbind (ca_sleep api (backoff attempt)) (\<lambda>_. narrow_recovery_from api sy i g (Some e) lst (Suc attempt) n)
      | Inr page \<Rightarrow> if ?f page \<noteq> [] then sreturn (?f page)
          else sbind (ca_sleep api (backoff attempt)) (\<lambda>_. narrow_recovery_from api sy i g (Some e) (?f page) (Suc attempt) n))
      (\<lambda>cs. \<forall>c \<in> set cs. P c \<and> open_time_ms c < e)"
    proof (cases a)
      case (Inl err)
      then show ?thesis using Suc by (auto intro!: yields_then)
    next
      case (Inr page)
      then show ?thesis using f [OF Inr] Suc.IH [OF f [OF Inr]] by (auto intro!: yields_then yieldI)
    qed
  qed
qed (use assms(2) in \<open>simp add: yieldI\<close>)

lemma recover_gaps_yields:
  assumes "answers api P" "\<forall>c \<in> set acc. P c \<and> open_time_ms c < e"
  shows "yields (recover_gaps api sy i k (Some e) acc gs) (\<lambda>cs. \<forall>c \<in> set cs. P c \<and> open_time_ms c < e)"
  using assms(2)
proof (induction gs arbitrary: acc)
  case (Cons g gs)
  show ?case
    unfolding recover_gaps.simps attempt_narrow_recovery_def
  proof (rule yields_bind [OF narrow_recovery_yields [OF assms(1)]])
    fix found :: "candle list"
    assume "\<forall>c \<in> set found. P c \<and> open_time_ms c < e"
    then show "yields (recover_gaps api sy i k (Some e) (acc @ found) gs) (\<lambda>cs. \<forall>c \<in> set cs. P c \<and> open_time_ms c < e)"
      using Cons.prems by (intro Cons.IH) auto
  qed simp
qed (use assms(2) in \<open>simp add: yieldI\<close>)

text \<open>A finished range: increasing, below the end, answered by the exchange, with the gaps of its segmentation.\<close>

definition range_ok :: "(candle \<Rightarrow> bool) \<Rightarrow> fetch_plan \<Rightarrow> fetch_result \<Rightarrow> bool" where
  "range_ok P pl r \<longleftrightarrow>
     (\<forall>c \<in> set (fr_candles r). P c \<and> open_time_ms c < fp_end_time_ms pl) \<and>
     sorted_wrt (<) (map open_time_ms (fr_candles r)) \<and>
     (if fr_candles r = [] then fr_confirmed_gaps r = []
      else \<exists>seg. partition_into_segments (fr_candles r) (fp_interval pl) = Inr seg \<and> gaps seg = fr_confirmed_gaps r)"

lemma confirm_gaps_yields:
  assumes "answers api P" "\<forall>c \<in> set cs. P c \<and> open_time_ms c < fp_end_time_ms pl" "sorted_wrt (<) (map open_time_ms cs)"
  shows "yields (confirm_gaps api (fp_symbol pl) (fp_interval pl) cs k (Some (fp_end_time_ms pl))) (range_ok P pl)"
proof (cases "cs = []")
  case False
  show ?thesis
    unfolding confirm_gaps_def if_not_P [OF False] Let_def
  proof (rule yields_bind [OF yields_lift])
    show "partition_into_segments cs (fp_interval pl) = Inr x" if "partition_into_segments cs (fp_interval pl) = Inr x" for x by (rule that)
    fix seg
    assume seg: "partition_into_segments cs (fp_interval pl) = Inr seg"
    show "yields (if gaps seg = [] then sreturn \<lparr>fr_candles = cs, fr_confirmed_gaps = []\<rparr>
       else sbind (recover_gaps api (fp_symbol pl) (fp_interval pl) k (Some (fp_end_time_ms pl)) cs (gaps seg))
         (\<lambda>recovered. sbind (slift (partition_into_segments (dedup_by_open_time recovered) (fp_interval pl)))
            (\<lambda>final. sreturn \<lparr>fr_candles = dedup_by_open_time recovered, fr_confirmed_gaps = gaps final\<rparr>))) (range_ok P pl)"
    proof (rule yields_if)
      assume "gaps seg = []"
      then show "yields (sreturn \<lparr>fr_candles = cs, fr_confirmed_gaps = []\<rparr>) (range_ok P pl)"
        using seg False assms(2,3) by (auto simp: range_ok_def intro!: yieldI)
    next
      show "yields (sbind (recover_gaps api (fp_symbol pl) (fp_interval pl) k (Some (fp_end_time_ms pl)) cs (gaps seg))
         (\<lambda>recovered. sbind (slift (partition_into_segments (dedup_by_open_time recovered) (fp_interval pl)))
            (\<lambda>final. sreturn \<lparr>fr_candles = dedup_by_open_time recovered, fr_confirmed_gaps = gaps final\<rparr>))) (range_ok P pl)"
      proof (rule yields_bind [OF recover_gaps_yields [OF assms(1,2)]])
        fix rs assume rs: "\<forall>c \<in> set rs. P c \<and> open_time_ms c < fp_end_time_ms pl"
        let ?d = "dedup_by_open_time rs"
        have "\<forall>c \<in> set ?d. P c \<and> open_time_ms c < fp_end_time_ms pl" using rs dedup_subset [of rs] by blast
        then have "range_ok P pl \<lparr>fr_candles = ?d, fr_confirmed_gaps = gaps x\<rparr>"
          if "partition_into_segments ?d (fp_interval pl) = Inr x" for x
          using that dedup_spec(2) [of rs] by (auto simp: range_ok_def partition_into_segments_def)
        then show "yields (sbind (slift (partition_into_segments ?d (fp_interval pl)))
            (\<lambda>final. sreturn \<lparr>fr_candles = ?d, fr_confirmed_gaps = gaps final\<rparr>)) (range_ok P pl)"
          by (intro yields_bind [OF yields_lift [where Q = "\<lambda>x. partition_into_segments ?d (fp_interval pl) = Inr x"]])
            (auto intro!: yieldI)
      qed
    qed
  qed
qed (simp add: confirm_gaps_def yieldI)

lemma fetch_range_yields:
  assumes "answers api P"
  shows "yields (fetch_historical_range fuel api pl start ref) (range_ok P pl)"
  unfolding fetch_historical_range_def Let_def
proof (rule yields_then, rule yields_then, rule yields_bind [OF fetch_loop_yields [OF assms]])
  fix reference :: int and cs :: "candle list"
  assume cs: "\<forall>c \<in> set cs. P c"
  let ?d = "dedup_by_open_time (filter (\<lambda>c. close_time_ms c < reference) (below_exclusive_end cs (Some (fp_end_time_ms pl))))"
  have d: "\<forall>c \<in> set ?d. P c \<and> open_time_ms c < fp_end_time_ms pl"
    using dedup_subset [of "filter (\<lambda>c. close_time_ms c < reference) (below_exclusive_end cs (Some (fp_end_time_ms pl)))"] cs
    by (auto simp: below_exclusive_end_def)
  show "yields (if ?d = [] then sreturn \<lparr>fr_candles = [], fr_confirmed_gaps = []\<rparr>
      else sbind (confirm_gaps api (fp_symbol pl) (fp_interval pl) ?d (fp_max_retries pl) (Some (fp_end_time_ms pl))) (\<lambda>result.
           sbind (slift (assert_no_candle_at_or_after (fr_candles result) (fp_end_time_ms pl))) (\<lambda>_. sreturn result))) (range_ok P pl)"
    by (intro yields_if yields_bind [OF confirm_gaps_yields [OF assms d dedup_spec(2)]] yields_then yields_return)
      (simp_all add: range_ok_def)
qed simp

section \<open>The paging loop ends\<close>

text \<open>
  The exchange keeps to the start of a request, and its calls end: \<open>OutOfFuel\<close> is no
  exception of theirs.
\<close>

definition honest_source :: "'w candle_api \<Rightarrow> bool" where
  "honest_source api \<longleftrightarrow>
     (\<forall>q s page t. ca_klines api q s = (Inr (Inr page), t) \<longrightarrow> (\<forall>c \<in> set page. kq_start_time_ms q \<le> open_time_ms c)) \<and>
     (\<forall>q. ends (ca_klines api q)) \<and> ends (ca_server_time api) \<and> (\<forall>d. ends (ca_sleep api d))"

lemma page_delay_ends: "page_delay err attempt \<noteq> Inl OutOfFuel"
  by (auto simp: page_delay_def of_option_def split: request_error.splits option.splits)

lemma fetch_page_ends: "honest_source api \<Longrightarrow> ends (fetch_page_from api pl start attempt remaining)"
  by (induction remaining arbitrary: attempt) (auto simp: honest_source_def intro!: endI ends_lift page_delay_ends)

lemma fetch_page_from_start:
  assumes "honest_source api"
  shows "yields (fetch_page_from api pl start attempt remaining) (\<lambda>page. \<forall>c \<in> set page. start \<le> open_time_ms c)"
proof (induction remaining arbitrary: attempt)
  case (Suc n)
  let ?q = "\<lparr>kq_symbol = fp_symbol pl, kq_interval = fp_interval pl, kq_start_time_ms = start,
    kq_end_time_ms = exclusive_upper_bound_for_request (fp_end_time_ms pl), kq_limit = fp_page_limit pl\<rparr>"
  have "yields (ca_klines api ?q) (\<lambda>a. \<forall>page. a = Inr page \<longrightarrow> (\<forall>c \<in> set page. start \<le> open_time_ms c))"
    using assms by (fastforce simp: honest_source_def yields_def)
  then show ?case
    unfolding fetch_page_from.simps
  proof (rule yields_bind)
    fix a :: "request_error + candle list"
    assume "\<forall>page. a = Inr page \<longrightarrow> (\<forall>c \<in> set page. start \<le> open_time_ms c)"
    then show "yields (case a of Inr page \<Rightarrow> sreturn (below_exclusive_end page (Some (fp_end_time_ms pl)))
      | Inl err \<Rightarrow> sbind (slift (page_delay err attempt)) (\<lambda>delay. sbind (ca_sleep api delay) (\<lambda>_.
          fetch_page_from api pl start (Suc attempt) n))) (\<lambda>page. \<forall>c \<in> set page. start \<le> open_time_ms c)"
      using Suc by (cases a) (auto intro!: yields_then yieldI simp: below_exclusive_end_def)
  qed
qed (simp add: yieldI)

text \<open>
  With fuel for the rest of the range the loop ends, and more fuel does not change it: after
  a full page the cursor is at least one interval further.
\<close>

lemma fetch_loop_ends:
  assumes "honest_source api" "0 < step" "fp_end_time_ms pl - cursor \<le> int n * step"
  shows "ends (fetch_loop n api pl step cursor acc) \<and> fetch_loop (n + k) api pl step cursor acc = fetch_loop n api pl step cursor acc"
  using assms(3)
proof (induction n arbitrary: cursor acc)
  case 0
  then show ?case by (cases k) (simp_all add: ends_def)
next
  case (Suc n)
  let ?page = "fetch_page_with_retries api pl cursor"
  have later: "ends (fetch_loop n api pl step (open_time_ms (last page) + step) (acc @ page)) \<and>
      fetch_loop (n + k) api pl step (open_time_ms (last page) + step) (acc @ page)
        = fetch_loop n api pl step (open_time_ms (last page) + step) (acc @ page)"
    if "page \<noteq> []" "\<forall>c \<in> set page. cursor \<le> open_time_ms c" for page
  proof (rule Suc.IH)
    have "cursor \<le> open_time_ms (last page)" using that by simp
    then show "fp_end_time_ms pl - (open_time_ms (last page) + step) \<le> int n * step"
      using Suc.prems by (simp add: algebra_simps)
  qed
  have y: "\<forall>c \<in> set page. cursor \<le> open_time_ms c" if "?page s = (Inr page, t)" for s page t
    using yieldsD [OF fetch_page_from_start [OF assms(1)]] that unfolding fetch_page_with_retries_def by blast
  have e: "fst (?page s) \<noteq> Inl OutOfFuel" for s
    using fetch_page_ends [OF assms(1)] by (simp add: fetch_page_with_retries_def ends_def)
  have "fst (fetch_loop (Suc n) api pl step cursor acc s) \<noteq> Inl OutOfFuel \<and>
      fetch_loop (Suc n + k) api pl step cursor acc s = fetch_loop (Suc n) api pl step cursor acc s" for s
  proof (cases "?page s")
    case (Pair r t)
    show ?thesis
    proof (cases r)
      case (Inl err)
      then show ?thesis using Pair e [of s] by simp
    next
      case (Inr page)
      then have "\<forall>c \<in> set page. cursor \<le> open_time_ms c" using y Pair by blast
      then show ?thesis using Pair Inr later [of page] by (auto simp: ends_def)
    qed
  qed
  then show ?case by (simp add: ends_def fun_eq_iff)
qed

lemma range_fuel_enough:
  assumes "0 < step"
  shows "e - start \<le> int (range_fuel step start e) * step"
proof -
  have "e - start < ((e - start) div step + 1) * step" using assms
    by (metis add.commute div_mult_mod_eq distrib_right mult_1 add_strict_left_mono pos_mod_bound mult.commute)
  also have "\<dots> \<le> int (range_fuel step start e) * step" using assms by (simp add: range_fuel_def)
  finally show ?thesis by simp
qed

lemma recover_gaps_ends: "honest_source api \<Longrightarrow> ends (recover_gaps api sy i k e acc gs)"
proof (induction gs arbitrary: acc)
  case (Cons g gs)
  have "ends (narrow_recovery_from api sy i g e lst attempt remaining)" for lst attempt remaining
    using Cons.prems
    by (induction remaining arbitrary: lst attempt) (auto simp: honest_source_def Let_def intro!: endI)
  then show ?case using Cons by (auto simp: attempt_narrow_recovery_def intro!: endI)
qed (simp add: endI)

lemma confirm_gaps_ends: "honest_source api \<Longrightarrow> ends (confirm_gaps api sy i cs k e)"
  by (auto simp: confirm_gaps_def Let_def intro!: endI ends_lift partition_ends recover_gaps_ends)

end
