(* ===== verification/Audit_Facts.thy ===== *)
theory Audit_Facts
  imports Fetch_Facts
begin

text \<open>
  Facts about the audit of gaps: results read back from their JSON form, a recovered hour is
  the aggregate of sixty answered minutes, every missing hour is judged once and in order,
  and the loop over the gaps keeps a sound checkpoint.
\<close>

section \<open>JSON\<close>

lemmas js_reads = js_get_def js_int_def js_str_def js_dec_def js_detail_def

lemma candle_json: "candle_from_json (candle_payload c) = Inr c"
  by (simp add: candle_from_json_def candle_payload_def js_reads)

lemma provenance_json: "provenance_from_json (provenance_to_json p) = Inr p"
  by (simp add: provenance_from_json_def provenance_to_json_def js_reads)

lemma outcome_json: "outcome_of_value (outcome_value x) = Inr x"
  by (cases x) (simp_all add: outcome_of_value_def outcome_value_def)

lemma nullable_json:
  assumes "\<And>y. f (g y) = Inr y" "\<And>y. g y \<noteq> J_Null"
  shows "from_nullable f (or_null g x) = Inr x"
  using assms by (cases x) (simp_all add: from_nullable_def or_null_def)

lemma missing_hour_json: "missing_hour_from_json (missing_hour_to_json m) = Inr m"
proof -
  have c: "from_nullable candle_from_json (or_null candle_payload x) = Inr x" for x
    by (rule nullable_json [OF candle_json]) (simp add: candle_payload_def)
  have p: "from_nullable provenance_from_json (or_null provenance_to_json x) = Inr x" for x
    by (rule nullable_json [OF provenance_json]) (simp add: provenance_to_json_def)
  show ?thesis by (simp add: missing_hour_from_json_def missing_hour_to_json_def js_reads outcome_json c p)
qed

lemma gap_json: "gap_from_json (gap_to_json g) = Inr g"
  by (simp add: gap_from_json_def gap_to_json_def js_reads)

lemma gap_result_json: "gap_result_from_json (gap_result_to_json r) = Inr r"
proof -
  have "map_res missing_hour_from_json (map missing_hour_to_json xs) = Inr xs" for xs
    by (induction xs) (simp_all add: missing_hour_json)
  then show ?thesis by (simp add: gap_result_from_json_def gap_result_to_json_def js_get_def gap_json)
qed

lemma gap_result_not_null: "gap_result_to_json r \<noteq> J_Null"
  by (simp add: gap_result_to_json_def)

lemma checkpoint_get_record:
  "checkpoint_get (checkpoint_record r ck) g = (if g = gf_gap r then Inr (Some r) else checkpoint_get ck g)"
  by (simp add: checkpoint_get_def checkpoint_record_def update_conv' gap_result_json gap_result_not_null)

section \<open>One hour\<close>

lemma klines_yield:
  assumes "answers (au_api env) P"
  shows "yields (klines_from env pl q attempt remaining) (\<lambda>a. \<forall>page. a = Some page \<longrightarrow> (\<forall>c \<in> set page. P c))"
proof (induction remaining arbitrary: attempt)
  case (Suc n)
  show ?case
    unfolding klines_from.simps
  proof (rule yields_then, rule yields_bind [OF answers_yields [OF assms]])
    fix a :: "request_error + candle list"
    assume a: "\<forall>page. a = Inr page \<longrightarrow> (\<forall>c \<in> set page. P c)"
    show "yields (case a of
        Inl err \<Rightarrow> sbind (au_emit env (Request_Failed (fst pl) (snd pl) attempt (n \<noteq> 0))) (\<lambda>_.
          sbind (if n \<noteq> 0 then ca_sleep (au_api env) (capped_backoff_seconds attempt) else sreturn ()) (\<lambda>_.
          klines_from env pl q (Suc attempt) n))
      | Inr raw \<Rightarrow> let page = below_exclusive_end raw (Some (kq_end_time_ms q)) in
          sbind (au_emit env (Request_Answered (fst pl) (snd pl) attempt (int (length page)))) (\<lambda>_. sreturn (Some page)))
      (\<lambda>a. \<forall>page. a = Some page \<longrightarrow> (\<forall>c \<in> set page. P c))"
      using a Suc by (cases a) (auto simp: Let_def below_exclusive_end_def intro!: yields_then yieldI)
  qed
qed (simp add: yields_def)

lemma minute_loop_yields:
  assumes "answers (au_api env) P" "\<forall>c \<in> set acc. P c"
  shows "yields (minute_loop fuel env pl sy e deadline cursor acc) (\<lambda>(cs, _, _). \<forall>c \<in> set cs. P c)"
  using assms(2)
proof (induction fuel arbitrary: cursor acc)
  case (Suc n)
  show ?case
  proof (cases "cursor < e")
    case True
    let ?q = "\<lparr>kq_symbol = sy, kq_interval = ''1m'', kq_start_time_ms = cursor, kq_end_time_ms = e, kq_limit = KLINE_PAGE_LIMIT\<rparr>"
    have "yields (case a of None \<Rightarrow> sreturn (acc, cursor, Some Max_Retries_Exhausted)
        | Some page \<Rightarrow>
            if page = [] then sreturn (acc, e, None)
            else if int (length page) < KLINE_PAGE_LIMIT then sreturn (acc @ page, e, None)
            else minute_loop n env pl sy e deadline (open_time_ms (last page) + ONE_MINUTE_MS) (acc @ page)) (\<lambda>(cs, _, _). \<forall>c \<in> set cs. P c)"
      if "\<forall>page. a = Some page \<longrightarrow> (\<forall>c \<in> set page. P c)" for a
      using that Suc.prems by (cases a) (auto intro!: yields_if yields_return Suc.IH)
    note page = this
    show ?thesis
      unfolding minute_loop.simps if_P [OF True] fetch_klines_with_bounded_retries_def
      by (rule yields_then, rule yields_if, rule yields_return, use Suc.prems in simp,
          rule yields_bind [OF klines_yield [OF assms(1)]], rule page)
  qed (use Suc.prems in \<open>simp add: yields_def\<close>)
qed (use assms(2) in \<open>simp add: yields_def sraise_def\<close>)

text \<open>
  What an audited hour may be: recovered from sixty minutes that satisfy \<open>P\<close>, or without a
  candle.
\<close>

definition sixty_minutes :: "(candle \<Rightarrow> bool) \<Rightarrow> int \<Rightarrow> candle list \<Rightarrow> bool" where
  "sixty_minutes P hour minutes \<longleftrightarrow> length minutes = 60 \<and> (\<forall>c \<in> set minutes. P c) \<and>
     (\<forall>i < 60. open_time_ms (minutes ! i) = hour + int i * 60000)"

definition hour_sound :: "(candle \<Rightarrow> bool) \<Rightarrow> string \<Rightarrow> missing_hour \<Rightarrow> bool" where
  "hour_sound P symbol h \<longleftrightarrow>
     (if mh_outcome h = FULLY_RECOVERABLE
      then mh_open_time_ms h < RESEARCH_CUTOFF_MS \<and>
        (\<exists>minutes. sixty_minutes P (mh_open_time_ms h) minutes \<and> mh_found_1m_candle_count h = 60 \<and>
          mh_reconstructed_candle h = Some (aggregate_1m_to_1h symbol (mh_open_time_ms h) minutes))
      else mh_reconstructed_candle h = None)"

lemma unrecovered_sel [simp]:
  "mh_open_time_ms (unrecovered h out n d) = h" "mh_outcome (unrecovered h out n d) = out"
  "mh_reconstructed_candle (unrecovered h out n d) = None" "mh_detail (unrecovered h out n d) = d"
  by (simp_all add: unrecovered_def)

lemma unrecovered_sound: "out \<noteq> FULLY_RECOVERABLE \<Longrightarrow> hour_sound P symbol (unrecovered hour out n d)"
  by (simp add: hour_sound_def)

lemma continuous_minutes:
  assumes "is_continuous_60_minutes cs hour" "i < 60"
  shows "open_time_ms (cs ! i) = hour + int i * 60000"
  using assms(2)
proof (induction i)
  case (Suc i)
  have "open_time_ms (cs ! Suc i) - open_time_ms (cs ! i) = 60000"
    using assms(1) Suc.prems by (simp add: is_continuous_60_minutes_def MINUTES_PER_HOUR_def ONE_MINUTE_MS_def)
  then show ?case using Suc by simp
qed (use assms(1) in \<open>simp add: is_continuous_60_minutes_def\<close>)

lemma judged_hour_sound:
  assumes "is_continuous_60_minutes minutes hour" "\<forall>c \<in> set minutes. P c" "hour < RESEARCH_CUTOFF_MS"
  shows "hour_sound P symbol (judged_hour env hour minutes (aggregate_1m_to_1h symbol hour minutes) native) \<and>
    mh_open_time_ms (judged_hour env hour minutes (aggregate_1m_to_1h symbol hour minutes) native) = hour"
proof -
  have "sixty_minutes P hour minutes"
    using assms(1,2) continuous_minutes [OF assms(1)]
    by (simp add: sixty_minutes_def is_continuous_60_minutes_def MINUTES_PER_HOUR_def)
  moreover have "int (length minutes) = 60" using assms(1) by (simp add: is_continuous_60_minutes_def MINUTES_PER_HOUR_def)
  ultimately have "hour_sound P symbol (recovered_hour env hour minutes (aggregate_1m_to_1h symbol hour minutes) v)" for v
    using assms(3) by (auto simp: hour_sound_def recovered_hour_def)
  then show ?thesis
    by (auto simp: judged_hour_def Let_def unrecovered_sound recovered_hour_def split: option.splits)
qed

lemma classify_hour_sound:
  assumes "\<forall>c \<in> set minutes. P c" "hour < RESEARCH_CUTOFF_MS"
  shows "yields (classify_hour env pl symbol deadline hour minutes) (\<lambda>h. hour_sound P symbol h \<and> mh_open_time_ms h = hour)"
proof (cases "minutes \<noteq> [] \<and> is_continuous_60_minutes minutes hour")
  case True
  then show ?thesis
    using judged_hour_sound [of minutes hour P, OF _ assms]
    by (auto simp: classify_hour_def Let_def intro!: yields_then yields_return)
next
  case False
  then show ?thesis by (auto simp: classify_hour_def Let_def unrecovered_sound intro!: yields_if yields_return)
qed

lemma classify_hours_sound:
  assumes "\<forall>c \<in> set minutes. P c" "\<forall>h \<in> set hours. h < RESEARCH_CUTOFF_MS"
  shows "yields (classify_hours env pl symbol deadline minutes reached stopped hours)
    (\<lambda>hs. (\<forall>h \<in> set hs. hour_sound P symbol h) \<and> map mh_open_time_ms hs = hours)"
  using assms(2)
proof (induction hours)
  case (Cons hour hours)
  let ?own = "filter (\<lambda>c. hour \<le> open_time_ms c \<and> open_time_ms c < hour + ONE_HOUR_MS) minutes"
  have h: "hour < RESEARCH_CUTOFF_MS" and own: "\<forall>c \<in> set ?own. P c" using Cons.prems assms(1) by auto
  have one: "yields (case stopped of
       Some reason \<Rightarrow> if reached \<le> hour then sreturn (unrecovered hour UNRESOLVED 0 (Not_Checked reason))
         else classify_hour env pl symbol deadline hour ?own
     | None \<Rightarrow> classify_hour env pl symbol deadline hour ?own) (\<lambda>h. hour_sound P symbol h \<and> mh_open_time_ms h = hour)"
    using classify_hour_sound [OF own h, of env pl symbol deadline]
    by (cases stopped) (auto intro!: yields_if yields_return simp: unrecovered_sound)
  have rest: "yields (classify_hours env pl symbol deadline minutes reached stopped hours)
      (\<lambda>hs. (\<forall>h \<in> set hs. hour_sound P symbol h) \<and> map mh_open_time_ms hs = hours)" using Cons by simp
  show ?case
    unfolding classify_hours.simps
    by (rule yields_bind [OF one], rule yields_bind [OF rest], rule yields_return) simp
qed (simp add: yields_def)

section \<open>One gap\<close>

lemma hours_ascend: "sorted (missing_hours_for_gap gap)"
proof -
  have "sorted (map (\<lambda>i. a + i * ONE_HOUR_MS) [0 .. n])" for a n
    by (rule sorted_map_mono) (auto simp: ONE_HOUR_MS_def intro!: mono_onI)
  then show ?thesis by (simp add: missing_hours_for_gap_def)
qed

lemma split_ascending: "sorted xs \<Longrightarrow> filter (\<lambda>h. h < c) xs @ filter (\<lambda>h. c \<le> h) xs = xs" for c :: int
proof (induction xs)
  case (Cons x xs)
  show ?case
  proof (cases "x < c")
    case False
    then have "filter (\<lambda>h. h < c) xs = []" "filter (\<lambda>h. c \<le> h) xs = xs"
      using Cons.prems by (auto simp: filter_empty_conv filter_id_conv)
    then show ?thesis using False by simp
  qed (use Cons in simp)
qed simp

text \<open>The result of a gap: sound hours, each missing hour once and in order.\<close>

definition result_sound :: "(candle \<Rightarrow> bool) \<Rightarrow> string \<Rightarrow> gap_result \<Rightarrow> bool" where
  "result_sound P symbol r \<longleftrightarrow>
     (\<forall>h \<in> set (gf_missing_hours r). hour_sound P symbol h) \<and> map mh_open_time_ms (gf_missing_hours r) = missing_hours_for_gap (gf_gap r)"

lemma analyze_sound:
  assumes "answers (au_api env) P"
  shows "yields (analyze_one_gap env pl symbol gap) (\<lambda>r. result_sound P symbol r \<and> gf_gap r = gap)"
proof -
  let ?f = "filter (\<lambda>h. h < RESEARCH_CUTOFF_MS) (missing_hours_for_gap gap)"
  let ?c = "filter (\<lambda>h. RESEARCH_CUTOFF_MS \<le> h) (missing_hours_for_gap gap)"
  have fetch: "yields (if ?f = [] then sreturn ([], 0, None)
      else fetch_1m_range env pl symbol (hd ?f) (last ?f + ONE_HOUR_MS) deadline) (\<lambda>(cs, _, _). \<forall>c \<in> set cs. P c)" for deadline
    unfolding fetch_1m_range_def by (intro yields_if yields_return minute_loop_yields [OF assms]) simp_all
  have fin: "result_sound P symbol \<lparr>gf_gap = gap, gf_missing_hours = hs @ map (\<lambda>h. unrecovered h UNRESOLVED 0 After_Cutoff) ?c\<rparr>"
    if "(\<forall>h \<in> set hs. hour_sound P symbol h) \<and> map mh_open_time_ms hs = ?f" for hs
    using that split_ascending [OF hours_ascend, of RESEARCH_CUTOFF_MS gap]
    by (auto simp: result_sound_def unrecovered_sound comp_def)
  have d: "\<forall>c \<in> set (dedup_by_open_time cs). P c" if "\<forall>c \<in> set cs. P c" for cs
    using that dedup_subset by blast
  have f: "\<forall>h \<in> set ?f. h < RESEARCH_CUTOFF_MS" by simp
  show ?thesis
    unfolding analyze_one_gap_def Let_def
    by (rule yields_then, rule yields_then, rule yields_bind [OF fetch], clarify,
       rule yields_bind [OF classify_hours_sound [OF d f]], simp, intro yields_then yields_return, simp add: fin)
qed

section \<open>The audit of all gaps\<close>

definition checkpoint_sound :: "(candle \<Rightarrow> bool) \<Rightarrow> string \<Rightarrow> checkpoint option \<Rightarrow> bool" where
  "checkpoint_sound P symbol ck \<longleftrightarrow>
     (\<forall>entries g r. ck = Some entries \<longrightarrow> checkpoint_get entries g = Inr (Some r) \<longrightarrow> gf_gap r = g \<and> result_sound P symbol r)"

lemma checkpoint_sound_none: "checkpoint_sound P symbol None"
  by (simp add: checkpoint_sound_def)

lemma checkpoint_sound_record:
  "checkpoint_sound P symbol ck \<Longrightarrow> result_sound P symbol r \<Longrightarrow> checkpoint_sound P symbol (map_option (checkpoint_record r) ck)"
  by (auto simp: checkpoint_sound_def checkpoint_get_record split: if_splits)

lemma outside_keeps: "outside m s = (r, t) \<Longrightarrow> snd t = snd s \<and> (\<exists>w. m (fst s) = (r, w))"
  by (auto simp: outside_def szoom_def split: prod.splits)

lemma audit_gap_cases:
  assumes "audit_gap env symbol n (idx, gap) s = (r, t)" "answers (au_api env) P" "checkpoint_sound P symbol (ap_checkpoint (snd s))"
  shows "checkpoint_sound P symbol (ap_checkpoint (snd t)) \<and>
    ((\<exists>e. r = Inl e \<and> ap_results (snd t) = ap_results (snd s)) \<or>
     (r = Inr () \<and> (\<exists>x. ap_results (snd t) = ap_results (snd s) @ [x] \<and> gf_gap x = gap \<and> result_sound P symbol x)))"
proof -
  let ?c = "case ap_checkpoint (snd s) of None \<Rightarrow> Inr None | Some entries \<Rightarrow> checkpoint_get entries gap"
  show ?thesis
  proof (cases ?c)
    case (Inl e)
    then show ?thesis using assms(1,3) by (auto simp: audit_gap_def sbind_def split: option.splits)
  next
    case (Inr cached)
    show ?thesis
    proof (cases cached)
      case None
      then have run: "sbind (outside (analyze_one_gap env (int idx, n) symbol gap)) (\<lambda>r. smodify (keep_result r True)) s = (r, t)"
        using assms(1) Inr by (simp add: audit_gap_def sbind_def)
      show ?thesis
      proof -
        obtain r1 t1 where one: "outside (analyze_one_gap env (int idx, n) symbol gap) s = (r1, t1)" by (metis surj_pair)
        note kept = outside_keeps [OF one]
        show ?thesis
        proof (cases r1)
          case (Inl e)
          then show ?thesis using run one kept assms(3) by auto
        next
          case (Inr x)
          then have "result_sound P symbol x \<and> gf_gap x = gap"
            using kept yieldsD [OF analyze_sound [OF assms(2)]] by blast
          then show ?thesis using run one Inr kept assms(3) by (auto simp: keep_result_def checkpoint_sound_record)
        qed
      qed
    next
      case (Some x)
      then have run: "sbind (outside (au_emit env (Gap_Reused (int idx) n))) (\<lambda>_. smodify (keep_result x False)) s = (r, t)"
        using assms(1) Inr by (simp add: audit_gap_def sbind_def)
      have x: "gf_gap x = gap \<and> result_sound P symbol x"
        using Inr Some assms(3) by (auto simp: checkpoint_sound_def split: option.splits)
      show ?thesis
      proof -
        obtain r1 t1 where one: "outside (au_emit env (Gap_Reused (int idx) n)) s = (r1, t1)" by (metis surj_pair)
        then show ?thesis using run outside_keeps [OF one] x assms(3) by (cases r1) (auto simp: keep_result_def)
      qed
    qed
  qed
qed

lemma audit_gaps_cases:
  assumes "audit_gaps env symbol n xs s = (r, t)" "answers (au_api env) P" "checkpoint_sound P symbol (ap_checkpoint (snd s))"
  shows "checkpoint_sound P symbol (ap_checkpoint (snd t)) \<and>
    (\<exists>ys. ap_results (snd t) = ap_results (snd s) @ ys \<and> map gf_gap ys = map snd (take (length ys) xs) \<and>
      (\<forall>y \<in> set ys. result_sound P symbol y) \<and> (r = Inr () \<longrightarrow> length ys = length xs))"
  using assms(1,3)
proof (induction xs arbitrary: s)
  case Nil
  then show ?case by auto
next
  case (Cons x xs)
  obtain idx gap where x: "x = (idx, gap)" by (cases x)
  obtain r1 t1 where one: "audit_gap env symbol n (idx, gap) s = (r1, t1)" by (metis surj_pair)
  note c = audit_gap_cases [OF one assms(2) Cons.prems(2)]
  show ?case
  proof (cases r1)
    case (Inl e)
    then have "r = Inl e" "t = t1" using Cons.prems(1) one x by simp_all
    then show ?thesis using c Inl by (intro conjI exI [of _ "[]"]) auto
  next
    case (Inr u)
    then have rest: "audit_gaps env symbol n xs t1 = (r, t)" using Cons.prems(1) one x by simp
    from c Inr obtain y where y: "ap_results (snd t1) = ap_results (snd s) @ [y]" "gf_gap y = gap" "result_sound P symbol y" by auto
    from Cons.IH [OF rest] c obtain ys where ys: "checkpoint_sound P symbol (ap_checkpoint (snd t))"
      "ap_results (snd t) = ap_results (snd t1) @ ys" "map gf_gap ys = map snd (take (length ys) xs)"
      "\<forall>y \<in> set ys. result_sound P symbol y" "r = Inr () \<longrightarrow> length ys = length xs" by blast
    show ?thesis using y ys x by (intro conjI exI [of _ "y # ys"]) auto
  qed
qed

section \<open>The report\<close>

lemma outcomes_partition:
  "count_outcome FULLY_RECOVERABLE hs + count_outcome PARTIALLY_RECOVERABLE hs + count_outcome GENUINE_NO_DATA hs
    + count_outcome UNRESOLVED hs = int (length hs)"
proof (induction hs)
  case (Cons h hs)
  then show ?case by (cases "mh_outcome h") (simp_all add: count_outcome_def)
qed (simp add: count_outcome_def)

lemma hours_counted:
  assumes "\<forall>r \<in> set rs. result_sound P symbol r" "\<forall>r \<in> set rs. 0 \<le> missing_intervals (gf_gap r)"
  shows "int (length (all_hours rs)) = sum_list (map (\<lambda>r. missing_intervals (gf_gap r)) rs)"
  using assms
proof (induction rs)
  case (Cons r rs)
  have "length (gf_missing_hours r) = length (missing_hours_for_gap (gf_gap r))"
    using Cons.prems(1) by (metis length_map list.set_intros(1) result_sound_def)
  then have "int (length (gf_missing_hours r)) = missing_intervals (gf_gap r)"
    using Cons.prems(2) by (simp add: missing_hours_for_gap_def)
  then show ?case using Cons by (simp add: all_hours_def)
qed (simp add: all_hours_def)

lemma forensic_report_fields:
  "forensic_report env symbol interval pre confirmed interrupted rs = Inr report \<Longrightarrow>
     gq_symbol report = symbol \<and> gq_interval report = interval \<and> gq_gap_results report = rs \<and> gq_interrupted report = interrupted \<and>
     gq_total_missing_hours report = sum_list (map missing_intervals confirmed) \<and>
     gq_fully_recoverable_hours report = count_outcome FULLY_RECOVERABLE (all_hours rs) \<and>
     gq_partially_recoverable_hours report = count_outcome PARTIALLY_RECOVERABLE (all_hours rs) \<and>
     gq_genuine_no_data_hours report = count_outcome GENUINE_NO_DATA (all_hours rs) \<and>
     gq_unresolved_hours report = count_outcome UNRESOLVED (all_hours rs)"
  by (auto simp: forensic_report_def Let_def)

lemma forensics_cases:
  assumes "run_gap_forensics env symbol interval existing confirmed s = (Inr report, t)"
  shows "\<exists>r1 t1 interrupted. audit_gaps env symbol (int (length confirmed)) (List.enumerate 1 confirmed) (fst s, (snd s)\<lparr>ap_results := []\<rparr>) = (r1, t1) \<and>
    snd t = snd t1 \<and> (\<not> interrupted \<longrightarrow> r1 = Inr ()) \<and>
    forensic_report env symbol interval (fst (split_at_cutoff existing)) confirmed interrupted (ap_results (snd t1)) = Inr report"
proof -
  obtain r1 t1 where a: "audit_gaps env symbol (int (length confirmed)) (List.enumerate 1 confirmed) (fst s, (snd s)\<lparr>ap_results := []\<rparr>) = (r1, t1)"
    by (metis surj_pair)
  have i: "interval = ''1h''" using assms by (auto simp: run_gap_forensics_def split: if_splits)
  show ?thesis
  proof (cases r1)
    case (Inr u)
    then have "t = t1 \<and> forensic_report env symbol interval (fst (split_at_cutoff existing)) confirmed False (ap_results (snd t1)) = Inr report"
      using assms a i by (auto simp: run_gap_forensics_def Let_def sbind_def scatch_def slift_def split: sum.splits)
    then show ?thesis using a Inr by auto
  next
    case (Inl e)
    let ?emit = "outside (au_emit env (Audit_Interrupted (int (length (ap_results (snd t1)))) (int (length confirmed))))"
    obtain r2 t2 where em: "?emit t1 = (r2, t2)" by (metis surj_pair)
    have "t = t2 \<and> forensic_report env symbol interval (fst (split_at_cutoff existing)) confirmed True (ap_results (snd t1)) = Inr report"
      using assms a i Inl em outside_keeps [OF em]
      by (cases r2; cases "e = KeyboardInterrupt")
        (auto simp: run_gap_forensics_def Let_def sbind_def scatch_def slift_def split: sum.splits)
    then show ?thesis using a outside_keeps [OF em] by auto
  qed
qed

lemma forensics_sound:
  assumes "run_gap_forensics env symbol interval existing confirmed s = (Inr report, t)"
    and "answers (au_api env) P" "checkpoint_sound P symbol (ap_checkpoint (snd s))"
  shows "checkpoint_sound P symbol (ap_checkpoint (snd t)) \<and>
    map gf_gap (gq_gap_results report) = take (length (gq_gap_results report)) confirmed \<and>
    (\<forall>r \<in> set (gq_gap_results report). result_sound P symbol r) \<and>
    (\<not> gq_interrupted report \<longrightarrow> length (gq_gap_results report) = length confirmed)"
proof -
  obtain r1 t1 interrupted
    where a: "audit_gaps env symbol (int (length confirmed)) (List.enumerate 1 confirmed) (fst s, (snd s)\<lparr>ap_results := []\<rparr>) = (r1, t1)"
      and t: "snd t = snd t1" "\<not> interrupted \<longrightarrow> r1 = Inr ()"
      and rep: "forensic_report env symbol interval (fst (split_at_cutoff existing)) confirmed interrupted (ap_results (snd t1)) = Inr report"
    using forensics_cases [OF assms(1)] by blast
  have "checkpoint_sound P symbol (ap_checkpoint (snd (fst s, (snd s)\<lparr>ap_results := []\<rparr>)))" using assms(3) by simp
  from audit_gaps_cases [OF a assms(2) this] obtain ys where ck: "checkpoint_sound P symbol (ap_checkpoint (snd t1))"
    and ys: "ap_results (snd t1) = ys" "map gf_gap ys = map snd (take (length ys) (List.enumerate 1 confirmed))"
      "\<forall>y \<in> set ys. result_sound P symbol y" "r1 = Inr () \<longrightarrow> length ys = length confirmed" by auto
  have "map snd (take k (List.enumerate m xs)) = take k xs" for k m and xs :: "gap_record list"
    by (simp add: take_map [symmetric])
  with ys ck t forensic_report_fields [OF rep] show ?thesis by auto
qed

end
