(* ===== verification/Data_Properties.thy ===== *)
theory Data_Properties
  imports Audit_Facts
begin

text \<open>
  The properties of the data layer: the download keeps its boundary and ends, the store holds
  the deduplicated union, a recovered hour is made of sixty answered minutes, every
  missing hour is judged once, recovery leaves the exact manifest of gaps, and the
  checkpoint reads back.
\<close>

section \<open>The download\<close>


text \<open>A table of candles as an exchange that always answers.\<close>

definition table_api :: "candle list \<Rightarrow> unit candle_api" where
  "table_api cs =
     \<lparr>ca_klines = (\<lambda>q. sreturn (Inr (take (nat (kq_limit q))
        (filter (\<lambda>c. c_interval c = kq_interval q \<and> kq_start_time_ms q \<le> open_time_ms c \<and> open_time_ms c \<le> kq_end_time_ms q) cs)))),
      ca_server_time = sreturn 0, ca_sleep = (\<lambda>_. sreturn ())\<rparr>"

lemma table_honest: "honest_source (table_api cs)"
  by (auto simp: honest_source_def table_api_def ends_def dest!: in_set_takeD)

definition td_candle :: "string \<Rightarrow> int \<Rightarrow> candle" where
  "td_candle interval t = \<lparr>c_symbol = ''BTCUSDT'', c_interval = interval, open_time_ms = t, close_time_ms = t + 59999,
     c_open = Dec 100, c_high = Dec 100, c_low = Dec 100, c_close = Dec 100, c_volume = 0\<rparr>"

definition td_plan :: fetch_plan where
  "td_plan = \<lparr>fp_symbol = ''BTCUSDT'', fp_interval = ''1m'', fp_end_time_ms = 240000, fp_page_limit = 2, fp_max_retries = 1\<rparr>"

definition td_table :: "candle list" where
  "td_table = map (td_candle ''1m'') [0, 60000, 180000, 240000]"

definition td_result :: fetch_result where
  "td_result = \<lparr>fr_candles = map (td_candle ''1m'') [0, 60000, 180000],
     fr_confirmed_gaps = [\<lparr>expected_open_time_ms = 120000, previous_open_time_ms = 60000, next_open_time_ms = 180000, missing_intervals = 1\<rparr>]\<rparr>"

lemma td_run: "fetch_historical_range (range_fuel 60000 0 240000) (table_api td_table) td_plan 0 (Some 1000000) () = (Inr td_result, ())"
  by code_simp


text \<open>
  C24. On an exchange that never answers a candle older than was asked for, a download ends: the fuel of one
  page per interval of the range suffices, more fuel changes nothing, and the fuel is never
  what stops it, however many requests fail.
\<close>

theorem range_download_ends:
  assumes "honest_source api" and "interval_to_ms (fp_interval pl) = Inr step"
    and "range_fuel step start (fp_end_time_ms pl) \<le> fuel"
  shows "fst (fetch_historical_range fuel api pl start ref w) \<noteq> Inl OutOfFuel \<and>
    fetch_historical_range fuel api pl start ref w = fetch_historical_range (range_fuel step start (fp_end_time_ms pl)) api pl start ref w"
proof -
  let ?n = "range_fuel step start (fp_end_time_ms pl)"
  obtain k where k: "fuel = ?n + k" using assms(3) le_Suc_ex by blast
  note l = fetch_loop_ends [OF assms(1) interval_to_ms_pos [OF assms(2)] range_fuel_enough [OF interval_to_ms_pos [OF assms(2)]]]
  have eq: "fetch_loop fuel api pl step start [] = fetch_loop ?n api pl step start []" unfolding k using l by blast
  have assert_ends: "assert_no_candle_at_or_after cs e \<noteq> Inl OutOfFuel" for cs e by (simp add: assert_no_candle_at_or_after_def)
  have step: "sbind (slift (Inr step)) f = f step" for f :: "int \<Rightarrow> ('a, fetch_result) step" by (simp add: fun_eq_iff)
  have "ends (fetch_loop ?n api pl step start [])" using l by blast
  then have "ends (fetch_historical_range ?n api pl start ref)"
    unfolding fetch_historical_range_def Let_def assms(2) step
    using assms(1) by (cases ref) (auto simp: honest_source_def intro!: endI ends_lift confirm_gaps_ends [OF assms(1)] assert_ends)
  moreover have "fetch_historical_range fuel api pl start ref = fetch_historical_range ?n api pl start ref"
    unfolding fetch_historical_range_def assms(2) step eq ..
  ultimately show ?thesis by (simp add: ends_def)
qed

theorem range_download_ends_witness:
  "fetch_historical_range 1000000 (table_api td_table) td_plan 0 (Some 1000000) () = (Inr td_result, ())"
proof -
  have i: "interval_to_ms (fp_interval td_plan) = Inr 60000" by code_simp
  have e: "fp_end_time_ms td_plan = 240000" by (simp add: td_plan_def)
  have f: "range_fuel 60000 0 (fp_end_time_ms td_plan) \<le> 1000000" unfolding e by (simp add: range_fuel_def)
  from range_download_ends [OF table_honest i f, of td_table "Some 1000000" "()"] td_run show ?thesis unfolding e by simp
qed

section \<open>The candle store\<close>

text \<open>
  C25. A transaction of candles and gaps happens as a whole or not at all; when it commits, reading the
  series returns the union of what was there and what was stored, the last candle of an open
  time winning, in increasing order, no other series changes, and storing the same again
  changes nothing that can be read.
\<close>

theorem stored_candles_are_the_union:
  assumes "store_candles_and_gaps broken cs gs s i now stale db = (r, db')" and "db_ok db"
    and "\<forall>c \<in> set cs. c_symbol c = s \<and> c_interval c = i"
  shows "(\<exists>e. r = Inl e \<and> db' = db) \<or>
    (r = Inr () \<and> db_ok db' \<and> get_candles s i None None db' = dedup_by_open_time (get_candles s i None None db @ cs) \<and>
     (\<forall>s' i'. (s', i') \<noteq> (s, i) \<longrightarrow> get_candles s' i' None None db' = get_candles s' i' None None db) \<and>
     (\<exists>db''. store_candles_and_gaps (\<lambda>_. False) cs gs s i now stale db' = (Inr (), db'') \<and>
        get_candles s i None None db'' = get_candles s i None None db' \<and> get_gaps s i db'' = get_gaps s i db'))"
proof (cases "r = Inr ()")
  case True
  have d: "db' = stored cs gs s i now stale db" and own: "\<And>c. c \<in> set cs \<Longrightarrow> c_symbol c = s \<and> c_interval c = i"
    using store_outcomes [OF assms(1)] True assms(3) by auto
  have ok: "db_ok db'" unfolding d by (rule db_ok_stored [OF assms(2)])
  have u: "get_candles s i None None db' = dedup_by_open_time (get_candles s i None None db @ cs)"
    unfolding d by (rule get_candles_stored [OF assms(2) own])
  have again: "\<exists>db''. store_candles_and_gaps (\<lambda>_. False) cs gs s i now stale db' = (Inr (), db'') \<and>
      get_candles s i None None db'' = get_candles s i None None db' \<and> get_gaps s i db'' = get_gaps s i db'"
    unfolding d using store_works stored_twice [OF assms(2) own] by (intro exI conjI)
  have others: "get_candles s' i' None None db' = get_candles s' i' None None db" if "(s', i') \<noteq> (s, i)" for s' i'
  proof (rule increasing_unique [OF get_candles_spec(2) [OF ok] get_candles_spec(2) [OF assms(2)]])
    have "candles_at s' i' db' = candles_at s' i' db"
      unfolding d candles_at_stored by (rule candles_at_other) (use that own in auto)
    then show "set (get_candles s' i' None None db') = set (get_candles s' i' None None db)" by (simp add: get_candles_spec(1) ok assms(2))
  qed
  show ?thesis by (rule disjI2) (intro conjI True ok u again allI impI others)
qed (use store_outcomes [OF assms(1)] in auto)

definition td_db :: candle_db where
  "td_db = \<lparr>cd_candles = map (\<lambda>c. (candle_key c, c)) (map (td_candle ''1h'') [0, 7200000]), cd_gaps = []\<rparr>"

lemma td_db_ok: "db_ok td_db"
  by code_simp

theorem stored_candles_are_the_union_witness:
  "\<exists>db'. store_candles_and_gaps (\<lambda>_. False) [td_candle ''1h'' 3600000] [] ''BTCUSDT'' ''1h'' 5 None td_db = (Inr (), db') \<and>
    get_candles ''BTCUSDT'' ''1h'' None None db' = map (td_candle ''1h'') [0, 3600000, 7200000]"
proof -
  let ?c = "[td_candle ''1h'' 3600000]"
  obtain db' where s: "store_candles_and_gaps (\<lambda>_. False) ?c [] ''BTCUSDT'' ''1h'' 5 None td_db = (Inr (), db')"
    using store_works by blast
  have own: "\<forall>c \<in> set ?c. c_symbol c = ''BTCUSDT'' \<and> c_interval c = ''1h''" by (simp add: td_candle_def)
  have "dedup_by_open_time (get_candles ''BTCUSDT'' ''1h'' None None td_db @ ?c) = map (td_candle ''1h'') [0, 3600000, 7200000]"
    by code_simp
  with stored_candles_are_the_union [OF s td_db_ok own] s show ?thesis by auto
qed

section \<open>The audit of gaps\<close>

lemma aggregate_fields:
  assumes "minutes \<noteq> []"
  shows "c_high (aggregate_1m_to_1h sy hour minutes) = Max (c_high ` set minutes) \<and>
    c_low (aggregate_1m_to_1h sy hour minutes) = Min (c_low ` set minutes) \<and>
    c_open (aggregate_1m_to_1h sy hour minutes) = c_open (hd minutes) \<and>
    c_close (aggregate_1m_to_1h sy hour minutes) = c_close (last minutes) \<and>
    open_time_ms (aggregate_1m_to_1h sy hour minutes) = hour"
  using assms by (cases minutes) (auto simp: aggregate_1m_to_1h_def foldl_max_Max foldl_min_Min simp del: foldl_Cons)

text \<open>A gap of one hour, and an exchange that has its sixty minutes.\<close>

definition td_minutes :: "candle list" where
  "td_minutes = map (\<lambda>i. td_candle ''1m'' (3600000 + i * 60000)) [0 .. 59]"

definition td_env :: "unit audit_env" where
  "td_env = \<lparr>au_api = table_api td_minutes, au_now = sreturn 0, au_emit = (\<lambda>_. sreturn ()), au_sha256 = (\<lambda>_. ''digest''),
     au_max_retries = 3, au_max_seconds_per_gap = MAX_SECONDS_PER_GAP, au_now_ms = 0\<rparr>"

definition td_gap :: gap_record where
  "td_gap = \<lparr>expected_open_time_ms = 3600000, previous_open_time_ms = 0, next_open_time_ms = 7200000, missing_intervals = 1\<rparr>"

definition td_existing :: "candle list" where
  "td_existing = map (td_candle ''1h'') [0, 7200000]"

lemma td_minutes_length: "length td_minutes = 60"
  by code_simp

lemma td_continuous: "is_continuous_60_minutes td_minutes 3600000"
  by code_simp

lemma td_minutes_sorted: "dedup_by_open_time td_minutes = td_minutes"
  by code_simp

lemma td_fetch: "fetch_1m_range td_env (1, 1) ''BTCUSDT'' 3600000 7200000 (Flt 60) () = (Inr (td_minutes, 7200000, None), ())"
 
  by code_simp

lemma td_native: "fetch_native_1h td_env (1, 1) ''BTCUSDT'' 3600000 () = (Inr None, ())"
  by code_simp

lemma td_own: "filter (\<lambda>c. 3600000 \<le> open_time_ms c \<and> open_time_ms c < 3600000 + ONE_HOUR_MS) td_minutes = td_minutes"
 
  by code_simp

lemma td_hours: "missing_hours_for_gap td_gap = [3600000]"
  by code_simp

definition td_candle_1h :: candle where
  "td_candle_1h = (td_candle ''1h'' 3600000)\<lparr>close_time_ms := 7199999\<rparr>"

lemma td_aggregate: "aggregate_1m_to_1h ''BTCUSDT'' 3600000 td_minutes = td_candle_1h"
  by code_simp

definition td_hour :: missing_hour where
  "td_hour = recovered_hour td_env 3600000 td_minutes td_candle_1h ''VALID_NATIVE_1H_UNAVAILABLE_AS_EXPECTED_FOR_A_CONFIRMED_GAP''"

definition td_outcome :: gap_result where
  "td_outcome = \<lparr>gf_gap = td_gap, gf_missing_hours = [td_hour]\<rparr>"

lemma td_cut: "\<not> RESEARCH_CUTOFF_MS \<le> 3600000" "3600000 < RESEARCH_CUTOFF_MS"
  by code_simp+

lemma td_env_sel [simp]: "au_now td_env = sreturn 0" "au_emit td_env = (\<lambda>_. sreturn ())" "au_max_seconds_per_gap td_env = Flt 60"
  by (simp_all add: td_env_def MAX_SECONDS_PER_GAP_def)

lemma td_deadline: "0 + Flt 60 = Flt 60" "(0 :: flt) < Flt 60"
  by code_simp+

lemma td_classify: "classify_hour td_env (1, 1) ''BTCUSDT'' (Flt 60) 3600000 td_minutes () = (Inr td_hour, ())"
proof -
  have "td_minutes \<noteq> []" using td_minutes_length by auto
  then show ?thesis by (simp add: classify_hour_def Let_def td_continuous td_aggregate td_deadline td_native sbind_def judged_hour_def td_hour_def)
qed

lemma td_analyze: "analyze_one_gap td_env (1, 1) ''BTCUSDT'' td_gap () = (Inr td_outcome, ())"
  by (simp add: analyze_one_gap_def td_deadline td_hours td_cut td_fetch td_minutes_sorted td_own td_classify ONE_HOUR_MS_def td_outcome_def sbind_def Let_def td_own [unfolded ONE_HOUR_MS_def, simplified])

lemma td_segments: "forensic_report td_env ''BTCUSDT'' ''1h'' (fst (split_at_cutoff td_existing)) [td_gap] False [td_outcome] \<noteq> Inl x"
proof -
  have m: "dedup_by_open_time (fst (split_at_cutoff td_existing) @ [td_candle_1h]) = [td_candle ''1h'' 0, td_candle_1h, td_candle ''1h'' 7200000]" (is "_ = ?m")
  by code_simp
  have "is_ok (segment_lengths ?m ''1h'')" "is_ok (count_round3_complete_blocks ?m ''1h'' multitimeframe_min_required_candles DEFAULT_BLOCK_DURATION_DAYS)"
  by code_simp+
  then obtain u v where "segment_lengths ?m ''1h'' = Inr u" "count_round3_complete_blocks ?m ''1h'' multitimeframe_min_required_candles DEFAULT_BLOCK_DURATION_DAYS = Inr v"
    by (auto simp: is_ok_iff)
  moreover have "recovered_candles [td_outcome] = Inr [td_candle_1h]"
    by (simp add: recovered_candles_def all_hours_def td_outcome_def td_hour_def recovered_hour_def)
  ultimately show ?thesis by (simp add: forensic_report_def m Let_def)
qed

lemma td_audit:
  "\<exists>report. run_gap_forensics td_env ''BTCUSDT'' ''1h'' td_existing [td_gap] ((), \<lparr>ap_results = [], ap_checkpoint = Some []\<rparr>)
    = (Inr report, ((), \<lparr>ap_results = [td_outcome], ap_checkpoint = Some (checkpoint_record td_outcome [])\<rparr>)) \<and>
    gq_gap_results report = [td_outcome] \<and> \<not> gq_interrupted report \<and> gq_symbol report = ''BTCUSDT'' \<and> gq_interval report = ''1h''"
proof -
  obtain report where r: "forensic_report td_env ''BTCUSDT'' ''1h'' (fst (split_at_cutoff td_existing)) [td_gap] False [td_outcome] = Inr report"
    using td_segments by (metis sum.exhaust)
  show ?thesis using r forensic_report_fields [OF r]
    by (simp add: run_gap_forensics_def audit_gap_def sbind_def checkpoint_get_def outside_def szoom_def td_analyze keep_result_def scatch_def Let_def)
qed

text \<open>
  C26. Recovery never fabricates a candle. Whatever the exchange answers and whenever the audit is
  interrupted, an hour is reported fully recoverable only when it lies before the research cutoff
  and sixty candles that the exchange answered open exactly on its sixty minutes; its candle
  has their first open, greatest high, least low and last close. Every other hour has no candle.
\<close>

theorem recovered_hour_is_sixty_minutes:
  assumes "run_gap_forensics env symbol interval existing confirmed s = (Inr report, t)"
    and "\<forall>q w page w'. ca_klines (au_api env) q w = (Inr (Inr page), w') \<longrightarrow> (\<forall>c \<in> set page. P c)"
    and "checkpoint_sound P symbol (ap_checkpoint (snd s))"
    and "r \<in> set (gq_gap_results report)" and "h \<in> set (gf_missing_hours r)"
  shows "if mh_outcome h = FULLY_RECOVERABLE
    then mh_open_time_ms h < RESEARCH_CUTOFF_MS \<and>
      (\<exists>minutes c. length minutes = 60 \<and> (\<forall>m \<in> set minutes. P m) \<and>
        (\<forall>i < 60. open_time_ms (minutes ! i) = mh_open_time_ms h + int i * 60000) \<and>
        mh_reconstructed_candle h = Some c \<and> open_time_ms c = mh_open_time_ms h \<and>
        c_open c = c_open (hd minutes) \<and> c_high c = Max (c_high ` set minutes) \<and>
        c_low c = Min (c_low ` set minutes) \<and> c_close c = c_close (last minutes))
    else mh_reconstructed_candle h = None"
proof -
  have "answers (au_api env) P" using assms(2) by (fastforce simp: answers_def yields_def)
  then have "result_sound P symbol r" using forensics_sound [OF assms(1) _ assms(3)] assms(4) by blast
  then have h: "hour_sound P symbol h" using assms(5) by (simp add: result_sound_def)
  show ?thesis
  proof (cases "mh_outcome h = FULLY_RECOVERABLE")
    case True
    with h obtain minutes where m: "sixty_minutes P (mh_open_time_ms h) minutes" "mh_open_time_ms h < RESEARCH_CUTOFF_MS"
      "mh_reconstructed_candle h = Some (aggregate_1m_to_1h symbol (mh_open_time_ms h) minutes)"
      unfolding hour_sound_def by auto
    then have "minutes \<noteq> []" by (auto simp: sixty_minutes_def)
    from aggregate_fields [OF this] m True show ?thesis unfolding sixty_minutes_def by auto
  qed (use h in \<open>simp add: hour_sound_def\<close>)
qed

theorem recovered_hour_is_sixty_minutes_witness:
  "mh_outcome td_hour = FULLY_RECOVERABLE \<and> (\<exists>minutes. length minutes = 60 \<and> set minutes \<subseteq> set td_minutes)"
proof -
  have own: "\<forall>q w page w'. ca_klines (au_api td_env) q w = (Inr (Inr page), w') \<longrightarrow> (\<forall>c \<in> set page. c \<in> set td_minutes)"
    by (auto simp: td_env_def table_api_def dest!: in_set_takeD)
  have ck: "checkpoint_sound (\<lambda>c. c \<in> set td_minutes) ''BTCUSDT'' (ap_checkpoint (snd ((), \<lparr>ap_results = [], ap_checkpoint = Some []\<rparr>)))"
    by (simp add: checkpoint_sound_def checkpoint_get_def)
  have h: "td_hour \<in> set (gf_missing_hours td_outcome)" and full: "mh_outcome td_hour = FULLY_RECOVERABLE"
    by (simp_all add: td_outcome_def td_hour_def recovered_hour_def)
  from td_audit obtain report where r: "run_gap_forensics td_env ''BTCUSDT'' ''1h'' td_existing [td_gap] ((), \<lparr>ap_results = [], ap_checkpoint = Some []\<rparr>)
      = (Inr report, ((), \<lparr>ap_results = [td_outcome], ap_checkpoint = Some (checkpoint_record td_outcome [])\<rparr>))"
    "gq_gap_results report = [td_outcome]" by blast
  have "td_outcome \<in> set (gq_gap_results report)" by (simp add: r(2))
  from recovered_hour_is_sixty_minutes [OF r(1) own ck this h] full show ?thesis by auto
qed



section \<open>Recovery\<close>

text \<open>
  C28. Recovery needs a completed audit, happens as a whole or not at all, and leaves the exact manifest:
  when it stores candles, reading the series returns the deduplicated union of the old candles and
  the recovered ones, and the gaps on record are exactly those of the segmentation of what is
  now stored, provided that the report covers every gap that was on record.
\<close>

theorem recovery_leaves_the_exact_manifest:
  assumes "apply_gap_recovery broken symbol interval report now db = (r, db')" and "db_ok db"
    and "\<forall>c \<in> set (stored_hours report). c_symbol c = symbol \<and> c_interval c = interval"
    and "\<forall>g \<in> set (get_gaps symbol interval db). \<exists>x \<in> set (gq_gap_results report). expected_open_time_ms (gf_gap x) = expected_open_time_ms g"
  shows "case r of
      Inl e \<Rightarrow> db' = db
    | Inr result \<Rightarrow> \<not> gq_interrupted report \<and>
        (if stored_hours report = [] then db' = db
         else db_ok db' \<and>
           get_candles symbol interval None None db' = dedup_by_open_time (get_candles symbol interval None None db @ stored_hours report) \<and>
           (\<exists>seg. partition_into_segments (get_candles symbol interval None None db') interval = Inr seg \<and>
              gaps seg = get_gaps symbol interval db' \<and> ry_remaining_confirmed_gaps result = get_gaps symbol interval db'))"
proof -
  let ?new = "stored_hours report" and ?ts = "map expected_open_time_ms (map gf_gap (gq_gap_results report))"
  let ?m = "dedup_by_open_time (get_candles symbol interval None None db @ ?new)"
  consider (rejected) e where "r = Inl e" "db' = db" | (nothing) "\<not> gq_interrupted report" "?new = []" "db' = db" "\<exists>x. r = Inr x"
    | (segmented) seg where "\<not> gq_interrupted report" "?new \<noteq> []" "partition_into_segments ?m interval = Inr seg"
        "sbind (store_candles_and_gaps broken ?new (gaps seg) symbol interval now (Some ?ts)) (\<lambda>_.
           sreturn \<lparr>ry_stored_candle_count = int (length ?new), ry_remaining_confirmed_gaps = gaps seg\<rparr>) db = (r, db')"
    using assms(1) by (cases "partition_into_segments ?m interval")
      (auto simp: apply_gap_recovery_def Let_def sbind_def slift_def split: if_splits)
  then show ?thesis
  proof cases
    case segmented
    obtain r1 d1 where s: "store_candles_and_gaps broken ?new (gaps seg) symbol interval now (Some ?ts) db = (r1, d1)" by fastforce
    from store_outcomes [OF s] show ?thesis
    proof
      assume "\<exists>e. r1 = Inl e \<and> d1 = db"
      then show ?thesis using segmented(4) s by auto
    next
      assume "r1 = Inr () \<and> d1 = stored ?new (gaps seg) symbol interval now (Some ?ts) db"
      then have d: "db' = stored ?new (gaps seg) symbol interval now (Some ?ts) db"
        and r: "r = Inr \<lparr>ry_stored_candle_count = int (length ?new), ry_remaining_confirmed_gaps = gaps seg\<rparr>"
        using segmented(4) s by auto
      have own: "\<And>c. c \<in> set ?new \<Longrightarrow> c_symbol c = symbol \<and> c_interval c = interval" using assms(3) by blast
      have candles: "get_candles symbol interval None None db' = ?m" unfolding d by (rule get_candles_stored [OF assms(2) own])
      have gs: "get_gaps symbol interval db' = gaps seg"
        unfolding d by (rule get_gaps_stored [OF assms(2) partition_gaps_increasing [OF segmented(3)]]) (use assms(4) in force)
      have "db_ok db'" unfolding d by (rule db_ok_stored [OF assms(2)])
      then show ?thesis using segmented(1,2,3) candles gs by (simp add: r)
    qed
  qed auto
qed

definition td_gap_db :: candle_db where
  "td_gap_db = upsert_gap_rows [td_gap] ''BTCUSDT'' ''1h'' 1 td_db"

lemma td_recovered: "dedup_by_open_time (get_candles ''BTCUSDT'' ''1h'' None None td_gap_db @ [td_candle_1h])
    = [td_candle ''1h'' 0, td_candle_1h, td_candle ''1h'' 7200000]"
  by code_simp

lemma td_whole: "partition_into_segments [td_candle ''1h'' 0, td_candle_1h, td_candle ''1h'' 7200000] ''1h''
    = Inr \<lparr>segments = [[td_candle ''1h'' 0, td_candle_1h, td_candle ''1h'' 7200000]], gaps = []\<rparr>"
  by code_simp

theorem recovery_leaves_the_exact_manifest_witness:
  "\<exists>report result db'. apply_gap_recovery (\<lambda>_. False) ''BTCUSDT'' ''1h'' report 2 td_gap_db = (Inr result, db') \<and>
    get_candles ''BTCUSDT'' ''1h'' None None db' = [td_candle ''1h'' 0, td_candle_1h, td_candle ''1h'' 7200000] \<and>
    get_gaps ''BTCUSDT'' ''1h'' db' = []"
proof -
  from td_audit obtain report :: gap_report where r: "gq_gap_results report = [td_outcome]" "\<not> gq_interrupted report"
    "gq_symbol report = ''BTCUSDT''" "gq_interval report = ''1h''" by blast
  have new: "stored_hours report = [td_candle_1h]"
    by (simp add: stored_hours_def r(1) all_hours_def td_outcome_def td_hour_def recovered_hour_def map_filter_simps)
  have run: "\<exists>result db'. apply_gap_recovery (\<lambda>_. False) ''BTCUSDT'' ''1h'' report 2 td_gap_db = (Inr result, db')"
    by (simp add: apply_gap_recovery_def r new Let_def sbind_def td_recovered td_whole store_works)
  then obtain result db' where a: "apply_gap_recovery (\<lambda>_. False) ''BTCUSDT'' ''1h'' report 2 td_gap_db = (Inr result, db')" by blast
  have own: "\<forall>c \<in> set (stored_hours report). c_symbol c = ''BTCUSDT'' \<and> c_interval c = ''1h''"
    by (simp add: new td_candle_1h_def td_candle_def)
  have ok: "db_ok td_gap_db" by code_simp
  have "get_gaps ''BTCUSDT'' ''1h'' td_gap_db = [td_gap]" by code_simp
  then have covered: "\<forall>g \<in> set (get_gaps ''BTCUSDT'' ''1h'' td_gap_db). \<exists>x \<in> set (gq_gap_results report).
      expected_open_time_ms (gf_gap x) = expected_open_time_ms g"
    by (simp add: r(1) td_outcome_def)
  from recovery_leaves_the_exact_manifest [OF a ok own covered] have "get_candles ''BTCUSDT'' ''1h'' None None db' = [td_candle ''1h'' 0, td_candle_1h, td_candle ''1h'' 7200000]
      \<and> get_gaps ''BTCUSDT'' ''1h'' db' = []" by (auto simp: new td_recovered td_whole)
  with a show ?thesis by blast
qed

text \<open>
  The checkpoint returns what was recorded: after a result is recorded, asking for its gap returns
  exactly that result, read back from its JSON form, and asking for any other gap returns what
  it did before.
\<close>

theorem checkpoint_returns_what_was_recorded:
  "checkpoint_get (checkpoint_record result ck) gap =
     (if gap = gf_gap result then Inr (Some result) else checkpoint_get ck gap)"
  by (rule checkpoint_get_record)

end
