(* ===== verification/Bucket_Facts.thy ===== *)
theory Bucket_Facts
  imports Multi_Timeframe
begin

text \<open>
  Aggregation of contiguous hourly candles: the loop over runs computes exactly the windows
  that start on the grid and are complete. A grid is an interface with the 4-hour and the
  weekly one as its instances.
\<close>

lemma length_takeWhile_eqI:
  assumes "\<And>i. i < k \<Longrightarrow> P (xs ! i)" "k \<le> length xs" "k < length xs \<Longrightarrow> \<not> P (xs ! k)"
  shows "length (takeWhile P xs) = k"
  using takeWhile_eq_take_P_nth [of k xs P] assms by (simp add: min_absorb2)

lemma upt_split: "k \<le> n \<Longrightarrow> [0 ..< n] = [0 ..< k] @ [k ..< n]" for k n :: nat
  using upt_add_eq_append [of 0 k "n - k"] by simp

lemma mod_shift: "t mod p = 0 \<Longrightarrow> 0 \<le> x \<Longrightarrow> x < p \<Longrightarrow> (t + x) mod p = x" for t p x :: int
  by (metis add_0 mod_add_left_eq mod_pos_pos_trivial)

lemma contiguous_nth: "contiguous w cs \<Longrightarrow> i < length cs \<Longrightarrow> open_time_ms (cs ! i) = open_time_ms (cs ! 0) + int i * w"
  by (induction i) (auto simp: contiguous_def algebra_simps)

lemma contiguous_drop: "contiguous w cs \<Longrightarrow> contiguous w (drop k cs)"
  by (simp add: contiguous_def)

lemma contiguous_take: "contiguous w cs \<Longrightarrow> contiguous w (take k cs)"
  by (simp add: contiguous_def)

locale grid =
  fixes start_fn :: "int \<Rightarrow> int" and hours :: nat
  assumes hours_pos: "0 < hours"
    and start_le: "start_fn t \<le> t"
    and start_stays: "start_fn t = t \<Longrightarrow> k < hours \<Longrightarrow> start_fn (t + int k * HOUR_MS) = t"
    and start_moves: "start_fn t = t \<Longrightarrow> start_fn (t + int hours * HOUR_MS) \<noteq> t"
begin

definition on_grid :: "candle list \<Rightarrow> nat \<Rightarrow> bool" where
  "on_grid cs k \<longleftrightarrow> start_fn (open_time_ms (cs ! k)) = open_time_ms (cs ! k) \<and> k + hours \<le> length cs"

definition window :: "int \<Rightarrow> candle list \<Rightarrow> nat \<Rightarrow> completed_bucket" where
  "window i cs k = \<lparr>cb_candle = bucket_candle (int hours) (take hours (drop k cs)), cb_last_hour_index = i + int (k + hours) - 1\<rparr>"

definition windows :: "int \<Rightarrow> candle list \<Rightarrow> completed_bucket list" where
  "windows i cs = map (window i cs) (filter (on_grid cs) [0 ..< length cs])"

text \<open>The run of candles that share the bucket of the first one.\<close>

abbreviation same_bucket :: "candle list \<Rightarrow> candle \<Rightarrow> bool" where
  "same_bucket cs d \<equiv> start_fn (open_time_ms d) = start_fn (open_time_ms (cs ! 0))"

definition run :: "candle list \<Rightarrow> nat" where
  "run cs = length (takeWhile (same_bucket cs) cs)"

lemma run_pos: "cs \<noteq> [] \<Longrightarrow> 0 < run cs"
  by (cases cs) (simp_all add: run_def)

lemma run_le: "run cs \<le> length cs"
  by (simp add: run_def length_takeWhile_le)

lemma in_run:
  assumes "k < run cs"
  shows "same_bucket cs (cs ! k)"
proof -
  have "takeWhile (same_bucket cs) cs ! k \<in> set (takeWhile (same_bucket cs) cs)"
    by (rule nth_mem) (use assms in \<open>simp add: run_def\<close>)
  from set_takeWhileD [OF this] takeWhile_nth [of k "same_bucket cs" cs] assms show ?thesis by (simp add: run_def)
qed

lemma on_grid_run:
  assumes "contiguous HOUR_MS cs" "k < run cs" "on_grid cs k"
  shows "k = 0"
proof (rule ccontr)
  assume k: "k \<noteq> 0"
  have "k < length cs" using assms(2) run_le by (metis le_trans not_le)
  then have "open_time_ms (cs ! 0) < open_time_ms (cs ! k)" using contiguous_nth [OF assms(1)] k by (simp add: HOUR_MS_def)
  moreover have "open_time_ms (cs ! k) = start_fn (open_time_ms (cs ! 0))"
    using in_run [OF assms(2)] assms(3) by (simp add: on_grid_def)
  ultimately show False using start_le [of "open_time_ms (cs ! 0)"] by linarith
qed

lemma run_complete:
  assumes "contiguous HOUR_MS cs" "on_grid cs 0"
  shows "run cs = hours"
  unfolding run_def
proof (rule length_takeWhile_eqI)
  let ?t = "open_time_ms (cs ! 0)"
  have t: "start_fn ?t = ?t" and n: "hours \<le> length cs" using assms(2) by (simp_all add: on_grid_def)
  show "hours \<le> length cs" by (rule n)
  show "same_bucket cs (cs ! i)" if "i < hours" for i
    using that contiguous_nth [OF assms(1), of i] start_stays [OF t that] n t by simp
  show "\<not> same_bucket cs (cs ! hours)" if "hours < length cs"
    using that contiguous_nth [OF assms(1) that] start_moves [OF t] t by simp
qed

lemma complete_iff:
  assumes "contiguous HOUR_MS cs" "cs \<noteq> []"
  shows "bucket_complete (int hours) (start_fn (open_time_ms (cs ! 0))) (take (run cs) cs) \<longleftrightarrow> on_grid cs 0"
proof
  have h: "hd (take (run cs) cs) = cs ! 0" using run_pos [OF assms(2)] assms(2) by (cases cs; cases "run cs") auto
  { assume "bucket_complete (int hours) (start_fn (open_time_ms (cs ! 0))) (take (run cs) cs)"
    then show "on_grid cs 0" using h run_le [of cs] by (simp add: bucket_complete_def on_grid_def min_absorb2) }
  assume o: "on_grid cs 0"
  then have l: "hours \<le> length cs" "start_fn (open_time_ms (cs ! 0)) = open_time_ms (cs ! 0)" by (simp_all add: on_grid_def)
  have "open_time_ms (take hours cs ! (k + 1)) - open_time_ms (take hours cs ! k) = HOUR_MS" if "k < hours - 1" for k
    using that assms(1) l by (simp add: contiguous_def)
  then show "bucket_complete (int hours) (start_fn (open_time_ms (cs ! 0))) (take (run cs) cs)"
    using l h run_complete [OF assms(1) o] by (simp add: bucket_complete_def)
qed

lemma windows_split:
  assumes "contiguous HOUR_MS cs" "cs \<noteq> []"
  shows "windows i cs = (if on_grid cs 0 then [window i cs 0] else []) @ windows (i + int (run cs)) (drop (run cs) cs)"
proof -
  let ?r = "run cs" and ?n = "length cs"
  have "[0 ..< ?n] = [0 ..< ?r] @ map (\<lambda>k. k + ?r) [0 ..< ?n - ?r]"
    using upt_split [OF run_le [of cs]] run_le [of cs] by (simp add: map_add_upt)
  moreover have "filter (on_grid cs) [0 ..< ?r] = (if on_grid cs 0 then [0] else [])"
  proof -
    have "[0 ..< ?r] = 0 # [1 ..< ?r]" using run_pos [OF assms(2)] by (simp add: upt_conv_Cons)
    moreover have "filter (on_grid cs) [1 ..< ?r] = []" using on_grid_run [OF assms(1)] by (fastforce simp: filter_empty_conv)
    ultimately show ?thesis by simp
  qed
  moreover have "filter (on_grid cs) (map (\<lambda>k. k + ?r) [0 ..< ?n - ?r]) = map (\<lambda>k. k + ?r) (filter (on_grid (drop ?r cs)) [0 ..< ?n - ?r])"
    unfolding filter_map using run_le [of cs] by (intro arg_cong2 [where f = map] filter_cong) (auto simp: on_grid_def add.commute)
  moreover have "window i cs (k + ?r) = window (i + int ?r) (drop ?r cs) k" for k
    by (simp add: window_def add_ac)
  ultimately show ?thesis by (simp add: windows_def comp_def)
qed

theorem buckets_are_windows:
  "contiguous HOUR_MS cs \<Longrightarrow> buckets_from (int hours) start_fn i cs = windows i cs"
proof (induction "length cs" arbitrary: i cs rule: less_induct)
  case (less all)
  show ?case
  proof (cases all)
    case Nil
    then show ?thesis by (simp add: windows_def)
  next
    case (Cons c cs)
  have k: "contiguous HOUR_MS (c # cs)" using less(2) Cons by simp
  let ?cs = "c # cs" and ?Q = "\<lambda>d. start_fn (open_time_ms d) = start_fn (open_time_ms c)"
  have q1: "c # takeWhile ?Q cs = take (run ?cs) ?cs"
    using takeWhile_eq_take [of "same_bucket ?cs" ?cs] by (simp add: run_def)
  have q2: "dropWhile ?Q cs = drop (run ?cs) ?cs"
    using dropWhile_eq_drop [of "same_bucket ?cs" ?cs] by (simp add: run_def)
  note q = q1 q2
  have l: "length (take (run ?cs) ?cs) = run ?cs" using run_le [of ?cs] by simp
  have rest: "buckets_from (int hours) start_fn (i + int (run ?cs)) (drop (run ?cs) ?cs)
      = windows (i + int (run ?cs)) (drop (run ?cs) ?cs)"
    using less(1) contiguous_drop [OF less(2), of "run all"] run_pos [of all] Cons by simp
  have "buckets_from (int hours) start_fn i ?cs =
    (if bucket_complete (int hours) (start_fn (open_time_ms c)) (take (run ?cs) ?cs)
     then [\<lparr>cb_candle = bucket_candle (int hours) (take (run ?cs) ?cs), cb_last_hour_index = i + int (run ?cs) - 1\<rparr>] else [])
     @ windows (i + int (run ?cs)) (drop (run ?cs) ?cs)"
    unfolding buckets_from.simps Let_def q l rest by simp
  also have "\<dots> = windows i ?cs"
    using complete_iff [OF k] run_complete [OF k] windows_split [OF k, of i] by (simp add: window_def)
  finally show ?thesis using Cons by simp
  qed
qed

text \<open>Later candles only add buckets.\<close>

lemma filter_bounded_prefix:
  fixes m n :: nat
  assumes "m \<le> n" "\<And>k. k < m \<Longrightarrow> P k \<longleftrightarrow> Q k \<and> k + h \<le> m" "0 < h"
  shows "\<exists>ys. filter (\<lambda>k. Q k \<and> k + h \<le> n) [0 ..< n] = filter P [0 ..< m] @ filter (\<lambda>k. Q k \<and> k + h \<le> n) ys"
proof -
  let ?R = "\<lambda>k. Q k \<and> k + h \<le> n" and ?d = "m + 1 - h"
  have "[0 ..< n] = [0 ..< min ?d n] @ [min ?d n ..< n]" by (rule upt_split) simp
  moreover have "filter ?R [0 ..< min ?d n] = filter P [0 ..< min ?d n]"
    using assms by (intro filter_cong) auto
  moreover have "filter P [0 ..< m] = filter P [0 ..< min ?d n]"
  proof -
    have d: "min ?d n \<le> m" using assms(1,3) by linarith
    then have "[0 ..< m] = [0 ..< min ?d n] @ [min ?d n ..< m]" by (rule upt_split)
    moreover have "filter P [min ?d n ..< m] = []" using assms by (auto simp: filter_empty_conv)
    ultimately show ?thesis by simp
  qed
  ultimately have "filter ?R [0 ..< n] = filter P [0 ..< m] @ filter ?R [min ?d n ..< n]" by (simp only: filter_append)
  then show ?thesis by blast
qed

lemma windows_take:
  assumes "m \<le> length cs"
  shows "\<exists>ys. windows i cs = windows i (take m cs) @ ys"
proof -
  let ?Q = "\<lambda>k. start_fn (open_time_ms (cs ! k)) = open_time_ms (cs ! k)"
  have p: "on_grid (take m cs) k \<longleftrightarrow> ?Q k \<and> k + hours \<le> m" if "k < m" for k
    using that assms by (simp add: on_grid_def)
  obtain ys where y: "filter (on_grid cs) [0 ..< length cs] = filter (on_grid (take m cs)) [0 ..< m] @ ys"
    using filter_bounded_prefix [OF assms p hours_pos] unfolding on_grid_def by blast
  have "window i cs k = window i (take m cs) k" if "k \<in> set (filter (on_grid (take m cs)) [0 ..< m])" for k
  proof -
    have "k + hours \<le> m" using that assms by (simp add: on_grid_def)
    then show ?thesis by (simp add: window_def drop_take min_def)
  qed
  then show ?thesis using assms unfolding windows_def y by (auto simp: min_def)
qed

lemma buckets_take:
  assumes "contiguous HOUR_MS cs" "m \<le> length cs"
  shows "\<exists>ys. aggregate_completed_buckets cs (int hours) start_fn = aggregate_completed_buckets (take m cs) (int hours) start_fn @ ys"
  unfolding aggregate_completed_buckets_def
  using buckets_are_windows [OF assms(1)] buckets_are_windows [OF contiguous_take [OF assms(1)]] windows_take [OF assms(2)] by simp

text \<open>A bucket closes with its last hour, which is visible, and its start is on the grid.\<close>

lemma bucket_member:
  assumes "contiguous HOUR_MS cs" "b \<in> set (aggregate_completed_buckets cs (int hours) start_fn)"
  shows "\<exists>k. on_grid cs k \<and> cb_last_hour_index b = int (k + hours) - 1 \<and> cb_candle b = bucket_candle (int hours) (take hours (drop k cs))"
  using assms buckets_are_windows [OF assms(1)]
  by (auto simp: aggregate_completed_buckets_def windows_def window_def)

end

interpretation four_h: grid four_h_bucket_start_ms 4
proof
  fix t :: int and k :: nat
  show "four_h_bucket_start_ms t \<le> t" by (simp add: four_h_bucket_start_ms_def mtf_constants)
  { assume "four_h_bucket_start_ms t = t"
    then have t: "t mod 14400000 = 0" by (simp add: four_h_bucket_start_ms_def mtf_constants)
    show "four_h_bucket_start_ms (t + int k * HOUR_MS) = t" if "k < 4"
      using mod_shift [OF t, of "int k * 3600000"] that by (simp add: four_h_bucket_start_ms_def mtf_constants)
    show "four_h_bucket_start_ms (t + int 4 * HOUR_MS) \<noteq> t"
      using t by (simp add: four_h_bucket_start_ms_def mtf_constants) }
qed simp

lemma weekly_start: "weekly_bucket_start_ms t = t - (t + 259200000) mod 604800000"
  by (simp add: weekly_bucket_start_ms_def Let_def mtf_constants)

interpretation weekly: grid weekly_bucket_start_ms 168
proof
  fix t :: int and k :: nat
  show "weekly_bucket_start_ms t \<le> t" by (simp add: weekly_start)
  { assume "weekly_bucket_start_ms t = t"
    then have t: "(t + 259200000) mod 604800000 = 0" by (simp add: weekly_start)
    have e: "t + int k * HOUR_MS + 259200000 = (t + 259200000) + int k * 3600000" for k by (simp add: mtf_constants)
    show "weekly_bucket_start_ms (t + int k * HOUR_MS) = t" if "k < 168"
      unfolding weekly_start e using mod_shift [OF t, of "int k * 3600000"] that by (simp add: mtf_constants)
    have "(t + 259200000 + 604800000) mod 604800000 = 0" using t by (simp only: mod_add_self2)
    then show "weekly_bucket_start_ms (t + int 168 * HOUR_MS) \<noteq> t"
      unfolding weekly_start e by (simp add: mtf_constants) }
qed simp

end
