(* ===== verification/Candidate_Facts.thy ===== *)
theory Candidate_Facts
  imports Bucket_Facts
begin

text \<open>
  What the candidates' answers rest on: the first and the last hit of a bounded search, the
  shape of a buy of each candidate, and causality of the 4-hour series. The contract of
  pandas the candidates rely on is a locale, with a plain implementation as its instance.
\<close>

section \<open>Bounded searches\<close>

lemma find_upt_Some: "find P [a ..< b] = Some x \<longleftrightarrow> a \<le> x \<and> x < b \<and> P x \<and> (\<forall>y. a \<le> y \<and> y < x \<longrightarrow> \<not> P y)" for a b x :: nat
proof
  assume "a \<le> x \<and> x < b \<and> P x \<and> (\<forall>y. a \<le> y \<and> y < x \<longrightarrow> \<not> P y)"
  then show "find P [a ..< b] = Some x" unfolding find_Some_iff by (intro exI [of _ "x - a"]) auto
qed (auto simp: find_Some_iff, metis add_diff_inverse_nat diff_less_mono leD not_less nat_add_left_cancel_less)

lemma find_rev_upt_Some:
  "find P (rev [a ..< b]) = Some x \<longleftrightarrow> a \<le> x \<and> x < b \<and> P x \<and> (\<forall>y. x < y \<and> y < b \<longrightarrow> \<not> P y)" for a b x :: nat
proof (induction b)
  case (Suc b)
  then show ?case by (auto simp: less_Suc_eq)
qed simp

lemma find_upto_Some: "find P [a .. b] = Some x \<longleftrightarrow> a \<le> x \<and> x \<le> b \<and> P x \<and> (\<forall>y. a \<le> y \<and> y < x \<longrightarrow> \<not> P y)" for a b x :: int
proof
  assume "a \<le> x \<and> x \<le> b \<and> P x \<and> (\<forall>y. a \<le> y \<and> y < x \<longrightarrow> \<not> P y)"
  then show "find P [a .. b] = Some x" unfolding find_Some_iff by (intro exI [of _ "nat (x - a)"]) auto
next
  assume "find P [a .. b] = Some x"
  then obtain i where i: "i < nat (b - a + 1)" "P (a + int i)" "x = a + int i" "\<forall>j < i. \<not> P (a + int j)"
    unfolding find_Some_iff by auto
  have "\<not> P y" if "a \<le> y" "y < x" for y using i(4) [rule_format, of "nat (y - a)"] that i(3) by simp
  with i show "a \<le> x \<and> x \<le> b \<and> P x \<and> (\<forall>y. a \<le> y \<and> y < x \<longrightarrow> \<not> P y)" by auto
qed

section \<open>The contract of pandas\<close>

locale pandas_series =
  fixes pd :: pandas
  assumes ewm_causal: "causal (\<lambda>xs. pd_ewm pd xs p)"
    and mean_causal: "causal (\<lambda>xs. pd_mean pd xs p)"
    and max_causal: "causal (\<lambda>xs. pd_max pd xs p)"
    and max_window: "0 < p \<Longrightarrow> int i + 1 \<ge> p \<Longrightarrow> i < length xs \<Longrightarrow>
      pd_max pd xs p ! i = Some (Max (set (take (nat p) (drop (i + 1 - nat p) xs))))"
begin

lemmas ewm_take = causal.causal_take [OF ewm_causal] and ewm_length = causal.causal_length [OF ewm_causal]
lemmas mean_take = causal.causal_take [OF mean_causal] and mean_length = causal.causal_length [OF mean_causal]
lemmas max_take = causal.causal_take [OF max_causal] and max_length = causal.causal_length [OF max_causal]

lemma atr_take: "pd_mean pd (true_range (take n cs)) p = take n (pd_mean pd (true_range cs) p)"
  by (simp add: tr.causal_take mean_take)

lemma atr_length: "length (pd_mean pd (true_range cs) p) = length cs"
  by (simp add: tr.causal_length mean_length)

end

lemma closes_of_take: "closes_of (take n cs) = take n (closes_of cs)"
  by (simp add: closes_of_def take_map)

lemma closes_of_length [simp]: "length (closes_of cs) = length cs"
  by (simp add: closes_of_def)

lemma nth_res_int: "nth_res xs i = Inr x \<Longrightarrow> 0 \<le> i \<Longrightarrow> nat i < length xs \<and> x = xs ! nat i"
  by (auto simp: nth_res_def Let_def split: if_splits)

lemma nth_res_last_iff: "nth_res xs (-1) = Inr x \<longleftrightarrow> xs \<noteq> [] \<and> x = last xs"
  using nth_res_last [of xs] by (cases "xs = []") (auto simp: nth_res_def)

section \<open>Trend: the shape of a buy\<close>

lemma answer_type [simp]: "sg_type (answer ty reason l inputs) = ty"
  by (simp add: answer_def)

lemma trend_buy:
  assumes "trend_signal pd s cs pos = Inr sig" "sg_type sig = BUY"
  shows "\<exists>fast slow atrs k. fast = pd_ewm pd (closes_of cs) (tg_ema_fast_period s) \<and>
    slow = pd_ewm pd (closes_of cs) (tg_ema_slow_period s) \<and> atrs = pd_mean pd (true_range cs) (tg_atr_period s) \<and>
    pos \<noteq> LONG \<and> cs \<noteq> [] \<and> slow ! (length cs - 1) < fast ! (length cs - 1) \<and>
    crossover_index fast slow (nat (tg_min_required s - 1)) (length cs - 1) = Some k \<and>
    confirmation_index fast slow atrs (tg_min_trend_strength_atr s) k (length cs - 1) = Some (length cs - 1)"
proof -
  have cyc: "(case cycle_decision c cur pos of (ty, reason) \<Rightarrow> Inr (answer ty reason l inp)) = (Inr sig :: signal result)
      \<Longrightarrow> pos \<noteq> LONG \<and> c = Some cur" for c cur l inp
    using assms(2) by (auto simp: cycle_decision_def split: option.splits if_splits)
  have bear: "(case bearish_decision f sl cur pos of (ty, reason) \<Rightarrow> Inr (answer ty reason l inp)) \<noteq> (Inr sig :: signal result)"
    for f sl cur l inp using assms(2) by (auto simp: bearish_decision_def)
  show ?thesis
    using assms
    by (auto simp: trend_signal_def Let_def ema_def atr_def rolling_indicator_def nth_res_last_iff bear
        split: if_splits option.splits dest!: cyc)
qed

section \<open>Gated breakout on the prefix of a series\<close>

lemma preceding_of_prefix:
  assumes "p \<le> i" "i < length cs"
  shows "preceding_candles (int p) (take (i + 1) cs) = take p (drop (i - p) cs)"
proof -
  have l: "length (take (i + 1) cs) = i + 1" using assms by simp
  have "drop (i + 1 - nat (int p + 1)) (take (i + 1) cs) = take (p + 1) (drop (i - p) cs)"
    using assms by (simp add: drop_take nat_add_distrib)
  then show ?thesis using assms unfolding preceding_candles_def l by (simp add: butlast_take min_def)
qed

lemma list_max_Max: "xs \<noteq> [] \<Longrightarrow> list_max xs = Inr (Max (set xs))"
proof -
  assume "xs \<noteq> []"
  then obtain m where m: "list_max xs = Inr m" by (cases xs) (auto simp: list_max_def)
  then show ?thesis using list_max_greatest [OF m] by (auto intro!: Max_eqI [symmetric])
qed

definition d1_breakout :: breakout where
  "d1_breakout = \<lparr>vb_channel_period = 20, vb_atr_period = 14, vb_breakout_atr_multiple = Flt (1 / 4)\<rparr>"

lemma d1_min_required: "vb_min_required d1_breakout = 21" "gated_min_required d1_breakout = 220"
  by (simp_all add: vb_min_required_def d1_breakout_def gated_min_required_def EMA_REGIME_PERIOD_def EMA_REGIME_SLOPE_LOOKBACK_CANDLES_def)

lemma nth_res_take_last: "i < length xs \<Longrightarrow> nth_res (take (i + 1) xs) (-1) = Inr (xs ! i)"
  by (simp add: nth_res_last_iff take_Suc_conv_app_nth)

lemma nth_res_take_nat: "j \<le> i \<Longrightarrow> i < length xs \<Longrightarrow> nth_res (take (i + 1) xs) (int j) = Inr (xs ! j)"
  by simp

context pandas_series
begin

text \<open>The breakout on the candles up to index \<open>i\<close>, when the position is flat.\<close>

lemma breakout_on_prefix:
  assumes "20 \<le> i" "i < length cs"
  defines "level \<equiv> Max (set (take 20 (drop (i - 20) (map (\<lambda>c. float_of_dec (c_high c)) cs))))"
  shows "\<exists>inputs hold. breakout_signal pd d1_breakout (take (i + 1) cs) FLAT = Inr
    (if breakout_confirmed (Flt (1 / 4)) (float_of_dec (c_close (cs ! i)) - level) (pd_mean pd (true_range cs) 14 ! i)
     then answer BUY ''VOLATILITY_CONFIRMED_UPSIDE_BREAKOUT'' (cs ! i) inputs else answer HOLD hold (cs ! i) inputs) \<and>
    (''donchian_high'', JFlt level) \<in> set inputs"
proof -
  let ?p = "take (i + 1) cs" and ?pre = "take 20 (drop (i - 20) cs)"
  have pre: "preceding_candles 20 ?p = ?pre" using preceding_of_prefix [OF assms(1,2)] by simp
  have ne: "?pre \<noteq> []" using assms(1,2) by simp
  have hi: "list_max (map (\<lambda>c. float_of_dec (c_high c)) ?pre) = Inr level"
    unfolding level_def using ne by (subst list_max_Max) (simp_all add: take_map drop_map)
  obtain lo where lo: "list_min (map (\<lambda>c. float_of_dec (c_low c)) ?pre) = Inr lo"
    using ne by (cases ?pre) (auto simp: list_min_def)
  have atr: "nth_res (pd_mean pd (true_range ?p) 14) (-1) = Inr (pd_mean pd (true_range cs) 14 ! i)"
    unfolding atr_take by (rule nth_res_take_last) (use assms(2) in \<open>simp add: atr_length\<close>)
  have len: "\<not> int (length ?p) < vb_min_required d1_breakout" using assms(1,2) by (simp add: d1_min_required)
  let ?inputs = "[(''symbol'', JStr (c_symbol (cs ! i))), (''close'', JFlt (float_of_dec (c_close (cs ! i)))),
    (''donchian_high'', JFlt level), (''donchian_low'', JFlt lo), (''atr_curr'', jnum (pd_mean pd (true_range cs) 14 ! i)),
    (''breakout_atr_multiple'', JFlt (Flt (1 / 4))), (''current_position'', JStr (side_value FLAT))]"
  have params: "vb_channel_period d1_breakout = 20" "vb_atr_period d1_breakout = 14"
    "vb_breakout_atr_multiple d1_breakout = Flt (1 / 4)" by (simp_all add: d1_breakout_def)
  have "breakout_signal pd d1_breakout ?p FLAT = Inr
    (if breakout_confirmed (Flt (1 / 4)) (float_of_dec (c_close (cs ! i)) - level) (pd_mean pd (true_range cs) 14 ! i)
     then answer BUY ''VOLATILITY_CONFIRMED_UPSIDE_BREAKOUT'' (cs ! i) ?inputs
     else answer HOLD ''HOLD_NO_CONFIRMED_BREAKOUT'' (cs ! i) ?inputs)"
    unfolding breakout_signal_def params
    using len by (simp add: nth_res_take_last [OF assms(2), simplified] pre [simplified] hi lo atr [simplified] atr_def rolling_indicator_def Let_def)
  then show ?thesis by (intro exI conjI) (assumption, simp)
qed

text \<open>The gate behind it, and its agreement with the 4-hour setups of the multi-timeframe candidate.\<close>

lemma setup_iff_gated:
  assumes x: "four_h_series_of pd cs = Inr x" and i: "219 \<le> i" "i < length cs"
  shows "\<exists>sig c'. gated_breakout_signal pd d1_breakout (take (i + 1) cs) FLAT c = (Inr sig, c') \<and>
    (sg_type sig = BUY \<longleftrightarrow> four_h_setup x i \<noteq> None) \<and>
    (\<forall>level. four_h_setup x i = Some level \<longrightarrow> (''donchian_high'', JFlt level) \<in> set (sg_inputs sig))"
proof -
  define level where "level = Max (set (take 20 (drop (i - 20) (map (\<lambda>c. float_of_dec (c_high c)) cs))))"
  let ?E = "pd_ewm pd (closes_of cs) 200" and ?p = "take (i + 1) cs" and ?A = "pd_mean pd (true_range cs) 14"
  have X: "fs_closes x = closes_of cs" "fs_ema200 x = ?E" "fs_atr14 x = ?A"
    "fs_donchian x = pd_max pd (map (\<lambda>c. float_of_dec (c_high c)) cs) 20"
    using x by (auto simp: four_h_series_of_def Let_def ema_def atr_def rolling_indicator_def mtf_constants)
  have don: "fs_donchian x ! (i - 1) = Some level"
    using max_window [of 20 "i - 1" "map (\<lambda>c. float_of_dec (c_high c)) cs"] i by (simp add: X level_def)
  have close: "closes_of cs ! i = float_of_dec (c_close (cs ! i))" using i by (simp add: closes_of_def)
  obtain inputs hold where b: "breakout_signal pd d1_breakout ?p FLAT = Inr
    (if breakout_confirmed (Flt (1 / 4)) (float_of_dec (c_close (cs ! i)) - level) (?A ! i)
     then answer BUY ''VOLATILITY_CONFIRMED_UPSIDE_BREAKOUT'' (cs ! i) inputs else answer HOLD hold (cs ! i) inputs)"
    and l: "(''donchian_high'', JFlt level) \<in> set inputs"
    using breakout_on_prefix [of i cs] i unfolding level_def by auto
  have setup_at_i: "four_h_setup x i = (if breakout_confirmed (Flt (1 / 4)) (closes_of cs ! i - level) (?A ! i) \<and>
      ?E ! i < closes_of cs ! i \<and> ?E ! (i - 20) < ?E ! i then Some level else None)"
    unfolding four_h_setup_def don X(1-3) FOUR_H_BREAKOUT_ATR_MULTIPLE_def FOUR_H_EMA_SLOPE_LOOKBACK_CANDLES_def by simp
  have len: "\<not> int (length ?p) < gated_min_required d1_breakout" "int (length ?p) - 1 = int i" "int i - 20 = int (i - 20)"
    using i by (simp_all add: d1_min_required)
  have e: "pd_ewm pd (closes_of ?p) 200 = take (i + 1) ?E" by (simp add: closes_of_take ewm_take)
  have E: "nth_res (take (i + 1) ?E) (int i) = Inr (?E ! i)" "nth_res (take (i + 1) ?E) (int (i - 20)) = Inr (?E ! (i - 20))"
    "nth_res (take (i + 1) (closes_of cs)) (int i) = Inr (closes_of cs ! i)"
    by (rule nth_res_take_nat; use i in \<open>simp add: ewm_length\<close>)+
  show ?thesis
  proof (cases "breakout_confirmed (Flt (1 / 4)) (float_of_dec (c_close (cs ! i)) - level) (?A ! i)")
    case False
    then show ?thesis using len(1) b by (simp add: gated_breakout_signal_def setup_at_i close sbind_def slift_def sreturn_def)
  next
    case True
    have "gated_breakout_signal pd d1_breakout ?p FLAT c =
      gate_decision inputs (close_time_ms (cs ! i)) (closes_of cs ! i) (?E ! i) (?E ! (i - 20))
        (c\<lparr>gc_breakout_signals_evaluated := gc_breakout_signals_evaluated c + 1\<rparr>)"
      unfolding gated_breakout_signal_def Let_def len(2) EMA_REGIME_SLOPE_LOOKBACK_CANDLES_def len(3)
      using len(1) b True e E
      by (simp add: closes_of_take ema_def EMA_REGIME_PERIOD_def sbind_def slift_def smodify_def answer_def del: nth_res_nat)
    then show ?thesis using True l
      by (auto simp: gate_decision_def gated_inputs_def setup_at_i close sbind_def smodify_def sreturn_def Let_def)
  qed
qed

end

section \<open>Multi-timeframe: the shape of a buy\<close>

lemma governing_from_max:
  "governing_from e es \<in> set (e # es) \<and> (\<forall>f \<in> set (e # es). se_setup_hour_index f \<le> se_setup_hour_index (governing_from e es))"
proof (induction es arbitrary: e)
  case (Cons f es)
  from Cons [of e] Cons [of f] show ?case by auto
qed simp

definition governing_buy :: "int \<Rightarrow> setup_event list \<Rightarrow> setup_event \<Rightarrow> bool" where
  "governing_buy current_idx events e \<longleftrightarrow>
     e \<in> set events \<and> se_window_start_index e \<le> current_idx \<and> current_idx \<le> se_window_end_index e \<and>
     (\<exists>h. se_confirmation_index e = Some h \<and> \<not> h < current_idx) \<and>
     (\<forall>f \<in> set events. se_window_start_index f \<le> current_idx \<and> current_idx \<le> se_window_end_index f \<longrightarrow>
        se_setup_hour_index f \<le> se_setup_hour_index e)"

lemma window_buy:
  assumes "fst (window_answer current_idx c inputs (active_events current_idx events) counters) = Inr sig" "sg_type sig = BUY"
    and "''governing_setup_hour_index'' \<notin> fst ` set inputs"
  shows "\<exists>e. governing_buy current_idx events e \<and>
    map_of (sg_inputs sig) ''governing_setup_hour_index'' = Some (JInt (se_setup_hour_index e))"
proof (cases "active_events current_idx events")
  case (Cons e es)
  let ?g = "governing_from e es"
  have g: "?g \<in> set (active_events current_idx events)"
    "\<forall>f \<in> set (active_events current_idx events). se_setup_hour_index f \<le> se_setup_hour_index ?g"
    using governing_from_max [of e es] unfolding Cons by blast+
  have "\<exists>h. se_confirmation_index ?g = Some h \<and> \<not> h < current_idx \<and>
    sg_inputs sig = inputs @ [(''governing_setup_hour_index'', JInt (se_setup_hour_index ?g)),
      (''governing_breakout_level'', JFlt (se_breakout_level ?g))]"
    using assms(1,2) unfolding window_answer_def Cons
    by (auto simp: Let_def sbind_def smodify_def sreturn_def answer_def split: option.splits if_splits)
  moreover have "map_of inputs ''governing_setup_hour_index'' = None" using assms(3) by (simp add: map_of_eq_None_iff)
  ultimately have "governing_buy current_idx events ?g"
    "map_of (sg_inputs sig) ''governing_setup_hour_index'' = Some (JInt (se_setup_hour_index ?g))"
    using g by (auto simp: governing_buy_def active_events_def map_add_def)
  then show ?thesis by blast
qed (use assms(1,2) in \<open>auto simp: window_answer_def sreturn_def\<close>)

lemma multitimeframe_buy:
  assumes "multitimeframe_signal pd cs pos = Inr sig" "sg_type sig = BUY"
  shows "multitimeframe_min_required_candles \<le> int (length cs) \<and> weekly_filter_bullish pd cs = Inr True \<and> pos \<noteq> LONG \<and>
    (\<exists>events e. scan_setup_events pd cs = Inr events \<and> governing_buy (int (length cs) - 1) events e \<and>
       map_of (sg_inputs sig) ''governing_setup_hour_index'' = Some (JInt (se_setup_hour_index e)))"
proof -
  let ?cur = "int (length cs) - 1"
  let ?inputs = "[(''symbol'', JStr (c_symbol (last cs))), (''close'', JFlt (float_of_dec (c_close (last cs)))),
    (''current_position'', JStr (side_value pos))]"
  have "multitimeframe_min_required_candles \<le> int (length cs) \<and> weekly_filter_bullish pd cs = Inr True \<and> pos \<noteq> LONG \<and>
    (\<exists>events c. scan_setup_events pd cs = Inr events \<and> fst (window_answer ?cur (last cs) ?inputs (active_events ?cur events) c) = Inr sig)"
    using assms unfolding multitimeframe_signal_def multitimeframe_step_def
    by (auto simp: sbind_def slift_def smodify_def sreturn_def sraise_def Let_def nth_res_last_iff
        split: sum.splits if_splits)
  with window_buy [OF _ assms(2)] show ?thesis by fastforce
qed

lemma scan_member:
  assumes "scan_setup_events pd cs = Inr events"
  shows "e \<in> set events \<longleftrightarrow> (\<exists>x i level. 
    four_h_series_of pd (map cb_candle (aggregate_completed_buckets cs FOUR_H_HOURS four_h_bucket_start_ms)) = Inr x \<and>
    219 \<le> i \<and> i < length (aggregate_completed_buckets cs FOUR_H_HOURS four_h_bucket_start_ms) \<and> four_h_setup x i = Some level \<and>
    e = setup_at cs (cb_last_hour_index (aggregate_completed_buckets cs FOUR_H_HOURS four_h_bucket_start_ms ! i)) level)"
proof -
  have m: "min_four_h_idx = 219" by (simp add: min_four_h_idx_def mtf_constants)
  show ?thesis
    using assms
    by (auto simp: scan_setup_events_def Let_def m map_filter_def split: if_splits; force)
qed

section \<open>Setups of a prefix\<close>

abbreviation four_h_buckets :: "candle list \<Rightarrow> completed_bucket list" where
  "four_h_buckets cs \<equiv> aggregate_completed_buckets cs FOUR_H_HOURS four_h_bucket_start_ms"

lemma four_h_hours: "FOUR_H_HOURS = int 4"
  by (simp add: FOUR_H_HOURS_def)

text \<open>Each bucket has its own last hour.\<close>

lemma bucket_hours_distinct:
  assumes "contiguous HOUR_MS cs" "i < length (four_h_buckets cs)" "j < length (four_h_buckets cs)"
    and "cb_last_hour_index (four_h_buckets cs ! i) = cb_last_hour_index (four_h_buckets cs ! j)"
  shows "i = j"
proof -
  have w: "four_h_buckets cs = four_h.windows 0 cs"
    unfolding aggregate_completed_buckets_def four_h_hours by (rule four_h.buckets_are_windows [OF assms(1)])
  have "distinct (map cb_last_hour_index (four_h_buckets cs))"
    unfolding w four_h.windows_def by (simp add: four_h.window_def distinct_map comp_def inj_on_def)
  then show ?thesis using assms(2-4) by (simp add: distinct_conv_nth) (metis nth_map)
qed

context pandas_series
begin

lemma setup_of_prefix:
  assumes "contiguous HOUR_MS cs" "m \<le> length cs"
    and x: "four_h_series_of pd (map cb_candle (four_h_buckets (take m cs))) = Inr x"
    and y: "four_h_series_of pd (map cb_candle (four_h_buckets cs)) = Inr y"
    and i: "219 \<le> i" "i < length (four_h_buckets (take m cs))"
  shows "i < length (four_h_buckets cs)" and "four_h_buckets (take m cs) ! i = four_h_buckets cs ! i"
    and "four_h_setup x i = four_h_setup y i"
proof -
  let ?b = "four_h_buckets (take m cs)" and ?c = "four_h_buckets cs"
  obtain ys where c: "?c = ?b @ ys" using four_h.buckets_take [OF assms(1,2)] unfolding four_h_hours by blast
  then have p: "map cb_candle ?b = take (length ?b) (map cb_candle ?c)" by simp
  show "i < length ?c" "?b ! i = ?c ! i" using i by (simp_all add: c nth_append)
  let ?highs = "map (\<lambda>c. float_of_dec (c_high c))"
  have X: "fs_closes x = take (length ?b) (fs_closes y)" "fs_ema200 x = take (length ?b) (fs_ema200 y)"
    "fs_atr14 x = take (length ?b) (fs_atr14 y)" "fs_donchian x = take (length ?b) (fs_donchian y)"
    using x y unfolding four_h_series_of_def p
    by (auto simp: Let_def ema_def atr_def rolling_indicator_def mtf_constants closes_of_take ewm_take atr_take max_take
        simp flip: take_map)
  have E: "fs_donchian x ! (i - 1) = fs_donchian y ! (i - 1)" "fs_closes x ! i = fs_closes y ! i" "fs_atr14 x ! i = fs_atr14 y ! i"
    "fs_ema200 x ! i = fs_ema200 y ! i"
    "fs_ema200 x ! (i - nat FOUR_H_EMA_SLOPE_LOOKBACK_CANDLES) = fs_ema200 y ! (i - nat FOUR_H_EMA_SLOPE_LOOKBACK_CANDLES)"
    using i by (simp_all add: X)
  show "four_h_setup x i = four_h_setup y i" unfolding four_h_setup_def E ..
qed

end

text \<open>
  An entry: its setup, its window, the first confirming hour, and that no setup whose window is
  open is a later one.
\<close>

definition entry_of :: "pandas \<Rightarrow> candle list \<Rightarrow> four_h_series \<Rightarrow> nat \<Rightarrow> flt \<Rightarrow> int \<Rightarrow> bool" where
  "entry_of pd cs x i level h \<longleftrightarrow>
     four_h_series_of pd (map cb_candle (four_h_buckets cs)) = Inr x \<and> 219 \<le> i \<and> i < length (four_h_buckets cs) \<and>
     four_h_setup x i = Some level \<and> h = cb_last_hour_index (four_h_buckets cs ! i) \<and>
     h + 1 \<le> int (length cs) - 1 \<and> int (length cs) - 1 \<le> h + 4 \<and>
     first_confirmation cs level (h + 1) (h + 4) = Some (int (length cs) - 1) \<and>
     (\<forall>j l. 219 \<le> j \<longrightarrow> j < length (four_h_buckets cs) \<longrightarrow> four_h_setup x j = Some l \<longrightarrow>
        cb_last_hour_index (four_h_buckets cs ! j) + 1 \<le> int (length cs) - 1 \<longrightarrow>
        int (length cs) - 1 \<le> cb_last_hour_index (four_h_buckets cs ! j) + 4 \<longrightarrow> cb_last_hour_index (four_h_buckets cs ! j) \<le> h)"

context pandas_series
begin

lemma buy_is_entry:
  assumes "multitimeframe_signal pd cs pos = Inr sig" "sg_type sig = BUY"
  shows "\<exists>x i level h. entry_of pd cs x i level h \<and> map_of (sg_inputs sig) ''governing_setup_hour_index'' = Some (JInt h)"
proof -
  let ?cur = "int (length cs) - 1"
  obtain events e where ev: "scan_setup_events pd cs = Inr events" and g: "governing_buy ?cur events e"
    and h: "map_of (sg_inputs sig) ''governing_setup_hour_index'' = Some (JInt (se_setup_hour_index e))"
    using multitimeframe_buy [OF assms] by blast
  note mem = scan_member [OF ev]
  from g have "e \<in> set events" by (simp add: governing_buy_def)
  then obtain x i level where x: "four_h_series_of pd (map cb_candle (four_h_buckets cs)) = Inr x"
    and i: "219 \<le> i" "i < length (four_h_buckets cs)" "four_h_setup x i = Some level"
    and e: "e = setup_at cs (cb_last_hour_index (four_h_buckets cs ! i)) level" unfolding mem by blast
  let ?h = "cb_last_hour_index (four_h_buckets cs ! i)"
  have fields: "se_setup_hour_index e = ?h" "se_window_start_index e = ?h + 1" "se_window_end_index e = ?h + 4"
    "se_confirmation_index e = first_confirmation cs level (?h + 1) (?h + 4)"
    by (simp_all add: e setup_at_def Let_def CONFIRMATION_WINDOW_1H_CANDLES_def)
  obtain c where c: "first_confirmation cs level (?h + 1) (?h + 4) = Some c" "\<not> c < ?cur"
    using g unfolding governing_buy_def fields by blast
  then have "c = ?cur" unfolding first_confirmation_def find_upto_Some by simp
  moreover have "cb_last_hour_index (four_h_buckets cs ! j) \<le> ?h"
    if "219 \<le> j" "j < length (four_h_buckets cs)" "four_h_setup x j = Some l"
      "cb_last_hour_index (four_h_buckets cs ! j) + 1 \<le> ?cur" "?cur \<le> cb_last_hour_index (four_h_buckets cs ! j) + 4" for j l
  proof -
    let ?f = "setup_at cs (cb_last_hour_index (four_h_buckets cs ! j)) l"
    have "?f \<in> set events" unfolding mem using x that(1-3) by blast
    with g that(4,5) show ?thesis unfolding governing_buy_def fields
      by (auto simp: setup_at_def Let_def CONFIRMATION_WINDOW_1H_CANDLES_def)
  qed
  ultimately have "entry_of pd cs x i level ?h"
    using x i c g unfolding entry_of_def governing_buy_def fields by blast
  then show ?thesis using h unfolding fields by blast
qed

lemma entries_of_prefixes:
  assumes "contiguous HOUR_MS cs" "m < length cs"
    and "entry_of pd (take m cs) x i level h" and "entry_of pd cs y j level' h'"
  shows "h < h'"
proof -
  let ?b = "four_h_buckets (take m cs)" and ?c = "four_h_buckets cs"
  have m: "m \<le> length cs" "length (take m cs) = m" using assms(2) by simp_all
  note a = assms(3) [unfolded entry_of_def m(2)] and b = assms(4) [unfolded entry_of_def]
  have x: "four_h_series_of pd (map cb_candle ?b) = Inr x" and i: "219 \<le> i" "i < length ?b" using a by blast+
  have y: "four_h_series_of pd (map cb_candle ?c) = Inr y" using b by blast
  note p = setup_of_prefix [OF assms(1) m(1) x y i]
  have "h \<noteq> h'"
  proof
    assume "h = h'"
    then have "i = j" using a b p(1,2) bucket_hours_distinct [OF assms(1) p(1), of j] by metis
    then have "level' = level" using a b p(3) by (metis option.inject)
    then have "first_confirmation cs level (h + 1) (h + 4) = Some (int (length cs) - 1)" using b \<open>h = h'\<close> by blast
    moreover have "first_confirmation (take m cs) level (h + 1) (h + 4) = Some (int m - 1)" using a by blast
    moreover have "0 < m" using i(2) by (cases m) (simp_all add: aggregate_completed_buckets_def)
    then have "take m cs ! nat (int m - 1) = cs ! nat (int m - 1)" by simp
    ultimately show False
      using assms(2) unfolding first_confirmation_def find_upto_Some m(2) by (metis diff_strict_right_mono of_nat_less_iff)
  qed
  moreover have "h \<le> h'"
  proof (cases "int (length cs) - 1 \<le> h + 4")
    case True
    have "four_h_setup y i = Some level" "h = cb_last_hour_index (?c ! i)" "h + 1 \<le> int (length cs) - 1"
      using a p(2,3) assms(2) by auto
    then show ?thesis using b i(1) p(1) True by blast
  next
    case False
    have "int (length cs) - 1 \<le> h' + 4" using b by blast
    with False show ?thesis by linarith
  qed
  ultimately show ?thesis by simp
qed

end

end
