(* ===== verification/Steady_Market.thy ===== *)
theory Steady_Market
  imports Candidate_Facts
begin

text \<open>
  A steadily rising hourly market on which the multi-timeframe candidate buys: the concrete
  input of the witnesses about it. Every hour closes one above its open, every 4-hour bucket
  is a setup, and the first hour after it confirms.
\<close>

definition steady_candle :: "int \<Rightarrow> nat \<Rightarrow> candle" where
  "steady_candle t0 k =
     \<lparr>c_symbol = ''BTCUSDT'', c_interval = ''1h'', open_time_ms = t0 + int k * HOUR_MS,
      close_time_ms = t0 + int k * HOUR_MS + HOUR_MS - 1, c_open = Dec (of_nat k), c_high = Dec (of_nat (k + 1)),
      c_low = Dec (of_nat k), c_close = Dec (of_nat (k + 1)), c_volume = 0\<rparr>"

definition steady_hours :: "int \<Rightarrow> nat \<Rightarrow> candle list" where
  "steady_hours t0 n = map (steady_candle t0) [0 ..< n]"

definition counting_ewm :: "flt list \<Rightarrow> int \<Rightarrow> flt list" where
  "counting_ewm xs p = map (\<lambda>i. Flt (of_nat i)) [0 ..< length xs]"

definition rolling_of :: "(flt list \<Rightarrow> flt) \<Rightarrow> rolling" where
  "rolling_of f xs p =
     map (\<lambda>i. if p \<le> 0 \<or> int i + 1 < p then None else Some (f (take (nat p) (drop (i + 1 - nat p) xs)))) [0 ..< length xs]"

definition steady_pandas :: pandas where
  "steady_pandas = \<lparr>pd_ewm = counting_ewm, pd_mean = (\<lambda>xs p. map (\<lambda>_. Some 0) xs),
     pd_max = rolling_of (\<lambda>w. foldl max (hd w) (tl w))\<rparr>"

lemma rolling_of_causal: "causal (\<lambda>xs. rolling_of f xs p)"
proof
  fix n and xs :: "flt list"
  show "rolling_of f (take n xs) p = take n (rolling_of f xs p)"
  proof (rule nth_equalityI)
    fix i assume "i < length (rolling_of f (take n xs) p)"
    then have "i < length xs" "i < n" by (simp_all add: rolling_of_def)
    then show "rolling_of f (take n xs) p ! i = take n (rolling_of f xs p) ! i"
      by (simp add: rolling_of_def drop_take min_def) (auto simp: nat_le_iff min_def le_nat_iff)
  qed (simp add: rolling_of_def min_def)
qed (simp add: rolling_of_def)

lemma rolling_max_window:
  assumes "0 < p" "p \<le> int i + 1" "i < length xs"
  shows "rolling_of (\<lambda>w. foldl max (hd w) (tl w)) xs p ! i = Some (Max (set (take (nat p) (drop (i + 1 - nat p) xs))))"
proof -
  let ?w = "take (nat p) (drop (i + 1 - nat p) xs)"
  have "?w \<noteq> []" using assms by auto
  then have "foldl max (hd ?w) (tl ?w) = Max (set ?w)" using list_max_Max [of ?w] by (cases ?w) (simp_all add: list_max_def)
  then show ?thesis using assms by (simp add: rolling_of_def)
qed

interpretation steady: pandas_series steady_pandas
  by unfold_locales
    (simp_all add: steady_pandas_def counting_ewm_def rolling_of_causal [unfolded causal_def] rolling_max_window take_map min_def)

section \<open>The candles\<close>

lemma steady_length [simp]: "length (steady_hours t0 n) = n"
  by (simp add: steady_hours_def)

lemma steady_nth [simp]: "k < n \<Longrightarrow> steady_hours t0 n ! k = steady_candle t0 k"
  by (simp add: steady_hours_def)

lemma steady_take: "take m (steady_hours t0 n) = steady_hours t0 (min m n)"
  by (simp add: steady_hours_def take_map min_def)

lemma steady_contiguous: "contiguous HOUR_MS (steady_hours t0 n)"
  by (simp add: contiguous_def steady_candle_def algebra_simps)

lemma flt_of_nat: "k < 100000 \<Longrightarrow> float_of_dec (Dec (of_nat k)) = Flt (of_nat k)"
  using rnd_representable [of 2 53 "of_nat k" "int k" 0] by (simp add: float_of_dec_def fround_def)

lemma filter_mod_eq:
  fixes h n r :: nat
  assumes "r < h"
  shows "filter (\<lambda>k. k mod h = r \<and> k + h \<le> n) [0 ..< n] = map (\<lambda>j. r + h * j) [0 ..< (n - r) div h]"
proof (rule sorted_distinct_set_unique)
  show "set (filter (\<lambda>k. k mod h = r \<and> k + h \<le> n) [0 ..< n]) = set (map (\<lambda>j. r + h * j) [0 ..< (n - r) div h])"
  proof (intro set_eqI iffI)
    fix k assume k: "k \<in> set (filter (\<lambda>k. k mod h = r \<and> k + h \<le> n) [0 ..< n])"
    then have e: "k = r + h * (k div h)" using mult_div_mod_eq [of h k] by auto
    moreover have "k + h \<le> n" "h * (k div h + 1) = h * (k div h) + h" using k by simp_all
    ultimately have "h * (k div h + 1) \<le> n - r" by linarith
    then have "k div h + 1 \<le> (n - r) div h" using assms by (metis div_le_mono div_mult_self1_is_m less_nat_zero_code not_gr_zero)
    then show "k \<in> set (map (\<lambda>j. r + h * j) [0 ..< (n - r) div h])" using e by auto
  next
    fix k assume "k \<in> set (map (\<lambda>j. r + h * j) [0 ..< (n - r) div h])"
    then obtain j where j: "k = r + h * j" "j \<in> {0 ..< (n - r) div h}" unfolding set_map set_upt by (rule imageE)
    from j(2) have "h * (j + 1) \<le> h * ((n - r) div h)" by (intro mult_left_mono) auto
    also have "\<dots> \<le> n - r" by simp
    finally have "k + h \<le> n" "0 < h" using j assms by (auto simp: algebra_simps)
    then show "k \<in> set (filter (\<lambda>k. k mod h = r \<and> k + h \<le> n) [0 ..< n])" using j assms by auto
  qed
  show "sorted (map (\<lambda>j. r + h * j) [0 ..< (n - r) div h])" by (simp add: sorted_wrt_map sorted_wrt_iff_nth_less)
  show "distinct (map (\<lambda>j. r + h * j) [0 ..< (n - r) div h])" using assms by (simp add: distinct_map inj_on_def)
qed (simp_all add: sorted_wrt_filter)

context grid
begin

lemma steady_windows:
  assumes "\<And>k. start_fn (t0 + int k * HOUR_MS) = t0 + int k * HOUR_MS \<longleftrightarrow> k mod hours = r" "r < hours"
  shows "aggregate_completed_buckets (steady_hours t0 n) (int hours) start_fn =
    map (\<lambda>j. window 0 (steady_hours t0 n) (r + hours * j)) [0 ..< (n - r) div hours]"
proof -
  have "filter (on_grid (steady_hours t0 n)) [0 ..< n] = filter (\<lambda>k. k mod hours = r \<and> k + hours \<le> n) [0 ..< n]"
    by (rule filter_cong) (simp_all add: on_grid_def steady_candle_def assms(1))
  then show ?thesis
    unfolding aggregate_completed_buckets_def buckets_are_windows [OF steady_contiguous] windows_def
    by (simp add: filter_mod_eq [OF assms(2)])
qed

end

section \<open>Its buckets and averages\<close>

locale steady_start =
  fixes t0 :: int and r4 rw :: nat
  assumes four_h_aligned: "four_h_bucket_start_ms (t0 + int k * HOUR_MS) = t0 + int k * HOUR_MS \<longleftrightarrow> k mod 4 = r4"
    and weekly_aligned: "weekly_bucket_start_ms (t0 + int k * HOUR_MS) = t0 + int k * HOUR_MS \<longleftrightarrow> k mod 168 = rw"
    and rests: "r4 < 4" "rw < 168"
begin

abbreviation hrs :: "nat \<Rightarrow> candle list" where
  "hrs n \<equiv> steady_hours t0 n"

lemma four_h_list: "four_h_buckets (hrs n) = map (\<lambda>j. four_h.window 0 (hrs n) (r4 + 4 * j)) [0 ..< (n - r4) div 4]"
  unfolding four_h_hours by (rule four_h.steady_windows [OF four_h_aligned rests(1)])

lemma weekly_list: "aggregate_completed_buckets (hrs n) WEEK_HOURS weekly_bucket_start_ms
    = map (\<lambda>j. weekly.window 0 (hrs n) (rw + 168 * j)) [0 ..< (n - rw) div 168]"
  using weekly.steady_windows [OF weekly_aligned rests(2)] by (simp add: WEEK_HOURS_def)

lemma take_hours: "k + m \<le> n \<Longrightarrow> take m (drop k (hrs n)) = map (steady_candle t0) [k ..< k + m]"
  by (simp add: steady_hours_def drop_map take_map drop_upt take_upt)

lemma bucket_close: "0 < m \<Longrightarrow> c_close (bucket_candle h (map (steady_candle t0) [k ..< k + m])) = Dec (of_nat (k + m))"
  by (simp add: bucket_candle_def last_map steady_candle_def)

lemma bucket_high: "c_high (bucket_candle h (map (steady_candle t0) [k ..< k + 4])) = Dec (of_nat (k + 4))"
  by (simp add: bucket_candle_def steady_candle_def upt_rec max_def dec_arith)

lemma weekly_bullish:
  assumes "44 \<le> (n - rw) div 168" "n < 100000"
  shows "weekly_filter_bullish steady_pandas (hrs n) = Inr True"
proof -
  define w where "w = (n - rw) div 168"
  define W where "W = aggregate_completed_buckets (hrs n) WEEK_HOURS weekly_bucket_start_ms"
  have L: "length W = w" by (simp add: W_def weekly_list w_def)
  let ?k = "rw + 168 * (w - 1)"
  have "168 * w \<le> n - rw" "44 \<le> w" unfolding w_def using assms(1) by simp_all
  then have k: "?k + 168 \<le> n" "44 \<le> w" by simp_all
  have "cb_candle (W ! (w - 1)) = bucket_candle 168 (map (steady_candle t0) [?k ..< ?k + 168])"
    using k take_hours [OF k(1)] unfolding W_def weekly_list w_def [symmetric] by (simp add: weekly.window_def)
  then have "c_close (cb_candle (W ! (w - 1))) = Dec (of_nat (?k + 168))" using bucket_close [of 168] by simp
  then have close: "closes_of (map cb_candle W) ! (w - 1) = Flt (of_nat (?k + 168))"
    using k L flt_of_nat [of "?k + 168"] assms(2) by (simp add: closes_of_def)
  have e: "pd_ewm steady_pandas (closes_of (map cb_candle W)) 40 = map (\<lambda>i. Flt (of_nat i)) [0 ..< w]"
    by (simp add: steady_pandas_def counting_ewm_def L)
  have i: "int w - 1 = int (w - 1)" "int w - 1 - 4 = int (w - 5)" "w - 1 < w" "w - 5 < w" using k(2) by auto
  have n: "nth_res (map (\<lambda>i. Flt (of_nat i)) [0 ..< w]) (int w - 1) = Inr (Flt (of_nat (w - 1)))"
    "nth_res (closes_of (map cb_candle W)) (int w - 1) = Inr (Flt (of_nat (?k + 168)))"
    unfolding i(1) using i(3) close L by (simp_all del: of_nat_diff)
  have n5: "nth_res (map (\<lambda>i. Flt (of_nat i)) [0 ..< w]) (int w - 1 - 4) = Inr (Flt (of_nat (w - 5)))"
    by (subst i(2)) (use i(4) in \<open>simp del: of_nat_diff\<close>)
  have "\<not> int w < 44" "Flt (of_nat (w - 1)) < Flt (of_nat (?k + 168))" "Flt (of_nat (w - 5)) < Flt (of_nat (w - 1))"
    using k(2) by (simp_all add: flt_less_iff)
  then show ?thesis
    unfolding weekly_filter_bullish_def W_def [symmetric] Let_def L
    by (simp add: WEEKLY_EMA_PERIOD_def WEEKLY_EMA_SLOPE_LOOKBACK_CANDLES_def ema_def e n n5 [simplified])
qed

text \<open>Every 4-hour bucket from 219 on is a setup, below its own close.\<close>

lemma steady_setup:
  assumes x: "four_h_series_of steady_pandas (map cb_candle (four_h_buckets (hrs n))) = Inr x"
    and i: "219 \<le> i" "i < (n - r4) div 4" and n: "n < 100000"
  shows "\<exists>level. four_h_setup x i = Some level \<and> level \<le> Flt (of_nat (r4 + 4 * i))"
proof -
  define b where "b = (n - r4) div 4"
  define B where "B = map cb_candle (four_h_buckets (hrs n))"
  have L: "length B = b" by (simp add: B_def four_h_list b_def)
  have fit: "r4 + 4 * j + 4 \<le> n" if "j < b" for j
  proof -
    have "4 * b \<le> n - r4" unfolding b_def by simp
    then show ?thesis using that by linarith
  qed
  have cand: "B ! j = bucket_candle 4 (map (steady_candle t0) [r4 + 4 * j ..< r4 + 4 * j + 4])" if "j < b" for j
    using that take_hours [OF fit [OF that]] unfolding B_def four_h_list b_def by (simp add: four_h.window_def)
  have close: "closes_of B ! j = Flt (of_nat (r4 + 4 * j + 4))" if "j < b" for j
    using that cand [OF that] bucket_close [of 4] flt_of_nat [of "r4 + 4 * j + 4"] fit [OF that] n L by (simp add: closes_of_def)
  let ?highs = "map (\<lambda>c. float_of_dec (c_high c)) B"
  have high: "?highs ! j = Flt (of_nat (r4 + 4 * j + 4))" if "j < b" for j
    using that cand [OF that] bucket_high flt_of_nat [of "r4 + 4 * j + 4"] fit [OF that] n L by simp
  have X: "fs_closes x = closes_of B" "fs_ema200 x = map (\<lambda>i. Flt (of_nat i)) [0 ..< b]" "fs_atr14 x = map (\<lambda>_. Some 0) [0 ..< b]"
    "fs_donchian x = pd_max steady_pandas ?highs 20"
    using x unfolding B_def [symmetric]
    by (auto simp: four_h_series_of_def Let_def ema_def atr_def rolling_indicator_def mtf_constants steady_pandas_def
        counting_ewm_def L tr.causal_length map_replicate_const)
  let ?level = "Max (set (take 20 (drop (i - 20) ?highs)))"
  have don: "fs_donchian x ! (i - 1) = Some ?level"
    using steady.max_window [of 20 "i - 1" ?highs] i L unfolding b_def X(4) by simp
  have "take 20 (drop (i - 20) ?highs) \<noteq> []" using i L unfolding b_def by simp
  then have "?level \<in> set (take 20 (drop (i - 20) ?highs))" by simp
  then obtain j where "j < 20" "i - 20 + j < b" "?level = ?highs ! (i - 20 + j)"
    using L by (auto simp: in_set_conv_nth)
  then have "?level \<le> Flt (of_nat (r4 + 4 * i))" using high [of "i - 20 + j"] i(1) by (simp add: flt_le_iff)
  moreover have "0 < Flt (of_nat (r4 + 4 * i + 4)) - ?level" using calculation by (simp add: flt_arith flt.pos_iff)
  ultimately show ?thesis
    unfolding four_h_setup_def don X(1-3) using i close [of i] unfolding b_def
    by (simp add: breakout_confirmed_def FOUR_H_EMA_SLOPE_LOOKBACK_CANDLES_def flt_less_iff)
qed

end

section \<open>It buys\<close>

lemma multitimeframe_buyI:
  assumes "multitimeframe_min_required_candles \<le> int (length cs)" and "cs \<noteq> []" and "weekly_filter_bullish pd cs = Inr True"
    and "scan_setup_events pd cs = Inr events" and "active_events (int (length cs) - 1) events \<noteq> []"
    and "\<And>f. f \<in> set (active_events (int (length cs) - 1) events) \<Longrightarrow> se_confirmation_index f = Some (int (length cs) - 1)"
  shows "\<exists>sig. multitimeframe_signal pd cs FLAT = Inr sig \<and> sg_type sig = BUY"
proof -
  obtain e es where a: "active_events (int (length cs) - 1) events = e # es" using assms(5) by (cases "active_events (int (length cs) - 1) events") auto
  then have "se_confirmation_index (governing_from e es) = Some (int (length cs) - 1)"
    using assms(6) governing_from_max [of e es] by metis
  then have w: "\<exists>sig c'. window_answer (int (length cs) - 1) l inputs (e # es) c = (Inr sig, c') \<and> sg_type sig = BUY" for l inputs c
    by (simp add: window_answer_def Let_def sbind_def smodify_def sreturn_def)
  have "nth_res cs (- 1) = Inr (last cs)" by (rule nth_res_last [OF assms(2)])
  with w assms(1,3,4) a show ?thesis
    unfolding multitimeframe_signal_def multitimeframe_step_def
    by (simp add: sbind_def slift_def smodify_def Let_def) (metis (no_types, lifting) fst_conv)
qed

context steady_start
begin

lemma steady_buys:
  assumes n: "n = r4 + 4 * j0 + 1" "220 \<le> j0" and w: "44 \<le> (n - rw) div 168" "n < 100000" "7564 \<le> n"
  shows "\<exists>sig. multitimeframe_signal steady_pandas (hrs n) FLAT = Inr sig \<and> sg_type sig = BUY"
proof -
  let ?cur = "int n - 1" and ?B = "four_h_buckets (hrs n)"
  have b: "(n - r4) div 4 = j0" by (simp add: n(1))
  have L: "length ?B = j0" by (simp add: four_h_list b)
  have hour: "cb_last_hour_index (?B ! i) = int (r4 + 4 * i) + 3" if "i < j0" for i
    using that by (simp add: four_h_list b four_h.window_def)
  obtain x where x: "four_h_series_of steady_pandas (map cb_candle ?B) = Inr x"
    by (auto simp: four_h_series_of_def Let_def ema_def atr_def rolling_indicator_def mtf_constants)
  have m: "min_four_h_idx = 219" by (simp add: min_four_h_idx_def mtf_constants)
  then obtain events where ev: "scan_setup_events steady_pandas (hrs n) = Inr events"
    using x L n(2) by (simp add: scan_setup_events_def Let_def)
  note mem = scan_member [OF ev]
  have setups: "\<exists>level. four_h_setup x i = Some level \<and> level \<le> Flt (of_nat (r4 + 4 * i))" if "219 \<le> i" "i < j0" for i
    by (rule steady_setup [OF x that(1)]) (use that(2) w(2) b in auto)
  have confirms: "first_confirmation (hrs n) level ?cur (?cur + 3) = Some ?cur" if "level \<le> Flt (of_nat (r4 + 4 * (j0 - 1)))" for level
  proof -
    have "nat ?cur = n - 1" "n - 1 < n" using n by auto
    moreover have "float_of_dec (Dec (of_nat n)) = Flt (of_nat n)" using w(2) by (rule flt_of_nat)
    moreover have "of_nat (r4 + 4 * (j0 - 1)) < (of_nat n :: rat)" unfolding of_nat_less_iff using n by simp
    then have "level < Flt (of_nat n)" using that by (simp add: flt_less_iff flt_le_iff)
    ultimately have "hour_confirms level (hrs n ! nat ?cur)"
      using n by (simp add: hour_confirms_def steady_candle_def dec_arith)
    then show ?thesis unfolding first_confirmation_def by (simp add: find_upto_Some)
  qed
  have last_one: "i = j0 - 1" if "i < j0" "?cur \<le> int (r4 + 4 * i) + 7" for i using that n by linarith
  have active: "se_confirmation_index f = Some ?cur" if "f \<in> set (active_events ?cur events)" for f
  proof -
    have f: "f \<in> set events" "?cur \<le> se_window_end_index f" using that by (simp_all add: active_events_def)
    obtain i level where i: "219 \<le> i" "i < j0" "four_h_setup x i = Some level" "f = setup_at (hrs n) (cb_last_hour_index (?B ! i)) level"
      using f(1) x unfolding mem L by auto
    have "i = j0 - 1" using f(2) hour [OF i(2)] by (intro last_one [OF i(2)]) (simp add: i(4) setup_at_def Let_def CONFIRMATION_WINDOW_1H_CANDLES_def)
    moreover have "level \<le> Flt (of_nat (r4 + 4 * i))" using setups [OF i(1,2)] i(3) by auto
    moreover have h: "cb_last_hour_index (?B ! i) = ?cur - 1" using hour [OF i(2)] calculation(1) n by simp
    ultimately show ?thesis
      using confirms [of level] unfolding i(4) setup_at_def h by (simp add: Let_def CONFIRMATION_WINDOW_1H_CANDLES_def)
  qed
  have "active_events ?cur events \<noteq> []"
  proof -
    have "219 \<le> j0 - 1" "j0 - 1 < j0" using n(2) by simp_all
    then obtain level where l: "four_h_setup x (j0 - 1) = Some level" using setups by blast
    let ?f = "setup_at (hrs n) (cb_last_hour_index (?B ! (j0 - 1))) level"
    have "?f \<in> set events" unfolding mem L using x l \<open>219 \<le> j0 - 1\<close> \<open>j0 - 1 < j0\<close> by blast
    moreover have "cb_last_hour_index (?B ! (j0 - 1)) + 1 = ?cur" using hour [of "j0 - 1"] n by simp
    ultimately have "?f \<in> set (active_events ?cur events)"
      by (simp add: active_events_def setup_at_def Let_def CONFIRMATION_WINDOW_1H_CANDLES_def)
    then show ?thesis by force
  qed
  moreover have "multitimeframe_min_required_candles \<le> int n"
    using w(3) by (simp add: multitimeframe_min_required_candles_def weekly_floor_hours_def four_h_floor_hours_def mtf_constants)
  moreover have "hrs n \<noteq> []" using n(1) by (simp add: steady_hours_def)
  ultimately show ?thesis
    by (intro multitimeframe_buyI [OF _ _ weekly_bullish [OF w(1,2)] ev]) (simp_all add: active)
qed

end

text \<open>A market that starts on both grids.\<close>

lemma four_h_aligned_iff: "four_h_bucket_start_ms (a * HOUR_MS) = a * HOUR_MS \<longleftrightarrow> a mod 4 = 0"
  using mod_mult_mult2 [of a 3600000 4] by (simp add: four_h_bucket_start_ms_def mtf_constants)

lemma weekly_aligned_iff: "weekly_bucket_start_ms (a * HOUR_MS) = a * HOUR_MS \<longleftrightarrow> (a + 72) mod 168 = 0"
  using mod_mult_mult2 [of "a + 72" 3600000 168] by (simp add: weekly_start mtf_constants algebra_simps)

lemma steady_startI:
  assumes "\<And>k. (a + int k) mod 4 = 0 \<longleftrightarrow> k mod 4 = r4" "\<And>k. (a + int k + 72) mod 168 = 0 \<longleftrightarrow> k mod 168 = rw" "r4 < 4" "rw < 168"
  shows "steady_start (a * HOUR_MS) r4 rw"
  by unfold_locales (simp_all add: four_h_aligned_iff weekly_aligned_iff assms flip: distrib_right)

interpretation on_grid: steady_start "96 * HOUR_MS" 0 0
  by (rule steady_startI) presburger+

end
