(* ===== verification/Candidate_Properties.thy ===== *)
theory Candidate_Properties
  imports Steady_Market
begin

text \<open>
  Properties of the research candidates: one entry per trend cycle, one entry per 4-hour
  setup, and the agreement of the 4-hour setup with the candidate it was taken from. The
  contract of pandas is met by a plain implementation of its reductions, on which the witnesses run.
\<close>

section \<open>A plain implementation of the reductions\<close>

fun ewm_from :: "flt \<Rightarrow> flt option \<Rightarrow> flt list \<Rightarrow> flt list" where
  "ewm_from alpha prev [] = []"
| "ewm_from alpha prev (x # xs) =
     (let y = (case prev of None \<Rightarrow> x | Some p \<Rightarrow> (1 - alpha) * p + alpha * x) in y # ewm_from alpha (Some y) xs)"

definition plain_pandas :: pandas where
  "plain_pandas =
     \<lparr>pd_ewm = (\<lambda>xs p. ewm_from (Flt 2 / float_of_int (p + 1)) None xs), pd_mean = rolling_of fmean,
      pd_max = rolling_of (\<lambda>w. foldl max (hd w) (tl w))\<rparr>"

lemma ewm_from_take: "ewm_from a p (take n xs) = take n (ewm_from a p xs)"
  by (induction xs arbitrary: p n) (simp_all add: Let_def take_Cons split: nat.split)

lemma ewm_from_length: "length (ewm_from a p xs) = length xs"
  by (induction xs arbitrary: p) (simp_all add: Let_def)

interpretation plain: pandas_series plain_pandas
  by unfold_locales
    (simp_all add: plain_pandas_def rolling_of_causal [unfolded causal_def] ewm_from_take ewm_from_length rolling_max_window)

section \<open>One entry per trend cycle\<close>

text \<open>
  The trend candidate enters at most once per cycle: when it signals a buy on the first \<open>m\<close> candles
  and again on the first \<open>n\<close>, the fast average crossed the slow one from below in between, at
  a candle after the first entry; whatever has happened to the position.
\<close>

theorem trend_enters_once_per_cycle:
  fixes pd :: pandas and s :: trend_regime and cs :: "candle list"
  defines "fast \<equiv> pd_ewm pd (closes_of cs) (tg_ema_fast_period s)" and "slow \<equiv> pd_ewm pd (closes_of cs) (tg_ema_slow_period s)"
  assumes "pandas_series pd"
    and "trend_signal pd s (take m cs) pos1 = Inr sig1" "sg_type sig1 = BUY"
    and "trend_signal pd s (take n cs) pos2 = Inr sig2" "sg_type sig2 = BUY"
    and "m < n" "n \<le> length cs"
  shows "\<exists>k. m \<le> k \<and> k < n \<and> fast ! (k - 1) \<le> slow ! (k - 1) \<and> slow ! k < fast ! k"
proof -
  let ?S = "\<lambda>j. tg_min_trend_strength_atr s \<le> trend_strength (fast ! j) (slow ! j) (pd_mean pd (true_range cs) (tg_atr_period s) ! j)"
  let ?e = "nat (tg_min_required s - 1)"
  have shape: "\<exists>k. 0 < l \<and> slow ! (l - 1) < fast ! (l - 1) \<and> ?e + 1 \<le> k \<and> k < l \<and> fast ! (k - 1) \<le> slow ! (k - 1) \<and>
      (\<forall>y. k < y \<and> y < l \<longrightarrow> slow ! (y - 1) < fast ! (y - 1)) \<and> ?S (l - 1) \<and> (\<forall>y. k \<le> y \<and> y < l - 1 \<longrightarrow> \<not> ?S y)"
    if "trend_signal pd s (take l cs) pos = Inr sig" "sg_type sig = BUY" "l \<le> length cs" for l pos sig
  proof -
    note t = that
    have series: "pd_ewm pd (closes_of (take l cs)) (tg_ema_fast_period s) = take l fast"
      "pd_ewm pd (closes_of (take l cs)) (tg_ema_slow_period s) = take l slow"
      "pd_mean pd (true_range (take l cs)) (tg_atr_period s) = take l (pd_mean pd (true_range cs) (tg_atr_period s))"
      by (simp_all add: fast_def slow_def closes_of_take pandas_series.ewm_take [OF assms(3)] pandas_series.atr_take [OF assms(3)])
    obtain k where l: "0 < l" and k: "take l slow ! (l - 1) < take l fast ! (l - 1)"
      "crossover_index (take l fast) (take l slow) ?e (l - 1) = Some k"
      "confirmation_index (take l fast) (take l slow) (take l (pd_mean pd (true_range cs) (tg_atr_period s)))
         (tg_min_trend_strength_atr s) k (l - 1) = Some (l - 1)"
      using trend_buy [OF t(1,2)] t(3) unfolding series by (auto simp: min_absorb2)
    have tk: "take l ys ! j = ys ! j" if "j < l" for ys :: "'x list" and j using that by simp
    from k(2) have c: "?e + 1 \<le> k" "k < l" "take l fast ! (k - 1) \<le> take l slow ! (k - 1)"
      "\<forall>y. k < y \<and> y < l \<longrightarrow> \<not> take l fast ! (y - 1) \<le> take l slow ! (y - 1)"
      using l unfolding crossover_index_def find_rev_upt_Some by auto
    from k(3) have d: "?S (l - 1)" "\<forall>y. k \<le> y \<and> y < l - 1 \<longrightarrow> \<not> ?S y"
      using l unfolding confirmation_index_def find_upt_Some by auto
    show ?thesis using l k(1) c d by (intro exI [of _ k]) (auto simp: not_le)
  qed
  obtain a where a: "0 < m" "a < m" "fast ! (a - 1) \<le> slow ! (a - 1)" "\<forall>y. a < y \<and> y < m \<longrightarrow> slow ! (y - 1) < fast ! (y - 1)"
    "?S (m - 1)" using shape [OF assms(4,5)] assms(8,9) by auto
  obtain b where b: "b < n" "0 < b" "slow ! (n - 1) < fast ! (n - 1)" "fast ! (b - 1) \<le> slow ! (b - 1)"
    "\<forall>y. b < y \<and> y < n \<longrightarrow> slow ! (y - 1) < fast ! (y - 1)" "\<forall>y. b \<le> y \<and> y < n - 1 \<longrightarrow> \<not> ?S y"
    using shape [OF assms(6,7,9)] by auto
  have "m \<le> b"
  proof (rule ccontr)
    assume "\<not> m \<le> b"
    then have "b \<le> m - 1" "m - 1 < n - 1" using a(1) assms(8) by auto
    then show False using a(5) b(6) by blast
  qed
  moreover have "slow ! b < fast ! b"
    using b(3) b(5) [rule_format, of "b + 1"] b(1) by (cases "b = n - 1") auto
  ultimately show ?thesis using b by blast
qed

definition td_cycle :: trend_regime where
  "td_cycle = \<lparr>tg_ema_fast_period = 1, tg_ema_slow_period = 3, tg_atr_period = 1, tg_min_trend_strength_atr = 0\<rparr>"

definition td_closes :: "candle list" where
  "td_closes = map (\<lambda>x. \<lparr>c_symbol = ''BTCUSDT'', c_interval = ''1h'', open_time_ms = 0, close_time_ms = 1, c_open = Dec x,
     c_high = Dec (x + 1), c_low = Dec x, c_close = Dec x, c_volume = 1\<rparr>) [10, 10, 10, 10, 20, 5, 30]"

theorem trend_enters_once_per_cycle_witness:
  "\<exists>k. 5 \<le> k \<and> k < 7 \<and> pd_ewm plain_pandas (closes_of td_closes) 1 ! (k - 1) \<le> pd_ewm plain_pandas (closes_of td_closes) 3 ! (k - 1)"
proof -
  have "(case trend_signal plain_pandas td_cycle (take 5 td_closes) FLAT of Inr sig \<Rightarrow> sg_type sig = BUY | Inl _ \<Rightarrow> False)"
    "(case trend_signal plain_pandas td_cycle (take 7 td_closes) FLAT of Inr sig \<Rightarrow> sg_type sig = BUY | Inl _ \<Rightarrow> False)"
    by code_simp+
  then obtain sig1 sig2 where s: "trend_signal plain_pandas td_cycle (take 5 td_closes) FLAT = Inr sig1" "sg_type sig1 = BUY"
    "trend_signal plain_pandas td_cycle (take 7 td_closes) FLAT = Inr sig2" "sg_type sig2 = BUY"
    by (auto split: sum.splits)
  have "(5 :: nat) < 7" "7 \<le> length td_closes" by (simp_all add: td_closes_def)
  from trend_enters_once_per_cycle [OF plain.pandas_series_axioms s this] show ?thesis by (auto simp: td_cycle_def)
qed

section \<open>One entry per setup\<close>

text \<open>
  C29. The multi-timeframe candidate takes every setup at most once: entries on contiguous hourly candles
  have strictly later and later setups, each closed within the four hours before the entry,
  and the entry is the first hour of the window that closes above the breakout level and
  above its own open.
\<close>

theorem setups_are_taken_once:
  assumes "pandas_series pd" and "contiguous HOUR_MS cs" and "m < n" "n \<le> length cs"
    and "multitimeframe_signal pd (take m cs) pos1 = Inr sig1" "sg_type sig1 = BUY"
    and "multitimeframe_signal pd (take n cs) pos2 = Inr sig2" "sg_type sig2 = BUY"
  shows "\<exists>h1 h2 level. map_of (sg_inputs sig1) ''governing_setup_hour_index'' = Some (JInt h1) \<and>
    map_of (sg_inputs sig2) ''governing_setup_hour_index'' = Some (JInt h2) \<and> h1 < h2 \<and>
    h2 < int n - 1 \<and> int n - 1 \<le> h2 + 4 \<and> hour_confirms level (cs ! (n - 1)) \<and>
    (\<forall>k. h2 < int k \<and> k < n - 1 \<longrightarrow> \<not> hour_confirms level (cs ! k))"
proof -
  let ?cs = "take n cs"
  have c: "contiguous HOUR_MS ?cs" "m < length ?cs" "take m ?cs = take m cs" "length ?cs = n" "0 < n"
    using assms(3,4) contiguous_take [OF assms(2)] by (simp_all add: min_absorb1)
  obtain x i level h1 where 1: "entry_of pd (take m cs) x i level h1" "map_of (sg_inputs sig1) ''governing_setup_hour_index'' = Some (JInt h1)"
    using pandas_series.buy_is_entry [OF assms(1) assms(5,6)] by blast
  obtain y j level' h2 where 2: "entry_of pd ?cs y j level' h2" "map_of (sg_inputs sig2) ''governing_setup_hour_index'' = Some (JInt h2)"
    using pandas_series.buy_is_entry [OF assms(1) assms(7,8)] by blast
  have "entry_of pd (take m ?cs) x i level h1" using 1(1) unfolding c(3) .
  then have lt: "h1 < h2" by (rule pandas_series.entries_of_prefixes [OF assms(1) c(1,2) _ 2(1)])
  have "first_confirmation ?cs level' (h2 + 1) (h2 + 4) = Some (int n - 1)" using 2(1) unfolding entry_of_def c(4) by blast
  then have f: "hour_confirms level' (?cs ! nat (int n - 1))" "\<forall>y. h2 + 1 \<le> y \<and> y < int n - 1 \<longrightarrow> \<not> hour_confirms level' (?cs ! nat y)"
    unfolding first_confirmation_def find_upto_Some by simp_all
  have "nat (int n - 1) = n - 1" using c(5) by simp
  then have "hour_confirms level' (cs ! (n - 1))" using f(1) c(5) by simp
  moreover have "\<not> hour_confirms level' (cs ! k)" if "h2 < int k" "k < n - 1" for k using f(2) [rule_format, of "int k"] that by simp
  ultimately have "hour_confirms level' (cs ! (n - 1)) \<and> (\<forall>k. h2 < int k \<and> k < n - 1 \<longrightarrow> \<not> hour_confirms level' (cs ! k))"
    by blast
  moreover have "h2 + 1 \<le> int n - 1" "int n - 1 \<le> h2 + 4" using 2(1) unfolding entry_of_def c(4) by blast+
  ultimately show ?thesis using 1(2) 2(2) lt by (intro exI [of _ h1] exI [of _ h2] exI [of _ level']) auto
qed

definition td_market :: "candle list" where
  "td_market = steady_hours (96 * HOUR_MS) 7573"

lemma td_market_buys:
  "\<exists>sig. multitimeframe_signal steady_pandas (take 7569 td_market) FLAT = Inr sig \<and> sg_type sig = BUY"
  "\<exists>sig. multitimeframe_signal steady_pandas (take 7573 td_market) FLAT = Inr sig \<and> sg_type sig = BUY"
  using on_grid.steady_buys [of 7569 1892] on_grid.steady_buys [of 7573 1893] by (simp_all add: td_market_def steady_take)

theorem setups_are_taken_once_witness:
  "\<exists>sig1 sig2 h1 h2. multitimeframe_signal steady_pandas (take 7569 td_market) FLAT = Inr sig1 \<and>
    multitimeframe_signal steady_pandas (take 7573 td_market) FLAT = Inr sig2 \<and>
    map_of (sg_inputs sig1) ''governing_setup_hour_index'' = Some (JInt h1) \<and>
    map_of (sg_inputs sig2) ''governing_setup_hour_index'' = Some (JInt h2) \<and> h1 < h2"
proof -
  obtain sig1 sig2 where s: "multitimeframe_signal steady_pandas (take 7569 td_market) FLAT = Inr sig1" "sg_type sig1 = BUY"
    "multitimeframe_signal steady_pandas (take 7573 td_market) FLAT = Inr sig2" "sg_type sig2 = BUY" using td_market_buys by blast
  have m: "contiguous HOUR_MS td_market" "(7569 :: nat) < 7573" "7573 \<le> length td_market"
    unfolding td_market_def by (rule steady_contiguous) simp_all
  from setups_are_taken_once [OF steady.pandas_series_axioms m s] s(1,3) show ?thesis by blast
qed

text \<open>
  C30. The 4-hour setup of the multi-timeframe candidate is the entry of the candidate it was taken from:
  on the same 4-hour candles, bucket \<open>i\<close> is a setup exactly when the gated breakout with the
  parameters of the second round, flat and on the candles up to \<open>i\<close>, signals a buy, and then
  the breakout level is its channel high.
\<close>

theorem four_h_setup_is_the_gated_breakout:
  assumes "pandas_series pd" and "four_h_series_of pd cs = Inr x" and "219 \<le> i" "i < length cs"
  shows "\<exists>sig c'. gated_breakout_signal pd d1_breakout (take (i + 1) cs) FLAT c = (Inr sig, c') \<and>
    (sg_type sig = BUY \<longleftrightarrow> four_h_setup x i \<noteq> None) \<and>
    (\<forall>level. four_h_setup x i = Some level \<longrightarrow> (''donchian_high'', JFlt level) \<in> set (sg_inputs sig))"
proof -
  show ?thesis by (rule pandas_series.setup_iff_gated [OF assms(1) assms(2-4)])
qed

theorem four_h_setup_is_the_gated_breakout_witness:
  "\<exists>x sig c' level. four_h_series_of steady_pandas (map cb_candle (four_h_buckets td_market)) = Inr x \<and>
    four_h_setup x 219 = Some level \<and> (''donchian_high'', JFlt level) \<in> set (sg_inputs sig) \<and> sg_type sig = BUY \<and>
    gated_breakout_signal steady_pandas d1_breakout (take 220 (map cb_candle (four_h_buckets td_market))) FLAT
      \<lparr>gc_breakout_signals_evaluated = 0, gc_breakout_signals_blocked_by_regime_gate = 0\<rparr> = (Inr sig, c')"
proof -
  let ?cs = "map cb_candle (four_h_buckets td_market)"
  obtain x where x: "four_h_series_of steady_pandas ?cs = Inr x"
    by (auto simp: four_h_series_of_def Let_def ema_def atr_def rolling_indicator_def mtf_constants)
  have l: "219 < length ?cs" by (simp add: td_market_def on_grid.four_h_list)
  obtain level where "four_h_setup x 219 = Some level"
    using on_grid.steady_setup [of 7573 x 219] x by (auto simp: td_market_def)
  with four_h_setup_is_the_gated_breakout [OF steady.pandas_series_axioms x _ l] x show ?thesis by fastforce
qed

end
