(* ===== verification/Candidate_Registry.thy ===== *)
theory Candidate_Registry
  imports Multi_Timeframe
begin

text \<open>
  The declared search space of the research (\<open>research/candidate_registry.py\<close>,
  \<open>candidate_registry_round2.py\<close>, \<open>candidate_registry_round3.py\<close>): every candidate with its
  family, its parameters and how it is built. The warnings are texts that quote the counts.
\<close>

datatype candidate_model =
    Trend_Model trend_regime
  | Breakout_Model breakout
  | Reversion_Model mean_reversion
  | Gated_Model breakout
  | Multi_Timeframe_Model

record candidate_spec =
  cs_candidate_id :: string
  cs_family :: string
  cs_params :: payload
  cs_build :: "candidate_model result"

definition trend_regime_spec :: "string \<Rightarrow> int \<Rightarrow> int \<Rightarrow> int \<Rightarrow> flt \<Rightarrow> candidate_spec" where
  "trend_regime_spec i ema_fast ema_slow atr_period strength =
     \<lparr>cs_candidate_id = i, cs_family = ''trend_regime_filter'',
      cs_params = [(''ema_fast'', JInt ema_fast), (''ema_slow'', JInt ema_slow), (''atr_period'', JInt atr_period),
        (''min_trend_strength_atr'', JFlt strength)],
      cs_build = bindr (mk_trend_regime ema_fast ema_slow atr_period strength) (\<lambda>s. Inr (Trend_Model s))\<rparr>"

definition breakout_spec :: "string \<Rightarrow> int \<Rightarrow> int \<Rightarrow> flt \<Rightarrow> candidate_spec" where
  "breakout_spec i channel_period atr_period multiple =
     \<lparr>cs_candidate_id = i, cs_family = ''volatility_normalized_breakout'',
      cs_params = [(''channel_period'', JInt channel_period), (''atr_period'', JInt atr_period),
        (''breakout_atr_multiple'', JFlt multiple)],
      cs_build = bindr (mk_breakout channel_period atr_period multiple) (\<lambda>s. Inr (Breakout_Model s))\<rparr>"

definition mean_reversion_spec :: "string \<Rightarrow> int \<Rightarrow> flt \<Rightarrow> int \<Rightarrow> flt \<Rightarrow> candidate_spec" where
  "mean_reversion_spec i bb_period bb_std_mult atr_period strength =
     \<lparr>cs_candidate_id = i, cs_family = ''conservative_mean_reversion_non_trending'',
      cs_params = [(''bb_period'', JInt bb_period), (''bb_std_mult'', JFlt bb_std_mult), (''atr_period'', JInt atr_period),
        (''max_trend_strength_atr'', JFlt strength)],
      cs_build = bindr (mk_mean_reversion bb_period bb_std_mult atr_period strength) (\<lambda>s. Inr (Reversion_Model s))\<rparr>"

definition CANDIDATE_REGISTRY :: "candidate_spec list" where
  "CANDIDATE_REGISTRY =
    [trend_regime_spec ''trend_regime_A1'' 10 30 14 (Flt 1),
     trend_regime_spec ''trend_regime_A2'' 20 50 14 (Flt (3 / 2)),
     trend_regime_spec ''trend_regime_A3'' 12 26 20 (Flt 2),
     breakout_spec ''breakout_B1'' 20 14 (Flt (1 / 4)),
     breakout_spec ''breakout_B2'' 40 14 (Flt (1 / 2)),
     breakout_spec ''breakout_B3'' 55 20 (Flt (3 / 4)),
     mean_reversion_spec ''mean_reversion_C1'' 20 (Flt 2) 14 (Flt (1 / 2)),
     mean_reversion_spec ''mean_reversion_C2'' 20 (Flt (5 / 2)) 14 (Flt (3 / 4)),
     mean_reversion_spec ''mean_reversion_C3'' 30 (Flt 2) 20 (Flt 1)]"

definition d1_spec :: candidate_spec where
  "d1_spec =
     \<lparr>cs_candidate_id = ''breakout_regime_D1_round2'', cs_family = ''breakout_bullish_regime_gate'',
      cs_params = [(''channel_period'', JInt 20), (''atr_period'', JInt 14), (''breakout_atr_multiple'', JFlt (Flt (1 / 4)))],
      cs_build = bindr (mk_breakout 20 14 (Flt (1 / 4))) (\<lambda>s. Inr (Gated_Model s))\<rparr>"

definition ROUND2_CANDIDATE_REGISTRY :: "candidate_spec list" where
  "ROUND2_CANDIDATE_REGISTRY = [d1_spec]"

definition e1_spec :: candidate_spec where
  "e1_spec =
     \<lparr>cs_candidate_id = ''multitimeframe_breakout_E1_round3'', cs_family = ''multitimeframe_breakout_round3'',
      cs_params = [(''weekly_ema_period'', JInt WEEKLY_EMA_PERIOD),
        (''weekly_ema_slope_lookback_candles'', JInt WEEKLY_EMA_SLOPE_LOOKBACK_CANDLES),
        (''four_h_channel_period'', JInt FOUR_H_CHANNEL_PERIOD), (''four_h_atr_period'', JInt FOUR_H_ATR_PERIOD),
        (''four_h_breakout_atr_multiple'', JFlt FOUR_H_BREAKOUT_ATR_MULTIPLE),
        (''four_h_ema_regime_period'', JInt FOUR_H_EMA_REGIME_PERIOD),
        (''four_h_ema_slope_lookback_candles'', JInt FOUR_H_EMA_SLOPE_LOOKBACK_CANDLES),
        (''one_h_confirmation_window_candles'', JInt CONFIRMATION_WINDOW_1H_CANDLES)],
      cs_build = Inr Multi_Timeframe_Model\<rparr>"

definition ROUND3_CANDIDATE_REGISTRY :: "candidate_spec list" where
  "ROUND3_CANDIDATE_REGISTRY = [e1_spec]"

definition round2_cumulative_configurations :: int where
  "round2_cumulative_configurations = int (length CANDIDATE_REGISTRY) + int (length ROUND2_CANDIDATE_REGISTRY)"

definition round3_cumulative_configurations :: int where
  "round3_cumulative_configurations =
     int (length CANDIDATE_REGISTRY) + int (length ROUND2_CANDIDATE_REGISTRY) + int (length ROUND3_CANDIDATE_REGISTRY)"

section \<open>A candidate as a strategy\<close>

definition candidate_min_required :: "candidate_model \<Rightarrow> int" where
  "candidate_min_required m =
     (case m of Trend_Model s \<Rightarrow> tg_min_required s | Breakout_Model s \<Rightarrow> vb_min_required s
      | Reversion_Model s \<Rightarrow> mr_min_required s | Gated_Model s \<Rightarrow> gated_min_required s
      | Multi_Timeframe_Model \<Rightarrow> multitimeframe_min_required_candles)"

definition gate_counters_start :: gate_counters where
  "gate_counters_start = \<lparr>gc_breakout_signals_evaluated = 0, gc_breakout_signals_blocked_by_regime_gate = 0\<rparr>"

definition candidate_signal :: "pandas \<Rightarrow> candidate_model \<Rightarrow> signal_generator" where
  "candidate_signal pd m candles pos =
     (case m of Trend_Model s \<Rightarrow> trend_signal pd s candles pos | Breakout_Model s \<Rightarrow> breakout_signal pd s candles pos
      | Reversion_Model s \<Rightarrow> mean_reversion_signal pd s candles pos
      | Gated_Model s \<Rightarrow> fst (gated_breakout_signal pd s candles pos gate_counters_start)
      | Multi_Timeframe_Model \<Rightarrow> multitimeframe_signal pd candles pos)"

text \<open>Every registered candidate can be built, and no two share an id.\<close>

lemma registry_builds: "list_all (\<lambda>s. is_ok (cs_build s)) (CANDIDATE_REGISTRY @ ROUND2_CANDIDATE_REGISTRY @ ROUND3_CANDIDATE_REGISTRY)"
  by code_simp

lemma registry_ids_distinct: "distinct (map cs_candidate_id (CANDIDATE_REGISTRY @ ROUND2_CANDIDATE_REGISTRY @ ROUND3_CANDIDATE_REGISTRY))"
  by code_simp

end
