(* ===== verification/Shadow_Store.thy ===== *)
theory Shadow_Store
  imports Backtest_Engine Candle_Store
begin

text \<open>
  The store of the shadow mode (\<open>shadow/store.py\<close>): the run state with its high-water mark,
  the trades, the equity points and the journal entries recorded so far, the one-time
  bootstrap with the provenance of its candles, and the outbox of notifications. Every table
  is a list of rows in insertion order under its primary key; an insert that finds its key
  taken does nothing. The TEXT columns hold exact decimals, so a row is its decoded record.
  The fault-injection seam of the tests is kept: it makes a failure between two writes of a
  transaction a branch of the model. The text of a notification is the data it renders, a
  type of its own (\<open>'m\<close>).
\<close>

section \<open>Rows\<close>

record shadow_trade_record =
  st_trade :: trade
  st_planned_risk_quote :: "dec option"
  st_net_reward_to_risk :: "flt option"

record shadow_bootstrap_state =
  sb_warmup_start_time_ms :: int
  sb_warmup_last_open_time_ms :: int
  sb_warmup_candle_count :: int
  sb_effective_min_required_candles :: int
  sb_bootstrapped_at_ms :: int
  sb_source :: string

record shadow_run_state =
  rs_last_processed_close_time_ms :: "int option"
  rs_last_run_at_ms :: "int option"
  rs_total_cycles :: int
  rs_last_segment_length :: "int option"
  rs_last_cycle_status :: string
  rs_last_cycle_detail :: string
  rs_open_position :: "open_position_info option"

record warmup_row =
  wr_open_time_ms :: int
  wr_close_time_ms :: int
  wr_fetched_at_ms :: int
  wr_source :: string

definition NOTIFICATION_STATUS_PENDING :: string where "NOTIFICATION_STATUS_PENDING = ''PENDING''"
definition NOTIFICATION_STATUS_SENT :: string where "NOTIFICATION_STATUS_SENT = ''SENT''"
definition NOTIFICATION_STATUS_AMBIGUOUS :: string where "NOTIFICATION_STATUS_AMBIGUOUS = ''AMBIGUOUS''"
definition NOTIFICATION_STATUS_FAILED :: string where "NOTIFICATION_STATUS_FAILED = ''FAILED''"

lemmas notification_statuses = NOTIFICATION_STATUS_PENDING_def NOTIFICATION_STATUS_SENT_def
  NOTIFICATION_STATUS_AMBIGUOUS_def NOTIFICATION_STATUS_FAILED_def

record 'm notification_event =
  ne_event_id :: string
  ne_event_type :: string
  ne_created_at_ms :: int
  ne_payload_text :: 'm
  ne_status :: string
  ne_attempt_count :: int
  ne_last_attempt_at_ms :: "int option"
  ne_last_error :: "string option"
  ne_sent_at_ms :: "int option"

definition new_event :: "string \<Rightarrow> string \<Rightarrow> int \<Rightarrow> 'm \<Rightarrow> 'm notification_event" where
  "new_event i ty created_at_ms m =
     \<lparr>ne_event_id = i, ne_event_type = ty, ne_created_at_ms = created_at_ms, ne_payload_text = m,
      ne_status = NOTIFICATION_STATUS_PENDING, ne_attempt_count = 0, ne_last_attempt_at_ms = None,
      ne_last_error = None, ne_sent_at_ms = None\<rparr>"

record 'm shadow_db =
  sd_run_state :: "shadow_run_state option"
  sd_trades :: "shadow_trade_record list"
  sd_equity :: "equity_point list"
  sd_journal :: "journal_entry list"
  sd_bootstrap :: "shadow_bootstrap_state option"
  sd_warmup :: "warmup_row list"
  sd_outbox :: "'m notification_event list"
  sd_last_daily_summary :: "string option"
  sd_raise_fault_at :: "string option"

section \<open>Inserts\<close>

text \<open>\<open>INSERT ... ON CONFLICT(key) DO NOTHING\<close>.\<close>

definition insert_ignore :: "('r \<Rightarrow> 'k) \<Rightarrow> 'r \<Rightarrow> 'r list \<Rightarrow> 'r list" where
  "insert_ignore key r t = (if key r \<in> key ` set t then t else t @ [r])"

definition insert_all :: "('r \<Rightarrow> 'k) \<Rightarrow> 'r list \<Rightarrow> 'r list \<Rightarrow> 'r list" where
  "insert_all key rs t = foldl (\<lambda>t r. insert_ignore key r t) t rs"

definition trade_key :: "shadow_trade_record \<Rightarrow> int" where
  "trade_key r = t_exit_time_ms (st_trade r)"

definition journal_key :: "journal_entry \<Rightarrow> string \<times> int" where
  "journal_key e = (je_type e, je_timestamp_ms e)"

definition insert_trades :: "shadow_trade_record list \<Rightarrow> 'm shadow_db \<Rightarrow> 'm shadow_db" where
  "insert_trades rs db = db\<lparr>sd_trades := insert_all trade_key rs (sd_trades db)\<rparr>"

definition insert_equity_points :: "equity_point list \<Rightarrow> 'm shadow_db \<Rightarrow> 'm shadow_db" where
  "insert_equity_points ps db = db\<lparr>sd_equity := insert_all ep_timestamp_ms ps (sd_equity db)\<rparr>"

definition insert_journal_entries :: "journal_entry list \<Rightarrow> 'm shadow_db \<Rightarrow> 'm shadow_db" where
  "insert_journal_entries es db = db\<lparr>sd_journal := insert_all journal_key es (sd_journal db)\<rparr>"

definition insert_notification_events :: "'m notification_event list \<Rightarrow> 'm shadow_db \<Rightarrow> 'm shadow_db" where
  "insert_notification_events es db = db\<lparr>sd_outbox := insert_all ne_event_id es (sd_outbox db)\<rparr>"

definition warmup_row_of :: "int \<Rightarrow> string \<Rightarrow> candle \<Rightarrow> warmup_row" where
  "warmup_row_of fetched_at_ms source c =
     \<lparr>wr_open_time_ms = open_time_ms c, wr_close_time_ms = close_time_ms c, wr_fetched_at_ms = fetched_at_ms, wr_source = source\<rparr>"

definition insert_warmup :: "warmup_row list \<Rightarrow> 'm shadow_db \<Rightarrow> 'm shadow_db" where
  "insert_warmup rs db = db\<lparr>sd_warmup := insert_all wr_open_time_ms rs (sd_warmup db)\<rparr>"

definition upsert_run_state :: "shadow_run_state \<Rightarrow> 'm shadow_db \<Rightarrow> 'm shadow_db" where
  "upsert_run_state st db = db\<lparr>sd_run_state := Some st\<rparr>"

section \<open>Reads\<close>

definition run_state_start :: shadow_run_state where
  "run_state_start =
     \<lparr>rs_last_processed_close_time_ms = None, rs_last_run_at_ms = None, rs_total_cycles = 0,
      rs_last_segment_length = None, rs_last_cycle_status = [], rs_last_cycle_detail = [], rs_open_position = None\<rparr>"

definition get_run_state :: "'m shadow_db \<Rightarrow> shadow_run_state" where
  "get_run_state db = (case sd_run_state db of None \<Rightarrow> run_state_start | Some st \<Rightarrow> st)"

definition get_all_trades :: "'m shadow_db \<Rightarrow> shadow_trade_record list" where
  "get_all_trades db = sort_key trade_key (sd_trades db)"

definition get_equity_curve :: "'m shadow_db \<Rightarrow> equity_point list" where
  "get_equity_curve db = sort_key ep_timestamp_ms (sd_equity db)"

definition get_journal_entries :: "'m shadow_db \<Rightarrow> journal_entry list" where
  "get_journal_entries db = sort_key je_timestamp_ms (sd_journal db)"

definition get_bootstrap_state :: "'m shadow_db \<Rightarrow> shadow_bootstrap_state option" where
  "get_bootstrap_state db = sd_bootstrap db"

definition get_warmup_candle_count :: "'m shadow_db \<Rightarrow> int" where
  "get_warmup_candle_count db = int (length (sd_warmup db))"

definition get_notification :: "string \<Rightarrow> 'm shadow_db \<Rightarrow> 'm notification_event option" where
  "get_notification event_id db = find (\<lambda>e. ne_event_id e = event_id) (sd_outbox db)"

definition list_notifications :: "string option \<Rightarrow> 'm shadow_db \<Rightarrow> 'm notification_event list" where
  "list_notifications status db =
     sort_key ne_created_at_ms
       (case status of None \<Rightarrow> sd_outbox db | Some x \<Rightarrow> filter (\<lambda>e. ne_status e = x) (sd_outbox db))"

definition get_last_daily_summary_melbourne_date :: "'m shadow_db \<Rightarrow> string option" where
  "get_last_daily_summary_melbourne_date db = sd_last_daily_summary db"

section \<open>Transactions\<close>

definition shadow_fault :: "string \<Rightarrow> ('m shadow_db, unit) step" where
  "shadow_fault point = (\<lambda>db. if sd_raise_fault_at db = Some point then (Inl InjectedTestFault, db) else (Inr (), db))"

definition touched :: "int \<Rightarrow> string \<Rightarrow> string \<Rightarrow> int option \<Rightarrow> shadow_run_state \<Rightarrow> shadow_run_state" where
  "touched now_ms status detail segment_length st =
     st\<lparr>rs_last_run_at_ms := Some now_ms, rs_total_cycles := rs_total_cycles st + 1,
        rs_last_segment_length := segment_length, rs_last_cycle_status := status, rs_last_cycle_detail := detail\<rparr>"

definition touch_cycle :: "int \<Rightarrow> string \<Rightarrow> string \<Rightarrow> int option \<Rightarrow> ('m shadow_db, unit) step" where
  "touch_cycle now_ms status detail segment_length =
     atomically (smodify (\<lambda>db. upsert_run_state (touched now_ms status detail segment_length (get_run_state db)) db))"

record 'm cycle_write =
  cw_new_trades :: "shadow_trade_record list"
  cw_new_equity_points :: "equity_point list"
  cw_new_journal_entries :: "journal_entry list"
  cw_last_processed_close_time_ms :: int
  cw_open_position :: "open_position_info option"
  cw_now_ms :: int
  cw_segment_length :: int
  cw_status :: string
  cw_detail :: string
  cw_notification_events :: "'m notification_event list"

definition advanced :: "'m cycle_write \<Rightarrow> shadow_run_state \<Rightarrow> shadow_run_state" where
  "advanced w st =
     \<lparr>rs_last_processed_close_time_ms = Some (cw_last_processed_close_time_ms w),
      rs_last_run_at_ms = Some (cw_now_ms w), rs_total_cycles = rs_total_cycles st + 1,
      rs_last_segment_length = Some (cw_segment_length w), rs_last_cycle_status = cw_status w,
      rs_last_cycle_detail = cw_detail w, rs_open_position = cw_open_position w\<rparr>"

definition record_cycle_body :: "'m cycle_write \<Rightarrow> ('m shadow_db, unit) step" where
  "record_cycle_body w =
     sbind (sget get_run_state) (\<lambda>state.
     sbind (smodify (insert_trades (cw_new_trades w))) (\<lambda>_.
     sbind (shadow_fault ''after_trades'') (\<lambda>_.
     sbind (smodify (insert_equity_points (cw_new_equity_points w))) (\<lambda>_.
     sbind (shadow_fault ''after_equity'') (\<lambda>_.
     sbind (smodify (insert_journal_entries (cw_new_journal_entries w))) (\<lambda>_.
     sbind (shadow_fault ''after_journal'') (\<lambda>_.
     sbind (smodify (insert_notification_events (cw_notification_events w))) (\<lambda>_.
     sbind (shadow_fault ''after_notifications'') (\<lambda>_.
     sbind (smodify (upsert_run_state (advanced w state))) (\<lambda>_.
     shadow_fault ''before_commit''))))))))))"

definition record_cycle_atomically :: "'m cycle_write \<Rightarrow> ('m shadow_db, unit) step" where
  "record_cycle_atomically w = atomically (record_cycle_body w)"

definition enqueue_notifications_atomically :: "'m notification_event list \<Rightarrow> ('m shadow_db, unit) step" where
  "enqueue_notifications_atomically events =
     (if events = [] then sreturn () else atomically (smodify (insert_notification_events events)))"

definition with_outcome ::
  "string \<Rightarrow> string \<Rightarrow> int \<Rightarrow> int option \<Rightarrow> string option \<Rightarrow> int option \<Rightarrow> 'm notification_event \<Rightarrow> 'm notification_event" where
  "with_outcome event_id status attempts attempted_at err sent_at e =
     (if ne_event_id e = event_id
      then e\<lparr>ne_status := status, ne_attempt_count := attempts, ne_last_attempt_at_ms := attempted_at,
             ne_last_error := err, ne_sent_at_ms := sent_at\<rparr>
      else e)"

definition update_notification_status ::
  "string \<Rightarrow> string \<Rightarrow> int \<Rightarrow> int option \<Rightarrow> string option \<Rightarrow> int option \<Rightarrow> ('m shadow_db, unit) step" where
  "update_notification_status event_id status attempts attempted_at err sent_at =
     smodify (\<lambda>db. db\<lparr>sd_outbox := map (with_outcome event_id status attempts attempted_at err sent_at) (sd_outbox db)\<rparr>)"

definition record_daily_summary_sent :: "string \<Rightarrow> ('m shadow_db, unit) step" where
  "record_daily_summary_sent date_iso = smodify (\<lambda>db. db\<lparr>sd_last_daily_summary := Some date_iso\<rparr>)"

definition insert_bootstrap_state :: "shadow_bootstrap_state \<Rightarrow> 'm shadow_db \<Rightarrow> 'm shadow_db" where
  "insert_bootstrap_state st db = (case sd_bootstrap db of None \<Rightarrow> db\<lparr>sd_bootstrap := Some st\<rparr> | Some _ \<Rightarrow> db)"

definition record_bootstrap_atomically :: "candle list \<Rightarrow> shadow_bootstrap_state \<Rightarrow> ('m shadow_db, unit) step" where
  "record_bootstrap_atomically warmup_candles st =
     atomically
       (sbind (smodify (insert_warmup (map (warmup_row_of (sb_bootstrapped_at_ms st) (sb_source st)) warmup_candles))) (\<lambda>_.
        sbind (shadow_fault ''after_warmup_candles'') (\<lambda>_.
        sbind (smodify (insert_bootstrap_state st)) (\<lambda>_.
        shadow_fault ''before_commit''))))"

end
