(* ===== verification/Shadow_Bootstrap.thy ===== *)
theory Shadow_Bootstrap
  imports Shadow_Store Historical_Fetch Multi_Timeframe
begin

text \<open>
  The fixed start of the shadow mode (\<open>shadow/boundary.py\<close>), its one-time warm-up
  (\<open>shadow/bootstrap.py\<close>) and the state of a shadow process: the database file, which holds
  the candles and the shadow tables, the flag files, the overlap lock (\<open>shadow/lock.py\<close>), and
  everything outside (\<open>'w\<close>: exchange, clock, Telegram, environment variables) behind a record
  of operations that may answer or raise anything.
\<close>

section \<open>The boundary\<close>

text \<open>2026-09-06T00:00:00Z in epoch milliseconds.\<close>

definition SHADOW_START_BOUNDARY_MS :: int where
  "SHADOW_START_BOUNDARY_MS = 1788652800000"

definition REQUIRED_SHADOW_INTERVAL :: string where
  "REQUIRED_SHADOW_INTERVAL = ''1h''"

definition assert_no_pre_boundary_candles :: "candle list \<Rightarrow> unit result" where
  "assert_no_pre_boundary_candles candles =
     (if filter (\<lambda>c. open_time_ms c < SHADOW_START_BOUNDARY_MS) candles \<noteq> []
      then Inl (ProjectError ''ShadowBoundaryViolation'') else Inr ())"

definition filter_from_boundary :: "candle list \<Rightarrow> candle list" where
  "filter_from_boundary candles = filter (\<lambda>c. SHADOW_START_BOUNDARY_MS \<le> open_time_ms c) candles"

definition assert_valid_shadow_config :: "app_config \<Rightarrow> unit result" where
  "assert_valid_shadow_config config =
     (if cfg_mode config \<noteq> SHADOW then Inl (ProjectError ''ShadowConfigError'')
      else if cfg_interval (cfg_market config) \<noteq> REQUIRED_SHADOW_INTERVAL then Inl (ProjectError ''ShadowConfigError'')
      else Inr ())"

section \<open>The process and what is around it\<close>

text \<open>
  A post to Telegram: a response with its status, its text and, when that is JSON, whether it
  is an object and its \<open>ok\<close> is true, with the text \<open>repr\<close> gives of it; or an exception of
  the client library with its text.
\<close>

datatype telegram_body = Not_Json | Json_Object bool string | Json_Other

datatype telegram_answer =
    Http_Response int string telegram_body
  | Read_Timeout string
  | Connection_Failed string
  | Other_Request_Error string

record telegram_secrets =
  ts_bot_token :: string
  ts_chat_id :: string

record ('w, 'm) shadow_env =
  se_clock_ms :: "('w, int) step"
  se_klines :: "string \<Rightarrow> string \<Rightarrow> int option \<Rightarrow> int option \<Rightarrow> int \<Rightarrow> ('w, candle list) step"
  se_server_time :: "('w, int) step"
  se_history :: "'w candle_api"
  se_exchange_info :: "string \<Rightarrow> ('w, symbol_info list) step"
  se_telegram_secrets :: "('w, telegram_secrets option) step"
  se_telegram_post :: "string \<Rightarrow> string \<Rightarrow> 'm \<Rightarrow> ('w, telegram_answer) step"
  se_sleep :: "flt \<Rightarrow> ('w, unit) step"
  se_melbourne_now :: "('w, int \<times> string) step"
  se_pandas :: pandas
  se_pow :: "flt \<Rightarrow> flt \<Rightarrow> flt result"
  se_statement_fails :: "nat \<Rightarrow> bool"

record ('w, 'm) shadow =
  sw_ext :: 'w
  sw_candles :: candle_db
  sw_db :: "'m shadow_db"
  sw_kill_file :: "string option"
  sw_notify_file :: "string option"
  sw_lock_held :: bool

type_synonym ('w, 'm, 'a) shadow_step = "(('w, 'm) shadow, 'a) step"

definition on_ext :: "('w, 'a) step \<Rightarrow> ('w, 'm, 'a) shadow_step" where
  "on_ext m = szoom sw_ext (\<lambda>w s. s\<lparr>sw_ext := w\<rparr>) m"

definition on_candles :: "(candle_db, 'a) step \<Rightarrow> ('w, 'm, 'a) shadow_step" where
  "on_candles m = szoom sw_candles (\<lambda>d s. s\<lparr>sw_candles := d\<rparr>) m"

definition on_shadow_db :: "('m shadow_db, 'a) step \<Rightarrow> ('w, 'm, 'a) shadow_step" where
  "on_shadow_db m = szoom sw_db (\<lambda>d s. s\<lparr>sw_db := d\<rparr>) m"

text \<open>The lock fails at once when it is held, and is released however the body ends.\<close>

definition acquire_lock :: "('w, 'm, unit) shadow_step" where
  "acquire_lock =
     sbind (sget sw_lock_held) (\<lambda>held.
     if held then sraise (ProjectError ''ShadowLockError'') else smodify (\<lambda>s. s\<lparr>sw_lock_held := True\<rparr>))"

definition release_lock :: "('w, 'm) shadow \<Rightarrow> ('w, 'm) shadow" where
  "release_lock s = s\<lparr>sw_lock_held := False\<rparr>"

definition with_lock :: "('w, 'm, 'a) shadow_step \<Rightarrow> ('w, 'm, 'a) shadow_step" where
  "with_lock m = sbind acquire_lock (\<lambda>_. \<lambda>s. case m s of (r, t) \<Rightarrow> (r, release_lock t))"

section \<open>The warm-up\<close>

definition WARMUP_SAFETY_MARGIN_CANDLES :: int where
  "WARMUP_SAFETY_MARGIN_CANDLES = 48"

definition compute_warmup_candle_count :: "int \<Rightarrow> int" where
  "compute_warmup_candle_count strategy_min_required_candles = strategy_min_required_candles - 1 + WARMUP_SAFETY_MARGIN_CANDLES"

definition compute_effective_min_required_candles :: "int \<Rightarrow> int" where
  "compute_effective_min_required_candles warmup_candle_count = warmup_candle_count + CONFIRMATION_WINDOW_1H_CANDLES + 1"

record bootstrap_result =
  br_status :: string
  br_warmup_candle_count :: int
  br_warmup_start_time_ms :: "int option"
  br_warmup_end_time_ms :: "int option"
  br_effective_min_required_candles :: int

definition refused :: "string \<Rightarrow> int \<Rightarrow> bootstrap_result" where
  "refused status effective =
     \<lparr>br_status = status, br_warmup_candle_count = 0, br_warmup_start_time_ms = None, br_warmup_end_time_ms = None,
      br_effective_min_required_candles = effective\<rparr>"

definition bootstrap_answer :: "string \<Rightarrow> shadow_bootstrap_state \<Rightarrow> bootstrap_result" where
  "bootstrap_answer status st =
     \<lparr>br_status = status, br_warmup_candle_count = sb_warmup_candle_count st,
      br_warmup_start_time_ms = Some (sb_warmup_start_time_ms st), br_warmup_end_time_ms = Some (sb_warmup_last_open_time_ms st),
      br_effective_min_required_candles = sb_effective_min_required_candles st\<rparr>"

text \<open>What is wrong with the downloaded range, if anything.\<close>

definition warmup_refusal :: "string \<Rightarrow> int \<Rightarrow> int \<Rightarrow> int \<Rightarrow> candle list \<Rightarrow> string option result" where
  "warmup_refusal interval n start_ms last_open_ms candles =
     (if candles = [] then Inr (Some ''INSUFFICIENT_HISTORY_AVAILABLE'')
      else bindr (partition_into_segments candles interval) (\<lambda>segmentation.
        Inr (if gaps segmentation \<noteq> [] then Some ''GAP_IN_WARMUP_DATA''
             else if int (length candles) \<noteq> n \<or> open_time_ms (hd candles) \<noteq> start_ms
                  \<or> open_time_ms (last candles) \<noteq> last_open_ms
             then Some ''INSUFFICIENT_HISTORY_AVAILABLE'' else None)))"

definition warmup_state :: "int \<Rightarrow> int \<Rightarrow> shadow_bootstrap_state" where
  "warmup_state step_ms now_ms =
     (let n = compute_warmup_candle_count multitimeframe_min_required_candles
      in \<lparr>sb_warmup_start_time_ms = SHADOW_START_BOUNDARY_MS - n * step_ms,
          sb_warmup_last_open_time_ms = SHADOW_START_BOUNDARY_MS - step_ms, sb_warmup_candle_count = n,
          sb_effective_min_required_candles = compute_effective_min_required_candles n,
          sb_bootstrapped_at_ms = now_ms, sb_source = ''shadow-bootstrap:https://api.binance.com''\<rparr>)"

definition warmup_plan :: "string \<Rightarrow> string \<Rightarrow> fetch_plan" where
  "warmup_plan symbol interval =
     \<lparr>fp_symbol = symbol, fp_interval = interval, fp_end_time_ms = SHADOW_START_BOUNDARY_MS,
      fp_page_limit = PAGE_LIMIT, fp_max_retries = DEFAULT_MAX_RETRIES\<rparr>"

definition bootstrap_fetched ::
  "('w, 'm) shadow_env \<Rightarrow> string \<Rightarrow> shadow_bootstrap_state \<Rightarrow> candle list \<Rightarrow> ('w, 'm, bootstrap_result) shadow_step" where
  "bootstrap_fetched env interval st candles =
     sbind (slift (warmup_refusal interval (sb_warmup_candle_count st) (sb_warmup_start_time_ms st)
       (sb_warmup_last_open_time_ms st) candles)) (\<lambda>refusal.
     case refusal of
       Some status \<Rightarrow> sreturn (refused status (sb_effective_min_required_candles st))
     | None \<Rightarrow>
         sbind (on_candles (upsert_candles (se_statement_fails env) candles)) (\<lambda>_.
         sbind (on_ext (se_clock_ms env)) (\<lambda>now_ms.
         sbind (on_shadow_db (record_bootstrap_atomically candles (st\<lparr>sb_bootstrapped_at_ms := now_ms\<rparr>))) (\<lambda>_.
         sreturn (bootstrap_answer ''OK'' st)))))"

text \<open>The fuel of the download is enough for its range (\<open>range_download_ends\<close>).\<close>

definition run_shadow_bootstrap :: "('w, 'm) shadow_env \<Rightarrow> app_config \<Rightarrow> ('w, 'm, bootstrap_result) shadow_step" where
  "run_shadow_bootstrap env config =
     (let symbol = cfg_symbol (cfg_market config); interval = cfg_interval (cfg_market config) in
     sbind (slift (assert_valid_shadow_config config)) (\<lambda>_.
     sbind (slift (interval_to_ms interval)) (\<lambda>step_ms.
     sbind (sget (\<lambda>s. get_bootstrap_state (sw_db s))) (\<lambda>existing.
     case existing of
       Some st \<Rightarrow> sreturn (bootstrap_answer ''ALREADY_BOOTSTRAPPED'' st)
     | None \<Rightarrow>
         let st = warmup_state step_ms 0 in
         sbind (on_ext (fetch_historical_range (range_fuel step_ms (sb_warmup_start_time_ms st) SHADOW_START_BOUNDARY_MS)
           (se_history env) (warmup_plan symbol interval) (sb_warmup_start_time_ms st) (Some SHADOW_START_BOUNDARY_MS))) (\<lambda>fetched.
         bootstrap_fetched env interval st (fr_candles fetched))))))"

section \<open>Verification before every cycle\<close>

record bootstrap_verification =
  bv_ok :: bool
  bv_reason :: string
  bv_state :: "shadow_bootstrap_state option"

definition verify_bootstrap_complete :: "app_config \<Rightarrow> candle_db \<Rightarrow> 'm shadow_db \<Rightarrow> bootstrap_verification result" where
  "verify_bootstrap_complete config candles_db db =
     (case get_bootstrap_state db of
        None \<Rightarrow> Inr \<lparr>bv_ok = False, bv_reason = ''not bootstrapped'', bv_state = None\<rparr>
      | Some st \<Rightarrow>
          let candles = get_candles (cfg_symbol (cfg_market config)) (cfg_interval (cfg_market config))
                (Some (sb_warmup_start_time_ms st)) (Some (sb_warmup_last_open_time_ms st)) candles_db;
              answer = (\<lambda>ok reason. Inr \<lparr>bv_ok = ok, bv_reason = reason, bv_state = Some st\<rparr>)
          in if int (length candles) \<noteq> sb_warmup_candle_count st then answer False ''missing candles''
             else bindr (nth_res candles 0) (\<lambda>first. bindr (nth_res candles (-1)) (\<lambda>lst.
               if open_time_ms first \<noteq> sb_warmup_start_time_ms st \<or> open_time_ms lst \<noteq> sb_warmup_last_open_time_ms st
               then answer False ''range mismatch''
               else bindr (partition_into_segments candles (cfg_interval (cfg_market config))) (\<lambda>segmentation.
                 if gaps segmentation \<noteq> [] then answer False ''gap'' else answer True ''verified''))))"

end
