(* ===== verification/Shadow_Notifications.thy ===== *)
theory Shadow_Notifications
  imports Shadow_Bootstrap Extended_Report
begin

text \<open>
  The report of the shadow mode (\<open>shadow/report.py\<close>), the messages it sends
  (\<open>shadow/notifications/builder.py\<close>), the Telegram client (\<open>telegram_client.py\<close>) and the
  delivery of the outbox (\<open>sender.py\<close>). A message is the figures it renders; the wording
  around them and the number formats are not modelled.
\<close>

section \<open>The report\<close>

definition SHADOW_MIN_CLOSED_TRADES_FOR_PROMOTION_REVIEW :: int where
  "SHADOW_MIN_CLOSED_TRADES_FOR_PROMOTION_REVIEW = 30"

record shadow_gap_summary =
  gs_stored_candle_count :: int
  gs_gap_count :: int
  gs_total_missing_intervals :: int
  gs_latest_segment_length :: int
  gs_min_required_candles :: int
  gs_effective_min_required_candles :: int

record shadow_open_summary =
  os_position :: open_position_info
  os_latest_close_time_ms :: "int option"
  os_latest_close_price :: "dec option"
  os_unrealized_pnl_quote :: "dec option"

record shadow_report =
  sh_run_state :: shadow_run_state
  sh_bootstrap :: "shadow_bootstrap_state option"
  sh_performance :: performance_report
  sh_expectancy_r :: "flt option"
  sh_expectancy_quote :: "flt option"
  sh_total_fees_paid_quote :: dec
  sh_total_slippage_cost_quote :: dec
  sh_longest_losing_streak :: int
  sh_open_position :: "shadow_open_summary option"
  sh_data_gaps :: shadow_gap_summary
  sh_promotion_review_eligible :: bool
  sh_closed_trade_count :: int

text \<open>Multiples of the planned risk, of the trades that have one.\<close>

definition r_multiples :: "shadow_trade_record list \<Rightarrow> flt list" where
  "r_multiples rs =
     List.map_filter (\<lambda>r. case st_planned_risk_quote r of None \<Rightarrow> None
       | Some risk \<Rightarrow> if 0 < risk then Some (float_of_dec (t_pnl_quote (st_trade r) / risk)) else None) rs"

definition expectancy_r_of :: "shadow_trade_record list \<Rightarrow> flt option" where
  "expectancy_r_of rs = (let ms = r_multiples rs in if ms = [] then None else Some (fmean ms))"

definition expectancy_quote_of :: "trade list \<Rightarrow> flt option" where
  "expectancy_quote_of ts =
     (if ts = [] then None else Some (float_of_dec (dsum (map t_pnl_quote ts) / Dec (of_nat (length ts)))))"

definition slippage_cost :: "trade \<Rightarrow> dec" where
  "slippage_cost t = (t_entry_price t - t_entry_reference_price t) * t_quantity t
     + (t_exit_reference_price t - t_exit_price t) * t_quantity t"

fun losing_streak :: "int \<Rightarrow> int \<Rightarrow> trade list \<Rightarrow> int" where
  "losing_streak longest current [] = longest"
| "losing_streak longest current (t # ts) =
     (if t_pnl_quote t < 0 then losing_streak (max longest (current + 1)) (current + 1) ts else losing_streak longest 0 ts)"

definition open_summary_of :: "candle list \<Rightarrow> open_position_info \<Rightarrow> shadow_open_summary" where
  "open_summary_of candles pos =
     (let latest = (if candles = [] then None else Some (last candles))
      in \<lparr>os_position = pos, os_latest_close_time_ms = map_option close_time_ms latest,
          os_latest_close_price = map_option c_close latest,
          os_unrealized_pnl_quote =
            map_option (\<lambda>c. oi_quantity pos * (c_close c - oi_entry_price pos) - oi_entry_fee_quote pos) latest\<rparr>)"

definition gap_summary_of :: "string \<Rightarrow> shadow_bootstrap_state option \<Rightarrow> candle list \<Rightarrow> shadow_gap_summary result" where
  "gap_summary_of interval bootstrap candles =
     bindr (if candles = [] then Inr (0, 0, 0, False)
       else bindr (partition_into_segments candles interval) (\<lambda>sg.
            bindr (nth_res (segments sg) (-1)) (\<lambda>latest. bindr (nth_res latest 0) (\<lambda>first.
            Inr (int (length (gaps sg)), sum_list (map missing_intervals (gaps sg)), int (length latest),
              (case bootstrap of None \<Rightarrow> False | Some st \<Rightarrow> open_time_ms first = sb_warmup_start_time_ms st))))))
     (\<lambda>(gap_count, missing, latest_length, anchored).
     Inr \<lparr>gs_stored_candle_count = int (length candles), gs_gap_count = gap_count, gs_total_missing_intervals = missing,
          gs_latest_segment_length = latest_length, gs_min_required_candles = multitimeframe_min_required_candles,
          gs_effective_min_required_candles =
            (case bootstrap of Some st \<Rightarrow> if anchored then sb_effective_min_required_candles st else multitimeframe_min_required_candles
             | None \<Rightarrow> multitimeframe_min_required_candles)\<rparr>)"

definition build_shadow_report :: "pow_fun \<Rightarrow> app_config \<Rightarrow> candle_db \<Rightarrow> 'm shadow_db \<Rightarrow> shadow_report result" where
  "build_shadow_report pw config candles_db db =
     (let symbol = cfg_symbol (cfg_market config); interval = cfg_interval (cfg_market config);
          state = get_run_state db; bootstrap = get_bootstrap_state db; records = get_all_trades db;
          start = (case bootstrap of None \<Rightarrow> SHADOW_START_BOUNDARY_MS | Some st \<Rightarrow> sb_warmup_start_time_ms st);
          candles = get_candles symbol interval (Some start) None candles_db;
          trades = map st_trade records
      in bindr (compute_performance_report pw trades (get_equity_curve db) interval SHADOW_MIN_CLOSED_TRADES_FOR_PROMOTION_REVIEW None)
         (\<lambda>performance.
         bindr (gap_summary_of interval bootstrap candles) (\<lambda>gaps_found.
         Inr \<lparr>sh_run_state = state, sh_bootstrap = bootstrap, sh_performance = performance,
              sh_expectancy_r = expectancy_r_of records, sh_expectancy_quote = expectancy_quote_of trades,
              sh_total_fees_paid_quote = dsum (map t_fees_paid trades),
              sh_total_slippage_cost_quote = dsum (map slippage_cost trades),
              sh_longest_losing_streak = losing_streak 0 0 trades,
              sh_open_position = map_option (open_summary_of candles) (rs_open_position state), sh_data_gaps = gaps_found,
              sh_promotion_review_eligible = (SHADOW_MIN_CLOSED_TRADES_FOR_PROMOTION_REVIEW \<le> int (length trades)),
              sh_closed_trade_count = int (length trades)\<rparr>)))"

section \<open>Messages\<close>

record entry_figures =
  ef_event_id :: string
  ef_symbol :: string
  ef_signal_time_ms :: int
  ef_entry_time_ms :: int
  ef_entry_price :: dec
  ef_quantity :: dec
  ef_notional :: dec
  ef_plan :: risk_reward_plan
  ef_entry_fee_quote :: dec
  ef_estimated_exit_fee_quote :: "dec option"
  ef_entry_slippage_quote :: dec
  ef_estimated_exit_slippage_quote :: "dec option"
  ef_breakout_level :: "jval option"
  ef_reason_code :: jval
  ef_equity_before_entry :: dec

record exit_figures =
  xf_event_id :: string
  xf_symbol :: string
  xf_reason_label :: string
  xf_trade :: trade
  xf_holding_hours :: flt
  xf_gross_pnl :: dec
  xf_slippage_cost :: dec
  xf_net_pnl_pct :: "flt option"
  xf_realized_r :: "flt option"
  xf_updated_equity :: dec
  xf_closed_trade_count :: int
  xf_win_rate_pct :: "flt option"
  xf_expectancy_quote :: "flt option"
  xf_expectancy_r :: "flt option"

datatype shadow_message =
    Entry_Message entry_figures
  | Exit_Message exit_figures
  | Daily_Summary string shadow_report
  | Test_Message

definition compute_realized_plan_for_display ::
  "dec \<Rightarrow> dec \<Rightarrow> dec \<Rightarrow> app_config \<Rightarrow> symbol_filters \<Rightarrow> risk_reward_plan result" where
  "compute_realized_plan_for_display entry_price quantity equity_before_entry config filters =
     build_realized_plan
       \<lparr>rr_approved = True, rr_reason = RR_APPROVED, rr_quantity = Some quantity, rr_stop_price = None, rr_target_price = None,
        planned_risk_quote = None, planned_risk_pct = None, planned_reward_quote = None, planned_reward_pct = None,
        gross_reward_to_risk = None, net_reward_to_risk = None\<rparr>
       entry_price (stop_distance_pct (cfg_stop_loss config)) (taker_fee_pct (cfg_fees config))
       (slippage_pct (cfg_fees config)) equity_before_entry filters"

definition build_entry_message ::
  "string \<Rightarrow> string \<Rightarrow> int \<Rightarrow> open_position_info \<Rightarrow> dec \<Rightarrow> risk_reward_plan \<Rightarrow> jval \<Rightarrow> payload \<Rightarrow> app_config \<Rightarrow> shadow_message" where
  "build_entry_message event_id symbol signal_time_ms pos equity_before_entry plan reason_code inputs config =
     (let q = oi_quantity pos; fee = dec_of_float (taker_fee_pct (cfg_fees config)); slip = dec_of_float (slippage_pct (cfg_fees config))
      in Entry_Message
        \<lparr>ef_event_id = event_id, ef_symbol = symbol, ef_signal_time_ms = signal_time_ms, ef_entry_time_ms = oi_entry_time_ms pos,
         ef_entry_price = oi_entry_price pos, ef_quantity = q, ef_notional = q * oi_entry_price pos, ef_plan = plan,
         ef_entry_fee_quote = oi_entry_fee_quote pos,
         ef_estimated_exit_fee_quote = map_option (\<lambda>t. q * t * (1 - slip) * fee) (rr_target_price plan),
         ef_entry_slippage_quote = (oi_entry_price pos - oi_entry_reference_price pos) * q,
         ef_estimated_exit_slippage_quote = map_option (\<lambda>t. q * t * slip) (rr_target_price plan),
         ef_breakout_level = map_of inputs ''governing_breakout_level'', ef_reason_code = reason_code,
         ef_equity_before_entry = equity_before_entry\<rparr>)"

text \<open>Count, win rate and the two expectancies of the trades to date.\<close>

definition compute_trade_stats_to_date :: "shadow_trade_record list \<Rightarrow> int \<times> flt option \<times> flt option \<times> flt option" where
  "compute_trade_stats_to_date records =
     (let trades = map st_trade records; wins = filter (\<lambda>t. 0 < t_pnl_quote t) trades
      in if trades = [] then (0, None, None, None)
         else (int (length trades), Some (Flt 100 * float_of_int (int (length wins)) / float_of_int (int (length trades))),
               expectancy_quote_of trades, expectancy_r_of records))"

definition exit_reason_label :: "string \<Rightarrow> string" where
  "exit_reason_label reason =
     (if reason = EXIT_REASON_TAKE_PROFIT then ''TAKE-PROFIT'' else if reason = EXIT_REASON_STOP_LOSS then ''STOP-LOSS'' else ''STRATEGY EXIT'')"

definition build_exit_message ::
  "string \<Rightarrow> string \<Rightarrow> shadow_trade_record \<Rightarrow> dec \<Rightarrow> int \<times> flt option \<times> flt option \<times> flt option \<Rightarrow> shadow_message" where
  "build_exit_message event_id symbol r updated_equity stats =
     (let t = st_trade r; entry_notional = t_quantity t * t_entry_price t
      in Exit_Message
        \<lparr>xf_event_id = event_id, xf_symbol = symbol, xf_reason_label = exit_reason_label (t_exit_reason t), xf_trade = t,
         xf_holding_hours = int_truediv (t_exit_time_ms t - t_entry_time_ms t) HOUR_MS,
         xf_gross_pnl = t_pnl_quote t + t_fees_paid t, xf_slippage_cost = slippage_cost t,
         xf_net_pnl_pct = (if 0 < entry_notional then Some (float_of_dec (t_pnl_quote t / entry_notional) * Flt 100) else None),
         xf_realized_r = (case st_planned_risk_quote r of None \<Rightarrow> None
           | Some risk \<Rightarrow> if 0 < risk then Some (float_of_dec (t_pnl_quote t / risk)) else None),
         xf_updated_equity = updated_equity, xf_closed_trade_count = fst stats, xf_win_rate_pct = fst (snd stats),
         xf_expectancy_quote = fst (snd (snd stats)), xf_expectancy_r = snd (snd (snd stats))\<rparr>)"

definition build_daily_summary_message :: "string \<Rightarrow> shadow_report \<Rightarrow> shadow_message" where
  "build_daily_summary_message date_iso report = Daily_Summary date_iso report"

section \<open>The Telegram client\<close>

text \<open>\<open>str.replace(secret, '***REDACTED***')\<close>: occurrences from the left, not overlapping.\<close>

definition REDACTED :: string where
  "REDACTED = ''***REDACTED***''"

definition starts_with :: "string \<Rightarrow> string \<Rightarrow> bool" where
  "starts_with secret txt \<longleftrightarrow> take (length secret) txt = secret"

function replace_all :: "string \<Rightarrow> string \<Rightarrow> string" where
  "replace_all secret txt =
     (if secret = [] \<or> txt = [] then txt
      else if starts_with secret txt then REDACTED @ replace_all secret (drop (length secret) txt)
      else hd txt # replace_all secret (tl txt))"
  by pat_completeness auto
termination
  by (relation "measure (\<lambda>(_, txt). length txt)") (auto simp: neq_Nil_conv)

declare replace_all.simps [simp del]

definition redact :: "string \<Rightarrow> string \<Rightarrow> string" where
  "redact txt secret = (if secret = [] then txt else replace_all secret txt)"

definition SEND_OUTCOME_SENT :: string where "SEND_OUTCOME_SENT = ''SENT''"
definition SEND_OUTCOME_AMBIGUOUS :: string where "SEND_OUTCOME_AMBIGUOUS = ''AMBIGUOUS''"
definition SEND_OUTCOME_FAILED :: string where "SEND_OUTCOME_FAILED = ''FAILED''"

definition DEFAULT_MAX_SAFE_RETRIES :: nat where "DEFAULT_MAX_SAFE_RETRIES = 3"
definition TELEGRAM_BACKOFF_SECONDS :: flt where "TELEGRAM_BACKOFF_SECONDS = Flt 1"

record telegram_send_result =
  tr_outcome :: string
  tr_attempts :: int
  tr_safe_error :: "string option"

definition classify_response :: "string \<Rightarrow> int \<Rightarrow> string \<Rightarrow> telegram_body \<Rightarrow> int \<Rightarrow> telegram_send_result result" where
  "classify_response token status txt body attempts =
     (if status = 200
      then (case body of
          Not_Json \<Rightarrow> Inr \<lparr>tr_outcome = SEND_OUTCOME_FAILED, tr_attempts = attempts, tr_safe_error = Some ''malformed 200 response body''\<rparr>
        | Json_Other \<Rightarrow> Inl (ProjectError ''AttributeError'')
        | Json_Object ok shown \<Rightarrow>
            if ok then Inr \<lparr>tr_outcome = SEND_OUTCOME_SENT, tr_attempts = attempts, tr_safe_error = None\<rparr>
            else Inr \<lparr>tr_outcome = SEND_OUTCOME_FAILED, tr_attempts = attempts,
                      tr_safe_error = Some (redact (''Telegram rejected the message: '' @ shown) token)\<rparr>)
      else Inr \<lparr>tr_outcome = SEND_OUTCOME_FAILED, tr_attempts = attempts,
                tr_safe_error = Some (redact (''HTTP '' @ int_str status @ '': '' @ take 200 txt) token)\<rparr>)"

text \<open>The tries after \<open>attempt\<close> of them, \<open>remaining\<close> more.\<close>

fun send_message_from ::
  "('w, 'm) shadow_env \<Rightarrow> telegram_secrets \<Rightarrow> 'm \<Rightarrow> string option \<Rightarrow> nat \<Rightarrow> nat \<Rightarrow> ('w, telegram_send_result) step" where
  "send_message_from env secrets m last_error attempt 0 =
     sreturn \<lparr>tr_outcome = SEND_OUTCOME_FAILED, tr_attempts = int attempt, tr_safe_error = last_error\<rparr>"
| "send_message_from env secrets m last_error attempt (Suc remaining) =
     (let attempts = int attempt + 1; token = ts_bot_token secrets;
          ended = (\<lambda>outcome txt. \<lparr>tr_outcome = outcome, tr_attempts = attempts, tr_safe_error = Some (redact txt token)\<rparr>)
      in sbind (se_telegram_post env token (ts_chat_id secrets) m) (\<lambda>answer.
        case answer of
          Read_Timeout txt \<Rightarrow> sreturn (ended SEND_OUTCOME_AMBIGUOUS txt)
        | Connection_Failed txt \<Rightarrow>
            if 0 < remaining
            then sbind (se_sleep env (TELEGRAM_BACKOFF_SECONDS * float_of_int attempts)) (\<lambda>_.
                 send_message_from env secrets m (Some (redact txt token)) (Suc attempt) remaining)
            else sreturn (ended SEND_OUTCOME_FAILED txt)
        | Other_Request_Error txt \<Rightarrow> sreturn (ended SEND_OUTCOME_AMBIGUOUS txt)
        | Http_Response status txt body \<Rightarrow> slift (classify_response token status txt body attempts)))"

definition send_message :: "('w, 'm) shadow_env \<Rightarrow> telegram_secrets \<Rightarrow> 'm \<Rightarrow> ('w, telegram_send_result) step" where
  "send_message env secrets m = send_message_from env secrets m None 0 DEFAULT_MAX_SAFE_RETRIES"

section \<open>Delivery\<close>

text \<open>\<open>except Exception\<close>: an interrupt goes through.\<close>

definition except_exception :: "('s, 'a) step \<Rightarrow> (exn \<Rightarrow> 'a) \<Rightarrow> ('s, 'a) step" where
  "except_exception m h = scatch m (\<lambda>e. if e = KeyboardInterrupt then sraise e else sreturn (h e))"

definition outcome_to_status :: "string \<Rightarrow> string result" where
  "outcome_to_status outcome =
     of_option KeyError (map_of [(SEND_OUTCOME_SENT, NOTIFICATION_STATUS_SENT),
       (SEND_OUTCOME_AMBIGUOUS, NOTIFICATION_STATUS_AMBIGUOUS), (SEND_OUTCOME_FAILED, NOTIFICATION_STATUS_FAILED)] outcome)"

definition is_telegram_active :: "app_config \<Rightarrow> string option \<Rightarrow> string option" where
  "is_telegram_active config notify_file =
     (if \<not> tg_enabled (cfg_telegram config) then Some ''telegram.enabled is False in config''
      else if kill_is_engaged notify_file then Some ''notifications are disabled'' else None)"

record flush_result =
  fl_attempted :: int
  fl_sent :: int
  fl_ambiguous :: int
  fl_failed :: int
  fl_skipped_reason :: "string option"

definition flush_skipped :: "string \<Rightarrow> flush_result" where
  "flush_skipped reason = \<lparr>fl_attempted = 0, fl_sent = 0, fl_ambiguous = 0, fl_failed = 0, fl_skipped_reason = Some reason\<rparr>"

text \<open>One delivery and the row it leaves; its new status.\<close>

definition deliver ::
  "('w, 'm) shadow_env \<Rightarrow> telegram_secrets \<Rightarrow> 'm notification_event \<Rightarrow> ('w, 'm, string) shadow_step" where
  "deliver env secrets e =
     sbind (on_ext (se_clock_ms env)) (\<lambda>now_ms.
     sbind (on_ext (send_message env secrets (ne_payload_text e))) (\<lambda>result.
     sbind (slift (outcome_to_status (tr_outcome result))) (\<lambda>new_status.
     sbind (on_shadow_db (update_notification_status (ne_event_id e) new_status (ne_attempt_count e + tr_attempts result)
       (Some now_ms) (tr_safe_error result) (if new_status = NOTIFICATION_STATUS_SENT then Some now_ms else None))) (\<lambda>_.
     sreturn new_status))))"

fun deliver_all ::
  "('w, 'm) shadow_env \<Rightarrow> telegram_secrets \<Rightarrow> 'm notification_event list \<Rightarrow> flush_result \<Rightarrow> ('w, 'm, flush_result) shadow_step" where
  "deliver_all env secrets [] r = sreturn r"
| "deliver_all env secrets (e # es) r =
     sbind (deliver env secrets e) (\<lambda>status.
     deliver_all env secrets es
       (if status = NOTIFICATION_STATUS_SENT then r\<lparr>fl_sent := fl_sent r + 1\<rparr>
        else if status = NOTIFICATION_STATUS_AMBIGUOUS then r\<lparr>fl_ambiguous := fl_ambiguous r + 1\<rparr>
        else r\<lparr>fl_failed := fl_failed r + 1\<rparr>))"

definition flush_body :: "('w, 'm) shadow_env \<Rightarrow> app_config \<Rightarrow> ('w, 'm, flush_result) shadow_step" where
  "flush_body env config =
     sbind (sget (\<lambda>s. is_telegram_active config (sw_notify_file s))) (\<lambda>inactive.
     case inactive of
       Some reason \<Rightarrow> sreturn (flush_skipped reason)
     | None \<Rightarrow>
         sbind (on_ext (se_telegram_secrets env)) (\<lambda>found.
         case found of
           None \<Rightarrow> sreturn (flush_skipped ''Telegram is not configured'')
         | Some secrets \<Rightarrow>
             sbind (sget (\<lambda>s. list_notifications (Some NOTIFICATION_STATUS_PENDING) (sw_db s))) (\<lambda>pending.
             deliver_all env secrets pending
               \<lparr>fl_attempted = int (length pending), fl_sent = 0, fl_ambiguous = 0, fl_failed = 0, fl_skipped_reason = None\<rparr>)))"

definition flush_pending_notifications :: "('w, 'm) shadow_env \<Rightarrow> app_config \<Rightarrow> ('w, 'm, flush_result) shadow_step" where
  "flush_pending_notifications env config = except_exception (flush_body env config) (\<lambda>e. flush_skipped ''unexpected error'')"

record retry_result =
  rt_ok :: bool
  rt_detail :: string
  rt_new_status :: "string option"

definition retry_notification :: "('w, 'm) shadow_env \<Rightarrow> string \<Rightarrow> ('w, 'm, retry_result) shadow_step" where
  "retry_notification env event_id =
     sbind (sget (\<lambda>s. get_notification event_id (sw_db s))) (\<lambda>found.
     case found of
       None \<Rightarrow> sreturn \<lparr>rt_ok = False, rt_detail = ''not found'', rt_new_status = None\<rparr>
     | Some e \<Rightarrow>
         if ne_status e = NOTIFICATION_STATUS_SENT
         then sreturn \<lparr>rt_ok = False, rt_detail = ''already SENT'', rt_new_status = None\<rparr>
         else sbind (on_ext (se_telegram_secrets env)) (\<lambda>secrets.
           case secrets of
             None \<Rightarrow> sreturn \<lparr>rt_ok = False, rt_detail = ''Telegram is not configured'', rt_new_status = None\<rparr>
           | Some sec \<Rightarrow>
               sbind (deliver env sec e) (\<lambda>status.
               sreturn \<lparr>rt_ok = True, rt_detail = ''retry outcome: '' @ status, rt_new_status = Some status\<rparr>)))"

end
