(* ===== verification/Shadow_Engine.thy ===== *)
theory Shadow_Engine
  imports Shadow_Notifications
begin

text \<open>
  One cycle of the shadow mode (\<open>shadow/engine.py\<close>): kill switch, lock, verified warm-up,
  download from the boundary on, storage, one backtest of the whole latest segment, and the
  rows that are new since the high-water mark, written in one transaction; then the
  notifications, which never affect the cycle.
\<close>

section \<open>Notifications of a cycle\<close>

fun equity_before :: "equity_point list \<Rightarrow> int \<Rightarrow> dec \<Rightarrow> dec" where
  "equity_before [] time_ms candidate = candidate"
| "equity_before (p # ps) time_ms candidate =
     (if time_ms \<le> ep_timestamp_ms p then candidate else equity_before ps time_ms (ep_equity p))"

definition equity_at_or_after :: "equity_point list \<Rightarrow> int \<Rightarrow> dec \<Rightarrow> dec" where
  "equity_at_or_after curve time_ms fallback =
     (case find (\<lambda>p. time_ms \<le> ep_timestamp_ms p) curve of None \<Rightarrow> fallback | Some p \<Rightarrow> ep_equity p)"

text \<open>The signal that an entry came from: its time, its reason and its payload.\<close>

definition find_buy_signal :: "journal_db \<Rightarrow> int \<Rightarrow> int \<times> jval \<times> payload" where
  "find_buy_signal j entry_time_ms =
     (let signal_time_ms = entry_time_ms - 1
      in case find (\<lambda>e. je_timestamp_ms e = signal_time_ms \<and> map_of (je_payload e) ''type'' = Some (JStr ''buy''))
             (entries_by_type ''SIGNAL'' j) of
           Some e \<Rightarrow> (signal_time_ms, (case map_of (je_payload e) ''reason_code'' of None \<Rightarrow> JStr ''UNKNOWN'' | Some r \<Rightarrow> r), je_payload e)
         | None \<Rightarrow> (signal_time_ms, JStr ''UNKNOWN'', []))"

definition entry_event_id :: "int \<Rightarrow> string" where
  "entry_event_id entry_time_ms = ''entry:'' @ int_str entry_time_ms"

definition exit_event_id :: "int \<Rightarrow> string" where
  "exit_event_id exit_time_ms = ''exit:'' @ int_str exit_time_ms"

text \<open>What the notification of an entry is about: the open position, or a trade already closed again.\<close>

definition entry_of_trade :: "trade \<Rightarrow> open_position_info" where
  "entry_of_trade t =
     \<lparr>oi_entry_time_ms = t_entry_time_ms t, oi_entry_price = t_entry_price t,
      oi_entry_reference_price = t_entry_reference_price t, oi_quantity = t_quantity t, oi_entry_fee_quote = t_entry_fee_quote t\<rparr>"

definition build_entry_notification_event ::
  "app_config \<Rightarrow> symbol_filters \<Rightarrow> journal_db \<Rightarrow> equity_point list \<Rightarrow> dec \<Rightarrow> int \<Rightarrow> open_position_info
    \<Rightarrow> shadow_message notification_event result" where
  "build_entry_notification_event config filters j curve starting_equity now_ms pos =
     (let t = oi_entry_time_ms pos; before = equity_before curve t starting_equity in
      bindr (compute_realized_plan_for_display (oi_entry_price pos) (oi_quantity pos) before config filters) (\<lambda>plan.
      case find_buy_signal j t of (signal_time_ms, reason, inputs) \<Rightarrow>
        Inr (new_event (entry_event_id t) ''entry'' now_ms
          (build_entry_message (entry_event_id t) (cfg_symbol (cfg_market config)) signal_time_ms pos before plan reason inputs config))))"

definition build_exit_notification_event ::
  "string \<Rightarrow> shadow_trade_record \<Rightarrow> shadow_trade_record list \<Rightarrow> equity_point list \<Rightarrow> dec \<Rightarrow> int
    \<Rightarrow> shadow_message notification_event" where
  "build_exit_notification_event symbol r to_date curve starting_equity now_ms =
     (let t = t_exit_time_ms (st_trade r)
      in new_event (exit_event_id t) ''exit'' now_ms
          (build_exit_message (exit_event_id t) symbol r (equity_at_or_after curve t starting_equity) (compute_trade_stats_to_date to_date)))"

text \<open>What a \<open>try\<close> block appends before the first item that raises.\<close>

fun collect_ok :: "('a \<Rightarrow> 'b result) \<Rightarrow> 'a list \<Rightarrow> 'b list" where
  "collect_ok f [] = []"
| "collect_ok f (x # xs) = (case f x of Inl _ \<Rightarrow> [] | Inr y \<Rightarrow> y # collect_ok f xs)"

fun exit_events ::
  "string \<Rightarrow> equity_point list \<Rightarrow> dec \<Rightarrow> int \<Rightarrow> shadow_trade_record list \<Rightarrow> shadow_trade_record list
    \<Rightarrow> shadow_message notification_event list" where
  "exit_events symbol curve starting_equity now_ms to_date [] = []"
| "exit_events symbol curve starting_equity now_ms to_date (r # rs) =
     build_exit_notification_event symbol r (to_date @ [r]) curve starting_equity now_ms
       # exit_events symbol curve starting_equity now_ms (to_date @ [r]) rs"

section \<open>The daily summary\<close>

definition daily_summary_body :: "('w, shadow_message) shadow_env \<Rightarrow> app_config \<Rightarrow> ('w, shadow_message, unit) shadow_step" where
  "daily_summary_body env config =
     sbind (on_ext (se_melbourne_now env)) (\<lambda>(hour, today_iso).
     if hour < 8 then sreturn ()
     else sbind (sget (\<lambda>s. get_last_daily_summary_melbourne_date (sw_db s))) (\<lambda>sent_on.
       if sent_on = Some today_iso then sreturn ()
       else
         sbind (sget (\<lambda>s. build_shadow_report (se_pow env) config (sw_candles s) (sw_db s))) (\<lambda>built.
         sbind (slift built) (\<lambda>report.
         sbind (on_ext (se_clock_ms env)) (\<lambda>now_ms.
         sbind (on_shadow_db (enqueue_notifications_atomically
           [new_event (''daily_summary:'' @ today_iso) ''daily_summary'' now_ms (build_daily_summary_message today_iso report)])) (\<lambda>_.
         sbind (on_shadow_db (record_daily_summary_sent today_iso)) (\<lambda>_.
         sbind (flush_pending_notifications env config) (\<lambda>_.
         sreturn ()))))))))"

definition maybe_send_daily_summary :: "('w, shadow_message) shadow_env \<Rightarrow> app_config \<Rightarrow> ('w, shadow_message, unit) shadow_step" where
  "maybe_send_daily_summary env config = except_exception (daily_summary_body env config) (\<lambda>e. ())"

text \<open>What every successful path of a cycle ends with.\<close>

definition after_cycle :: "('w, shadow_message) shadow_env \<Rightarrow> app_config \<Rightarrow> ('w, shadow_message, unit) shadow_step" where
  "after_cycle env config =
     sbind (flush_pending_notifications env config) (\<lambda>_. maybe_send_daily_summary env config)"

section \<open>The cycle\<close>

record shadow_cycle_result =
  sc_status :: string
  sc_detail :: string
  sc_new_candles_fetched :: int
  sc_segment_length :: "int option"
  sc_min_required_candles :: int
  sc_new_trades_persisted :: int
  sc_new_equity_points_persisted :: int
  sc_new_journal_entries_persisted :: int

definition idle_result :: "string \<Rightarrow> string \<Rightarrow> int \<Rightarrow> int option \<Rightarrow> int \<Rightarrow> shadow_cycle_result" where
  "idle_result status detail fetched len min_required =
     \<lparr>sc_status = status, sc_detail = detail, sc_new_candles_fetched = fetched, sc_segment_length = len,
      sc_min_required_candles = min_required, sc_new_trades_persisted = 0, sc_new_equity_points_persisted = 0,
      sc_new_journal_entries_persisted = 0\<rparr>"

text \<open>A cycle without new rows: it counts itself, and delivers what is pending.\<close>

definition idle_cycle ::
  "('w, shadow_message) shadow_env \<Rightarrow> app_config \<Rightarrow> int \<Rightarrow> shadow_cycle_result \<Rightarrow> ('w, shadow_message, shadow_cycle_result) shadow_step" where
  "idle_cycle env config now_ms r =
     sbind (on_shadow_db (touch_cycle now_ms (sc_status r) (sc_detail r) (sc_segment_length r))) (\<lambda>_.
     sbind (after_cycle env config) (\<lambda>_.
     sreturn r))"

text \<open>The closed trades with the plan each was sized under, aligned by position.\<close>

definition nth_value :: "'a list \<Rightarrow> nat \<Rightarrow> 'a option" where
  "nth_value xs i = (if i < length xs then Some (xs ! i) else None)"

definition trade_records_of :: "segment_run_result \<Rightarrow> shadow_trade_record list" where
  "trade_records_of r =
     map (\<lambda>(i, t). \<lparr>st_trade = t,
        st_planned_risk_quote = Option.bind (sr_risk_reward r) (\<lambda>rr. nth_value (rrd_planned_risk_quote_values rr) i),
        st_net_reward_to_risk = Option.bind (sr_risk_reward r) (\<lambda>rr. nth_value (rrd_net_reward_to_risk_values rr) i)\<rparr>)
       (enumerate 0 (sr_trades r))"

definition mark_threshold :: "int option \<Rightarrow> int" where
  "mark_threshold last_processed = (case last_processed of None \<Rightarrow> -1 | Some t \<Rightarrow> t)"

definition entries_to_notify :: "int \<Rightarrow> segment_run_result \<Rightarrow> shadow_trade_record list \<Rightarrow> open_position_info list" where
  "entries_to_notify threshold r new_trades =
     filter (\<lambda>p. threshold < oi_entry_time_ms p)
       ((case sr_open_position r of None \<Rightarrow> [] | Some p \<Rightarrow> [p]) @ map (\<lambda>x. entry_of_trade (st_trade x)) new_trades)"

text \<open>The transaction of a cycle: the rows past the mark, the position, the new mark.\<close>

definition segment_write ::
  "app_config \<Rightarrow> symbol_filters \<Rightarrow> int \<Rightarrow> candle list \<Rightarrow> dec \<Rightarrow> shadow_message shadow_db \<Rightarrow> segment_run_result \<Rightarrow> journal_db
    \<Rightarrow> shadow_message cycle_write" where
  "segment_write config filters now_ms segment starting_equity db r j =
     (let threshold = mark_threshold (rs_last_processed_close_time_ms (get_run_state db));
          new_trades = filter (\<lambda>x. threshold < t_exit_time_ms (st_trade x)) (trade_records_of r);
          new_equity = filter (\<lambda>p. threshold < ep_timestamp_ms p) (sr_equity_curve r);
          new_journal = filter (\<lambda>e. threshold < je_timestamp_ms e) (all_entries j);
          curve = sr_equity_curve r
      in \<lparr>cw_new_trades = new_trades, cw_new_equity_points = new_equity, cw_new_journal_entries = new_journal,
          cw_last_processed_close_time_ms = close_time_ms (last segment), cw_open_position = sr_open_position r,
          cw_now_ms = now_ms, cw_segment_length = int (length segment), cw_status = ''OK'',
          cw_detail = ''processed '' @ int_str (int (length segment)) @ '' candles in the current segment; ''
            @ int_str (int (length new_trades)) @ '' new closed trade(s).'',
          cw_notification_events =
            collect_ok (build_entry_notification_event config filters j curve starting_equity now_ms)
              (entries_to_notify threshold r new_trades)
            @ exit_events (cfg_symbol (cfg_market config)) curve starting_equity now_ms (get_all_trades db) new_trades\<rparr>)"

definition evaluate_segment ::
  "('w, shadow_message) shadow_env \<Rightarrow> app_config \<Rightarrow> int \<Rightarrow> int \<Rightarrow> int \<Rightarrow> candle list \<Rightarrow> ('w, shadow_message, shadow_cycle_result) shadow_step" where
  "evaluate_segment env config now_ms fetched required_len segment =
     sbind (on_ext (se_exchange_info env (cfg_symbol (cfg_market config)))) (\<lambda>info.
     sbind (slift (from_exchange_info info)) (\<lambda>filters.
     let starting_equity = dec_of_float (cfg_starting_equity (cfg_backtest config)) in
     sbind (slift (run_segment segment config filters (multitimeframe_signal (se_pandas env)) (cfg_risk config)
       (mk_broker (cfg_fees config)) (Some []) required_len starting_equity True)) (\<lambda>(r, j).
     sbind (sget (\<lambda>s. segment_write config filters now_ms segment starting_equity (sw_db s) r (case j of None \<Rightarrow> [] | Some es \<Rightarrow> es))) (\<lambda>w.
     sbind (on_shadow_db (record_cycle_atomically w)) (\<lambda>_.
     sbind (after_cycle env config) (\<lambda>_.
     sreturn \<lparr>sc_status = ''OK'', sc_detail = cw_detail w, sc_new_candles_fetched = fetched,
       sc_segment_length = Some (int (length segment)), sc_min_required_candles = required_len,
       sc_new_trades_persisted = int (length (cw_new_trades w)),
       sc_new_equity_points_persisted = int (length (cw_new_equity_points w)),
       sc_new_journal_entries_persisted = int (length (cw_new_journal_entries w))\<rparr>))))))"

definition required_length :: "shadow_bootstrap_state \<Rightarrow> candle \<Rightarrow> int" where
  "required_length st first =
     (if open_time_ms first = sb_warmup_start_time_ms st then sb_effective_min_required_candles st
      else multitimeframe_min_required_candles)"

definition process_candles ::
  "('w, shadow_message) shadow_env \<Rightarrow> app_config \<Rightarrow> shadow_bootstrap_state \<Rightarrow> int \<Rightarrow> int \<Rightarrow> candle list
    \<Rightarrow> ('w, shadow_message, shadow_cycle_result) shadow_step" where
  "process_candles env config st now_ms fetched all_candles =
     (if all_candles = []
      then idle_cycle env config now_ms
        (idle_result ''NO_NEW_CANDLES'' ''no shadow candles available yet.'' fetched None multitimeframe_min_required_candles)
      else sbind (sget (\<lambda>s. get_run_state (sw_db s))) (\<lambda>run_state.
        if rs_last_processed_close_time_ms run_state = Some (close_time_ms (last all_candles))
        then idle_cycle env config now_ms
          (idle_result ''NO_NEW_CANDLES'' ''no new completed candle since the last processed cycle.'' fetched
            (rs_last_segment_length run_state) multitimeframe_min_required_candles)
        else
          sbind (slift (partition_into_segments all_candles (cfg_interval (cfg_market config)))) (\<lambda>segmentation.
          sbind (slift (nth_res (segments segmentation) (-1))) (\<lambda>latest.
          sbind (slift (nth_res latest 0)) (\<lambda>first.
          let required_len = required_length st first in
          if int (length latest) < required_len
          then idle_cycle env config now_ms
            (idle_result ''INSUFFICIENT_DATA''
              (''accumulating warm-up/settling buffer: '' @ int_str (int (length latest)) @ ''/'' @ int_str required_len)
              fetched (Some (int (length latest))) required_len)
          else evaluate_segment env config now_ms fetched required_len latest)))))"

definition fetch_start :: "int option \<Rightarrow> int" where
  "fetch_start latest_stored_close_ms =
     (case latest_stored_close_ms of None \<Rightarrow> SHADOW_START_BOUNDARY_MS | Some t \<Rightarrow> max SHADOW_START_BOUNDARY_MS (t + 1))"

text \<open>The regular download of a cycle, which only ever stores candles from the boundary on.\<close>

definition fetch_new_candles ::
  "('w, shadow_message) shadow_env \<Rightarrow> app_config \<Rightarrow> ('w, shadow_message, candle list) shadow_step" where
  "fetch_new_candles env config =
     (let symbol = cfg_symbol (cfg_market config); interval = cfg_interval (cfg_market config) in
     sbind (sget (\<lambda>s. latest_close_time_ms symbol interval (sw_candles s))) (\<lambda>latest_stored_close_ms.
     sbind (on_ext (fetch_completed_candles (se_klines env symbol interval) (se_server_time env)
       (Some (fetch_start latest_stored_close_ms)) None 1000 None)) (\<lambda>fetched.
     let new_candles = filter_from_boundary fetched in
     sbind (slift (assert_no_pre_boundary_candles new_candles)) (\<lambda>_.
     sbind (if new_candles = [] then sreturn () else on_candles (upsert_candles (se_statement_fails env) new_candles)) (\<lambda>_.
     sreturn new_candles)))))"

definition run_shadow_cycle_locked ::
  "('w, shadow_message) shadow_env \<Rightarrow> app_config \<Rightarrow> ('w, shadow_message, shadow_cycle_result) shadow_step" where
  "run_shadow_cycle_locked env config =
     sbind (on_ext (se_clock_ms env)) (\<lambda>now_ms.
     sbind (sget (\<lambda>s. verify_bootstrap_complete config (sw_candles s) (sw_db s))) (\<lambda>verified.
     sbind (slift verified) (\<lambda>verification.
     if \<not> bv_ok verification
     then sreturn (idle_result (if bv_state verification = None then ''NOT_BOOTSTRAPPED'' else ''BOOTSTRAP_INVALID'')
       (bv_reason verification) 0 None multitimeframe_min_required_candles)
     else sbind (slift (of_option AssertionError (bv_state verification))) (\<lambda>st.
       sbind (fetch_new_candles env config) (\<lambda>new_candles.
       sbind (sget (\<lambda>s. get_candles (cfg_symbol (cfg_market config)) (cfg_interval (cfg_market config))
         (Some (sb_warmup_start_time_ms st)) None (sw_candles s))) (\<lambda>all_candles.
       process_candles env config st now_ms (int (length new_candles)) all_candles))))))"

definition run_shadow_cycle ::
  "('w, shadow_message) shadow_env \<Rightarrow> app_config \<Rightarrow> ('w, shadow_message, shadow_cycle_result) shadow_step" where
  "run_shadow_cycle env config =
     sbind (slift (assert_valid_shadow_config config)) (\<lambda>_.
     sbind (sget sw_kill_file) (\<lambda>kill_file.
     if kill_is_engaged kill_file
     then sreturn (idle_result ''KILL_SWITCH_ENGAGED'' (case kill_reason kill_file of None \<Rightarrow> [] | Some r \<Rightarrow> r)
       0 None multitimeframe_min_required_candles)
     else with_lock (run_shadow_cycle_locked env config)))"

end
