(* ===== verification/Bar_Rows.thy ===== *)
theory Bar_Rows
  imports Backtest_Properties Shadow_Store
begin

text \<open>
  The rows a bar of a backtest adds to its records: at most one trade, closed at the open;
  one equity point, at the close; and journal entries of different types, at the open or, for
  the signal, at the close. This is what makes the timestamps of the rows usable as keys and
  a high-water mark usable to tell new rows from old ones.
\<close>

section \<open>What the steps of a bar add\<close>

text \<open>\<open>added ks c s t\<close>: from \<open>s\<close> to \<open>t\<close>, entries of some of the types \<open>ks\<close>, in their order, and at most one trade.\<close>

definition added :: "string list \<Rightarrow> candle \<Rightarrow> seg_state \<Rightarrow> seg_state \<Rightarrow> bool" where
  "added ks c s t \<longleftrightarrow>
     (\<exists>es ts. sg_journal t = map_option (\<lambda>j. j @ es) (sg_journal s) \<and> sg_trades t = sg_trades s @ ts \<and>
        subseq (map je_type es) ks \<and> (\<forall>e \<in> set es. je_timestamp_ms e = open_time_ms c) \<and>
        length ts \<le> 1 \<and> (\<forall>x \<in> set ts. t_exit_time_ms x = open_time_ms c) \<and> (ts \<noteq> [] \<longrightarrow> sg_stop_price t = None))"

definition adds :: "string list \<Rightarrow> candle \<Rightarrow> unit run \<Rightarrow> bool" where
  "adds ks c m \<longleftrightarrow> (\<forall>s x t. m s = (Inr x, t) \<longrightarrow> added ks c s t)"

lemma adds_run: "adds ks c m \<Longrightarrow> m s = (Inr x, t) \<Longrightarrow> added ks c s t"
  by (auto simp: adds_def)

text \<open>Entries first, then what follows them.\<close>

lemma added_after_entry:
  assumes "added ks c u t"
    and "sg_journal u = map_option (\<lambda>j. j @ [e]) (sg_journal s)" "sg_trades u = sg_trades s"
    and "je_type e = k" "je_timestamp_ms e = open_time_ms c"
  shows "added (k # ks) c s t"
proof -
  obtain es ts where "sg_journal t = map_option (\<lambda>j. j @ es) (sg_journal u)" "sg_trades t = sg_trades u @ ts"
    "subseq (map je_type es) ks" "\<forall>e \<in> set es. je_timestamp_ms e = open_time_ms c" "length ts \<le> 1"
    "\<forall>x \<in> set ts. t_exit_time_ms x = open_time_ms c" "ts \<noteq> [] \<longrightarrow> sg_stop_price t = None"
    using assms(1) by (auto simp: added_def)
  then show ?thesis unfolding added_def
    by (intro exI [of _ "e # es"] exI [of _ ts]) (use assms(2-) in \<open>auto simp: option.map_comp o_def\<close>)
qed

lemma adds_record:
  assumes "adds ks c m"
  shows "adds (k # ks) c (sbind (bt_record k pl (open_time_ms c)) (\<lambda>_. m))"
  unfolding adds_def
proof (intro allI impI)
  fix s x t
  assume "sbind (bt_record k pl (open_time_ms c)) (\<lambda>_. m) s = (Inr x, t)"
  then have "m (s\<lparr>sg_journal := map_option (journal_record k pl (open_time_ms c)) (sg_journal s)\<rparr>) = (Inr x, t)"
    by (simp add: bt_record_def sbind_def)
  from added_after_entry [OF adds_run [OF assms this], of "\<lparr>je_timestamp_ms = open_time_ms c, je_type = k, je_payload = pl\<rparr>"]
  show "added (k # ks) c s t" by (simp add: journal_record_def [abs_def])
qed

lemma added_same: "sg_journal t = sg_journal s \<Longrightarrow> sg_trades t = sg_trades s \<Longrightarrow> added ks c s t"
  unfolding added_def by (intro exI [of _ "[]"]) (simp add: option.map_ident)

lemma added_more:
  assumes "added ks c s t" "subseq ks ls"
  shows "added ls c s t"
proof -
  obtain es ts where "sg_journal t = map_option (\<lambda>j. j @ es) (sg_journal s)" "sg_trades t = sg_trades s @ ts"
    "subseq (map je_type es) ks" "\<forall>e \<in> set es. je_timestamp_ms e = open_time_ms c" "length ts \<le> 1"
    "\<forall>x \<in> set ts. t_exit_time_ms x = open_time_ms c" "ts \<noteq> [] \<longrightarrow> sg_stop_price t = None"
    using assms(1) unfolding added_def by blast
  with subseq_order.order_trans [OF _ assms(2)] show ?thesis unfolding added_def by blast
qed

lemma added_none:
  assumes "added [] c s u"
  obtains ts where "sg_journal u = sg_journal s" "sg_trades u = sg_trades s @ ts" "length ts \<le> 1"
    "\<forall>x \<in> set ts. t_exit_time_ms x = open_time_ms c" "ts \<noteq> [] \<longrightarrow> sg_stop_price u = None"
proof -
  obtain es ts where j: "sg_journal u = map_option (\<lambda>j. j @ es) (sg_journal s)" "subseq (map je_type es) []"
    and r: "sg_trades u = sg_trades s @ ts" "length ts \<le> 1" "\<forall>x \<in> set ts. t_exit_time_ms x = open_time_ms c"
      "ts \<noteq> [] \<longrightarrow> sg_stop_price u = None" using assms unfolding added_def by blast
  from j(2) have "es = []" using list_emb_Nil2 by blast
  then have "sg_journal u = sg_journal s" using j(1) by (simp add: option.map_ident)
  then show thesis using that r by blast
qed

lemma adds_same: "(\<And>s x t. m s = (Inr x, t) \<Longrightarrow> sg_journal t = sg_journal s \<and> sg_trades t = sg_trades s) \<Longrightarrow> adds ks c m"
  unfolding adds_def by (blast intro: added_same)

lemma adds_more: "adds ks c m \<Longrightarrow> subseq ks ls \<Longrightarrow> adds ls c m"
  unfolding adds_def by (blast intro: added_more)

lemma adds_get: "(\<And>x. adds ks c (f x)) \<Longrightarrow> adds ks c (sbind (sget g) f)"
  by (auto simp: adds_def sbind_eq_Inr)

lemma adds_lift: "(\<And>x. m = Inr x \<Longrightarrow> adds ks c (f x)) \<Longrightarrow> adds ks c (sbind (slift m) f)"
  by (auto simp: adds_def sbind_eq_Inr)

lemma adds_modify:
  assumes "\<And>s. sg_journal (h s) = sg_journal s \<and> sg_trades (h s) = sg_trades s" "adds ks c m"
  shows "adds ks c (sbind (smodify h) (\<lambda>_. m))"
  unfolding adds_def
proof (intro allI impI)
  fix s x t
  assume "sbind (smodify h) (\<lambda>_. m) s = (Inr x, t)"
  then have "added ks c (h s) t" using assms(2) by (auto simp: adds_def sbind_def)
  then show "added ks c s t" using assms(1) by (simp add: added_def)
qed

lemma exit_adds: "adds [] c (apply_exit_fill rc (open_time_ms c) q f reason ref)"
  unfolding adds_def
proof (intro allI impI)
  fix s x t
  assume "apply_exit_fill rc (open_time_ms c) q f reason ref s = (Inr x, t)"
  then obtain p where t: "t = close_position rc (open_time_ms c) q f reason ref p s"
    by (auto simp: apply_exit_fill_def sbind_eq_Inr)
  show "added [] c s t" unfolding added_def t
    by (intro exI [of _ "[]"] exI [of _ "case sg_open_trade s of None \<Rightarrow> []
         | Some ot \<Rightarrow> [closed_trade ot (open_time_ms c) q f (realized_pnl_quote p - realized_pnl_quote (sg_portfolio s)) reason ref]"])
      (auto simp: close_position_def Let_def closed_trade_def option.map_ident split: option.splits)
qed

lemma fill_adds: "adds [] c (fill_signal config filters b ty c eq q plan)"
proof -
  have "adds [] c (enter_position config filters b c eq r q plan)" for r
    by (rule adds_same) (auto simp: enter_position_def sbind_eq_Inr Let_def on_diag_def opened_def split: if_splits)
  then show ?thesis by (simp add: fill_signal_def exit_adds)
qed

lemma diag_adds: "adds ks c (on_diag h)"
  by (rule adds_same) (auto simp: on_diag_def)

lemma none_adds: "adds ks c (sreturn ())"
  by (rule adds_same) simp

lemma gate_adds: "adds [''RISK_DECISION'', ''ORDER_VALIDATION''] c (gate_signal config rc filters b ty c eq dd sized plan)"
  unfolding gate_signal_def Let_def
proof (intro adds_lift adds_get adds_record, goal_cases)
  case (1 intent ctx)
  have fill: "adds [] c (case v of None \<Rightarrow> if ty = BUY then on_diag h else sreturn ()
      | Some q \<Rightarrow> fill_signal config filters b ty c eq q plan)" for v h
    by (cases v) (simp_all add: fill_adds diag_adds none_adds)
  have rest: "adds [''ORDER_VALIDATION''] c (sbind (slift (validate_order intent filters)) (\<lambda>v.
      sbind (bt_record ''ORDER_VALIDATION'' (gate_payload ty (ov_approved v) (ov_reason v)) (open_time_ms c)) (\<lambda>_.
      case (if ov_approved v then ov_quantity v else None) of
        None \<Rightarrow> if ty = BUY then on_diag (record_rejected_entry (ov_reason v)) else sreturn ()
      | Some q \<Rightarrow> fill_signal config filters b ty c eq q plan)))"
    by (intro adds_lift adds_record fill)
  show ?case by (simp add: rest diag_adds none_adds)
qed

lemma resolve_adds:
  "adds [''SIZING'', ''RISK_DECISION'', ''ORDER_VALIDATION''] c (resolve_pending_signal policy config rc filters b ty c)"
proof -
  have go: "adds [''RISK_DECISION'', ''ORDER_VALIDATION''] c (case v of None \<Rightarrow> on_diag h
      | Some q \<Rightarrow> gate_signal config rc filters b ty c eq dd q plan)" for v h eq dd plan
    by (cases v) (simp_all add: gate_adds diag_adds)
  show ?thesis unfolding resolve_pending_signal_def Let_def
    by (intro adds_modify adds_get adds_lift) (auto split: prod.split intro!: adds_record go diag_adds)
qed

lemma fill_pending_adds:
  "adds [''SIZING'', ''RISK_DECISION'', ''ORDER_VALIDATION''] c (fill_pending policy config rc filters b c)"
  unfolding fill_pending_def
proof (intro adds_get)
  fix pending
  show "adds [''SIZING'', ''RISK_DECISION'', ''ORDER_VALIDATION''] c (case pending of None \<Rightarrow> sreturn ()
      | Some ty \<Rightarrow> sbind (resolve_pending_signal policy config rc filters b ty c) (\<lambda>_. smodify (\<lambda>s. s\<lparr>sg_pending_signal := None\<rparr>)))"
  proof (cases pending)
    case (Some ty)
    show ?thesis unfolding adds_def
    proof (intro allI impI)
      fix s x t
      assume "(case pending of None \<Rightarrow> sreturn ()
        | Some ty \<Rightarrow> sbind (resolve_pending_signal policy config rc filters b ty c) (\<lambda>_. smodify (\<lambda>s. s\<lparr>sg_pending_signal := None\<rparr>))) s = (Inr x, t)"
      then obtain u y where "resolve_pending_signal policy config rc filters b ty c s = (Inr y, u)" "t = u\<lparr>sg_pending_signal := None\<rparr>"
        by (auto simp: Some sbind_eq_Inr)
      then show "added [''SIZING'', ''RISK_DECISION'', ''ORDER_VALIDATION''] c s t"
        using adds_run [OF resolve_adds] by (fastforce simp: added_def)
    qed
  qed (simp add: none_adds)
qed

text \<open>A protective exit needs a stop in force, so no bar closes two trades.\<close>

lemma protect_adds:
  assumes "protect policy rc b c s = (Inr x, t)"
  shows "added [''STOP_LOSS_TRIGGERED'', ''TAKE_PROFIT_TRIGGERED''] c s t \<and> (sg_stop_price s = None \<longrightarrow> t = s)"
proof -
  have rec: "added ls c s t" if "apply_exit_fill rc (open_time_ms c) q f reason ref s = (Inr y, u)"
    "bt_record k pl (open_time_ms c) u = (Inr x, t)" "k \<in> set ls" for q f reason ref y u k pl ls
  proof -
    note r = that
    obtain ts where u: "sg_journal u = sg_journal s" "sg_trades u = sg_trades s @ ts" "length ts \<le> 1"
      "\<forall>x \<in> set ts. t_exit_time_ms x = open_time_ms c" "ts \<noteq> [] \<longrightarrow> sg_stop_price u = None"
      using added_none [OF adds_run [OF exit_adds r(1)]] by blast
    have "subseq [k] ls" using r(3) by (simp add: subseq_singleton_left)
    with u r(2) show ?thesis unfolding added_def
      by (intro exI [of _ "[\<lparr>je_timestamp_ms = open_time_ms c, je_type = k, je_payload = pl\<rparr>]"] exI [of _ ts])
        (auto simp: bt_record_def journal_record_def [abs_def])
  qed
  have stop: "added [''STOP_LOSS_TRIGGERED'', ''TAKE_PROFIT_TRIGGERED''] c s t \<and> sg_stop_price s \<noteq> None"
    if "execute_stop_exit rc b c s = (Inr x, t)"
  proof -
    note run = that
    obtain sp where sp: "sg_stop_price s = Some sp" using run by (cases "sg_stop_price s") (auto simp: execute_stop_exit_def sbind_def)
    obtain q f ref pl where "sbind (apply_exit_fill rc (open_time_ms c) q f EXIT_REASON_STOP_LOSS ref)
        (\<lambda>_. bt_record ''STOP_LOSS_TRIGGERED'' pl (open_time_ms c)) s = (Inr x, t)"
      using run unfolding execute_stop_exit_def Let_def sbind_Inr [of "sget _", OF step_simps(4)] sp
      by (simp only: of_option_simps sbind_Inr [of "slift _", OF step_simps(3)] sbind_Inr [of "sget _", OF step_simps(4)])
    then obtain y u where "apply_exit_fill rc (open_time_ms c) q f EXIT_REASON_STOP_LOSS ref s = (Inr y, u)"
      "bt_record ''STOP_LOSS_TRIGGERED'' pl (open_time_ms c) u = (Inr x, t)" unfolding sbind_eq_Inr by blast
    with sp rec [of _ _ _ _ _ _ "''STOP_LOSS_TRIGGERED''"] show ?thesis by simp
  qed
  have target: "added [''STOP_LOSS_TRIGGERED'', ''TAKE_PROFIT_TRIGGERED''] c s t"
    if "execute_take_profit_exit rc b c s = (Inr x, t)"
  proof -
    note run = that
    obtain sp where sp: "sg_target_price s = Some sp" using run by (cases "sg_target_price s") (auto simp: execute_take_profit_exit_def sbind_def)
    obtain q f ref pl where "sbind (apply_exit_fill rc (open_time_ms c) q f EXIT_REASON_TAKE_PROFIT ref)
        (\<lambda>_. bt_record ''TAKE_PROFIT_TRIGGERED'' pl (open_time_ms c)) s = (Inr x, t)"
      using run unfolding execute_take_profit_exit_def Let_def sbind_Inr [of "sget _", OF step_simps(4)] sp
      by (simp only: of_option_simps sbind_Inr [of "slift _", OF step_simps(3)] sbind_Inr [of "sget _", OF step_simps(4)])
    then obtain y u where "apply_exit_fill rc (open_time_ms c) q f EXIT_REASON_TAKE_PROFIT ref s = (Inr y, u)"
      "bt_record ''TAKE_PROFIT_TRIGGERED'' pl (open_time_ms c) u = (Inr x, t)" unfolding sbind_eq_Inr by blast
    with rec [of _ _ _ _ _ _ "''TAKE_PROFIT_TRIGGERED''"] show ?thesis by simp
  qed
  show ?thesis
  proof (cases "stop_hit c s")
    case True
    then have "execute_stop_exit rc b c s = (Inr x, t)" using assms by (simp add: protect_def sbind_def)
    with stop show ?thesis by blast
  next
    case no_stop: False
    show ?thesis
    proof (cases "policy \<and> target_hit c s")
      case True
      then have "execute_take_profit_exit rc b c s = (Inr x, t)" using assms no_stop by (simp add: protect_def sbind_def)
      moreover have "sg_stop_price s \<noteq> None" using True by (simp add: target_hit_def)
      ultimately show ?thesis using target by blast
    next
      case False
      then have "t = s" using assms no_stop by (auto simp: protect_def sbind_def)
      then show ?thesis by (simp add: added_same)
    qed
  qed
qed

section \<open>The rows of a bar\<close>

text \<open>Bars in time: each closes after its open, and before the next opens.\<close>

definition timed :: "candle list \<Rightarrow> bool" where
  "timed cs \<longleftrightarrow> (\<forall>c \<in> set cs. open_time_ms c \<le> close_time_ms c) \<and> sorted_wrt (\<lambda>c d. close_time_ms c < open_time_ms d) cs"

lemma timed_Cons: "timed (c # cs) \<longleftrightarrow>
    open_time_ms c \<le> close_time_ms c \<and> (\<forall>d \<in> set cs. close_time_ms c < open_time_ms d) \<and> timed cs"
  by (auto simp: timed_def)

lemma timed_append: "timed (xs @ ys) \<longleftrightarrow> timed xs \<and> timed ys \<and> (\<forall>c \<in> set xs. \<forall>d \<in> set ys. close_time_ms c < open_time_ms d)"
  by (auto simp: timed_def sorted_wrt_append)

text \<open>
  \<open>grown cs s t\<close>: the records of \<open>t\<close> are those of \<open>s\<close> and rows stamped with times of the bars \<open>cs\<close>,
  with different keys.
\<close>

definition grown :: "candle list \<Rightarrow> seg_state \<Rightarrow> seg_state \<Rightarrow> bool" where
  "grown cs s t \<longleftrightarrow>
     (\<exists>es ts qs. sg_journal t = map_option (\<lambda>j. j @ es) (sg_journal s) \<and> sg_trades t = sg_trades s @ ts \<and>
        sg_equity_curve t = sg_equity_curve s @ qs \<and>
        (\<forall>e \<in> set es. \<exists>c \<in> set cs. je_timestamp_ms e \<in> {open_time_ms c, close_time_ms c}) \<and>
        (\<forall>x \<in> set ts. \<exists>c \<in> set cs. t_exit_time_ms x = open_time_ms c) \<and>
        map ep_timestamp_ms qs = map close_time_ms cs \<and>
        distinct (map journal_key es) \<and> distinct (map t_exit_time_ms ts))"

lemma subseq_distinct: "subseq xs ys \<Longrightarrow> distinct ys \<Longrightarrow> distinct xs"
  by (induction rule: list_emb.induct) (auto dest: list_emb_set)

lemma subseq_left: "subseq ks (ks @ ls)"
  by (induction ks) auto

lemma subseq_types: "subseq (map je_type es) ks \<Longrightarrow> distinct ks \<Longrightarrow> distinct (map je_type es) \<and> je_type ` set es \<subseteq> set ks"
  using subseq_distinct [of "map je_type es" ks] list_emb_set [of "(=)" "map je_type es" ks] by auto

lemma added_trans:
  assumes "added ks c s u" "added ls c u t" "sg_stop_price u = None \<Longrightarrow> t = u"
  shows "added (ks @ ls) c s t"
proof -
  obtain e1 t1 where 1: "sg_journal u = map_option (\<lambda>j. j @ e1) (sg_journal s)" "sg_trades u = sg_trades s @ t1"
    "subseq (map je_type e1) ks" "\<forall>e \<in> set e1. je_timestamp_ms e = open_time_ms c" "length t1 \<le> 1"
    "\<forall>x \<in> set t1. t_exit_time_ms x = open_time_ms c" "t1 \<noteq> [] \<longrightarrow> sg_stop_price u = None"
    using assms(1) unfolding added_def by blast
  show ?thesis
  proof (cases "sg_stop_price u = None")
    case True
    then have "t = u" using assms(3) by blast
    then show ?thesis using added_more [OF assms(1) subseq_left] by simp
  next
    case False
    then have t1: "t1 = []" using 1(7) by (cases "t1 = []") simp_all
    obtain e2 t2 where 2: "sg_journal t = map_option (\<lambda>j. j @ e2) (sg_journal u)" "sg_trades t = sg_trades u @ t2"
      "subseq (map je_type e2) ls" "\<forall>e \<in> set e2. je_timestamp_ms e = open_time_ms c" "length t2 \<le> 1"
      "\<forall>x \<in> set t2. t_exit_time_ms x = open_time_ms c" "t2 \<noteq> [] \<longrightarrow> sg_stop_price t = None"
      using assms(2) unfolding added_def by blast
    have "subseq (map je_type (e1 @ e2)) (ks @ ls)" using list_emb_append_mono [OF 1(3) 2(3)] by simp
    then show ?thesis unfolding added_def
      by (intro exI [of _ "e1 @ e2"] exI [of _ t2]) (use 1 2 t1 in \<open>auto simp: option.map_comp o_def\<close>)
  qed
qed

lemma start_bar_records:
  "sg_journal (start_bar c s) = sg_journal s" "sg_trades (start_bar c s) = sg_trades s"
  by (simp_all add: start_bar_def Let_def)

lemma take_signal_records: "sg_journal (take_signal sig s) = sg_journal s" "sg_trades (take_signal sig s) = sg_trades s"
  by (simp_all add: take_signal_def split: signal_type.split)

lemma run_bar_rows:
  assumes "run_bar policy config rc filters b strategy h c s = (Inr x, t)"
  shows "grown [c] s t"
proof -
  from assms obtain u1 u2 u3 v1 v2 v3 w y where
    u: "fill_pending policy config rc filters b c (start_bar c s) = (Inr v1, u1)"
      "protect policy (cfg_risk config) b c u1 = (Inr v2, u2)"
      "bt_record ''SIGNAL'' y (close_time_ms c) (u2\<lparr>sg_peak_equity := w\<rparr>) = (Inr v3, u3)"
    and t: "\<exists>sig. t = close_bar c (take_signal sig u3)"
    unfolding run_bar_def sbind_eq_Inr step_simps by (clarsimp, blast)
  obtain e n where q: "sg_equity_curve t = sg_equity_curve s @ [e]" "ep_timestamp_ms e = close_time_ms c"
    using run_bar_records [OF assms] by blast
  have "added [''SIZING'', ''RISK_DECISION'', ''ORDER_VALIDATION''] c (start_bar c s) u1" using adds_run [OF fill_pending_adds u(1)] .
  from added_trans [OF this conjunct1 [OF protect_adds [OF u(2)]]] protect_adds [OF u(2)]
  have "added ([''SIZING'', ''RISK_DECISION'', ''ORDER_VALIDATION''] @ [''STOP_LOSS_TRIGGERED'', ''TAKE_PROFIT_TRIGGERED'']) c (start_bar c s) u2" by blast
  then obtain es ts where a: "sg_journal u2 = map_option (\<lambda>j. j @ es) (sg_journal s)" "sg_trades u2 = sg_trades s @ ts"
    "subseq (map je_type es) [''SIZING'', ''RISK_DECISION'', ''ORDER_VALIDATION'', ''STOP_LOSS_TRIGGERED'', ''TAKE_PROFIT_TRIGGERED'']"
    "\<forall>e \<in> set es. je_timestamp_ms e = open_time_ms c" "length ts \<le> 1" "\<forall>x \<in> set ts. t_exit_time_ms x = open_time_ms c"
    unfolding added_def start_bar_records append.simps by blast
  let ?g = "\<lparr>je_timestamp_ms = close_time_ms c, je_type = ''SIGNAL'', je_payload = y\<rparr>"
  have j: "sg_journal t = map_option (\<lambda>j. j @ (es @ [?g])) (sg_journal s)" and tr: "sg_trades t = sg_trades s @ ts"
    using t u(3) a(1,2) by (auto simp: bt_record_def close_bar_def take_signal_records journal_record_def [abs_def] option.map_comp o_def)
  have d: "distinct (map je_type es)" "je_type ` set es \<subseteq> set [''SIZING'', ''RISK_DECISION'', ''ORDER_VALIDATION'', ''STOP_LOSS_TRIGGERED'', ''TAKE_PROFIT_TRIGGERED'']"
    using subseq_types [OF a(3)] by simp_all
  then have "''SIGNAL'' \<notin> je_type ` set es" by auto
  then have "distinct (map je_type (es @ [?g]))" using d(1) by simp
  moreover have "map fst (map journal_key (es @ [?g])) = map je_type (es @ [?g])" by (simp add: journal_key_def)
  ultimately have dk: "distinct (map journal_key (es @ [?g]))" using distinct_map by metis
  have "distinct (map t_exit_time_ms ts)" using a(5) by (cases ts) auto
  then show ?thesis unfolding grown_def
    by (intro exI [of _ "es @ [?g]"] exI [of _ ts] exI [of _ "[e]"]) (use j tr q a(4,6) dk in auto)
qed

lemma grown_refl: "grown [] s s"
  unfolding grown_def by (intro exI [of _ "[]"]) (simp add: option.map_ident)

lemma distinct_map_append_apart:
  assumes "distinct (map f xs)" "distinct (map f ys)" "\<And>x y. x \<in> set xs \<Longrightarrow> y \<in> set ys \<Longrightarrow> f x \<noteq> f y"
  shows "distinct (map f (xs @ ys))"
  using assms by fastforce

lemma grown_Cons:
  assumes "grown [c] s u" "grown cs u t" "timed (c # cs)"
  shows "grown (c # cs) s t"
proof -
  obtain e1 t1 q1 where 1: "sg_journal u = map_option (\<lambda>j. j @ e1) (sg_journal s)" "sg_trades u = sg_trades s @ t1"
    "sg_equity_curve u = sg_equity_curve s @ q1" "\<forall>e \<in> set e1. je_timestamp_ms e \<in> {open_time_ms c, close_time_ms c}"
    "\<forall>x \<in> set t1. t_exit_time_ms x = open_time_ms c" "map ep_timestamp_ms q1 = [close_time_ms c]"
    "distinct (map journal_key e1)" "distinct (map t_exit_time_ms t1)"
    using assms(1) unfolding grown_def by auto
  obtain e2 t2 q2 where 2: "sg_journal t = map_option (\<lambda>j. j @ e2) (sg_journal u)" "sg_trades t = sg_trades u @ t2"
    "sg_equity_curve t = sg_equity_curve u @ q2"
    "\<forall>e \<in> set e2. \<exists>d \<in> set cs. je_timestamp_ms e \<in> {open_time_ms d, close_time_ms d}"
    "\<forall>x \<in> set t2. \<exists>d \<in> set cs. t_exit_time_ms x = open_time_ms d" "map ep_timestamp_ms q2 = map close_time_ms cs"
    "distinct (map journal_key e2)" "distinct (map t_exit_time_ms t2)"
    using assms(2) unfolding grown_def by auto
  have late: "close_time_ms c < open_time_ms d \<and> open_time_ms d \<le> close_time_ms d" if "d \<in> set cs" for d
    using assms(3) that by (auto simp: timed_Cons) (auto simp: timed_def)
  have c: "open_time_ms c \<le> close_time_ms c" using assms(3) by (simp add: timed_Cons)
  have a: "je_timestamp_ms e \<le> close_time_ms c" if "e \<in> set e1" for e using 1(4) that c by force
  have b: "close_time_ms c < je_timestamp_ms e" if "e \<in> set e2" for e using 2(4) that late by force
  have x: "t_exit_time_ms x \<le> close_time_ms c" if "x \<in> set t1" for x using 1(5) that c by force
  have y: "close_time_ms c < t_exit_time_ms x" if "x \<in> set t2" for x using 2(5) that late by force
  have "distinct (map journal_key (e1 @ e2))"
    by (rule distinct_map_append_apart [OF 1(7) 2(7)]) (use a b in \<open>force simp: journal_key_def\<close>)
  moreover have "distinct (map t_exit_time_ms (t1 @ t2))"
    by (rule distinct_map_append_apart [OF 1(8) 2(8)]) (use x y in force)
  ultimately show ?thesis unfolding grown_def
    by (intro exI [of _ "e1 @ e2"] exI [of _ "t1 @ t2"] exI [of _ "q1 @ q2"])
      (use 1 2 in \<open>auto simp: option.map_comp o_def\<close>)
qed

lemma run_bars_rows:
  assumes "run_bars policy config rc filters b strategy segment is s = (Inr x, t)"
    and "map (nth_res segment) is = map Inr cs" "timed cs"
  shows "grown cs s t"
  using assms
proof (induction "is" arbitrary: s cs)
  case Nil
  then show ?case by (simp add: grown_refl)
next
  case (Cons i "is")
  then obtain c ds where c: "cs = c # ds" "nth_res segment i = Inr c" "map (nth_res segment) is = map Inr ds" by (cases cs) auto
  from Cons.prems(1) obtain u y where bar: "run_bar policy config rc filters b strategy (take (nat (i + 1)) segment) c s = (Inr y, u)"
    and rest: "run_bars policy config rc filters b strategy segment is u = (Inr x, t)" by (auto simp: sbind_eq_Inr c(2))
  have "timed ds" using Cons.prems(3) by (simp add: c(1) timed_Cons)
  from grown_Cons [OF run_bar_rows [OF bar] Cons.IH [OF rest c(3) this]] Cons.prems(3) show ?case by (simp add: c(1))
qed

section \<open>A run and a longer one\<close>

text \<open>
  A run of the first \<open>n\<close> candles and a run of all of them, each with its journal: the longer one
  has recorded what the shorter one has, and rows stamped within its other bars, with different keys.
\<close>

lemma bars_of_drop:
  assumes "0 < k" "k \<le> length xs"
  shows "map (nth_res xs) [int k .. int (length xs) - 1] = map Inr (drop k xs)"
proof (rule nth_equalityI)
  show "length (map (nth_res xs) [int k .. int (length xs) - 1]) = length (map (Inr :: 'a \<Rightarrow> 'a result) (drop k xs))" by simp
  fix i assume "i < length (map (nth_res xs) [int k .. int (length xs) - 1])"
  then have i: "i < length xs - k" by simp
  then have "[int k .. int (length xs) - 1] ! i = int (k + i)" by simp
  then show "map (nth_res xs) [int k .. int (length xs) - 1] ! i = map Inr (drop k xs) ! i"
    using i nth_res_nat [of "k + i" xs] by simp
qed

theorem longer_run:
  assumes short: "run_segment (take k segment) config filters strategy rc b (Some []) m E policy = Inr (r, Some j)"
    and long: "run_segment segment config filters strategy rc b (Some []) m E policy = Inr (r', Some j')"
    and "1 \<le> m" "k \<le> length segment" "timed segment"
  obtains es ts qs where "j' = j @ es" "sr_trades r' = sr_trades r @ ts" "sr_equity_curve r' = sr_equity_curve r @ qs"
    "\<forall>e \<in> set es. \<exists>c \<in> set (drop k segment). je_timestamp_ms e \<in> {open_time_ms c, close_time_ms c}"
    "\<forall>x \<in> set ts. \<exists>c \<in> set (drop k segment). t_exit_time_ms x = open_time_ms c"
    "map ep_timestamp_ms qs = map close_time_ms (drop k segment)"
    "distinct (map journal_key es)" "distinct (map t_exit_time_ms ts)"
proof -
  obtain f1 s1 l1 a1 where 1: "nth_res (take k segment) (m - 1) = Inr f1"
    "run_bars policy config rc filters b strategy (take k segment) [m - 1 .. int k - 1] (seg_start E f1 (Some [])) = (Inr (), s1)"
    "r = segment_result policy E l1 a1 s1" "Some j = sg_journal s1"
    using run_segment_cases [OF short] assms(4) by (metis length_take min.absorb2)
  obtain f2 s2 l2 a2 where 2: "nth_res segment (m - 1) = Inr f2"
    "run_bars policy config rc filters b strategy segment [m - 1 .. int (length segment) - 1] (seg_start E f2 (Some [])) = (Inr (), s2)"
    "r' = segment_result policy E l2 a2 s2" "Some j' = sg_journal s2"
    using run_segment_cases [OF long] by metis
  have m: "0 \<le> m - 1" "m - 1 < int k" using nth_res_lt [OF 1(1)] assms(3,4) by auto
  have f: "f1 = f2" using 1(1) 2(1) nth_res_take [of "m - 1" k segment] m by simp
  have split: "[m - 1 .. int (length segment) - 1] = [m - 1 .. int k - 1] @ [int k .. int (length segment) - 1]"
    by (rule upto_join) (use m assms(4) in simp_all)
  have "run_bars policy config rc filters b strategy segment [m - 1 .. int k - 1] (seg_start E f2 (Some [])) = (Inr (), s1)"
    using 1(2) run_bars_take [of "[m - 1 .. int k - 1]" k policy config rc filters b strategy segment] m f by auto
  then have rest: "run_bars policy config rc filters b strategy segment [int k .. int (length segment) - 1] s1 = (Inr (), s2)"
    using 2(2) unfolding split run_bars_append by simp
  have "timed (drop k segment)" using assms(5) timed_append [of "take k segment" "drop k segment"] by simp
  from run_bars_rows [OF rest bars_of_drop this] m assms(4) have "grown (drop k segment) s1 s2" by simp
  then obtain es ts qs where g: "sg_journal s2 = map_option (\<lambda>j. j @ es) (sg_journal s1)" "sg_trades s2 = sg_trades s1 @ ts"
    "sg_equity_curve s2 = sg_equity_curve s1 @ qs"
    "\<forall>e \<in> set es. \<exists>c \<in> set (drop k segment). je_timestamp_ms e \<in> {open_time_ms c, close_time_ms c}"
    "\<forall>x \<in> set ts. \<exists>c \<in> set (drop k segment). t_exit_time_ms x = open_time_ms c"
    "map ep_timestamp_ms qs = map close_time_ms (drop k segment)"
    "distinct (map journal_key es)" "distinct (map t_exit_time_ms ts)" unfolding grown_def by blast
  have "j' = j @ es" using g(1) 1(4) [symmetric] 2(4) [symmetric] by simp
  moreover have "sr_trades r' = sr_trades r @ ts" "sr_equity_curve r' = sr_equity_curve r @ qs"
    using g(2,3) by (simp_all add: 1(3) 2(3) segment_result_def)
  ultimately show thesis using that g(4-) by blast
qed

text \<open>A first run, alike.\<close>

theorem first_run:
  assumes run: "run_segment segment config filters strategy rc b (Some []) m E policy = Inr (r, j)"
    and "1 \<le> m" "timed segment"
  obtains es where "j = Some es" "distinct (map journal_key es)" "distinct (map t_exit_time_ms (sr_trades r))"
    "map ep_timestamp_ms (sr_equity_curve r) = map close_time_ms (drop (nat (m - 1)) segment)"
    "\<forall>e \<in> set es. \<exists>c \<in> set segment. je_timestamp_ms e \<in> {open_time_ms c, close_time_ms c}"
    "\<forall>x \<in> set (sr_trades r). \<exists>c \<in> set segment. t_exit_time_ms x = open_time_ms c"
proof -
  obtain first s lc acts where 1: "nth_res segment (m - 1) = Inr first"
    "run_bars policy config rc filters b strategy segment [m - 1 .. int (length segment) - 1] (seg_start E first (Some [])) = (Inr (), s)"
    "r = segment_result policy E lc acts s" "j = sg_journal s"
    using run_segment_cases [OF run] by metis
  have "m \<le> int (length segment)" using nth_res_lt [OF 1(1)] by simp
  let ?ds = "drop (nat (m - 1)) segment"
  obtain cs where cs: "map (nth_res segment) [m - 1 .. int (length segment) - 1] = map Inr cs"
    using run_bars_records [OF 1(2)] by blast
  have d: "cs = ?ds" by (rule nth_res_range) (use cs assms(2) in simp)
  have "timed ?ds" using assms(3) timed_append [of "take (nat (m - 1)) segment" ?ds] by simp
  from run_bars_rows [OF 1(2) cs] this d have "grown ?ds (seg_start E first (Some [])) s" by simp
  then obtain es ts qs where g: "sg_journal s = Some es" "sg_trades s = ts"
    "sg_equity_curve s = qs" "\<forall>e \<in> set es. \<exists>c \<in> set ?ds. je_timestamp_ms e \<in> {open_time_ms c, close_time_ms c}"
    "\<forall>x \<in> set ts. \<exists>c \<in> set ?ds. t_exit_time_ms x = open_time_ms c"
    "map ep_timestamp_ms qs = map close_time_ms ?ds" "distinct (map journal_key es)" "distinct (map t_exit_time_ms ts)"
    by (auto simp: grown_def seg_start_def)
  then show thesis using that [of es] set_drop_subset [of "nat (m - 1)" segment]
    by (auto simp: 1(3,4) segment_result_def) blast+
qed

end
