(* ===== verification/Shadow_Facts.thy ===== *)
theory Shadow_Facts
  imports Shadow_Engine Bar_Rows
begin

text \<open>
  What the store of the shadow mode keeps: inserts append what is new and change nothing that
  is there, a cycle's transaction commits completely or not at all, and a commit of the rows
  past the mark turns the record of a shorter backtest into that of a longer one.
\<close>

section \<open>Inserts\<close>

lemma insert_ignore_simps:
  "key r \<in> key ` set t \<Longrightarrow> insert_ignore key r t = t"
  "key r \<notin> key ` set t \<Longrightarrow> insert_ignore key r t = t @ [r]"
  by (simp_all add: insert_ignore_def)

lemma insert_all_simps [simp]:
  "insert_all key [] t = t"
  "insert_all key (r # rs) t = insert_all key rs (insert_ignore key r t)"
  by (simp_all add: insert_all_def)

lemma insert_all_new:
  assumes "distinct (map key rs)" "\<And>r. r \<in> set rs \<Longrightarrow> key r \<notin> key ` set t"
  shows "insert_all key rs t = t @ rs"
  using assms
proof (induction rs arbitrary: t)
  case (Cons r rs)
  have "insert_all key rs (t @ [r]) = (t @ [r]) @ rs"
    by (rule Cons.IH) (use Cons.prems in \<open>auto simp: image_iff\<close>)
  then show ?case using Cons.prems(2) [of r] by (simp add: insert_ignore_def)
qed simp

lemma insert_ignore_keys: "key ` set (insert_ignore key r t) = insert (key r) (key ` set t)"
  by (auto simp: insert_ignore_def)

lemma insert_all_keys: "key ` set (insert_all key rs t) = key ` set t \<union> key ` set rs"
  by (induction rs arbitrary: t) (auto simp: insert_ignore_keys)

lemma insert_all_known: "key ` set rs \<subseteq> key ` set t \<Longrightarrow> insert_all key rs t = t"
  by (induction rs) (auto simp: insert_ignore_def)

lemma insert_all_twice: "insert_all key rs (insert_all key rs t) = insert_all key rs t"
  by (rule insert_all_known) (simp add: insert_all_keys)

lemma insert_all_prefix: "prefix t (insert_all key rs t)"
proof (induction rs arbitrary: t)
  case (Cons r rs)
  have "prefix t (insert_ignore key r t)" by (simp add: insert_ignore_def)
  with Cons [of "insert_ignore key r t"] show ?case by simp
qed simp

lemma insert_all_distinct: "distinct (map key t) \<Longrightarrow> distinct (map key (insert_all key rs t))"
proof (induction rs arbitrary: t)
  case (Cons r rs)
  have "distinct (map key (insert_ignore key r t))" using Cons.prems by (auto simp: insert_ignore_def)
  from Cons.IH [OF this] show ?case by simp
qed simp

lemma insert_all_from: "set (insert_all key rs t) \<subseteq> set t \<union> set rs"
proof (induction rs arbitrary: t)
  case (Cons r rs)
  have "set (insert_ignore key r t) \<subseteq> set t \<union> {r}" by (auto simp: insert_ignore_def)
  with Cons [of "insert_ignore key r t"] show ?case by auto
qed simp

section \<open>The transaction of a cycle\<close>

definition committed :: "'m cycle_write \<Rightarrow> 'm shadow_db \<Rightarrow> 'm shadow_db" where
  "committed w db =
     upsert_run_state (advanced w (get_run_state db))
       (insert_notification_events (cw_notification_events w)
         (insert_journal_entries (cw_new_journal_entries w)
           (insert_equity_points (cw_new_equity_points w) (insert_trades (cw_new_trades w) db))))"

lemmas store_steps = insert_trades_def insert_equity_points_def insert_journal_entries_def insert_notification_events_def
  upsert_run_state_def insert_warmup_def

lemma committed_fields:
  "sd_trades (committed w db) = insert_all trade_key (cw_new_trades w) (sd_trades db)"
  "sd_equity (committed w db) = insert_all ep_timestamp_ms (cw_new_equity_points w) (sd_equity db)"
  "sd_journal (committed w db) = insert_all journal_key (cw_new_journal_entries w) (sd_journal db)"
  "sd_outbox (committed w db) = insert_all ne_event_id (cw_notification_events w) (sd_outbox db)"
  "get_run_state (committed w db) = advanced w (get_run_state db)"
  "sd_bootstrap (committed w db) = sd_bootstrap db" "sd_warmup (committed w db) = sd_warmup db"
  "sd_last_daily_summary (committed w db) = sd_last_daily_summary db"
  "sd_raise_fault_at (committed w db) = sd_raise_fault_at db"
  by (simp_all add: committed_def store_steps get_run_state_def)

definition CYCLE_FAULTS :: "string set" where
  "CYCLE_FAULTS = {''after_trades'', ''after_equity'', ''after_journal'', ''after_notifications'', ''before_commit''}"

text \<open>All or nothing, and which of the two: by the fault that is armed.\<close>

lemma record_cycle_outcome:
  "record_cycle_atomically w db =
     (if sd_raise_fault_at db \<in> Some ` CYCLE_FAULTS then (Inl InjectedTestFault, db) else (Inr (), committed w db))"
proof (cases "sd_raise_fault_at db \<in> Some ` CYCLE_FAULTS")
  case True
  then show ?thesis
    by (auto simp: CYCLE_FAULTS_def record_cycle_atomically_def atomically_def record_cycle_body_def sbind_def shadow_fault_def store_steps)
next
  case False
  then have "sd_raise_fault_at db \<noteq> Some p" if "p \<in> CYCLE_FAULTS" for p using that by (metis imageI)
  then have n: "sd_raise_fault_at db \<noteq> Some ''after_trades''" "sd_raise_fault_at db \<noteq> Some ''after_equity''"
    "sd_raise_fault_at db \<noteq> Some ''after_journal''" "sd_raise_fault_at db \<noteq> Some ''after_notifications''"
    "sd_raise_fault_at db \<noteq> Some ''before_commit''" by (simp_all add: CYCLE_FAULTS_def)
  show ?thesis using False
    by (simp add: record_cycle_atomically_def atomically_def record_cycle_body_def sbind_def shadow_fault_def store_steps
        committed_def get_run_state_def n)
qed

lemma record_cycle_cases:
  assumes "record_cycle_atomically w db = (r, db')"
  obtains "r = Inr ()" "db' = committed w db" | "r = Inl InjectedTestFault" "db' = db"
  using assms by (auto simp: record_cycle_outcome split: if_splits)

section \<open>The record of a backtest\<close>

text \<open>The tables hold exactly what a run has recorded, in the order it did.\<close>

definition recorded :: "segment_run_result \<Rightarrow> journal_db \<Rightarrow> 'm shadow_db \<Rightarrow> bool" where
  "recorded r j db \<longleftrightarrow>
     map st_trade (sd_trades db) = sr_trades r \<and> sd_equity db = sr_equity_curve r \<and> sd_journal db = j \<and>
     rs_open_position (get_run_state db) = sr_open_position r"

definition nothing_recorded :: "'m shadow_db \<Rightarrow> bool" where
  "nothing_recorded db \<longleftrightarrow>
     rs_last_processed_close_time_ms (get_run_state db) = None \<and> sd_trades db = [] \<and> sd_equity db = [] \<and> sd_journal db = []"

lemma trade_records_trades: "map st_trade (trade_records_of r) = sr_trades r"
proof -
  have "map st_trade (trade_records_of r) = map snd (enumerate 0 (sr_trades r))"
    unfolding trade_records_of_def map_map by (rule map_cong) auto
  then show ?thesis by simp
qed

lemma filter_records: "map st_trade (filter (\<lambda>x. P (st_trade x)) rs) = filter P (map st_trade rs)"
  by (simp add: filter_map comp_def)

text \<open>Rows past the mark are those of the bars after it.\<close>

lemma filter_past:
  assumes "xs = old @ new" "\<And>x. x \<in> set old \<Longrightarrow> f x \<le> mark" "\<And>x. x \<in> set new \<Longrightarrow> mark < (f x :: int)"
  shows "filter (\<lambda>x. mark < f x) xs = new"
  using assms by (auto simp: filter_empty_conv not_less)

lemma segment_write_fields:
  "cw_new_trades (segment_write config filters now seg E db r j) =
     filter (\<lambda>x. mark_threshold (rs_last_processed_close_time_ms (get_run_state db)) < t_exit_time_ms (st_trade x)) (trade_records_of r)"
  "cw_new_equity_points (segment_write config filters now seg E db r j) =
     filter (\<lambda>p. mark_threshold (rs_last_processed_close_time_ms (get_run_state db)) < ep_timestamp_ms p) (sr_equity_curve r)"
  "cw_new_journal_entries (segment_write config filters now seg E db r j) =
     filter (\<lambda>e. mark_threshold (rs_last_processed_close_time_ms (get_run_state db)) < je_timestamp_ms e) j"
  "cw_last_processed_close_time_ms (segment_write config filters now seg E db r j) = close_time_ms (last seg)"
  "cw_open_position (segment_write config filters now seg E db r j) = sr_open_position r"
  by (simp_all add: segment_write_def Let_def all_entries_def)

lemma distinct_by_trade: "distinct (map trade_key rs) = distinct (map t_exit_time_ms (map st_trade rs))"
  by (simp add: trade_key_def [abs_def] comp_def)

lemma trade_keys: "trade_key ` set rs = t_exit_time_ms ` set (map st_trade rs)"
  by (auto simp: trade_key_def)

text \<open>Tables that hold the old rows and a write of the new ones give tables that hold both.\<close>

lemma recorded_write:
  assumes old: "map st_trade (sd_trades db) = ts" "sd_equity db = qs" "sd_journal db = es"
    and run: "sr_trades r = ts @ ts'" "sr_equity_curve r = qs @ qs'" "j = es @ es'"
    and before: "\<And>x. x \<in> set ts \<Longrightarrow> t_exit_time_ms x \<le> mark" "\<And>x. x \<in> set qs \<Longrightarrow> ep_timestamp_ms x \<le> mark"
      "\<And>x. x \<in> set es \<Longrightarrow> je_timestamp_ms x \<le> mark"
    and past: "\<And>x. x \<in> set ts' \<Longrightarrow> mark < t_exit_time_ms x" "\<And>x. x \<in> set qs' \<Longrightarrow> mark < ep_timestamp_ms x"
      "\<And>x. x \<in> set es' \<Longrightarrow> mark < je_timestamp_ms x"
    and keys: "distinct (map t_exit_time_ms ts')" "distinct (map ep_timestamp_ms qs')" "distinct (map journal_key es')"
    and mark: "mark = mark_threshold (rs_last_processed_close_time_ms (get_run_state db))"
  shows "recorded r j (committed (segment_write config filters now seg E db r j) db)"
proof -
  let ?w = "segment_write config filters now seg E db r j"
  have t: "map st_trade (cw_new_trades ?w) = ts'"
    unfolding segment_write_fields mark [symmetric] filter_records [of "\<lambda>t. mark < t_exit_time_ms t"] trade_records_trades
    by (rule filter_past [OF run(1)]) (use before(1) past(1) in auto)
  have q: "cw_new_equity_points ?w = qs'" unfolding segment_write_fields mark [symmetric]
    by (rule filter_past [OF run(2)]) (use before(2) past(2) in auto)
  have e: "cw_new_journal_entries ?w = es'" unfolding segment_write_fields mark [symmetric]
    by (rule filter_past [OF run(3)]) (use before(3) past(3) in auto)
  have tk: "x \<in> set (cw_new_trades ?w) \<Longrightarrow> trade_key x \<notin> trade_key ` set (sd_trades db)" for x
  proof -
    assume "x \<in> set (cw_new_trades ?w)"
    then have "mark < trade_key x" unfolding segment_write_fields by (simp add: mark trade_key_def)
    moreover have "y \<in> trade_key ` set (sd_trades db) \<Longrightarrow> y \<le> mark" for y
      unfolding trade_keys old(1) using before(1) by auto
    ultimately show ?thesis by force
  qed
  have "insert_all trade_key (cw_new_trades ?w) (sd_trades db) = sd_trades db @ cw_new_trades ?w"
    by (rule insert_all_new) (use keys(1) t tk in \<open>simp_all add: distinct_by_trade\<close>)
  moreover have "insert_all ep_timestamp_ms qs' (sd_equity db) = sd_equity db @ qs'"
    by (rule insert_all_new [OF keys(2)]) (use before(2) past(2) old(2) in force)
  moreover have "insert_all journal_key es' (sd_journal db) = sd_journal db @ es'"
    by (rule insert_all_new [OF keys(3)]) (use before(3) past(3) old(3) in \<open>force simp: journal_key_def\<close>)
  moreover have "map st_trade (sd_trades db @ cw_new_trades ?w) = ts @ ts'" by (simp add: old(1) t)
  moreover have "cw_open_position ?w = sr_open_position r" by (simp add: segment_write_fields)
  ultimately show ?thesis unfolding recorded_def committed_fields q e by (simp add: advanced_def run(1,2) old(2,3) flip: run(3))
qed

section \<open>From a shorter run to a longer one\<close>

lemma timed_upto:
  assumes "timed segment" "k \<le> length segment" "0 < k" "c \<in> set (take k segment)"
  shows "open_time_ms c \<le> close_time_ms (segment ! (k - 1)) \<and> close_time_ms c \<le> close_time_ms (segment ! (k - 1))"
proof -
  obtain i where i: "i < k" "c = segment ! i" using assms(2,4) by (auto simp: in_set_conv_nth)
  have le: "open_time_ms d \<le> close_time_ms d" if "d \<in> set segment" for d using assms(1) that by (simp add: timed_def)
  have "close_time_ms (segment ! i) \<le> close_time_ms (segment ! (k - 1))"
  proof (cases "i = k - 1")
    case False
    then have "close_time_ms (segment ! i) < open_time_ms (segment ! (k - 1))"
      using assms(1-3) i(1) by (auto simp: timed_def sorted_wrt_iff_nth_less)
    with le [of "segment ! (k - 1)"] assms(2,3) show ?thesis by simp
  qed simp
  with le [of c] i assms(2) show ?thesis by (simp add: i(2))
qed

lemma timed_after:
  assumes "timed segment" "k \<le> length segment" "0 < k" "c \<in> set (drop k segment)"
  shows "close_time_ms (segment ! (k - 1)) < open_time_ms c \<and> close_time_ms (segment ! (k - 1)) < close_time_ms c"
proof -
  have "segment ! (k - 1) \<in> set (take k segment)"
    using nth_mem [of "k - 1" "take k segment"] assms(2,3) by simp
  then have "close_time_ms (segment ! (k - 1)) < open_time_ms c"
    using assms(1,4) timed_append [of "take k segment" "drop k segment"] by simp
  moreover have "open_time_ms c \<le> close_time_ms c" using assms(1,4) by (auto simp: timed_def dest: in_set_dropD)
  ultimately show ?thesis by simp
qed

lemma timed_take: "timed segment \<Longrightarrow> timed (take k segment)"
  using timed_append [of "take k segment" "drop k segment"] by simp

lemma timed_closes:
  assumes "timed segment"
  shows "sorted_wrt (<) (map close_time_ms segment)"
  unfolding sorted_wrt_map
proof (rule sorted_wrt_mono_rel)
  show "sorted_wrt (\<lambda>c d. close_time_ms c < open_time_ms d) segment" using assms by (simp add: timed_def)
  show "close_time_ms x < close_time_ms y"
    if "x \<in> set segment" "y \<in> set segment" "close_time_ms x < open_time_ms y" for x y
    using assms that by (fastforce simp: timed_def)
qed

lemma extend_record:
  assumes rec: "recorded r j db" "rs_last_processed_close_time_ms (get_run_state db) = Some (close_time_ms (segment ! (k - 1)))"
    and short: "run_segment (take k segment) config filters strategy rc b (Some []) m E policy = Inr (r, Some j)"
    and long: "run_segment segment config filters strategy rc b (Some []) m E policy = Inr (r', Some j')"
    and "1 \<le> m" "0 < k" "k \<le> length segment" "timed segment"
  shows "recorded r' j' (committed (segment_write config filters now segment E db r' j') db)"
proof -
  let ?mark = "close_time_ms (segment ! (k - 1))"
  obtain es' ts' qs' where new: "j' = j @ es'" "sr_trades r' = sr_trades r @ ts'" "sr_equity_curve r' = sr_equity_curve r @ qs'"
    "\<forall>e \<in> set es'. \<exists>c \<in> set (drop k segment). je_timestamp_ms e \<in> {open_time_ms c, close_time_ms c}"
    "\<forall>x \<in> set ts'. \<exists>c \<in> set (drop k segment). t_exit_time_ms x = open_time_ms c"
    "map ep_timestamp_ms qs' = map close_time_ms (drop k segment)"
    "distinct (map journal_key es')" "distinct (map t_exit_time_ms ts')"
    by (rule longer_run [OF short long assms(5,7,8)])
  obtain es where old: "Some j = Some es" "map ep_timestamp_ms (sr_equity_curve r) = map close_time_ms (drop (nat (m - 1)) (take k segment))"
    "\<forall>e \<in> set es. \<exists>c \<in> set (take k segment). je_timestamp_ms e \<in> {open_time_ms c, close_time_ms c}"
    "\<forall>x \<in> set (sr_trades r). \<exists>c \<in> set (take k segment). t_exit_time_ms x = open_time_ms c"
    by (rule first_run [OF short assms(5) timed_take [OF assms(8)]])
  note up = timed_upto [OF assms(8,7,6)] and after = timed_after [OF assms(8,7,6)]
  have q1: "ep_timestamp_ms x \<le> ?mark" if "x \<in> set (sr_equity_curve r)" for x
  proof -
    have "ep_timestamp_ms x \<in> set (map close_time_ms (drop (nat (m - 1)) (take k segment)))" using that old(2) by (metis image_eqI list.set_map)
    then show ?thesis using up by (auto dest: in_set_dropD)
  qed
  have q2: "?mark < ep_timestamp_ms x" if "x \<in> set qs'" for x
  proof -
    have "ep_timestamp_ms x \<in> set (map close_time_ms (drop k segment))" using that new(6) by (metis image_eqI list.set_map)
    then show ?thesis using after by auto
  qed
  have "sorted_wrt (<) (map close_time_ms (drop k segment))"
    by (rule timed_closes) (use assms(8) timed_append [of "take k segment" "drop k segment"] in simp)
  then have qd: "distinct (map ep_timestamp_ms qs')" unfolding new(6) by (simp add: strict_sorted_iff)
  show ?thesis
  proof (rule recorded_write [where mark = ?mark])
    show "map st_trade (sd_trades db) = sr_trades r" "sd_equity db = sr_equity_curve r" "sd_journal db = j"
      using rec(1) by (simp_all add: recorded_def)
    show "?mark = mark_threshold (rs_last_processed_close_time_ms (get_run_state db))" by (simp add: rec(2) mark_threshold_def)
    show "t_exit_time_ms x \<le> ?mark" if "x \<in> set (sr_trades r)" for x using old(4) up that by fastforce
    show "je_timestamp_ms x \<le> ?mark" if "x \<in> set j" for x using old(1,3) up that by fastforce
    show "?mark < t_exit_time_ms x" if "x \<in> set ts'" for x using new(5) after that by fastforce
    show "?mark < je_timestamp_ms x" if "x \<in> set es'" for x using new(4) after that by fastforce
  qed (use new q1 q2 qd in auto)
qed

lemma start_record:
  assumes "nothing_recorded db"
    and run: "run_segment segment config filters strategy rc b (Some []) m E policy = Inr (r, Some j)"
    and "1 \<le> m" "timed segment" "\<And>c. c \<in> set segment \<Longrightarrow> 0 \<le> open_time_ms c"
  shows "recorded r j (committed (segment_write config filters now segment E db r j) db)"
proof -
  obtain es where new: "Some j = Some es" "distinct (map journal_key es)" "distinct (map t_exit_time_ms (sr_trades r))"
    "map ep_timestamp_ms (sr_equity_curve r) = map close_time_ms (drop (nat (m - 1)) segment)"
    "\<forall>e \<in> set es. \<exists>c \<in> set segment. je_timestamp_ms e \<in> {open_time_ms c, close_time_ms c}"
    "\<forall>x \<in> set (sr_trades r). \<exists>c \<in> set segment. t_exit_time_ms x = open_time_ms c"
    by (rule first_run [OF run assms(3,4)])
  have pos: "0 \<le> open_time_ms c \<and> 0 \<le> close_time_ms c" if "c \<in> set segment" for c
    using assms(4,5) that by (force simp: timed_def)
  have q: "- 1 < ep_timestamp_ms x" if "x \<in> set (sr_equity_curve r)" for x
  proof -
    have "ep_timestamp_ms x \<in> set (map close_time_ms (drop (nat (m - 1)) segment))" using that new(4) by (metis image_eqI list.set_map)
    then show ?thesis using pos by (force dest: in_set_dropD)
  qed
  have "sorted_wrt (<) (map close_time_ms (drop (nat (m - 1)) segment))"
    by (rule timed_closes) (use assms(4) timed_append [of "take (nat (m - 1)) segment" "drop (nat (m - 1)) segment"] in simp)
  then have qd: "distinct (map ep_timestamp_ms (sr_equity_curve r))" unfolding new(4) by (simp add: strict_sorted_iff)
  show ?thesis
  proof (rule recorded_write [where mark = "- 1" and ts = "[]" and qs = "[]" and es = "[]"])
    show "- 1 < t_exit_time_ms x" if "x \<in> set (sr_trades r)" for x using new(6) pos that by fastforce
    show "- 1 < je_timestamp_ms x" if "x \<in> set j" for x using new(1,5) pos that by fastforce
  qed (use assms(1) new q qd in \<open>auto simp: nothing_recorded_def mark_threshold_def\<close>)
qed

end
