(* ===== verification/Shadow_History.thy ===== *)
theory Shadow_History
  imports Shadow_Facts Audit_Facts
begin

text \<open>
  Any history of a shadow process. On a market of hourly candles that the exchange answers
  faithfully, whatever fails and whatever is interrupted, switched, locked or raised, the
  candle table is an initial piece of the market, and the shadow tables are the record of one
  backtest of an initial piece of it. This theory keeps the invariant; the theorem is in
  \<open>Shadow_Properties\<close>.
\<close>

section \<open>The market and what is around the process\<close>

definition SHADOW_WARMUP_CANDLES :: int where
  "SHADOW_WARMUP_CANDLES = compute_warmup_candle_count multitimeframe_min_required_candles"

definition SHADOW_REQUIRED_CANDLES :: int where
  "SHADOW_REQUIRED_CANDLES = compute_effective_min_required_candles SHADOW_WARMUP_CANDLES"

text \<open>Hourly candles from the start of the warm-up on.\<close>

definition hourly_market :: "string \<Rightarrow> (nat \<Rightarrow> candle) \<Rightarrow> bool" where
  "hourly_market symbol mkt \<longleftrightarrow>
     (\<forall>i. c_symbol (mkt i) = symbol \<and> c_interval (mkt i) = ''1h'' \<and>
       open_time_ms (mkt i) = SHADOW_START_BOUNDARY_MS + (int i - SHADOW_WARMUP_CANDLES) * HOUR_MS \<and>
       close_time_ms (mkt i) = open_time_ms (mkt i) + HOUR_MS - 1)"

text \<open>
  The exchange: asked for candles from one of the market on, it answers the market from there
  on, as far as candles have closed by the server's time; in its history there are only
  candles of the market; the filters of the symbol stay what they are.
\<close>

definition faithful_exchange ::
  "('w, shadow_message) shadow_env \<Rightarrow> app_config \<Rightarrow> (nat \<Rightarrow> candle) \<Rightarrow> symbol_filters \<Rightarrow> bool" where
  "faithful_exchange env config mkt filters \<longleftrightarrow>
     (\<forall>n w ref w1 cs w2. se_server_time env w = (Inr ref, w1) \<longrightarrow>
        se_klines env (cfg_symbol (cfg_market config)) ''1h'' (Some (open_time_ms (mkt n))) None 1000 w1 = (Inr cs, w2) \<longrightarrow>
        (\<exists>m. filter (\<lambda>c. close_time_ms c < ref) cs = map mkt [n ..< m])) \<and>
     answers (se_history env) (\<lambda>c. c \<in> range mkt) \<and>
     (\<forall>w info w'. se_exchange_info env (cfg_symbol (cfg_market config)) w = (Inr info, w') \<longrightarrow> from_exchange_info info = Inr filters)"

text \<open>The backtest that the shadow mode replays, over the candles from the warm-up on.\<close>

definition backtest_of ::
  "('w, shadow_message) shadow_env \<Rightarrow> app_config \<Rightarrow> symbol_filters \<Rightarrow> candle list \<Rightarrow> (segment_run_result \<times> journal_db option) result" where
  "backtest_of env config filters candles =
     run_segment candles config filters (multitimeframe_signal (se_pandas env)) (cfg_risk config) (mk_broker (cfg_fees config))
       (Some []) SHADOW_REQUIRED_CANDLES (dec_of_float (cfg_starting_equity (cfg_backtest config))) True"

text \<open>
  The state of the process against the market: the candles are its first \<open>n\<close>; before the
  warm-up is recorded nothing else is, and after it the tables hold the backtest of the first
  \<open>k\<close>, up to the mark, or still nothing.
\<close>

definition bootstrapped :: "shadow_bootstrap_state \<Rightarrow> bool" where
  "bootstrapped st \<longleftrightarrow>
     sb_warmup_start_time_ms st = SHADOW_START_BOUNDARY_MS - SHADOW_WARMUP_CANDLES * HOUR_MS \<and>
     sb_warmup_last_open_time_ms st = SHADOW_START_BOUNDARY_MS - HOUR_MS \<and> sb_warmup_candle_count st = SHADOW_WARMUP_CANDLES \<and>
     sb_effective_min_required_candles st = SHADOW_REQUIRED_CANDLES"

definition replayed ::
  "('w, shadow_message) shadow_env \<Rightarrow> app_config \<Rightarrow> (nat \<Rightarrow> candle) \<Rightarrow> symbol_filters \<Rightarrow> nat \<Rightarrow> 'm shadow_db \<Rightarrow> bool" where
  "replayed env config mkt filters n db \<longleftrightarrow>
     nothing_recorded db \<or>
     (\<exists>k r j. 0 < k \<and> k \<le> n \<and> backtest_of env config filters (map mkt [0 ..< k]) = Inr (r, Some j) \<and> recorded r j db \<and>
        rs_last_processed_close_time_ms (get_run_state db) = Some (close_time_ms (mkt (k - 1))))"

definition tracks ::
  "('w, shadow_message) shadow_env \<Rightarrow> app_config \<Rightarrow> (nat \<Rightarrow> candle) \<Rightarrow> symbol_filters \<Rightarrow> candle_db \<Rightarrow> 'm shadow_db \<Rightarrow> bool" where
  "tracks env config mkt filters cdb db \<longleftrightarrow>
     db_ok cdb \<and> (\<exists>n. get_candles (cfg_symbol (cfg_market config)) ''1h'' None None cdb = map mkt [0 ..< n] \<and>
       (case sd_bootstrap db of
          None \<Rightarrow> nothing_recorded db \<and> (n = 0 \<or> int n = SHADOW_WARMUP_CANDLES)
        | Some st \<Rightarrow> bootstrapped st \<and> SHADOW_WARMUP_CANDLES \<le> int n \<and> replayed env config mkt filters n db))"

section \<open>Times of the market\<close>

lemma warmup_values: "SHADOW_WARMUP_CANDLES = 7611" "SHADOW_REQUIRED_CANDLES = 7616"
  by code_simp+

lemma shadow_times: "SHADOW_START_BOUNDARY_MS = 1788652800000" "HOUR_MS = 3600000"
  by (simp_all add: SHADOW_START_BOUNDARY_MS_def HOUR_MS_def)

lemma market_at:
  assumes "hourly_market symbol mkt"
  shows "c_symbol (mkt i) = symbol" "c_interval (mkt i) = ''1h''"
    "open_time_ms (mkt i) = 1788652800000 + (int i - 7611) * 3600000"
    "close_time_ms (mkt i) = 1788652800000 + (int i - 7611) * 3600000 + 3599999"
  using assms by (simp_all add: hourly_market_def warmup_values shadow_times)

lemma market_timed:
  assumes "hourly_market symbol mkt"
  shows "timed (map mkt [k ..< n])"
proof -
  have "close_time_ms (mkt i) < open_time_ms (mkt j)" if "i < j" for i j
  proof -
    have "int i + 1 \<le> int j" using that by simp
    then show ?thesis by (simp add: market_at [OF assms])
  qed
  then show ?thesis by (auto simp: timed_def sorted_wrt_map market_at [OF assms] intro!: sorted_wrt_mono_rel [OF _ sorted_wrt_upt])
qed

lemma market_open_increasing: "hourly_market symbol mkt \<Longrightarrow> sorted_wrt (<) (map open_time_ms (map mkt [k ..< n]))"
  by (simp add: sorted_wrt_map market_at)

lemma market_partition:
  assumes "hourly_market symbol mkt" "0 < n"
  shows "partition_into_segments (map mkt [0 ..< n]) ''1h'' = Inr \<lparr>segments = [map mkt [0 ..< n]], gaps = []\<rparr>"
proof -
  have "contig_from 3600000 None (map mkt [0 ..< n])" unfolding contig_from_None contiguous_def
    by (simp add: market_at [OF assms(1)] del: upt_Suc)
  from partition_loop_contig [OF _ _ this, of "[]" "[]" "[]" "[]"]
  have "partition_loop 3600000 [] None [] [] [] (map mkt [0 ..< n]) = Inr \<lparr>segments = [map mkt [0 ..< n]], gaps = []\<rparr>" by simp
  moreover have "interval_to_ms ''1h'' = Inr 3600000" by code_simp
  ultimately show ?thesis using assms(2) by (simp add: partition_into_segments_def)
qed

section \<open>The candle table\<close>

lemma get_candles_from:
  "get_candles s i (Some a) None db = filter (\<lambda>c. a \<le> open_time_ms c) (get_candles s i None None db)"
  unfolding get_candles_def filter_sort filter_map filter_filter
  by (rule arg_cong [where f = "sort_key open_time_ms"], rule arg_cong [where f = "map _"], rule filter_cong) auto

lemma get_candles_market:
  assumes "hourly_market symbol mkt" "get_candles s i None None db = map mkt [0 ..< n]"
  shows "get_candles s i (Some (SHADOW_START_BOUNDARY_MS - SHADOW_WARMUP_CANDLES * HOUR_MS)) None db = map mkt [0 ..< n]"
  unfolding get_candles_from assms(2) by (simp add: filter_id_conv market_at [OF assms(1)] warmup_values shadow_times)

lemma upsert_is_stored: "upsert_candle_rows cs db = stored cs [] s i now None db"
  by (simp add: stored_def upsert_gap_rows_def)

lemma get_candles_upsert:
  assumes "db_ok db" "\<And>c. c \<in> set cs \<Longrightarrow> c_symbol c = s \<and> c_interval c = i"
  shows "get_candles s i None None (upsert_candle_rows cs db) = dedup_by_open_time (get_candles s i None None db @ cs)"
  unfolding upsert_is_stored [of cs db s i 0] by (rule get_candles_stored [OF assms])

lemma upsert_market_dedup:
  assumes "hourly_market symbol mkt" "db_ok db" "get_candles symbol ''1h'' None None db = map mkt [0 ..< n]"
  shows "get_candles symbol ''1h'' None None (upsert_candle_rows (map mkt [k ..< m]) db) = dedup_by_open_time (map mkt [0 ..< n] @ map mkt [k ..< m])"
  unfolding assms(3) [symmetric]
  by (rule get_candles_upsert [OF assms(2)]) (use market_at(1,2) [OF assms(1)] in auto)

lemma upsert_market:
  assumes "hourly_market symbol mkt" "db_ok db" "get_candles symbol ''1h'' None None db = map mkt [0 ..< n]" "n \<le> m"
  shows "get_candles symbol ''1h'' None None (upsert_candle_rows (map mkt [n ..< m]) db) = map mkt [0 ..< m]"
proof -
  have "get_candles symbol ''1h'' None None (upsert_candle_rows (map mkt [n ..< m]) db) = dedup_by_open_time (map mkt [0 ..< n] @ map mkt [n ..< m])"
    by (rule upsert_market_dedup [OF assms(1-3)])
  also have "map mkt [0 ..< n] @ map mkt [n ..< m] = map mkt [0 ..< m]"
    using upt_add_eq_append [of 0 n "m - n"] assms(4) by (simp flip: map_append)
  finally show ?thesis by (simp only: dedup_increasing [OF market_open_increasing [OF assms(1)]])
qed

text \<open>The warm-up stored once more changes nothing.\<close>

lemma upsert_market_again:
  assumes "hourly_market symbol mkt" "db_ok db" "get_candles symbol ''1h'' None None db = map mkt [0 ..< m]"
  shows "get_candles symbol ''1h'' None None (upsert_candle_rows (map mkt [0 ..< m]) db) = map mkt [0 ..< m]"
proof -
  have "get_candles symbol ''1h'' None None (upsert_candle_rows (map mkt [0 ..< m]) db) = dedup_by_open_time (map mkt [0 ..< m] @ map mkt [0 ..< m])"
    by (rule upsert_market_dedup [OF assms])
  also have "\<dots> = map mkt [0 ..< m]"
    using dedup_twice [of "[]" "map mkt [0 ..< m]"] by (simp add: dedup_increasing [OF market_open_increasing [OF assms(1)]])
  finally show ?thesis .
qed

lemma case_foldl_max:
  "(case xs of [] \<Rightarrow> None | x # ys \<Rightarrow> Some (foldl max x ys)) = (if xs = [] then None else Some (Max (set xs)))"
  for xs :: "int list"
  by (cases xs) (simp_all add: foldl_max_Max)

lemma latest_close_market:
  assumes "hourly_market symbol mkt" "get_candles s i None None db = map mkt [0 ..< n]"
  shows "latest_close_time_ms s i db = (if n = 0 then None else Some (close_time_ms (mkt (n - 1))))"
proof -
  let ?cs = "map (\<lambda>(k, c). close_time_ms c) (filter (\<lambda>((s', i', t), c). s' = s \<and> i' = i) (cd_candles db))"
  have e: "latest_close_time_ms s i db = (if ?cs = [] then None else Some (Max (set ?cs)))"
    unfolding latest_close_time_ms_def by (rule case_foldl_max)
  have "close_time_ms ` set (get_candles s i None None db) = set ?cs"
    by (force simp: get_candles_def image_iff)
  then have set: "set ?cs = close_time_ms ` mkt ` {0 ..< n}" unfolding assms(2) by simp
  show ?thesis
  proof (cases n)
    case 0
    with set have "set ?cs = {}" by (simp only: upt_0 atLeastLessThan0 image_empty less_irrefl)
    then have "?cs = []" by (simp only: set_empty)
    with e 0 show ?thesis by simp
  next
    case (Suc m)
    have "Max (set ?cs) = close_time_ms (mkt m)" unfolding set Suc
    proof (rule Max_eqI)
      show "close_time_ms (mkt m) \<in> close_time_ms ` mkt ` {0 ..< Suc m}" by (intro imageI) simp
    qed (auto simp: market_at [OF assms(1)])
    moreover have "close_time_ms (mkt m) \<in> set ?cs" unfolding set Suc by (intro imageI) simp
    then have "?cs \<noteq> []" by (cases ?cs) simp_all
    ultimately show ?thesis unfolding e using Suc by (simp only: if_False nat.distinct diff_Suc_1)
  qed
qed

section \<open>Steps that leave the record alone\<close>

definition on_data :: "(candle_db \<Rightarrow> 'm shadow_db \<Rightarrow> bool) \<Rightarrow> ('w, 'm) shadow \<Rightarrow> bool" where
  "on_data I s \<longleftrightarrow> I (sw_candles s) (sw_db s)"

definition same_record :: "'m shadow_db \<Rightarrow> 'm shadow_db \<Rightarrow> bool" where
  "same_record db db' \<longleftrightarrow>
     sd_bootstrap db' = sd_bootstrap db \<and> sd_trades db' = sd_trades db \<and> sd_equity db' = sd_equity db \<and> sd_journal db' = sd_journal db \<and>
     rs_last_processed_close_time_ms (get_run_state db') = rs_last_processed_close_time_ms (get_run_state db) \<and>
     rs_open_position (get_run_state db') = rs_open_position (get_run_state db)"

definition record_closed :: "(candle_db \<Rightarrow> 'm shadow_db \<Rightarrow> bool) \<Rightarrow> bool" where
  "record_closed I \<longleftrightarrow> (\<forall>c db db'. same_record db db' \<longrightarrow> I c db \<longrightarrow> I c db')"

definition keeps_record :: "('m shadow_db, 'a) step \<Rightarrow> bool" where
  "keeps_record m \<longleftrightarrow> (\<forall>db r db'. m db = (r, db') \<longrightarrow> same_record db db')"

lemma keeps_record_steps:
  "keeps_record (touch_cycle now status detail len)" "keeps_record (enqueue_notifications_atomically es)"
  "keeps_record (update_notification_status i st a at' er se)" "keeps_record (record_daily_summary_sent d)"
  by (auto simp: keeps_record_def same_record_def touch_cycle_def atomically_def enqueue_notifications_atomically_def
      update_notification_status_def record_daily_summary_sent_def get_run_state_def touched_def store_steps split: option.splits)

lemma on_ext_keeps [stepI]: "preserves (on_data I) (on_ext m)"
  unfolding on_ext_def by (rule preserves_zoom) (simp add: on_data_def)

lemma on_db_keeps: "record_closed I \<Longrightarrow> keeps_record m \<Longrightarrow> preserves (on_data I) (on_shadow_db m)"
  unfolding on_shadow_db_def record_closed_def keeps_record_def by (rule preserves_zoom) (simp add: on_data_def, blast)

lemma except_exception_keeps [stepI]: "preserves I m \<Longrightarrow> preserves I (except_exception m h)"
  unfolding except_exception_def by (intro stepI)

lemmas on_db_steps = on_db_keeps [OF _ keeps_record_steps(1)] on_db_keeps [OF _ keeps_record_steps(2)]
  on_db_keeps [OF _ keeps_record_steps(3)] on_db_keeps [OF _ keeps_record_steps(4)]

lemma deliver_keeps: "record_closed I \<Longrightarrow> preserves (on_data I) (deliver env secrets e)"
  unfolding deliver_def by (intro stepI on_db_steps) assumption+

lemma deliver_all_keeps: "record_closed I \<Longrightarrow> preserves (on_data I) (deliver_all env secrets es r)"
  by (induction es arbitrary: r) (auto intro!: stepI deliver_keeps)

lemma flush_keeps: "record_closed I \<Longrightarrow> preserves (on_data I) (flush_pending_notifications env config)"
  unfolding flush_pending_notifications_def flush_body_def by (intro stepI deliver_all_keeps) assumption+

lemma retry_keeps: "record_closed I \<Longrightarrow> preserves (on_data I) (retry_notification env event_id)"
  unfolding retry_notification_def by (intro stepI deliver_keeps) assumption+

lemma after_cycle_keeps: "record_closed I \<Longrightarrow> preserves (on_data I) (after_cycle env config)"
  unfolding after_cycle_def maybe_send_daily_summary_def daily_summary_body_def
  by (intro stepI flush_keeps on_db_steps) assumption+

lemma idle_cycle_keeps: "record_closed I \<Longrightarrow> preserves (on_data I) (idle_cycle env config now r)"
  unfolding idle_cycle_def by (intro stepI after_cycle_keeps on_db_steps) assumption+

lemma with_lock_keeps:
  assumes "preserves (on_data I) m"
  shows "preserves (on_data I) (with_lock m)"
proof (rule preservesI)
  fix s r t assume I: "on_data I s" and run: "with_lock m s = (r, t)"
  show "on_data I t"
  proof (cases "sw_lock_held s")
    case True
    then show ?thesis using I run by (simp add: with_lock_def acquire_lock_def sbind_def)
  next
    case False
    obtain r' u where u: "m (s\<lparr>sw_lock_held := True\<rparr>) = (r', u)" by (cases "m (s\<lparr>sw_lock_held := True\<rparr>)")
    have "on_data I u" by (rule preservesD [OF assms _ u]) (use I in \<open>simp add: on_data_def\<close>)
    then show ?thesis using False run u by (auto simp: with_lock_def acquire_lock_def release_lock_def sbind_def on_data_def)
  qed
qed

section \<open>Steps that advance the record\<close>

lemma reaches_step:
  assumes "\<And>s r t. I s \<Longrightarrow> m s = (r, t) \<Longrightarrow> K t" "\<And>x. preserves K (f x)" "\<And>s. I s \<Longrightarrow> K s"
  shows "reaches I K (sbind m f)"
proof (rule reachesI)
  show "K t" if "I s" "sbind m f s = (r, t)" for s r t
    using that(2)
  proof (cases rule: sbind_cases)
    case (1 e)
    then show ?thesis using assms(1) [OF that(1)] by blast
  next
    case (2 x u)
    then show ?thesis using preservesD [OF assms(2) assms(1) [OF that(1)]] by blast
  qed
qed (rule assms(3))

lemma reaches_data_get:
  assumes "\<And>c d. reaches (on_data (\<lambda>c' d'. I c' d' \<and> c' = c \<and> d' = d)) Q (f (g c d))"
  shows "reaches (on_data I) Q (sbind (sget (\<lambda>s. g (sw_candles s) (sw_db s))) f)"
proof (rule reachesI)
  show "Q t" if "on_data I s" "sbind (sget (\<lambda>s. g (sw_candles s) (sw_db s))) f s = (r, t)" for s r t
    using that reachesD [OF assms [of "sw_candles s" "sw_db s"], of s r t] by (simp add: on_data_def sbind_def)
  show "Q s" if "on_data I s" for s
    using that assms [of "sw_candles s" "sw_db s"] by (simp add: reaches_def on_data_def)
qed

lemma possible_ext:
  assumes "possible I (on_ext m) x"
  shows "\<exists>w w'. m w = (Inr x, w')"
proof -
  obtain s t where "I s" "on_ext m s = (Inr x, t)" using assms by (auto simp: possible_def)
  then show ?thesis by (cases "m (sw_ext s)") (auto simp: on_ext_def szoom_def)
qed

lemma tracks_closed: "record_closed (tracks env config mkt filters)"
  unfolding record_closed_def
proof (intro allI impI)
  fix c and db db' :: "'m shadow_db"
  assume same: "same_record db db'" and I: "tracks env config mkt filters c db"
  have n: "nothing_recorded db' = nothing_recorded db" and r: "recorded r j db' = recorded r j db" for r j
    using same by (simp_all add: same_record_def nothing_recorded_def recorded_def)
  have "replayed env config mkt filters n db' = replayed env config mkt filters n db" for n
    using same by (simp add: replayed_def n r same_record_def)
  then show "tracks env config mkt filters c db'"
    using same I by (cases "sd_bootstrap db") (simp_all add: tracks_def n same_record_def)
qed

text \<open>The transaction of a cycle, over the candles there are.\<close>

lemma committed_recorded:
  assumes mkt: "hourly_market (cfg_symbol (cfg_market config)) mkt"
    and I: "tracks env config mkt filters c db" "sd_bootstrap db = Some st"
    and cs: "get_candles (cfg_symbol (cfg_market config)) ''1h'' None None c = map mkt [0 ..< n]" "0 < n"
    and run: "backtest_of env config filters (map mkt [0 ..< n]) = Inr (r, j)"
  obtains es where "j = Some es" "db_ok c" "bootstrapped st" "SHADOW_WARMUP_CANDLES \<le> int n"
    "recorded r es (committed (segment_write config filters now (map mkt [0 ..< n])
       (dec_of_float (cfg_starting_equity (cfg_backtest config))) db r es) db)"
proof -
  let ?seg = "map mkt [0 ..< n]" and ?E = "dec_of_float (cfg_starting_equity (cfg_backtest config))"
  have m: "1 \<le> SHADOW_REQUIRED_CANDLES" by (simp add: warmup_values)
  have timed: "timed ?seg" by (rule market_timed [OF mkt])
  obtain es where j: "j = Some es" by (rule first_run [OF run [unfolded backtest_of_def] m timed]) blast
  note run' = run [unfolded j]
  have same_n: "n' = n" if "get_candles (cfg_symbol (cfg_market config)) ''1h'' None None c = map mkt [0 ..< n']" for n'
    using that cs(1) by (metis length_map length_upt diff_zero)
  obtain n' where n': "db_ok c" "get_candles (cfg_symbol (cfg_market config)) ''1h'' None None c = map mkt [0 ..< n']"
    "bootstrapped st \<and> SHADOW_WARMUP_CANDLES \<le> int n' \<and> replayed env config mkt filters n' db"
    using I(1) unfolding tracks_def I(2) option.case by blast
  then have boot: "bootstrapped st" "SHADOW_WARMUP_CANDLES \<le> int n" "replayed env config mkt filters n db" and ok: "db_ok c"
    unfolding same_n [OF n'(2)] by blast+
  have "recorded r es (committed (segment_write config filters now ?seg ?E db r es) db)"
    using boot(3) unfolding replayed_def
  proof (elim disjE exE conjE)
    assume "nothing_recorded db"
    then show ?thesis
      by (rule start_record [OF _ run' [unfolded backtest_of_def] m timed]) (auto simp: market_at [OF mkt])
  next
    fix k r0 j0
    assume k: "0 < k" "k \<le> n" and old: "backtest_of env config filters (map mkt [0 ..< k]) = Inr (r0, Some j0)" "recorded r0 j0 db"
      "rs_last_processed_close_time_ms (get_run_state db) = Some (close_time_ms (mkt (k - 1)))"
    have seg: "take k ?seg = map mkt [0 ..< k]" "?seg ! (k - 1) = mkt (k - 1)" using k by (simp_all add: take_map take_upt)
    show ?thesis
      by (rule extend_record [OF old(2) _ _ run' [unfolded backtest_of_def] m k(1) _ timed])
        (use k old(1,3) in \<open>simp_all add: seg(1) backtest_of_def [symmetric]\<close>)
  qed
  then show thesis using that j boot(1,2) ok by blast
qed

lemma tracks_committed:
  assumes mkt: "hourly_market (cfg_symbol (cfg_market config)) mkt"
    and I: "tracks env config mkt filters c db" "sd_bootstrap db = Some st"
    and cs: "get_candles (cfg_symbol (cfg_market config)) ''1h'' None None c = map mkt [0 ..< n]" "0 < n"
    and run: "backtest_of env config filters (map mkt [0 ..< n]) = Inr (r, j)"
  shows "tracks env config mkt filters c
    (committed (segment_write config filters now (map mkt [0 ..< n]) (dec_of_float (cfg_starting_equity (cfg_backtest config))) db r
      (case j of None \<Rightarrow> [] | Some es \<Rightarrow> es)) db)"
proof -
  let ?seg = "map mkt [0 ..< n]" and ?E = "dec_of_float (cfg_starting_equity (cfg_backtest config))"
  obtain es where es: "j = Some es" "db_ok c" "bootstrapped st" "SHADOW_WARMUP_CANDLES \<le> int n"
    "recorded r es (committed (segment_write config filters now ?seg ?E db r es) db)"
    by (rule committed_recorded [OF assms])
  have "last ?seg = mkt (n - 1)" using cs(2) by (simp add: last_map)
  with es(5) have "replayed env config mkt filters n (committed (segment_write config filters now ?seg ?E db r es) db)"
    unfolding replayed_def using run cs(2)
    by (intro disjI2 exI [of _ n] exI [of _ r] exI [of _ es]) (simp add: es(1) committed_fields advanced_def segment_write_fields)
  then show ?thesis unfolding tracks_def committed_fields(6) I(2) option.case es(1) using cs(1) es(2-4) by blast
qed

lemma evaluate_reaches:
  assumes world: "hourly_market (cfg_symbol (cfg_market config)) mkt" "faithful_exchange env config mkt filters"
    and I: "tracks env config mkt filters c d" "sd_bootstrap d = Some st"
    and cs: "get_candles (cfg_symbol (cfg_market config)) ''1h'' None None c = map mkt [0 ..< n]" "0 < n"
  shows "reaches (on_data (\<lambda>c' d'. c' = c \<and> d' = d)) (on_data (tracks env config mkt filters))
    (evaluate_segment env config now fetched SHADOW_REQUIRED_CANDLES (map mkt [0 ..< n]))"
proof -
  let ?J = "on_data (\<lambda>c' d'. c' = c \<and> d' = d)"
  have J: "on_data (tracks env config mkt filters) s" if "?J s" for s using that I(1) by (auto simp: on_data_def)
  have wrote: "on_data (tracks env config mkt filters) t"
    if "?J s" "on_shadow_db (record_cycle_atomically w) s = (x, t)" "w = segment_write config filters now (map mkt [0 ..< n])
      (dec_of_float (cfg_starting_equity (cfg_backtest config))) d r (case j of None \<Rightarrow> [] | Some es \<Rightarrow> es)"
      "backtest_of env config filters (map mkt [0 ..< n]) = Inr (r, j)" for s x t w r j
  proof -
    note h = that
    obtain db' where t: "t = s\<lparr>sw_db := db'\<rparr>" "record_cycle_atomically w d = (x, db')"
      using h(1,2) by (auto simp: on_shadow_db_def szoom_def on_data_def split: prod.splits)
    from t(2) show ?thesis
    proof (cases rule: record_cycle_cases)
      case 1
      then show ?thesis using tracks_committed [OF world(1) I cs h(4), of now] h(1,3) t(1) by (simp add: on_data_def)
    next
      case 2
      then show ?thesis using J [OF h(1)] h(1) t(1) by (simp add: on_data_def)
    qed
  qed
  have rest: "reaches ?J (on_data (tracks env config mkt filters))
      (sbind (sget (\<lambda>s. segment_write config filters now (map mkt [0 ..< n]) (dec_of_float (cfg_starting_equity (cfg_backtest config)))
         (sw_db s) r (case j of None \<Rightarrow> [] | Some es \<Rightarrow> es))) (\<lambda>w.
       sbind (on_shadow_db (record_cycle_atomically w)) (\<lambda>_. sbind (after_cycle env config) (\<lambda>_. sreturn (g w)))))"
    if "backtest_of env config filters (map mkt [0 ..< n]) = Inr (r, j)" for r j and g :: "_ \<Rightarrow> shadow_cycle_result"
  proof (rule reaches_get, rule reaches_step)
    fix w
    let ?K = "\<lambda>s. ?J s \<and> segment_write config filters now (map mkt [0 ..< n]) (dec_of_float (cfg_starting_equity (cfg_backtest config)))
         (sw_db s) r (case j of None \<Rightarrow> [] | Some es \<Rightarrow> es) = w"
    show "on_data (tracks env config mkt filters) t" if "?K s" "on_shadow_db (record_cycle_atomically w) s = (x, t)" for s x t
    proof -
      have "?J s" "sw_db s = d" using that(1) by (simp_all add: on_data_def)
      with that show ?thesis using wrote [of s w x t r j] \<open>backtest_of env config filters (map mkt [0 ..< n]) = Inr (r, j)\<close> by metis
    qed
    show "preserves (on_data (tracks env config mkt filters)) (sbind (after_cycle env config) (\<lambda>_. sreturn (g w)))"
      by (intro stepI after_cycle_keeps tracks_closed)
    show "on_data (tracks env config mkt filters) s" if "?K s" for s using J that by blast
  qed
  have filters: "from_exchange_info info = Inr filters"
    if "possible ?J (on_ext (se_exchange_info env (cfg_symbol (cfg_market config)))) info" for info
    using possible_ext [OF that] world(2) unfolding faithful_exchange_def by blast
  show ?thesis
    unfolding evaluate_segment_def Let_def
  proof (rule reaches_bind [OF on_ext_keeps _ J], rule reaches_bind [OF preserves_basic(3) _ J], rule reaches_bind [OF preserves_basic(3) _ J], rule reaches_prod)
    fix info fs x r j
    assume "possible ?J (on_ext (se_exchange_info env (cfg_symbol (cfg_market config)))) info" "possible ?J (slift (from_exchange_info info)) fs"
    then have f: "fs = filters" using filters by (auto dest: possibleD)
    assume "possible ?J (slift (run_segment (map mkt [0 ..< n]) config fs (multitimeframe_signal (se_pandas env)) (cfg_risk config)
      (mk_broker (cfg_fees config)) (Some []) SHADOW_REQUIRED_CANDLES (dec_of_float (cfg_starting_equity (cfg_backtest config))) True)) x"
      and "x = (r, j)"
    then have "backtest_of env config filters (map mkt [0 ..< n]) = Inr (r, j)" by (auto simp: f backtest_of_def dest: possibleD)
    from rest [OF this] show "reaches ?J (on_data (tracks env config mkt filters))
      (sbind (sget (\<lambda>s. segment_write config fs now (map mkt [0 ..< n]) (dec_of_float (cfg_starting_equity (cfg_backtest config)))
         (sw_db s) r (case j of None \<Rightarrow> [] | Some es \<Rightarrow> es))) (\<lambda>w.
       sbind (on_shadow_db (record_cycle_atomically w)) (\<lambda>_. sbind (after_cycle env config) (\<lambda>_. sreturn
        \<lparr>sc_status = ''OK'', sc_detail = cw_detail w, sc_new_candles_fetched = fetched,
          sc_segment_length = Some (int (length (map mkt [0 ..< n]))), sc_min_required_candles = SHADOW_REQUIRED_CANDLES,
          sc_new_trades_persisted = int (length (cw_new_trades w)),
          sc_new_equity_points_persisted = int (length (cw_new_equity_points w)),
          sc_new_journal_entries_persisted = int (length (cw_new_journal_entries w))\<rparr>))))" unfolding f .
  qed
qed

lemma reaches_weaker: "preserves K m \<Longrightarrow> (\<And>s. I s \<Longrightarrow> K s) \<Longrightarrow> reaches I K m"
  by (rule reachesI) (blast dest: preservesD)+

lemma process_reaches:
  assumes world: "hourly_market (cfg_symbol (cfg_market config)) mkt" "faithful_exchange env config mkt filters"
    and hour: "cfg_interval (cfg_market config) = ''1h''"
    and I: "tracks env config mkt filters c d" "sd_bootstrap d = Some st"
    and cs: "get_candles (cfg_symbol (cfg_market config)) ''1h'' None None c = map mkt [0 ..< n]"
  shows "reaches (on_data (\<lambda>c' d'. c' = c \<and> d' = d)) (on_data (tracks env config mkt filters))
    (process_candles env config st now fetched (map mkt [0 ..< n]))"
proof -
  let ?J = "on_data (\<lambda>c' d'. c' = c \<and> d' = d)"
  have J: "on_data (tracks env config mkt filters) s" if "?J s" for s using that I(1) by (auto simp: on_data_def)
  have st: "bootstrapped st" using I unfolding tracks_def I(2) option.case by blast
  have idle: "reaches ?J (on_data (tracks env config mkt filters)) (idle_cycle env config now r)" for r
    by (rule reaches_weaker [OF idle_cycle_keeps [OF tracks_closed] J])
  show ?thesis
  proof (cases "n = 0")
    case True
    then show ?thesis using idle by (simp add: process_candles_def)
  next
    case False
    have part: "partition_into_segments (map mkt [0 ..< n]) ''1h'' = Inr \<lparr>segments = [map mkt [0 ..< n]], gaps = []\<rparr>"
      by (rule market_partition [OF world(1)]) (use False in simp)
    have len: "required_length st (mkt 0) = SHADOW_REQUIRED_CANDLES"
      using st by (simp add: required_length_def bootstrapped_def market_at [OF world(1)] warmup_values shadow_times)
    have nth: "nth_res [map mkt [0 ..< n]] (- 1) = Inr (map mkt [0 ..< n])" "nth_res (map mkt [0 ..< n]) 0 = Inr (mkt 0)"
      using False by (simp_all add: nth_res_def)
    have bind: "sbind (slift (Inr x)) f = f x" for x :: 'z and f :: "'z \<Rightarrow> ('y, 'x) step" by (simp add: fun_eq_iff)
    have ev: "reaches (\<lambda>s. ?J s \<and> g s = x) (on_data (tracks env config mkt filters))
        (evaluate_segment env config now fetched SHADOW_REQUIRED_CANDLES (map mkt [0 ..< n]))" for g :: "_ \<Rightarrow> shadow_run_state" and x
      by (rule reaches_pre [OF evaluate_reaches [OF world I cs]]) (use False in simp_all)
    have id: "reaches (\<lambda>s. ?J s \<and> g s = x) (on_data (tracks env config mkt filters)) (idle_cycle env config now r)"
      for g :: "_ \<Rightarrow> shadow_run_state" and x r
      by (rule reaches_weaker [OF idle_cycle_keeps [OF tracks_closed]]) (use J in blast)
    have ne: "map mkt [0 ..< n] \<noteq> []" using False by simp
    show ?thesis
      unfolding process_candles_def if_not_P [OF ne] hour part bind segmentation_result.select_convs nth len Let_def
      by (intro reaches_get reaches_if ev id)
  qed
qed

section \<open>The download of a cycle\<close>

lemma upsert_candles_outcome: "upsert_candles broken cs db = (r, db') \<Longrightarrow> db' = db \<or> db' = upsert_candle_rows cs db"
  by (auto simp: upsert_candles_def atomically_def db_statement_def split: if_splits)

lemma fetched_market:
  assumes "faithful_exchange env config mkt filters"
    and "fetch_completed_candles (se_klines env (cfg_symbol (cfg_market config)) ''1h'') (se_server_time env)
      (Some (open_time_ms (mkt n))) None 1000 None w = (Inr cs, w')"
  obtains m where "n \<le> m" "cs = map mkt [n ..< m]"
proof -
  obtain ref w1 raw w2 where "se_server_time env w = (Inr ref, w1)"
    "se_klines env (cfg_symbol (cfg_market config)) ''1h'' (Some (open_time_ms (mkt n))) None 1000 w1 = (Inr raw, w2)"
    "cs = filter (\<lambda>c. close_time_ms c < ref) raw"
    using assms(2) by (auto simp: fetch_completed_candles_def sbind_eq_Inr)
  then obtain m where "cs = map mkt [n ..< m]" using assms(1) unfolding faithful_exchange_def by metis
  then have "cs = map mkt [n ..< max n m]" by (cases "n \<le> m") simp_all
  then show thesis using that [of "max n m"] by simp
qed

lemma fetch_new_keeps:
  assumes world: "hourly_market (cfg_symbol (cfg_market config)) mkt" "faithful_exchange env config mkt filters"
    and hour: "cfg_interval (cfg_market config) = ''1h''"
  shows "preserves (on_data (\<lambda>c d. tracks env config mkt filters c d \<and> sd_bootstrap d = Some st)) (fetch_new_candles env config)"
proof (rule preservesI)
  fix s r and t :: "('a, shadow_message) shadow"
  let ?sym = "cfg_symbol (cfg_market config)"
  assume run: "fetch_new_candles env config s = (r, t)"
  assume "on_data (\<lambda>c d. tracks env config mkt filters c d \<and> sd_bootstrap d = Some st) s"
  then have I: "tracks env config mkt filters (sw_candles s) (sw_db s)" "sd_bootstrap (sw_db s) = Some st" by (simp_all add: on_data_def)
  then obtain n where n: "db_ok (sw_candles s)" "get_candles ?sym ''1h'' None None (sw_candles s) = map mkt [0 ..< n]"
    "bootstrapped st" "SHADOW_WARMUP_CANDLES \<le> int n" "replayed env config mkt filters n (sw_db s)"
    unfolding tracks_def I(2) option.case by blast
  have start: "fetch_start (latest_close_time_ms ?sym ''1h'' (sw_candles s)) = open_time_ms (mkt n)"
    using n(4) latest_close_market [OF world(1) n(2)]
    by (simp add: fetch_start_def market_at [OF world(1)] warmup_values shadow_times of_nat_diff)
  have more: "tracks env config mkt filters c (sw_db s)"
    if "db_ok c" "get_candles ?sym ''1h'' None None c = map mkt [0 ..< m]" "n \<le> m" for c m
  proof -
    have "replayed env config mkt filters m (sw_db s)" using n(5) that(3) unfolding replayed_def by (meson le_trans)
    moreover have "SHADOW_WARMUP_CANDLES \<le> int m" using n(4) that(3) by simp
    ultimately show ?thesis unfolding tracks_def I(2) option.case using that n(3) by blast
  qed
  obtain x w where f: "fetch_completed_candles (se_klines env ?sym ''1h'') (se_server_time env)
      (Some (open_time_ms (mkt n))) None 1000 None (sw_ext s) = (x, w)" by (metis surj_pair)
  show "on_data (\<lambda>c d. tracks env config mkt filters c d \<and> sd_bootstrap d = Some st) t"
  proof (cases x)
    case (Inl e)
    then have "t = s\<lparr>sw_ext := w\<rparr>" using run f unfolding fetch_new_candles_def hour
      by (simp add: Let_def sbind_def on_ext_def szoom_def start)
    then show ?thesis using I by (simp add: on_data_def)
  next
    case (Inr cs)
    obtain m where m: "n \<le> m" "cs = map mkt [n ..< m]" by (rule fetched_market [OF world(2) f [unfolded Inr]])
    have past: "SHADOW_START_BOUNDARY_MS \<le> open_time_ms c" if "c \<in> set cs" for c
      using that n(4) by (auto simp: m(2) market_at [OF world(1)] warmup_values shadow_times)
    have new: "filter_from_boundary cs = cs" "assert_no_pre_boundary_candles cs = Inr ()"
      using past by (simp_all add: filter_from_boundary_def assert_no_pre_boundary_candles_def filter_empty_conv not_less)
    have "(if cs = [] then sreturn () else on_candles (upsert_candles (se_statement_fails env) cs)) (s\<lparr>sw_ext := w\<rparr>) = (y, u)
      \<Longrightarrow> u = s\<lparr>sw_ext := w\<rparr> \<or> u = s\<lparr>sw_ext := w, sw_candles := upsert_candle_rows cs (sw_candles s)\<rparr>" for y u
      by (auto simp: on_candles_def szoom_def split: if_splits prod.splits dest!: upsert_candles_outcome)
    moreover obtain y u where "(if cs = [] then sreturn () else on_candles (upsert_candles (se_statement_fails env) cs)) (s\<lparr>sw_ext := w\<rparr>) = (y, u)"
      by (metis surj_pair)
    moreover from this have "t = u" using run f Inr unfolding fetch_new_candles_def hour
      by (cases y) (simp_all add: Let_def sbind_def on_ext_def szoom_def start new cong: if_cong)
    ultimately have t: "t = s\<lparr>sw_ext := w\<rparr> \<or> t = s\<lparr>sw_ext := w, sw_candles := upsert_candle_rows cs (sw_candles s)\<rparr>" by blast
    have "tracks env config mkt filters (upsert_candle_rows cs (sw_candles s)) (sw_db s)"
      unfolding m(2) by (rule more [OF db_ok_upsert [OF n(1)] upsert_market [OF world(1) n(1,2) m(1)] m(1)])
    with t I show ?thesis by (auto simp: on_data_def)
  qed
qed

section \<open>The whole cycle\<close>

lemma verification_state:
  assumes "verify_bootstrap_complete config c d = Inr v" "bv_state v = Some st"
  shows "sd_bootstrap d = Some st"
  using assms by (auto simp: verify_bootstrap_complete_def get_bootstrap_state_def Let_def split: option.splits if_splits)

lemma cycle_locked_keeps:
  assumes world: "hourly_market (cfg_symbol (cfg_market config)) mkt" "faithful_exchange env config mkt filters"
    and hour: "cfg_interval (cfg_market config) = ''1h''"
  shows "preserves (on_data (tracks env config mkt filters)) (run_shadow_cycle_locked env config)"
proof -
  let ?I = "on_data (tracks env config mkt filters)"
  let ?B = "\<lambda>st. on_data (\<lambda>c d. tracks env config mkt filters c d \<and> sd_bootstrap d = Some st)"
  let ?sym = "cfg_symbol (cfg_market config)"
  have process: "reaches (?B st) ?I (sbind (sget (\<lambda>s. get_candles ?sym ''1h'' (Some (sb_warmup_start_time_ms st)) None (sw_candles s)))
      (\<lambda>all_candles. process_candles env config st now fetched all_candles))" for st now fetched
  proof (rule reaches_data_get [where g = "\<lambda>c d. get_candles ?sym ''1h'' (Some (sb_warmup_start_time_ms st)) None c"])
    fix c d
    show "reaches (on_data (\<lambda>c' d'. (tracks env config mkt filters c' d' \<and> sd_bootstrap d' = Some st) \<and> c' = c \<and> d' = d)) ?I
      (process_candles env config st now fetched (get_candles ?sym ''1h'' (Some (sb_warmup_start_time_ms st)) None c))"
    proof (cases "tracks env config mkt filters c d \<and> sd_bootstrap d = Some st")
      case False
      then show ?thesis by (auto intro!: reachesI simp: on_data_def)
    next
      case True
      then obtain n where n: "get_candles ?sym ''1h'' None None c = map mkt [0 ..< n]" "bootstrapped st"
        unfolding tracks_def by (metis (no_types, lifting) option.case(2))
      then have all: "get_candles ?sym ''1h'' (Some (sb_warmup_start_time_ms st)) None c = map mkt [0 ..< n]"
        using get_candles_market [OF world(1) n(1)] by (simp add: bootstrapped_def)
      show ?thesis unfolding all
        by (rule reaches_pre [OF process_reaches [OF world hour _ _ n(1)]]) (use True in \<open>auto simp: on_data_def\<close>)
    qed
  qed
  have fetch: "reaches (?B st) ?I (sbind (fetch_new_candles env config) (\<lambda>new_candles.
      sbind (sget (\<lambda>s. get_candles ?sym ''1h'' (Some (sb_warmup_start_time_ms st)) None (sw_candles s)))
      (\<lambda>all_candles. process_candles env config st now (int (length new_candles)) all_candles)))" for st now
    by (rule reaches_bind [OF fetch_new_keeps [OF world hour] process]) (simp add: on_data_def)
  have locked: "reaches (on_data (\<lambda>c' d'. tracks env config mkt filters c' d' \<and> c' = c \<and> d' = d)) ?I
      (sbind (slift (verify_bootstrap_complete config c d)) (\<lambda>verification.
       if \<not> bv_ok verification
       then sreturn (idle_result (if bv_state verification = None then ''NOT_BOOTSTRAPPED'' else ''BOOTSTRAP_INVALID'')
         (bv_reason verification) 0 None multitimeframe_min_required_candles)
       else sbind (slift (of_option AssertionError (bv_state verification))) (\<lambda>st.
         sbind (fetch_new_candles env config) (\<lambda>new_candles.
         sbind (sget (\<lambda>s. get_candles ?sym ''1h'' (Some (sb_warmup_start_time_ms st)) None (sw_candles s))) (\<lambda>all_candles.
         process_candles env config st now (int (length new_candles)) all_candles)))))" for c d now
  proof (intro reaches_bind [OF preserves_basic(3)] reaches_if)
    fix v st
    assume "possible (on_data (\<lambda>c' d'. tracks env config mkt filters c' d' \<and> c' = c \<and> d' = d)) (slift (verify_bootstrap_complete config c d)) v"
      and "possible (on_data (\<lambda>c' d'. tracks env config mkt filters c' d' \<and> c' = c \<and> d' = d)) (slift (of_option AssertionError (bv_state v))) st"
    then have "sd_bootstrap d = Some st" by (auto dest!: possibleD intro: verification_state)
    then show "reaches (on_data (\<lambda>c' d'. tracks env config mkt filters c' d' \<and> c' = c \<and> d' = d)) ?I
      (sbind (fetch_new_candles env config) (\<lambda>new_candles.
         sbind (sget (\<lambda>s. get_candles ?sym ''1h'' (Some (sb_warmup_start_time_ms st)) None (sw_candles s))) (\<lambda>all_candles.
         process_candles env config st now (int (length new_candles)) all_candles)))"
      by (intro reaches_pre [OF fetch]) (auto simp: on_data_def)
  qed (auto intro!: reaches_weaker stepI simp: on_data_def)
  have "reaches ?I ?I (run_shadow_cycle_locked env config)"
    unfolding run_shadow_cycle_locked_def hour
    by (rule reaches_bind [OF on_ext_keeps])
      (rule reaches_data_get [where g = "\<lambda>c d. verify_bootstrap_complete config c d"], rule locked, assumption)
  then show ?thesis by (auto simp: reaches_def preserves_def)
qed

lemma cycle_keeps:
  assumes world: "hourly_market (cfg_symbol (cfg_market config)) mkt" "faithful_exchange env config mkt filters"
  shows "preserves (on_data (tracks env config mkt filters)) (run_shadow_cycle env config)"
proof (cases "assert_valid_shadow_config config = Inr ()")
  case True
  then have "cfg_interval (cfg_market config) = ''1h''"
    by (simp add: assert_valid_shadow_config_def REQUIRED_SHADOW_INTERVAL_def split: if_splits)
  then show ?thesis unfolding run_shadow_cycle_def by (intro stepI with_lock_keeps cycle_locked_keeps [OF world])
next
  case False
  then obtain e where "assert_valid_shadow_config config = Inl e" by (cases "assert_valid_shadow_config config") auto
  then show ?thesis by (intro preservesI) (simp add: run_shadow_cycle_def sbind_def)
qed

section \<open>The warm-up\<close>

lemma warmup_is_market:
  assumes "hourly_market symbol mkt" "warmup_refusal ''1h'' n (SHADOW_START_BOUNDARY_MS - SHADOW_WARMUP_CANDLES * HOUR_MS) l cs = Inr None"
    and "\<And>c. c \<in> set cs \<Longrightarrow> c \<in> range mkt"
  shows "cs = map mkt [0 ..< nat n]"
proof -
  obtain seg where seg: "partition_into_segments cs ''1h'' = Inr seg" "gaps seg = []" "int (length cs) = n"
    "open_time_ms (hd cs) = SHADOW_START_BOUNDARY_MS - SHADOW_WARMUP_CANDLES * HOUR_MS" "cs \<noteq> []"
    using assms(2) by (auto simp: warmup_refusal_def split: if_splits)
  obtain w where w: "concat (segments seg) = cs" "length (segments seg) = 1" "interval_to_ms ''1h'' = Inr w"
    "\<forall>s\<in>set (segments seg). contiguous w s"
    using partition_into_segments_spec [OF seg(1)] seg(2) by auto
  then have "segments seg = [cs]" by (cases "segments seg") auto
  then have c: "contiguous 3600000 cs" using w(3,4) by (simp add: interval_to_ms_def INTERVAL_MS_def)
  have "cs ! i = mkt i" if "i < length cs" for i
    using that
  proof (induction i)
    case 0
    obtain j where j: "cs ! 0 = mkt j" using assms(3) [of "cs ! 0"] 0 by auto
    then show ?case using seg(4,5) market_at(3) [OF assms(1), of j] by (simp add: hd_conv_nth warmup_values shadow_times)
  next
    case (Suc i)
    obtain j where j: "cs ! Suc i = mkt j" using assms(3) [of "cs ! Suc i"] Suc.prems by auto
    have "open_time_ms (mkt j) = open_time_ms (mkt i) + 3600000" using c [unfolded contiguous_def, rule_format, OF Suc.prems] Suc.IH Suc.prems j by simp
    then have "j = Suc i" by (simp add: market_at(3) [OF assms(1)])
    with j show ?case by simp
  qed
  then show ?thesis using seg(3) by (auto intro: nth_equalityI)
qed

lemma record_bootstrap_outcome:
  assumes "record_bootstrap_atomically cs st db = (r, db')"
  shows "db' = db \<or> db' = insert_bootstrap_state st (insert_warmup (map (warmup_row_of (sb_bootstrapped_at_ms st) (sb_source st)) cs) db)"
  using assms
  by (auto simp: record_bootstrap_atomically_def atomically_def sbind_def shadow_fault_def split: prod.splits sum.splits if_splits)

lemma warmup_state_values:
  "sb_warmup_candle_count (warmup_state step now) = SHADOW_WARMUP_CANDLES"
  "sb_warmup_start_time_ms (warmup_state step now) = SHADOW_START_BOUNDARY_MS - SHADOW_WARMUP_CANDLES * step"
  "sb_warmup_last_open_time_ms (warmup_state step now) = SHADOW_START_BOUNDARY_MS - step"
  "sb_effective_min_required_candles (warmup_state step now) = SHADOW_REQUIRED_CANDLES"
  by (simp_all add: warmup_state_def SHADOW_WARMUP_CANDLES_def SHADOW_REQUIRED_CANDLES_def Let_def)

lemma bootstrap_fetched_keeps:
  assumes mkt: "hourly_market (cfg_symbol (cfg_market config)) mkt" and cs: "\<And>c. c \<in> set cs \<Longrightarrow> c \<in> range mkt"
    and st: "st = warmup_state HOUR_MS 0"
  shows "reaches (on_data (\<lambda>c d. tracks env' config mkt filters c d \<and> sd_bootstrap d = None)) (on_data (tracks env' config mkt filters))
    (bootstrap_fetched env ''1h'' st cs)"
proof -
  let ?sym = "cfg_symbol (cfg_market config)" and ?n = "nat SHADOW_WARMUP_CANDLES"
  let ?I = "on_data (\<lambda>c d. tracks env' config mkt filters c d \<and> sd_bootstrap d = None)"
  let ?K = "on_data (\<lambda>c d. (tracks env' config mkt filters c d \<and> sd_bootstrap d = None) \<and> get_candles ?sym ''1h'' None None c = map mkt [0 ..< ?n])"
  have up: "(?I t) \<and> (x = Inr () \<longrightarrow> ?K t)"
    if "?I s" "on_candles (upsert_candles (se_statement_fails env) cs) s = (x, t)" "cs = map mkt [0 ..< ?n]" for s x t
  proof -
    have I: "tracks env' config mkt filters (sw_candles s) (sw_db s)" "sd_bootstrap (sw_db s) = None" using that(1) by (simp_all add: on_data_def)
    then obtain n where n: "db_ok (sw_candles s)" "get_candles ?sym ''1h'' None None (sw_candles s) = map mkt [0 ..< n]"
      "nothing_recorded (sw_db s)" "n = 0 \<or> int n = SHADOW_WARMUP_CANDLES"
      unfolding tracks_def I(2) option.case by blast
    let ?c = "upsert_candle_rows cs (sw_candles s)"
    have "get_candles ?sym ''1h'' None None ?c = map mkt [0 ..< ?n]"
      using n(4)
    proof
      assume "n = 0"
      then show ?thesis using upsert_market [OF mkt n(1,2), of ?n] by (simp add: that(3))
    next
      assume "int n = SHADOW_WARMUP_CANDLES"
      then have "n = ?n" by simp
      then show ?thesis using upsert_market_again [OF mkt n(1), of ?n] n(2) by (simp add: that(3))
    qed
    moreover from this have "tracks env' config mkt filters ?c (sw_db s)" unfolding tracks_def I(2) option.case
      using n(3) db_ok_upsert [OF n(1)] by (intro conjI exI [of _ ?n]) (auto simp: warmup_values)
    moreover have "(x = Inr () \<and> t = s\<lparr>sw_candles := ?c\<rparr>) \<or> (x \<noteq> Inr () \<and> t = s)"
      using that(2) by (auto simp: on_candles_def szoom_def upsert_candles_def atomically_def db_statement_def split: if_splits)
    ultimately show ?thesis using I by (auto simp: on_data_def)
  qed
  have boot: "on_data (tracks env' config mkt filters) t"
    if "?K s" "on_shadow_db (record_bootstrap_atomically cs (st\<lparr>sb_bootstrapped_at_ms := now\<rparr>)) s = (x, t)" for s x t now
  proof -
    note h = that
    obtain d where d: "t = s\<lparr>sw_db := d\<rparr>" "record_bootstrap_atomically cs (st\<lparr>sb_bootstrapped_at_ms := now\<rparr>) (sw_db s) = (x, d)"
      using h(2) by (auto simp: on_shadow_db_def szoom_def split: prod.splits)
    have I: "tracks env' config mkt filters (sw_candles s) (sw_db s)" "sd_bootstrap (sw_db s) = None"
      "get_candles ?sym ''1h'' None None (sw_candles s) = map mkt [0 ..< ?n]" using h(1) by (simp_all add: on_data_def)
    from record_bootstrap_outcome [OF d(2)] show ?thesis
    proof
      assume "d = sw_db s"
      then show ?thesis using I(1) d(1) by (simp add: on_data_def)
    next
      let ?st = "st\<lparr>sb_bootstrapped_at_ms := now\<rparr>"
      assume e: "d = insert_bootstrap_state ?st (insert_warmup (map (warmup_row_of (sb_bootstrapped_at_ms ?st) (sb_source ?st)) cs) (sw_db s))"
      then have b: "sd_bootstrap d = Some ?st" by (simp add: insert_bootstrap_state_def insert_warmup_def I(2))
      have "nothing_recorded (sw_db s)" "db_ok (sw_candles s)" using I(1) unfolding tracks_def I(2) option.case by blast+
      then have "nothing_recorded d" by (simp add: e insert_bootstrap_state_def insert_warmup_def I(2) nothing_recorded_def get_run_state_def)
      then have "replayed env' config mkt filters ?n d" by (simp add: replayed_def)
      moreover have "bootstrapped ?st" using warmup_state_values [of HOUR_MS 0] by (simp add: bootstrapped_def st)
      ultimately have "tracks env' config mkt filters (sw_candles s) d" unfolding tracks_def b option.case
        using I(3) \<open>db_ok (sw_candles s)\<close> by (intro conjI exI [of _ ?n]) (simp_all add: warmup_values)
      then show ?thesis by (simp add: d(1) on_data_def)
    qed
  qed
  have weak: "on_data (tracks env' config mkt filters) s" if "?I s" for s using that by (simp add: on_data_def)
  have weak': "on_data (tracks env' config mkt filters) s" if "?K s" for s using that by (simp add: on_data_def)
  have last: "reaches ?K (on_data (tracks env' config mkt filters))
    (sbind (on_ext (se_clock_ms env)) (\<lambda>now_ms.
         sbind (on_shadow_db (record_bootstrap_atomically cs (st\<lparr>sb_bootstrapped_at_ms := now_ms\<rparr>))) (\<lambda>_.
         sreturn (bootstrap_answer ''OK'' st))))"
    by (rule reaches_bind [OF on_ext_keeps reaches_step weak'], erule (1) boot, rule preserves_basic, rule weak')
  show ?thesis
    unfolding bootstrap_fetched_def
  proof (rule reaches_bind [OF preserves_basic(3) reaches_option weak])
    show "reaches ?I (on_data (tracks env' config mkt filters)) (sreturn (refused x (sb_effective_min_required_candles st)))" for x
      by (rule reaches_weaker [OF preserves_basic(1) weak])
    fix refusal
    assume "possible ?I (slift (warmup_refusal ''1h'' (sb_warmup_candle_count st) (sb_warmup_start_time_ms st) (sb_warmup_last_open_time_ms st) cs)) refusal"
      and "refusal = None"
    then have "warmup_refusal ''1h'' SHADOW_WARMUP_CANDLES (SHADOW_START_BOUNDARY_MS - SHADOW_WARMUP_CANDLES * HOUR_MS)
      (SHADOW_START_BOUNDARY_MS - HOUR_MS) cs = Inr None" by (auto simp: st warmup_state_values dest: possibleD)
    then have c: "cs = map mkt [0 ..< ?n]" by (rule warmup_is_market [OF mkt _ cs])
    show "reaches ?I (on_data (tracks env' config mkt filters))
      (sbind (on_candles (upsert_candles (se_statement_fails env) cs)) (\<lambda>_.
         sbind (on_ext (se_clock_ms env)) (\<lambda>now_ms.
         sbind (on_shadow_db (record_bootstrap_atomically cs (st\<lparr>sb_bootstrapped_at_ms := now_ms\<rparr>))) (\<lambda>_.
         sreturn (bootstrap_answer ''OK'' st)))))"
    proof (rule reachesI)
      fix s r t
      assume I: "?I s" and run: "sbind (on_candles (upsert_candles (se_statement_fails env) cs)) (\<lambda>_.
         sbind (on_ext (se_clock_ms env)) (\<lambda>now_ms.
         sbind (on_shadow_db (record_bootstrap_atomically cs (st\<lparr>sb_bootstrapped_at_ms := now_ms\<rparr>))) (\<lambda>_.
         sreturn (bootstrap_answer ''OK'' st)))) s = (r, t)"
      from run show "on_data (tracks env' config mkt filters) t"
      proof (cases rule: sbind_cases)
        case (1 e)
        then show ?thesis using up [OF I _ c] weak by blast
      next
        case (2 x u)
        then have "?K u" using up [OF I _ c] by (cases x) auto
        then show ?thesis using reachesD [OF last] 2(2) by blast
      qed
    qed (rule weak)
  qed
qed

lemma bootstrap_keeps:
  assumes world: "hourly_market (cfg_symbol (cfg_market config)) mkt" "faithful_exchange env config mkt filters"
  shows "preserves (on_data (tracks env config mkt filters)) (run_shadow_bootstrap env config)"
proof (cases "assert_valid_shadow_config config = Inr ()")
  case False
  then obtain e where "assert_valid_shadow_config config = Inl e" by (cases "assert_valid_shadow_config config") auto
  then show ?thesis by (intro preservesI) (simp add: run_shadow_bootstrap_def sbind_def)
next
  case True
  then have hour: "cfg_interval (cfg_market config) = ''1h''"
    by (simp add: assert_valid_shadow_config_def REQUIRED_SHADOW_INTERVAL_def split: if_splits)
  let ?I = "on_data (tracks env config mkt filters)"
  let ?m = "fetch_historical_range (range_fuel HOUR_MS (sb_warmup_start_time_ms (warmup_state HOUR_MS 0)) SHADOW_START_BOUNDARY_MS)
           (se_history env) (warmup_plan (cfg_symbol (cfg_market config)) ''1h'') (sb_warmup_start_time_ms (warmup_state HOUR_MS 0)) (Some SHADOW_START_BOUNDARY_MS)"
  have step: "interval_to_ms ''1h'' = Inr HOUR_MS" by code_simp
  have hist: "answers (se_history env) (\<lambda>c. c \<in> range mkt)" using world(2) by (simp add: faithful_exchange_def)
  have own: "\<forall>c \<in> set (fr_candles x). c \<in> range mkt" if "possible I (on_ext ?m) x" for x and I :: "('a, shadow_message) shadow \<Rightarrow> bool"
    using possible_ext [OF that] yieldsD [OF fetch_range_yields [OF hist]] unfolding range_ok_def by blast
  have none: "reaches (on_data (\<lambda>c d. tracks env config mkt filters c d \<and> sd_bootstrap d = None)) ?I
      (sbind (on_ext ?m) (\<lambda>fetched. bootstrap_fetched env ''1h'' (warmup_state HOUR_MS 0) (fr_candles fetched)))"
    by (rule reaches_bind [OF on_ext_keeps bootstrap_fetched_keeps [OF world(1) _ refl]]) (use own in \<open>blast, simp add: on_data_def\<close>)
  have "reaches ?I ?I (run_shadow_bootstrap env config)"
    unfolding run_shadow_bootstrap_def Let_def hour
  proof (rule reaches_bind [OF preserves_basic(3)], rule reaches_bind [OF preserves_basic(3)],
      rule reaches_data_get [where g = "\<lambda>c d. get_bootstrap_state d"], rule reaches_option)
    fix step_ms c and d :: "shadow_message shadow_db"
    assume "possible ?I (slift (interval_to_ms ''1h'')) step_ms" and "get_bootstrap_state d = None"
    then show "reaches (on_data (\<lambda>c' d'. tracks env config mkt filters c' d' \<and> c' = c \<and> d' = d)) ?I
      (sbind (on_ext (fetch_historical_range (range_fuel step_ms (sb_warmup_start_time_ms (warmup_state step_ms 0)) SHADOW_START_BOUNDARY_MS)
           (se_history env) (warmup_plan (cfg_symbol (cfg_market config)) ''1h'') (sb_warmup_start_time_ms (warmup_state step_ms 0)) (Some SHADOW_START_BOUNDARY_MS))) (\<lambda>fetched.
         bootstrap_fetched env ''1h'' (warmup_state step_ms 0) (fr_candles fetched)))"
      by (auto dest!: possibleD simp: step get_bootstrap_state_def on_data_def intro!: reaches_pre [OF none])
  qed (auto intro!: reaches_weaker stepI simp: on_data_def)
  then show ?thesis by (auto simp: reaches_def preserves_def)
qed

section \<open>A recorded warm-up is there\<close>

lemma get_candles_within:
  "get_candles s i (Some a) (Some b) db = filter (\<lambda>c. a \<le> open_time_ms c \<and> open_time_ms c \<le> b) (get_candles s i None None db)"
  unfolding get_candles_def filter_sort filter_map filter_filter
  by (rule arg_cong [where f = "sort_key open_time_ms"], rule arg_cong [where f = "map _"], rule filter_cong) auto

lemma tracks_verified:
  assumes mkt: "hourly_market (cfg_symbol (cfg_market config)) mkt" and hour: "cfg_interval (cfg_market config) = ''1h''"
    and I: "tracks env config mkt filters c db" "sd_bootstrap db = Some st"
  shows "\<exists>v. verify_bootstrap_complete config c db = Inr v \<and> bv_ok v \<and> bv_state v = Some st"
proof -
  let ?n = "nat SHADOW_WARMUP_CANDLES"
  obtain n where n: "get_candles (cfg_symbol (cfg_market config)) ''1h'' None None c = map mkt [0 ..< n]"
    "bootstrapped st" "?n \<le> n" using I unfolding tracks_def I(2) option.case by (auto simp: nat_le_iff)
  have split: "[0 ..< n] = [0 ..< ?n] @ [?n ..< n]" using upt_add_eq_append [of 0 ?n "n - ?n"] n(3) by simp
  have got: "get_candles (cfg_symbol (cfg_market config)) ''1h'' (Some (sb_warmup_start_time_ms st)) (Some (sb_warmup_last_open_time_ms st)) c
      = map mkt [0 ..< ?n]"
    unfolding get_candles_within n(1) split map_append filter_append using n(2)
    by (simp add: filter_id_conv filter_empty_conv bootstrapped_def market_at [OF mkt] warmup_values shadow_times)
  have part: "partition_into_segments (map mkt [0 ..< ?n]) ''1h'' = Inr \<lparr>segments = [map mkt [0 ..< ?n]], gaps = []\<rparr>"
    by (rule market_partition [OF mkt]) (simp add: warmup_values)
  have ends: "nth_res (map mkt [0 ..< ?n]) 0 = Inr (mkt 0)" "nth_res (map mkt [0 ..< ?n]) (- 1) = Inr (mkt (?n - 1))"
    by (simp_all add: nth_res_def warmup_values)
  show ?thesis
    unfolding verify_bootstrap_complete_def get_bootstrap_state_def I(2) option.case hour got Let_def ends part bindr_simps
    using n(2) by (simp add: bootstrapped_def market_at [OF mkt] warmup_values shadow_times)
qed

section \<open>What a successful cycle leaves\<close>

definition full_record ::
  "('w, shadow_message) shadow_env \<Rightarrow> app_config \<Rightarrow> (nat \<Rightarrow> candle) \<Rightarrow> symbol_filters \<Rightarrow> candle_db \<Rightarrow> 'm shadow_db \<Rightarrow> bool" where
  "full_record env config mkt filters c db \<longleftrightarrow>
     (\<exists>n r j. 0 < n \<and> get_candles (cfg_symbol (cfg_market config)) ''1h'' None None c = map mkt [0 ..< n] \<and>
        backtest_of env config filters (map mkt [0 ..< n]) = Inr (r, Some j) \<and> recorded r j db)"

lemma full_record_closed: "record_closed (full_record env config mkt filters)"
proof -
  have "recorded r j db' = recorded r j db" if "same_record db db'" for r j and db db' :: "'m shadow_db"
    using that by (simp add: recorded_def same_record_def)
  then show ?thesis unfolding record_closed_def full_record_def by blast
qed

lemma evaluate_ok:
  assumes world: "hourly_market (cfg_symbol (cfg_market config)) mkt" "faithful_exchange env config mkt filters"
    and I: "tracks env config mkt filters (sw_candles s) (sw_db s)" "sd_bootstrap (sw_db s) = Some st"
    and cs: "get_candles (cfg_symbol (cfg_market config)) ''1h'' None None (sw_candles s) = map mkt [0 ..< n]" "0 < n"
    and run: "evaluate_segment env config now fetched SHADOW_REQUIRED_CANDLES (map mkt [0 ..< n]) s = (Inr res, u)"
  shows "on_data (full_record env config mkt filters) u"
proof -
  let ?w = "\<lambda>d r j. segment_write config filters now (map mkt [0 ..< n]) (dec_of_float (cfg_starting_equity (cfg_backtest config))) d r
      (case j of None \<Rightarrow> [] | Some es \<Rightarrow> es)"
  obtain info w fs r j x v y t where 1: "se_exchange_info env (cfg_symbol (cfg_market config)) (sw_ext s) = (Inr info, w)"
    "from_exchange_info info = Inr fs" "run_segment (map mkt [0 ..< n]) config fs (multitimeframe_signal (se_pandas env)) (cfg_risk config)
      (mk_broker (cfg_fees config)) (Some []) SHADOW_REQUIRED_CANDLES (dec_of_float (cfg_starting_equity (cfg_backtest config))) True = Inr (r, j)"
    "on_shadow_db (record_cycle_atomically (segment_write config fs now (map mkt [0 ..< n])
      (dec_of_float (cfg_starting_equity (cfg_backtest config))) (sw_db s) r (case j of None \<Rightarrow> [] | Some es \<Rightarrow> es))) (s\<lparr>sw_ext := w\<rparr>) = (Inr x, v)"
    "after_cycle env config v = (Inr y, t)" "u = t"
    using run unfolding evaluate_segment_def Let_def
    by (auto simp: sbind_eq_Inr on_ext_def szoom_def split: prod.splits)
  have f: "fs = filters" using 1(1,2) world(2) unfolding faithful_exchange_def by auto
  have bt: "backtest_of env config filters (map mkt [0 ..< n]) = Inr (r, j)" using 1(3) by (simp add: backtest_of_def f)
  obtain es where es: "j = Some es" "recorded r es (committed (?w (sw_db s) r j) (sw_db s))"
    by (rule committed_recorded [OF world(1) I cs bt]) auto
  have "v = s\<lparr>sw_ext := w, sw_db := committed (?w (sw_db s) r j) (sw_db s)\<rparr>"
    using 1(4) by (auto simp: on_shadow_db_def szoom_def f record_cycle_outcome split: if_splits)
  then have "on_data (full_record env config mkt filters) v"
    using cs bt es by (auto simp: on_data_def full_record_def)
  from preservesD [OF after_cycle_keeps [OF full_record_closed] this 1(5)] show ?thesis unfolding 1(6) .
qed

lemma process_ok:
  assumes world: "hourly_market (cfg_symbol (cfg_market config)) mkt" "faithful_exchange env config mkt filters"
    and hour: "cfg_interval (cfg_market config) = ''1h''"
    and I: "tracks env config mkt filters (sw_candles s) (sw_db s)" "sd_bootstrap (sw_db s) = Some st"
    and cs: "get_candles (cfg_symbol (cfg_market config)) ''1h'' None None (sw_candles s) = map mkt [0 ..< n]"
    and run: "process_candles env config st now fetched (map mkt [0 ..< n]) s = (Inr res, u)" "sc_status res = ''OK''"
  shows "on_data (full_record env config mkt filters) u"
proof -
  have idle: "idle_cycle env config now (idle_result status detail k len req) s \<noteq> (Inr res, u)" if "status \<noteq> ''OK''" for status detail k len req
    using that run(2) by (auto simp: idle_cycle_def sbind_eq_Inr idle_result_def)
  show ?thesis
  proof (cases "n = 0")
    case True
    then show ?thesis using run(1) by (simp add: process_candles_def idle)
  next
    case False
    have st: "bootstrapped st" using I unfolding tracks_def I(2) option.case by blast
    have part: "partition_into_segments (map mkt [0 ..< n]) ''1h'' = Inr \<lparr>segments = [map mkt [0 ..< n]], gaps = []\<rparr>"
      by (rule market_partition [OF world(1)]) (use False in simp)
    have len: "required_length st (mkt 0) = SHADOW_REQUIRED_CANDLES"
      using st by (simp add: required_length_def bootstrapped_def market_at [OF world(1)] warmup_values shadow_times)
    have nth: "nth_res [map mkt [0 ..< n]] (- 1) = Inr (map mkt [0 ..< n])" "nth_res (map mkt [0 ..< n]) 0 = Inr (mkt 0)"
      using False by (simp_all add: nth_res_def)
    have ne: "map mkt [0 ..< n] \<noteq> []" using False by simp
    from run(1) have "evaluate_segment env config now fetched SHADOW_REQUIRED_CANDLES (map mkt [0 ..< n]) s = (Inr res, u)"
      unfolding process_candles_def if_not_P [OF ne] hour
      by (simp add: sbind_def part nth len Let_def idle split: if_splits)
    then show ?thesis using evaluate_ok [OF world I cs] False by blast
  qed
qed

lemma cycle_ok:
  assumes world: "hourly_market (cfg_symbol (cfg_market config)) mkt" "faithful_exchange env config mkt filters"
    and I: "on_data (tracks env config mkt filters) s"
    and run: "run_shadow_cycle env config s = (Inr res, u)" "sc_status res = ''OK''"
  shows "on_data (full_record env config mkt filters) u"
proof -
  let ?s = "s\<lparr>sw_lock_held := True\<rparr>" and ?sym = "cfg_symbol (cfg_market config)"
  have valid: "assert_valid_shadow_config config = Inr ()" using run(1) by (auto simp: run_shadow_cycle_def sbind_eq_Inr)
  then have hour: "cfg_interval (cfg_market config) = ''1h''"
    by (simp add: assert_valid_shadow_config_def REQUIRED_SHADOW_INTERVAL_def split: if_splits)
  obtain t where t: "run_shadow_cycle_locked env config ?s = (Inr res, t)" "u = release_lock t"
    using run valid by (auto simp: run_shadow_cycle_def sbind_eq_Inr idle_result_def with_lock_def acquire_lock_def split: if_splits prod.splits)
  obtain now w v where 1: "se_clock_ms env (sw_ext s) = (Inr now, w)" "verify_bootstrap_complete config (sw_candles s) (sw_db s) = Inr v"
    using t(1) unfolding run_shadow_cycle_locked_def by (auto simp: sbind_eq_Inr on_ext_def szoom_def split: prod.splits)
  have ok: "bv_ok v" using t(1) run(2) 1 unfolding run_shadow_cycle_locked_def
    by (auto simp: sbind_def on_ext_def szoom_def idle_result_def split: if_splits)
  then obtain st new a where 2: "bv_state v = Some st" "fetch_new_candles env config (?s\<lparr>sw_ext := w\<rparr>) = (Inr new, a)"
    "process_candles env config st now (int (length new)) (get_candles ?sym ''1h'' (Some (sb_warmup_start_time_ms st)) None (sw_candles a)) a = (Inr res, t)"
    using t(1) 1 unfolding run_shadow_cycle_locked_def hour
    by (auto simp: sbind_eq_Inr on_ext_def szoom_def split: prod.splits)
  have "on_data (\<lambda>c d. tracks env config mkt filters c d \<and> sd_bootstrap d = Some st) a"
    by (rule preservesD [OF fetch_new_keeps [OF world hour] _ 2(2)])
      (use I verification_state [OF 1(2) 2(1)] in \<open>simp add: on_data_def\<close>)
  then have a: "tracks env config mkt filters (sw_candles a) (sw_db a)" "sd_bootstrap (sw_db a) = Some st" by (simp_all add: on_data_def)
  then obtain n where n: "get_candles ?sym ''1h'' None None (sw_candles a) = map mkt [0 ..< n]" "bootstrapped st"
    unfolding tracks_def by (metis (no_types, lifting) option.case(2))
  then have "get_candles ?sym ''1h'' (Some (sb_warmup_start_time_ms st)) None (sw_candles a) = map mkt [0 ..< n]"
    using get_candles_market [OF world(1) n(1)] by (simp add: bootstrapped_def)
  then have "on_data (full_record env config mkt filters) t" using process_ok [OF world hour a n(1) _ run(2)] 2(3) by simp
  then show ?thesis by (simp add: t(2) release_lock_def on_data_def)
qed

end
