(* ===== verification/Shadow_Example.thy ===== *)
theory Shadow_Example
  imports Shadow_History Quiet_Runs Steady_Market
begin

text \<open>
  A shadow process on a concrete market: a warm-up of 7611 candles on a fresh database, then a
  cycle that downloads the five hours after the boundary and evaluates the segment. Flat
  averages keep the strategy from entering, so that the run of 7616 candles is known without
  being computed.
\<close>

definition shd_mkt :: "nat \<Rightarrow> candle" where
  "shd_mkt = steady_candle (1788652800000 - 7611 * 3600000)"

definition flat_pandas :: pandas where
  "flat_pandas = steady_pandas\<lparr>pd_ewm := (\<lambda>xs p. map (\<lambda>_. Flt 0) xs)\<rparr>"

definition shd_env :: "(unit, shadow_message) shadow_env" where
  "shd_env =
     \<lparr>se_clock_ms = sreturn 0,
      se_klines = (\<lambda>symbol interval start end limit. sreturn (case start of None \<Rightarrow> [] | Some t \<Rightarrow>
        map shd_mkt [nat ((t - open_time_ms (shd_mkt 0)) div 3600000) ..< 7616])),
      se_server_time = sreturn (open_time_ms (shd_mkt 7616)),
      se_history = \<lparr>ca_klines = (\<lambda>q. sreturn (Inr (map shd_mkt [0 ..< 7611]))), ca_server_time = sreturn 0, ca_sleep = (\<lambda>d. sreturn ())\<rparr>,
      se_exchange_info = (\<lambda>symbol. sreturn [\<lparr>si_symbol = Some symbol, si_filters = Some []\<rparr>]),
      se_telegram_secrets = sreturn None, se_telegram_post = (\<lambda>token chat m. sreturn (Read_Timeout [])), se_sleep = (\<lambda>d. sreturn ()),
      se_melbourne_now = sreturn (0, []), se_pandas = flat_pandas, se_pow = (\<lambda>x y. Inr x), se_statement_fails = (\<lambda>k. False)\<rparr>"

definition shd_config :: app_config where
  "shd_config = (default_config SHADOW)\<lparr>cfg_market := \<lparr>cfg_symbol = ''BTCUSDT'', cfg_interval = ''1h''\<rparr>\<rparr>"

definition shd_filters :: symbol_filters where
  "shd_filters = (case from_exchange_info [\<lparr>si_symbol = Some ''BTCUSDT'', si_filters = Some []\<rparr>] of Inr f \<Rightarrow> f)"

definition empty_db :: "shadow_message shadow_db" where
  "empty_db =
     \<lparr>sd_run_state = None, sd_trades = [], sd_equity = [], sd_journal = [], sd_bootstrap = None, sd_warmup = [],
      sd_outbox = [], sd_last_daily_summary = None, sd_raise_fault_at = None\<rparr>"

definition shd_start :: "(unit, shadow_message) shadow" where
  "shd_start =
     \<lparr>sw_ext = (), sw_candles = \<lparr>cd_candles = [], cd_gaps = []\<rparr>, sw_db = empty_db, sw_kill_file = None,
      sw_notify_file = None, sw_lock_held = False\<rparr>"

lemmas shd_env_sel = shd_env_def [THEN arg_cong, of se_clock_ms, simplified]
  shd_env_def [THEN arg_cong, of se_klines, simplified] shd_env_def [THEN arg_cong, of se_server_time, simplified]
  shd_env_def [THEN arg_cong, of se_history, simplified] shd_env_def [THEN arg_cong, of se_exchange_info, simplified]
  shd_env_def [THEN arg_cong, of se_melbourne_now, simplified] shd_env_def [THEN arg_cong, of se_pandas, simplified]
  shd_env_def [THEN arg_cong, of se_statement_fails, simplified]

lemma shd_config_sel [simp]:
  "cfg_symbol (cfg_market shd_config) = ''BTCUSDT''" "cfg_interval (cfg_market shd_config) = ''1h''"
  "tg_enabled (cfg_telegram shd_config) = False" "assert_valid_shadow_config shd_config = Inr ()"
  by (simp_all add: shd_config_def default_config_def assert_valid_shadow_config_def REQUIRED_SHADOW_INTERVAL_def)

lemma shd_market: "hourly_market ''BTCUSDT'' shd_mkt"
  by (simp add: hourly_market_def shd_mkt_def steady_candle_def warmup_values shadow_times algebra_simps)

lemma shd_info: "from_exchange_info [\<lparr>si_symbol = Some ''BTCUSDT'', si_filters = Some []\<rparr>] = Inr shd_filters"
  by code_simp

lemma shd_faithful: "faithful_exchange shd_env shd_config shd_mkt shd_filters"
proof -
  have "filter (\<lambda>c. close_time_ms c < open_time_ms (shd_mkt 7616)) (map shd_mkt [n ..< 7616]) = map shd_mkt [n ..< 7616]" for n
    by (auto simp: filter_id_conv market_at [OF shd_market])
  moreover have "(open_time_ms (shd_mkt n) - open_time_ms (shd_mkt 0)) div 3600000 = int n" for n
    by (simp add: market_at [OF shd_market])
  moreover have "answers (se_history shd_env) (\<lambda>c. c \<in> range shd_mkt)"
    by (auto simp: answers_def yields_def shd_env_sel)
  ultimately show ?thesis by (auto simp: faithful_exchange_def shd_env_sel shd_info)
qed

text \<open>Flat averages: the weekly filter is never bullish.\<close>

lemma flat_holds:
  assumes "multitimeframe_min_required_candles \<le> int (length cs)"
  shows "\<exists>sig. multitimeframe_signal flat_pandas cs FLAT = Inr sig \<and> sg_type sig = HOLD"
proof -
  have "0 < multitimeframe_min_required_candles" by code_simp
  then have ne: "cs \<noteq> []" using assms by auto
  have flat: "ema (pd_ewm flat_pandas) xs WEEKLY_EMA_PERIOD = Inr (map (\<lambda>_. Flt 0) xs)" for xs
    by (simp add: ema_def flat_pandas_def WEEKLY_EMA_PERIOD_def)
  let ?w = "aggregate_completed_buckets cs WEEK_HOURS weekly_bucket_start_ms"
  have nth: "nth_res xs i = Inr (xs ! nat i)" if "0 \<le> i" "i < int (length xs)" for i and xs :: "flt list"
    using that by (simp add: nth_res_def)
  have "weekly_filter_bullish flat_pandas cs = Inr False"
  proof (cases "int (length ?w) < WEEKLY_EMA_PERIOD + WEEKLY_EMA_SLOPE_LOOKBACK_CANDLES")
    case False
    then have n: "44 \<le> length ?w" "?w \<noteq> []" by (auto simp: WEEKLY_EMA_PERIOD_def WEEKLY_EMA_SLOPE_LOOKBACK_CANDLES_def)
    have at: "nth_res xs (int (length ?w) - 1) = Inr (xs ! nat (int (length ?w) - 1))"
      "nth_res xs (int (length ?w) - 1 - 4) = Inr (xs ! nat (int (length ?w) - 1 - 4))" if "length xs = length ?w" for xs :: "flt list"
      using nth [of "int (length ?w) - 1" xs] nth [of "int (length ?w) - 1 - 4" xs] n that by simp_all
    have i: "nat (int (length ?w) - 1) < length ?w" "nat (int (length ?w) - 1 - 4) < length ?w"
      using n by (simp_all add: nat_less_iff)
    show ?thesis unfolding weekly_filter_bullish_def Let_def if_not_P [OF False] flat bindr_simps WEEKLY_EMA_SLOPE_LOOKBACK_CANDLES_def
      by (simp only: at length_map closes_of_length bindr_simps nth_map i) simp
  qed (simp add: weekly_filter_bullish_def)
  then show ?thesis using assms ne
    by (simp add: multitimeframe_signal_def multitimeframe_step_def sbind_def slift_def sreturn_def smodify_def Let_def nth_res_last answer_def)
qed

section \<open>The warm-up\<close>

definition shd_warmup :: "candle list" where
  "shd_warmup = map shd_mkt [0 ..< 7611]"

definition shd_state :: shadow_bootstrap_state where
  "shd_state = warmup_state HOUR_MS 0"

definition shd_booted :: "(unit, shadow_message) shadow" where
  "shd_booted = shd_start
     \<lparr>sw_candles := upsert_candle_rows shd_warmup (sw_candles shd_start),
      sw_db := insert_bootstrap_state shd_state (insert_warmup (map (warmup_row_of 0 (sb_source shd_state)) shd_warmup) empty_db)\<rparr>"

lemma shd_warmup_length: "length shd_warmup = 7611"
  by (simp add: shd_warmup_def)

lemma shd_warmup_part: "partition_into_segments shd_warmup ''1h'' = Inr \<lparr>segments = [shd_warmup], gaps = []\<rparr>"
  unfolding shd_warmup_def by (rule market_partition [OF shd_market]) simp

lemma shd_warmup_dedup: "dedup_by_open_time shd_warmup = shd_warmup"
  unfolding shd_warmup_def by (rule dedup_increasing [OF market_open_increasing [OF shd_market]])

lemma shd_warmup_ends: "hd shd_warmup = shd_mkt 0" "last shd_warmup = shd_mkt 7610" "shd_warmup \<noteq> []"
  by (simp_all add: shd_warmup_def hd_map last_map)

lemma shd_before:
  "filter (\<lambda>c. open_time_ms c < SHADOW_START_BOUNDARY_MS) shd_warmup = shd_warmup"
  "filter (\<lambda>c. close_time_ms c < SHADOW_START_BOUNDARY_MS) shd_warmup = shd_warmup"
  "filter (\<lambda>c. open_time_ms c < SHADOW_START_BOUNDARY_MS \<and> close_time_ms c < SHADOW_START_BOUNDARY_MS) shd_warmup = shd_warmup"
  "filter (\<lambda>c. SHADOW_START_BOUNDARY_MS \<le> open_time_ms c) shd_warmup = []"
  by (auto simp: shd_warmup_def filter_id_conv filter_empty_conv market_at [OF shd_market] shadow_times)

lemma fetch_loop_done: "\<not> cursor < fp_end_time_ms pl \<Longrightarrow> fetch_loop fuel api pl step cursor acc w = (Inr acc, w)"
  by (cases fuel) simp_all

lemma shd_fetch:
  "fetch_historical_range (range_fuel HOUR_MS (sb_warmup_start_time_ms shd_state) SHADOW_START_BOUNDARY_MS) (se_history shd_env)
     (warmup_plan ''BTCUSDT'' ''1h'') (sb_warmup_start_time_ms shd_state) (Some SHADOW_START_BOUNDARY_MS) ()
   = (Inr \<lparr>fr_candles = shd_warmup, fr_confirmed_gaps = []\<rparr>, ())"
proof -
  have fuel: "range_fuel HOUR_MS (sb_warmup_start_time_ms shd_state) SHADOW_START_BOUNDARY_MS = Suc 7611"
    by (simp add: range_fuel_def shd_state_def warmup_state_values warmup_values shadow_times)
  have page: "fetch_page_with_retries (se_history shd_env) (warmup_plan ''BTCUSDT'' ''1h'') t () = (Inr shd_warmup, ())" for t
  proof -
    have "fp_max_retries (warmup_plan ''BTCUSDT'' ''1h'') = Suc 4" by (simp add: warmup_plan_def DEFAULT_MAX_RETRIES_def)
    then show ?thesis
      by (simp only: fetch_page_with_retries_def fetch_page_from.simps)
        (simp add: shd_env_sel sbind_def below_exclusive_end_def shd_before shd_warmup_def [symmetric] warmup_plan_def)
  qed
  have start: "sb_warmup_start_time_ms shd_state < SHADOW_START_BOUNDARY_MS"
    by (simp add: shd_state_def warmup_state_values warmup_values shadow_times)
  have plan: "fp_interval (warmup_plan ''BTCUSDT'' ''1h'') = ''1h''" "fp_end_time_ms (warmup_plan ''BTCUSDT'' ''1h'') = SHADOW_START_BOUNDARY_MS"
    "fp_symbol (warmup_plan ''BTCUSDT'' ''1h'') = ''BTCUSDT''" by (simp_all add: warmup_plan_def)
  have last: "open_time_ms (shd_mkt 7610) + HOUR_MS = SHADOW_START_BOUNDARY_MS"
    by (simp add: market_at [OF shd_market] shadow_times)
  have step: "interval_to_ms ''1h'' = Inr HOUR_MS" by code_simp
  have "fetch_loop (Suc 7611) (se_history shd_env) (warmup_plan ''BTCUSDT'' ''1h'') HOUR_MS (sb_warmup_start_time_ms shd_state) [] ()
      = (Inr shd_warmup, ())"
  proof -
    have end_of: "fp_end_time_ms (warmup_plan ''BTCUSDT'' ''1h'') = SHADOW_START_BOUNDARY_MS" "fp_page_limit (warmup_plan ''BTCUSDT'' ''1h'') = 1000"
      by (simp_all add: warmup_plan_def PAGE_LIMIT_def)
    have ends: "fetch_loop 7611 (se_history shd_env) (warmup_plan ''BTCUSDT'' ''1h'') HOUR_MS SHADOW_START_BOUNDARY_MS shd_warmup ()
      = (Inr shd_warmup, ())" by (rule fetch_loop_done) (simp add: end_of)
    show ?thesis
      unfolding fetch_loop.simps(2) end_of if_P [OF start]
      by (simp add: page sbind_def shd_warmup_ends shd_warmup_length last ends del: fetch_loop.simps)
  qed
  then show ?thesis
    unfolding fetch_historical_range_def fuel
    by (simp add: sbind_def step plan below_exclusive_end_def shd_before shd_warmup_dedup shd_warmup_ends
        confirm_gaps_def shd_warmup_part assert_no_candle_at_or_after_def Let_def)
qed

lemma shd_none: "sd_bootstrap (sw_db shd_start) = None" "sw_ext shd_start = ()" "shd_start\<lparr>sw_ext := ()\<rparr> = shd_start"
  by (simp_all add: shd_start_def empty_db_def)

lemma shd_bootstrap: "run_shadow_bootstrap shd_env shd_config shd_start = (Inr (bootstrap_answer ''OK'' shd_state), shd_booted)"
proof -
  have step: "interval_to_ms ''1h'' = Inr HOUR_MS" by code_simp
  have st: "shd_state\<lparr>sb_bootstrapped_at_ms := 0\<rparr> = shd_state" "sb_bootstrapped_at_ms shd_state = 0"
    "sb_warmup_candle_count shd_state = int (length shd_warmup)"
    "sb_warmup_start_time_ms shd_state = open_time_ms (shd_mkt 0)" "sb_warmup_last_open_time_ms shd_state = open_time_ms (shd_mkt 7610)"
    by (simp_all add: shd_state_def warmup_state_def Let_def shd_warmup_length market_at [OF shd_market] shadow_times
        warmup_values [unfolded SHADOW_WARMUP_CANDLES_def])
  have ok: "warmup_refusal ''1h'' (sb_warmup_candle_count shd_state) (sb_warmup_start_time_ms shd_state)
      (sb_warmup_last_open_time_ms shd_state) shd_warmup = Inr None"
    by (simp add: warmup_refusal_def shd_warmup_ends shd_warmup_part st(3-5))
  have "bootstrap_fetched shd_env ''1h'' shd_state shd_warmup shd_start = (Inr (bootstrap_answer ''OK'' shd_state), shd_booted)"
    unfolding bootstrap_fetched_def ok
    by (simp add: sbind_def on_candles_def on_ext_def on_shadow_db_def szoom_def upsert_candles_def atomically_def db_statement_def
        shd_env_sel shd_start_def record_bootstrap_atomically_def shadow_fault_def st(1,2) empty_db_def insert_warmup_def
        insert_bootstrap_state_def shd_booted_def)
  then show ?thesis
    unfolding run_shadow_bootstrap_def Let_def shd_state_def [symmetric] shd_config_sel
    by (simp add: sbind_def step on_ext_def szoom_def shd_state_def [symmetric] shd_fetch get_bootstrap_state_def shd_none)
qed

section \<open>The first cycle\<close>

lemma shd_tracks: "tracks shd_env shd_config shd_mkt shd_filters (sw_candles shd_booted) (sw_db shd_booted)"
proof -
  have "tracks shd_env shd_config shd_mkt shd_filters (sw_candles shd_start) (sw_db shd_start)"
    by (auto simp: tracks_def shd_start_def empty_db_def db_ok_def get_candles_def nothing_recorded_def get_run_state_def run_state_start_def)
  then have "on_data (tracks shd_env shd_config shd_mkt shd_filters) shd_booted"
    using preservesD [OF bootstrap_keeps [where config = shd_config, OF _ shd_faithful] _ shd_bootstrap] shd_market by (simp add: on_data_def)
  then show ?thesis by (simp add: on_data_def)
qed

lemma shd_booted_sel:
  "sd_bootstrap (sw_db shd_booted) = Some shd_state" "sd_run_state (sw_db shd_booted) = None"
  "sd_raise_fault_at (sw_db shd_booted) = None" "sw_kill_file shd_booted = None" "sw_notify_file shd_booted = None"
  "sw_lock_held shd_booted = False" "sw_ext shd_booted = ()"
  by (simp_all add: shd_booted_def insert_bootstrap_state_def insert_warmup_def empty_db_def shd_start_def)

lemma shd_after_cycle:
  assumes "sw_notify_file s = None"
  shows "after_cycle shd_env shd_config s = (Inr (), s\<lparr>sw_ext := ()\<rparr>)"
  using assms
  by (simp add: after_cycle_def flush_pending_notifications_def flush_body_def except_exception_def maybe_send_daily_summary_def
      daily_summary_body_def is_telegram_active_def sbind_def scatch_def on_ext_def szoom_def shd_env_sel flush_skipped_def)

definition shd_hours :: "candle list" where
  "shd_hours = map shd_mkt [0 ..< 7616]"

lemma shd_backtest: "\<exists>r j. backtest_of shd_env shd_config shd_filters shd_hours = Inr (r, j)"
proof -
  have "\<exists>sig. multitimeframe_signal flat_pandas (take k shd_hours) FLAT = Inr sig \<and> sg_type sig = HOLD"
    if "SHADOW_REQUIRED_CANDLES \<le> int k" "k \<le> length shd_hours" for k
  proof (rule flat_holds)
    have "multitimeframe_min_required_candles \<le> SHADOW_REQUIRED_CANDLES" by code_simp
    then show "multitimeframe_min_required_candles \<le> int (length (take k shd_hours))" using that by simp
  qed
  then show ?thesis
    using hold_segment [of SHADOW_REQUIRED_CANDLES shd_hours "multitimeframe_signal flat_pandas" shd_config shd_filters
        "cfg_risk shd_config" "mk_broker (cfg_fees shd_config)" "Some []" "dec_of_float (cfg_starting_equity (cfg_backtest shd_config))" True]
    by (auto simp: backtest_of_def shd_env_sel shd_hours_def warmup_values)
qed

definition shd_new :: "candle list" where
  "shd_new = map shd_mkt [7611 ..< 7616]"

lemma shd_booted_candles:
  "db_ok (sw_candles shd_booted)" "get_candles ''BTCUSDT'' ''1h'' None None (sw_candles shd_booted) = map shd_mkt [0 ..< 7611]"
proof -
  have ok: "db_ok \<lparr>cd_candles = [], cd_gaps = []\<rparr>" by (simp add: db_ok_def)
  have none: "get_candles ''BTCUSDT'' ''1h'' None None \<lparr>cd_candles = [], cd_gaps = []\<rparr> = map shd_mkt [0 ..< 0]"
    by (simp add: get_candles_def)
  show "db_ok (sw_candles shd_booted)" using db_ok_upsert [OF ok] by (simp add: shd_booted_def shd_start_def)
  show "get_candles ''BTCUSDT'' ''1h'' None None (sw_candles shd_booted) = map shd_mkt [0 ..< 7611]"
    using upsert_market [OF shd_market ok none, of 7611] by (simp add: shd_booted_def shd_start_def shd_warmup_def)
qed

lemma shd_fetch_new:
  assumes "sw_candles s = sw_candles shd_booted"
  shows "fetch_new_candles shd_env shd_config s = (Inr shd_new, s\<lparr>sw_candles := upsert_candle_rows shd_new (sw_candles shd_booted)\<rparr>)"
proof -
  have start: "fetch_start (latest_close_time_ms ''BTCUSDT'' ''1h'' (sw_candles shd_booted)) = open_time_ms (shd_mkt 7611)"
    unfolding latest_close_market [OF shd_market shd_booted_candles(2)]
    by (simp add: fetch_start_def market_at [OF shd_market] shadow_times)
  have "nat ((open_time_ms (shd_mkt 7611) - open_time_ms (shd_mkt 0)) div 3600000) = 7611" by (simp add: market_at [OF shd_market])
  moreover have "filter (\<lambda>c. close_time_ms c < open_time_ms (shd_mkt 7616)) shd_new = shd_new"
    "filter (\<lambda>c. SHADOW_START_BOUNDARY_MS \<le> open_time_ms c) shd_new = shd_new"
    "filter (\<lambda>c. close_time_ms c < open_time_ms (shd_mkt 7616) \<and> SHADOW_START_BOUNDARY_MS \<le> open_time_ms c) shd_new = shd_new"
    "filter (\<lambda>c. open_time_ms c < SHADOW_START_BOUNDARY_MS) shd_new = []"
    by (auto simp: shd_new_def filter_id_conv filter_empty_conv market_at [OF shd_market] shadow_times simp del: upt_conv_Cons_Cons upt_rec_numeral)
  moreover have "shd_new \<noteq> []" by (simp add: shd_new_def)
  ultimately show ?thesis
    unfolding fetch_new_candles_def Let_def
    by (simp add: sbind_def on_ext_def on_candles_def szoom_def fetch_completed_candles_def shd_env_sel assms start
        shd_new_def [symmetric] filter_from_boundary_def assert_no_pre_boundary_candles_def upsert_candles_def
        atomically_def db_statement_def del: upt_rec_numeral)
qed

lemma shd_all_candles:
  "get_candles ''BTCUSDT'' ''1h'' (Some (sb_warmup_start_time_ms shd_state)) None (upsert_candle_rows shd_new (sw_candles shd_booted)) = shd_hours"
proof -
  have "get_candles ''BTCUSDT'' ''1h'' None None (upsert_candle_rows shd_new (sw_candles shd_booted)) = map shd_mkt [0 ..< 7616]"
    unfolding shd_new_def by (rule upsert_market [OF shd_market shd_booted_candles]) simp
  from get_candles_market [OF shd_market this] show ?thesis
    by (simp add: shd_state_def warmup_state_values shd_hours_def del: upt_rec_numeral)
qed

lemma shd_evaluate:
  assumes "sd_raise_fault_at (sw_db s) = None" "sw_notify_file s = None"
  shows "\<exists>res u. evaluate_segment shd_env shd_config now fetched SHADOW_REQUIRED_CANDLES shd_hours s = (Inr res, u) \<and>
    sc_status res = ''OK'' \<and> sw_lock_held u = sw_lock_held s"
proof -
  obtain r j where r: "backtest_of shd_env shd_config shd_filters shd_hours = Inr (r, j)" using shd_backtest by blast
  have rec: "record_cycle_atomically w (sw_db s) = (Inr (), committed w (sw_db s))" for w
    using assms(1) by (auto simp: record_cycle_outcome)
  show ?thesis
    unfolding evaluate_segment_def Let_def
    by (simp add: sbind_def on_ext_def on_shadow_db_def szoom_def shd_env_sel shd_info r [unfolded backtest_of_def shd_env_sel] rec
        shd_after_cycle assms(2))
qed

lemma ext_unit: "s\<lparr>sw_ext := ()\<rparr> = s" for s :: "(unit, 'm) shadow"
  by simp

lemma shd_cycle: "\<exists>res u. run_shadow_cycle shd_env shd_config shd_booted = (Inr res, u) \<and> sc_status res = ''OK''"
proof -
  let ?s = "shd_booted\<lparr>sw_lock_held := True\<rparr>"
  let ?t = "?s\<lparr>sw_candles := upsert_candle_rows shd_new (sw_candles shd_booted)\<rparr>"
  obtain v where v: "verify_bootstrap_complete shd_config (sw_candles shd_booted) (sw_db shd_booted) = Inr v" "bv_ok v" "bv_state v = Some shd_state"
    using tracks_verified [OF _ _ shd_tracks shd_booted_sel(1)] shd_market by auto
  have part: "partition_into_segments shd_hours ''1h'' = Inr \<lparr>segments = [shd_hours], gaps = []\<rparr>"
    unfolding shd_hours_def by (rule market_partition [OF shd_market]) simp
  have hours: "shd_hours \<noteq> []" "length shd_hours = 7616" "nth_res shd_hours 0 = Inr (shd_mkt 0)"
    by (simp_all add: shd_hours_def nth_res_def del: upt_rec_numeral)
  have req: "required_length shd_state (shd_mkt 0) = SHADOW_REQUIRED_CANDLES"
    by (simp add: required_length_def shd_state_def warmup_state_values market_at [OF shd_market] warmup_values shadow_times)
  obtain res u where ev: "evaluate_segment shd_env shd_config 0 (int (length shd_new)) SHADOW_REQUIRED_CANDLES shd_hours ?t = (Inr res, u)"
    "sc_status res = ''OK''" using shd_evaluate [of ?t 0 "int (length shd_new)"]
    by (auto simp: shd_booted_sel) blast?
  have rs: "rs_last_processed_close_time_ms (get_run_state (sw_db shd_booted)) = None"
    by (simp add: get_run_state_def shd_booted_sel run_state_start_def)
  have seg: "nth_res [shd_hours] (- 1) = Inr shd_hours" by (simp add: nth_res_def)
  have "process_candles shd_env shd_config shd_state 0 (int (length shd_new)) shd_hours ?t = (Inr res, u)"
    unfolding process_candles_def if_not_P [OF hours(1)]
    by (simp add: sbind_def rs part hours seg req Let_def ev warmup_values [symmetric] del: shd_config_sel(1))
  then have "run_shadow_cycle_locked shd_env shd_config ?s = (Inr res, u)"
    unfolding run_shadow_cycle_locked_def
    by (simp add: sbind_def on_ext_def szoom_def shd_env_sel v shd_fetch_new shd_all_candles shd_booted_sel ext_unit)
  then show ?thesis using ev(2)
    by (simp add: run_shadow_cycle_def sbind_def shd_booted_sel kill_is_engaged_def with_lock_def acquire_lock_def)
qed

end
