(* ===== verification/Shadow_Properties.thy ===== *)
theory Shadow_Properties
  imports Shadow_Example
begin

text \<open>
  The properties of the shadow mode: its tables are one backtest whatever happens to the
  process, its transactions are atomic and may be repeated, and nothing moves while it is
  blocked.
\<close>

section \<open>Histories\<close>

text \<open>
  What may happen to a process, in any order and any number of times: a cycle, a warm-up, a
  manual retry of a notification, each ending in any way; and between them the outside may
  change everything but the database, that is the flag files, the lock, the state of
  exchange, clock and Telegram, and the fault that the next transaction runs into.
\<close>

inductive shadow_history ::
  "('w, shadow_message) shadow_env \<Rightarrow> app_config \<Rightarrow> ('w, shadow_message) shadow \<Rightarrow> ('w, shadow_message) shadow \<Rightarrow> bool"
  for env config s where
  nothing: "shadow_history env config s s"
| cycle: "shadow_history env config s t \<Longrightarrow> run_shadow_cycle env config t = (r, u) \<Longrightarrow> shadow_history env config s u"
| warm_up: "shadow_history env config s t \<Longrightarrow> run_shadow_bootstrap env config t = (r, u) \<Longrightarrow> shadow_history env config s u"
| retry: "shadow_history env config s t \<Longrightarrow> retry_notification env event_id t = (r, u) \<Longrightarrow> shadow_history env config s u"
| outside: "shadow_history env config s t \<Longrightarrow>
    shadow_history env config s
      \<lparr>sw_ext = w, sw_candles = sw_candles t, sw_db = (sw_db t)\<lparr>sd_raise_fault_at := fault\<rparr>,
       sw_kill_file = kill, sw_notify_file = notify, sw_lock_held = held\<rparr>"

text \<open>A database without candles of the symbol and without any record.\<close>

definition fresh_database :: "app_config \<Rightarrow> ('w, 'm) shadow \<Rightarrow> bool" where
  "fresh_database config s \<longleftrightarrow>
     db_ok (sw_candles s) \<and> get_candles (cfg_symbol (cfg_market config)) ''1h'' None None (sw_candles s) = [] \<and>
     sd_bootstrap (sw_db s) = None \<and> nothing_recorded (sw_db s)"

lemma history_tracks:
  assumes "hourly_market (cfg_symbol (cfg_market config)) mkt" "faithful_exchange env config mkt filters"
    and "fresh_database config s" "shadow_history env config s t"
  shows "on_data (tracks env config mkt filters) t"
  using assms(4)
proof (induction rule: shadow_history.induct)
  case nothing
  then show ?case using assms(3) by (auto simp: fresh_database_def on_data_def tracks_def intro!: exI [of _ 0])
next
  case (cycle t r u)
  then show ?case using preservesD [OF cycle_keeps [OF assms(1,2)]] by blast
next
  case (warm_up t r u)
  then show ?case using preservesD [OF bootstrap_keeps [OF assms(1,2)]] by blast
next
  case (retry t event_id r u)
  then show ?case using preservesD [OF retry_keeps [OF tracks_closed]] by blast
next
  case (outside t w fault kill notify held)
  have "same_record (sw_db t) ((sw_db t)\<lparr>sd_raise_fault_at := fault\<rparr>)" by (simp add: same_record_def get_run_state_def)
  then show ?case using outside.IH tracks_closed [of env config mkt filters] unfolding record_closed_def on_data_def by auto
qed

text \<open>
  C6. On a market of hourly candles that the exchange answers faithfully, after any history of a process
  on a fresh database (cycles, warm-ups and retries, each of which may fail or be interrupted
  anywhere, faults in the middle of transactions, flag files, locks), the stored candles are an
  initial piece of the market, and the shadow tables are either empty or exactly what one
  backtest of an initial piece records: its trades, its equity curve, its journal, each row
  once and in order, and its open position.
\<close>

theorem shadow_store_is_one_backtest:
  assumes "hourly_market (cfg_symbol (cfg_market config)) mkt" "faithful_exchange env config mkt filters"
    and "fresh_database config s" "shadow_history env config s t"
  shows "\<exists>n. get_candles (cfg_symbol (cfg_market config)) ''1h'' None None (sw_candles t) = map mkt [0 ..< n] \<and>
    (nothing_recorded (sw_db t) \<or>
     (\<exists>k r j. 0 < k \<and> k \<le> n \<and> backtest_of env config filters (map mkt [0 ..< k]) = Inr (r, Some j) \<and> recorded r j (sw_db t) \<and>
        rs_last_processed_close_time_ms (get_run_state (sw_db t)) = Some (close_time_ms (mkt (k - 1)))))"
proof -
  have "tracks env config mkt filters (sw_candles t) (sw_db t)"
    using history_tracks [OF assms] by (simp add: on_data_def)
  then show ?thesis by (cases "sd_bootstrap (sw_db t)") (auto simp: tracks_def replayed_def)
qed

text \<open>A history of the demonstration: a warm-up on a fresh database, then a cycle.\<close>

lemma shd_fresh: "fresh_database shd_config shd_start"
  by (auto simp: fresh_database_def shd_start_def empty_db_def db_ok_def get_candles_def nothing_recorded_def get_run_state_def
      run_state_start_def)

lemma shd_history: "shadow_history shd_env shd_config shd_start shd_booted"
  by (rule shadow_history.warm_up [OF shadow_history.nothing shd_bootstrap])

theorem shadow_store_is_one_backtest_witness:
  "\<exists>res u n. run_shadow_cycle shd_env shd_config shd_booted = (Inr res, u) \<and> sc_status res = ''OK'' \<and>
     get_candles ''BTCUSDT'' ''1h'' None None (sw_candles u) = map shd_mkt [0 ..< n] \<and>
     (nothing_recorded (sw_db u) \<or>
      (\<exists>k r j. backtest_of shd_env shd_config shd_filters (map shd_mkt [0 ..< k]) = Inr (r, Some j) \<and> recorded r j (sw_db u)))"
proof -
  obtain res u where u: "run_shadow_cycle shd_env shd_config shd_booted = (Inr res, u)" "sc_status res = ''OK''"
    using shd_cycle by blast
  have "hourly_market (cfg_symbol (cfg_market shd_config)) shd_mkt" by (simp add: shd_market)
  from shadow_store_is_one_backtest [OF this shd_faithful shd_fresh shadow_history.cycle [OF shd_history u(1)]] u
  show ?thesis by fastforce
qed

text \<open>
  C10. A cycle of such a process that reports success has caught up: the tables are then exactly the
  backtest of all the candles that are stored, and no candle waits for a later cycle.
\<close>

theorem successful_cycle_is_complete:
  assumes "hourly_market (cfg_symbol (cfg_market config)) mkt" "faithful_exchange env config mkt filters"
    and "fresh_database config s" "shadow_history env config s t"
    and "run_shadow_cycle env config t = (Inr res, u)" "sc_status res = ''OK''"
  shows "\<exists>n r j. 0 < n \<and> get_candles (cfg_symbol (cfg_market config)) ''1h'' None None (sw_candles u) = map mkt [0 ..< n] \<and>
    backtest_of env config filters (map mkt [0 ..< n]) = Inr (r, Some j) \<and> recorded r j (sw_db u)"
  using cycle_ok [OF assms(1,2) history_tracks [OF assms(1-4)] assms(5,6)] by (simp add: on_data_def full_record_def)

theorem successful_cycle_is_complete_witness:
  "\<exists>u n r j. 0 < n \<and> snd (run_shadow_cycle shd_env shd_config shd_booted) = u \<and>
     get_candles ''BTCUSDT'' ''1h'' None None (sw_candles u) = map shd_mkt [0 ..< n] \<and>
     backtest_of shd_env shd_config shd_filters (map shd_mkt [0 ..< n]) = Inr (r, Some j) \<and> recorded r j (sw_db u)"
proof -
  obtain res u where u: "run_shadow_cycle shd_env shd_config shd_booted = (Inr res, u)" "sc_status res = ''OK''"
    using shd_cycle by blast
  have "hourly_market (cfg_symbol (cfg_market shd_config)) shd_mkt" by (simp add: shd_market)
  from successful_cycle_is_complete [OF this shd_faithful shd_fresh shd_history u] u
  show ?thesis by fastforce
qed

end
