(* ===== verification/Shadow_Outbox.thy ===== *)
theory Shadow_Outbox
  imports Shadow_Example
begin

text \<open>
  The outbox of notifications and the shape of the shadow tables. Whatever a process does and
  whatever the outside answers, the rows stay well formed, no row is lost, and a delivered
  notification is never touched again; a flush over a Telegram that answers leaves nothing
  pending. The theorems are in \<open>Outbox_Properties\<close>.
\<close>

section \<open>Well-formed tables\<close>

definition typed_event :: "'m notification_event \<Rightarrow> bool" where
  "typed_event e \<longleftrightarrow>
     (if ne_status e = NOTIFICATION_STATUS_PENDING
      then ne_attempt_count e = 0 \<and> ne_last_attempt_at_ms e = None \<and> ne_last_error e = None \<and> ne_sent_at_ms e = None
      else ne_status e \<in> {NOTIFICATION_STATUS_SENT, NOTIFICATION_STATUS_AMBIGUOUS, NOTIFICATION_STATUS_FAILED} \<and>
        0 < ne_attempt_count e \<and> ne_last_attempt_at_ms e \<noteq> None \<and>
        ne_sent_at_ms e = (if ne_status e = NOTIFICATION_STATUS_SENT then ne_last_attempt_at_ms e else None))"

definition typed_db :: "'m shadow_db \<Rightarrow> bool" where
  "typed_db db \<longleftrightarrow>
     (\<forall>e \<in> set (sd_outbox db). typed_event e) \<and> distinct (map ne_event_id (sd_outbox db)) \<and>
     distinct (map trade_key (sd_trades db)) \<and> distinct (map ep_timestamp_ms (sd_equity db)) \<and>
     distinct (map journal_key (sd_journal db)) \<and> distinct (map wr_open_time_ms (sd_warmup db)) \<and>
     0 \<le> rs_total_cycles (get_run_state db)"

text \<open>
  One row later on: it is about the same, its attempts only grow, and once sent it stays.
\<close>

definition later_row :: "'m notification_event \<Rightarrow> 'm notification_event \<Rightarrow> bool" where
  "later_row e e' \<longleftrightarrow>
     ne_event_id e' = ne_event_id e \<and> ne_event_type e' = ne_event_type e \<and> ne_created_at_ms e' = ne_created_at_ms e \<and>
     ne_payload_text e' = ne_payload_text e \<and> ne_attempt_count e \<le> ne_attempt_count e' \<and>
     (ne_status e = NOTIFICATION_STATUS_SENT \<longrightarrow> e' = e)"

definition later_outbox :: "'m notification_event list \<Rightarrow> 'm notification_event list \<Rightarrow> bool" where
  "later_outbox es es' \<longleftrightarrow> (\<exists>ds new. es' = ds @ new \<and> list_all2 later_row es ds)"

lemma later_row_refl: "later_row e e"
  by (simp add: later_row_def)

lemma later_row_trans: "later_row a b \<Longrightarrow> later_row b c \<Longrightarrow> later_row a c"
  by (auto simp: later_row_def)

lemma later_outbox_refl: "later_outbox es es"
  unfolding later_outbox_def by (intro exI [of _ es] exI [of _ "[]"]) (simp add: list_all2_refl later_row_refl)

lemma later_outbox_append: "later_outbox es ds \<Longrightarrow> later_outbox es (ds @ new)"
  unfolding later_outbox_def by force

text \<open>A change of the rows, one by one.\<close>

lemma later_outbox_map:
  assumes "later_outbox es ds" "\<And>d. d \<in> set ds \<Longrightarrow> later_row d (f d)"
  shows "later_outbox es (map f ds)"
proof -
  obtain as new where ds: "ds = as @ new" "list_all2 later_row es as" using assms(1) by (auto simp: later_outbox_def)
  have "list_all2 later_row as (map f as)" using assms(2) by (auto simp: list_all2_conv_all_nth ds(1))
  from list_all2_trans [OF later_row_trans ds(2) this] have "list_all2 later_row es (map f as)" .
  then show ?thesis by (auto simp: later_outbox_def ds(1))
qed

text \<open>
  The invariant of any history that starts with the outbox \<open>es\<close>, where every error that a send
  can answer satisfies \<open>G\<close>.
\<close>

definition good_errors :: "(string \<Rightarrow> bool) \<Rightarrow> 'm notification_event \<Rightarrow> bool" where
  "good_errors G e \<longleftrightarrow> pred_option G (ne_last_error e)"

definition outbox_inv :: "(string \<Rightarrow> bool) \<Rightarrow> 'm notification_event list \<Rightarrow> 'm shadow_db \<Rightarrow> bool" where
  "outbox_inv G es db \<longleftrightarrow> typed_db db \<and> later_outbox es (sd_outbox db) \<and> (\<forall>e \<in> set (sd_outbox db). good_errors G e)"

definition good_sends :: "(string \<Rightarrow> bool) \<Rightarrow> ('w, 'm) shadow_env \<Rightarrow> telegram_secrets \<Rightarrow> bool" where
  "good_sends G env secrets \<longleftrightarrow>
     (\<forall>m w r w'. send_message env secrets m w = (Inr r, w') \<longrightarrow> pred_option G (tr_safe_error r))"

text \<open>Every secret that the environment can hold.\<close>

definition good_env :: "(string \<Rightarrow> bool) \<Rightarrow> ('w, 'm) shadow_env \<Rightarrow> bool" where
  "good_env G env \<longleftrightarrow>
     (\<forall>w secrets w'. se_telegram_secrets env w = (Inr (Some secrets), w') \<longrightarrow> good_sends G env secrets)"

abbreviation on_outbox :: "(string \<Rightarrow> bool) \<Rightarrow> 'm notification_event list \<Rightarrow> ('w, 'm) shadow \<Rightarrow> bool" where
  "on_outbox G es \<equiv> on_data (\<lambda>c d. outbox_inv G es d)"

section \<open>Inserts\<close>

lemma insert_all_typed:
  assumes "\<And>e. e \<in> set t \<Longrightarrow> P e" "\<And>e. e \<in> set rs \<Longrightarrow> P e" "e \<in> set (insert_all key rs t)"
  shows "P e"
  using insert_all_from [of key rs t] assms by blast

lemma later_insert_all: "later_outbox es t \<Longrightarrow> later_outbox es (insert_all ne_event_id rs t)"
  using insert_all_prefix [of t ne_event_id rs] by (auto simp: prefix_def later_outbox_append)

lemma typed_new_event: "typed_event (new_event i ty created m)"
  by (simp add: typed_event_def new_event_def)

lemma collect_ok_from: "y \<in> set (collect_ok f xs) \<Longrightarrow> \<exists>x \<in> set xs. f x = Inr y"
  by (induction xs) (auto split: sum.splits)

lemma good_new_event: "good_errors G (new_event i ty created m)"
  by (simp add: good_errors_def new_event_def)

abbreviation good_event :: "(string \<Rightarrow> bool) \<Rightarrow> 'm notification_event \<Rightarrow> bool" where
  "good_event G e \<equiv> typed_event e \<and> good_errors G e"

lemma segment_events_typed:
  assumes "e \<in> set (cw_notification_events (segment_write config filters now seg eq db r j))"
  shows "good_event G e"
proof -
  have ex: "good_event G x" if "x \<in> set (exit_events sym curve eq now rs ts)" for x sym curve rs ts
    using that by (induction ts arbitrary: rs) (auto simp: build_exit_notification_event_def Let_def typed_new_event good_new_event)
  have en: "good_event G x" if "build_entry_notification_event config filters j curve eq now p = Inr x" for x curve p
    using that by (cases "find_buy_signal j (oi_entry_time_ms p)")
      (auto simp: build_entry_notification_event_def Let_def typed_new_event good_new_event)
  show ?thesis using assms by (auto simp: segment_write_def Let_def simp del: de_Morgan_conj dest!: collect_ok_from intro: ex en dest: ex en)
qed

lemma outbox_committed:
  assumes "outbox_inv G es db" "\<And>e. e \<in> set (cw_notification_events w) \<Longrightarrow> good_event G e"
  shows "outbox_inv G es (committed w db)"
  using assms insert_all_typed [of "sd_outbox db" "good_event G" "cw_notification_events w"]
  by (auto simp: outbox_inv_def typed_db_def committed_fields insert_all_distinct later_insert_all advanced_def)

section \<open>Deliveries\<close>

lemma classify_attempts: "classify_response token status txt body k = Inr r \<Longrightarrow> tr_attempts r = k"
  by (auto simp: classify_response_def split: if_splits telegram_body.splits)

lemma send_message_attempts:
  assumes "send_message_from env secrets m err attempt remaining w = (Inr r, w')" "0 < remaining"
  shows "0 < tr_attempts r"
  using assms
proof (induction remaining arbitrary: err attempt w)
  case (Suc remaining)
  obtain a v where a: "se_telegram_post env (ts_bot_token secrets) (ts_chat_id secrets) m w = (Inr a, v)"
    using Suc.prems(1) by (auto simp: Let_def sbind_eq_Inr)
  show ?case
  proof (cases a)
    case (Http_Response status msg body)
    then show ?thesis using Suc.prems(1) a classify_attempts by (fastforce simp: Let_def sbind_def)
  next
    case (Connection_Failed msg)
    show ?thesis
    proof (cases "0 < remaining")
      case True
      then obtain u where "send_message_from env secrets m (Some (redact msg (ts_bot_token secrets))) (Suc attempt) remaining u = (Inr r, w')"
        using Suc.prems(1) a Connection_Failed by (auto simp: Let_def sbind_eq_Inr)
      from Suc.IH [OF this True] show ?thesis .
    qed (use Suc.prems(1) a Connection_Failed in \<open>auto simp: Let_def sbind_def\<close>)
  qed (use Suc.prems(1) a in \<open>auto simp: Let_def sbind_def\<close>)
qed simp

lemma outcome_statuses:
  assumes "outcome_to_status outcome = Inr status"
  shows "status \<in> {NOTIFICATION_STATUS_SENT, NOTIFICATION_STATUS_AMBIGUOUS, NOTIFICATION_STATUS_FAILED}"
  using assms by (auto simp: outcome_to_status_def split: if_splits)

lemma statuses_distinct:
  "NOTIFICATION_STATUS_PENDING \<notin> {NOTIFICATION_STATUS_SENT, NOTIFICATION_STATUS_AMBIGUOUS, NOTIFICATION_STATUS_FAILED}"
  "NOTIFICATION_STATUS_SENT \<notin> {NOTIFICATION_STATUS_AMBIGUOUS, NOTIFICATION_STATUS_FAILED}"
  "NOTIFICATION_STATUS_AMBIGUOUS \<noteq> NOTIFICATION_STATUS_FAILED"
  by (simp_all add: notification_statuses)

text \<open>The row of an event that is not sent yet takes an outcome.\<close>

lemma outcome_written:
  fixes db :: "'m shadow_db"
  assumes "outbox_inv G es db" "e \<in> set (sd_outbox db)" "ne_status e \<noteq> NOTIFICATION_STATUS_SENT" "0 < k"
    "pred_option G err" "status \<in> {NOTIFICATION_STATUS_SENT, NOTIFICATION_STATUS_AMBIGUOUS, NOTIFICATION_STATUS_FAILED}"
  shows "outbox_inv G es (db\<lparr>sd_outbox := map (with_outcome (ne_event_id e) status (ne_attempt_count e + k) (Some now) err
    (if status = NOTIFICATION_STATUS_SENT then Some now else None)) (sd_outbox db)\<rparr>)"
proof -
  define f :: "'m notification_event \<Rightarrow> 'm notification_event" where "f = with_outcome (ne_event_id e) status (ne_attempt_count e + k) (Some now) err
    (if status = NOTIFICATION_STATUS_SENT then Some now else None)"
  have typed: "typed_event d" if "d \<in> set (sd_outbox db)" for d using assms(1) that by (auto simp: outbox_inv_def typed_db_def)
  have count: "0 \<le> ne_attempt_count e" using typed [OF assms(2)] by (auto simp: typed_event_def split: if_splits)
  have one: "d = e" if "d \<in> set (sd_outbox db)" "ne_event_id d = ne_event_id e" for d
    using assms(1,2) that unfolding outbox_inv_def typed_db_def by (metis distinct_map inj_onD)
  have row: "good_event G (f d) \<and> later_row d (f d)" if d: "d \<in> set (sd_outbox db)" for d
  proof (cases "ne_event_id d = ne_event_id e")
    case True
    have "d = e" by (rule one [OF d True])
    then show ?thesis using assms(3-6) count statuses_distinct
      by (auto simp: typed_event_def good_errors_def later_row_def f_def with_outcome_def)
  qed (use typed [OF d] assms(1) d in \<open>simp add: f_def with_outcome_def later_row_refl outbox_inv_def\<close>)
  have ids: "map ne_event_id (map f (sd_outbox db)) = map ne_event_id (sd_outbox db)"
    by (simp add: f_def with_outcome_def)
  have "later_outbox es (map f (sd_outbox db))"
    by (rule later_outbox_map) (use assms(1) row in \<open>auto simp: outbox_inv_def\<close>)
  moreover have "distinct (map ne_event_id (map f (sd_outbox db)))" unfolding ids using assms(1) by (simp add: outbox_inv_def typed_db_def)
  ultimately show ?thesis using assms(1) row unfolding f_def [symmetric]
    by (auto simp: outbox_inv_def typed_db_def get_run_state_def simp del: map_map)
qed

lemma on_ext_same: "on_ext m s = (r, t) \<Longrightarrow> sw_db t = sw_db s \<and> sw_candles t = sw_candles s"
  by (auto simp: on_ext_def szoom_def split: prod.splits)

text \<open>What a delivery does to the database: nothing, or it writes the outcome.\<close>

lemma deliver_cases:
  assumes "deliver env secrets e s = (r, t)" "good_sends G env secrets"
  obtains (raised) x where "r = Inl x" "sw_db t = sw_db s" "sw_candles t = sw_candles s"
  | (written) now k err status where "r = Inr status" "0 < k" "pred_option G err" "sw_candles t = sw_candles s"
      "status \<in> {NOTIFICATION_STATUS_SENT, NOTIFICATION_STATUS_AMBIGUOUS, NOTIFICATION_STATUS_FAILED}"
      "sw_db t = (sw_db s)\<lparr>sd_outbox := map (with_outcome (ne_event_id e) status (ne_attempt_count e + k) (Some now) err
        (if status = NOTIFICATION_STATUS_SENT then Some now else None)) (sd_outbox (sw_db s))\<rparr>"
  using assms(1) unfolding deliver_def
proof (cases rule: sbind_cases)
  case (1 x)
  then show thesis using raised on_ext_same by blast
next
  case clock: (2 now u)
  note u = on_ext_same [OF clock(1)]
  from clock(2) show thesis
  proof (cases rule: sbind_cases)
    case (1 x)
    then show thesis using raised on_ext_same [OF 1(1)] u by simp
  next
    case sent: (2 res v)
    note v = on_ext_same [OF sent(1)]
    have k: "0 < tr_attempts res"
      using sent(1) send_message_attempts [of env secrets "ne_payload_text e" None 0 DEFAULT_MAX_SAFE_RETRIES]
      by (auto simp: on_ext_def szoom_def send_message_def DEFAULT_MAX_SAFE_RETRIES_def split: prod.splits)
    have g: "pred_option G (tr_safe_error res)"
      using sent(1) assms(2) by (auto simp: on_ext_def szoom_def good_sends_def split: prod.splits)
    show thesis
    proof (cases "outcome_to_status (tr_outcome res)")
      case (Inl x)
      then have "r = Inl x" "t = v" using sent(2) by (auto simp: sbind_def)
      then show thesis using raised u v by simp
    next
      case (Inr status)
      then have "r = Inr status" "t = v\<lparr>sw_db := (sw_db v)\<lparr>sd_outbox := map (with_outcome (ne_event_id e) status (ne_attempt_count e + tr_attempts res) (Some now)
          (tr_safe_error res) (if status = NOTIFICATION_STATUS_SENT then Some now else None)) (sd_outbox (sw_db v))\<rparr>\<rparr>"
        using sent(2) by (auto simp: sbind_def on_shadow_db_def szoom_def update_notification_status_def)
      then show thesis using written [OF _ k g _ outcome_statuses [OF Inr]] u v by simp
    qed
  qed
qed

definition awaits :: "'m notification_event list \<Rightarrow> 'm shadow_db \<Rightarrow> bool" where
  "awaits es db \<longleftrightarrow> (\<forall>e \<in> set es. e \<in> set (sd_outbox db) \<and> ne_status e \<noteq> NOTIFICATION_STATUS_SENT)"

lemma deliver_outbox:
  assumes "on_outbox G es s" "awaits (e # ds) (sw_db s)" "ne_event_id e \<notin> ne_event_id ` set ds" "deliver env secrets e s = (r, t)"
    "good_sends G env secrets"
  shows "on_outbox G es t \<and> (is_ok r \<longrightarrow> awaits ds (sw_db t))"
  using assms(4,5)
proof (cases rule: deliver_cases)
  case (raised x)
  then show ?thesis using assms(1) by (simp add: on_data_def)
next
  case (written now k err status)
  have "outbox_inv G es (sw_db t)" unfolding written(6)
    by (rule outcome_written [OF _ _ _ written(2,3,5)]) (use assms(1,2) in \<open>auto simp: on_data_def awaits_def\<close>)
  then have "on_outbox G es t" by (simp add: on_data_def)
  moreover have "awaits ds (sw_db t)"
    using assms(2,3) by (force simp: awaits_def written(6) with_outcome_def image_iff)
  ultimately show ?thesis by simp
qed

lemma deliver_all_outbox:
  assumes "on_outbox G es s" "awaits ds (sw_db s)" "distinct (map ne_event_id ds)" "deliver_all env secrets ds r0 s = (r, t)"
    "good_sends G env secrets"
  shows "on_outbox G es t"
  using assms
proof (induction ds arbitrary: s r0)
  case (Cons e ds)
  from Cons.prems(4) show ?case unfolding deliver_all.simps
  proof (cases rule: sbind_cases)
    case (1 x)
    then show ?thesis using deliver_outbox [OF Cons.prems(1,2) _ 1(1) Cons.prems(5)] Cons.prems(3) by simp
  next
    case (2 status u)
    have u: "on_outbox G es u" "awaits ds (sw_db u)" using deliver_outbox [OF Cons.prems(1,2) _ 2(1) Cons.prems(5)] Cons.prems(3) by auto
    show ?thesis by (rule Cons.IH [OF u _ 2(2) Cons.prems(5)]) (use Cons.prems(3) in simp)
  qed
qed simp

lemma pending_awaits:
  assumes "typed_db db"
  shows "awaits (list_notifications (Some NOTIFICATION_STATUS_PENDING) db) db"
    "distinct (map ne_event_id (list_notifications (Some NOTIFICATION_STATUS_PENDING) db))"
proof -
  let ?p = "filter (\<lambda>e. ne_status e = NOTIFICATION_STATUS_PENDING) (sd_outbox db)"
  show "awaits (list_notifications (Some NOTIFICATION_STATUS_PENDING) db) db"
    by (auto simp: awaits_def list_notifications_def notification_statuses)
  have "distinct (map ne_event_id ?p)" using assms by (auto simp: typed_db_def distinct_map_filter)
  then have "distinct (map ne_event_id (sort_key ne_created_at_ms ?p))"
    by (simp add: distinct_map inj_on_def)
  then show "distinct (map ne_event_id (list_notifications (Some NOTIFICATION_STATUS_PENDING) db))"
    by (simp add: list_notifications_def)
qed

section \<open>Every operation keeps the invariant\<close>

lemma preserves_get: "(\<And>s. I s \<Longrightarrow> (\<And>r t. f (g s) s = (r, t) \<Longrightarrow> I t)) \<Longrightarrow> preserves I (sbind (sget g) f)"
  by (rule preservesI) (simp add: sbind_def)

lemma preserves_bind_possible:
  assumes "preserves I m" "\<And>x. possible I m x \<Longrightarrow> preserves I (f x)"
  shows "preserves I (sbind m f)"
proof -
  have "reaches I I (sbind m f)" by (rule reaches_bind) (use assms in \<open>auto intro: reaches_done\<close>)
  then show ?thesis by (simp add: reaches_def preserves_def)
qed

lemma good_secrets: "good_env G env \<Longrightarrow> possible I (on_ext (se_telegram_secrets env)) (Some sec) \<Longrightarrow> good_sends G env sec"
  by (auto simp: good_env_def dest!: possible_ext)

lemma flush_outbox:
  assumes "good_env G env"
  shows "preserves (on_outbox G es) (flush_pending_notifications env config)"
proof -
  have all: "preserves (on_outbox G es) (sbind (sget (\<lambda>s. list_notifications (Some NOTIFICATION_STATUS_PENDING) (sw_db s))) (\<lambda>pending.
      deliver_all env secrets pending (r0 pending)))" if "good_sends G env secrets" for secrets r0
  proof (rule preserves_get)
    fix s r t assume I: "on_outbox G es s"
      and run: "deliver_all env secrets (list_notifications (Some NOTIFICATION_STATUS_PENDING) (sw_db s))
        (r0 (list_notifications (Some NOTIFICATION_STATUS_PENDING) (sw_db s))) s = (r, t)"
    have "typed_db (sw_db s)" using I by (simp add: on_data_def outbox_inv_def)
    from deliver_all_outbox [OF I pending_awaits [OF this] run that] show "on_outbox G es t" .
  qed
  show ?thesis unfolding flush_pending_notifications_def flush_body_def
    by (intro except_exception_keeps preserves_bind [where m = "sget _"] preserves_bind_possible [where m = "on_ext _"] preserves_option on_ext_keeps
        preserves_basic all) (auto dest: good_secrets [OF assms])
qed

lemma retry_outbox:
  fixes env :: "('w, 'm) shadow_env"
  assumes "good_env G env"
  shows "preserves (on_outbox G es) (retry_notification env event_id)"
  unfolding retry_notification_def
proof (rule preserves_get)
  fix s :: "('w, 'm) shadow" and r t assume I: "on_outbox G es s"
  let ?found = "get_notification event_id (sw_db s)"
  assume run: "(case ?found of None \<Rightarrow> sreturn \<lparr>rt_ok = False, rt_detail = ''not found'', rt_new_status = None\<rparr>
     | Some e \<Rightarrow>
         if ne_status e = NOTIFICATION_STATUS_SENT
         then sreturn \<lparr>rt_ok = False, rt_detail = ''already SENT'', rt_new_status = None\<rparr>
         else sbind (on_ext (se_telegram_secrets env)) (\<lambda>secrets.
           case secrets of
             None \<Rightarrow> sreturn \<lparr>rt_ok = False, rt_detail = ''Telegram is not configured'', rt_new_status = None\<rparr>
           | Some sec \<Rightarrow>
               sbind (deliver env sec e) (\<lambda>status.
               sreturn \<lparr>rt_ok = True, rt_detail = ''retry outcome: '' @ status, rt_new_status = Some status\<rparr>))) s = (r, t)"
  show "on_outbox G es t"
  proof (cases "\<exists>e. ?found = Some e \<and> ne_status e \<noteq> NOTIFICATION_STATUS_SENT")
    case False
    then show ?thesis using run I by (auto split: option.splits if_splits)
  next
    case True
    then obtain e where e: "?found = Some e" "ne_status e \<noteq> NOTIFICATION_STATUS_SENT" by blast
    then have mem: "e \<in> set (sd_outbox (sw_db s))" by (auto simp: get_notification_def find_Some_iff)
    from run [unfolded e(1) option.case if_not_P [OF e(2)]] show ?thesis
    proof (cases rule: sbind_cases)
      case (1 x)
      then show ?thesis using on_ext_same [OF 1(1)] I by (simp add: on_data_def)
    next
      case (2 secrets u)
      have u: "on_outbox G es u" "awaits [e] (sw_db u)" using on_ext_same [OF 2(1)] I mem e(2) by (simp_all add: on_data_def awaits_def)
      show ?thesis
      proof (cases secrets)
        case None
        then show ?thesis using 2(2) u by simp
      next
        case (Some sec)
        obtain x v where v: "deliver env sec e u = (x, v)" by (metis surj_pair)
        have "good_sends G env sec"
          using 2(1) assms Some by (auto simp: on_ext_def szoom_def good_env_def split: prod.splits)
        moreover have "v = t" using 2(2) v Some by (cases x) (auto simp: sbind_def)
        ultimately show ?thesis using deliver_outbox [OF u _ v] by simp
      qed
    qed
  qed
qed

lemma on_db_outbox:
  assumes "\<And>db r db'. outbox_inv G es db \<Longrightarrow> m db = (r, db') \<Longrightarrow> outbox_inv G es db'"
  shows "preserves (on_outbox G es) (on_shadow_db m)"
  unfolding on_shadow_db_def by (rule preserves_zoom) (use assms in \<open>simp add: on_data_def\<close>)

lemma touch_outbox [stepI]: "preserves (on_outbox G es) (on_shadow_db (touch_cycle now status detail len))"
  by (rule on_db_outbox)
    (auto simp: touch_cycle_def atomically_def touched_def store_steps outbox_inv_def typed_db_def get_run_state_def)

lemma enqueue_outbox [stepI]: "preserves (on_outbox G es) (on_shadow_db (enqueue_notifications_atomically [new_event i ty now m]))"
proof (rule on_db_outbox)
  fix db r db' assume I: "outbox_inv G es db" and run: "enqueue_notifications_atomically [new_event i ty now m] db = (r, db')"
  let ?o = "insert_all ne_event_id [new_event i ty now m] (sd_outbox db)"
  have "good_event G e" if "e \<in> set ?o" for e
    using insert_all_from [of ne_event_id "[new_event i ty now m]" "sd_outbox db"] I that
    by (auto simp: outbox_inv_def typed_db_def typed_new_event good_new_event simp del: insert_all_simps)
  moreover have "distinct (map ne_event_id ?o)" by (rule insert_all_distinct) (use I in \<open>simp add: outbox_inv_def typed_db_def\<close>)
  moreover have "later_outbox es ?o" by (rule later_insert_all) (use I in \<open>simp add: outbox_inv_def\<close>)
  moreover have "db' = db\<lparr>sd_outbox := ?o\<rparr>"
    using run by (simp add: enqueue_notifications_atomically_def atomically_def store_steps del: insert_all_simps)
  ultimately show "outbox_inv G es db'" using I
    by (simp add: outbox_inv_def typed_db_def get_run_state_def del: insert_all_simps)
qed

lemma summary_outbox [stepI]: "preserves (on_outbox G es) (on_shadow_db (record_daily_summary_sent d))"
  by (rule on_db_outbox) (auto simp: record_daily_summary_sent_def outbox_inv_def typed_db_def get_run_state_def)

lemma candles_outbox [stepI]: "preserves (on_outbox G es) (on_candles m)"
  unfolding on_candles_def by (rule preserves_zoom) (simp add: on_data_def)

lemma after_cycle_outbox: "good_env G env \<Longrightarrow> preserves (on_outbox G es) (after_cycle env config)"
  unfolding after_cycle_def maybe_send_daily_summary_def daily_summary_body_def by (intro stepI flush_outbox) assumption+

lemma idle_cycle_outbox: "good_env G env \<Longrightarrow> preserves (on_outbox G es) (idle_cycle env config now r)"
  unfolding idle_cycle_def by (intro stepI after_cycle_outbox) assumption+

lemma record_outbox:
  assumes "\<And>e. e \<in> set (cw_notification_events w) \<Longrightarrow> good_event G e"
  shows "preserves (on_outbox G es) (on_shadow_db (record_cycle_atomically w))"
  by (rule on_db_outbox, erule record_cycle_cases) (use outbox_committed [OF _ assms] in auto)

lemma evaluate_outbox:
  fixes env :: "('w, shadow_message) shadow_env"
  assumes "good_env G env"
  shows "preserves (on_outbox G es) (evaluate_segment env config now fetched req segment)"
proof -
  have rest: "preserves (on_outbox G es)
      (sbind (sget (\<lambda>s. segment_write config filters now segment eq (sw_db s) r j)) (\<lambda>w.
       sbind (on_shadow_db (record_cycle_atomically w)) (\<lambda>_. sbind (after_cycle env config) (\<lambda>_. sreturn (g w)))))"
    for filters eq r j and g :: "_ \<Rightarrow> shadow_cycle_result"
  proof (rule preserves_get)
    fix s :: "('w, shadow_message) shadow" and x t assume I: "on_outbox G es s"
    let ?w = "segment_write config filters now segment eq (sw_db s) r j"
    assume run: "sbind (on_shadow_db (record_cycle_atomically ?w)) (\<lambda>_. sbind (after_cycle env config) (\<lambda>_. sreturn (g ?w))) s = (x, t)"
    have "preserves (on_outbox G es) (sbind (on_shadow_db (record_cycle_atomically ?w)) (\<lambda>_. sbind (after_cycle env config) (\<lambda>_. sreturn (g ?w))))"
      by (intro stepI after_cycle_outbox [OF assms] record_outbox segment_events_typed)
    from preservesD [OF this I run] show "on_outbox G es t" .
  qed
  show ?thesis unfolding evaluate_segment_def Let_def
    by (intro stepI rest)
qed

lemma cycle_outbox:
  assumes "good_env G env"
  shows "preserves (on_outbox G es) (run_shadow_cycle env config)"
proof -
  have "preserves (on_outbox G es) (process_candles env config st now fetched cs)" for st now fetched cs
    unfolding process_candles_def Let_def by (intro stepI idle_cycle_outbox [OF assms] evaluate_outbox [OF assms])
  moreover have "preserves (on_outbox G es) (fetch_new_candles env config)"
    unfolding fetch_new_candles_def Let_def by (intro stepI)
  ultimately have "preserves (on_outbox G es) (run_shadow_cycle_locked env config)"
    unfolding run_shadow_cycle_locked_def by (intro stepI)
  then show ?thesis unfolding run_shadow_cycle_def by (intro stepI with_lock_keeps)
qed

lemma bootstrap_outbox: "preserves (on_outbox G es) (run_shadow_bootstrap env config)"
proof -
  have "preserves (on_outbox G es) (on_shadow_db (record_bootstrap_atomically cs st))" for cs st
    by (rule on_db_outbox)
      (auto simp: record_bootstrap_atomically_def atomically_def sbind_def shadow_fault_def store_steps insert_bootstrap_state_def
        outbox_inv_def typed_db_def get_run_state_def insert_all_distinct split: if_splits option.splits)
  then show ?thesis
    unfolding run_shadow_bootstrap_def Let_def bootstrap_fetched_def by (intro stepI)
qed

section \<open>Redaction\<close>

text \<open>
  A secret with a colon, as a bot token has one, and without an asterisk does not occur in a
  text it has been redacted from, not even across a replacement.
\<close>

lemma starts_with_prefix: "starts_with secret txt \<longleftrightarrow> prefix secret txt"
  by (auto simp: starts_with_def prefix_def) (metis append_take_drop_id)

lemma replace_all_cons:
  assumes "secret \<noteq> []" "\<not> prefix secret (c # txt)"
  shows "replace_all secret (c # txt) = c # replace_all secret txt"
  using assms by (subst replace_all.simps) (simp add: starts_with_prefix)

lemma replace_all_hit:
  assumes "secret \<noteq> []" "prefix secret txt"
  shows "replace_all secret txt = REDACTED @ replace_all secret (drop (length secret) txt)"
  using assms by (subst replace_all.simps) (auto simp: starts_with_prefix)

lemma replaced_prefix:
  assumes "secret \<noteq> []" "CHR ''*'' \<notin> set p" "prefix p (replace_all secret xs)"
  shows "prefix p xs"
  using assms(2,3)
proof (induction xs arbitrary: p)
  case Nil
  then show ?case by (subst (asm) replace_all.simps) simp
next
  case (Cons c xs)
  show ?case
  proof (cases "prefix secret (c # xs)")
    case True
    then have "replace_all secret (c # xs) = REDACTED @ replace_all secret (drop (length secret) (c # xs))"
      by (rule replace_all_hit [OF assms(1)])
    then have "p = []" using Cons.prems by (cases p) (auto simp: REDACTED_def)
    then show ?thesis by simp
  next
    case False
    then show ?thesis using Cons by (cases p) (auto simp: replace_all_cons [OF assms(1)])
  qed
qed

lemma redacted_free:
  assumes "CHR '':'' \<in> set secret" "CHR ''*'' \<notin> set secret"
  shows "\<not> sublist secret (replace_all secret xs)"
proof (induction "length xs" arbitrary: xs rule: less_induct)
  case less
  have ne: "secret \<noteq> []" using assms(1) by auto
  show ?case
  proof (cases xs)
    case Nil
    then show ?thesis using ne by (simp add: replace_all.simps)
  next
    case (Cons c cs)
    show ?thesis
    proof (cases "prefix secret xs")
      case True
      let ?rest = "replace_all secret (drop (length secret) xs)"
      have out: "replace_all secret xs = REDACTED @ ?rest" by (rule replace_all_hit [OF ne True])
      have rest: "\<not> sublist secret ?rest" by (rule less) (use ne Cons in simp)
      have inside: "\<not> sublist secret REDACTED" using assms(1) by (auto simp: REDACTED_def dest!: set_mono_sublist)
      have across: "zs = [] \<or> CHR ''*'' \<in> set zs" if "suffix zs REDACTED" for zs
      proof -
        obtain ys where "REDACTED = ys @ zs" using \<open>suffix zs REDACTED\<close> by (auto simp: suffix_def)
        then have "zs = [] \<or> last zs = last REDACTED" by (metis last_appendR)
        then show ?thesis by (cases zs rule: rev_cases) (auto simp: REDACTED_def)
      qed
      show ?thesis
      proof
        assume "sublist secret (replace_all secret xs)"
        then obtain a b where ab: "secret = a @ b" "suffix a REDACTED" "prefix b ?rest"
          using inside rest unfolding out sublist_append by blast
        then have "a = []" using across assms(2) by auto
        then show False using ab rest by (auto simp: prefix_imp_sublist)
      qed
    next
      case False
      have "\<not> prefix secret (replace_all secret xs)" using replaced_prefix [OF ne assms(2)] False by blast
      moreover have "\<not> sublist secret (replace_all secret cs)" by (rule less) (simp add: Cons)
      ultimately show ?thesis using False by (simp add: Cons replace_all_cons [OF ne] sublist_Cons_right)
    qed
  qed
qed

definition token_free :: "string \<Rightarrow> string \<Rightarrow> bool" where
  "token_free token txt \<longleftrightarrow> \<not> sublist token txt"

lemma redact_free: "CHR '':'' \<in> set token \<Longrightarrow> CHR ''*'' \<notin> set token \<Longrightarrow> token_free token (redact txt token)"
  by (auto simp: token_free_def redact_def redacted_free)

lemma classify_free:
  assumes "CHR '':'' \<in> set token" "CHR ''*'' \<notin> set token" "classify_response token status txt body attempts = Inr r"
  shows "pred_option (token_free token) (tr_safe_error r)"
proof -
  have "token_free token ''malformed 200 response body''"
    using assms(1) by (auto simp: token_free_def dest!: set_mono_sublist)
  then show ?thesis using assms redact_free [OF assms(1,2)]
    by (auto simp: classify_response_def split: if_splits telegram_body.splits)
qed

lemma send_free:
  assumes "CHR '':'' \<in> set (ts_bot_token secrets)" "CHR ''*'' \<notin> set (ts_bot_token secrets)"
    and "send_message_from env secrets m err attempt remaining w = (Inr r, w')" "pred_option (token_free (ts_bot_token secrets)) err"
  shows "pred_option (token_free (ts_bot_token secrets)) (tr_safe_error r)"
  using assms(3,4)
proof (induction remaining arbitrary: err attempt w)
  case (Suc remaining)
  obtain a v where a: "se_telegram_post env (ts_bot_token secrets) (ts_chat_id secrets) m w = (Inr a, v)"
    using Suc.prems(1) by (auto simp: Let_def sbind_eq_Inr)
  show ?case
  proof (cases a)
    case (Http_Response status msg body)
    then show ?thesis using Suc.prems(1) a classify_free [OF assms(1,2)] by (auto simp: Let_def sbind_def)
  next
    case (Connection_Failed msg)
    show ?thesis
    proof (cases "0 < remaining")
      case True
      then obtain u where "send_message_from env secrets m (Some (redact msg (ts_bot_token secrets))) (Suc attempt) remaining u = (Inr r, w')"
        using Suc.prems(1) a Connection_Failed by (auto simp: Let_def sbind_eq_Inr)
      from Suc.IH [OF this] show ?thesis using redact_free [OF assms(1,2)] by simp
    qed (use Suc.prems(1) a Connection_Failed redact_free [OF assms(1,2)] in \<open>auto simp: Let_def sbind_def\<close>)
  qed (use Suc.prems(1) a redact_free [OF assms(1,2)] in \<open>auto simp: Let_def sbind_def\<close>)
qed auto

section \<open>Deliveries that end\<close>

text \<open>
  Telegram is configured and every request ends: with a response or with an exception of the
  client, which are all handled. A response \<open>200\<close> whose body is JSON but no object is not: see
  \<open>classify_response\<close>.
\<close>

definition telegram_ends :: "('w, 'm) shadow_env \<Rightarrow> telegram_secrets \<Rightarrow> bool" where
  "telegram_ends env secrets \<longleftrightarrow>
     (\<forall>w. \<exists>now w'. se_clock_ms env w = (Inr now, w')) \<and> (\<forall>w. \<exists>w'. se_telegram_secrets env w = (Inr (Some secrets), w')) \<and>
     (\<forall>w d. \<exists>w'. se_sleep env d w = (Inr (), w')) \<and>
     (\<forall>w m. \<exists>a w'. se_telegram_post env (ts_bot_token secrets) (ts_chat_id secrets) m w = (Inr a, w') \<and>
        (\<forall>status txt. a \<noteq> Http_Response status txt Json_Other))"

lemma send_outcomes:
  assumes "telegram_ends env secrets"
  shows "\<exists>r w'. send_message_from env secrets m err attempt remaining w = (Inr r, w') \<and>
    tr_outcome r \<in> {SEND_OUTCOME_SENT, SEND_OUTCOME_AMBIGUOUS, SEND_OUTCOME_FAILED}"
proof (induction remaining arbitrary: err attempt w)
  case (Suc remaining)
  obtain a v where a: "se_telegram_post env (ts_bot_token secrets) (ts_chat_id secrets) m w = (Inr a, v)"
    "\<And>status txt. a \<noteq> Http_Response status txt Json_Other"
    using assms unfolding telegram_ends_def by meson
  obtain u where u: "se_sleep env (TELEGRAM_BACKOFF_SECONDS * float_of_int (int attempt + 1)) v = (Inr (), u)"
    using assms unfolding telegram_ends_def by meson
  show ?case
  proof (cases a)
    case (Http_Response status msg body)
    then show ?thesis using a by (cases body) (auto simp: Let_def sbind_def classify_response_def)
  next
    case (Connection_Failed msg)
    then show ?thesis using a(1) u Suc [of "Some (redact msg (ts_bot_token secrets))" "Suc attempt" u]
      by (auto simp: Let_def sbind_def)
  qed (use a(1) in \<open>simp_all add: Let_def sbind_def\<close>)
qed simp

definition status_count :: "string \<Rightarrow> 'm shadow_db \<Rightarrow> int" where
  "status_count status db = int (length (filter (\<lambda>e. ne_status e = status) (sd_outbox db)))"

text \<open>A delivery moves one row from pending to its outcome.\<close>

lemma deliver_ends:
  fixes s :: "('w, 'm) shadow"
  assumes "telegram_ends env secrets" "e \<in> set (sd_outbox (sw_db s))" "distinct (map ne_event_id (sd_outbox (sw_db s)))"
    "ne_status e = NOTIFICATION_STATUS_PENDING"
  obtains status t f where "deliver env secrets e s = (Inr status, t)"
    "status \<in> {NOTIFICATION_STATUS_SENT, NOTIFICATION_STATUS_AMBIGUOUS, NOTIFICATION_STATUS_FAILED}"
    "sd_outbox (sw_db t) = map f (sd_outbox (sw_db s))" "\<And>d. ne_event_id (f d) = ne_event_id d"
    "\<And>d. ne_event_id d \<noteq> ne_event_id e \<Longrightarrow> f d = d"
    "\<And>x. status_count x (sw_db t) = status_count x (sw_db s) + (if x = status then 1 else 0) - (if x = NOTIFICATION_STATUS_PENDING then 1 else 0)"
proof -
  obtain now w where clock: "se_clock_ms env (sw_ext s) = (Inr now, w)" using assms(1) unfolding telegram_ends_def by meson
  obtain res w' where sent: "send_message env secrets (ne_payload_text e) w = (Inr res, w')"
    "tr_outcome res \<in> {SEND_OUTCOME_SENT, SEND_OUTCOME_AMBIGUOUS, SEND_OUTCOME_FAILED}"
    using send_outcomes [OF assms(1)] unfolding send_message_def by meson
  obtain status where status: "outcome_to_status (tr_outcome res) = Inr status"
    using sent(2) by (auto simp: outcome_to_status_def SEND_OUTCOME_SENT_def SEND_OUTCOME_AMBIGUOUS_def SEND_OUTCOME_FAILED_def)
  define f :: "'m notification_event \<Rightarrow> 'm notification_event" where "f = with_outcome (ne_event_id e) status (ne_attempt_count e + tr_attempts res) (Some now) (tr_safe_error res)
    (if status = NOTIFICATION_STATUS_SENT then Some now else None)"
  let ?t = "s\<lparr>sw_ext := w', sw_db := (sw_db s)\<lparr>sd_outbox := map f (sd_outbox (sw_db s))\<rparr>\<rparr>"
  have run: "deliver env secrets e s = (Inr status, ?t)"
    by (simp add: deliver_def sbind_def on_ext_def on_shadow_db_def szoom_def clock sent(1) status update_notification_status_def f_def)
  have known: "status \<in> {NOTIFICATION_STATUS_SENT, NOTIFICATION_STATUS_AMBIGUOUS, NOTIFICATION_STATUS_FAILED}"
    by (rule outcome_statuses [OF status])
  obtain as bs where split: "sd_outbox (sw_db s) = as @ e # bs" using split_list [OF assms(2)] by blast
  have other: "map f as = as" "map f bs = bs"
    using assms(3) by (auto simp: split f_def with_outcome_def image_iff intro!: map_idI)
  have counts: "status_count x (sw_db ?t) = status_count x (sw_db s) + (if x = status then 1 else 0) - (if x = NOTIFICATION_STATUS_PENDING then 1 else 0)" for x
    using known statuses_distinct(1) by (auto simp: status_count_def split other f_def [THEN fun_cong] with_outcome_def assms(4))
  show thesis
  proof (rule that [OF run known _ _ _ counts])
    show "sd_outbox (sw_db ?t) = map f (sd_outbox (sw_db s))" by simp
  qed (simp_all add: f_def with_outcome_def)
qed

lemma deliver_all_ends:
  assumes "telegram_ends env secrets" "distinct (map ne_event_id (sd_outbox (sw_db s)))" "distinct (map ne_event_id ds)"
    "\<And>d. d \<in> set ds \<Longrightarrow> d \<in> set (sd_outbox (sw_db s)) \<and> ne_status d = NOTIFICATION_STATUS_PENDING"
  shows "\<exists>r t. deliver_all env secrets ds r0 s = (Inr r, t) \<and>
    fl_skipped_reason r = fl_skipped_reason r0 \<and> fl_attempted r = fl_attempted r0 \<and>
    status_count NOTIFICATION_STATUS_PENDING (sw_db t) = status_count NOTIFICATION_STATUS_PENDING (sw_db s) - int (length ds) \<and>
    fl_sent r - fl_sent r0 = status_count NOTIFICATION_STATUS_SENT (sw_db t) - status_count NOTIFICATION_STATUS_SENT (sw_db s) \<and>
    fl_ambiguous r - fl_ambiguous r0 = status_count NOTIFICATION_STATUS_AMBIGUOUS (sw_db t) - status_count NOTIFICATION_STATUS_AMBIGUOUS (sw_db s) \<and>
    fl_failed r - fl_failed r0 = status_count NOTIFICATION_STATUS_FAILED (sw_db t) - status_count NOTIFICATION_STATUS_FAILED (sw_db s) \<and>
    fl_sent r + fl_ambiguous r + fl_failed r = fl_sent r0 + fl_ambiguous r0 + fl_failed r0 + int (length ds)"
  using assms(2-4)
proof (induction ds arbitrary: s r0)
  case (Cons e ds)
  have e: "e \<in> set (sd_outbox (sw_db s))" "ne_status e = NOTIFICATION_STATUS_PENDING" using Cons.prems(3) [of e] by auto
  obtain status t f where t: "deliver env secrets e s = (Inr status, t)"
    "status \<in> {NOTIFICATION_STATUS_SENT, NOTIFICATION_STATUS_AMBIGUOUS, NOTIFICATION_STATUS_FAILED}"
    "sd_outbox (sw_db t) = map f (sd_outbox (sw_db s))" "\<And>d. ne_event_id (f d) = ne_event_id d"
    "\<And>d. ne_event_id d \<noteq> ne_event_id e \<Longrightarrow> f d = d"
    "\<And>x. status_count x (sw_db t) = status_count x (sw_db s) + (if x = status then 1 else 0) - (if x = NOTIFICATION_STATUS_PENDING then 1 else 0)"
    by (rule deliver_ends [OF assms(1) e(1) Cons.prems(1) e(2)]) (erule that, assumption+)
  let ?r = "if status = NOTIFICATION_STATUS_SENT then r0\<lparr>fl_sent := fl_sent r0 + 1\<rparr>
        else if status = NOTIFICATION_STATUS_AMBIGUOUS then r0\<lparr>fl_ambiguous := fl_ambiguous r0 + 1\<rparr>
        else r0\<lparr>fl_failed := fl_failed r0 + 1\<rparr>"
  have 1: "distinct (map ne_event_id (sd_outbox (sw_db t)))" using Cons.prems(1) by (simp add: t(3,4) comp_def)
  have 2: "d \<in> set (sd_outbox (sw_db t)) \<and> ne_status d = NOTIFICATION_STATUS_PENDING" if "d \<in> set ds" for d
  proof -
    have "ne_event_id d \<noteq> ne_event_id e" using Cons.prems(2) that by (auto simp: image_iff)
    then show ?thesis using t(5) [of d] Cons.prems(3) [of d] that by (force simp: t(3))
  qed
  obtain r u where r: "deliver_all env secrets ds ?r t = (Inr r, u)"
    "fl_skipped_reason r = fl_skipped_reason ?r" "fl_attempted r = fl_attempted ?r"
    "status_count NOTIFICATION_STATUS_PENDING (sw_db u) = status_count NOTIFICATION_STATUS_PENDING (sw_db t) - int (length ds)"
    "fl_sent r - fl_sent ?r = status_count NOTIFICATION_STATUS_SENT (sw_db u) - status_count NOTIFICATION_STATUS_SENT (sw_db t)"
    "fl_ambiguous r - fl_ambiguous ?r = status_count NOTIFICATION_STATUS_AMBIGUOUS (sw_db u) - status_count NOTIFICATION_STATUS_AMBIGUOUS (sw_db t)"
    "fl_failed r - fl_failed ?r = status_count NOTIFICATION_STATUS_FAILED (sw_db u) - status_count NOTIFICATION_STATUS_FAILED (sw_db t)"
    "fl_sent r + fl_ambiguous r + fl_failed r = fl_sent ?r + fl_ambiguous ?r + fl_failed ?r + int (length ds)"
    using Cons.IH [OF 1 _ 2, of ?r] Cons.prems(2) by auto
  have run: "deliver_all env secrets (e # ds) r0 s = (Inr r, u)" by (simp add: sbind_def t(1) r(1))
  show ?case
    by (intro exI [of _ r] exI [of _ u] conjI run) (use r(2-8) t(2) statuses_distinct in \<open>auto simp: t(6) split: if_splits\<close>)
qed simp

end
