(* ===== verification/Outbox_Properties.thy ===== *)
theory Outbox_Properties
  imports Shadow_Properties Shadow_Outbox
begin

text \<open>
  The properties of the shadow tables and of the outbox under any history of a process, on any
  market and with any answers of the outside, and the delivery of what is pending.
\<close>

lemma history_outbox:
  assumes "good_env G env" "on_outbox G es s" "shadow_history env config s t"
  shows "on_outbox G es t"
  using assms(3)
proof (induction rule: shadow_history.induct)
  case nothing
  then show ?case by (rule assms(2))
next
  case (cycle t r u)
  then show ?case using preservesD [OF cycle_outbox [OF assms(1)]] by blast
next
  case (warm_up t r u)
  then show ?case using preservesD [OF bootstrap_outbox] by blast
next
  case (retry t event_id r u)
  then show ?case using preservesD [OF retry_outbox [OF assms(1)]] by blast
next
  case (outside t w fault kill notify held)
  then show ?case by (simp add: on_data_def outbox_inv_def typed_db_def get_run_state_def)
qed

lemma any_text: "pred_option (\<lambda>_. True) x"
  by (cases x) simp_all

lemma any_env: "good_env (\<lambda>_. True) env"
  by (simp add: good_env_def good_sends_def any_text)

lemma typed_start: "typed_db db \<Longrightarrow> outbox_inv (\<lambda>_. True) (sd_outbox db) db"
  by (simp add: outbox_inv_def later_outbox_refl good_errors_def any_text)

text \<open>A process with one delivered and one pending notification, and a Telegram that cannot be reached.\<close>

definition tg_token :: string where
  "tg_token = ''12:ab''"

definition tg_env :: "(unit, shadow_message) shadow_env" where
  "tg_env = shd_env\<lparr>se_telegram_secrets := sreturn (Some \<lparr>ts_bot_token = tg_token, ts_chat_id = ''7''\<rparr>),
     se_telegram_post := (\<lambda>token chat m. sreturn (Connection_Failed (''/bot'' @ token @ ''/ refused'')))\<rparr>"

definition tg_sent :: "shadow_message notification_event" where
  "tg_sent = (new_event ''a'' ''test'' 0 Test_Message)\<lparr>ne_status := NOTIFICATION_STATUS_SENT, ne_attempt_count := 1,
     ne_last_attempt_at_ms := Some 5, ne_sent_at_ms := Some 5\<rparr>"

definition tg_pending :: "shadow_message notification_event" where
  "tg_pending = new_event ''b'' ''test'' 0 Test_Message"

definition tg_start :: "(unit, shadow_message) shadow" where
  "tg_start = shd_start\<lparr>sw_db := empty_db\<lparr>sd_outbox := [tg_sent, tg_pending]\<rparr>\<rparr>"

definition tg_failed :: "shadow_message notification_event" where
  "tg_failed = tg_pending\<lparr>ne_status := NOTIFICATION_STATUS_FAILED, ne_attempt_count := 3, ne_last_attempt_at_ms := Some 0,
     ne_last_error := Some ''/bot***REDACTED***/ refused''\<rparr>"

definition tg_after :: "(unit, shadow_message) shadow" where
  "tg_after = tg_start\<lparr>sw_db := empty_db\<lparr>sd_outbox := [tg_sent, tg_failed]\<rparr>\<rparr>"

lemma tg_typed: "typed_db (sw_db tg_start)"
  by (simp add: typed_db_def tg_start_def shd_start_def empty_db_def tg_sent_def tg_pending_def typed_event_def new_event_def
      notification_statuses get_run_state_def run_state_start_def)

lemma tg_send: "send_message tg_env \<lparr>ts_bot_token = tg_token, ts_chat_id = ''7''\<rparr> m () =
    (Inr \<lparr>tr_outcome = SEND_OUTCOME_FAILED, tr_attempts = 3, tr_safe_error = Some ''/bot***REDACTED***/ refused''\<rparr>, ())"
proof -
  have red: "redact ''/bot12:ab/ refused'' ''12:ab'' = ''/bot***REDACTED***/ refused''" by code_simp
  have sleep: "se_sleep shd_env d = sreturn ()" for d by (simp add: shd_env_def)
  have retries: "DEFAULT_MAX_SAFE_RETRIES = Suc (Suc (Suc 0))" by (simp add: DEFAULT_MAX_SAFE_RETRIES_def)
  show ?thesis unfolding send_message_def retries send_message_from.simps Let_def tg_env_def tg_token_def
    by (simp add: sbind_def red sleep)
qed

lemma tg_retry: "\<exists>r. retry_notification tg_env ''b'' tg_start = (Inr r, tg_after)"
proof -
  have clock: "se_clock_ms tg_env = sreturn 0" "se_telegram_secrets tg_env = sreturn (Some \<lparr>ts_bot_token = tg_token, ts_chat_id = ''7''\<rparr>)"
    by (simp_all add: tg_env_def shd_env_sel)
  have found: "get_notification ''b'' (sw_db tg_start) = Some tg_pending" "ne_status tg_pending \<noteq> NOTIFICATION_STATUS_SENT"
    by (simp_all add: get_notification_def tg_start_def tg_sent_def tg_pending_def new_event_def notification_statuses)
  have ext: "s\<lparr>sw_ext := ()\<rparr> = s" for s :: "(unit, shadow_message) shadow" by (rule ext_unit)
  have status: "outcome_to_status SEND_OUTCOME_FAILED = Inr NOTIFICATION_STATUS_FAILED" by code_simp
  have row: "map (with_outcome ''b'' NOTIFICATION_STATUS_FAILED 3 (Some 0) (Some ''/bot***REDACTED***/ refused'') None) [tg_sent, tg_pending]
      = [tg_sent, tg_failed]"
    by (simp add: with_outcome_def tg_sent_def tg_pending_def tg_failed_def new_event_def)
  have fields: "ne_event_id tg_pending = ''b''" "ne_attempt_count tg_pending = 0" "NOTIFICATION_STATUS_FAILED \<noteq> NOTIFICATION_STATUS_SENT"
    "sw_db tg_start = empty_db\<lparr>sd_outbox := [tg_sent, tg_pending]\<rparr>" "sw_ext tg_start = ()"
    by (simp_all add: tg_pending_def new_event_def notification_statuses tg_start_def shd_start_def)
  have "deliver tg_env \<lparr>ts_bot_token = tg_token, ts_chat_id = ''7''\<rparr> tg_pending tg_start = (Inr NOTIFICATION_STATUS_FAILED, tg_after)"
    using row by (simp add: deliver_def sbind_def on_ext_def on_shadow_db_def szoom_def clock tg_send status fields ext
        update_notification_status_def tg_after_def)
  then show ?thesis
    by (simp add: retry_notification_def sbind_def found on_ext_def szoom_def clock ext)
qed

lemma tg_history: "shadow_history tg_env config tg_start tg_after"
  using tg_retry shadow_history.retry [OF shadow_history.nothing] by blast

section \<open>The shape of the tables\<close>

text \<open>
  C31. The tables of the shadow database stay well formed under any history and any outside: primary
  keys are unique in every table, the number of cycles is not negative, and every
  notification is either pending and untouched or has one of the three outcomes, a positive
  number of attempts and the time of the last, which is its sending time exactly when it was
  sent.
\<close>

theorem shadow_tables_stay_well_formed:
  assumes "typed_db (sw_db s)" "shadow_history env config s t"
  shows "typed_db (sw_db t)"
  using history_outbox [OF any_env _ assms(2), of "sd_outbox (sw_db s)"] typed_start [OF assms(1)]
  by (simp add: on_data_def outbox_inv_def)

theorem shadow_tables_stay_well_formed_witness:
  "typed_db (sw_db tg_after) \<and> map ne_status (sd_outbox (sw_db tg_after)) = [''SENT'', ''FAILED'']"
  using shadow_tables_stay_well_formed [OF tg_typed tg_history]
  by (simp add: tg_after_def tg_sent_def tg_failed_def notification_statuses)

text \<open>
  C11. Under any history no notification is lost, reordered or changed in what it says, its attempts
  only grow, and one that has been sent is never sent again: its row stays as it is.
\<close>

theorem notifications_are_kept_and_sent_once:
  assumes "typed_db (sw_db s)" "shadow_history env config s t"
  shows "later_outbox (sd_outbox (sw_db s)) (sd_outbox (sw_db t))"
  using history_outbox [OF any_env _ assms(2), of "sd_outbox (sw_db s)"] typed_start [OF assms(1)]
  by (simp add: on_data_def outbox_inv_def)

theorem notifications_are_kept_and_sent_once_witness:
  "later_outbox [tg_sent, tg_pending] [tg_sent, tg_failed] \<and> ne_status tg_sent = NOTIFICATION_STATUS_SENT"
  using notifications_are_kept_and_sent_once [OF tg_typed tg_history]
  by (simp add: tg_after_def tg_start_def) (simp add: tg_sent_def)

section \<open>The bot token\<close>

lemma free_env:
  assumes "CHR '':'' \<in> set token" "CHR ''*'' \<notin> set token"
    and "\<forall>w secrets w'. se_telegram_secrets env w = (Inr (Some secrets), w') \<longrightarrow> ts_bot_token secrets = token"
  shows "good_env (token_free token) env"
  unfolding good_env_def good_sends_def send_message_def
proof (intro allI impI)
  fix w secrets w' m v r v'
  assume "se_telegram_secrets env w = (Inr (Some secrets), w')"
    "send_message_from env secrets m None 0 DEFAULT_MAX_SAFE_RETRIES v = (Inr r, v')"
  then show "pred_option (token_free token) (tr_safe_error r)"
    using assms send_free [of secrets env m None 0 DEFAULT_MAX_SAFE_RETRIES v r v'] by auto
qed

text \<open>
  C32. The bot token never reaches the database: whatever the exceptions and the responses of Telegram
  contain, no stored error of a notification contains the token, under any history that starts
  without one that does. (A token has a colon and no asterisk.)
\<close>

theorem bot_token_is_never_stored:
  assumes "CHR '':'' \<in> set token" "CHR ''*'' \<notin> set token"
    and "\<forall>w secrets w'. se_telegram_secrets env w = (Inr (Some secrets), w') \<longrightarrow> ts_bot_token secrets = token"
    and "typed_db (sw_db s)" "\<forall>e \<in> set (sd_outbox (sw_db s)). ne_last_error e = None" "shadow_history env config s t"
    and "e \<in> set (sd_outbox (sw_db t))" "ne_last_error e = Some err"
  shows "\<not> sublist token err"
proof -
  have "on_outbox (token_free token) (sd_outbox (sw_db s)) s"
    using assms(4,5) by (simp add: on_data_def outbox_inv_def later_outbox_refl good_errors_def)
  from history_outbox [OF free_env [OF assms(1-3)] this assms(6)] show ?thesis
    using assms(7,8) by (auto simp: on_data_def outbox_inv_def good_errors_def token_free_def)
qed

theorem bot_token_is_never_stored_witness:
  "\<not> sublist tg_token (the (ne_last_error tg_failed)) \<and> tg_failed \<in> set (sd_outbox (sw_db tg_after))"
proof -
  have token: "CHR '':'' \<in> set tg_token" "CHR ''*'' \<notin> set tg_token" by (simp_all add: tg_token_def)
  have env: "\<forall>w secrets w'. se_telegram_secrets tg_env w = (Inr (Some secrets), w') \<longrightarrow> ts_bot_token secrets = tg_token"
    by (simp add: tg_env_def)
  have none: "\<forall>e \<in> set (sd_outbox (sw_db tg_start)). ne_last_error e = None"
    by (simp add: tg_start_def tg_sent_def tg_pending_def new_event_def)
  have mem: "tg_failed \<in> set (sd_outbox (sw_db tg_after))" by (simp add: tg_after_def)
  have err: "ne_last_error tg_failed = Some (the (ne_last_error tg_failed))" by (simp add: tg_failed_def)
  from bot_token_is_never_stored [OF token env tg_typed none tg_history mem err] mem show ?thesis by blast
qed

section \<open>Delivery\<close>

text \<open>
  C33. When Telegram is configured, not switched off, and every request to it ends in some way, a flush
  ends and leaves nothing pending: it attempts every pending notification, each of them
  leaves as sent, ambiguous or failed, and the figures it returns are the numbers of rows that
  moved there.
\<close>

theorem flush_leaves_nothing_pending:
  assumes "telegram_ends env secrets" "is_telegram_active config (sw_notify_file s) = None"
    and "distinct (map ne_event_id (sd_outbox (sw_db s)))"
  shows "\<exists>r t. flush_pending_notifications env config s = (Inr r, t) \<and> fl_skipped_reason r = None \<and>
    fl_attempted r = status_count NOTIFICATION_STATUS_PENDING (sw_db s) \<and> fl_attempted r = fl_sent r + fl_ambiguous r + fl_failed r \<and>
    status_count NOTIFICATION_STATUS_PENDING (sw_db t) = 0 \<and>
    status_count NOTIFICATION_STATUS_SENT (sw_db t) = status_count NOTIFICATION_STATUS_SENT (sw_db s) + fl_sent r \<and>
    status_count NOTIFICATION_STATUS_AMBIGUOUS (sw_db t) = status_count NOTIFICATION_STATUS_AMBIGUOUS (sw_db s) + fl_ambiguous r \<and>
    status_count NOTIFICATION_STATUS_FAILED (sw_db t) = status_count NOTIFICATION_STATUS_FAILED (sw_db s) + fl_failed r"
proof -
  obtain w where w: "se_telegram_secrets env (sw_ext s) = (Inr (Some secrets), w)" using assms(1) unfolding telegram_ends_def by meson
  let ?s = "s\<lparr>sw_ext := w\<rparr>" and ?p = "filter (\<lambda>e. ne_status e = NOTIFICATION_STATUS_PENDING) (sd_outbox (sw_db s))"
  let ?pending = "list_notifications (Some NOTIFICATION_STATUS_PENDING) (sw_db ?s)"
  let ?r0 = "\<lparr>fl_attempted = int (length ?pending), fl_sent = 0, fl_ambiguous = 0, fl_failed = 0, fl_skipped_reason = None\<rparr>"
  have pending: "set ?pending = set ?p" "length ?pending = length ?p" by (simp_all add: list_notifications_def)
  have count: "status_count NOTIFICATION_STATUS_PENDING (sw_db s) = int (length ?pending)" unfolding status_count_def using pending(2) by simp
  have "distinct (map ne_event_id ?p)" using assms(3) by (rule distinct_map_filter)
  then have dist: "distinct (map ne_event_id ?pending)" by (simp add: list_notifications_def distinct_map inj_on_def)
  have db: "sw_db ?s = sw_db s" by simp
  obtain r t where r: "deliver_all env secrets ?pending ?r0 ?s = (Inr r, t)"
    "fl_skipped_reason r = fl_skipped_reason ?r0 \<and> fl_attempted r = fl_attempted ?r0 \<and>
    status_count NOTIFICATION_STATUS_PENDING (sw_db t) = status_count NOTIFICATION_STATUS_PENDING (sw_db ?s) - int (length ?pending) \<and>
    fl_sent r - fl_sent ?r0 = status_count NOTIFICATION_STATUS_SENT (sw_db t) - status_count NOTIFICATION_STATUS_SENT (sw_db ?s) \<and>
    fl_ambiguous r - fl_ambiguous ?r0 = status_count NOTIFICATION_STATUS_AMBIGUOUS (sw_db t) - status_count NOTIFICATION_STATUS_AMBIGUOUS (sw_db ?s) \<and>
    fl_failed r - fl_failed ?r0 = status_count NOTIFICATION_STATUS_FAILED (sw_db t) - status_count NOTIFICATION_STATUS_FAILED (sw_db ?s) \<and>
    fl_sent r + fl_ambiguous r + fl_failed r = fl_sent ?r0 + fl_ambiguous ?r0 + fl_failed ?r0 + int (length ?pending)"
    using deliver_all_ends [OF assms(1), of ?s ?pending ?r0] assms(3) dist pending(1) by auto
  have run: "flush_pending_notifications env config s = (Inr r, t)"
    using r(1) by (simp add: flush_pending_notifications_def except_exception_def flush_body_def scatch_def sbind_def assms(2)
        on_ext_def szoom_def w)
  show ?thesis by (rule exI [of _ r], rule exI [of _ t]) (use run r(2) count in auto)
qed

theorem flush_leaves_nothing_pending_witness:
  "\<exists>r t. flush_pending_notifications tg_env (shd_config\<lparr>cfg_telegram := \<lparr>tg_enabled = True\<rparr>\<rparr>) tg_start = (Inr r, t) \<and>
     fl_attempted r = 1 \<and> status_count NOTIFICATION_STATUS_PENDING (sw_db t) = 0"
proof -
  have ends: "telegram_ends tg_env \<lparr>ts_bot_token = tg_token, ts_chat_id = ''7''\<rparr>"
    by (simp add: telegram_ends_def tg_env_def shd_env_def)
  have on: "is_telegram_active (shd_config\<lparr>cfg_telegram := \<lparr>tg_enabled = True\<rparr>\<rparr>) (sw_notify_file tg_start) = None"
    by (simp add: is_telegram_active_def tg_start_def shd_start_def kill_is_engaged_def)
  have ids: "distinct (map ne_event_id (sd_outbox (sw_db tg_start)))" using tg_typed by (simp add: typed_db_def)
  have "status_count NOTIFICATION_STATUS_PENDING (sw_db tg_start) = 1"
    by (simp add: status_count_def tg_start_def tg_sent_def tg_pending_def new_event_def notification_statuses)
  then show ?thesis using flush_leaves_nothing_pending [OF ends on ids] by auto
qed

end
