(* ===== verification/Research_Blocks.thy ===== *)
theory Research_Blocks
  imports Backtest_Runs Candidate_Registry Gap_Recovery
begin

text \<open>
  The evaluation of a research candidate in blocks: a fixed number of blocks per gap-free
  segment (\<open>research/blocked_chronological_evaluation.py\<close>), or blocks of a fixed calendar
  duration, with an optional schedule that several candidates share
  (\<open>research/fixed_duration_evaluation.py\<close>). Every block is a fresh run behind a warm-up of its
  own. Warnings are the data their texts quote.
\<close>

definition DEFAULT_BLOCK_COUNT :: int where
  "DEFAULT_BLOCK_COUNT = 5"

section \<open>Results\<close>

record block_spec =
  bk_segment_index :: int
  bk_block_index :: int
  bk_warm_up_start_time_ms :: "int option"
  bk_warm_up_candle_count :: int
  bk_window_start_time_ms :: "int option"
  bk_window_end_time_ms :: "int option"
  bk_candle_count :: int
  bk_skipped_reason :: "string option"

record block_result =
  bl_block :: block_spec
  bl_performance :: "performance_report option"
  bl_diagnostics :: "run_diagnostics option"
  bl_extended :: "extended_report option"
  bl_open_position :: "open_position_info option"
  bl_ends_with_open_position :: bool
  bl_unresolved_pending_signal :: "signal_type option"
  bl_risk_reward :: "risk_reward_diagnostics option"
  bl_trades :: "trade list"

datatype block_warning =
    Nothing_To_Evaluate
  | Segment_Skipped int int int
  | Fewer_Blocks int int int int
  | Empty_Block int int
  | Block_Low_Trades int int int
  | Block_Pending int int signal_type

record blocked_result =
  cb_candidate_id :: string
  cb_family :: string
  cb_params :: payload
  cb_blocks :: "block_result list"
  cb_warnings :: "block_warning list"

definition skipped_block :: "int \<Rightarrow> int \<Rightarrow> int \<Rightarrow> string \<Rightarrow> block_result" where
  "skipped_block seg_idx block_idx candle_count reason =
     \<lparr>bl_block = \<lparr>bk_segment_index = seg_idx, bk_block_index = block_idx, bk_warm_up_start_time_ms = None, bk_warm_up_candle_count = 0,
        bk_window_start_time_ms = None, bk_window_end_time_ms = None, bk_candle_count = candle_count, bk_skipped_reason = Some reason\<rparr>,
      bl_performance = None, bl_diagnostics = None, bl_extended = None, bl_open_position = None, bl_ends_with_open_position = False,
      bl_unresolved_pending_signal = None, bl_risk_reward = None, bl_trades = []\<rparr>"

section \<open>One block\<close>

text \<open>What an evaluation builds from the candidate and the configuration.\<close>

definition prepare_candidate :: "pandas \<Rightarrow> candidate_spec \<Rightarrow> app_config \<Rightarrow> symbol_filters \<Rightarrow> run_setup result" where
  "prepare_candidate pd candidate config filters =
     bindr (cs_build candidate) (\<lambda>m.
     Inr \<lparr>rs_config = config, rs_filters = filters, rs_strategy = candidate_signal pd m, rs_broker = mk_broker (cfg_fees config),
          rs_min_required = candidate_min_required m, rs_starting_equity = dec_of_float (cfg_starting_equity (cfg_backtest config))\<rparr>)"

text \<open>A run under the fixed reward-to-risk policy.\<close>

definition policy_run :: "run_setup \<Rightarrow> candle list \<Rightarrow> journal_db option \<Rightarrow> (segment_run_result \<times> journal_db option) result" where
  "policy_run u window_slice j =
     run_segment window_slice (rs_config u) (rs_filters u) (rs_strategy u) (cfg_risk (rs_config u)) (rs_broker u) j
       (rs_min_required u) (rs_starting_equity u) True"

definition block_of ::
  "run_setup \<Rightarrow> int \<Rightarrow> int \<Rightarrow> int \<Rightarrow> segment_run_result \<Rightarrow> performance_report \<Rightarrow> extended_report \<Rightarrow> candle \<Rightarrow> candle \<Rightarrow> candle \<Rightarrow> block_result" where
  "block_of u seg_idx block_idx candle_count r report extended warm_candle first_candle last_candle =
     \<lparr>bl_block = \<lparr>bk_segment_index = seg_idx, bk_block_index = block_idx, bk_warm_up_start_time_ms = Some (open_time_ms warm_candle),
        bk_warm_up_candle_count = rs_min_required u - 1, bk_window_start_time_ms = Some (open_time_ms first_candle),
        bk_window_end_time_ms = Some (close_time_ms last_candle), bk_candle_count = candle_count, bk_skipped_reason = None\<rparr>,
      bl_performance = Some report, bl_diagnostics = Some (sr_diagnostics r), bl_extended = Some extended,
      bl_open_position = sr_open_position r, bl_ends_with_open_position = sr_ends_with_open_position r,
      bl_unresolved_pending_signal = sr_pending_signal r, bl_risk_reward = sr_risk_reward r, bl_trades = sr_trades r\<rparr>"

definition block_warnings :: "int \<Rightarrow> int \<Rightarrow> performance_report \<Rightarrow> segment_run_result \<Rightarrow> block_warning list" where
  "block_warnings seg_idx block_idx report r =
     (if pr_low_trade_count_warning report then [Block_Low_Trades seg_idx block_idx (pr_trade_count report)] else []) @
     (case sr_pending_signal r of None \<Rightarrow> [] | Some ty \<Rightarrow> [Block_Pending seg_idx block_idx ty])"

definition run_block ::
  "platform \<Rightarrow> run_setup \<Rightarrow> int \<Rightarrow> int \<Rightarrow> candle list \<Rightarrow> int \<Rightarrow> int \<Rightarrow> journal_db option
    \<Rightarrow> (block_result \<times> block_warning list \<times> journal_db option) result" where
  "run_block pl u seg_idx block_idx segment start_idx end_idx j =
     (let warm_up_start_idx = start_idx - (rs_min_required u - 1) in
      bindr (policy_run u (slice warm_up_start_idx end_idx segment) j) (\<lambda>(r, j').
      bindr (window_report pl u (slice start_idx end_idx segment) (sr_trades r) (sr_equity_curve r)) (\<lambda>report.
      bindr (nth_res segment (end_idx - 1)) (\<lambda>last_candle.
      bindr (compute_extended_diagnostics (pl_draw pl) (sr_trades r) (sr_equity_curve r) (run_end u last_candle r) report
        (sr_diagnostics r) False False) (\<lambda>extended.
      bindr (nth_res segment warm_up_start_idx) (\<lambda>warm_candle.
      bindr (nth_res segment start_idx) (\<lambda>first_candle.
      Inr (block_of u seg_idx block_idx (end_idx - start_idx) r report extended warm_candle first_candle last_candle,
           block_warnings seg_idx block_idx report r, j'))))))))"

section \<open>A fixed number of blocks\<close>

fun boundaries_loop :: "int \<Rightarrow> int \<Rightarrow> int \<Rightarrow> nat list \<Rightarrow> (int \<times> int) list" where
  "boundaries_loop base remainder cursor [] = []"
| "boundaries_loop base remainder cursor (k # ks) =
     (let size = base + (if int k < remainder then 1 else 0)
      in (cursor, cursor + size) # boundaries_loop base remainder (cursor + size) ks)"

definition block_boundaries :: "int \<Rightarrow> int \<Rightarrow> int \<Rightarrow> (int \<times> int) list" where
  "block_boundaries first_tradable_idx n block_count =
     (let tradable_n = n - first_tradable_idx
      in boundaries_loop (tradable_n div block_count) (tradable_n mod block_count) first_tradable_idx [0 ..< nat block_count])"

record block_acc =
  ba_blocks :: "block_result list"
  ba_warnings :: "block_warning list"
  ba_journal :: "journal_db option"

definition blocked_step ::
  "platform \<Rightarrow> run_setup \<Rightarrow> int \<Rightarrow> candle list \<Rightarrow> block_acc \<Rightarrow> nat \<times> int \<times> int \<Rightarrow> block_acc result" where
  "blocked_step pl u seg_idx segment acc = (\<lambda>(block_idx, start_idx, end_idx).
     if end_idx \<le> start_idx
     then Inr (acc\<lparr>ba_warnings := ba_warnings acc @ [Empty_Block seg_idx (int block_idx)],
                   ba_blocks := ba_blocks acc @ [skipped_block seg_idx (int block_idx) 0 ''empty block range'']\<rparr>)
     else bindr (run_block pl u seg_idx (int block_idx) segment start_idx end_idx (ba_journal acc)) (\<lambda>(b, ws, j).
       Inr (acc\<lparr>ba_warnings := ba_warnings acc @ ws, ba_blocks := ba_blocks acc @ [b], ba_journal := j\<rparr>)))"

definition blocked_segment :: "platform \<Rightarrow> run_setup \<Rightarrow> int \<Rightarrow> block_acc \<Rightarrow> nat \<times> candle list \<Rightarrow> block_acc result" where
  "blocked_segment pl u block_count acc = (\<lambda>(i, segment).
     let seg_idx = int i; n = int (length segment); m = rs_min_required u in
     if n < m
     then Inr (acc\<lparr>ba_warnings := ba_warnings acc @ [Segment_Skipped seg_idx n m],
                   ba_blocks := ba_blocks acc @ [skipped_block seg_idx 0 n ''segment too small for warm-up'']\<rparr>)
     else
       let first_tradable_idx = m - 1;
           tradable_n = n - first_tradable_idx;
           effective_block_count = (if 0 < tradable_n then min block_count tradable_n else 0);
           acc' = (if effective_block_count < block_count
             then acc\<lparr>ba_warnings := ba_warnings acc @ [Fewer_Blocks seg_idx tradable_n effective_block_count block_count]\<rparr> else acc)
       in if effective_block_count = 0 then Inr acc'
          else foldr_res (blocked_step pl u seg_idx segment) acc'
            (List.enumerate 0 (block_boundaries first_tradable_idx n effective_block_count)))"

definition block_acc_start :: "journal_db option \<Rightarrow> block_acc" where
  "block_acc_start j = \<lparr>ba_blocks = [], ba_warnings = [], ba_journal = j\<rparr>"

definition blocked_result_of :: "candidate_spec \<Rightarrow> block_result list \<Rightarrow> block_warning list \<Rightarrow> blocked_result" where
  "blocked_result_of candidate blocks warnings =
     \<lparr>cb_candidate_id = cs_candidate_id candidate, cb_family = cs_family candidate, cb_params = cs_params candidate,
      cb_blocks = blocks, cb_warnings = warnings\<rparr>"

definition run_candidate_blocked_chronological_evaluation ::
  "platform \<Rightarrow> pandas \<Rightarrow> candidate_spec \<Rightarrow> candle list \<Rightarrow> app_config \<Rightarrow> symbol_filters \<Rightarrow> journal_db option \<Rightarrow> int
    \<Rightarrow> (blocked_result \<times> journal_db option) result" where
  "run_candidate_blocked_chronological_evaluation pl pd candidate pre_cutoff_candles config filters j block_count =
     bindr (assert_pre_cutoff pre_cutoff_candles) (\<lambda>_.
     if block_count \<le> 0 then Inl (ValueError ''block_count'')
     else bindr (prepare_candidate pd candidate config filters) (\<lambda>u.
       if pre_cutoff_candles = [] then Inr (blocked_result_of candidate [] [Nothing_To_Evaluate], j)
       else bindr (partition_into_segments pre_cutoff_candles (cfg_interval (cfg_market config))) (\<lambda>segmentation.
         bindr (foldr_res (blocked_segment pl u block_count) (block_acc_start j) (List.enumerate 0 (segments segmentation))) (\<lambda>acc.
         Inr (blocked_result_of candidate (ba_blocks acc) (ba_warnings acc), ba_journal acc)))))"

section \<open>Blocks of a fixed duration\<close>

text \<open>\<open>bisect.bisect_left(xs, x, lo, hi)\<close>.\<close>

function bisect_left :: "int list \<Rightarrow> int \<Rightarrow> nat \<Rightarrow> nat \<Rightarrow> nat" where
  "bisect_left xs x lo hi =
     (if lo < hi
      then let mid = (lo + hi) div 2
           in if xs ! mid < x then bisect_left xs x (mid + 1) hi else bisect_left xs x lo mid
      else lo)"
  by pat_completeness auto
termination
  by (relation "measure (\<lambda>(_, _, lo, hi). hi - lo)") auto

declare bisect_left.simps [simp del]

definition open_times :: "candle list \<Rightarrow> int list" where
  "open_times segment = map open_time_ms segment"

record duration_fragment =
  df_segment_index :: int
  df_segment_start_time_ms :: int
  df_segment_end_time_ms :: int
  df_candle_count :: int
  df_available_tradable_duration_days :: flt

record leftover_window =
  lo_segment_index :: int
  lo_window_start_time_ms :: int
  lo_window_end_time_ms :: int
  lo_candle_count :: int
  lo_duration_days :: flt

record scheduled_window =
  wd_segment_index :: int
  wd_block_index :: int
  wd_window_start_time_ms :: int
  wd_window_end_time_ms :: int

record block_schedule =
  sk_block_duration_days :: int
  sk_anchor_warm_up_candles_required :: int
  sk_windows :: "scheduled_window list"
  sk_fragments :: "duration_fragment list"
  sk_leftovers :: "leftover_window list"

definition segment_tradable_span :: "candle list \<Rightarrow> int \<Rightarrow> int \<Rightarrow> (int list \<times> int \<times> int) result" where
  "segment_tradable_span segment first_tradable_idx step_ms =
     bindr (nth_res (open_times segment) first_tradable_idx) (\<lambda>tradable_start_ms.
     bindr (nth_res (open_times segment) (-1)) (\<lambda>last_open.
     Inr (open_times segment, tradable_start_ms, last_open - tradable_start_ms + step_ms)))"

definition fragment_of :: "int \<Rightarrow> candle list \<Rightarrow> flt \<Rightarrow> duration_fragment result" where
  "fragment_of seg_idx segment days =
     bindr (nth_res segment 0) (\<lambda>first. bindr (nth_res segment (-1)) (\<lambda>lst.
     Inr \<lparr>df_segment_index = seg_idx, df_segment_start_time_ms = open_time_ms first, df_segment_end_time_ms = close_time_ms lst,
          df_candle_count = int (length segment), df_available_tradable_duration_days = days\<rparr>))"

text \<open>The rest of a segment after its last complete block.\<close>

definition leftover_of :: "int \<Rightarrow> candle list \<Rightarrow> int \<Rightarrow> int \<Rightarrow> int \<Rightarrow> leftover_window list result" where
  "leftover_of seg_idx segment first_tradable_idx step_ms leftover_start_ms =
     bindr (nth_res segment (-1)) (\<lambda>lst.
     let segment_end_ms = open_time_ms lst + step_ms; n = length segment in
     if leftover_start_ms < segment_end_ms
     then
       let i = bisect_left (open_times segment) leftover_start_ms (nat first_tradable_idx) n
       in if i < n
          then Inr [\<lparr>lo_segment_index = seg_idx, lo_window_start_time_ms = open_time_ms (segment ! i), lo_window_end_time_ms = close_time_ms lst,
                     lo_candle_count = int n - int i, lo_duration_days = int_truediv (segment_end_ms - leftover_start_ms) MS_PER_DAY\<rparr>]
          else Inr []
     else Inr [])"

text \<open>
  What one segment contributes under an anchor: the fragment it is when there is no complete
  block, or its complete windows and the rest. The schedule and the evaluation without one
  both walk the segments this way.
\<close>

datatype segment_cut = Too_Short duration_fragment | Cut "scheduled_window list" "leftover_window list"

definition duration_windows :: "int \<Rightarrow> int \<Rightarrow> int \<Rightarrow> int \<Rightarrow> scheduled_window list" where
  "duration_windows seg_idx tradable_start_ms block_duration_ms possible_blocks =
     map (\<lambda>k. \<lparr>wd_segment_index = seg_idx, wd_block_index = int k, wd_window_start_time_ms = tradable_start_ms + int k * block_duration_ms,
              wd_window_end_time_ms = tradable_start_ms + int k * block_duration_ms + block_duration_ms\<rparr>) [0 ..< nat possible_blocks]"

definition cut_segment :: "int \<Rightarrow> int \<Rightarrow> int \<Rightarrow> int \<Rightarrow> candle list \<Rightarrow> segment_cut result" where
  "cut_segment anchor step_ms block_duration_ms seg_idx segment =
     (if int (length segment) < anchor
      then bindr (fragment_of seg_idx segment 0) (\<lambda>f. Inr (Too_Short f))
      else bindr (segment_tradable_span segment (anchor - 1) step_ms) (\<lambda>(_, tradable_start_ms, total_tradable_span_ms).
        let possible_blocks = total_tradable_span_ms div block_duration_ms in
        if possible_blocks = 0
        then bindr (fragment_of seg_idx segment (int_truediv total_tradable_span_ms MS_PER_DAY)) (\<lambda>f. Inr (Too_Short f))
        else bindr (leftover_of seg_idx segment (anchor - 1) step_ms (tradable_start_ms + possible_blocks * block_duration_ms)) (\<lambda>rest.
          Inr (Cut (duration_windows seg_idx tradable_start_ms block_duration_ms possible_blocks) rest))))"

section \<open>Schedules\<close>

definition window_checked :: "int \<Rightarrow> scheduled_window \<Rightarrow> unit result" where
  "window_checked segment_last_close_ms w =
     (if segment_last_close_ms + 1 < wd_window_end_time_ms w then Inl (ProjectError ''ScheduleWindowOutOfRangeError'') else Inr ())"

definition schedule_segment :: "int \<Rightarrow> int \<Rightarrow> block_schedule \<Rightarrow> nat \<times> candle list \<Rightarrow> block_schedule result" where
  "schedule_segment step_ms block_duration_ms sk = (\<lambda>(i, segment).
     bindr (cut_segment (sk_anchor_warm_up_candles_required sk) step_ms block_duration_ms (int i) segment) (\<lambda>cut.
     case cut of
       Too_Short f \<Rightarrow> Inr (sk\<lparr>sk_fragments := sk_fragments sk @ [f]\<rparr>)
     | Cut ws rest \<Rightarrow>
         bindr (nth_res segment (-1)) (\<lambda>lst.
         bindr (map_res (window_checked (close_time_ms lst)) ws) (\<lambda>_.
         Inr (sk\<lparr>sk_windows := sk_windows sk @ ws, sk_leftovers := sk_leftovers sk @ rest\<rparr>)))))"

definition window_valid :: "int \<Rightarrow> scheduled_window \<Rightarrow> unit result" where
  "window_valid expected_duration_ms w =
     (if wd_window_end_time_ms w - wd_window_start_time_ms w \<noteq> expected_duration_ms
      then Inl (ProjectError ''ScheduleDurationMismatchError'')
      else if RESEARCH_CUTOFF_MS < wd_window_end_time_ms w then Inl (ProjectError ''ScheduleCutoffViolationError'') else Inr ())"

fun pairs_apart :: "scheduled_window list \<Rightarrow> unit result" where
  "pairs_apart (w # v # ws) =
     (if wd_window_start_time_ms v < wd_window_end_time_ms w then Inl (ProjectError ''ScheduleOverlapError'') else pairs_apart (v # ws))"
| "pairs_apart ws = Inr ()"

definition validate_schedule :: "block_schedule \<Rightarrow> unit result" where
  "validate_schedule sk =
     bindr (map_res (window_valid (sk_block_duration_days sk * MS_PER_DAY)) (sk_windows sk)) (\<lambda>_.
     pairs_apart (sort_key wd_window_start_time_ms (sk_windows sk)))"

definition empty_schedule :: "int \<Rightarrow> int \<Rightarrow> block_schedule" where
  "empty_schedule block_duration_days anchor =
     \<lparr>sk_block_duration_days = block_duration_days, sk_anchor_warm_up_candles_required = anchor,
      sk_windows = [], sk_fragments = [], sk_leftovers = []\<rparr>"

definition build_fixed_duration_schedule :: "candle list \<Rightarrow> app_config \<Rightarrow> int \<Rightarrow> int \<Rightarrow> block_schedule result" where
  "build_fixed_duration_schedule pre_cutoff_candles config anchor block_duration_days =
     bindr (assert_pre_cutoff pre_cutoff_candles) (\<lambda>_.
     if anchor \<le> 0 then Inl (ValueError ''anchor'')
     else if block_duration_days \<le> 0 then Inl (ValueError ''block_duration_days'')
     else bindr (interval_to_ms (cfg_interval (cfg_market config))) (\<lambda>step_ms.
       if pre_cutoff_candles = [] then Inr (empty_schedule block_duration_days anchor)
       else bindr (partition_into_segments pre_cutoff_candles (cfg_interval (cfg_market config))) (\<lambda>segmentation.
         bindr (foldr_res (schedule_segment step_ms (block_duration_days * MS_PER_DAY)) (empty_schedule block_duration_days anchor)
           (List.enumerate 0 (segments segmentation))) (\<lambda>sk.
         bindr (validate_schedule sk) (\<lambda>_.
         Inr sk)))))"

section \<open>Evaluation\<close>

text \<open>The candles of a window: their indices, or \<open>None\<close> when the segment does not cover it.\<close>

definition window_range :: "candle list \<Rightarrow> scheduled_window \<Rightarrow> (int \<times> int) option" where
  "window_range segment w =
     (let n = length segment;
          start_idx = bisect_left (open_times segment) (wd_window_start_time_ms w) 0 n;
          end_idx = bisect_left (open_times segment) (wd_window_end_time_ms w) start_idx n;
          runs_past = (end_idx = n \<and> (n = 0 \<or> close_time_ms (last segment) + 1 < wd_window_end_time_ms w))
      in if end_idx \<le> start_idx \<or> runs_past then None else Some (int start_idx, int end_idx))"

definition evaluate_duration_block ::
  "platform \<Rightarrow> run_setup \<Rightarrow> bool \<Rightarrow> candle list \<Rightarrow> block_acc \<Rightarrow> scheduled_window \<Rightarrow> block_acc result" where
  "evaluate_duration_block pl u strict segment acc w =
     (case window_range segment w of
        None \<Rightarrow>
          if strict then Inl (ProjectError ''ScheduleWindowOutOfRangeError'')
          else Inr (acc\<lparr>ba_warnings := ba_warnings acc @ [Empty_Block (wd_segment_index w) (wd_block_index w)],
                        ba_blocks := ba_blocks acc @
                          [skipped_block (wd_segment_index w) (wd_block_index w) 0 ''empty duration-block range'']\<rparr>)
      | Some (start_idx, end_idx) \<Rightarrow>
          if start_idx - (rs_min_required u - 1) < 0 then Inl (ProjectError ''InsufficientWarmUpForScheduleError'')
          else bindr (run_block pl u (wd_segment_index w) (wd_block_index w) segment start_idx end_idx (ba_journal acc)) (\<lambda>(b, ws, j).
            Inr (acc\<lparr>ba_warnings := ba_warnings acc @ ws, ba_blocks := ba_blocks acc @ [b], ba_journal := j\<rparr>)))"

record duration_result =
  cf_candidate_id :: string
  cf_family :: string
  cf_params :: payload
  cf_blocks :: "block_result list"
  cf_fragments :: "duration_fragment list"
  cf_leftovers :: "leftover_window list"
  cf_warnings :: "block_warning list"

definition as_blocked_chronological_result :: "duration_result \<Rightarrow> blocked_result" where
  "as_blocked_chronological_result r =
     \<lparr>cb_candidate_id = cf_candidate_id r, cb_family = cf_family r, cb_params = cf_params r,
      cb_blocks = cf_blocks r, cb_warnings = cf_warnings r\<rparr>"

definition duration_result_of ::
  "candidate_spec \<Rightarrow> block_acc \<Rightarrow> duration_fragment list \<Rightarrow> leftover_window list \<Rightarrow> duration_result" where
  "duration_result_of candidate acc fragments leftovers =
     \<lparr>cf_candidate_id = cs_candidate_id candidate, cf_family = cs_family candidate, cf_params = cs_params candidate,
      cf_blocks = ba_blocks acc, cf_fragments = fragments, cf_leftovers = leftovers, cf_warnings = ba_warnings acc\<rparr>"

text \<open>One block after the other, from a schedule.\<close>

definition scheduled_step ::
  "platform \<Rightarrow> run_setup \<Rightarrow> candle list list \<Rightarrow> block_acc \<Rightarrow> scheduled_window \<Rightarrow> block_acc result" where
  "scheduled_step pl u segs acc w =
     bindr (nth_res segs (wd_segment_index w)) (\<lambda>segment. evaluate_duration_block pl u True segment acc w)"

text \<open>Or from the segments, each cut at the candidate's own warm-up.\<close>

record duration_acc =
  da_acc :: block_acc
  da_fragments :: "duration_fragment list"
  da_leftovers :: "leftover_window list"

definition unscheduled_segment :: "platform \<Rightarrow> run_setup \<Rightarrow> int \<Rightarrow> int \<Rightarrow> duration_acc \<Rightarrow> nat \<times> candle list \<Rightarrow> duration_acc result" where
  "unscheduled_segment pl u step_ms block_duration_ms d = (\<lambda>(i, segment).
     bindr (cut_segment (rs_min_required u) step_ms block_duration_ms (int i) segment) (\<lambda>cut.
     case cut of
       Too_Short f \<Rightarrow> Inr (d\<lparr>da_fragments := da_fragments d @ [f]\<rparr>)
     | Cut ws rest \<Rightarrow>
         bindr (foldr_res (evaluate_duration_block pl u False segment) (da_acc d) ws) (\<lambda>acc.
         Inr (d\<lparr>da_acc := acc, da_leftovers := da_leftovers d @ rest\<rparr>))))"

definition run_candidate_fixed_duration_evaluation ::
  "platform \<Rightarrow> pandas \<Rightarrow> candidate_spec \<Rightarrow> candle list \<Rightarrow> app_config \<Rightarrow> symbol_filters \<Rightarrow> journal_db option \<Rightarrow> int
    \<Rightarrow> block_schedule option \<Rightarrow> (duration_result \<times> journal_db option) result" where
  "run_candidate_fixed_duration_evaluation pl pd candidate pre_cutoff_candles config filters j block_duration_days schedule =
     bindr (assert_pre_cutoff pre_cutoff_candles) (\<lambda>_.
     if block_duration_days \<le> 0 then Inl (ValueError ''block_duration_days'')
     else bindr (interval_to_ms (cfg_interval (cfg_market config))) (\<lambda>step_ms.
       bindr (prepare_candidate pd candidate config filters) (\<lambda>u.
       if pre_cutoff_candles = []
       then Inr (duration_result_of candidate ((block_acc_start j)\<lparr>ba_warnings := [Nothing_To_Evaluate]\<rparr>) [] [], j)
       else bindr (partition_into_segments pre_cutoff_candles (cfg_interval (cfg_market config))) (\<lambda>segmentation.
         case schedule of
           Some sk \<Rightarrow>
             if sk_block_duration_days sk \<noteq> block_duration_days then Inl (ProjectError ''ScheduleDurationMismatchError'')
             else bindr (foldr_res (scheduled_step pl u (segments segmentation)) (block_acc_start j) (sk_windows sk)) (\<lambda>acc.
               Inr (duration_result_of candidate acc (sk_fragments sk) (sk_leftovers sk), ba_journal acc))
         | None \<Rightarrow>
             bindr (foldr_res (unscheduled_segment pl u step_ms (block_duration_days * MS_PER_DAY))
               \<lparr>da_acc = block_acc_start j, da_fragments = [], da_leftovers = []\<rparr> (List.enumerate 0 (segments segmentation))) (\<lambda>d.
             Inr (duration_result_of candidate (da_acc d) (da_fragments d) (da_leftovers d), ba_journal (da_acc d)))))))"

end
