(* ===== verification/Block_Facts.thy ===== *)
theory Block_Facts
  imports Research_Blocks Report_Properties Bucket_Facts
begin

text \<open>
  What the blocks of an evaluation cover: the ranges of a fixed number of blocks tile the
  tradable candles, a window of a schedule resolves to the candles between its ends, and the
  loops append one result per block.
\<close>

section \<open>Loops that append\<close>

lemma foldr_res_collect:
  assumes "foldr_res f s xs = Inr t"
    and "\<And>s x s'. x \<in> set xs \<Longrightarrow> f s x = Inr s' \<Longrightarrow> \<exists>y. view s' = view s @ y \<and> P x y"
  shows "\<exists>ys. view t = view s @ concat ys \<and> list_all2 P xs ys"
  using assms
proof (induction xs arbitrary: s)
  case (Cons x xs)
  obtain u where u: "f s x = Inr u" "foldr_res f u xs = Inr t" using Cons.prems(1) by auto
  obtain y where y: "view u = view s @ y" "P x y" using Cons.prems(2) [OF _ u(1)] by auto
  have "\<exists>ys. view t = view u @ concat ys \<and> list_all2 P xs ys" by (rule Cons.IH [OF u(2)]) (rule Cons.prems(2), auto)
  then obtain ys where "view t = view u @ concat ys" "list_all2 P xs ys" by blast
  then show ?case using y by (intro exI [of _ "y # ys"]) simp
qed simp

text \<open>One row per element.\<close>

lemma foldr_res_rows:
  assumes "foldr_res f s xs = Inr t"
    and "\<And>s x s'. x \<in> set xs \<Longrightarrow> f s x = Inr s' \<Longrightarrow> \<exists>y. view s' = view s @ [y] \<and> g y = h x"
  shows "\<exists>ys. view t = view s @ ys \<and> map g ys = map h xs"
  using assms
proof (induction xs arbitrary: s)
  case (Cons x xs)
  obtain u where u: "f s x = Inr u" "foldr_res f u xs = Inr t" using Cons.prems(1) by auto
  obtain y where y: "view u = view s @ [y]" "g y = h x" using Cons.prems(2) [OF _ u(1)] by auto
  have "\<exists>ys. view t = view u @ ys \<and> map g ys = map h xs" by (rule Cons.IH [OF u(2)]) (rule Cons.prems(2), auto)
  then obtain ys where "view t = view u @ ys" "map g ys = map h xs" by blast
  then show ?case using y by (intro exI [of _ "y # ys"]) simp
qed simp

lemma enumerate_snd: "x \<in> set (List.enumerate n xs) \<Longrightarrow> snd x \<in> set xs"
  by (metis imageI list.set_map map_snd_enumerate)

lemma filter_concat_indexed:
  assumes "list_all2 (\<lambda>(k, x) ys. \<forall>y \<in> set ys. idx y = int k) (List.enumerate n xs) yss" "i < length xs"
  shows "filter (\<lambda>y. idx y = int (n + i)) (concat yss) = yss ! i"
  using assms
proof (induction xs arbitrary: n yss i)
  case (Cons x xs)
  obtain ys zss where yss: "yss = ys # zss" "\<forall>y \<in> set ys. idx y = int n"
    "list_all2 (\<lambda>(k, x) ys. \<forall>y \<in> set ys. idx y = int k) (List.enumerate (Suc n) xs) zss"
    using Cons.prems(1) by (auto simp: list_all2_Cons1)
  have later: "\<forall>y \<in> set zs. int n < idx y" if "zs \<in> set zss" for zs
  proof -
    obtain k where k: "k < length zss" "zs = zss ! k" using \<open>zs \<in> set zss\<close> by (auto simp: in_set_conv_nth)
    then have "\<forall>y \<in> set zs. idx y = int (Suc n + k)"
      using list_all2_nthD2 [OF yss(3) k(1)] list_all2_lengthD [OF yss(3)] by (simp add: nth_enumerate_eq)
    then show ?thesis by simp
  qed
  show ?case
  proof (cases i)
    case 0
    have "filter (\<lambda>y. idx y = int n) (concat zss) = []" using later by (fastforce simp: filter_empty_conv)
    then show ?thesis using 0 yss(2) by (simp add: yss(1) filter_id_conv)
  next
    case (Suc k)
    have "filter (\<lambda>y. idx y = int (n + i)) ys = []" using yss(2) Suc by (auto simp: filter_empty_conv)
    then show ?thesis using Cons.IH [OF yss(3), of k] Cons.prems(2) Suc by (simp add: yss(1))
  qed
qed simp

section \<open>Tiles\<close>

lemma slice_join:
  assumes "0 \<le> a" "a \<le> b" "b \<le> c"
  shows "slice a b xs @ slice b c xs = slice a c xs"
proof -
  have "nat c - nat a = (nat b - nat a) + (nat c - nat b)" "nat b = nat a + (nat b - nat a)" using assms by linarith+
  then show ?thesis unfolding slice_def by (metis drop_drop take_add add.commute)
qed

lemma slice_length: "0 \<le> a \<Longrightarrow> b \<le> int (length xs) \<Longrightarrow> a \<le> b \<Longrightarrow> int (length (slice a b xs)) = b - a"
  by (simp add: slice_def)

lemma slice_hd:
  assumes "0 \<le> a" "a < b" "b \<le> int (length xs)"
  shows "hd (slice a b xs) = xs ! nat a"
proof -
  have "0 < nat b - nat a" "nat a < length xs" using assms by linarith+
  then show ?thesis by (simp add: slice_def hd_conv_nth)
qed

text \<open>The ranges follow each other, each with \<open>base\<close> candles or one more.\<close>

fun chained :: "int \<Rightarrow> (int \<times> int) list \<Rightarrow> int \<Rightarrow> bool" where
  "chained a [] b \<longleftrightarrow> a = b"
| "chained a ((x, y) # xs) b \<longleftrightarrow> x = a \<and> x < y \<and> chained y xs b"

lemma chained_le: "chained a xs b \<Longrightarrow> a \<le> b"
  by (induction a xs b rule: chained.induct) auto

lemma chained_within: "chained a xs b \<Longrightarrow> (x, y) \<in> set xs \<Longrightarrow> a \<le> x \<and> x < y \<and> y \<le> b"
proof (induction a xs b rule: chained.induct)
  case (2 a x' y' xs b)
  then show ?case using chained_le by fastforce
qed simp

lemma chained_tiles: "chained a xs b \<Longrightarrow> 0 \<le> a \<Longrightarrow> concat (map (\<lambda>(x, y). slice x y cs) xs) = slice a b cs"
proof (induction a xs b rule: chained.induct)
  case (2 a x y xs b)
  then show ?case using slice_join [of a y b cs] chained_le by auto
qed (simp add: slice_def)

lemma boundaries_chained:
  assumes "1 \<le> base"
    and "e = cursor + base * int (length ks) + int (length (filter (\<lambda>k. int k < remainder) ks))"
  shows "chained cursor (boundaries_loop base remainder cursor ks) e"
  using assms by (induction ks arbitrary: cursor) (simp_all add: Let_def algebra_simps)

lemma boundaries_sizes: "(x, y) \<in> set (boundaries_loop base remainder cursor ks) \<Longrightarrow> y - x = base \<or> y - x = base + 1"
  by (induction ks arbitrary: cursor) (auto simp: Let_def split: if_splits)

lemma boundaries_length: "length (boundaries_loop base remainder cursor ks) = length ks"
  by (induction ks arbitrary: cursor) (simp_all add: Let_def)

lemma below_count: "0 \<le> r \<Longrightarrow> r \<le> int c \<Longrightarrow> int (length (filter (\<lambda>k. int k < r) [0 ..< c])) = r"
proof -
  assume r: "0 \<le> r" "r \<le> int c"
  have "filter (\<lambda>k. int k < r) [0 ..< c] = [0 ..< nat r]"
  proof (rule sorted_distinct_set_unique)
    show "set (filter (\<lambda>k. int k < r) [0 ..< c]) = set [0 ..< nat r]" using r by (auto simp: zless_nat_eq_int_zless)
  qed (simp_all add: sorted_wrt_filter)
  then show ?thesis using r by simp
qed

lemma block_boundaries_spec:
  assumes "0 < m" "m \<le> n - first"
  shows "chained first (block_boundaries first n m) n" "length (block_boundaries first n m) = nat m"
    "(x, y) \<in> set (block_boundaries first n m) \<Longrightarrow> y - x = (n - first) div m \<or> y - x = (n - first) div m + 1"
proof -
  let ?t = "n - first"
  have base: "1 \<le> ?t div m" using assms by (simp add: pos_imp_zdiv_pos_iff int_one_le_iff_zero_less)
  have "?t mod m \<le> int (nat m)" "0 \<le> ?t mod m" using assms by (simp_all add: less_imp_le)
  then have "int (length (filter (\<lambda>k. int k < ?t mod m) [0 ..< nat m])) = ?t mod m" by (simp add: below_count)
  then have "first + ?t div m * int (length [0 ..< nat m]) + int (length (filter (\<lambda>k. int k < ?t mod m) [0 ..< nat m])) = n"
    using assms(1) by simp
  then show "chained first (block_boundaries first n m) n"
    using boundaries_chained [OF base, of n first "[0 ..< nat m]" "?t mod m"] by (simp add: block_boundaries_def Let_def)
  show "length (block_boundaries first n m) = nat m" by (simp add: block_boundaries_def Let_def boundaries_length)
  show "y - x = ?t div m \<or> y - x = ?t div m + 1" if "(x, y) \<in> set (block_boundaries first n m)"
    using that boundaries_sizes by (simp add: block_boundaries_def Let_def)
qed

section \<open>What a block covers\<close>

text \<open>The window of a block: its first and last time, its size, and whether it was skipped.\<close>

definition window_of :: "block_result \<Rightarrow> int option \<times> int option \<times> int \<times> string option" where
  "window_of b = (let k = bl_block b in (bk_window_start_time_ms k, bk_window_end_time_ms k, bk_candle_count k, bk_skipped_reason k))"

definition index_of :: "block_result \<Rightarrow> int" where
  "index_of b = bk_segment_index (bl_block b)"

lemma run_block_spec:
  assumes "run_block pl u seg_idx block_idx segment a b j = Inr (blk, ws, j')" "1 \<le> rs_min_required u" "0 \<le> a - (rs_min_required u - 1)" "a < b"
  shows "b \<le> int (length segment)"
    "bl_block blk = \<lparr>bk_segment_index = seg_idx, bk_block_index = block_idx,
       bk_warm_up_start_time_ms = Some (open_time_ms (segment ! nat (a - (rs_min_required u - 1)))),
       bk_warm_up_candle_count = rs_min_required u - 1, bk_window_start_time_ms = Some (open_time_ms (segment ! nat a)),
       bk_window_end_time_ms = Some (close_time_ms (segment ! nat (b - 1))), bk_candle_count = b - a, bk_skipped_reason = None\<rparr>"
    "\<exists>e d. bl_extended blk = Some e \<and> ai_identity_holds (er_accounting e) \<and> bl_diagnostics blk = Some d \<and>
       rd_starting_equity d = rs_starting_equity u"
proof -
  let ?w = "a - (rs_min_required u - 1)"
  obtain r j1 report lc e wc fc where 1: "policy_run u (slice ?w b segment) j = Inr (r, j1)" "nth_res segment (b - 1) = Inr lc"
    "compute_extended_diagnostics (pl_draw pl) (sr_trades r) (sr_equity_curve r) (run_end u lc r) report (sr_diagnostics r) False False = Inr e"
    "nth_res segment ?w = Inr wc" "nth_res segment a = Inr fc"
    "blk = block_of u seg_idx block_idx (b - a) r report e wc fc lc"
    using assms(1) unfolding run_block_def Let_def by clarsimp
  have n: "nat (b - 1) < length segment" "lc = segment ! nat (b - 1)" "wc = segment ! nat ?w" "fc = segment ! nat a"
    using nth_res_pos [OF _ 1(2)] nth_res_pos [OF _ 1(4)] nth_res_pos [OF _ 1(5)] assms(2-4) by simp_all
  show "b \<le> int (length segment)" using n(1) assms(2-4) by linarith
  then have last: "last (slice ?w b segment) = lc" using slice_last [of ?w b segment] assms(2-4) n(2) by simp
  have run: "run_segment (slice ?w b segment) (rs_config u) (rs_filters u) (rs_strategy u) (cfg_risk (rs_config u)) (rs_broker u) j
       (rs_min_required u) (rs_starting_equity u) True = Inr (r, j1)" using 1(1) by (simp add: policy_run_def)
  have "ai_identity_holds (er_accounting e)"
    using run_segment_records [OF run assms(2)] last by (simp add: extended_accounting [OF 1(3)] accounting_holds_iff run_end_def)
  then show "\<exists>e d. bl_extended blk = Some e \<and> ai_identity_holds (er_accounting e) \<and> bl_diagnostics blk = Some d \<and>
       rd_starting_equity d = rs_starting_equity u"
    using run_segment_starting [OF run] by (simp add: 1(6) block_of_def)
  show "bl_block blk = \<lparr>bk_segment_index = seg_idx, bk_block_index = block_idx,
       bk_warm_up_start_time_ms = Some (open_time_ms (segment ! nat ?w)), bk_warm_up_candle_count = rs_min_required u - 1,
       bk_window_start_time_ms = Some (open_time_ms (segment ! nat a)),
       bk_window_end_time_ms = Some (close_time_ms (segment ! nat (b - 1))), bk_candle_count = b - a, bk_skipped_reason = None\<rparr>"
    by (simp add: 1(6) block_of_def n(2-4))
qed

definition range_window :: "candle list \<Rightarrow> int \<times> int \<Rightarrow> int option \<times> int option \<times> int \<times> string option" where
  "range_window segment = (\<lambda>(a, b). (Some (open_time_ms (segment ! nat a)), Some (close_time_ms (segment ! nat (b - 1))), b - a, None))"

lemma range_window_slice:
  assumes "0 \<le> a" "a < b" "b \<le> int (length segment)"
  shows "range_window segment (a, b) =
    (Some (open_time_ms (hd (slice a b segment))), Some (close_time_ms (last (slice a b segment))), int (length (slice a b segment)), None)"
  using assms slice_last [of a b segment] slice_hd [of a b segment] slice_length [of a b segment] by (simp add: range_window_def)

text \<open>The blocks of one segment.\<close>

definition segment_blocks :: "run_setup \<Rightarrow> int \<Rightarrow> int \<Rightarrow> candle list \<Rightarrow> block_result list \<Rightarrow> bool" where
  "segment_blocks u block_count i segment bs \<longleftrightarrow>
     (\<forall>b \<in> set bs. index_of b = i \<and> (\<forall>e. bl_extended b = Some e \<longrightarrow> ai_identity_holds (er_accounting e)) \<and>
        (\<forall>d. bl_diagnostics b = Some d \<longrightarrow> rd_starting_equity d = rs_starting_equity u)) \<and>
     (rs_min_required u \<le> int (length segment) \<longrightarrow>
        map window_of bs = map (range_window segment)
          (block_boundaries (rs_min_required u - 1) (int (length segment)) (min block_count (int (length segment) - rs_min_required u + 1))))"

lemma skipped_block_spec:
  "index_of (skipped_block i k n reason) = i" "bl_extended (skipped_block i k n reason) = None" "bl_diagnostics (skipped_block i k n reason) = None"
  by (simp_all add: skipped_block_def index_of_def)

lemma blocked_segment_spec:
  assumes "blocked_segment pl u block_count acc (i, segment) = Inr acc'" "1 \<le> rs_min_required u" "0 < block_count"
  shows "\<exists>bs. ba_blocks acc' = ba_blocks acc @ bs \<and> segment_blocks u block_count (int i) segment bs"
proof (cases "int (length segment) < rs_min_required u")
  case True
  let ?s = "skipped_block (int i) 0 (int (length segment)) ''segment too small for warm-up''"
  have "ba_blocks acc' = ba_blocks acc @ [?s]" using assms(1) True by (auto simp: blocked_segment_def Let_def)
  then show ?thesis using True by (intro exI [of _ "[?s]"]) (simp add: segment_blocks_def skipped_block_spec)
next
  case False
  let ?n = "int (length segment)" and ?m = "rs_min_required u"
  let ?c = "min block_count (?n - ?m + 1)"
  let ?bs = "block_boundaries (?m - 1) ?n ?c"
  have t: "0 < ?n - (?m - 1)" using False by simp
  have c: "0 < ?c" "?c \<le> ?n - (?m - 1)" "min block_count (?n - (?m - 1)) = ?c" using assms(3) False by auto
  note bounds = block_boundaries_spec [OF c(1,2)]
  have nz: "?c \<noteq> 0" using c(1) by (metis less_irrefl)
  define acc0 where "acc0 = (if ?c < block_count
    then acc\<lparr>ba_warnings := ba_warnings acc @ [Fewer_Blocks (int i) (?n - (?m - 1)) ?c block_count]\<rparr> else acc)"
  have acc0: "ba_blocks acc0 = ba_blocks acc" by (simp add: acc0_def)
  have run: "foldr_res (blocked_step pl u (int i) segment) acc0 (List.enumerate 0 ?bs) = Inr acc'"
    using assms(1) unfolding blocked_segment_def Let_def prod.case if_not_P [OF False] if_P [OF t] c(3) if_not_P [OF nz] acc0_def .
  have "\<exists>ys. ba_blocks acc' = ba_blocks acc0 @ concat ys \<and> list_all2 (\<lambda>x y. \<exists>b. y = [b] \<and> index_of b = int i \<and>
      window_of b = range_window segment (snd x) \<and> (\<forall>e. bl_extended b = Some e \<longrightarrow> ai_identity_holds (er_accounting e)) \<and>
        (\<forall>d. bl_diagnostics b = Some d \<longrightarrow> rd_starting_equity d = rs_starting_equity u)) (List.enumerate 0 ?bs) ys"
  proof (rule foldr_res_collect [OF run])
    fix s s' and x :: "nat \<times> int \<times> int"
    assume x: "x \<in> set (List.enumerate 0 ?bs)" and step: "blocked_step pl u (int i) segment s x = Inr s'"
    obtain k a b where [simp]: "x = (k, a, b)" by (cases x) auto
    have "(a, b) \<in> set ?bs" using enumerate_snd [OF x] by simp
    from chained_within [OF bounds(1) this] have ab: "?m - 1 \<le> a" "a < b" by auto
    then obtain blk ws j where blk: "run_block pl u (int i) (int k) segment a b (ba_journal s) = Inr (blk, ws, j)"
      and s': "ba_blocks s' = ba_blocks s @ [blk]" using step by (auto simp: blocked_step_def)
    note spec = run_block_spec [OF blk assms(2) _ ab(2)]
    have w: "0 \<le> a - (?m - 1)" using ab(1) by simp
    have "window_of blk = range_window segment (a, b)" "index_of blk = int i"
      using spec(2) [OF w] by (simp_all add: window_of_def range_window_def index_of_def Let_def)
    then show "\<exists>y. ba_blocks s' = ba_blocks s @ y \<and> (\<exists>b. y = [b] \<and> index_of b = int i \<and> window_of b = range_window segment (snd x) \<and>
        (\<forall>e. bl_extended b = Some e \<longrightarrow> ai_identity_holds (er_accounting e)) \<and>
        (\<forall>d. bl_diagnostics b = Some d \<longrightarrow> rd_starting_equity d = rs_starting_equity u))"
      using s' spec(3) [OF w] by auto
  qed
  then obtain ys where ys: "ba_blocks acc' = ba_blocks acc @ concat ys"
    "list_all2 (\<lambda>x y. \<exists>b. y = [b] \<and> index_of b = int i \<and>
      window_of b = range_window segment (snd x) \<and> (\<forall>e. bl_extended b = Some e \<longrightarrow> ai_identity_holds (er_accounting e)) \<and>
        (\<forall>d. bl_diagnostics b = Some d \<longrightarrow> rd_starting_equity d = rs_starting_equity u)) (List.enumerate 0 ?bs) ys" using acc0 by auto
  have one: "\<exists>b. y = [b] \<and> index_of b = int i \<and> (\<forall>e. bl_extended b = Some e \<longrightarrow> ai_identity_holds (er_accounting e)) \<and>
      (\<forall>d. bl_diagnostics b = Some d \<longrightarrow> rd_starting_equity d = rs_starting_equity u)" if "y \<in> set ys" for y
    using ys(2) that by (auto simp: list_all2_conv_all_nth in_set_conv_nth)
  have "map window_of (concat ys) = map (range_window segment) (map snd xs)"
    if "list_all2 (\<lambda>x y. \<exists>b. y = [b] \<and> window_of b = range_window segment (snd x)) xs ys" for xs :: "(nat \<times> int \<times> int) list"
    using that by (induction rule: list_all2_induct) auto
  moreover have "list_all2 (\<lambda>x y. \<exists>b. y = [b] \<and> window_of b = range_window segment (snd x)) (List.enumerate 0 ?bs) ys"
    by (rule list_all2_mono [OF ys(2)]) blast
  ultimately have "map window_of (concat ys) = map (range_window segment) (map snd (List.enumerate 0 ?bs))" by blast
  then have "map window_of (concat ys) = map (range_window segment) ?bs" by (simp only: map_snd_enumerate)
  then show ?thesis using ys(1) one unfolding segment_blocks_def
    by (intro exI [of _ "concat ys"]) fastforce
qed

section \<open>Windows of a schedule\<close>

lemma bisect_left_spec:
  assumes "sorted xs" "lo \<le> hi" "hi \<le> length xs"
  shows "lo \<le> bisect_left xs x lo hi \<and> bisect_left xs x lo hi \<le> hi \<and>
    (\<forall>k. lo \<le> k \<and> k < bisect_left xs x lo hi \<longrightarrow> xs ! k < x) \<and> (\<forall>k. bisect_left xs x lo hi \<le> k \<and> k < hi \<longrightarrow> x \<le> xs ! k)"
  using assms
proof (induction xs x lo hi rule: bisect_left.induct)
  case (1 xs x lo hi)
  show ?case
  proof (cases "lo < hi")
    case False
    then have "bisect_left xs x lo hi = lo" by (simp add: bisect_left.simps [of xs x lo hi])
    then show ?thesis using False 1(4) by simp
  next
    case True
    let ?mid = "(lo + hi) div 2"
    have mid: "lo \<le> ?mid" "?mid < hi" using True by auto
    show ?thesis
    proof (cases "xs ! ?mid < x")
      case small: True
      have eq: "bisect_left xs x lo hi = bisect_left xs x (?mid + 1) hi" using True small by (simp add: bisect_left.simps [of xs x lo hi] Let_def)
      have below: "xs ! k < x" if "k \<le> ?mid" for k
        using sorted_nth_mono [OF 1(3) that] small mid 1(5) by simp
      note IH = 1(1) [OF True refl small 1(3) _ 1(5)]
      have le: "?mid + 1 \<le> hi" using mid by simp
      have "xs ! k < x" if "lo \<le> k" "k < bisect_left xs x (?mid + 1) hi" for k
        using IH [OF le] below [of k] that by (cases "k \<le> ?mid") auto
      then show ?thesis unfolding eq using IH [OF le] mid by auto
    next
      case big: False
      have eq: "bisect_left xs x lo hi = bisect_left xs x lo ?mid" using True big by (simp add: bisect_left.simps [of xs x lo hi] Let_def)
      have above: "x \<le> xs ! k" if "?mid \<le> k" "k < hi" for k
        using sorted_nth_mono [OF 1(3) that(1)] big that 1(5) by simp
      have len: "?mid \<le> length xs" using mid 1(5) by simp
      note IH = 1(2) [OF True refl big 1(3) mid(1) len]
      have "x \<le> xs ! k" if "bisect_left xs x lo ?mid \<le> k" "k < hi" for k
        using IH above [of k] that by (cases "?mid \<le> k") auto
      then show ?thesis unfolding eq using IH mid by auto
    qed
  qed
qed

lemma contiguous_open:
  assumes "contiguous w cs" "i < length cs" "k \<le> i"
  shows "open_time_ms (cs ! i) = open_time_ms (cs ! k) + (int i - int k) * w"
  using contiguous_nth [OF assms(1,2)] contiguous_nth [OF assms(1), of k] assms by (simp add: algebra_simps)

lemma contiguous_sorted: "0 < w \<Longrightarrow> contiguous w cs \<Longrightarrow> sorted (open_times cs)"
  by (auto simp: sorted_iff_nth_mono open_times_def contiguous_open)

text \<open>
  A window of a contiguous segment that starts at the time of its candle \<open>f\<close> plus something,
  is as long as a candle at least and ends with the last candle at the latest, resolves to
  the candles that open in it.
\<close>

lemma window_range_resolves:
  assumes "0 < w" "contiguous w segment" "f < length segment"
    and "open_time_ms (segment ! f) \<le> wd_window_start_time_ms v" "wd_window_start_time_ms v + w \<le> wd_window_end_time_ms v"
    and "wd_window_end_time_ms v \<le> open_time_ms (last segment) + w" "wd_window_end_time_ms v \<le> close_time_ms (last segment) + 1"
  shows "\<exists>a b. window_range segment v = Some (a, b) \<and> int f \<le> a \<and> a < b \<and> b \<le> int (length segment) \<and>
    (\<forall>i. a \<le> int i \<and> int i < b \<longleftrightarrow> i < length segment \<and> wd_window_start_time_ms v \<le> open_time_ms (segment ! i) \<and> open_time_ms (segment ! i) < wd_window_end_time_ms v)"
proof -
  let ?xs = "open_times segment" and ?n = "length segment" and ?s = "wd_window_start_time_ms v" and ?e = "wd_window_end_time_ms v"
  have sorted: "sorted ?xs" by (rule contiguous_sorted [OF assms(1,2)])
  have len: "length ?xs = ?n" and nth: "?xs ! k = open_time_ms (segment ! k)" if "k < ?n" for k
    using that by (simp_all add: open_times_def)
  have len: "length ?xs = ?n" by (simp add: open_times_def)
  define a where "a = bisect_left ?xs ?s 0 ?n"
  define b where "b = bisect_left ?xs ?e a ?n"
  have a: "a \<le> ?n" "\<And>k. k < a \<Longrightarrow> open_time_ms (segment ! k) < ?s" "\<And>k. a \<le> k \<Longrightarrow> k < ?n \<Longrightarrow> ?s \<le> open_time_ms (segment ! k)"
    using bisect_left_spec [OF sorted, of 0 ?n ?s] nth by (auto simp: a_def len)
  have b: "a \<le> b" "b \<le> ?n" "\<And>k. a \<le> k \<Longrightarrow> k < b \<Longrightarrow> open_time_ms (segment ! k) < ?e" "\<And>k. b \<le> k \<Longrightarrow> k < ?n \<Longrightarrow> ?e \<le> open_time_ms (segment ! k)"
    using bisect_left_spec [OF sorted, of a ?n ?e] nth a(1) by (auto simp: b_def len)
  have last: "last segment = segment ! (?n - 1)" using assms(3) by (intro last_conv_nth) auto
  have fa: "f \<le> a"
  proof (rule ccontr)
    assume "\<not> f \<le> a"
    then have "0 < (int f - int a) * w" "?s \<le> open_time_ms (segment ! a)"
      "open_time_ms (segment ! f) = open_time_ms (segment ! a) + (int f - int a) * w"
      using a(3) [of a] assms(1,3) contiguous_open [OF assms(2,3), of a] by simp_all
    then show False using assms(4) by simp
  qed
  have an: "a < ?n"
  proof (rule ccontr)
    assume "\<not> a < ?n"
    then have "open_time_ms (segment ! (?n - 1)) < ?s" using a(1,2) assms(3) by simp
    then show False using assms(5,6) by (simp add: last)
  qed
  have "open_time_ms (segment ! a) < ?s + w"
  proof (cases "a = f")
    case True
    then show ?thesis using a(3) [of a] an assms(1,4) by simp
  next
    case False
    then have "open_time_ms (segment ! (a - 1)) < ?s" "open_time_ms (segment ! a) = open_time_ms (segment ! (a - 1)) + w"
      using a(2) [of "a - 1"] fa an contiguous_open [OF assms(2) an, of "a - 1"] by (simp_all add: of_nat_diff)
    then show ?thesis by simp
  qed
  then have ae: "open_time_ms (segment ! a) < ?e" using assms(5) by simp
  have ab: "a < b" using b(4) [of a] an ae by (metis leI not_less)
  have past: "\<not> (b = ?n \<and> (?n = 0 \<or> close_time_ms (last segment) + 1 < ?e))" using assms(3,7) by auto
  have range: "window_range segment v = Some (int a, int b)"
    unfolding window_range_def Let_def a_def [symmetric] b_def [symmetric] using ab past by auto
  have iff: "int a \<le> int i \<and> int i < int b \<longleftrightarrow> i < ?n \<and> ?s \<le> open_time_ms (segment ! i) \<and> open_time_ms (segment ! i) < ?e" for i
  proof (cases "i < ?n")
    case True
    consider "i < a" | "a \<le> i" "i < b" | "b \<le> i" by linarith
    then show ?thesis using True a(2) [of i] a(3) [of i] b(1) b(3) [of i] b(4) [of i] by cases auto
  qed (use b(2) in auto)
  show ?thesis by (intro exI [of _ "int a"] exI [of _ "int b"] conjI allI range iff) (use fa ab b(2) in auto)
qed

text \<open>The windows of a cut segment.\<close>

lemma cut_segment_windows:
  assumes "cut_segment anchor w D i segment = Inr (Cut ws rest)" "1 \<le> anchor" "0 < D" "v \<in> set ws"
  shows "anchor \<le> int (length segment)" "wd_segment_index v = i" "wd_window_end_time_ms v = wd_window_start_time_ms v + D"
    "open_time_ms (segment ! nat (anchor - 1)) \<le> wd_window_start_time_ms v" "wd_window_end_time_ms v \<le> open_time_ms (last segment) + w"
proof -
  have long: "anchor \<le> int (length segment)" using assms(1) by (auto simp: cut_segment_def split: if_splits)
  show "anchor \<le> int (length segment)" by (rule long)
  have ne: "segment \<noteq> []" using long assms(2) by auto
  let ?T = "open_time_ms (segment ! nat (anchor - 1))" and ?L = "open_time_ms (last segment)"
  let ?k = "(?L - ?T + w) div D"
  have n: "nth_res (open_times segment) (anchor - 1) = Inr ?T" "nth_res (open_times segment) (-1) = Inr ?L"
    using nth_res_nat [of "nat (anchor - 1)" "open_times segment"] nth_res_last [of "open_times segment"] long assms(2) ne
    by (simp_all add: open_times_def last_map)
  have ws: "ws = duration_windows i ?T D ?k" "0 < ?k \<or> ?k < 0"
    using assms(1) long by (auto simp: cut_segment_def segment_tradable_span_def n Let_def split: if_splits)
  obtain k where k: "k < nat ?k" "v = \<lparr>wd_segment_index = i, wd_block_index = int k, wd_window_start_time_ms = ?T + int k * D,
      wd_window_end_time_ms = ?T + int k * D + D\<rparr>" using assms(4) by (auto simp: ws(1) duration_windows_def)
  show "wd_segment_index v = i" "wd_window_end_time_ms v = wd_window_start_time_ms v + D" by (simp_all add: k(2))
  show "?T \<le> wd_window_start_time_ms v" using assms(3) by (simp add: k(2))
  have "int k + 1 \<le> ?k" using k(1) by linarith
  then have "(int k + 1) * D \<le> ?k * D" using assms(3) by (intro mult_right_mono) simp_all
  also have "\<dots> \<le> ?L - ?T + w" using assms(3) by (simp add: minus_mod_eq_div_mult [symmetric])
  finally show "wd_window_end_time_ms v \<le> ?L + w" by (simp add: k(2) algebra_simps)
qed

text \<open>Every window of a schedule comes from the segment it names.\<close>

definition scheduled_in :: "int \<Rightarrow> int \<Rightarrow> int \<Rightarrow> candle list list \<Rightarrow> scheduled_window \<Rightarrow> bool" where
  "scheduled_in anchor w D segs v \<longleftrightarrow>
     (\<exists>i < length segs. wd_segment_index v = int i \<and> anchor \<le> int (length (segs ! i)) \<and>
        wd_window_end_time_ms v = wd_window_start_time_ms v + D \<and>
        open_time_ms (segs ! i ! nat (anchor - 1)) \<le> wd_window_start_time_ms v \<and>
        wd_window_end_time_ms v \<le> open_time_ms (last (segs ! i)) + w \<and> wd_window_end_time_ms v \<le> close_time_ms (last (segs ! i)) + 1)"

lemma schedule_windows:
  assumes "foldr_res (schedule_segment w D) (empty_schedule days anchor) (List.enumerate 0 segs) = Inr sk" "1 \<le> anchor" "0 < D"
  shows "sk_anchor_warm_up_candles_required sk = anchor \<and> sk_block_duration_days sk = days \<and> (\<forall>v \<in> set (sk_windows sk). scheduled_in anchor w D segs v)"
proof (rule foldr_res_invariant [OF assms(1), where I = "\<lambda>sk. sk_anchor_warm_up_candles_required sk = anchor \<and> sk_block_duration_days sk = days \<and>
    (\<forall>v \<in> set (sk_windows sk). scheduled_in anchor w D segs v)"])
  fix s s' and x :: "nat \<times> candle list"
  assume x: "x \<in> set (List.enumerate 0 segs)" and I: "sk_anchor_warm_up_candles_required s = anchor \<and> sk_block_duration_days s = days \<and>
    (\<forall>v \<in> set (sk_windows s). scheduled_in anchor w D segs v)" and step: "schedule_segment w D s x = Inr s'"
  obtain i segment where [simp]: "x = (i, segment)" by (cases x)
  have i: "i < length segs" "segment = segs ! i" using x by (auto simp: in_set_enumerate_eq)
  obtain cut where cut: "cut_segment anchor w D (int i) segment = Inr cut" using step I by (auto simp: schedule_segment_def)
  show "sk_anchor_warm_up_candles_required s' = anchor \<and> sk_block_duration_days s' = days \<and> (\<forall>v \<in> set (sk_windows s'). scheduled_in anchor w D segs v)"
  proof (cases cut)
    case (Too_Short f)
    then show ?thesis using step I cut by (auto simp: schedule_segment_def)
  next
    case (Cut ws rest)
    obtain lst us where l: "nth_res segment (-1) = Inr lst" "map_res (window_checked (close_time_ms lst)) ws = Inr us"
      "s' = s\<lparr>sk_windows := sk_windows s @ ws, sk_leftovers := sk_leftovers s @ rest\<rparr>"
      using step I cut Cut by (auto simp: schedule_segment_def)
    have lst: "lst = last segment" using l(1) nth_res_last [of segment] by (cases segment) (auto simp: nth_res_def)
    have "scheduled_in anchor w D segs v" if v: "v \<in> set ws" for v
    proof -
      have "window_checked (close_time_ms lst) v = Inr ()"
        using v l(2) map_res_nth [OF l(2)] by (auto simp: in_set_conv_nth)
      then have "wd_window_end_time_ms v \<le> close_time_ms (last segment) + 1" by (simp add: window_checked_def lst split: if_splits)
      then show ?thesis using cut_segment_windows [OF cut [unfolded Cut] assms(2,3) v] i unfolding scheduled_in_def by auto
    qed
    then show ?thesis using I l(3) by auto
  qed
qed (simp add: empty_schedule_def)

lemma sorted_pairs_apart:
  assumes "pairs_apart ws = Inr ()" "\<And>v. v \<in> set ws \<Longrightarrow> wd_window_start_time_ms v < wd_window_end_time_ms v"
  shows "sorted_wrt (\<lambda>v w. wd_window_end_time_ms v \<le> wd_window_start_time_ms w) ws"
  using assms
proof (induction ws rule: pairs_apart.induct)
  case (1 w v ws)
  have vw: "wd_window_end_time_ms w \<le> wd_window_start_time_ms v" and ok: "pairs_apart (v # ws) = Inr ()"
    using 1(2) by (auto split: if_splits)
  have IH: "sorted_wrt (\<lambda>v w. wd_window_end_time_ms v \<le> wd_window_start_time_ms w) (v # ws)"
    using 1(1) vw ok 1(3) by simp
  have "wd_window_start_time_ms v < wd_window_end_time_ms v" using 1(3) by simp
  then show ?case using IH vw by (auto intro: order_trans)
qed simp_all

end
