(* ===== verification/Scorecard.thy ===== *)
theory Scorecard
  imports Block_Facts
begin

text \<open>
  The scorecard of a candidate (\<open>research/scorecard.py\<close>): fixed criteria on the realized
  results of its blocks, and the comparison of the two ways to form blocks
  (\<open>research/sensitivity_comparison.py\<close>). The texts of the criteria quote the figures that
  the entry holds.
\<close>

datatype scorecard_status = REJECTED | RESEARCH_SURVIVOR | INSUFFICIENT_EVIDENCE

definition MIN_TOTAL_TRADES_FOR_EVIDENCE :: int where "MIN_TOTAL_TRADES_FOR_EVIDENCE = 30"
definition MIN_BLOCKS_WITH_A_TRADE :: int where "MIN_BLOCKS_WITH_A_TRADE = 4"
definition MAX_ACCEPTABLE_DRAWDOWN_PCT :: flt where "MAX_ACCEPTABLE_DRAWDOWN_PCT = Flt 15"
definition MATERIALLY_NEGATIVE_BLOCK_REALIZED_RETURN_PCT :: flt where "MATERIALLY_NEGATIVE_BLOCK_REALIZED_RETURN_PCT = Flt (-10)"
definition MAX_BEST_TRADE_CONTRIBUTION_PCT :: flt where "MAX_BEST_TRADE_CONTRIBUTION_PCT = Flt 50"
definition MIN_POSITIVE_REALIZED_PNL_BLOCK_FRACTION :: flt where "MIN_POSITIVE_REALIZED_PNL_BLOCK_FRACTION = Flt (fround (6 / 10))"

record scorecard_entry =
  ce_candidate_id :: string
  ce_family :: string
  ce_params :: payload
  ce_status :: scorecard_status
  ce_criteria :: "(string \<times> bool) list"
  ce_total_trade_count :: int
  ce_blocks_with_a_trade :: int
  ce_block_count :: int
  ce_median_block_realized_return_pct :: "flt option"
  ce_worst_block_realized_return_pct :: "flt option"
  ce_aggregate_realized_pnl_quote :: dec
  ce_positive_realized_pnl_block_fraction :: "flt option"
  ce_max_best_trade_contribution_pct :: "flt option"
  ce_worst_block_max_drawdown_pct :: "flt option"
  ce_median_block_marked_to_market_return_pct :: "flt option"
  ce_median_excess_return_vs_buy_and_hold_pct :: "flt option"

definition realized_of :: "block_result \<Rightarrow> dec option" where
  "realized_of b = map_option (\<lambda>e. pb_realized (er_pnl_breakdown e)) (bl_extended b)"

definition realized_return_pct :: "block_result \<Rightarrow> flt" where
  "realized_return_pct b =
     (case (realized_of b, bl_performance b) of
        (Some realized, Some p) \<Rightarrow>
          if pr_starting_equity p \<le> 0 then 0 else float_of_dec (realized / pr_starting_equity p * Dec 100)
      | _ \<Rightarrow> 0)"

definition excess_return_pct :: "block_result \<Rightarrow> flt option" where
  "excess_return_pct b =
     (case bl_performance b of None \<Rightarrow> None
      | Some p \<Rightarrow> map_option (\<lambda>h. pr_total_return_pct p - h) (pr_buy_and_hold_return_pct p))"

text \<open>The share of the best trade, of a block that made money.\<close>

definition positive_contribution :: "block_result \<Rightarrow> flt option" where
  "positive_contribution b =
     (case bl_extended b of None \<Rightarrow> None
      | Some e \<Rightarrow> case er_trade_distribution e of None \<Rightarrow> None
        | Some d \<Rightarrow> if 0 < pb_realized (er_pnl_breakdown e) then td_best_trade_contribution_pct d else None)"

definition optional_median :: "flt list \<Rightarrow> flt option result" where
  "optional_median xs = (if xs = [] then Inr None else bindr (fmedian xs) (\<lambda>m. Inr (Some m)))"

definition insufficient_entry :: "blocked_result \<Rightarrow> int \<Rightarrow> int \<Rightarrow> int \<Rightarrow> scorecard_entry" where
  "insufficient_entry res total_trades with_trade evaluated_count =
     \<lparr>ce_candidate_id = cb_candidate_id res, ce_family = cb_family res, ce_params = cb_params res,
      ce_status = INSUFFICIENT_EVIDENCE, ce_criteria = [(''sufficient_evidence'', False)],
      ce_total_trade_count = total_trades, ce_blocks_with_a_trade = with_trade, ce_block_count = evaluated_count,
      ce_median_block_realized_return_pct = None, ce_worst_block_realized_return_pct = None,
      ce_aggregate_realized_pnl_quote = 0, ce_positive_realized_pnl_block_fraction = None,
      ce_max_best_trade_contribution_pct = None, ce_worst_block_max_drawdown_pct = None,
      ce_median_block_marked_to_market_return_pct = None, ce_median_excess_return_vs_buy_and_hold_pct = None\<rparr>"

definition positive_fraction :: "flt list \<Rightarrow> flt" where
  "positive_fraction xs = int_truediv (int (length (filter (\<lambda>r. 0 < r) xs))) (int (length xs))"

definition score_candidate :: "blocked_result \<Rightarrow> scorecard_entry result" where
  "score_candidate res =
     (let evaluated = filter (\<lambda>b. bl_performance b \<noteq> None) (cb_blocks res);
          reports = List.map_filter bl_performance (cb_blocks res);
          total_trades = sum_list (map pr_trade_count reports);
          blocks_with_a_trade = int (length (filter (\<lambda>p. 0 < pr_trade_count p) reports));
          evidence_ok = (MIN_TOTAL_TRADES_FOR_EVIDENCE \<le> total_trades \<and> MIN_BLOCKS_WITH_A_TRADE \<le> blocks_with_a_trade)
      in if \<not> evidence_ok then Inr (insufficient_entry res total_trades blocks_with_a_trade (int (length evaluated)))
         else
           let realized_returns = map realized_return_pct evaluated;
               fraction = positive_fraction realized_returns;
               aggregate_realized = dsum (List.map_filter realized_of evaluated);
               contributions = List.map_filter positive_contribution evaluated;
               best = (case list_max contributions of Inl _ \<Rightarrow> None | Inr x \<Rightarrow> Some x)
           in bindr (fmedian realized_returns) (\<lambda>median_realized.
              bindr (list_min realized_returns) (\<lambda>worst_realized.
              bindr (list_max (map pr_max_drawdown_pct reports)) (\<lambda>worst_dd.
              bindr (optional_median (map pr_total_return_pct reports)) (\<lambda>median_mtm.
              bindr (optional_median (List.map_filter excess_return_pct evaluated)) (\<lambda>median_excess.
              let criteria =
                [(''positive_median_block_realized_return'', 0 < median_realized),
                 (''positive_aggregate_realized_pnl'', 0 < aggregate_realized),
                 (''no_materially_negative_block'', MATERIALLY_NEGATIVE_BLOCK_REALIZED_RETURN_PCT \<le> worst_realized),
                 (''acceptable_max_drawdown'', worst_dd \<le> MAX_ACCEPTABLE_DRAWDOWN_PCT),
                 (''limited_best_trade_dependence'', case best of None \<Rightarrow> False | Some x \<Rightarrow> x \<le> MAX_BEST_TRADE_CONTRIBUTION_PCT),
                 (''stable_across_blocks'', MIN_POSITIVE_REALIZED_PNL_BLOCK_FRACTION \<le> fraction)]
              in Inr
                \<lparr>ce_candidate_id = cb_candidate_id res, ce_family = cb_family res, ce_params = cb_params res,
                 ce_status = (if list_all snd criteria then RESEARCH_SURVIVOR else REJECTED), ce_criteria = criteria,
                 ce_total_trade_count = total_trades, ce_blocks_with_a_trade = blocks_with_a_trade,
                 ce_block_count = int (length evaluated),
                 ce_median_block_realized_return_pct = Some median_realized,
                 ce_worst_block_realized_return_pct = Some worst_realized,
                 ce_aggregate_realized_pnl_quote = aggregate_realized,
                 ce_positive_realized_pnl_block_fraction = Some fraction,
                 ce_max_best_trade_contribution_pct = best, ce_worst_block_max_drawdown_pct = Some worst_dd,
                 ce_median_block_marked_to_market_return_pct = median_mtm,
                 ce_median_excess_return_vs_buy_and_hold_pct = median_excess\<rparr>))))))"

record scorecard =
  cd_entries :: "scorecard_entry list"
  cd_candidate_count :: int

definition build_scorecard :: "blocked_result list \<Rightarrow> scorecard result" where
  "build_scorecard results =
     bindr (map_res score_candidate results) (\<lambda>entries. Inr \<lparr>cd_entries = entries, cd_candidate_count = int (length results)\<rparr>)"

section \<open>Two ways to form blocks\<close>

record sensitivity_comparison =
  sn_candidate_id :: string
  sn_family :: string
  sn_params :: payload
  sn_round_1_original_evaluation :: scorecard_entry
  sn_duration_normalized_sensitivity :: scorecard_entry
  sn_fragments :: "duration_fragment list"
  sn_leftovers :: "leftover_window list"

definition build_candidate_sensitivity_comparison ::
  "platform \<Rightarrow> pandas \<Rightarrow> candidate_spec \<Rightarrow> candle list \<Rightarrow> app_config \<Rightarrow> symbol_filters \<Rightarrow> journal_db option
    \<Rightarrow> (sensitivity_comparison \<times> journal_db option) result" where
  "build_candidate_sensitivity_comparison pl pd candidate pre_cutoff_candles config filters j =
     bindr (run_candidate_blocked_chronological_evaluation pl pd candidate pre_cutoff_candles config filters j DEFAULT_BLOCK_COUNT) (\<lambda>(original, j1).
     bindr (score_candidate original) (\<lambda>original_entry.
     bindr (run_candidate_fixed_duration_evaluation pl pd candidate pre_cutoff_candles config filters j1 DEFAULT_BLOCK_DURATION_DAYS None) (\<lambda>(fixed, j2).
     bindr (score_candidate (as_blocked_chronological_result fixed)) (\<lambda>sensitivity_entry.
     Inr (\<lparr>sn_candidate_id = cs_candidate_id candidate, sn_family = cs_family candidate, sn_params = cs_params candidate,
           sn_round_1_original_evaluation = original_entry, sn_duration_normalized_sensitivity = sensitivity_entry,
           sn_fragments = cf_fragments fixed, sn_leftovers = cf_leftovers fixed\<rparr>, j2)))))"

section \<open>Two candidates on the same dates\<close>

definition traded_windows :: "block_result list \<Rightarrow> (int \<times> int option \<times> int option) list" where
  "traded_windows blocks =
     map (\<lambda>b. (bk_segment_index (bl_block b), bk_window_start_time_ms (bl_block b), bk_window_end_time_ms (bl_block b)))
       (filter (\<lambda>b. bk_skipped_reason (bl_block b) = None) blocks)"

definition assert_identical_trading_windows :: "block_result list \<Rightarrow> block_result list \<Rightarrow> unit result" where
  "assert_identical_trading_windows d1_blocks b1_blocks =
     (if traded_windows d1_blocks \<noteq> traded_windows b1_blocks
      then Inl (ProjectError ''IdenticalTradingWindowAssertionError'') else Inr ())"

end
