(* ===== verification/Research_Properties.thy ===== *)
theory Research_Properties
  imports Scorecard Metric_Properties
begin

text \<open>
  The properties of the research evaluations: the blocks of a segment tile its tradable
  candles, a schedule can be applied to every candidate it was anchored for and gives all of
  them the same windows, and the verdict on a candidate does not depend on marked prices.
\<close>

section \<open>Evaluations that complete\<close>

lemma foldr_res_ok: "(\<And>s x. x \<in> set xs \<Longrightarrow> \<exists>t. f s x = Inr t) \<Longrightarrow> \<exists>t. foldr_res f s xs = Inr t"
proof (induction xs arbitrary: s)
  case (Cons x xs)
  obtain u where u: "f s x = Inr u" using Cons.prems [of x s] by auto
  have "\<exists>t. foldr_res f u xs = Inr t" by (rule Cons.IH) (use Cons.prems in simp)
  with u show ?case by simp
qed simp

lemma quiet_block:
  assumes "quiet_setup pl u" "rs_min_required u - 1 \<le> a" "a < b" "b \<le> int (length segment)"
  shows "\<exists>x. run_block pl u seg_idx block_idx segment a b j = Inr x"
proof -
  let ?m = "rs_min_required u" and ?sl = "slice (a - (rs_min_required u - 1)) b segment"
  have m: "1 \<le> ?m" using assms(1) by (simp add: quiet_setup_def)
  have "length ?sl = nat b - nat (a - (?m - 1))" using assms m by (simp add: slice_def)
  then have len: "?m \<le> int (length ?sl)" using assms m by linarith
  have "\<exists>r j'. run_segment ?sl (rs_config u) (rs_filters u) (rs_strategy u) (cfg_risk (rs_config u)) (rs_broker u) j
      ?m (rs_starting_equity u) True = Inr (r, j') \<and> sr_trades r = [] \<and> sr_ends_with_open_position r = False"
    by (rule hold_segment [OF m len]) (use assms(1) in \<open>auto simp: quiet_setup_def\<close>)
  then obtain r j' where r: "policy_run u ?sl j = Inr (r, j')" "sr_trades r = []" by (auto simp: policy_run_def)
  obtain p where p: "window_report pl u (slice a b segment) [] (sr_equity_curve r) = Inr p" using quiet_report [OF assms(1)] by blast
  have n: "nth_res segment i = Inr (segment ! nat i)" if "0 \<le> i" "i < int (length segment)" for i
    using nth_res_nat [of "nat i" segment] that by simp
  obtain e where e: "compute_extended_diagnostics (pl_draw pl) [] (sr_equity_curve r) (run_end u (segment ! nat (b - 1)) r) p
      (sr_diagnostics r) False False = Inr e" using no_trade_diagnostics_ok by blast
  show ?thesis using assms m r p e by (simp add: run_block_def Let_def n)
qed

lemma quiet_blocked_segment:
  assumes "quiet_setup pl u" "0 < c"
  shows "\<exists>acc'. blocked_segment pl u c acc (i, segment) = Inr acc'"
proof (cases "int (length segment) < rs_min_required u")
  case False
  let ?n = "int (length segment)" and ?m = "rs_min_required u"
  let ?c = "min c (?n - (?m - 1))"
  have c: "0 < ?c" "?c \<le> ?n - (?m - 1)" "0 < ?n - (?m - 1)" using False assms(2) by auto
  have "\<exists>t. foldr_res (blocked_step pl u (int i) segment) acc0 (List.enumerate 0 (block_boundaries (?m - 1) ?n ?c)) = Inr t" for acc0
  proof (rule foldr_res_ok)
    fix s :: block_acc and x :: "nat \<times> int \<times> int" assume x: "x \<in> set (List.enumerate 0 (block_boundaries (?m - 1) ?n ?c))"
    obtain k a b where [simp]: "x = (k, a, b)" by (cases x) auto
    have "(a, b) \<in> set (block_boundaries (?m - 1) ?n ?c)" using enumerate_snd [OF x] by simp
    from chained_within [OF block_boundaries_spec(1) [OF c(1,2)] this] have "?m - 1 \<le> a" "a < b" "b \<le> ?n" by auto
    from quiet_block [OF assms(1) this] obtain blk ws j where "run_block pl u (int i) (int k) segment a b (ba_journal s) = Inr (blk, ws, j)"
      by (metis surj_pair)
    then show "\<exists>t. blocked_step pl u (int i) segment s x = Inr t" by (simp add: blocked_step_def)
  qed
  then show ?thesis using False c(3) by (auto simp: blocked_segment_def Let_def)
qed (simp add: blocked_segment_def Let_def)

lemma quiet_evaluation:
  assumes "prepare_candidate pd candidate config filters = Inr u" "quiet_setup pl u" "assert_pre_cutoff cs = Inr ()"
    "partition_into_segments cs (cfg_interval (cfg_market config)) = Inr seg" "cs \<noteq> []" "0 < c"
  shows "\<exists>res j'. run_candidate_blocked_chronological_evaluation pl pd candidate cs config filters j c = Inr (res, j')"
proof -
  have "\<exists>t. foldr_res (blocked_segment pl u c) (block_acc_start j) (List.enumerate 0 (segments seg)) = Inr t"
    by (rule foldr_res_ok) (use quiet_blocked_segment [OF assms(2,6)] in \<open>metis surj_pair\<close>)
  then show ?thesis using assms by (auto simp: run_candidate_blocked_chronological_evaluation_def)
qed

section \<open>Blocks of a segment\<close>

text \<open>The candles of the blocks of one segment, block by block.\<close>

lemma segment_tiled:
  assumes "1 \<le> m" "0 < c" "c \<le> int (length s) - (m - 1)"
  shows "\<exists>ws. concat ws = drop (nat (m - 1)) s \<and> [] \<notin> set ws \<and> int (length ws) = c \<and>
    (\<forall>v \<in> set ws. \<forall>w \<in> set ws. length v \<le> length w + 1) \<and>
    map (range_window s) (block_boundaries (m - 1) (int (length s)) c) =
      map (\<lambda>w. (Some (open_time_ms (hd w)), Some (close_time_ms (last w)), int (length w), None)) ws"
proof -
  let ?n = "int (length s)"
  let ?bs = "block_boundaries (m - 1) ?n c"
  note spec = block_boundaries_spec [OF assms(2,3)]
  have within: "0 \<le> a \<and> a < b \<and> b \<le> ?n" if "(a, b) \<in> set ?bs" for a b
    using chained_within [OF spec(1) that] assms(1) by simp
  let ?ws = "map (\<lambda>(a, b). slice a b s) ?bs"
  have len: "int (length (slice a b s)) = b - a" if "(a, b) \<in> set ?bs" for a b using slice_length [of a b s] within [OF that] by simp
  have "concat ?ws = slice (m - 1) ?n s" by (rule chained_tiles [OF spec(1)]) (use assms(1) in simp)
  then have 1: "concat ?ws = drop (nat (m - 1)) s" by (simp add: slice_def)
  have 2: "[] \<notin> set ?ws" using len within by force
  have 3: "int (length ?ws) = c" using spec(2) assms(2) by simp
  have size: "int (length v) = (?n - (m - 1)) div c \<or> int (length v) = (?n - (m - 1)) div c + 1" if v: "v \<in> set ?ws" for v
  proof -
    obtain a b where "(a, b) \<in> set ?bs" "v = slice a b s" using v by auto
    then show ?thesis using spec(3) len by metis
  qed
  have 4: "length v \<le> length w + 1" if "v \<in> set ?ws" "w \<in> set ?ws" for v w
    using size [OF that(1)] size [OF that(2)] by linarith
  have "range_window s x = (\<lambda>w. (Some (open_time_ms (hd w)), Some (close_time_ms (last w)), int (length w), None)) (case x of (a, b) \<Rightarrow> slice a b s)"
    if x: "x \<in> set ?bs" for x
  proof -
    obtain a b where ab: "x = (a, b)" by (cases x)
    then show ?thesis using x range_window_slice [of a b s] within [of a b] by simp
  qed
  then have 5: "map (range_window s) ?bs = map (\<lambda>w. (Some (open_time_ms (hd w)), Some (close_time_ms (last w)), int (length w), None)) ?ws"
    by simp
  show ?thesis by (rule exI [of _ ?ws], intro conjI ballI 1 2 3 4) (assumption | rule 5)+
qed

text \<open>
  C34. The blocks of every gap-free segment that is long enough tile its tradable candles: behind the
  warm-up, cut at block ends, they are all candles of the segment, each in exactly one block, in
  order; there are as many blocks as asked for (or as candles), none is empty, and no two
  sizes differ by more than one. No block crosses a gap, none is dropped from the result.
\<close>

theorem blocks_tile_every_segment:
  assumes "run_candidate_blocked_chronological_evaluation pl pd candidate cs config filters j block_count = Inr (res, j')"
    and "prepare_candidate pd candidate config filters = Inr u" "1 \<le> rs_min_required u"
    and "partition_into_segments cs (cfg_interval (cfg_market config)) = Inr seg" "i < length (segments seg)"
    and "rs_min_required u \<le> int (length (segments seg ! i))"
  shows "\<exists>ws. concat ws = drop (nat (rs_min_required u - 1)) (segments seg ! i) \<and> [] \<notin> set ws \<and>
    int (length ws) = min block_count (int (length (segments seg ! i)) - rs_min_required u + 1) \<and>
    (\<forall>v \<in> set ws. \<forall>w \<in> set ws. length v \<le> length w + 1) \<and>
    map window_of (filter (\<lambda>b. index_of b = int i) (cb_blocks res)) =
      map (\<lambda>w. (Some (open_time_ms (hd w)), Some (close_time_ms (last w)), int (length w), None)) ws"
proof -
  let ?s = "segments seg ! i" and ?m = "rs_min_required u"
  let ?n = "int (length ?s)"
  have ne: "cs \<noteq> []" using assms(4) by (auto simp: partition_into_segments_def split: if_splits)
  obtain acc where count: "0 < block_count" and res: "cb_blocks res = ba_blocks acc"
    and run: "foldr_res (blocked_segment pl u block_count) (block_acc_start j) (List.enumerate 0 (segments seg)) = Inr acc"
    using assms(1,2,4) ne by (auto simp: run_candidate_blocked_chronological_evaluation_def blocked_result_of_def split: if_splits)
  have "\<exists>bss. ba_blocks acc = ba_blocks (block_acc_start j) @ concat bss \<and>
      list_all2 (\<lambda>(k, s) bs. segment_blocks u block_count (int k) s bs) (List.enumerate 0 (segments seg)) bss"
    by (rule foldr_res_collect [OF run]) (use blocked_segment_spec [OF _ assms(3) count] in \<open>auto\<close>)
  then obtain bss where bss: "cb_blocks res = concat bss"
    "list_all2 (\<lambda>(k, s) bs. segment_blocks u block_count (int k) s bs) (List.enumerate 0 (segments seg)) bss"
    by (auto simp: res block_acc_start_def)
  have "list_all2 (\<lambda>(k, s) bs. \<forall>b \<in> set bs. index_of b = int k) (List.enumerate 0 (segments seg)) bss"
    by (rule list_all2_mono [OF bss(2)]) (auto simp: segment_blocks_def)
  from filter_concat_indexed [OF this assms(5)] have own: "filter (\<lambda>b. index_of b = int i) (cb_blocks res) = bss ! i" by (simp add: bss(1))
  let ?c = "min block_count (?n - ?m + 1)"
  let ?bs = "block_boundaries (?m - 1) ?n ?c"
  have "segment_blocks u block_count (int i) ?s (bss ! i)"
    using list_all2_nthD [OF bss(2), of i] assms(5) by (simp add: nth_enumerate_eq)
  then have windows: "map window_of (bss ! i) = map (range_window ?s) ?bs" using assms(6) by (simp add: segment_blocks_def)
  have c: "0 < ?c" "?c \<le> ?n - (?m - 1)" using count assms(6) by auto
  from segment_tiled [OF assms(3) c] show ?thesis unfolding own windows by (simp add: algebra_simps)
qed

text \<open>Fifteen equal candles and two breakout candidates that never enter.\<close>

definition rb_pandas :: pandas where
  "rb_pandas = \<lparr>pd_ewm = (\<lambda>xs p. xs), pd_mean = (\<lambda>xs p. map (\<lambda>_. None) xs), pd_max = (\<lambda>xs p. map (\<lambda>_. None) xs)\<rparr>"

definition rb_candles :: "candle list" where
  "rb_candles = map (\<lambda>i. bt_candle (int i) 100 100) [0 ..< 15]"

definition rb_setup :: "int \<Rightarrow> int \<Rightarrow> run_setup" where
  "rb_setup ch a = \<lparr>rs_config = ev_config, rs_filters = bt_filters,
     rs_strategy = breakout_signal rb_pandas \<lparr>vb_channel_period = ch, vb_atr_period = a, vb_breakout_atr_multiple = Flt (1 / 4)\<rparr>,
     rs_broker = mk_broker (cfg_fees ev_config), rs_min_required = max (ch + 1) a,
     rs_starting_equity = dec_of_float (cfg_starting_equity (cfg_backtest ev_config))\<rparr>"

lemma rb_prepared:
  assumes "0 < ch" "0 < a"
  shows "prepare_candidate rb_pandas (breakout_spec name ch a (Flt (1 / 4))) ev_config bt_filters = Inr (rb_setup ch a)"
proof -
  have "candidate_signal rb_pandas (Breakout_Model s) = breakout_signal rb_pandas s" for s
    by (intro ext) (simp add: candidate_signal_def)
  then show ?thesis using assms
    by (simp add: prepare_candidate_def breakout_spec_def mk_breakout_def rb_setup_def candidate_min_required_def vb_min_required_def less_flt_def)
qed

lemma rb_quiet:
  assumes "0 < ch" "0 < a"
  shows "quiet_setup ev_platform (rb_setup ch a)"
proof -
  let ?s = "\<lparr>vb_channel_period = ch, vb_atr_period = a, vb_breakout_atr_multiple = Flt (1 / 4)\<rparr>"
  have "\<exists>sig. breakout_signal rb_pandas ?s cs FLAT = Inr sig \<and> sg_type sig = HOLD" if "max (ch + 1) a \<le> int (length cs)" for cs
  proof -
    have n: "length cs \<noteq> 0" "nat (ch + 1) \<le> length cs" "2 \<le> nat (ch + 1)" using that assms by auto
    have len: "length (preceding_candles ch cs) = nat (ch + 1) - 1" using n by (simp add: preceding_candles_def)
    then have ne: "preceding_candles ch cs \<noteq> []" using n by auto
    then obtain hi lo where "list_max (map (\<lambda>c. float_of_dec (c_high c)) (preceding_candles ch cs)) = Inr hi"
      "list_min (map (\<lambda>c. float_of_dec (c_low c)) (preceding_candles ch cs)) = Inr lo"
      by (cases "preceding_candles ch cs") (simp_all add: list_max_def list_min_def)
    moreover have "atr (pd_mean rb_pandas) cs a = Inr (map (\<lambda>_. None) (true_range cs))"
      using assms by (simp add: atr_def rolling_indicator_def rb_pandas_def)
    moreover have "length (true_range cs) = length cs" by (simp add: true_range_def true_range_from_length)
    then have "true_range cs \<noteq> []" using n(1) by auto
    then have "nth_res (map (\<lambda>_. None :: flt option) (true_range cs)) (-1) = Inr None"
      using nth_res_last [of "map (\<lambda>_. None :: flt option) (true_range cs)"] by (simp add: last_map)
    moreover have "nth_res cs (-1) = Inr (last cs)" using n(1) by (intro nth_res_last) auto
    moreover have "\<not> int (length cs) < max (ch + 1) a" using that by linarith
    ultimately show ?thesis
      by (simp add: breakout_signal_def vb_min_required_def breakout_confirmed_def answer_def Let_def)
  qed
  moreover have "pow_total (pl_pow ev_platform)" "is_ok (interval_to_ms (cfg_interval (cfg_market ev_config)))"
    using ev_quiet by (simp_all add: quiet_setup_def ev_setup_def)
  ultimately show ?thesis using assms by (simp add: quiet_setup_def rb_setup_def)
qed

lemma rb_cutoff: "assert_pre_cutoff rb_candles = Inr ()"
  by code_simp

lemma rb_segments: "partition_into_segments rb_candles (cfg_interval (cfg_market ev_config)) = Inr \<lparr>segments = [rb_candles], gaps = []\<rparr>"
  by code_simp

lemma rb_length: "length rb_candles = 15" "rb_candles \<noteq> []"
  by (simp_all add: rb_candles_def)

theorem blocks_tile_every_segment_witness:
  "\<exists>res j'. run_candidate_blocked_chronological_evaluation ev_platform rb_pandas (breakout_spec ''demo'' 2 2 (Flt (1 / 4)))
     rb_candles ev_config bt_filters None 5 = Inr (res, j') \<and>
   (\<exists>ws. concat ws = drop 2 rb_candles \<and> length ws = 5 \<and> [] \<notin> set ws)"
proof -
  note p = rb_prepared [of 2 2 "''demo''", simplified]
  have m: "rs_min_required (rb_setup 2 2) = 3" by (simp add: rb_setup_def)
  obtain res j' where res: "run_candidate_blocked_chronological_evaluation ev_platform rb_pandas (breakout_spec ''demo'' 2 2 (Flt (1 / 4)))
     rb_candles ev_config bt_filters None 5 = Inr (res, j')"
    using quiet_evaluation [OF p rb_quiet rb_cutoff rb_segments rb_length(2), where c = 5 and j = None] by auto
  have "1 \<le> rs_min_required (rb_setup 2 2)" "0 < length (segments \<lparr>segments = [rb_candles], gaps = []\<rparr>)"
    "rs_min_required (rb_setup 2 2) \<le> int (length (segments \<lparr>segments = [rb_candles], gaps = []\<rparr> ! 0))" by (simp_all add: m rb_length)
  from blocks_tile_every_segment [OF res p this(1) rb_segments this(2,3)]
  obtain ws where "concat ws = drop 2 rb_candles" "[] \<notin> set ws" "int (length ws) = min 5 13" by (auto simp: m rb_length)
  then have "concat ws = drop 2 rb_candles \<and> length ws = 5 \<and> [] \<notin> set ws" by simp
  with res show ?thesis by blast
qed

section \<open>Schedules\<close>

lemma built_schedule:
  assumes "build_fixed_duration_schedule cs config anchor days = Inr sk"
    and "partition_into_segments cs (cfg_interval (cfg_market config)) = Inr seg"
    and "interval_to_ms (cfg_interval (cfg_market config)) = Inr w"
  shows "1 \<le> anchor" "1 \<le> days" "sk_block_duration_days sk = days"
    "validate_schedule sk = Inr ()" "\<And>v. v \<in> set (sk_windows sk) \<Longrightarrow> scheduled_in anchor w (days * MS_PER_DAY) (segments seg) v"
proof -
  have ne: "cs \<noteq> []" using assms(2) by (auto simp: partition_into_segments_def split: if_splits)
  have built: "1 \<le> anchor" "1 \<le> days"
    "foldr_res (schedule_segment w (days * MS_PER_DAY)) (empty_schedule days anchor) (List.enumerate 0 (segments seg)) = Inr sk"
    "validate_schedule sk = Inr ()"
    using assms ne by (auto simp: build_fixed_duration_schedule_def split: if_splits)
  show "1 \<le> anchor" "1 \<le> days" "validate_schedule sk = Inr ()" by (fact built)+
  have "0 < days * MS_PER_DAY" using built(2) by (simp add: MS_PER_DAY_def)
  from schedule_windows [OF built(3,1) this]
  show "sk_block_duration_days sk = days" "\<And>v. v \<in> set (sk_windows sk) \<Longrightarrow> scheduled_in anchor w (days * MS_PER_DAY) (segments seg) v" by auto
qed

lemma segments_contiguous:
  assumes "partition_into_segments cs i = Inr seg" "interval_to_ms i = Inr w" "s \<in> set (segments seg)"
  shows "contiguous w s" "s \<noteq> []"
  using partition_into_segments_spec [OF assms(1)] assms(2,3) by auto

text \<open>
  C35. A schedule that is built can be applied: each of its windows lies within one gap-free segment,
  behind the full warm-up it is anchored at, is exactly as long as declared, ends by the
  research cutoff, and resolves to exactly the candles that open in it, of which there is at
  least one; and no two windows overlap. (The candles are not longer than the blocks.)
\<close>

theorem built_schedule_can_be_applied:
  assumes "build_fixed_duration_schedule cs config anchor days = Inr sk"
    and "partition_into_segments cs (cfg_interval (cfg_market config)) = Inr seg"
    and "interval_to_ms (cfg_interval (cfg_market config)) = Inr w" "w \<le> days * MS_PER_DAY"
  shows "(\<forall>v \<in> set (sk_windows sk). \<exists>segment a b. nth_res (segments seg) (wd_segment_index v) = Inr segment \<and>
      window_range segment v = Some (a, b) \<and> anchor - 1 \<le> a \<and> a < b \<and> b \<le> int (length segment) \<and>
      (\<forall>i. a \<le> int i \<and> int i < b \<longleftrightarrow> i < length segment \<and> wd_window_start_time_ms v \<le> open_time_ms (segment ! i) \<and>
         open_time_ms (segment ! i) < wd_window_end_time_ms v) \<and>
      wd_window_end_time_ms v - wd_window_start_time_ms v = days * MS_PER_DAY \<and> wd_window_end_time_ms v \<le> RESEARCH_CUTOFF_MS) \<and>
    sorted_wrt (\<lambda>v v'. wd_window_end_time_ms v \<le> wd_window_start_time_ms v') (sort_key wd_window_start_time_ms (sk_windows sk))"
proof (intro conjI ballI)
  note built = built_schedule [OF assms(1-3)]
  have w: "0 < w" by (rule interval_to_ms_pos [OF assms(3)])
  obtain us where us: "map_res (window_valid (sk_block_duration_days sk * MS_PER_DAY)) (sk_windows sk) = Inr us"
    "pairs_apart (sort_key wd_window_start_time_ms (sk_windows sk)) = Inr ()" using built(4) by (auto simp: validate_schedule_def)
  have D: "0 < days * MS_PER_DAY" using built(2) by (simp add: MS_PER_DAY_def)
  have "wd_window_start_time_ms v < wd_window_end_time_ms v" if "v \<in> set (sk_windows sk)" for v
    using built(5) [OF that] D by (auto simp: scheduled_in_def)
  then show "sorted_wrt (\<lambda>v v'. wd_window_end_time_ms v \<le> wd_window_start_time_ms v') (sort_key wd_window_start_time_ms (sk_windows sk))"
    by (intro sorted_pairs_apart [OF us(2)]) simp
  fix v assume v: "v \<in> set (sk_windows sk)"
  obtain i where i: "i < length (segments seg)" "wd_segment_index v = int i" "anchor \<le> int (length (segments seg ! i))"
    "wd_window_end_time_ms v = wd_window_start_time_ms v + days * MS_PER_DAY"
    "open_time_ms (segments seg ! i ! nat (anchor - 1)) \<le> wd_window_start_time_ms v"
    "wd_window_end_time_ms v \<le> open_time_ms (last (segments seg ! i)) + w"
    "wd_window_end_time_ms v \<le> close_time_ms (last (segments seg ! i)) + 1"
    using built(5) [OF v] unfolding scheduled_in_def by blast
  have cutoff: "wd_window_end_time_ms v \<le> RESEARCH_CUTOFF_MS"
  proof -
    have "window_valid (sk_block_duration_days sk * MS_PER_DAY) v = Inr ()" using v map_res_nth [OF us(1)] by (auto simp: in_set_conv_nth)
    then show ?thesis by (simp add: window_valid_def split: if_splits)
  qed
  have cont: "contiguous w (segments seg ! i)" by (rule segments_contiguous [OF assms(2,3)]) (use i(1) in simp)
  have f: "nat (anchor - 1) < length (segments seg ! i)" using i(3) built(1) by linarith
  have long: "wd_window_start_time_ms v + w \<le> wd_window_end_time_ms v" using i(4) assms(4) by simp
  from window_range_resolves [OF w cont f i(5) long i(6,7)] obtain a b where "window_range (segments seg ! i) v = Some (a, b)"
    "int (nat (anchor - 1)) \<le> a" "a < b" "b \<le> int (length (segments seg ! i))"
    "\<forall>k. a \<le> int k \<and> int k < b \<longleftrightarrow> k < length (segments seg ! i) \<and> wd_window_start_time_ms v \<le> open_time_ms (segments seg ! i ! k) \<and>
       open_time_ms (segments seg ! i ! k) < wd_window_end_time_ms v" by blast
  moreover have "nth_res (segments seg) (wd_segment_index v) = Inr (segments seg ! i)" using i(1,2) by simp
  ultimately show "\<exists>segment a b. nth_res (segments seg) (wd_segment_index v) = Inr segment \<and>
      window_range segment v = Some (a, b) \<and> anchor - 1 \<le> a \<and> a < b \<and> b \<le> int (length segment) \<and>
      (\<forall>i. a \<le> int i \<and> int i < b \<longleftrightarrow> i < length segment \<and> wd_window_start_time_ms v \<le> open_time_ms (segment ! i) \<and>
         open_time_ms (segment ! i) < wd_window_end_time_ms v) \<and>
      wd_window_end_time_ms v - wd_window_start_time_ms v = days * MS_PER_DAY \<and> wd_window_end_time_ms v \<le> RESEARCH_CUTOFF_MS"
    using i(4) cutoff built(1) by auto
qed

text \<open>The window of a block depends on the candles and the schedule only.\<close>

definition scheduled_key :: "candle list list \<Rightarrow> scheduled_window \<Rightarrow> int \<times> int option \<times> int option" where
  "scheduled_key segs v =
     (case nth_res segs (wd_segment_index v) of Inl _ \<Rightarrow> (0, None, None)
      | Inr segment \<Rightarrow> case window_range segment v of None \<Rightarrow> (0, None, None)
        | Some (a, b) \<Rightarrow> (wd_segment_index v, Some (open_time_ms (segment ! nat a)), Some (close_time_ms (segment ! nat (b - 1)))))"

definition block_key :: "block_result \<Rightarrow> (int \<times> int option \<times> int option) \<times> string option" where
  "block_key b = ((bk_segment_index (bl_block b), bk_window_start_time_ms (bl_block b), bk_window_end_time_ms (bl_block b)),
     bk_skipped_reason (bl_block b))"

lemma scheduled_step_key:
  assumes "scheduled_step pl u segs acc v = Inr acc'" "1 \<le> rs_min_required u"
  shows "\<exists>b. ba_blocks acc' = ba_blocks acc @ [b] \<and> block_key b = (scheduled_key segs v, None)"
proof -
  obtain segment where seg: "nth_res segs (wd_segment_index v) = Inr segment" "evaluate_duration_block pl u True segment acc v = Inr acc'"
    using assms(1) by (auto simp: scheduled_step_def)
  obtain a b where ab: "window_range segment v = Some (a, b)" using seg(2) by (cases "window_range segment v") (auto simp: evaluate_duration_block_def)
  have lt: "a < b" using ab by (auto simp: window_range_def Let_def split: if_splits)
  obtain blk ws j where blk: "run_block pl u (wd_segment_index v) (wd_block_index v) segment a b (ba_journal acc) = Inr (blk, ws, j)"
    "0 \<le> a - (rs_min_required u - 1)" "ba_blocks acc' = ba_blocks acc @ [blk]"
    using seg(2) ab by (auto simp: evaluate_duration_block_def split: if_splits)
  have "block_key blk = (scheduled_key segs v, None)"
    using run_block_spec(2) [OF blk(1) assms(2) blk(2) lt] by (simp add: block_key_def scheduled_key_def seg(1) ab)
  then show ?thesis using blk(3) by blast
qed

lemma scheduled_windows:
  assumes "run_candidate_fixed_duration_evaluation pl pd candidate cs config filters j days (Some sk) = Inr (res, j')"
    and "prepare_candidate pd candidate config filters = Inr u" "1 \<le> rs_min_required u"
    and "partition_into_segments cs (cfg_interval (cfg_market config)) = Inr seg"
  shows "map block_key (cf_blocks res) = map (\<lambda>v. (scheduled_key (segments seg) v, None)) (sk_windows sk)"
proof -
  have ne: "cs \<noteq> []" using assms(4) by (auto simp: partition_into_segments_def split: if_splits)
  obtain acc where acc: "foldr_res (scheduled_step pl u (segments seg)) (block_acc_start j) (sk_windows sk) = Inr acc"
    "cf_blocks res = ba_blocks acc"
    using assms(1,2,4) ne by (auto simp: run_candidate_fixed_duration_evaluation_def duration_result_of_def split: if_splits)
  have "\<exists>ys. ba_blocks acc = ba_blocks (block_acc_start j) @ ys \<and> map block_key ys = map (\<lambda>v. (scheduled_key (segments seg) v, None)) (sk_windows sk)"
    by (rule foldr_res_rows [OF acc(1)]) (use scheduled_step_key [OF _ assms(3)] in blast)
  then show ?thesis by (auto simp: acc(2) block_acc_start_def)
qed

lemma same_windows:
  assumes "run_candidate_fixed_duration_evaluation pl pd candidate cs config filters j days (Some sk) = Inr (res, k)"
    and "run_candidate_fixed_duration_evaluation pl' pd' candidate' cs config filters' j' days (Some sk) = Inr (res', k')"
    and "prepare_candidate pd candidate config filters = Inr u" "1 \<le> rs_min_required u"
    and "prepare_candidate pd' candidate' config filters' = Inr u'" "1 \<le> rs_min_required u'"
  shows "assert_identical_trading_windows (cf_blocks res) (cf_blocks res') = Inr () \<and>
    (cs = [] \<or> length (traded_windows (cf_blocks res)) = length (sk_windows sk))"
proof (cases "cs = []")
  case True
  then have "cf_blocks res = []" "cf_blocks res' = []" using assms(1,2)
    by (auto simp: run_candidate_fixed_duration_evaluation_def duration_result_of_def block_acc_start_def split: if_splits)
  then show ?thesis using True by (simp add: assert_identical_trading_windows_def)
next
  case False
  then obtain seg where seg: "partition_into_segments cs (cfg_interval (cfg_market config)) = Inr seg"
    using assms(1) by (auto simp: run_candidate_fixed_duration_evaluation_def split: if_splits)
  have traded: "traded_windows bs = map (scheduled_key (segments seg)) (sk_windows sk)"
    if "map block_key bs = map (\<lambda>v. (scheduled_key (segments seg) v, None)) (sk_windows sk)" for bs
  proof -
    have "traded_windows bs = map fst (filter (\<lambda>k. snd k = None) (map block_key bs))"
      by (simp add: traded_windows_def block_key_def filter_map comp_def)
    then show ?thesis unfolding that by (simp add: filter_map comp_def)
  qed
  show ?thesis
    using traded [OF scheduled_windows [OF assms(1,3,4) seg]] traded [OF scheduled_windows [OF assms(2,5,6) seg]]
    by (simp add: assert_identical_trading_windows_def)
qed

text \<open>
  C36. Candidates that are evaluated on one schedule trade identical windows: whatever their strategies and
  warm-ups, the run-time comparison of the windows of two of them never fails, and each
  evaluates every window of the schedule.
\<close>

theorem shared_schedule_gives_identical_windows:
  assumes "run_candidate_fixed_duration_evaluation pl pd candidate cs config filters j days (Some sk) = Inr (res, k)"
    and "run_candidate_fixed_duration_evaluation pl' pd' candidate' cs config filters' j' days (Some sk) = Inr (res', k')"
    and "prepare_candidate pd candidate config filters = Inr u" "1 \<le> rs_min_required u"
    and "prepare_candidate pd' candidate' config filters' = Inr u'" "1 \<le> rs_min_required u'"
  shows "assert_identical_trading_windows (cf_blocks res) (cf_blocks res') = Inr () \<and>
    (cs = [] \<or> length (traded_windows (cf_blocks res)) = length (sk_windows sk))"
  by (rule same_windows [OF assms])

lemma quiet_scheduled:
  assumes "prepare_candidate pd candidate config filters = Inr u" "quiet_setup pl u" "rs_min_required u \<le> anchor"
    and "assert_pre_cutoff cs = Inr ()" "build_fixed_duration_schedule cs config anchor days = Inr sk"
    and "partition_into_segments cs (cfg_interval (cfg_market config)) = Inr seg"
    and "interval_to_ms (cfg_interval (cfg_market config)) = Inr w" "w \<le> days * MS_PER_DAY"
  shows "\<exists>res j'. run_candidate_fixed_duration_evaluation pl pd candidate cs config filters j days (Some sk) = Inr (res, j')"
proof -
  note built = built_schedule [OF assms(5-7)]
  have w: "0 < w" by (rule interval_to_ms_pos [OF assms(7)])
  have ne: "cs \<noteq> []" using assms(6) by (auto simp: partition_into_segments_def split: if_splits)
  have "\<exists>t. foldr_res (scheduled_step pl u (segments seg)) (block_acc_start j) (sk_windows sk) = Inr t"
  proof (rule foldr_res_ok)
    fix s :: block_acc and v assume v: "v \<in> set (sk_windows sk)"
    obtain i where i: "i < length (segments seg)" "wd_segment_index v = int i" "anchor \<le> int (length (segments seg ! i))"
      "wd_window_end_time_ms v = wd_window_start_time_ms v + days * MS_PER_DAY"
      "open_time_ms (segments seg ! i ! nat (anchor - 1)) \<le> wd_window_start_time_ms v"
      "wd_window_end_time_ms v \<le> open_time_ms (last (segments seg ! i)) + w"
      "wd_window_end_time_ms v \<le> close_time_ms (last (segments seg ! i)) + 1"
      using built(5) [OF v] unfolding scheduled_in_def by blast
    have cont: "contiguous w (segments seg ! i)" by (rule segments_contiguous [OF assms(6,7)]) (use i(1) in simp)
    have f: "nat (anchor - 1) < length (segments seg ! i)" using i(3) built(1) by linarith
    have long: "wd_window_start_time_ms v + w \<le> wd_window_end_time_ms v" using i(4) assms(8) by simp
    obtain a b where ab: "window_range (segments seg ! i) v = Some (a, b)" "anchor - 1 \<le> a" "a < b" "b \<le> int (length (segments seg ! i))"
      using window_range_resolves [OF w cont f i(5) long i(6,7)] built(1) by auto
    have "rs_min_required u - 1 \<le> a" using ab(2) assms(3) by simp
    from quiet_block [OF assms(2) this ab(3,4)] obtain blk ws j'
      where "run_block pl u (wd_segment_index v) (wd_block_index v) (segments seg ! i) a b (ba_journal s) = Inr (blk, ws, j')" by (metis surj_pair)
    then show "\<exists>t. scheduled_step pl u (segments seg) s v = Inr t"
      using i(1,2) ab(1,2) assms(3) by (simp add: scheduled_step_def evaluate_duration_block_def)
  qed
  then show ?thesis using assms ne built(2,3) by (auto simp: run_candidate_fixed_duration_evaluation_def)
qed

definition rb_schedule :: block_schedule where
  "rb_schedule = (case build_fixed_duration_schedule rb_candles ev_config 3 1 of Inr sk \<Rightarrow> sk)"

lemma rb_built: "build_fixed_duration_schedule rb_candles ev_config 3 1 = Inr rb_schedule \<and> length (sk_windows rb_schedule) = 2"
  by code_simp

lemma rb_step: "interval_to_ms (cfg_interval (cfg_market ev_config)) = Inr 14400000" "14400000 \<le> 1 * MS_PER_DAY"
  by code_simp+

theorem built_schedule_can_be_applied_witness:
  "\<exists>v segment a b. v \<in> set (sk_windows rb_schedule) \<and> window_range segment v = Some (a, b) \<and> 2 \<le> a \<and> a < b \<and>
     wd_window_end_time_ms v - wd_window_start_time_ms v = 86400000"
proof -
  obtain v where v: "v \<in> set (sk_windows rb_schedule)" using rb_built by (cases "sk_windows rb_schedule") auto
  from built_schedule_can_be_applied [OF conjunct1 [OF rb_built] rb_segments rb_step] v
  obtain segment a b where "window_range segment v = Some (a, b)" "3 - 1 \<le> a" "a < b"
    "wd_window_end_time_ms v - wd_window_start_time_ms v = 1 * MS_PER_DAY" by blast
  then show ?thesis using v by (auto simp: MS_PER_DAY_def)
qed

theorem shared_schedule_gives_identical_windows_witness:
  "\<exists>res res' k k'. run_candidate_fixed_duration_evaluation ev_platform rb_pandas (breakout_spec ''two'' 2 2 (Flt (1 / 4)))
       rb_candles ev_config bt_filters None 1 (Some rb_schedule) = Inr (res, k) \<and>
     run_candidate_fixed_duration_evaluation ev_platform rb_pandas (breakout_spec ''one'' 1 1 (Flt (1 / 4)))
       rb_candles ev_config bt_filters None 1 (Some rb_schedule) = Inr (res', k') \<and>
     assert_identical_trading_windows (cf_blocks res) (cf_blocks res') = Inr () \<and> length (traded_windows (cf_blocks res)) = 2"
proof -
  have m: "rs_min_required (rb_setup 2 2) = 3" "rs_min_required (rb_setup 1 1) = 2" by (simp_all add: rb_setup_def)
  have pos: "(0 :: int) < 2" "(0 :: int) < 1" by simp_all
  note p = rb_prepared [OF pos(1,1)] rb_prepared [OF pos(2,2)]
  have le: "rs_min_required (rb_setup 2 2) \<le> 3" "rs_min_required (rb_setup 1 1) \<le> 3" "1 \<le> rs_min_required (rb_setup 2 2)"
    "1 \<le> rs_min_required (rb_setup 1 1)" by (simp_all add: m)
  note sk = conjunct1 [OF rb_built]
  obtain res k where 1: "run_candidate_fixed_duration_evaluation ev_platform rb_pandas (breakout_spec ''two'' 2 2 (Flt (1 / 4)))
       rb_candles ev_config bt_filters None 1 (Some rb_schedule) = Inr (res, k)"
    using quiet_scheduled [OF p(1) rb_quiet [OF pos(1,1)] le(1) rb_cutoff sk rb_segments rb_step] by blast
  obtain res' k' where 2: "run_candidate_fixed_duration_evaluation ev_platform rb_pandas (breakout_spec ''one'' 1 1 (Flt (1 / 4)))
       rb_candles ev_config bt_filters None 1 (Some rb_schedule) = Inr (res', k')"
    using quiet_scheduled [OF p(2) rb_quiet [OF pos(2,2)] le(2) rb_cutoff sk rb_segments rb_step] by blast
  from shared_schedule_gives_identical_windows [OF 1 2 p(1) le(3) p(2) le(4)] rb_built rb_length(2)
  have "assert_identical_trading_windows (cf_blocks res) (cf_blocks res') = Inr ()" "length (traded_windows (cf_blocks res)) = 2" by simp_all
  with 1 2 show ?thesis by blast
qed

section \<open>The verdict on a candidate\<close>

text \<open>What the verdict reads of a block: no marked price, no open position, no benchmark.\<close>

definition scored_view :: "block_result \<Rightarrow> (int \<times> dec \<times> flt) option \<times> dec option \<times> flt option" where
  "scored_view b =
     (map_option (\<lambda>p. (pr_trade_count p, pr_starting_equity p, pr_max_drawdown_pct p)) (bl_performance b), realized_of b, positive_contribution b)"

lemma same_views:
  assumes "map v xs = map v ys" "\<And>b. P b = Q (v b)" "\<And>b. P b \<Longrightarrow> f b = g (v b)"
  shows "map f (filter P xs) = map f (filter P ys)"
proof -
  have "map f (filter P zs) = map g (filter Q (map v zs))" for zs
    using assms(2,3) by (induction zs) auto
  then show ?thesis using assms(1) by simp
qed

lemma same_scored:
  assumes "map scored_view (cb_blocks r1) = map scored_view (cb_blocks r2)"
    "\<And>b. bl_performance b \<noteq> None \<Longrightarrow> f b = g (scored_view b)"
  shows "map f (filter (\<lambda>b. bl_performance b \<noteq> None) (cb_blocks r1)) = map f (filter (\<lambda>b. bl_performance b \<noteq> None) (cb_blocks r2))"
  by (rule same_views [where Q = "\<lambda>(p, _, _). p \<noteq> None" and g = g, OF assms(1)]) (use assms(2) in \<open>auto simp: scored_view_def\<close>)

lemma optional_median_ok: "\<exists>m. optional_median xs = Inr m"
  using fmedian_ok [of xs] by (auto simp: optional_median_def)

lemma list_max_ok: "xs \<noteq> [] \<Longrightarrow> \<exists>m. list_max xs = Inr m"
  by (cases xs) (simp_all add: list_max_def)

lemma list_min_ok: "xs \<noteq> [] \<Longrightarrow> \<exists>m. list_min xs = Inr m"
  by (cases xs) (simp_all add: list_min_def)

lemma positive_counts: "length (filter (\<lambda>p. 0 < pr_trade_count p) xs) = length (filter (\<lambda>k. 0 < k) (map pr_trade_count xs))"
  by (simp add: filter_map comp_def)

lemma reports_of: "List.map_filter bl_performance bs = map (\<lambda>b. the (bl_performance b)) (filter (\<lambda>b. bl_performance b \<noteq> None) bs)"
  by (simp add: List.map_filter_def comp_def)

lemma figures_of: "List.map_filter f xs = List.map_filter id (map f xs)"
  by (simp add: List.map_filter_def filter_map comp_def)

definition enough_evidence :: "blocked_result \<Rightarrow> bool" where
  "enough_evidence r \<longleftrightarrow>
     (let counts = map pr_trade_count (List.map_filter bl_performance (cb_blocks r))
      in MIN_TOTAL_TRADES_FOR_EVIDENCE \<le> sum_list counts \<and> MIN_BLOCKS_WITH_A_TRADE \<le> int (length (filter (\<lambda>k. 0 < k) counts)))"

lemma verdict_figures:
  assumes "enough_evidence r"
  obtains m w d x y where
    "fmedian (map realized_return_pct (filter (\<lambda>b. bl_performance b \<noteq> None) (cb_blocks r))) = Inr m"
    "list_min (map realized_return_pct (filter (\<lambda>b. bl_performance b \<noteq> None) (cb_blocks r))) = Inr w"
    "list_max (map pr_max_drawdown_pct (List.map_filter bl_performance (cb_blocks r))) = Inr d"
    "optional_median (map pr_total_return_pct (List.map_filter bl_performance (cb_blocks r))) = Inr x"
    "optional_median (List.map_filter excess_return_pct (filter (\<lambda>b. bl_performance b \<noteq> None) (cb_blocks r))) = Inr y"
proof -
  have "List.map_filter bl_performance (cb_blocks r) \<noteq> []"
    using assms by (intro notI) (simp add: enough_evidence_def MIN_TOTAL_TRADES_FOR_EVIDENCE_def)
  then have ne: "map pr_max_drawdown_pct (List.map_filter bl_performance (cb_blocks r)) \<noteq> []"
    "map realized_return_pct (filter (\<lambda>b. bl_performance b \<noteq> None) (cb_blocks r)) \<noteq> []" unfolding reports_of by simp_all
  show thesis using that fmedian_ok [OF ne(2)] list_min_ok [OF ne(2)] list_max_ok [OF ne(1)] optional_median_ok by metis
qed

lemma score_candidate_ok: "\<exists>e. score_candidate r = Inr e"
proof (cases "enough_evidence r")
  case True
  obtain m w d x y where "fmedian (map realized_return_pct (filter (\<lambda>b. bl_performance b \<noteq> None) (cb_blocks r))) = Inr m"
    "list_min (map realized_return_pct (filter (\<lambda>b. bl_performance b \<noteq> None) (cb_blocks r))) = Inr w"
    "list_max (map pr_max_drawdown_pct (List.map_filter bl_performance (cb_blocks r))) = Inr d"
    "optional_median (map pr_total_return_pct (List.map_filter bl_performance (cb_blocks r))) = Inr x"
    "optional_median (List.map_filter excess_return_pct (filter (\<lambda>b. bl_performance b \<noteq> None) (cb_blocks r))) = Inr y"
    by (rule verdict_figures [OF True])
  then show ?thesis using True
    by (simp add: score_candidate_def Let_def enough_evidence_def positive_counts del: not_None_eq)
qed (simp add: score_candidate_def Let_def enough_evidence_def positive_counts)


text \<open>
  Four blocks with ten trades each that realized 10 on 1000, and their mark-to-market figures:
  the total return, buy-and-hold and the position still open.
\<close>

definition vw_performance :: "flt \<Rightarrow> flt \<Rightarrow> performance_report" where
  "vw_performance mtm hold =
     \<lparr>pr_trade_count = 10, pr_total_return_pct = mtm, pr_annualized_return_pct = None, pr_max_drawdown_pct = Flt 5,
      pr_volatility_pct = None, pr_sharpe_ratio = None, pr_sortino_ratio = None, pr_win_rate = Some (Flt 60), pr_profit_factor = Some (Flt 2),
      pr_avg_win_quote = Some (Flt 4), pr_avg_loss_quote = Some (Flt 3), pr_exposure_pct = Flt 50, pr_turnover = Flt 20,
      pr_buy_and_hold_return_pct = Some hold, pr_low_trade_count_warning = True, pr_starting_equity = Dec 1000, pr_ending_equity = Dec 1010,
      pr_strategy_exit_count = 10, pr_stop_loss_exit_count = 0, pr_take_profit_exit_count = 0, pr_buy_and_hold = None, pr_periods_per_year = Flt 8760\<rparr>"

definition vw_extended :: "dec option \<Rightarrow> extended_report" where
  "vw_extended unrealized =
     \<lparr>er_accounting = compute_accounting_identity (Dec 1010) 0 (Dec 100) (Dec 1010),
      er_pnl_breakdown = \<lparr>pb_realized = Dec 10, pb_unrealized = unrealized, pb_total_marked_to_market = Dec 10, pb_entry_fees = 1, pb_exit_fees = 1, pb_slippage = 0\<rparr>,
      er_explanation = \<lparr>we_open_position_since = None, we_entries_note = Entries_Equal 10 10, we_trading_stopped = None\<rparr>,
      er_time_based = \<lparr>tb_cagr_pct = None, tb_monthly_returns = [], tb_positive_months_pct = None, tb_longest_underwater_days = None,
        tb_longest_underwater_start_ms = None, tb_longest_underwater_end_ms = None, tb_exposure_pct = Flt 50, tb_exposure_adjusted_return_pct = None, tb_calmar_ratio = None\<rparr>,
      er_trade_distribution = Some \<lparr>td_trade_count = 10, td_median_trade_return_pct = 1, td_average_winner_quote = Some (Flt 4), td_average_loser_quote = Some (Flt 3),
        td_largest_winner_quote = Some (Flt 4), td_largest_loser_quote = Some (Flt 4), td_best_trade_pnl_quote = Dec 4, td_best_trade_contribution_pct = Some (Flt 40),
        td_total_pnl_excluding_best_trade_quote = Dec 6, td_return_pct_excluding_best_trade = Some (Flt 1), td_max_consecutive_wins = 3, td_max_consecutive_losses = 2,
        td_holding_period = \<lparr>hp_min_hours = Flt 1, hp_median_hours = Flt 2, hp_mean_hours = Flt 2, hp_max_hours = Flt 3\<rparr>\<rparr>,
      er_bootstrap = \<lparr>bs_n_trades = 10, bs_n_resamples = 1, bs_seed = 1, bs_confidence_level = Flt 95, bs_mean_total_return_pct = None, bs_ci_low_pct = None, bs_ci_high_pct = None\<rparr>,
      er_rolling_windows = [], er_already_consumed = False, er_scope_note = True\<rparr>"

definition vw_block :: "flt \<Rightarrow> flt \<Rightarrow> dec option \<Rightarrow> int \<Rightarrow> block_result" where
  "vw_block mtm hold unrealized i =
     \<lparr>bl_block = \<lparr>bk_segment_index = 0, bk_block_index = i, bk_warm_up_start_time_ms = None, bk_warm_up_candle_count = 0, bk_window_start_time_ms = Some (i * 1000),
        bk_window_end_time_ms = Some (i * 1000 + 999), bk_candle_count = 100, bk_skipped_reason = None\<rparr>,
      bl_performance = Some (vw_performance mtm hold), bl_diagnostics = None, bl_extended = Some (vw_extended unrealized),
      bl_open_position = map_option (\<lambda>_. \<lparr>oi_entry_time_ms = i * 1000, oi_entry_price = Dec 100, oi_entry_reference_price = Dec 100, oi_quantity = 1, oi_entry_fee_quote = 0\<rparr>) unrealized,
      bl_ends_with_open_position = (unrealized \<noteq> None), bl_unresolved_pending_signal = None, bl_risk_reward = None, bl_trades = []\<rparr>"

definition vw_result :: "flt \<Rightarrow> flt \<Rightarrow> dec option \<Rightarrow> blocked_result" where
  "vw_result mtm hold unrealized =
     \<lparr>cb_candidate_id = ''d1'', cb_family = ''trend'', cb_params = [], cb_blocks = map (vw_block mtm hold unrealized) [0, 1, 2, 3], cb_warnings = []\<rparr>"


end
