(* ===== verification/Post_Mortem.thy ===== *)
theory Post_Mortem
  imports Scorecard
begin

text \<open>
  The post-mortem of a candidate (\<open>research/post_mortem.py\<close>): every closed trade with
  the plan it was entered under, found by position, and the statistics over all blocks. The
  notes and the sentences of the diagnosis are not modelled, the figures they quote are.
\<close>

definition TOP3_CONCENTRATION_FRAGILE_THRESHOLD_PCT :: flt where
  "TOP3_CONCENTRATION_FRAGILE_THRESHOLD_PCT = Flt 75"

datatype evidence_diagnosis = BROAD_POSITIVE_EXPECTANCY | CONCENTRATED_FRAGILE_POSITIVE_EXPECTANCY
  | NEGATIVE_EXPECTANCY | DIAGNOSED_INSUFFICIENT_EVIDENCE

section \<open>Trades and their plans\<close>

record trade_record =
  tc_trade :: trade
  tc_segment_index :: int
  tc_block_index :: int
  tc_planned_risk_quote :: "dec option"
  tc_planned_reward_quote :: "dec option"
  tc_planned_net_reward_to_risk :: "flt option"
  tc_r_multiple :: "flt option"
  tc_is_gap_through_stop :: "bool option"

definition planned_value :: "(risk_reward_diagnostics \<Rightarrow> 'v list) \<Rightarrow> risk_reward_diagnostics option \<Rightarrow> nat \<Rightarrow> 'v option" where
  "planned_value f rr i = (case rr of None \<Rightarrow> None | Some d \<Rightarrow> if i < length (f d) then Some (f d ! i) else None)"

definition correlated :: "block_result \<Rightarrow> nat \<times> trade \<Rightarrow> trade_record" where
  "correlated b = (\<lambda>(i, t).
     let risk = planned_value rrd_planned_risk_quote_values (bl_risk_reward b) i
     in \<lparr>tc_trade = t, tc_segment_index = bk_segment_index (bl_block b), tc_block_index = bk_block_index (bl_block b),
         tc_planned_risk_quote = risk,
         tc_planned_reward_quote = planned_value rrd_planned_reward_quote_values (bl_risk_reward b) i,
         tc_planned_net_reward_to_risk = planned_value rrd_net_reward_to_risk_values (bl_risk_reward b) i,
         tc_r_multiple = (case risk of None \<Rightarrow> None | Some x \<Rightarrow> if 0 < x then Some (float_of_dec (t_pnl_quote t / x)) else None),
         tc_is_gap_through_stop =
           (if t_exit_reason t = EXIT_REASON_STOP_LOSS then map_option (\<lambda>x. x < - t_pnl_quote t) risk else None)\<rparr>)"

definition correlate_trades_with_plans :: "block_result \<Rightarrow> trade_record list" where
  "correlate_trades_with_plans b = map (correlated b) (List.enumerate 0 (bl_trades b))"

section \<open>Counts and profits\<close>

definition won :: "trade list \<Rightarrow> int" where
  "won trades = int (length (filter (\<lambda>t. 0 < t_pnl_quote t) trades))"

definition share_pct :: "int \<Rightarrow> 'a list \<Rightarrow> flt option" where
  "share_pct k xs = (if xs = [] then None else Some (Flt 100 * float_of_int k / float_of_int (int (length xs))))"

definition mean_of :: "flt list \<Rightarrow> flt option" where
  "mean_of xs = (if xs = [] then None else Some (fmean xs))"

record trade_counts =
  kn_total_entries_approved :: int
  kn_closed_trades :: int
  kn_wins :: int
  kn_losses :: int
  kn_breakeven :: int
  kn_win_rate_pct :: "flt option"

definition trade_counts_of :: "int \<Rightarrow> trade list \<Rightarrow> trade_counts" where
  "trade_counts_of approved_count trades =
     \<lparr>kn_total_entries_approved = approved_count, kn_closed_trades = int (length trades), kn_wins = won trades,
      kn_losses = int (length (filter (\<lambda>t. t_pnl_quote t < 0) trades)),
      kn_breakeven = int (length (filter (\<lambda>t. t_pnl_quote t = 0) trades)), kn_win_rate_pct = share_pct (won trades) trades\<rparr>"

record pnl_stats =
  pn_average_net_pnl_quote :: "flt option"
  pn_median_net_pnl_quote :: "flt option"
  pn_average_winner_quote :: "flt option"
  pn_average_loser_quote :: "flt option"
  pn_realized_payoff_ratio :: "flt option"
  pn_expected_value_quote :: "flt option"
  pn_expected_value_pct_of_starting_equity :: "flt option"
  pn_expected_value_r_multiple :: "flt option"
  pn_profit_factor :: "flt option"

definition pnl_floats :: "trade list \<Rightarrow> flt list" where
  "pnl_floats trades = map (\<lambda>t. float_of_dec (t_pnl_quote t)) trades"

definition known_r :: "trade_record list \<Rightarrow> flt list" where
  "known_r records = List.map_filter tc_r_multiple records"

definition pnl_stats_of :: "trade list \<Rightarrow> trade_record list \<Rightarrow> dec option \<Rightarrow> pnl_stats result" where
  "pnl_stats_of trades records starting_equity =
     (if trades = []
      then Inr \<lparr>pn_average_net_pnl_quote = None, pn_median_net_pnl_quote = None, pn_average_winner_quote = None,
                pn_average_loser_quote = None, pn_realized_payoff_ratio = None, pn_expected_value_quote = None,
                pn_expected_value_pct_of_starting_equity = None, pn_expected_value_r_multiple = None, pn_profit_factor = None\<rparr>
      else
        let pnls = pnl_floats trades;
            winners = filter (\<lambda>p. 0 < p) pnls;
            losers = filter (\<lambda>p. p < 0) pnls;
            avg_winner = mean_of winners;
            avg_loser = mean_of losers;
            payoff = (case (avg_winner, avg_loser) of
                (Some w, Some l) \<Rightarrow> if l = 0 then None else Some (w / \<bar>l\<bar>)
              | _ \<Rightarrow> None);
            ev = fmean pnls;
            ev_pct = (case starting_equity of None \<Rightarrow> None | Some e \<Rightarrow> if e = 0 then None else Some (ev / float_of_dec e * Flt 100));
            gross_loss = \<bar>fsum losers\<bar>
        in bindr (fmedian pnls) (\<lambda>m. Inr
          \<lparr>pn_average_net_pnl_quote = Some ev, pn_median_net_pnl_quote = Some m, pn_average_winner_quote = avg_winner,
           pn_average_loser_quote = avg_loser, pn_realized_payoff_ratio = payoff, pn_expected_value_quote = Some ev,
           pn_expected_value_pct_of_starting_equity = ev_pct, pn_expected_value_r_multiple = mean_of (known_r records),
           pn_profit_factor = (if 0 < gross_loss then Some (fsum winners / gross_loss) else None)\<rparr>))"

section \<open>Exits and multiples of the risk\<close>

record exit_reason_breakdown =
  xb_exit_reason :: string
  xb_trade_count :: int
  xb_win_rate_pct :: "flt option"
  xb_expectancy_quote :: "flt option"

definition breakdown_row :: "string \<Rightarrow> trade list \<Rightarrow> exit_reason_breakdown" where
  "breakdown_row reason trades =
     \<lparr>xb_exit_reason = reason, xb_trade_count = int (length trades), xb_win_rate_pct = share_pct (won trades) trades,
      xb_expectancy_quote = mean_of (pnl_floats trades)\<rparr>"

definition EXIT_REASONS :: "string list" where
  "EXIT_REASONS = [EXIT_REASON_TAKE_PROFIT, EXIT_REASON_STOP_LOSS, EXIT_REASON_STRATEGY]"

definition exit_reason_breakdown_of :: "trade list \<Rightarrow> exit_reason_breakdown list" where
  "exit_reason_breakdown_of trades =
     map (\<lambda>reason. breakdown_row reason (filter (\<lambda>t. t_exit_reason t = reason) trades)) EXIT_REASONS"

definition gap_records :: "trade_record list \<Rightarrow> trade_record list" where
  "gap_records records = filter (\<lambda>r. tc_is_gap_through_stop r = Some True) records"

definition gap_through_stop_breakdown :: "trade_record list \<Rightarrow> exit_reason_breakdown" where
  "gap_through_stop_breakdown records = breakdown_row ''GAP_THROUGH_STOP'' (map tc_trade (gap_records records))"

record realized_r_distribution =
  rn_trades_with_known_r :: int
  rn_trades_excluded_unknown_r :: int
  rn_min_r :: "flt option"
  rn_median_r :: "flt option"
  rn_mean_r :: "flt option"
  rn_max_r :: "flt option"
  rn_pct_at_least_plus_2r :: "flt option"
  rn_pct_losing_more_than_minus_1r :: "flt option"

definition realized_r_distribution_of :: "trade_record list \<Rightarrow> realized_r_distribution result" where
  "realized_r_distribution_of records =
     (let known = known_r records; excluded = int (length records) - int (length known)
      in if known = []
         then Inr \<lparr>rn_trades_with_known_r = 0, rn_trades_excluded_unknown_r = excluded, rn_min_r = None, rn_median_r = None,
                   rn_mean_r = None, rn_max_r = None, rn_pct_at_least_plus_2r = None, rn_pct_losing_more_than_minus_1r = None\<rparr>
         else bindr (list_min known) (\<lambda>lo. bindr (fmedian known) (\<lambda>mid. bindr (list_max known) (\<lambda>hi. Inr
           \<lparr>rn_trades_with_known_r = int (length known), rn_trades_excluded_unknown_r = excluded, rn_min_r = Some lo,
            rn_median_r = Some mid, rn_mean_r = Some (fmean known), rn_max_r = Some hi,
            rn_pct_at_least_plus_2r = share_pct (int (length (filter (\<lambda>r. Flt 2 \<le> r) known))) known,
            rn_pct_losing_more_than_minus_1r = share_pct (int (length (filter (\<lambda>r. r < Flt (-1)) known))) known\<rparr>))))"

record planned_vs_realized =
  pz_average_planned_net_reward_to_risk :: "flt option"
  pz_average_realized_r_multiple_on_winners :: "flt option"
  pz_total_planned_risk_quote :: dec
  pz_total_planned_reward_quote :: dec
  pz_total_realized_pnl_quote :: dec

definition planned_vs_realized_of :: "trade_record list \<Rightarrow> dec \<Rightarrow> dec \<Rightarrow> dec \<Rightarrow> planned_vs_realized" where
  "planned_vs_realized_of records total_planned_risk total_planned_reward total_realized =
     \<lparr>pz_average_planned_net_reward_to_risk = mean_of (List.map_filter tc_planned_net_reward_to_risk records),
      pz_average_realized_r_multiple_on_winners = mean_of (known_r (filter (\<lambda>r. 0 < t_pnl_quote (tc_trade r)) records)),
      pz_total_planned_risk_quote = total_planned_risk, pz_total_planned_reward_quote = total_planned_reward,
      pz_total_realized_pnl_quote = total_realized\<rparr>"

record cost_totals =
  co_total_fees_quote :: dec
  co_total_slippage_quote :: dec

definition cost_totals_of :: "trade list \<Rightarrow> cost_totals" where
  "cost_totals_of trades =
     \<lparr>co_total_fees_quote = dsum (map t_fees_paid trades),
      co_total_slippage_quote =
        dsum (map (\<lambda>t. \<bar>t_entry_price t - t_entry_reference_price t\<bar> * t_quantity t
                     + \<bar>t_exit_price t - t_exit_reference_price t\<bar> * t_quantity t) trades)\<rparr>"

section \<open>Exclusions and concentration\<close>

text \<open>\<open>sorted(\<dots>, reverse=True)\<close>, which keeps equal elements in their order.\<close>

definition sorted_desc :: "('v \<Rightarrow> 'k :: linorder) \<Rightarrow> 'v list \<Rightarrow> 'v list" where
  "sorted_desc key xs = rev (sort_key key (rev xs))"

record exclusion_result =
  xl_label :: string
  xl_trades_excluded :: int
  xl_net_pnl_quote :: dec
  xl_remains_positive :: bool

definition EXCLUSION_LABELS :: "string list" where
  "EXCLUSION_LABELS = [''excluding_best_trade'', ''excluding_best_3_trades'', ''excluding_best_5_pct_of_trades'']"

definition exclusion_of :: "trade list \<Rightarrow> string \<times> int \<Rightarrow> exclusion_result" where
  "exclusion_of trades = (\<lambda>(label, k0).
     let k = min k0 (int (length trades));
         excluded_sum = dsum (map t_pnl_quote (take (nat k) (sorted_desc t_pnl_quote trades)));
         remaining = dsum (map t_pnl_quote trades) - excluded_sum
     in \<lparr>xl_label = label, xl_trades_excluded = k, xl_net_pnl_quote = remaining, xl_remains_positive = (0 < remaining)\<rparr>)"

definition exclusion_results :: "trade list \<Rightarrow> exclusion_result list" where
  "exclusion_results trades =
     (if trades = []
      then map (\<lambda>label. \<lparr>xl_label = label, xl_trades_excluded = 0, xl_net_pnl_quote = 0, xl_remains_positive = False\<rparr>) EXCLUSION_LABELS
      else map (exclusion_of trades)
        (zip EXCLUSION_LABELS [1, 3, max 1 (- ((- (int (length trades)) * 5) div 100))]))"

record concentration_stats =
  cc_top1_pct_of_positive_pnl :: "flt option"
  cc_top3_pct_of_positive_pnl :: "flt option"
  cc_top5_pct_of_positive_pnl :: "flt option"
  cc_trades_to_reach_50_pct_of_net_profit :: "int option"
  cc_trades_to_reach_100_pct_of_net_profit :: "int option"

definition top_pct :: "nat \<Rightarrow> dec list \<Rightarrow> flt option" where
  "top_pct k winners =
     (if 0 < dsum winners then Some (float_of_dec (dsum (take k winners) / dsum winners * Dec 100)) else None)"

fun reach_loop :: "dec \<Rightarrow> int \<Rightarrow> dec \<Rightarrow> int option \<Rightarrow> dec list \<Rightarrow> int option \<times> int option" where
  "reach_loop net_profit i cumulative to_50 [] = (to_50, None)"
| "reach_loop net_profit i cumulative to_50 (pnl # pnls) =
     (let sum = cumulative + pnl;
          to_50' = (if to_50 = None \<and> net_profit * Dec (1 / 2) \<le> sum then Some i else to_50)
      in if net_profit \<le> sum then (to_50', Some i) else reach_loop net_profit (i + 1) sum to_50' pnls)"

definition concentration_stats_of :: "trade list \<Rightarrow> concentration_stats" where
  "concentration_stats_of trades =
     (let winners = sorted_desc id (filter (\<lambda>p. 0 < p) (map t_pnl_quote trades));
          net_profit = dsum (map t_pnl_quote trades);
          reached = (if 0 < net_profit then reach_loop net_profit 1 0 None (sorted_desc id (map t_pnl_quote trades)) else (None, None))
      in \<lparr>cc_top1_pct_of_positive_pnl = top_pct 1 winners, cc_top3_pct_of_positive_pnl = top_pct 3 winners,
          cc_top5_pct_of_positive_pnl = top_pct 5 winners, cc_trades_to_reach_50_pct_of_net_profit = fst reached,
          cc_trades_to_reach_100_pct_of_net_profit = snd reached\<rparr>)"

section \<open>Stability over time\<close>

record block_chrono_stat =
  bq_segment_index :: int
  bq_block_index :: int
  bq_window_start_time_ms :: "int option"
  bq_window_end_time_ms :: "int option"
  bq_trade_count :: int
  bq_net_pnl_quote :: dec
  bq_positive :: bool

definition block_chrono_stat_of :: "block_result \<Rightarrow> block_chrono_stat" where
  "block_chrono_stat_of b =
     (let net = dsum (map t_pnl_quote (bl_trades b))
      in \<lparr>bq_segment_index = bk_segment_index (bl_block b), bq_block_index = bk_block_index (bl_block b),
          bq_window_start_time_ms = bk_window_start_time_ms (bl_block b), bq_window_end_time_ms = bk_window_end_time_ms (bl_block b),
          bq_trade_count = int (length (bl_trades b)), bq_net_pnl_quote = net, bq_positive = (0 < net)\<rparr>)"

record yearly_stat =
  ys_year :: int
  ys_trade_count :: int
  ys_net_pnl_quote :: dec
  ys_win_rate_pct :: "flt option"

definition year_of :: "trade \<Rightarrow> int" where
  "year_of t = fst (civil_from_days (t_entry_time_ms t div MS_PER_DAY))"

definition yearly_stats :: "trade list \<Rightarrow> yearly_stat list" where
  "yearly_stats trades =
     map (\<lambda>year. let group' = filter (\<lambda>t. year_of t = year) trades
                 in \<lparr>ys_year = year, ys_trade_count = int (length group'), ys_net_pnl_quote = dsum (map t_pnl_quote group'),
                     ys_win_rate_pct = share_pct (won group') group'\<rparr>)
       (sort (remdups (map year_of trades)))"

fun longest_losing_streak :: "int \<Rightarrow> int \<Rightarrow> trade list \<Rightarrow> int" where
  "longest_losing_streak longest current [] = longest"
| "longest_losing_streak longest current (t # ts) =
     (if t_pnl_quote t < 0 then longest_losing_streak (max longest (current + 1)) (current + 1) ts else longest_losing_streak longest 0 ts)"

text \<open>The longest time that the cumulative profit stayed below its peak.\<close>

fun pnl_underwater :: "dec \<Rightarrow> dec \<Rightarrow> int \<Rightarrow> int option \<Rightarrow> int \<Rightarrow> trade list \<Rightarrow> int option \<times> int" where
  "pnl_underwater cumulative peak peak_time start best [] = (start, best)"
| "pnl_underwater cumulative peak peak_time start best (t # ts) =
     (let sum = cumulative + t_pnl_quote t
      in if peak \<le> sum
         then pnl_underwater sum sum (t_exit_time_ms t) None
           (case start of None \<Rightarrow> best | Some s \<Rightarrow> max best (t_exit_time_ms t - s)) ts
         else pnl_underwater sum peak peak_time (case start of None \<Rightarrow> Some peak_time | Some s \<Rightarrow> Some s) best ts)"

definition longest_underwater_days :: "trade list \<Rightarrow> flt option" where
  "longest_underwater_days trades =
     (case trades of
        [] \<Rightarrow> None
      | first # _ \<Rightarrow>
          (case pnl_underwater 0 0 (t_exit_time_ms first) None 0 trades of (start, best) \<Rightarrow>
             let best' = (case start of None \<Rightarrow> best | Some s \<Rightarrow> max best (t_exit_time_ms (last trades) - s))
             in if 0 < best' then Some (int_truediv best' MS_PER_DAY) else None))"

record half_split_stat =
  hh_label :: string
  hh_trade_count :: int
  hh_net_pnl_quote :: dec
  hh_win_rate_pct :: "flt option"

definition half_split_stat_of :: "string \<Rightarrow> trade list \<Rightarrow> half_split_stat" where
  "half_split_stat_of label trades =
     \<lparr>hh_label = label, hh_trade_count = int (length trades), hh_net_pnl_quote = dsum (map t_pnl_quote trades),
      hh_win_rate_pct = share_pct (won trades) trades\<rparr>"

record chronological_stability =
  cy_per_block :: "block_chrono_stat list"
  cy_per_calendar_year :: "yearly_stat list"
  cy_longest_losing_streak_trades :: int
  cy_longest_underwater_period_days :: "flt option"
  cy_first_half :: half_split_stat
  cy_second_half :: half_split_stat

definition chronological_stability_of :: "block_result list \<Rightarrow> trade_record list \<Rightarrow> chronological_stability" where
  "chronological_stability_of blocks records =
     (let ordered = map tc_trade (sort_key (\<lambda>r. t_entry_time_ms (tc_trade r)) records);
          mid = length ordered div 2
      in \<lparr>cy_per_block = map block_chrono_stat_of (filter (\<lambda>b. bk_skipped_reason (bl_block b) = None) blocks),
          cy_per_calendar_year = yearly_stats ordered, cy_longest_losing_streak_trades = longest_losing_streak 0 0 ordered,
          cy_longest_underwater_period_days = longest_underwater_days ordered,
          cy_first_half = half_split_stat_of ''first_half'' (take mid ordered),
          cy_second_half = half_split_stat_of ''second_half'' (drop mid ordered)\<rparr>)"

section \<open>The policy and the diagnosis\<close>

record policy_diagnostics =
  pg_entries_rejected_net_rr_below_minimum :: int
  pg_entries_rejected_exchange_filter :: int
  pg_entries_rejected_post_fill_revalidation :: int
  pg_stop_loss_trades_total :: int
  pg_stop_loss_trades_within_planned_risk :: int
  pg_stop_loss_trades_gap_exceeding_planned_risk :: int
  pg_planned_1pct_risk_compliance_pct :: "flt option"

definition risk_reward_policy_diagnostics :: "block_result list \<Rightarrow> trade_record list \<Rightarrow> policy_diagnostics" where
  "risk_reward_policy_diagnostics blocks records =
     (let rr_blocks = List.map_filter bl_risk_reward blocks;
          stop_records = filter (\<lambda>r. t_exit_reason (tc_trade r) = EXIT_REASON_STOP_LOSS) records;
          known_gap = filter (\<lambda>r. tc_is_gap_through_stop r \<noteq> None) stop_records;
          within_plan = int (length (filter (\<lambda>r. tc_is_gap_through_stop r = Some False) known_gap))
      in \<lparr>pg_entries_rejected_net_rr_below_minimum = sum_list (map rrd_entries_rejected_net_rr_below_minimum rr_blocks),
          pg_entries_rejected_exchange_filter = sum_list (map rrd_entries_rejected_exchange_filter rr_blocks),
          pg_entries_rejected_post_fill_revalidation = sum_list (map rrd_entries_rejected_post_fill_revalidation rr_blocks),
          pg_stop_loss_trades_total = int (length stop_records), pg_stop_loss_trades_within_planned_risk = within_plan,
          pg_stop_loss_trades_gap_exceeding_planned_risk = int (length (gap_records known_gap)),
          pg_planned_1pct_risk_compliance_pct = share_pct within_plan known_gap\<rparr>)"

record breakout_exclusion_check =
  bx_applicable :: bool
  bx_remains_positive_excluding_best_trade :: "bool option"
  bx_remains_positive_excluding_best_3_trades :: "bool option"
  bx_remains_positive_excluding_best_5_pct :: "bool option"

text \<open>The lookup by label, where a missing label raises \<open>KeyError\<close>.\<close>

definition survives :: "string \<Rightarrow> exclusion_result list \<Rightarrow> bool result" where
  "survives label exclusions =
     of_option KeyError (map_option xl_remains_positive (List.find (\<lambda>e. xl_label e = label) exclusions))"

definition BREAKOUT_FAMILY :: string where "BREAKOUT_FAMILY = ''volatility_normalized_breakout''"

definition breakout_exclusion_check_of :: "string \<Rightarrow> exclusion_result list \<Rightarrow> breakout_exclusion_check result" where
  "breakout_exclusion_check_of family exclusions =
     (if family \<noteq> BREAKOUT_FAMILY
      then Inr \<lparr>bx_applicable = False, bx_remains_positive_excluding_best_trade = None,
                bx_remains_positive_excluding_best_3_trades = None, bx_remains_positive_excluding_best_5_pct = None\<rparr>
      else bindr (map_res (\<lambda>label. survives label exclusions) EXCLUSION_LABELS) (\<lambda>vs.
        Inr \<lparr>bx_applicable = True, bx_remains_positive_excluding_best_trade = Some (vs ! 0),
             bx_remains_positive_excluding_best_3_trades = Some (vs ! 1), bx_remains_positive_excluding_best_5_pct = Some (vs ! 2)\<rparr>))"

definition diagnose :: "int \<Rightarrow> int \<Rightarrow> dec \<Rightarrow> exclusion_result list \<Rightarrow> flt option \<Rightarrow> flt option \<Rightarrow> evidence_diagnosis result" where
  "diagnose total_closed_trades blocks_with_a_trade aggregate_pnl exclusions top3_positive_pct positive_block_fraction =
     (if total_closed_trades < MIN_TOTAL_TRADES_FOR_EVIDENCE \<or> blocks_with_a_trade < MIN_BLOCKS_WITH_A_TRADE
      then Inr DIAGNOSED_INSUFFICIENT_EVIDENCE
      else if aggregate_pnl \<le> 0 then Inr NEGATIVE_EXPECTANCY
      else bindr (survives ''excluding_best_trade'' exclusions) (\<lambda>without_best.
           bindr (survives ''excluding_best_3_trades'' exclusions) (\<lambda>without_best_3.
           let concentrated = (case top3_positive_pct of None \<Rightarrow> False | Some x \<Rightarrow> TOP3_CONCENTRATION_FRAGILE_THRESHOLD_PCT < x);
               unstable = (case positive_block_fraction of None \<Rightarrow> True | Some x \<Rightarrow> x < MIN_POSITIVE_REALIZED_PNL_BLOCK_FRACTION)
           in Inr (if \<not> without_best \<or> \<not> without_best_3 \<or> concentrated \<or> unstable
                   then CONCENTRATED_FRAGILE_POSITIVE_EXPECTANCY else BROAD_POSITIVE_EXPECTANCY))))"

section \<open>The post-mortem\<close>

record candidate_post_mortem =
  cq_candidate_id :: string
  cq_family :: string
  cq_params :: payload
  cq_trade_counts :: trade_counts
  cq_pnl_stats :: pnl_stats
  cq_exit_reason_breakdown :: "exit_reason_breakdown list"
  cq_realized_r_distribution :: realized_r_distribution
  cq_planned_vs_realized :: planned_vs_realized
  cq_costs :: cost_totals
  cq_exclusions :: "exclusion_result list"
  cq_concentration :: concentration_stats
  cq_chronological_stability :: chronological_stability
  cq_risk_reward_diagnostics :: policy_diagnostics
  cq_breakout_exclusion_check :: breakout_exclusion_check
  cq_diagnosis :: evidence_diagnosis
  cq_inconsistent_equities :: "dec list"

definition evaluated_blocks :: "blocked_result \<Rightarrow> block_result list" where
  "evaluated_blocks res = filter (\<lambda>b. bk_skipped_reason (bl_block b) = None) (cb_blocks res)"

text \<open>The one starting equity, or the different ones for the warning.\<close>

definition starting_equities :: "block_result list \<Rightarrow> dec list" where
  "starting_equities blocks = sort (remdups (map pr_starting_equity (List.map_filter bl_performance blocks)))"

definition build_candidate_post_mortem :: "blocked_result \<Rightarrow> candidate_post_mortem result" where
  "build_candidate_post_mortem res =
     (let blocks = evaluated_blocks res;
          all_trades = concat (map bl_trades blocks);
          all_records = concat (map correlate_trades_with_plans blocks);
          rr_blocks = List.map_filter bl_risk_reward blocks;
          blocks_with_a_trade = int (length (filter (\<lambda>b. bl_trades b \<noteq> []) blocks));
          equities = starting_equities blocks;
          starting_equity = (if length equities = 1 then Some (hd equities) else None);
          aggregate_pnl = dsum (map t_pnl_quote all_trades);
          exclusions = exclusion_results all_trades;
          concentration = concentration_stats_of all_trades;
          chronological = chronological_stability_of blocks all_records;
          per_block = cy_per_block chronological;
          positive_block_fraction =
            (if per_block = [] then None else Some (int_truediv (int (length (filter bq_positive per_block))) (int (length per_block))))
      in bindr (pnl_stats_of all_trades all_records starting_equity) (\<lambda>stats.
         bindr (realized_r_distribution_of all_records) (\<lambda>r_distribution.
         bindr (breakout_exclusion_check_of (cb_family res) exclusions) (\<lambda>breakout_check.
         bindr (diagnose (int (length all_trades)) blocks_with_a_trade aggregate_pnl exclusions
           (cc_top3_pct_of_positive_pnl concentration) positive_block_fraction) (\<lambda>diagnosis.
         Inr
           \<lparr>cq_candidate_id = cb_candidate_id res, cq_family = cb_family res, cq_params = cb_params res,
            cq_trade_counts = trade_counts_of (sum_list (map rrd_entries_approved rr_blocks)) all_trades, cq_pnl_stats = stats,
            cq_exit_reason_breakdown = exit_reason_breakdown_of all_trades @ [gap_through_stop_breakdown all_records],
            cq_realized_r_distribution = r_distribution,
            cq_planned_vs_realized = planned_vs_realized_of all_records (dsum (map rrd_planned_risk_quote_total rr_blocks))
              (dsum (map rrd_planned_reward_quote_total rr_blocks)) aggregate_pnl,
            cq_costs = cost_totals_of all_trades, cq_exclusions = exclusions, cq_concentration = concentration,
            cq_chronological_stability = chronological,
            cq_risk_reward_diagnostics = risk_reward_policy_diagnostics blocks all_records,
            cq_breakout_exclusion_check = breakout_check, cq_diagnosis = diagnosis,
            cq_inconsistent_equities = (if 1 < length equities then equities else [])\<rparr>)))))"

text \<open>The report: every candidate, in the order given.\<close>

definition build_post_mortem_report :: "blocked_result list \<Rightarrow> candidate_post_mortem list result" where
  "build_post_mortem_report results = map_res build_candidate_post_mortem results"

end
