(* ===== verification/Plan_Facts.thy ===== *)
theory Plan_Facts
  imports Post_Mortem
begin

text \<open>
  Trades and plans by position: under the fixed policy a run keeps one planned risk and one
  planned reward for every entry, in the order of the entries, so the plan at the position of
  a trade is the plan of this trade. That is what the post-mortem relies on.
\<close>

definition gap_stops :: "trade list \<Rightarrow> dec list \<Rightarrow> int" where
  "gap_stops trades risks =
     int (length (filter (\<lambda>(t, risk). t_exit_reason t = EXIT_REASON_STOP_LOSS \<and> risk < - t_pnl_quote t) (zip trades risks)))"

definition plans_aligned :: "seg_state \<Rightarrow> bool" where
  "plans_aligned s \<longleftrightarrow>
     (let risks = rr_planned_risk_quote_values (sg_diag s); entries = length (sg_trades s) + (if sg_open_trade s = None then 0 else 1)
      in length risks = entries \<and> length (rr_planned_reward_quote_values (sg_diag s)) = entries \<and>
         rr_entries_approved (sg_diag s) = int entries \<and>
         rr_gap_losses_exceeding_planned_risk (sg_diag s) = gap_stops (sg_trades s) risks \<and>
         (case sg_open_trade s of None \<Rightarrow> True
          | Some ot \<Rightarrow> position_side (sg_portfolio s) = LONG \<and> Option.bind (ot_realized_plan ot) planned_risk_quote = Some (last risks)))"

lemma gap_stops_snoc:
  assumes "length risks = length trades"
  shows "gap_stops (trades @ [t]) (risks @ [risk]) =
    gap_stops trades risks + (if t_exit_reason t = EXIT_REASON_STOP_LOSS \<and> risk < - t_pnl_quote t then 1 else 0)"
  using assms by (simp add: gap_stops_def)

lemma gap_stops_longer: "length trades \<le> length risks \<Longrightarrow> gap_stops trades (risks @ extra) = gap_stops trades risks"
  using zip_append2 [of trades risks extra] by (simp add: gap_stops_def)

lemma plans_aligned_cong:
  assumes "sg_portfolio t = sg_portfolio s" "sg_open_trade t = sg_open_trade s" "sg_trades t = sg_trades s" "same_books (sg_diag t) (sg_diag s)"
  shows "plans_aligned s \<Longrightarrow> plans_aligned t"
  using assms by (cases "sg_open_trade s") (simp_all add: plans_aligned_def same_books_def Let_def)

lemma plans_aligned_close:
  assumes "plans_aligned s"
  shows "plans_aligned (close_position rc t q f reason ref p s)"
proof (cases "sg_open_trade s")
  case None
  then show ?thesis using assms by (simp add: plans_aligned_def close_position_def Let_def)
next
  case (Some ot)
  let ?vs = "rr_planned_risk_quote_values (sg_diag s)"
  let ?t = "closed_trade ot t q f (realized_pnl_quote p - realized_pnl_quote (sg_portfolio s)) reason ref"
  have len: "length ?vs = length (sg_trades s) + 1" and risk: "Option.bind (ot_realized_plan ot) planned_risk_quote = Some (last ?vs)"
    using assms Some by (auto simp: plans_aligned_def Let_def)
  then have vs: "?vs = butlast ?vs @ [last ?vs]" by (metis append_butlast_last_id length_0_conv add_is_0 zero_neq_one)
  have lb: "length (butlast ?vs) = length (sg_trades s)" using len by simp
  have before: "gap_stops (sg_trades s) ?vs = gap_stops (sg_trades s) (butlast ?vs)"
    using gap_stops_longer [of "sg_trades s" "butlast ?vs" "[last ?vs]"] lb vs by simp
  have after': "gap_stops (sg_trades s @ [?t]) ?vs = gap_stops (sg_trades s) (butlast ?vs) +
      (if exceeds_planned_risk reason (realized_pnl_quote p - realized_pnl_quote (sg_portfolio s)) ot then 1 else 0)"
    using gap_stops_snoc [OF lb, of ?t "last ?vs"] vs risk
    by (auto simp: closed_trade_def exceeds_planned_risk_def bind_eq_Some_conv split: option.splits)
  show ?thesis using assms Some before after'
    by (auto simp: plans_aligned_def close_position_def Let_def)
qed

lemma plans_aligned_open:
  assumes "plans_aligned s" "position_plan config q (sf_fill_price f) (Some r)"
    and "apply_buy (sg_portfolio s) q (sf_fill_price f) (sf_fee_quote f) False = Inr p"
  shows "plans_aligned (opened config c q f ref (Some r) p s)"
proof -
  have flat: "position_side (sg_portfolio s) = FLAT" "position_side p = LONG"
    using assms(3) by (cases "position_side (sg_portfolio s)"; auto simp: apply_buy_def Let_def split: if_splits)+
  then have none: "sg_open_trade s = None" using assms(1) by (auto simp: plans_aligned_def Let_def split: option.splits)
  obtain risk reward where r: "planned_risk_quote r = Some risk" "planned_reward_quote r = Some reward"
    using assms(2) by (auto simp: position_plan_def plan_ok_def)
  show ?thesis using assms(1) none r flat gap_stops_longer [of "sg_trades s" "rr_planned_risk_quote_values (sg_diag s)" "[risk]"]
    by (simp add: plans_aligned_def opened_def record_rr_entry_def push_some_def Let_def)
qed

interpretation planned: bar_steps config rc b "\<lambda>_. True" plans_aligned True for config rc b
proof unfold_locales
  fix s :: seg_state and c and f and p and q reason ref plan
  assume s: "plans_aligned s"
  show "plans_aligned (start_bar c s)" by (rule plans_aligned_cong [OF _ _ _ _ s]) (simp_all add: start_bar_def Let_def same_books_def)
  show "plans_aligned (close_bar c s)" by (rule plans_aligned_cong [OF _ _ _ _ s]) (simp_all add: close_bar_def same_books_def)
  show "plans_aligned (s\<lparr>sg_journal := j\<rparr>)" "plans_aligned (s\<lparr>sg_pending_signal := v\<rparr>)" "plans_aligned (s\<lparr>sg_peak_equity := e\<rparr>)" for j v e
    by (rule plans_aligned_cong [OF _ _ _ _ s]; simp add: same_books_def)+
  show "plans_aligned (s\<lparr>sg_diag := d\<rparr>)" if "same_books d (sg_diag s)" for d
    by (rule plans_aligned_cong [OF _ _ _ _ s]) (simp_all add: that)
  show "plans_aligned (close_position (cfg_risk config) (open_time_ms c) q f reason ref p s)" by (rule plans_aligned_close [OF s])
  show "plans_aligned (opened config c q f (c_open c) plan p s)"
    if "position_plan config q (sf_fill_price f) plan" "True \<Longrightarrow> plan \<noteq> None"
      "apply_buy (sg_portfolio s) q (sf_fill_price f) (sf_fee_quote f) False = Inr p"
    using plans_aligned_open [OF s _ that(3)] that(1,2) by auto
qed

text \<open>What a finished run of the policy says of its entries.\<close>

definition planned_run :: "trade list \<Rightarrow> bool \<Rightarrow> risk_reward_diagnostics \<Rightarrow> bool" where
  "planned_run trades holds d \<longleftrightarrow>
     length (rrd_planned_risk_quote_values d) = length trades + (if holds then 1 else 0) \<and>
     length (rrd_planned_reward_quote_values d) = length trades + (if holds then 1 else 0) \<and>
     rrd_entries_approved d = int (length trades) + (if holds then 1 else 0) \<and>
     rrd_stop_loss_exits d = count_exits EXIT_REASON_STOP_LOSS trades \<and>
     rrd_gap_losses_exceeding_planned_risk d = gap_stops trades (rrd_planned_risk_quote_values d)"

lemma policy_run_planned:
  assumes "run_segment segment config filters strategy rc b j m E True = Inr (r, j')"
  shows "\<exists>d. sr_risk_reward r = Some d \<and> planned_run (sr_trades r) (sr_open_position r \<noteq> None) d"
proof -
  obtain first s last_candle acts where run: "run_bars True config rc filters b strategy segment [m - 1 .. int (length segment) - 1] (seg_start E first j) = (Inr (), s)"
    and r: "r = segment_result True E last_candle acts s" using run_segment_cases [OF assms] by metis
  have "plans_aligned (seg_start E first j)" by (simp add: plans_aligned_def seg_start_def diag_start_def gap_stops_def)
  from preservesD [OF planned.run_bars [OF TrueI] this run] have "plans_aligned s" .
  then show ?thesis
    by (auto simp: r segment_result_def plans_aligned_def planned_run_def risk_reward_diagnostics_of_def Let_def open_trade_to_info_def split: option.splits)
qed

section \<open>The blocks of an evaluation\<close>

definition block_planned :: "block_result \<Rightarrow> bool" where
  "block_planned b \<longleftrightarrow> (bk_skipped_reason (bl_block b) = None \<longrightarrow>
     (\<exists>d. bl_risk_reward b = Some d \<and> planned_run (bl_trades b) (bl_open_position b \<noteq> None) d))"

lemma run_block_planned: "run_block pl u i k segment a b j = Inr (blk, ws, j') \<Longrightarrow> block_planned blk"
  using policy_run_planned by (fastforce simp: run_block_def Let_def policy_run_def block_of_def block_planned_def)

lemma skipped_planned: "block_planned (skipped_block i k n reason)"
  by (simp add: block_planned_def skipped_block_def)

lemma blocked_step_planned:
  assumes "blocked_step pl u i segment acc x = Inr acc'" "list_all block_planned (ba_blocks acc)"
  shows "list_all block_planned (ba_blocks acc')"
  using assms by (auto simp: blocked_step_def skipped_planned dest: run_block_planned split: if_splits prod.splits)

lemma blocked_segment_planned:
  assumes "blocked_segment pl u c acc x = Inr acc'" "list_all block_planned (ba_blocks acc)"
  shows "list_all block_planned (ba_blocks acc')"
proof -
  obtain i segment where [simp]: "x = (i, segment)" by (cases x)
  show ?thesis
  proof (cases "\<exists>acc0 xs. ba_blocks acc0 = ba_blocks acc \<and> foldr_res (blocked_step pl u (int i) segment) acc0 xs = Inr acc'")
    case True
    then obtain acc0 xs where "ba_blocks acc0 = ba_blocks acc" "foldr_res (blocked_step pl u (int i) segment) acc0 xs = Inr acc'" by blast
    from foldr_res_invariant [OF this(2), where I = "\<lambda>a. list_all block_planned (ba_blocks a)"] this(1) assms(2)
    show ?thesis using blocked_step_planned by auto
  next
    case False
    then show ?thesis using assms by (auto simp: blocked_segment_def Let_def skipped_planned split: if_splits)
  qed
qed

lemma evaluate_duration_planned:
  assumes "evaluate_duration_block pl u strict segment acc w = Inr acc'" "list_all block_planned (ba_blocks acc)"
  shows "list_all block_planned (ba_blocks acc')"
  using assms by (auto simp: evaluate_duration_block_def skipped_planned dest: run_block_planned split: if_splits option.splits prod.splits)

lemma unscheduled_planned:
  assumes "unscheduled_segment pl u w D d x = Inr d'" "list_all block_planned (ba_blocks (da_acc d))"
  shows "list_all block_planned (ba_blocks (da_acc d'))"
proof -
  obtain i segment where [simp]: "x = (i, segment)" by (cases x)
  obtain cut where cut: "cut_segment (rs_min_required u) w D (int i) segment = Inr cut" using assms(1) by (auto simp: unscheduled_segment_def)
  show ?thesis
  proof (cases cut)
    case (Cut ws rest)
    then obtain acc where acc: "foldr_res (evaluate_duration_block pl u False segment) (da_acc d) ws = Inr acc" "da_acc d' = acc"
      using assms(1) cut by (auto simp: unscheduled_segment_def)
    from foldr_res_invariant [OF acc(1), where I = "\<lambda>a. list_all block_planned (ba_blocks a)"] assms(2) acc(2)
    show ?thesis using evaluate_duration_planned by auto
  qed (use assms cut in \<open>auto simp: unscheduled_segment_def\<close>)
qed

lemma evaluations_planned:
  "run_candidate_blocked_chronological_evaluation pl pd candidate cs config filters j c = Inr (res, j') \<Longrightarrow>
     list_all block_planned (cb_blocks res)"
  "run_candidate_fixed_duration_evaluation pl pd candidate cs config filters j days schedule = Inr (dres, j') \<Longrightarrow>
     list_all block_planned (cf_blocks dres)"
proof -
  let ?I = "\<lambda>a. list_all block_planned (ba_blocks a)"
  have start: "?I (block_acc_start j)" by (simp add: block_acc_start_def)
  have blocked: "?I acc" if "foldr_res (blocked_segment pl u c) (block_acc_start j) xs = Inr acc" for u xs acc
    using foldr_res_invariant [where I = ?I, OF that start] blocked_segment_planned by auto
  show "list_all block_planned (cb_blocks res)"
    if "run_candidate_blocked_chronological_evaluation pl pd candidate cs config filters j c = Inr (res, j')"
    using that blocked by (auto simp: run_candidate_blocked_chronological_evaluation_def blocked_result_of_def split: if_splits)
  have sched: "?I acc" if "foldr_res (scheduled_step pl u segs) (block_acc_start j) ws = Inr acc" for u segs ws acc
    by (rule foldr_res_invariant [where I = ?I, OF that start]) (use evaluate_duration_planned in \<open>auto simp: scheduled_step_def\<close>)
  have unsched: "?I (da_acc d)" if "foldr_res (unscheduled_segment pl u w D) \<lparr>da_acc = block_acc_start j, da_fragments = [], da_leftovers = []\<rparr> xs = Inr d"
    for u w D xs d
    using foldr_res_invariant [where I = "\<lambda>d. ?I (da_acc d)", OF that] start unscheduled_planned by auto
  show "list_all block_planned (cf_blocks dres)"
    if "run_candidate_fixed_duration_evaluation pl pd candidate cs config filters j days schedule = Inr (dres, j')"
    using that sched unsched start
    by (auto simp: run_candidate_fixed_duration_evaluation_def duration_result_of_def block_acc_start_def split: if_splits option.splits)
qed

section \<open>The records of a block\<close>

lemma zip_enumerate: "length ts \<le> length vs \<Longrightarrow> zip ts vs = map (\<lambda>(i, t). (t, vs ! i)) (List.enumerate 0 ts)"
  by (rule nth_equalityI) (auto simp: nth_enumerate_eq)

lemma correlated_trades [simp]: "map tc_trade (correlate_trades_with_plans b) = bl_trades b"
proof -
  have "tc_trade \<circ> correlated b = snd" by (auto simp: correlated_def Let_def)
  then show ?thesis by (simp add: correlate_trades_with_plans_def)
qed

lemma correlated_known:
  assumes "bl_risk_reward b = Some d" "planned_run (bl_trades b) holds d" "r \<in> set (correlate_trades_with_plans b)"
  shows "tc_planned_risk_quote r \<noteq> None" "tc_planned_reward_quote r \<noteq> None"
    "tc_is_gap_through_stop r = None \<longleftrightarrow> t_exit_reason (tc_trade r) \<noteq> EXIT_REASON_STOP_LOSS"
proof -
  obtain i t where "i < length (bl_trades b)" "r = correlated b (i, t)"
    using assms(3) by (auto simp: correlate_trades_with_plans_def in_set_enumerate_eq)
  then show "tc_planned_risk_quote r \<noteq> None" "tc_planned_reward_quote r \<noteq> None"
    "tc_is_gap_through_stop r = None \<longleftrightarrow> t_exit_reason (tc_trade r) \<noteq> EXIT_REASON_STOP_LOSS"
    using assms(1,2) by (auto simp: correlated_def Let_def planned_value_def planned_run_def split: if_splits)
qed

lemma correlated_gaps:
  assumes "bl_risk_reward b = Some d" "planned_run (bl_trades b) holds d"
  shows "int (length (gap_records (correlate_trades_with_plans b))) = rrd_gap_losses_exceeding_planned_risk d"
proof -
  let ?vs = "rrd_planned_risk_quote_values d" and ?ts = "bl_trades b"
  have le: "length ?ts \<le> length ?vs" using assms(2) by (simp add: planned_run_def)
  have "(tc_is_gap_through_stop (correlated b (i, t)) = Some True) = (t_exit_reason t = EXIT_REASON_STOP_LOSS \<and> ?vs ! i < - t_pnl_quote t)"
    if "(i, t) \<in> set (List.enumerate 0 ?ts)" for i t
    using that le assms(1) by (auto simp: correlated_def Let_def planned_value_def in_set_enumerate_eq)
  then have "filter (\<lambda>x. tc_is_gap_through_stop (correlated b x) = Some True) (List.enumerate 0 ?ts) =
      filter (\<lambda>(i, t). t_exit_reason t = EXIT_REASON_STOP_LOSS \<and> ?vs ! i < - t_pnl_quote t) (List.enumerate 0 ?ts)"
    by (intro filter_cong) auto
  then have "length (gap_records (correlate_trades_with_plans b)) =
      length (filter (\<lambda>(t, v). t_exit_reason t = EXIT_REASON_STOP_LOSS \<and> v < - t_pnl_quote t) (zip ?ts ?vs))"
    by (simp add: gap_records_def correlate_trades_with_plans_def filter_map comp_def zip_enumerate [OF le] case_prod_unfold)
  then show ?thesis using assms(2) by (simp add: planned_run_def gap_stops_def)
qed

end
