(* ===== verification/Post_Mortem_Properties.thy ===== *)
theory Post_Mortem_Properties
  imports Plan_Facts Research_Properties
begin

text \<open>
  The properties of the post-mortem: it exists for every result and counts every trade once in
  each of its breakdowns, and what it says of planned risks is what the engine did.
\<close>

section \<open>Every trade counts once\<close>

lemma count_by_key:
  assumes "distinct ks"
  shows "sum_list (map (\<lambda>k. int (length (filter (\<lambda>x. key x = k) xs))) ks) = int (length (filter (\<lambda>x. key x \<in> set ks) xs))"
  using assms
proof (induction ks)
  case (Cons k ks)
  have "length (filter (\<lambda>x. key x = k) xs) + length (filter (\<lambda>x. key x \<in> set ks) xs) =
      length (filter (\<lambda>x. key x \<in> set (k # ks)) xs)" using Cons.prems by (induction xs) auto
  then show ?case using Cons by simp
qed simp

lemma three_signs: "length (filter (\<lambda>t. 0 < f t) xs) + length (filter (\<lambda>t. f t < 0) xs) + length (filter (\<lambda>t. f t = 0) xs) = length xs"
  for f :: "'a \<Rightarrow> 'b :: {linorder, zero}"
  by (induction xs) auto

lemma survives_ok: "label \<in> set EXCLUSION_LABELS \<Longrightarrow> \<exists>v. survives label (exclusion_results trades) = Inr v"
  by (auto simp: survives_def EXCLUSION_LABELS_def exclusion_results_def exclusion_of_def Let_def)

lemma breakout_check_ok: "\<exists>c. breakout_exclusion_check_of family (exclusion_results trades) = Inr c"
proof -
  have "\<exists>vs. map_res (\<lambda>label. survives label (exclusion_results trades)) ls = Inr vs" if "set ls \<subseteq> set EXCLUSION_LABELS" for ls
    using that by (induction ls) (auto dest: survives_ok [of _ trades])
  then show ?thesis by (auto simp: breakout_exclusion_check_of_def)
qed

lemma diagnose_ok: "\<exists>d. diagnose n k p (exclusion_results trades) x y = Inr d"
proof -
  obtain v w where vw: "survives ''excluding_best_trade'' (exclusion_results trades) = Inr v"
    "survives ''excluding_best_3_trades'' (exclusion_results trades) = Inr w"
    using survives_ok [of "''excluding_best_trade''" trades] survives_ok [of "''excluding_best_3_trades''" trades]
    by (auto simp: EXCLUSION_LABELS_def)
  consider "n < MIN_TOTAL_TRADES_FOR_EVIDENCE \<or> k < MIN_BLOCKS_WITH_A_TRADE"
    | "\<not> (n < MIN_TOTAL_TRADES_FOR_EVIDENCE \<or> k < MIN_BLOCKS_WITH_A_TRADE)" "p \<le> 0"
    | "\<not> (n < MIN_TOTAL_TRADES_FOR_EVIDENCE \<or> k < MIN_BLOCKS_WITH_A_TRADE)" "\<not> p \<le> 0" by blast
  then show ?thesis by cases (simp_all add: diagnose_def Let_def vw del: if_split)
qed

lemma pnl_stats_ok: "\<exists>x. pnl_stats_of trades records e = Inr x"
  using fmedian_ok [of "pnl_floats trades"] by (auto simp: pnl_stats_of_def Let_def pnl_floats_def)

lemma r_distribution_ok: "\<exists>x. realized_r_distribution_of records = Inr x"
  using fmedian_ok [of "known_r records"] list_min_ok [of "known_r records"] list_max_ok [of "known_r records"]
  by (auto simp: realized_r_distribution_of_def Let_def)

lemma post_mortem_ok:
  obtains pm where "build_candidate_post_mortem res = Inr pm"
    "cq_trade_counts pm = trade_counts_of (sum_list (map rrd_entries_approved (List.map_filter bl_risk_reward (evaluated_blocks res))))
      (concat (map bl_trades (evaluated_blocks res)))"
    "cq_exit_reason_breakdown pm = exit_reason_breakdown_of (concat (map bl_trades (evaluated_blocks res))) @
      [gap_through_stop_breakdown (concat (map correlate_trades_with_plans (evaluated_blocks res)))]"
    "cq_chronological_stability pm =
      chronological_stability_of (evaluated_blocks res) (concat (map correlate_trades_with_plans (evaluated_blocks res)))"
    "cq_risk_reward_diagnostics pm =
      risk_reward_policy_diagnostics (evaluated_blocks res) (concat (map correlate_trades_with_plans (evaluated_blocks res)))"
proof -
  let ?bs = "evaluated_blocks res"
  let ?ts = "concat (map bl_trades ?bs)" and ?rs = "concat (map correlate_trades_with_plans ?bs)"
  obtain a b c where ok: "pnl_stats_of ?ts ?rs e = Inr (a e)" "realized_r_distribution_of ?rs = Inr b"
    "breakout_exclusion_check_of (cb_family res) (exclusion_results ?ts) = Inr c" for e
    using pnl_stats_ok [of ?ts ?rs] r_distribution_ok [of ?rs] breakout_check_ok [of "cb_family res" ?ts] by metis
  obtain d where d: "diagnose n k p (exclusion_results ?ts) x y = Inr (d n k p x y)" for n k p x y
    using diagnose_ok [of _ _ _ ?ts] by metis
  show thesis by (rule that, simp add: build_candidate_post_mortem_def Let_def ok d) simp_all
qed


section \<open>Planned risks\<close>

abbreviation stopped_out :: "trade_record \<Rightarrow> bool" where
  "stopped_out r \<equiv> t_exit_reason (tc_trade r) = EXIT_REASON_STOP_LOSS"

lemma stopped_records: "int (length (filter stopped_out (correlate_trades_with_plans b))) = count_exits EXIT_REASON_STOP_LOSS (bl_trades b)"
proof -
  have "length (filter (\<lambda>t. t_exit_reason t = EXIT_REASON_STOP_LOSS) (map tc_trade (correlate_trades_with_plans b))) =
      length (filter stopped_out (correlate_trades_with_plans b))"
    unfolding filter_map length_map comp_def ..
  then show ?thesis by (simp add: count_exits_def)
qed

lemma judged_records: "length (filter (\<lambda>r. tc_is_gap_through_stop r = Some False) rs) + length (gap_records rs) =
    length (filter (\<lambda>r. tc_is_gap_through_stop r \<noteq> None) rs)"
proof (induction rs)
  case (Cons r rs)
  moreover have "tc_is_gap_through_stop r \<in> {None, Some True, Some False}" by (cases "tc_is_gap_through_stop r") auto
  ultimately show ?case by (auto simp: gap_records_def)
qed (simp add: gap_records_def)

lemma planned_blocks:
  assumes "\<And>b. b \<in> set bs \<Longrightarrow> \<exists>d. bl_risk_reward b = Some d \<and> planned_run (bl_trades b) (bl_open_position b \<noteq> None) d"
  shows "sum_list (map rrd_entries_approved (List.map_filter bl_risk_reward bs)) =
      int (length (concat (map bl_trades bs))) + int (length (filter (\<lambda>b. bl_open_position b \<noteq> None) bs)) \<and>
    sum_list (map rrd_stop_loss_exits (List.map_filter bl_risk_reward bs)) =
      int (length (filter stopped_out (concat (map correlate_trades_with_plans bs)))) \<and>
    sum_list (map rrd_gap_losses_exceeding_planned_risk (List.map_filter bl_risk_reward bs)) =
      int (length (gap_records (concat (map correlate_trades_with_plans bs))))"
  using assms
proof (induction bs)
  case (Cons b bs)
  obtain d where d: "bl_risk_reward b = Some d" "planned_run (bl_trades b) (bl_open_position b \<noteq> None) d"
    using Cons.prems [of b] by auto
  have 1: "rrd_entries_approved d = int (length (bl_trades b)) + (if bl_open_position b \<noteq> None then 1 else 0)"
    "rrd_stop_loss_exits d = int (length (filter stopped_out (correlate_trades_with_plans b)))"
    using d(2) by (auto simp: planned_run_def stopped_records)
  have 2: "gap_records (xs @ ys) = gap_records xs @ gap_records ys" for xs ys by (simp add: gap_records_def)
  have "List.map_filter bl_risk_reward (b # bs) = d # List.map_filter bl_risk_reward bs" using d(1) by (simp add: List.map_filter_def)
  then show ?case using Cons.IH Cons.prems 1 2 correlated_gaps [OF d] by simp
qed (simp add: List.map_filter_def gap_records_def)



end
