(* ===== verification/Freeze.thy ===== *)
theory Freeze
  imports Scorecard "HOL-Library.List_Lexorder" "HOL-Library.Char_ord"
begin

text \<open>
  Freezing a surviving candidate (\<open>research/freeze.py\<close>) under fingerprints of everything that
  decides its results (\<open>research/fingerprint.py\<close>), the checks before it may be tested on new
  data, and the frozen baseline (\<open>research/frozen_baseline.py\<close>). sha256 is a parameter with its
  own type of digests, applied to a text or to the canonical JSON text of a value; the sources
  of the modules and the commit of the checkout are parameters. A file of the directory of
  frozen records is the record it holds.
\<close>

datatype fjson = FJ_Null | FJ_Bool bool | FJ_Int int | FJ_Flt flt | FJ_Str string | FJ_Dec dec | FJ_Lit declit
  | FJ_Params payload | FJ_Obj "(string \<times> fjson) list" | FJ_Arr "fjson list"

record 'd code_base =
  kb_source :: "string \<Rightarrow> string"
  kb_hash_text :: "string \<Rightarrow> 'd"
  kb_hash_json :: "fjson \<Rightarrow> 'd"
  kb_commit_hash :: "string option"

section \<open>Fingerprints\<close>

definition EXECUTION_SEMANTICS_MODULES :: "string list" where
  "EXECUTION_SEMANTICS_MODULES =
    [''trading_agent.backtest.engine'', ''trading_agent.execution.backtest_broker'', ''trading_agent.portfolio.state'',
     ''trading_agent.risk.engine'', ''trading_agent.risk.limits'', ''trading_agent.sizing.position_sizer'',
     ''trading_agent.sizing.exchange_filters'', ''trading_agent.metrics.performance'', ''trading_agent.metrics.extended_report'',
     ''trading_agent.metrics.diagnostics'', ''trading_agent.execution.order_validator'']"

fun join_lines :: "string list \<Rightarrow> string" where
  "join_lines [] = []"
| "join_lines [x] = x"
| "join_lines (x # y # xs) = x @ [CHR 0x0A] @ join_lines (y # xs)"

definition module_text :: "'d code_base \<Rightarrow> string list \<Rightarrow> string" where
  "module_text k modules = join_lines (map (\<lambda>m. ''### '' @ m @ '' ###'' @ [CHR 0x0A] @ kb_source k m) (sort modules))"

definition module_source_fingerprint :: "'d code_base \<Rightarrow> string list \<Rightarrow> 'd" where
  "module_source_fingerprint k modules = kb_hash_text k (module_text k modules)"

definition strategy_module :: "candidate_model \<Rightarrow> string" where
  "strategy_module m = ''trading_agent.research.candidates.'' @
     (case m of Trend_Model _ \<Rightarrow> ''trend_regime'' | Breakout_Model _ \<Rightarrow> ''volatility_breakout'' | Reversion_Model _ \<Rightarrow> ''mean_reversion''
      | Gated_Model _ \<Rightarrow> ''breakout_regime_gate'' | Multi_Timeframe_Model \<Rightarrow> ''multitimeframe_breakout'')"

definition strategy_modules :: "candidate_model \<Rightarrow> string list" where
  "strategy_modules m =
     [strategy_module m, ''trading_agent.indicators.moving_averages'', ''trading_agent.indicators.volatility'', ''trading_agent.strategy.base'']"

definition compute_strategy_implementation_fingerprint :: "'d code_base \<Rightarrow> candidate_spec \<Rightarrow> 'd result" where
  "compute_strategy_implementation_fingerprint k candidate =
     bindr (cs_build candidate) (\<lambda>m. Inr (module_source_fingerprint k (strategy_modules m)))"

definition compute_execution_semantics_fingerprint :: "'d code_base \<Rightarrow> 'd" where
  "compute_execution_semantics_fingerprint k = module_source_fingerprint k EXECUTION_SEMANTICS_MODULES"

definition registry_payload :: "candidate_spec \<Rightarrow> fjson" where
  "registry_payload candidate =
     FJ_Obj [(''candidate_id'', FJ_Str (cs_candidate_id candidate)), (''family'', FJ_Str (cs_family candidate)), (''params'', FJ_Params (cs_params candidate))]"

definition compute_candidate_registry_fingerprint :: "'d code_base \<Rightarrow> candidate_spec \<Rightarrow> 'd" where
  "compute_candidate_registry_fingerprint k candidate = kb_hash_json k (registry_payload candidate)"

definition gap_policy_value :: "gap_policy \<Rightarrow> string" where
  "gap_policy_value g = (case g of Reject_Gaps \<Rightarrow> ''reject'' | Segment_Gaps \<Rightarrow> ''segment'')"

definition relevant_config_snapshot :: "app_config \<Rightarrow> fjson" where
  "relevant_config_snapshot config =
     (let f = cfg_fees config; z = cfg_sizing config; r = cfg_risk config
      in FJ_Obj
        [(''interval'', FJ_Str (cfg_interval (cfg_market config))),
         (''starting_equity'', FJ_Flt (cfg_starting_equity (cfg_backtest config))),
         (''gap_policy'', FJ_Str (gap_policy_value (cfg_gap_policy (cfg_backtest config)))),
         (''fees'', FJ_Obj [(''taker_fee_pct'', FJ_Flt (taker_fee_pct f)), (''maker_fee_pct'', FJ_Flt (maker_fee_pct f)), (''slippage_pct'', FJ_Flt (slippage_pct f))]),
         (''sizing'', FJ_Obj [(''max_allocation_pct'', FJ_Flt (max_allocation_pct z)), (''min_quote_buffer'', FJ_Flt (min_quote_buffer z))]),
         (''stop_loss'', FJ_Obj [(''stop_distance_pct'', FJ_Flt (stop_distance_pct (cfg_stop_loss config)))]),
         (''risk'', FJ_Obj
           [(''max_position_pct'', FJ_Flt (max_position_pct r)), (''max_risk_per_trade_pct'', FJ_Flt (max_risk_per_trade_pct r)),
            (''max_daily_loss_pct'', FJ_Flt (max_daily_loss_pct r)), (''max_drawdown_pct'', FJ_Flt (max_drawdown_pct r)),
            (''max_trades_per_day'', FJ_Int (max_trades_per_day r)), (''cooldown_bars_after_loss'', FJ_Int (cooldown_bars_after_loss r)),
            (''stale_data_max_age_seconds'', FJ_Int (stale_data_max_age_seconds r)), (''min_quote_balance'', FJ_Flt (min_quote_balance r)),
            (''max_consecutive_api_errors'', FJ_Int (max_consecutive_api_errors r))])])"

definition compute_config_fingerprint :: "'d code_base \<Rightarrow> app_config \<Rightarrow> 'd" where
  "compute_config_fingerprint k config = kb_hash_json k (relevant_config_snapshot config)"

definition symbol_and_exchange_filters_snapshot :: "symbol_filters \<Rightarrow> fjson" where
  "symbol_and_exchange_filters_snapshot f =
     FJ_Obj
       [(''symbol'', FJ_Str (f_symbol f)), (''tick_size'', FJ_Lit (tick_size f)), (''min_price'', FJ_Dec (min_price f)),
        (''max_price'', FJ_Dec (max_price f)), (''step_size'', FJ_Lit (step_size f)), (''min_qty'', FJ_Dec (min_qty f)),
        (''max_qty'', FJ_Dec (max_qty f)), (''min_notional'', FJ_Dec (min_notional f)),
        (''max_notional'', case max_notional f of None \<Rightarrow> FJ_Null | Some x \<Rightarrow> FJ_Dec x),
        (''apply_min_notional_to_market'', FJ_Bool (apply_min_notional_to_market f))]"

definition compute_exchange_filters_fingerprint :: "'d code_base \<Rightarrow> symbol_filters \<Rightarrow> 'd" where
  "compute_exchange_filters_fingerprint k filters = kb_hash_json k (symbol_and_exchange_filters_snapshot filters)"

text \<open>A criterion and the reason of a failed one are known by the name: the details quote the figures that follow.\<close>

definition status_value :: "scorecard_status \<Rightarrow> string" where
  "status_value s = (case s of REJECTED \<Rightarrow> ''REJECTED'' | RESEARCH_SURVIVOR \<Rightarrow> ''RESEARCH_SURVIVOR'' | INSUFFICIENT_EVIDENCE \<Rightarrow> ''INSUFFICIENT_EVIDENCE'')"

definition failed_reasons :: "scorecard_entry \<Rightarrow> string list" where
  "failed_reasons e = map fst (filter (\<lambda>c. \<not> snd c) (ce_criteria e))"

definition optional_json :: "flt option \<Rightarrow> fjson" where
  "optional_json x = (case x of None \<Rightarrow> FJ_Null | Some v \<Rightarrow> FJ_Flt v)"

definition scorecard_payload :: "scorecard_entry \<Rightarrow> fjson" where
  "scorecard_payload e =
     FJ_Obj
       [(''candidate_id'', FJ_Str (ce_candidate_id e)), (''status'', FJ_Str (status_value (ce_status e))),
        (''criteria'', FJ_Arr (map (\<lambda>(name, passed). FJ_Obj [(''name'', FJ_Str name), (''passed'', FJ_Bool passed)]) (ce_criteria e))),
        (''reasons'', FJ_Arr (map FJ_Str (failed_reasons e))), (''total_trade_count'', FJ_Int (ce_total_trade_count e)),
        (''blocks_with_a_trade'', FJ_Int (ce_blocks_with_a_trade e)), (''block_count'', FJ_Int (ce_block_count e)),
        (''median_block_realized_return_pct'', optional_json (ce_median_block_realized_return_pct e)),
        (''worst_block_realized_return_pct'', optional_json (ce_worst_block_realized_return_pct e)),
        (''aggregate_realized_pnl_quote'', FJ_Dec (ce_aggregate_realized_pnl_quote e)),
        (''positive_realized_pnl_block_fraction'', optional_json (ce_positive_realized_pnl_block_fraction e)),
        (''max_best_trade_contribution_pct'', optional_json (ce_max_best_trade_contribution_pct e)),
        (''worst_block_max_drawdown_pct'', optional_json (ce_worst_block_max_drawdown_pct e))]"

definition compute_scorecard_result_fingerprint :: "'d code_base \<Rightarrow> scorecard_entry \<Rightarrow> 'd" where
  "compute_scorecard_result_fingerprint k e = kb_hash_json k (scorecard_payload e)"

section \<open>Freezing\<close>

definition INITIAL_CANDIDATE_VERSION :: int where "INITIAL_CANDIDATE_VERSION = 1"

record 'd frozen_record =
  fz_candidate_id :: string
  fz_family :: string
  fz_params :: payload
  fz_frozen_at_ms :: int
  fz_freeze_boundary_ms :: int
  fz_scorecard_status :: string
  fz_scorecard_reasons :: "string list"
  fz_candidate_version :: int
  fz_research_cutoff_ms :: int
  fz_strategy_implementation_fingerprint :: 'd
  fz_execution_semantics_fingerprint :: 'd
  fz_candidate_registry_fingerprint :: 'd
  fz_config_fingerprint :: 'd
  fz_exchange_filters_fingerprint :: 'd
  fz_scorecard_result_fingerprint :: 'd
  fz_config_snapshot :: fjson
  fz_symbol :: string
  fz_exchange_filters_snapshot :: fjson
  fz_source_commit_hash :: "string option"

definition freeze_candidate ::
  "'d code_base \<Rightarrow> scorecard_entry \<Rightarrow> int \<Rightarrow> int \<Rightarrow> candidate_spec \<Rightarrow> app_config \<Rightarrow> symbol_filters \<Rightarrow> int \<Rightarrow> 'd frozen_record result" where
  "freeze_candidate k entry frozen_at_ms freeze_boundary_ms candidate config filters candidate_version =
     (if ce_status entry \<noteq> RESEARCH_SURVIVOR then Inl (ValueError ''not a survivor'')
      else if cs_candidate_id candidate \<noteq> ce_candidate_id entry then Inl (ValueError ''candidate of another entry'')
      else bindr (compute_strategy_implementation_fingerprint k candidate) (\<lambda>strategy_print.
        Inr
          \<lparr>fz_candidate_id = ce_candidate_id entry, fz_family = ce_family entry, fz_params = ce_params entry, fz_frozen_at_ms = frozen_at_ms,
           fz_freeze_boundary_ms = freeze_boundary_ms, fz_scorecard_status = status_value (ce_status entry),
           fz_scorecard_reasons = failed_reasons entry, fz_candidate_version = candidate_version, fz_research_cutoff_ms = RESEARCH_CUTOFF_MS,
           fz_strategy_implementation_fingerprint = strategy_print,
           fz_execution_semantics_fingerprint = compute_execution_semantics_fingerprint k,
           fz_candidate_registry_fingerprint = compute_candidate_registry_fingerprint k candidate,
           fz_config_fingerprint = compute_config_fingerprint k config,
           fz_exchange_filters_fingerprint = compute_exchange_filters_fingerprint k filters,
           fz_scorecard_result_fingerprint = compute_scorecard_result_fingerprint k entry,
           fz_config_snapshot = relevant_config_snapshot config, fz_symbol = f_symbol filters,
           fz_exchange_filters_snapshot = symbol_and_exchange_filters_snapshot filters, fz_source_commit_hash = kb_commit_hash k\<rparr>))"

definition new_candidate_version_migration_id :: "string \<Rightarrow> int \<Rightarrow> string result" where
  "new_candidate_version_migration_id candidate_id new_version =
     (if new_version \<le> INITIAL_CANDIDATE_VERSION then Inl (ValueError ''new_version'') else Inr (candidate_id @ ''__v'' @ int_str new_version))"

definition fingerprints_match :: "'d frozen_record \<Rightarrow> 'd frozen_record \<Rightarrow> bool" where
  "fingerprints_match r s \<longleftrightarrow>
     fz_strategy_implementation_fingerprint r = fz_strategy_implementation_fingerprint s \<and>
     fz_execution_semantics_fingerprint r = fz_execution_semantics_fingerprint s \<and>
     fz_candidate_registry_fingerprint r = fz_candidate_registry_fingerprint s \<and>
     fz_config_fingerprint r = fz_config_fingerprint s \<and>
     fz_exchange_filters_fingerprint r = fz_exchange_filters_fingerprint s"

type_synonym 'd frozen_directory = "string \<rightharpoonup> 'd frozen_record"

definition save_frozen_candidate :: "'d frozen_record \<Rightarrow> 'd frozen_directory \<Rightarrow> 'd frozen_directory result" where
  "save_frozen_candidate r files =
     (let path = fz_candidate_id r @ ''.json''
      in case files path of
           Some existing \<Rightarrow> if fingerprints_match r existing then Inr (files(path \<mapsto> r)) else Inl (ProjectError ''FrozenCandidateVersionConflict'')
         | None \<Rightarrow> Inr (files(path \<mapsto> r)))"

definition load_frozen_candidate :: "string \<Rightarrow> 'd frozen_directory \<Rightarrow> 'd frozen_record result" where
  "load_frozen_candidate path files = of_option (ProjectError ''FileNotFoundError'') (files path)"

section \<open>Before a frozen candidate is tested\<close>

definition validate_future_paper_test :: "'d frozen_record \<Rightarrow> candle list \<Rightarrow> unit result" where
  "validate_future_paper_test r candles =
     (if filter (\<lambda>c. open_time_ms c < fz_freeze_boundary_ms r) candles \<noteq> []
      then Inl (ProjectError ''FrozenCandidateForwardTestViolation'') else Inr ())"

definition assert_frozen_candidate_matches_current_implementation ::
  "'d code_base \<Rightarrow> 'd frozen_record \<Rightarrow> candidate_spec \<Rightarrow> app_config \<Rightarrow> symbol_filters \<Rightarrow> unit result" where
  "assert_frozen_candidate_matches_current_implementation k r candidate config filters =
     (if cs_candidate_id candidate \<noteq> fz_candidate_id r then Inl (ValueError ''candidate of another record'')
      else bindr (compute_strategy_implementation_fingerprint k candidate) (\<lambda>strategy_print.
        let mismatches =
          [strategy_print \<noteq> fz_strategy_implementation_fingerprint r,
           compute_execution_semantics_fingerprint k \<noteq> fz_execution_semantics_fingerprint r,
           compute_candidate_registry_fingerprint k candidate \<noteq> fz_candidate_registry_fingerprint r,
           compute_config_fingerprint k config \<noteq> fz_config_fingerprint r,
           compute_exchange_filters_fingerprint k filters \<noteq> fz_exchange_filters_fingerprint r]
        in if True \<in> set mismatches then Inl (ProjectError ''FrozenCandidateImplementationDriftError'') else Inr ()))"

section \<open>The frozen baseline\<close>

definition FROZEN_BASELINE_STRATEGY_CONFIG :: strategy_config where
  "FROZEN_BASELINE_STRATEGY_CONFIG = \<lparr>cfg_ema_fast = 20, cfg_ema_slow = 50\<rparr>"

definition reproduce_frozen_baseline_report ::
  "platform \<Rightarrow> candle list \<Rightarrow> app_config \<Rightarrow> symbol_filters \<Rightarrow> journal_db option \<Rightarrow> (backtest_result \<times> holdout_result) result" where
  "reproduce_frozen_baseline_report pl candles config filters j =
     (let frozen_config = config\<lparr>cfg_strategy := FROZEN_BASELINE_STRATEGY_CONFIG\<rparr>
      in bindr (run_backtest pl candles frozen_config filters j) (\<lambda>continuous.
         bindr (run_independent_holdout_evaluation pl candles frozen_config filters j) (\<lambda>holdout. Inr (continuous, holdout))))"

end
