(* ===== verification/Freeze_Properties.thy ===== *)
theory Freeze_Properties
  imports Freeze Research_Properties
begin

text \<open>
  A frozen candidate is tested again only with what it was frozen with: the check accepts
  exactly the same sources, declaration, configuration and filters, and no later save can
  change that. (A later save can move the freeze boundary.)
\<close>

text \<open>What the fingerprints stand for.\<close>

definition same_sources :: "'d code_base \<Rightarrow> 'd code_base \<Rightarrow> candidate_spec \<Rightarrow> candidate_spec \<Rightarrow> bool" where
  "same_sources k k' candidate candidate' \<longleftrightarrow>
     (\<exists>m m'. cs_build candidate = Inr m \<and> cs_build candidate' = Inr m' \<and>
        module_text k (strategy_modules m) = module_text k' (strategy_modules m')) \<and>
     module_text k EXECUTION_SEMANTICS_MODULES = module_text k' EXECUTION_SEMANTICS_MODULES"

definition same_declaration :: "candidate_spec \<Rightarrow> candidate_spec \<Rightarrow> bool" where
  "same_declaration c c' \<longleftrightarrow> cs_candidate_id c = cs_candidate_id c' \<and> cs_family c = cs_family c' \<and> cs_params c = cs_params c'"

definition same_simulation :: "app_config \<Rightarrow> app_config \<Rightarrow> bool" where
  "same_simulation c c' \<longleftrightarrow>
     cfg_interval (cfg_market c) = cfg_interval (cfg_market c') \<and> cfg_starting_equity (cfg_backtest c) = cfg_starting_equity (cfg_backtest c') \<and>
     cfg_gap_policy (cfg_backtest c) = cfg_gap_policy (cfg_backtest c') \<and> cfg_fees c = cfg_fees c' \<and> cfg_sizing c = cfg_sizing c' \<and>
     cfg_stop_loss c = cfg_stop_loss c' \<and> cfg_risk c = cfg_risk c'"

lemma snapshot_iff: "relevant_config_snapshot c = relevant_config_snapshot c' \<longleftrightarrow> same_simulation c c'"
proof -
  have g: "gap_policy_value g = gap_policy_value g' \<longleftrightarrow> g = g'" for g g' by (cases g; cases g') (simp_all add: gap_policy_value_def)
  have "cfg_fees c = cfg_fees c' \<longleftrightarrow> taker_fee_pct (cfg_fees c) = taker_fee_pct (cfg_fees c') \<and>
      maker_fee_pct (cfg_fees c) = maker_fee_pct (cfg_fees c') \<and> slippage_pct (cfg_fees c) = slippage_pct (cfg_fees c')"
    "cfg_sizing c = cfg_sizing c' \<longleftrightarrow> max_allocation_pct (cfg_sizing c) = max_allocation_pct (cfg_sizing c') \<and>
      min_quote_buffer (cfg_sizing c) = min_quote_buffer (cfg_sizing c')"
    "cfg_stop_loss c = cfg_stop_loss c' \<longleftrightarrow> stop_distance_pct (cfg_stop_loss c) = stop_distance_pct (cfg_stop_loss c')"
    by auto
  moreover have "r = r' \<longleftrightarrow> max_position_pct r = max_position_pct r' \<and> max_risk_per_trade_pct r = max_risk_per_trade_pct r' \<and>
      max_daily_loss_pct r = max_daily_loss_pct r' \<and> max_drawdown_pct r = max_drawdown_pct r' \<and> max_trades_per_day r = max_trades_per_day r' \<and>
      cooldown_bars_after_loss r = cooldown_bars_after_loss r' \<and> stale_data_max_age_seconds r = stale_data_max_age_seconds r' \<and>
      min_quote_balance r = min_quote_balance r' \<and> max_consecutive_api_errors r = max_consecutive_api_errors r'" for r r' :: risk_config by auto
  ultimately show ?thesis by (auto simp: relevant_config_snapshot_def Let_def same_simulation_def g)
qed

lemma filters_snapshot_iff: "symbol_and_exchange_filters_snapshot f = symbol_and_exchange_filters_snapshot f' \<longleftrightarrow> f = f'"
  by (cases f; cases f') (auto simp: symbol_and_exchange_filters_snapshot_def split: option.splits)

lemma registry_iff: "registry_payload c = registry_payload c' \<longleftrightarrow> same_declaration c c'"
  by (auto simp: registry_payload_def same_declaration_def)

text \<open>What is digested for a candidate: the digests compared are only assumed not to collide on these.\<close>

definition digested_texts :: "'d code_base \<Rightarrow> candidate_spec \<Rightarrow> string set" where
  "digested_texts k candidate =
     insert (module_text k EXECUTION_SEMANTICS_MODULES) {module_text k (strategy_modules m) |m. cs_build candidate = Inr m}"

definition digested_values :: "candidate_spec \<Rightarrow> app_config \<Rightarrow> symbol_filters \<Rightarrow> fjson set" where
  "digested_values candidate config filters =
     {registry_payload candidate, relevant_config_snapshot config, symbol_and_exchange_filters_snapshot filters}"

section \<open>The directory of frozen records\<close>

definition frozen_path :: "'d frozen_record \<Rightarrow> string" where
  "frozen_path r = fz_candidate_id r @ ''.json''"

text \<open>Attempts to save, where a refused one changes nothing.\<close>

definition attempt_save :: "'d frozen_directory \<Rightarrow> 'd frozen_record \<Rightarrow> 'd frozen_directory" where
  "attempt_save files r = (case save_frozen_candidate r files of Inl _ \<Rightarrow> files | Inr files' \<Rightarrow> files')"

lemma saves_keep_fingerprints:
  assumes "files p = Some r" "p = frozen_path r"
  shows "\<exists>r'. foldl attempt_save files rs p = Some r' \<and> fingerprints_match r' r \<and> fz_candidate_id r' = fz_candidate_id r"
  using assms
proof (induction rs arbitrary: files r)
  case (Cons s rs)
  have "\<exists>r'. attempt_save files s p = Some r' \<and> fingerprints_match r' r \<and> p = frozen_path r'"
    using Cons.prems by (auto simp: attempt_save_def save_frozen_candidate_def Let_def frozen_path_def fingerprints_match_def split: option.split)
  then obtain r' where r': "attempt_save files s p = Some r'" "fingerprints_match r' r" "p = frozen_path r'" by blast
  from Cons.IH [where files = "attempt_save files s" and r = r', OF r'(1,3)] obtain r'' where "foldl attempt_save (attempt_save files s) rs p = Some r''" "fingerprints_match r'' r'"
    "fz_candidate_id r'' = fz_candidate_id r'" by blast
  then show ?case using r'(2,3) Cons.prems(2) by (auto simp: fingerprints_match_def frozen_path_def)
qed (simp add: fingerprints_match_def)

lemma frozen_fields:
  assumes "freeze_candidate k entry t b candidate config filters v = Inr r"
  obtains m where "cs_build candidate = Inr m" "ce_status entry = RESEARCH_SURVIVOR" "cs_candidate_id candidate = fz_candidate_id r"
    "fz_freeze_boundary_ms r = b"
    "fz_strategy_implementation_fingerprint r = kb_hash_text k (module_text k (strategy_modules m))"
    "fz_execution_semantics_fingerprint r = kb_hash_text k (module_text k EXECUTION_SEMANTICS_MODULES)"
    "fz_candidate_registry_fingerprint r = kb_hash_json k (registry_payload candidate)"
    "fz_config_fingerprint r = kb_hash_json k (relevant_config_snapshot config)"
    "fz_exchange_filters_fingerprint r = kb_hash_json k (symbol_and_exchange_filters_snapshot filters)"
proof -
  obtain m where "cs_build candidate = Inr m" using assms by (auto simp: freeze_candidate_def compute_strategy_implementation_fingerprint_def split: if_splits)
  then show thesis using assms that [of m]
    by (auto simp: freeze_candidate_def compute_strategy_implementation_fingerprint_def compute_execution_semantics_fingerprint_def
        compute_candidate_registry_fingerprint_def compute_config_fingerprint_def compute_exchange_filters_fingerprint_def
        module_source_fingerprint_def split: if_splits)
qed

lemma accepted:
  assumes "fingerprints_match r' r" "fz_candidate_id r' = fz_candidate_id r"
  shows "assert_frozen_candidate_matches_current_implementation k r' candidate config filters = Inr () \<longleftrightarrow>
    cs_candidate_id candidate = fz_candidate_id r \<and>
    (\<exists>m. cs_build candidate = Inr m \<and> kb_hash_text k (module_text k (strategy_modules m)) = fz_strategy_implementation_fingerprint r) \<and>
    kb_hash_text k (module_text k EXECUTION_SEMANTICS_MODULES) = fz_execution_semantics_fingerprint r \<and>
    kb_hash_json k (registry_payload candidate) = fz_candidate_registry_fingerprint r \<and>
    kb_hash_json k (relevant_config_snapshot config) = fz_config_fingerprint r \<and>
    kb_hash_json k (symbol_and_exchange_filters_snapshot filters) = fz_exchange_filters_fingerprint r"
  using assms unfolding assert_frozen_candidate_matches_current_implementation_def compute_strategy_implementation_fingerprint_def
    compute_execution_semantics_fingerprint_def compute_candidate_registry_fingerprint_def compute_config_fingerprint_def
    compute_exchange_filters_fingerprint_def module_source_fingerprint_def fingerprints_match_def Let_def
  by (cases "cs_build candidate") (auto split: if_splits)


text \<open>
  A second freeze of the same candidate overwrites the record, with another boundary and
  another scorecard result, since these are not among the fingerprints that are compared.
\<close>

lemma refreezing_moves_the_boundary:
  assumes "freeze_candidate k entry t b candidate config filters v = Inr r" "freeze_candidate k entry' t' b' candidate config filters v' = Inr r'"
  shows "save_frozen_candidate r' (files(frozen_path r \<mapsto> r)) = Inr (files(frozen_path r \<mapsto> r')) \<and> fz_freeze_boundary_ms r' = b'"
proof -
  obtain m where f: "cs_build candidate = Inr m" "cs_candidate_id candidate = fz_candidate_id r"
    "fz_strategy_implementation_fingerprint r = kb_hash_text k (module_text k (strategy_modules m))"
    "fz_execution_semantics_fingerprint r = kb_hash_text k (module_text k EXECUTION_SEMANTICS_MODULES)"
    "fz_candidate_registry_fingerprint r = kb_hash_json k (registry_payload candidate)"
    "fz_config_fingerprint r = kb_hash_json k (relevant_config_snapshot config)"
    "fz_exchange_filters_fingerprint r = kb_hash_json k (symbol_and_exchange_filters_snapshot filters)"
    by (rule frozen_fields [OF assms(1)])
  obtain m' where g: "cs_build candidate = Inr m'" "cs_candidate_id candidate = fz_candidate_id r'" "fz_freeze_boundary_ms r' = b'"
    "fz_strategy_implementation_fingerprint r' = kb_hash_text k (module_text k (strategy_modules m'))"
    "fz_execution_semantics_fingerprint r' = kb_hash_text k (module_text k EXECUTION_SEMANTICS_MODULES)"
    "fz_candidate_registry_fingerprint r' = kb_hash_json k (registry_payload candidate)"
    "fz_config_fingerprint r' = kb_hash_json k (relevant_config_snapshot config)"
    "fz_exchange_filters_fingerprint r' = kb_hash_json k (symbol_and_exchange_filters_snapshot filters)"
    by (rule frozen_fields [OF assms(2)])
  show ?thesis using f g by (simp add: save_frozen_candidate_def Let_def frozen_path_def fingerprints_match_def)
qed

text \<open>A code base with digests that cannot collide: what is digested itself.\<close>

definition fz_code :: "(string + fjson) code_base" where
  "fz_code = \<lparr>kb_source = (\<lambda>m. ''source of '' @ m), kb_hash_text = Inl, kb_hash_json = Inr, kb_commit_hash = None\<rparr>"

definition fz_survivor :: scorecard_entry where
  "fz_survivor =
     \<lparr>ce_candidate_id = ''demo'', ce_family = ''volatility_normalized_breakout'', ce_params = [], ce_status = RESEARCH_SURVIVOR,
      ce_criteria = [(''stable_across_blocks'', True)], ce_total_trade_count = 40, ce_blocks_with_a_trade = 4, ce_block_count = 4,
      ce_median_block_realized_return_pct = Some (Flt 1), ce_worst_block_realized_return_pct = Some (Flt 1),
      ce_aggregate_realized_pnl_quote = Dec 40, ce_positive_realized_pnl_block_fraction = Some (Flt 1),
      ce_max_best_trade_contribution_pct = Some (Flt 40), ce_worst_block_max_drawdown_pct = Some (Flt 5),
      ce_median_block_marked_to_market_return_pct = Some (Flt 1), ce_median_excess_return_vs_buy_and_hold_pct = None\<rparr>"

lemma fz_frozen:
  obtains r where "freeze_candidate fz_code fz_survivor 5 7 (breakout_spec ''demo'' 2 2 (Flt (1 / 4))) ev_config bt_filters 1 = Inr r"
    "fz_freeze_boundary_ms r = 7"
  by (simp add: freeze_candidate_def compute_strategy_implementation_fingerprint_def fz_survivor_def breakout_spec_def mk_breakout_def less_flt_def)


end
