(* ===== verification/Round_Reports.thy ===== *)
theory Round_Reports
  imports Post_Mortem
begin

text \<open>
  The reports of the second and third research round (\<open>research/round2_report.py\<close>,
  \<open>research/round3_report.py\<close>): one candidate on its own blocks, or two on the blocks of one
  shared schedule. The counters that the strategy object holds after the evaluation are an
  argument: they are telemetry of its calls, which a run does not return. The notes and
  warnings are fixed texts.
\<close>

record round2_candidate_report =
  rp_candidate_id :: string
  rp_family :: string
  rp_params :: payload
  rp_round_number :: int
  rp_cumulative_candidate_configurations_examined :: int
  rp_scorecard :: scorecard_entry
  rp_post_mortem :: candidate_post_mortem
  rp_max_drawdown_pct :: "flt option"
  rp_regime_gate_signals_evaluated :: int
  rp_regime_gate_signals_blocked :: int
  rp_regime_gate_blocked_pct :: "flt option"
  rp_fragments :: "duration_fragment list"
  rp_leftovers :: "leftover_window list"

record round2_comparison =
  rc_d1 :: round2_candidate_report
  rc_b1_scorecard_on_identical_dates :: scorecard_entry
  rc_b1_post_mortem_on_identical_dates :: candidate_post_mortem

text \<open>\<open>max(..., default=None)\<close> over the blocks that ran.\<close>

definition evaluated_drawdowns :: "block_result list \<Rightarrow> flt list" where
  "evaluated_drawdowns blocks =
     map pr_max_drawdown_pct (List.map_filter bl_performance (filter (\<lambda>b. bk_skipped_reason (bl_block b) = None) blocks))"

definition round2_candidate_report_of ::
  "gate_counters \<Rightarrow> duration_result \<Rightarrow> scorecard_entry \<Rightarrow> candidate_post_mortem \<Rightarrow> round2_candidate_report" where
  "round2_candidate_report_of counters d1 entry pm =
     (let evaluated = gc_breakout_signals_evaluated counters; blocked = gc_breakout_signals_blocked_by_regime_gate counters
      in \<lparr>rp_candidate_id = cs_candidate_id d1_spec, rp_family = cs_family d1_spec, rp_params = cs_params d1_spec, rp_round_number = 2,
          rp_cumulative_candidate_configurations_examined = round2_cumulative_configurations, rp_scorecard = entry, rp_post_mortem = pm,
          rp_max_drawdown_pct = (case list_max (evaluated_drawdowns (cf_blocks d1)) of Inl _ \<Rightarrow> None | Inr x \<Rightarrow> Some x),
          rp_regime_gate_signals_evaluated = evaluated, rp_regime_gate_signals_blocked = blocked,
          rp_regime_gate_blocked_pct =
            (if 0 < evaluated then Some (Flt 100 * float_of_int blocked / float_of_int evaluated) else None),
          rp_fragments = cf_fragments d1, rp_leftovers = cf_leftovers d1\<rparr>)"

definition build_round2_report ::
  "platform \<Rightarrow> pandas \<Rightarrow> candle list \<Rightarrow> app_config \<Rightarrow> symbol_filters \<Rightarrow> journal_db option \<Rightarrow> gate_counters \<Rightarrow> round2_comparison result" where
  "build_round2_report pl pd pre_cutoff_candles config filters j counters =
     bindr (cs_build d1_spec) (\<lambda>d1_strategy.
     bindr (of_option (ProjectError ''StopIteration'') (List.find (\<lambda>s. cs_candidate_id s = ''breakout_B1'') CANDIDATE_REGISTRY)) (\<lambda>b1_spec.
     bindr (cs_build b1_spec) (\<lambda>b1_strategy.
     bindr (build_fixed_duration_schedule pre_cutoff_candles config
       (max (candidate_min_required d1_strategy) (candidate_min_required b1_strategy)) DEFAULT_BLOCK_DURATION_DAYS) (\<lambda>schedule.
     bindr (run_candidate_fixed_duration_evaluation pl pd d1_spec pre_cutoff_candles config filters j DEFAULT_BLOCK_DURATION_DAYS (Some schedule)) (\<lambda>(d1, j1).
     bindr (run_candidate_fixed_duration_evaluation pl pd b1_spec pre_cutoff_candles config filters j1 DEFAULT_BLOCK_DURATION_DAYS (Some schedule)) (\<lambda>(b1, j2).
     bindr (assert_identical_trading_windows (cf_blocks d1) (cf_blocks b1)) (\<lambda>_.
     bindr (score_candidate (as_blocked_chronological_result d1)) (\<lambda>d1_entry.
     bindr (build_candidate_post_mortem (as_blocked_chronological_result d1)) (\<lambda>d1_pm.
     bindr (score_candidate (as_blocked_chronological_result b1)) (\<lambda>b1_entry.
     bindr (build_candidate_post_mortem (as_blocked_chronological_result b1)) (\<lambda>b1_pm.
     Inr \<lparr>rc_d1 = round2_candidate_report_of counters d1 d1_entry d1_pm, rc_b1_scorecard_on_identical_dates = b1_entry,
          rc_b1_post_mortem_on_identical_dates = b1_pm\<rparr>)))))))))))"

record round3_candidate_report =
  rt_candidate_id :: string
  rt_family :: string
  rt_params :: payload
  rt_round_number :: int
  rt_cumulative_candidate_configurations_examined :: int
  rt_scorecard :: scorecard_entry
  rt_post_mortem :: candidate_post_mortem
  rt_counters :: mtf_counters
  rt_fragments :: "duration_fragment list"
  rt_leftovers :: "leftover_window list"

definition build_round3_report ::
  "platform \<Rightarrow> pandas \<Rightarrow> candle list \<Rightarrow> app_config \<Rightarrow> symbol_filters \<Rightarrow> journal_db option \<Rightarrow> mtf_counters \<Rightarrow> round3_candidate_report result" where
  "build_round3_report pl pd pre_cutoff_candles_1h config filters j counters =
     bindr (run_candidate_fixed_duration_evaluation pl pd e1_spec pre_cutoff_candles_1h config filters j DEFAULT_BLOCK_DURATION_DAYS None) (\<lambda>(e1, j1).
     bindr (score_candidate (as_blocked_chronological_result e1)) (\<lambda>entry.
     bindr (build_candidate_post_mortem (as_blocked_chronological_result e1)) (\<lambda>pm.
     Inr \<lparr>rt_candidate_id = cs_candidate_id e1_spec, rt_family = cs_family e1_spec, rt_params = cs_params e1_spec, rt_round_number = 3,
          rt_cumulative_candidate_configurations_examined = round3_cumulative_configurations, rt_scorecard = entry, rt_post_mortem = pm,
          rt_counters = counters, rt_fragments = cf_fragments e1, rt_leftovers = cf_leftovers e1\<rparr>)))"

end
