(* ===== verification/Spec2Isabelle.thy ===== *)
theory Spec2Isabelle
  imports Core_Properties Live_Properties Metric_Properties Data_Properties Candidate_Properties Candidate_Registry Shadow_Properties Outbox_Properties Research_Properties Post_Mortem_Properties Freeze_Properties Round_Reports
begin

text \<open>
  A verification library for the Binance testnet trading agent. The program (Python, under
  src/trading_agent of the repository) downloads hourly candles of a symbol, decides with a
  trend strategy, trades a spot position on the exchange's testnet under a risk engine,
  replays the same rules over stored candles (backtest, holdout, research evaluations), and
  runs a shadow mode that replays new candles every hour and reports by Telegram. The theories
  follow the code: one record per class, one definition per function with every early
  return and raise, effects as explicit state, errors as values.

  \<^bold>\<open>How the parts interact.\<close> A candle enters through the download, is validated and
  stored, and is cut into segments without gaps. The live runner takes the latest candles of
  the exchange, asks the strategy for a signal and the risk engine for a decision, sizes and
  validates an order, writes the pending row, submits, and applies the report of the exchange
  to the portfolio and the risk state; what a crash or a lost answer leaves behind is
  reconciled by client order id at the start of the next cycle. The backtest engine runs
  the same strategy, risk gates and sizing on a segment with a simulated broker; the reports,
  the holdout, the block evaluations, the scorecard, the post-mortem and the freeze of a
  candidate are built on its result. The shadow engine keeps a database of what a backtest
  over the candles seen so far yields, one transaction per cycle, and an outbox of messages.

  \<^bold>\<open>Foundations.\<close>
  Prelude: results as a sum of an error and a value, the state step with bind, atomic steps, the
  collections of simplification rules. Rounding, Numbers: decimals with 28 digits (round half
  even) and binary floats with 53 bits as rounded rationals, both instances of the locale
  rounding and of the class linorder; exponents are unbounded, so overflow, underflow and NaN
  do not occur in the model. Float_Math: the math functions used, sums (left to right, as in
  CPython 3.11), means and medians. Config: config/models.py. Sizing:
  sizing/exchange_filters.py and sizing/position_sizer.py; the locale down_rounding has the laws
  both roundings share. Market_Data: data/models.py, data/validation.py,
  data/gap_detection.py, data/boundary.py, data/ingestion.py, research/cutoff.py. Portfolio:
  portfolio/state.py. Risk: risk/limits.py, risk/engine.py, risk/kill_switch.py and
  execution/order_validator.py. Strategy: strategy/base.py, strategy/trend_baseline.py and
  indicators/; the locale causal says that an indicator of a prefix is a prefix.

  \<^bold>\<open>Live trading.\<close>
  Orders: execution/order_outcome.py, execution/fees.py, execution/reconciliation.py,
  execution/client_order_id.py, execution/symbol_parsing.py, execution/binance_signing.py.
  Execution_Store: persistence/ and journal/journal.py, tables as records and maps, with the
  seam that injects faults; the locale keyed_store is the contract of a table with a key and
  is interpreted on the risk state and the portfolio. Live_Runner: execution/live_runner.py and
  execution/startup_reconciliation.py, the whole cycle over an exchange whose answers are a
  parameter. Live_Invariants holds the contracts of the steps of a cycle as the locales calm,
  calm_risk, quiet, watch, firm and steady: an invariant that survives the elementary
  effects survives a cycle. Live_Safety and Live_Example interpret them on the traces of
  orders. Core_Properties and Live_Properties show: orders are
  justified, bounded by the holding and stored before they are sent; no id is sent a third
  time; the kill switch silences a cycle; reports are applied atomically and once.

  \<^bold>\<open>Backtest and reports.\<close>
  Risk_Reward: backtest/risk_reward.py. Backtest_Engine: the simulated broker
  (execution/backtest_broker.py) and the run of one segment in backtest/engine.py, with
  metrics/diagnostics.py. Performance, Extended_Report: metrics/. Backtest_Runs: the entry
  points of backtest/engine.py. Backtest_Invariants states as locales what a fill and a bar
  have to keep (fill_steps, bar_steps) and proves once that a run then keeps it; it is
  interpreted on well-formedness, the halt after a drawdown, the time window of the trades,
  growth of the history, and, in Plan_Facts, the alignment of trades and plans.
  Backtest_Properties, Report_Facts, Report_Properties, Metric_Properties: the books
  balance, nothing looks ahead, an open trade is protected, reports equal their
  mathematical definitions and always exist. Backtest_Example and Quiet_Runs evaluate concrete runs
  for the witnesses.

  \<^bold>\<open>Market history.\<close>
  Candle_Store: data/storage.py; the locale candle_series is the abstract store (one
  ordered series, where a later candle of the same open time wins) and is interpreted on the
  candle table. Historical_Fetch:
  data/historical_fetch.py; Gap_Recovery and Gap_Audit: data/gap_recovery.py. The paging loops
  run on fuel: range_fuel allows one more page than the range has candles, and
  range_download_ends shows that this is enough for an exchange that never answers a candle
  older than was asked for. Fetch_Facts
  and Audit_Facts prepare Data_Properties: fetched ranges are half open, recovered hours
  are sixty contiguous minutes, a recovery leaves exactly the series and the manifest.

  \<^bold>\<open>Candidates and research.\<close>
  Candidates, Multi_Timeframe, Candidate_Registry: research/candidates/ and the three
  registries; the locale grid has the laws of the four hour and weekly buckets (Bucket_Facts),
  pandas_series the documented behaviour of the pandas reductions, steady_start a
  market on which the witnesses evaluate a candidate (Steady_Market). Candidate_Properties: a
  setup is taken once and is the gated breakout. Research_Blocks:
  research/blocked_chronological_evaluation.py and research/fixed_duration_evaluation.py;
  Scorecard: research/scorecard.py and research/sensitivity_comparison.py; Post_Mortem:
  research/post_mortem.py; Round_Reports: the two round reports; Freeze: research/freeze.py,
  research/fingerprint.py, research/frozen_baseline.py. Block_Facts, Research_Properties,
  Post_Mortem_Properties, Freeze_Properties: blocks tile every segment, a schedule that was built
  can be applied, a verdict rests on realized results, the post-mortem agrees with the engine's
  own figures, a frozen candidate is tested with exactly what it was frozen with.

  \<^bold>\<open>Shadow mode.\<close>
  Shadow_Store: shadow/store.py; Shadow_Bootstrap: shadow/boundary.py, shadow/lock.py,
  shadow/bootstrap.py; Shadow_Notifications: shadow/report.py and shadow/notifications/;
  Shadow_Engine: shadow/engine.py. Bar_Rows, Shadow_Facts, Shadow_History and Shadow_Example
  prove that whatever cycles ran, failed or were repeated, the database holds the rows of one
  backtest (Shadow_Properties), and Shadow_Outbox that messages are kept and sent
  once, never hold the token, and none is left pending (Outbox_Properties). A refinement
  here assumes that the candles of the exchange are final when they are stored.

  \<^bold>\<open>Parameters.\<close> The exchange and its HTTP client, pandas, the C power function, the random
  generator, sha256, module sources and the git commit, Telegram and the clock are
  arguments of the definitions; a keyboard interrupt is a raise of any step that calls them. What
  a property needs of them is a hypothesis of its statement and its witness gives an
  instance. Digests are compared as values, and only where a property says so
  assumed not to collide on what is compared.

  \<^bold>\<open>Not modelled.\<close> Wording and number formats of messages and warnings (the figures are
  there); SQL text, file handling and schema creation; values of foreign types in a checkpoint's
  JSON (read as a type error); failing writes of checkpoint and record files (a frozen
  record's file is the record); config/loader.py, logging_setup.py, cli/main.py,
  execution/testnet_adapter.py, data/market_data_public.py, execution/testnet_health.py and
  execution/testnet_readonly.py, which are input and output around the modelled parts. The
  counters a strategy object gathers while it runs are an argument of the round reports,
  since a run does not return them. A bulk insert of candles has no rollback in the source;
  the model's insert changes nothing when it fails.

  \<^bold>\<open>Limits that modelling showed.\<close> Once the live runner's count of API errors has
  reached its maximum no later cycle trades again, since only an applied order resets it
  (api_error_shutdown_latches). The last candles of a segment that are only fetched together with the
  segment after a gap are not processed by the shadow engine. A schedule can be applied
  only when a candle is not longer than a block. A second freeze of the same candidate can
  move its boundary (refreezing_moves_the_boundary).
\<close>

end
